(* ===== verification/Prelude.thy ===== *)
theory Prelude
  imports Main "HOL-Library.Word" "HOL-Library.AList"
begin

text \<open>
  What every component shares: machine integers and bytes, the result type of the
  fallible Rust code (\<open>Ok\<close>, an \<open>anyhow\<close> error, or a panic), the two
  sequencing combinators (pure and state passing), the pieces of the Rust standard
  library that the source uses on strings and iterators, and the crate's own macro
  \<open>strip_0x_prefix!\<close> (src/lib.rs).
\<close>

section \<open>Machine integers, bytes and strings\<close>

type_synonym u8 = "8 word"
type_synonym u64 = "64 word"
type_synonym bytes = "u8 list"

text \<open>
  A Rust \<open>String\<close> is a sequence of UTF-8 bytes; its \<open>len\<close> counts bytes. A
  HOL \<^typ>\<open>char\<close> is one byte, so \<^typ>\<open>string\<close> is such a sequence.
\<close>

section \<open>Results\<close>

text \<open>
  \<open>Bail\<close> is \<open>bail!\<close>/\<open>anyhow!\<close> with its message, \<open>Context\<close> is
  \<open>with_context\<close>, \<open>Io\<close> an error of the operating system, and
  \<open>External\<close> an error value returned by a third-party crate (the tag names the
  call). A panic is not an error value: \<open>?\<close>, \<open>is_err\<close> and
  \<open>match\<close> on an error do not see it, it unwinds the whole request.
\<close>

datatype error =
    Bail string
  | Context string error
  | Io
  | External string

datatype 'a res = Ok 'a | Err error | Panic string

named_theorems res_simps \<open>unfolding sequenced results\<close>
named_theorems io_simps \<open>effects of the modelled operations on the world\<close>
named_theorems ext_laws \<open>consequences of the documented behaviour of third-party crates\<close>

text \<open>The \<open>?\<close> operator.\<close>

primrec rbind :: "'a res \<Rightarrow> ('a \<Rightarrow> 'b res) \<Rightarrow> 'b res" where
  "rbind (Ok x) f = f x"
| "rbind (Err e) f = Err e"
| "rbind (Panic s) f = Panic s"

text \<open>\<open>with_context\<close> and \<open>map_err\<close> of a result.\<close>

primrec with_context :: "string \<Rightarrow> 'a res \<Rightarrow> 'a res" where
  "with_context s (Ok x) = Ok x"
| "with_context s (Err e) = Err (Context s e)"
| "with_context s (Panic p) = Panic p"

text \<open>The value of an external call that reports failure as \<^term>\<open>None\<close>.\<close>

definition ok_or :: "string \<Rightarrow> 'a option \<Rightarrow> 'a res" where
  "ok_or tag v = (case v of None \<Rightarrow> Err (External tag) | Some x \<Rightarrow> Ok x)"

text \<open>\<open>unwrap\<close> and \<open>expect\<close>: the error becomes a panic.\<close>

primrec expect :: "string \<Rightarrow> 'a res \<Rightarrow> 'a res" where
  "expect s (Ok x) = Ok x"
| "expect s (Err e) = Panic s"
| "expect s (Panic p) = Panic p"

definition is_ok :: "'a res \<Rightarrow> bool" where
  "is_ok r \<longleftrightarrow> (\<exists>x. r = Ok x)"

lemma is_ok_simps [simp, code]:
  "is_ok (Ok x) = True" "is_ok (Err e) = False" "is_ok (Panic s) = False"
  by (simp_all add: is_ok_def)

lemma rbind_eq_Ok [res_simps]: "rbind m f = Ok y \<longleftrightarrow> (\<exists>x. m = Ok x \<and> f x = Ok y)"
  by (cases m) auto

lemma rbind_eq_Err [res_simps]:
  "rbind m f = Err e \<longleftrightarrow> m = Err e \<or> (\<exists>x. m = Ok x \<and> f x = Err e)"
  by (cases m) auto

lemma rbind_eq_Panic [res_simps]:
  "rbind m f = Panic s \<longleftrightarrow> m = Panic s \<or> (\<exists>x. m = Ok x \<and> f x = Panic s)"
  by (cases m) auto

lemma with_context_eq_Ok [simp]: "with_context s m = Ok x \<longleftrightarrow> m = Ok x"
  by (cases m) auto

lemma ok_or_simps [simp]:
  "ok_or t (Some x) = Ok x" "ok_or t None = Err (External t)"
  "ok_or t v = Ok x \<longleftrightarrow> v = Some x" "ok_or t v \<noteq> Panic s"
  by (simp_all add: ok_or_def split: option.split)

lemma expect_eq_Ok [simp]: "expect s m = Ok x \<longleftrightarrow> m = Ok x"
  by (cases m) auto

lemma rbind_assoc: "rbind (rbind m f) g = rbind m (\<lambda>x. rbind (f x) g)"
  by (cases m) auto

text \<open>A loop that collects results stops at the first failure, as \<open>collect\<close> does.\<close>

fun mapM :: "('a \<Rightarrow> 'b res) \<Rightarrow> 'a list \<Rightarrow> 'b list res" where
  "mapM f [] = Ok []"
| "mapM f (x # xs) = rbind (f x) (\<lambda>y. rbind (mapM f xs) (\<lambda>ys. Ok (y # ys)))"

lemma mapM_Ok_iff:
  "mapM f xs = Ok ys \<longleftrightarrow> length ys = length xs \<and> (\<forall>i < length xs. f (xs ! i) = Ok (ys ! i))"
proof (induction xs arbitrary: ys)
  case Nil
  then show ?case by auto
next
  case (Cons x xs)
  show ?case
    by (cases ys) (auto simp: res_simps Cons.IH nth_Cons less_Suc_eq_0_disj split: nat.splits)
qed

lemma mapM_Ok_map: "(\<And>x. x \<in> set xs \<Longrightarrow> f x = Ok (g x)) \<Longrightarrow> mapM f xs = Ok (map g xs)"
  by (induction xs) auto

section \<open>Sequencing of operations that change a state\<close>

text \<open>
  An operation on a state \<^typ>\<open>'w\<close> is a function to a result and the state it leaves.
  The state is kept also when the operation fails: what was written before an early
  return stays written.
\<close>

type_synonym ('w, 'a) eff = "'w \<Rightarrow> 'a res \<times> 'w"

definition ret :: "'a \<Rightarrow> ('w, 'a) eff" where
  "ret x w = (Ok x, w)"

definition lift :: "'a res \<Rightarrow> ('w, 'a) eff" where
  "lift r w = (r, w)"

definition ebind :: "('w, 'a) eff \<Rightarrow> ('a \<Rightarrow> ('w, 'b) eff) \<Rightarrow> ('w, 'b) eff" where
  "ebind m f w = (case m w of
       (Ok x, w') \<Rightarrow> f x w'
     | (Err e, w') \<Rightarrow> (Err e, w')
     | (Panic s, w') \<Rightarrow> (Panic s, w'))"

definition in_context :: "string \<Rightarrow> ('w, 'a) eff \<Rightarrow> ('w, 'a) eff" where
  "in_context s m w = (case m w of (r, w') \<Rightarrow> (with_context s r, w'))"

text \<open>\<open>unwrap\<close> and \<open>expect\<close> of an operation; an operation on one part of a pair of states.\<close>

definition expecting :: "string \<Rightarrow> ('w, 'a) eff \<Rightarrow> ('w, 'a) eff" where
  "expecting msg m w = (case m w of (r, w') \<Rightarrow> (expect msg r, w'))"

definition on_first :: "('v, 'a) eff \<Rightarrow> ('v \<times> 'w, 'a) eff" where
  "on_first m s = (case m (fst s) of (r, v) \<Rightarrow> (r, (v, snd s)))"

definition on_second :: "('w, 'a) eff \<Rightarrow> ('v \<times> 'w, 'a) eff" where
  "on_second m s = (case m (snd s) of (r, w) \<Rightarrow> (r, (fst s, w)))"

lemma on_state [simp]:
  "on_first m (v, w) = (case m v of (r, v') \<Rightarrow> (r, (v', w)))"
  "on_second k (v, w) = (case k w of (r, w') \<Rightarrow> (r, (v, w')))"
  by (simp_all add: on_first_def on_second_def)

lemma ret_apply [simp]: "ret x w = (Ok x, w)"
  by (simp add: ret_def)

lemma lift_apply [simp]: "lift r w = (r, w)"
  by (simp add: lift_def)

lemma ebind_Ok [simp]: "m w = (Ok x, w') \<Longrightarrow> ebind m f w = f x w'"
  by (simp add: ebind_def)

lemma ebind_Err [simp]: "m w = (Err e, w') \<Longrightarrow> ebind m f w = (Err e, w')"
  by (simp add: ebind_def)

lemma ebind_Panic [simp]: "m w = (Panic s, w') \<Longrightarrow> ebind m f w = (Panic s, w')"
  by (simp add: ebind_def)

lemma ebind_pure [simp]:
  "ebind (ret x) f = f x" "ebind (lift (Ok x)) f = f x"
  by (simp_all add: ebind_def fun_eq_iff)

lemma ebind_eq_Ok [res_simps]:
  "ebind m f w = (Ok y, w'') \<longleftrightarrow> (\<exists>x w'. m w = (Ok x, w') \<and> f x w' = (Ok y, w''))"
  by (auto simp: ebind_def split: prod.splits res.splits)

lemma in_context_eq_Ok [res_simps]: "in_context s m w = (Ok y, w') \<longleftrightarrow> m w = (Ok y, w')"
  by (auto simp: in_context_def split: prod.splits)

lemma snd_in_context [simp]: "snd (in_context s m w) = snd (m w)"
  by (simp add: in_context_def split: prod.split)

lemma in_context_panic [simp]: "fst (in_context s m w) = Panic p \<longleftrightarrow> fst (m w) = Panic p"
  by (cases "fst (m w)") (auto simp: in_context_def split: prod.split)

lemma ebind_no_panic:
  assumes "fst (m w) \<noteq> Panic p" and "\<And>x w'. m w = (Ok x, w') \<Longrightarrow> fst (f x w') \<noteq> Panic p"
  shows "fst (ebind m f w) \<noteq> Panic p"
proof (cases "m w")
  case (Pair r w')
  with assms show ?thesis by (cases r) (auto simp: ebind_def)
qed

text \<open>
  An invariant of the state that the first operation keeps and every continuation keeps
  is kept by the sequence, whatever fails on the way.
\<close>

lemma ebind_keeps:
  assumes "P (snd (m w))"
    and "\<And>x w'. m w = (Ok x, w') \<Longrightarrow> P w' \<Longrightarrow> P (snd (f x w'))"
  shows "P (snd (ebind m f w))"
proof (cases "m w")
  case (Pair r w')
  with assms show ?thesis by (cases r) (auto simp: ebind_def)
qed

section \<open>Standard library: iterators and strings\<close>

text \<open>
  \<open>Iterator::max_by_key\<close>: \<open>None\<close> on an empty iterator, otherwise an element
  with the greatest key, the last of them when several have it.
\<close>

fun max_by_key :: "('a \<Rightarrow> 'k::linorder) \<Rightarrow> 'a list \<Rightarrow> 'a option" where
  "max_by_key k [] = None"
| "max_by_key k (x # xs) =
     (case max_by_key k xs of
        None \<Rightarrow> Some x
      | Some y \<Rightarrow> if k x \<le> k y then Some y else Some x)"

lemma max_by_key_None [simp]: "max_by_key k xs = None \<longleftrightarrow> xs = []"
  by (cases xs) (auto split: option.splits if_splits)

lemma max_by_key_in: "max_by_key k xs = Some y \<Longrightarrow> y \<in> set xs"
  by (induction xs arbitrary: y) (auto split: option.splits if_splits)

lemma max_by_key_max:
  "max_by_key k xs = Some y \<Longrightarrow> x \<in> set xs \<Longrightarrow> k x \<le> k y"
proof (induction xs arbitrary: y)
  case Nil
  then show ?case by simp
next
  case (Cons a xs)
  then show ?case
    by (cases "max_by_key k xs") (auto split: if_splits intro: order_trans)
qed

text \<open>The key of the greatest element, with the default the source gives to an empty list.\<close>

definition latest :: "('a \<Rightarrow> u64) \<Rightarrow> 'a list \<Rightarrow> u64" where
  "latest k xs = (case max_by_key k xs of None \<Rightarrow> 0 | Some s \<Rightarrow> k s)"

lemma latest_Nil [simp]: "latest k [] = 0"
  by (simp add: latest_def)

lemma latest_ge: "x \<in> set xs \<Longrightarrow> k x \<le> latest k xs"
  by (auto simp: latest_def dest: max_by_key_max split: option.splits)

lemma latest_le: "(\<And>x. x \<in> set xs \<Longrightarrow> k x \<le> b) \<Longrightarrow> latest k xs \<le> b"
  by (auto simp: latest_def dest: max_by_key_in split: option.splits)

lemma latest_eq: "x \<in> set xs \<Longrightarrow> (\<And>y. y \<in> set xs \<Longrightarrow> k y \<le> k x) \<Longrightarrow> latest k xs = k x"
  by (intro order.antisym latest_le latest_ge)

text \<open>
  \<open>strip_0x_prefix!\<close>: one leading \<open>0x\<close> is removed, if there is one.
\<close>

definition strip_0x_prefix :: "string \<Rightarrow> string" where
  "strip_0x_prefix s = (if take 2 s = ''0x'' then drop 2 s else s)"

lemma strip_0x_prefix_add [simp]: "strip_0x_prefix (''0x'' @ s) = s"
  by (simp add: strip_0x_prefix_def)

lemma strip_0x_prefix_Cons [simp]: "strip_0x_prefix (CHR ''0'' # CHR ''x'' # s) = s"
  by (simp add: strip_0x_prefix_def)

lemma strip_0x_prefix_cases: "s = strip_0x_prefix s \<or> s = ''0x'' @ strip_0x_prefix s"
  by (metis append_take_drop_id strip_0x_prefix_def)

definition lower_hex :: "char set" where
  "lower_hex = set ''0123456789abcdef''"

lemma strip_lower_hex: "set s \<subseteq> lower_hex \<Longrightarrow> strip_0x_prefix s = s"
proof (rule ccontr)
  assume s: "set s \<subseteq> lower_hex" and "strip_0x_prefix s \<noteq> s"
  then have "s = ''0x'' @ strip_0x_prefix s"
    using strip_0x_prefix_cases[of s] by simp
  then have "CHR ''x'' \<in> set s"
    by (metis Un_iff list.set_intros(1,2) set_append)
  with s show False by (auto simp: lower_hex_def)
qed

end
