(* ===== verification/Std_World.thy ===== *)
theory Std_World
  imports Prelude
begin

text \<open>
  The world the program runs in, as far as the Rust standard library shows it:
  \<open>std::path\<close> (paths as lists of components), \<open>std::fs\<close> (files, directories,
  and the operations \<open>create_dir_all\<close>, \<open>write\<close>, \<open>read\<close>,
  \<open>remove_file\<close>, \<open>exists\<close>, \<open>read_dir\<close>), \<open>std::env\<close>, and
  \<open>String::from_utf8\<close>. Every file operation can fail: the world holds a schedule of
  faults, one per operation, so that a theorem over all worlds is a theorem over all
  patterns of I/O failures, torn writes included.
\<close>

section \<open>Paths\<close>

type_synonym path = "string list"

fun split_on :: "char \<Rightarrow> string \<Rightarrow> string list" where
  "split_on c [] = [[]]"
| "split_on c (x # xs) =
     (if x = c then [] # split_on c xs
      else case split_on c xs of
             [] \<Rightarrow> [[x]]
           | w # ws \<Rightarrow> (x # w) # ws)"

text \<open>
  \<open>Path::components\<close>: empty components and \<open>.\<close> vanish, except a leading
  \<open>.\<close>; a leading \<open>/\<close> is the root component; \<open>..\<close> stays.
\<close>

definition normal_comps :: "string list \<Rightarrow> path" where
  "normal_comps cs = filter (\<lambda>c. c \<noteq> [] \<and> c \<noteq> ''.'') cs"

definition is_absolute :: "string \<Rightarrow> bool" where
  "is_absolute s \<longleftrightarrow> take 1 s = ''/''"

definition path_of :: "string \<Rightarrow> path" where
  "path_of s =
     (if is_absolute s then ''/'' # normal_comps (split_on CHR ''/'' s)
      else case split_on CHR ''/'' s of
             c # cs \<Rightarrow> (if c = ''.'' then [c] else []) @ normal_comps (c # cs)
           | [] \<Rightarrow> [])"

text \<open>
  \<open>PathBuf::push\<close>: an absolute path replaces what was there. Collecting an iterator
  of strings into a \<open>PathBuf\<close> pushes them one by one onto the empty path.
\<close>

definition path_push :: "path \<Rightarrow> string \<Rightarrow> path" where
  "path_push p s =
     (if is_absolute s \<or> p = [] then path_of s
      else p @ normal_comps (split_on CHR ''/'' s))"

definition path_collect :: "string list \<Rightarrow> path" where
  "path_collect cs = foldl path_push [] cs"

text \<open>\<open>Path::parent\<close>.\<close>

definition parent :: "path \<Rightarrow> path option" where
  "parent p = (if p = [] \<or> p = [''/''] then None else Some (butlast p))"

text \<open>A name that is one plain component: no separator, not empty, not a dot.\<close>

definition plain :: "string \<Rightarrow> bool" where
  "plain s \<longleftrightarrow> CHR ''/'' \<notin> set s \<and> s \<noteq> [] \<and> s \<noteq> ''.''"

lemma split_on_plain: "c \<notin> set s \<Longrightarrow> split_on c s = [s]"
  by (induction s) auto

lemma path_push_plain [simp]: "p \<noteq> [] \<Longrightarrow> plain s \<Longrightarrow> path_push p s = p @ [s]"
  by (cases s) (auto simp: path_push_def plain_def is_absolute_def split_on_plain
      normal_comps_def)

lemma path_push_cases:
  assumes "p \<noteq> []"
  shows "(\<exists>q. path_push p s = ''/'' # q) \<or> (\<exists>q. path_push p s = p @ q)"
  using assms by (auto simp: path_push_def path_of_def)

lemma parent_snoc [simp]: "p \<noteq> [] \<Longrightarrow> parent (p @ [s]) = Some p"
  by (cases p) (auto simp: parent_def)

lemma plain_lower_hex: "set s \<subseteq> lower_hex \<Longrightarrow> s \<noteq> [] \<Longrightarrow> plain s"
  by (auto simp: plain_def lower_hex_def)

section \<open>The world\<close>

text \<open>
  A fault makes the operation that meets it fail: \<open>Unavailable\<close> without any effect,
  \<open>Torn n\<close> after \<open>n\<close> bytes of a \<open>write\<close> have reached the file
  (\<open>fs::write\<close> truncates the file first). Operations other than \<open>write\<close> take
  every fault as \<open>Unavailable\<close>. The schedule gives the faults of the operations to
  come; when it is used up, nothing fails any more. \<open>rng\<close> is the state of
  \<open>rand::thread_rng\<close>.
\<close>

datatype fault = NoFault | Unavailable | Torn nat

record world =
  files :: "(path \<times> string) list"
  dirs :: "path list"
  faults :: "fault list"
  rng :: nat
  env :: "(string \<times> string) list"

definition next_fault :: "world \<Rightarrow> fault \<times> world" where
  "next_fault w = (case faults w of [] \<Rightarrow> (NoFault, w) | f # fs \<Rightarrow> (f, w\<lparr>faults := fs\<rparr>))"

definition lookup :: "world \<Rightarrow> path \<Rightarrow> string option" where
  "lookup w p = map_of (files w) p"

definition put :: "path \<Rightarrow> string \<Rightarrow> world \<Rightarrow> world" where
  "put p s w = w\<lparr>files := AList.update p s (files w)\<rparr>"

definition is_dir :: "world \<Rightarrow> path \<Rightarrow> bool" where
  "is_dir w p \<longleftrightarrow> p = [] \<or> p \<in> set (dirs w)"

text \<open>All non-empty prefixes of a path, the directories \<open>create_dir_all\<close> makes.\<close>

definition prefixes_of :: "path \<Rightarrow> path list" where
  "prefixes_of p = map (\<lambda>n. take n p) [1..<Suc (length p)]"

definition create_dir_all :: "path \<Rightarrow> (world, unit) eff" where
  "create_dir_all p w =
     (case next_fault w of
        (NoFault, w') \<Rightarrow>
          if \<exists>q \<in> set (prefixes_of p). lookup w' q \<noteq> None then (Err Io, w')
          else (Ok (), w'\<lparr>dirs := remdups (prefixes_of p @ dirs w')\<rparr>)
      | (_, w') \<Rightarrow> (Err Io, w'))"

text \<open>A file can be written where its parent is a directory and it is none itself.\<close>

definition writable :: "world \<Rightarrow> path \<Rightarrow> bool" where
  "writable w p \<longleftrightarrow> \<not> is_dir w p \<and> (case parent p of None \<Rightarrow> False | Some q \<Rightarrow> is_dir w q)"

definition fs_write :: "path \<Rightarrow> string \<Rightarrow> (world, unit) eff" where
  "fs_write p s w =
     (case next_fault w of
        (NoFault, w') \<Rightarrow> if writable w' p then (Ok (), put p s w') else (Err Io, w')
      | (Unavailable, w') \<Rightarrow> (Err Io, w')
      | (Torn n, w') \<Rightarrow>
          if writable w' p then (Err Io, put p (take n s) w') else (Err Io, w'))"

definition fs_read :: "path \<Rightarrow> (world, string) eff" where
  "fs_read p w =
     (case next_fault w of
        (NoFault, w') \<Rightarrow> (case lookup w' p of Some s \<Rightarrow> (Ok s, w') | None \<Rightarrow> (Err Io, w'))
      | (_, w') \<Rightarrow> (Err Io, w'))"

definition remove_file :: "path \<Rightarrow> (world, unit) eff" where
  "remove_file p w =
     (case next_fault w of
        (NoFault, w') \<Rightarrow>
          (case lookup w' p of
             Some s \<Rightarrow> (Ok (), w'\<lparr>files := AList.delete p (files w')\<rparr>)
           | None \<Rightarrow> (Err Io, w'))
      | (_, w') \<Rightarrow> (Err Io, w'))"

text \<open>\<open>Path::exists\<close> answers false where the file system reports an error.\<close>

definition exists_path :: "path \<Rightarrow> (world, bool) eff" where
  "exists_path p w =
     (case next_fault w of
        (NoFault, w') \<Rightarrow> (Ok (lookup w' p \<noteq> None \<or> is_dir w' p), w')
      | (_, w') \<Rightarrow> (Ok False, w'))"

text \<open>
  \<open>read_dir\<close> gives the entries of a directory, files and directories. Their order is
  up to the operating system; nothing below depends on it.
\<close>

definition entry_of :: "path \<Rightarrow> path \<Rightarrow> string list" where
  "entry_of d p = (if p \<noteq> [] \<and> butlast p = d then [last p] else [])"

definition dir_entries :: "world \<Rightarrow> path \<Rightarrow> string list" where
  "dir_entries w d = remdups (concat (map (entry_of d) (map fst (files w) @ dirs w)))"

definition read_dir :: "path \<Rightarrow> (world, string list) eff" where
  "read_dir d w =
     (case next_fault w of
        (NoFault, w') \<Rightarrow> if is_dir w' d then (Ok (dir_entries w' d), w') else (Err Io, w')
      | (_, w') \<Rightarrow> (Err Io, w'))"

text \<open>
  \<open>std::env::var\<close>, and a draw from \<open>rand::thread_rng()\<close>. \<open>env\<close> holds the
  variables whose value is valid Unicode; any other is an error like one that is not set.
\<close>

definition env_var :: "string \<Rightarrow> (world, string) eff" where
  "env_var k w = (case map_of (env w) k of Some v \<Rightarrow> (Ok v, w) | None \<Rightarrow> (Err (External ''VarError''), w))"

definition draw :: "(world, nat) eff" where
  "draw w = (Ok (rng w), w\<lparr>rng := Suc (rng w)\<rparr>)"

section \<open>UTF-8\<close>

text \<open>
  The byte sequences \<open>String::from_utf8\<close> accepts: no overlong forms, no surrogates,
  nothing above U+10FFFF.
\<close>

fun utf8_valid :: "nat list \<Rightarrow> bool" where
  "utf8_valid [] = True"
| "utf8_valid (a # r) =
     (if a < 128 then utf8_valid r
      else case r of
        [] \<Rightarrow> False
      | b # r2 \<Rightarrow>
          if 194 \<le> a \<and> a \<le> 223 then b div 64 = 2 \<and> utf8_valid r2
          else case r2 of
            [] \<Rightarrow> False
          | c # r3 \<Rightarrow>
              if 224 \<le> a \<and> a \<le> 239 then
                b div 64 = 2 \<and> c div 64 = 2 \<and> (a = 224 \<longrightarrow> 160 \<le> b) \<and> (a = 237 \<longrightarrow> b < 160)
                \<and> utf8_valid r3
              else case r3 of
                [] \<Rightarrow> False
              | d # r4 \<Rightarrow>
                  240 \<le> a \<and> a \<le> 244 \<and> b div 64 = 2 \<and> c div 64 = 2 \<and> d div 64 = 2
                  \<and> (a = 240 \<longrightarrow> 144 \<le> b) \<and> (a = 244 \<longrightarrow> b < 144) \<and> utf8_valid r4)"

definition is_utf8 :: "string \<Rightarrow> bool" where
  "is_utf8 s \<longleftrightarrow> utf8_valid (map of_char s)"

lemma utf8_ascii: "\<forall>a \<in> set xs. a < 128 \<Longrightarrow> utf8_valid xs"
  by (induction xs) auto

lemma is_utf8_lower_hex: "set s \<subseteq> lower_hex \<Longrightarrow> is_utf8 s"
  unfolding is_utf8_def by (rule utf8_ascii) (auto simp: lower_hex_def)

text \<open>\<open>fs::read_to_string\<close>.\<close>

definition read_to_string :: "path \<Rightarrow> (world, string) eff" where
  "read_to_string p = ebind (fs_read p) (\<lambda>s. lift (if is_utf8 s then Ok s else Err Io))"

section \<open>Effects of the operations\<close>

lemma next_fault_frame:
  assumes "next_fault w = (f, w')"
  shows "files w' = files w" "dirs w' = dirs w" "rng w' = rng w" "env w' = env w"
    "lookup w' = lookup w" "is_dir w' = is_dir w" "writable w' = writable w"
    "dir_entries w' = dir_entries w"
  using assms
  by (auto simp: next_fault_def lookup_def is_dir_def writable_def dir_entries_def fun_eq_iff
      split: list.splits option.splits)

lemma lookup_put [simp]: "lookup (put p s w) = (lookup w)(p \<mapsto> s)"
  by (simp add: lookup_def put_def update_conv fun_eq_iff)

lemma is_dir_put [simp]: "is_dir (put p s w) = is_dir w"
  by (simp add: is_dir_def put_def fun_eq_iff)

lemma env_put [simp]: "env (put p s w) = env w" "rng (put p s w) = rng w"
  "faults (put p s w) = faults w"
  by (simp_all add: put_def)

lemma fs_write_Ok:
  "fs_write p s w = (Ok u, w') \<Longrightarrow> lookup w' = (lookup w)(p \<mapsto> s)"
  by (auto simp: fs_write_def next_fault_frame split: prod.splits fault.splits if_splits)

lemma fs_write_any:
  assumes "fs_write p s w = (r, w')"
  shows "lookup w' = lookup w \<or> (\<exists>n. lookup w' = (lookup w)(p \<mapsto> take n s))"
proof (cases r)
  case (Ok u)
  with assms have "lookup w' = (lookup w)(p \<mapsto> take (length s) s)"
    by (auto dest: fs_write_Ok)
  then show ?thesis by blast
qed (use assms in \<open>auto simp: fs_write_def next_fault_frame
       split: prod.splits fault.splits if_splits\<close>)

lemma fs_write_is_dir [io_simps]: "is_dir (snd (fs_write p s w)) = is_dir w"
  by (auto simp: fs_write_def next_fault_frame split: prod.splits fault.splits if_splits)

lemma fs_write_no_panic [simp]: "fst (fs_write p s w) \<noteq> Panic m"
  by (auto simp: fs_write_def split: prod.splits fault.splits if_splits)

lemma fs_read_lookup [io_simps]: "lookup (snd (fs_read p w)) = lookup w"
  by (auto simp: fs_read_def next_fault_frame split: prod.splits fault.splits option.splits)

lemma fs_read_is_dir [io_simps]: "is_dir (snd (fs_read p w)) = is_dir w"
  by (auto simp: fs_read_def next_fault_frame split: prod.splits fault.splits option.splits)

lemma fs_read_Ok: "fs_read p w = (Ok s, w') \<Longrightarrow> lookup w p = Some s \<and> lookup w' = lookup w"
  by (auto simp: fs_read_def next_fault_frame split: prod.splits fault.splits option.splits)

lemma fs_read_no_panic [simp]: "fst (fs_read p w) \<noteq> Panic m"
  by (auto simp: fs_read_def split: prod.splits fault.splits option.splits)

lemma create_dir_all_lookup [io_simps]: "lookup (snd (create_dir_all p w)) = lookup w"
  by (auto simp: create_dir_all_def next_fault_frame lookup_def split: prod.splits fault.splits)

lemma create_dir_all_no_panic [simp]: "fst (create_dir_all p w) \<noteq> Panic m"
  by (auto simp: create_dir_all_def split: prod.splits fault.splits)

lemma remove_file_Ok:
  "remove_file p w = (Ok u, w') \<Longrightarrow> lookup w p \<noteq> None \<and> lookup w' = (lookup w)(p := None)"
  by (auto simp: remove_file_def next_fault_frame lookup_def delete_conv fun_eq_iff
      split: prod.splits fault.splits option.splits)

lemma remove_file_other:
  "fst (remove_file p w) \<noteq> Ok () \<Longrightarrow> lookup (snd (remove_file p w)) = lookup w"
  by (auto simp: remove_file_def next_fault_frame split: prod.splits fault.splits option.splits)

lemma exists_path_lookup [io_simps]: "lookup (snd (exists_path p w)) = lookup w"
  by (auto simp: exists_path_def next_fault_frame split: prod.splits fault.splits)

lemma read_dir_lookup [io_simps]: "lookup (snd (read_dir p w)) = lookup w"
  by (auto simp: read_dir_def next_fault_frame split: prod.splits fault.splits)

lemma fs_rng [io_simps]:
  "rng (snd (create_dir_all p w)) = rng w" "rng (snd (fs_write p s w)) = rng w"
  "rng (snd (fs_read p w)) = rng w" "rng (snd (remove_file p w)) = rng w"
  "rng (snd (exists_path p w)) = rng w" "rng (snd (read_dir p w)) = rng w"
  by (auto simp: create_dir_all_def fs_write_def fs_read_def remove_file_def exists_path_def read_dir_def
      next_fault_frame split: prod.splits fault.splits option.splits)

subsection \<open>Runs without faults\<close>

text \<open>
  \<open>quiet\<close>: no fault is left in the schedule. Then every operation does what it is
  asked to wherever the state of the file system allows it.
\<close>

definition quiet :: "world \<Rightarrow> bool" where
  "quiet w \<longleftrightarrow> faults w = []"

lemma next_fault_quiet: "quiet w \<Longrightarrow> next_fault w = (NoFault, w)"
  by (simp add: quiet_def next_fault_def)

lemma quiet_put [simp]: "quiet (put p s w) = quiet w"
  by (simp add: quiet_def)

lemma quiet_draw: "draw w = (Ok n, w') \<Longrightarrow> quiet w' = quiet w"
  by (auto simp: draw_def quiet_def)

lemma draw_lookup [io_simps]: "lookup (snd (draw w)) = lookup w" "is_dir (snd (draw w)) = is_dir w"
  by (auto simp: draw_def lookup_def is_dir_def fun_eq_iff)

lemma fs_read_quiet:
  "quiet w \<Longrightarrow> lookup w p = Some s \<Longrightarrow> fs_read p w = (Ok s, w)"
  by (simp add: fs_read_def next_fault_quiet)

lemma fs_write_quiet:
  "quiet w \<Longrightarrow> writable w p \<Longrightarrow> fs_write p s w = (Ok (), put p s w)"
  by (simp add: fs_write_def next_fault_quiet)

lemma is_dir_create:
  "is_dir (w\<lparr>dirs := remdups (ps @ dirs w)\<rparr>) q \<longleftrightarrow> is_dir w q \<or> q \<in> set ps"
  by (auto simp: is_dir_def)

lemma prefixes_of_self: "p \<noteq> [] \<Longrightarrow> p \<in> set (prefixes_of p)"
  by (cases p) (auto simp: prefixes_of_def image_iff intro!: bexI[of _ "length p"])

lemma create_dir_all_quiet:
  assumes "quiet w" "\<forall>q \<in> set (prefixes_of p). lookup w q = None"
  shows "create_dir_all p w = (Ok (), w\<lparr>dirs := remdups (prefixes_of p @ dirs w)\<rparr>)"
  using assms by (simp add: create_dir_all_def next_fault_quiet)

text \<open>
  A directory the program can use: no file is in the way of its path, and none of its
  entries is itself a directory.
\<close>

definition free_dir :: "world \<Rightarrow> path \<Rightarrow> bool" where
  "free_dir w d \<longleftrightarrow> d \<noteq> [] \<and> (\<forall>q \<in> set (prefixes_of d). lookup w q = None) \<and> (\<forall>n. \<not> is_dir w (d @ [n]))"

lemma prefixes_of_length: "q \<in> set (prefixes_of p) \<Longrightarrow> length q \<le> length p \<and> q \<noteq> [] \<and> q = take (length q) p"
  by (auto simp: prefixes_of_def)

lemma create_dir_quiet:
  assumes "quiet w" "free_dir w d"
  shows "\<exists>w1. create_dir_all d w = (Ok (), w1) \<and> quiet w1 \<and> lookup w1 = lookup w \<and>
           (\<forall>p. is_dir w1 p \<longleftrightarrow> is_dir w p \<or> p \<in> set (prefixes_of d)) \<and>
           (\<forall>n. writable w1 (d @ [n]))"
proof -
  let ?w1 = "w\<lparr>dirs := remdups (prefixes_of d @ dirs w)\<rparr>"
  have c: "create_dir_all d w = (Ok (), ?w1)"
    using assms by (intro create_dir_all_quiet) (auto simp: free_dir_def)
  have q: "quiet ?w1" using assms(1) by (simp add: quiet_def)
  have l: "lookup ?w1 = lookup w" by (simp add: lookup_def fun_eq_iff)
  have d: "is_dir ?w1 p \<longleftrightarrow> is_dir w p \<or> p \<in> set (prefixes_of d)" for p
    by (rule is_dir_create)
  have "writable ?w1 (d @ [n])" for n
  proof -
    have "d @ [n] \<notin> set (prefixes_of d)"
      using prefixes_of_length[of "d @ [n]" d] by auto
    then show ?thesis
      using assms(2) prefixes_of_self[of d] unfolding writable_def free_dir_def d by simp
  qed
  with c q l d show ?thesis by blast
qed

lemma dir_write_quiet:
  assumes "quiet w" "free_dir w d"
  shows "\<exists>w1 w'. create_dir_all d w = (Ok (), w1) \<and> fs_write (d @ [n]) s w1 = (Ok (), w') \<and>
           quiet w' \<and> lookup w' = (lookup w)(d @ [n] \<mapsto> s) \<and>
           (\<forall>p. is_dir w' p \<longleftrightarrow> is_dir w p \<or> p \<in> set (prefixes_of d))"
proof -
  obtain w1 where c: "create_dir_all d w = (Ok (), w1)" and w1: "quiet w1" "lookup w1 = lookup w"
    "\<forall>p. is_dir w1 p \<longleftrightarrow> is_dir w p \<or> p \<in> set (prefixes_of d)" "writable w1 (d @ [n])"
    using create_dir_quiet[OF assms] by blast
  then have "fs_write (d @ [n]) s w1 = (Ok (), put (d @ [n]) s w1)"
    by (intro fs_write_quiet)
  with c w1 show ?thesis by (intro exI[of _ w1] exI[of _ "put (d @ [n]) s w1"]) simp
qed

end
