(* ===== verification/Eth_Types.thy ===== *)
theory Eth_Types
  imports Prelude
begin

text \<open>
  The data of src/eth2/eth_types.rs: the type aliases, the domain and size constants,
  one record per struct, in the order their fields need, with the source's field names
  behind a short prefix (HOL field names are global). A fixed-size byte array or
  \<open>FixedVector\<close> is a list of its elements, a \<open>VariableList\<close> a list, a
  \<open>BitList\<close>/\<open>BitVector\<close> a list of booleans; the lengths their Rust types fix
  are stated where a property needs them. \<open>tree_obj\<close> collects the types whose
  \<open>tree_hash_root\<close> the program takes.
\<close>

section \<open>Type aliases\<close>

type_synonym Bytes4 = bytes
type_synonym Bytes32 = bytes
type_synonym Bytes20 = bytes
type_synonym Bytes48 = bytes
type_synonym Bytes96 = bytes
type_synonym U256 = "u64 list"
type_synonym Hash32 = Bytes32
type_synonym Slot = u64
type_synonym Epoch = u64
type_synonym CommitteeIndex = u64
type_synonym ValidatorIndex = u64
type_synonym WithdrawalIndex = u64
type_synonym Root = Bytes32
type_synonym BLSSignature = Bytes96
type_synonym BLSPubkey = Bytes48
type_synonym Version = Bytes4
type_synonym Gwei = u64
type_synonym DomainType = Bytes4
type_synonym Domain = Bytes32
type_synonym ExecutionAddress = Bytes20
type_synonym KZGCommitment = Bytes48

section \<open>Constants\<close>

definition DOMAIN_BEACON_PROPOSER :: DomainType where
  "DOMAIN_BEACON_PROPOSER = [0, 0, 0, 0]"
definition DOMAIN_BEACON_ATTESTER :: DomainType where
  "DOMAIN_BEACON_ATTESTER = [1, 0, 0, 0]"
definition DOMAIN_RANDAO :: DomainType where
  "DOMAIN_RANDAO = [2, 0, 0, 0]"
definition DOMAIN_DEPOSIT :: DomainType where
  "DOMAIN_DEPOSIT = [3, 0, 0, 0]"
definition DOMAIN_VOLUNTARY_EXIT :: DomainType where
  "DOMAIN_VOLUNTARY_EXIT = [4, 0, 0, 0]"
definition DOMAIN_SELECTION_PROOF :: DomainType where
  "DOMAIN_SELECTION_PROOF = [5, 0, 0, 0]"
definition DOMAIN_AGGREGATE_AND_PROOF :: DomainType where
  "DOMAIN_AGGREGATE_AND_PROOF = [6, 0, 0, 0]"
definition DOMAIN_SYNC_COMMITTEE :: DomainType where
  "DOMAIN_SYNC_COMMITTEE = [7, 0, 0, 0]"
definition DOMAIN_SYNC_COMMITTEE_SELECTION_PROOF :: DomainType where
  "DOMAIN_SYNC_COMMITTEE_SELECTION_PROOF = [8, 0, 0, 0]"
definition DOMAIN_CONTRIBUTION_AND_PROOF :: DomainType where
  "DOMAIN_CONTRIBUTION_AND_PROOF = [9, 0, 0, 0]"
definition DOMAIN_APPLICATION_MASK :: DomainType where
  "DOMAIN_APPLICATION_MASK = [0, 0, 0, 1]"
definition DOMAIN_APPLICATION_BUILDER :: DomainType where
  "DOMAIN_APPLICATION_BUILDER = [0, 0, 0, 1]"

lemmas domain_types =
  DOMAIN_BEACON_PROPOSER_def DOMAIN_BEACON_ATTESTER_def DOMAIN_RANDAO_def
  DOMAIN_DEPOSIT_def DOMAIN_VOLUNTARY_EXIT_def DOMAIN_SELECTION_PROOF_def
  DOMAIN_AGGREGATE_AND_PROOF_def DOMAIN_SYNC_COMMITTEE_def
  DOMAIN_SYNC_COMMITTEE_SELECTION_PROOF_def DOMAIN_CONTRIBUTION_AND_PROOF_def
  DOMAIN_APPLICATION_MASK_def DOMAIN_APPLICATION_BUILDER_def

definition GENESIS_FORK_VERSION :: Version where
  "GENESIS_FORK_VERSION = [0, 0, 0, 0]"
definition SLOTS_PER_EPOCH :: u64 where
  "SLOTS_PER_EPOCH = 32"
definition MAX_BLOB_COMMITMENTS_PER_BLOCK :: nat where
  "MAX_BLOB_COMMITMENTS_PER_BLOCK = 4096"

section \<open>Datatypes from the ETH2 specs\<close>

record SigningData =
  sd_object_root :: Root
  sd_domain :: Domain

record Fork =
  fork_previous_version :: Version
  fork_current_version :: Version
  fork_epoch :: Epoch

record ForkData =
  fd_current_version :: Version
  fd_genesis_validators_root :: Root

record ForkInfo =
  fi_fork :: Fork
  fi_genesis_validators_root :: Root

record Checkpoint =
  cp_epoch :: Epoch
  cp_root :: Root

record RandaoReveal =
  rr_epoch :: Epoch

record AttestationData =
  ad_slot :: Slot
  ad_index :: CommitteeIndex
  ad_beacon_block_root :: Root
  ad_source :: Checkpoint
  ad_target :: Checkpoint

record BeaconBlockHeader =
  bbh_slot :: Slot
  bbh_proposer_index :: ValidatorIndex
  bbh_parent_root :: Root
  bbh_state_root :: Root
  bbh_body_root :: Root

record SignedBeaconBlockHeader =
  sbbh_message :: BeaconBlockHeader
  sbbh_signature :: BLSSignature

record ProposerSlashing =
  ps_signed_header_1 :: SignedBeaconBlockHeader
  ps_signed_header_2 :: SignedBeaconBlockHeader

record IndexedAttestation =
  ia_attesting_indices :: "ValidatorIndex list"
  ia_data :: AttestationData
  ia_signature :: BLSSignature

record AttesterSlashing =
  atsl_attestation_1 :: IndexedAttestation
  atsl_attestation_2 :: IndexedAttestation

record Eth1Data =
  ed_deposit_root :: Root
  ed_deposit_count :: u64
  ed_block_hash :: Hash32

record DepositMessage =
  dm_pubkey :: BLSPubkey
  dm_withdrawal_credentials :: Bytes32
  dm_amount :: Gwei

record DepositData =
  dd_pubkey :: BLSPubkey
  dd_withdrawal_credentials :: Bytes32
  dd_amount :: Gwei
  dd_signature :: BLSSignature

record Deposit =
  dep_proof :: "Bytes32 list"
  dep_data :: DepositData

record VoluntaryExit =
  ve_epoch :: Epoch
  ve_validator_index :: ValidatorIndex

record SignedVoluntaryExit =
  sve_message :: VoluntaryExit
  sve_signature :: BLSSignature

record ValidatorRegistration =
  vr_fee_recipient :: ExecutionAddress
  vr_gas_limit :: u64
  vr_timestamp :: u64
  vr_pubkey :: BLSPubkey

record Attestation =
  att_aggregation_bits :: "bool list"
  att_data :: AttestationData
  att_signature :: BLSSignature

record SyncAggregate =
  sa_sync_committee_bits :: "bool list"
  sa_sync_committee_signature :: BLSSignature

record Withdrawal =
  wd_index :: WithdrawalIndex
  wd_validator_index :: ValidatorIndex
  wd_address :: ExecutionAddress
  wd_amount :: Gwei

record ExecutionPayload =
  ep_parent_hash :: Root
  ep_fee_recipient :: ExecutionAddress
  ep_state_root :: Root
  ep_receipts_root :: Root
  ep_logs_bloom :: "u8 list"
  ep_prev_randao :: Root
  ep_block_number :: u64
  ep_gas_limit :: u64
  ep_gas_used :: u64
  ep_timestamp :: u64
  ep_extra_data :: "u8 list"
  ep_base_fee_per_gas :: U256
  ep_block_hash :: Root
  ep_transactions :: "bytes list"
  ep_withdrawals :: "Withdrawal list"
  ep_excess_data_gas :: U256

record BLSToExecutionChange =
  btec_validator_index :: ValidatorIndex
  btec_from_bls_pubkey :: BLSPubkey
  btec_to_execution_address :: ExecutionAddress

record SignedBLSToExecutionChange =
  sbtec_message :: BLSToExecutionChange
  sbtec_signature :: BLSSignature

record BeaconBlockBody =
  bbb_randao_reveal :: BLSSignature
  bbb_eth1_data :: Eth1Data
  bbb_graffiti :: Bytes32
  bbb_proposer_slashings :: "ProposerSlashing list"
  bbb_attester_slashings :: "AttesterSlashing list"
  bbb_attestations :: "Attestation list"
  bbb_deposits :: "Deposit list"
  bbb_voluntary_exits :: "SignedVoluntaryExit list"
  bbb_sync_aggregate :: SyncAggregate
  bbb_execution_payload :: ExecutionPayload
  bbb_bls_to_execution_changes :: "SignedBLSToExecutionChange list"
  bbb_blob_kzg_commitments :: "KZGCommitment list"

record BeaconBlock =
  bb_slot :: Slot
  bb_proposer_index :: ValidatorIndex
  bb_parent_root :: Root
  bb_state_root :: Root
  bb_body :: BeaconBlockBody

record AggregateAndProof =
  aap_aggregator_index :: ValidatorIndex
  aap_aggregate :: Attestation
  aap_selection_proof :: BLSSignature

record SyncCommitteeMessage =
  scm_slot :: Slot
  scm_beacon_block_root :: Root
  scm_validator_index :: ValidatorIndex
  scm_signature :: BLSSignature

record SyncCommitteeContribution =
  scc_slot :: Slot
  scc_beacon_block_root :: Root
  scc_subcommittee_index :: u64
  scc_aggregation_bits :: "bool list"
  scc_signature :: BLSSignature

record ContributionAndProof =
  cap_aggregator_index :: ValidatorIndex
  cap_contribution :: SyncCommitteeContribution
  cap_selection_proof :: BLSSignature

record SyncAggregatorSelectionData =
  sasd_slot :: Slot
  sasd_subcommittee_index :: u64

record AggregationSlot =
  asl_slot :: Slot

record BlockRequest =
  br_fork_info :: ForkInfo
  br_signingRoot :: "Root option"
  br_block :: BeaconBlock

record BlockV2RequestWrapper =
  b2w_version :: string
  b2w_block_header :: BeaconBlockHeader

record BlockV2Request =
  b2r_fork_info :: ForkInfo
  b2r_signingRoot :: "Root option"
  b2r_beacon_block :: BlockV2RequestWrapper

record AttestationRequest =
  ar_fork_info :: ForkInfo
  ar_signingRoot :: "Root option"
  ar_attestation :: AttestationData

record RandaoRevealRequest =
  rrr_fork_info :: ForkInfo
  rrr_signingRoot :: "Root option"
  rrr_randao_reveal :: RandaoReveal

record AggregateAndProofRequest =
  apr_fork_info :: ForkInfo
  apr_signingRoot :: "Root option"
  apr_aggregate_and_proof :: AggregateAndProof

record AggregationSlotRequest =
  asr_fork_info :: ForkInfo
  asr_signingRoot :: "Root option"
  asr_aggregation_slot :: AggregationSlot

record DepositRequest =
  dr_signingRoot :: "Root option"
  dr_deposit :: DepositMessage
  dr_genesis_fork_version :: Version

record DepositResponse =
  dres_pubkey :: string
  dres_withdrawal_credentials :: string
  dres_amount :: Gwei
  dres_signature :: string
  dres_deposit_message_root :: string
  dres_deposit_data_root :: string

record VoluntaryExitRequest =
  ver_fork_info :: ForkInfo
  ver_signingRoot :: "Root option"
  ver_voluntary_exit :: VoluntaryExit

record SyncCommitteeMessageRequestWrapper =
  smw_slot :: Slot
  smw_beacon_block_root :: Root

record SyncCommitteeMessageRequest =
  smr_fork_info :: ForkInfo
  smr_signingRoot :: "Root option"
  smr_sync_committee_message :: SyncCommitteeMessageRequestWrapper

record SyncCommitteeSelectionProofRequest =
  spr_fork_info :: ForkInfo
  spr_signingRoot :: "Root option"
  spr_sync_aggregator_selection_data :: SyncAggregatorSelectionData

record SyncCommitteeContributionAndProofRequest =
  scr_fork_info :: ForkInfo
  scr_signingRoot :: "Root option"
  scr_contribution_and_proof :: ContributionAndProof

record ValidatorRegistrationRequest =
  vrr_signingRoot :: "Root option"
  vrr_validator_registration :: ValidatorRegistration


section \<open>Objects the program takes a tree hash of\<close>

datatype tree_obj =
    TSigningData SigningData
  | TForkData ForkData
  | TBeaconBlock BeaconBlock
  | TBeaconBlockHeader BeaconBlockHeader
  | TAttestationData AttestationData
  | TU64 u64
  | TRoot Root
  | TAggregateAndProof AggregateAndProof
  | TDepositMessage DepositMessage
  | TDepositData DepositData
  | TVoluntaryExit VoluntaryExit
  | TSyncAggregatorSelectionData SyncAggregatorSelectionData
  | TContributionAndProof ContributionAndProof
  | TValidatorRegistration ValidatorRegistration

end
