(* ===== verification/Codec.thy ===== *)
theory Codec
  imports Std_World Eth_Types "HOL-Library.Countable"
begin

text \<open>
  The byte-level third-party crates the program relies on: \<open>hex\<close>,
  \<open>serde_json\<close>, \<open>serde_hex\<close>, \<open>ethereum_serde_utils\<close>,
  \<open>ssz_types\<close>/\<open>eth2_ssz\<close>, \<open>num_bigint\<close>, \<open>tree_hash\<close> and
  \<open>sha3\<close>. Their code is not part of the repository, so they are the fields of a
  record \<open>codec\<close> that every definition using them takes as an argument \<open>X\<close>.
  What the program relies on is stated as predicates on that record, one per crate; a
  property assumes only the predicates it needs.
\<close>

section \<open>JSON values\<close>

text \<open>
  The value a JSON text denotes. Integers that fit are \<open>JNum\<close>; any other number keeps
  its literal.
\<close>

datatype json =
    JNull
  | JBool bool
  | JNum u64
  | JOtherNum string
  | JStr string
  | JArr "json list"
  | JObj "(string \<times> json) list"

instance json :: countable
  by countable_datatype

text \<open>Values that \<open>serde_json\<close> prints and reads back without loss.\<close>

fun printable :: "json \<Rightarrow> bool" where
  "printable (JOtherNum s) = False"
| "printable (JStr s) = is_utf8 s"
| "printable (JArr js) = (\<forall>j \<in> set js. printable j)"
| "printable (JObj kvs) =
     (distinct (map fst kvs) \<and> (\<forall>kv \<in> set kvs. is_utf8 (fst kv) \<and> printable (snd kv)))"
| "printable _ = True"

section \<open>The codec record\<close>

record codec =
  hex_encode :: "bytes \<Rightarrow> string"
  hex_decode :: "string \<Rightarrow> bytes option"
  json_to_string :: "json \<Rightarrow> string"
  json_from_slice :: "string \<Rightarrow> json option"
  quoted_u64_ser :: "u64 \<Rightarrow> json"
  quoted_u64_de :: "json \<Rightarrow> u64 option"
  serhex_ser :: "bytes \<Rightarrow> json"
  serhex_from_hex :: "nat \<Rightarrow> string \<Rightarrow> bytes option"
  fv_from :: "nat \<Rightarrow> bytes \<Rightarrow> bytes"
  fv_new :: "nat \<Rightarrow> bytes \<Rightarrow> bytes option"
  fv_ssz_bytes :: "bytes \<Rightarrow> bytes"
  vec_ssz_bytes :: "bytes \<Rightarrow> bytes"
  u256_ssz_bytes :: "U256 \<Rightarrow> bytes"
  vl_new :: "nat \<Rightarrow> bytes list \<Rightarrow> bytes list option"
  biguint_parse_bytes :: "string \<Rightarrow> nat option"
  biguint_to_u64_digits :: "nat \<Rightarrow> u64 list"
  biguint_from_bytes_le :: "bytes \<Rightarrow> nat"
  biguint_to_str :: "nat \<Rightarrow> string"
  tree_hash_root :: "tree_obj \<Rightarrow> bytes"
  keccak256 :: "bytes \<Rightarrow> bytes"

section \<open>Documented behaviour\<close>

text \<open>
  \<open>hex\<close>: \<open>encode\<close> writes two lower-case digits per byte, \<open>decode\<close> is its
  inverse and also accepts upper case.
\<close>

definition hex_laws :: "codec \<Rightarrow> bool" where
  "hex_laws X \<longleftrightarrow>
     (\<forall>b. hex_decode X (hex_encode X b) = Some b \<and>
          set (hex_encode X b) \<subseteq> lower_hex \<and>
          length (hex_encode X b) = 2 * length b) \<and>
     (\<forall>s b. hex_decode X s = Some b \<longrightarrow> length s = 2 * length b) \<and>
     (\<forall>s b. hex_decode X s = Some b \<longrightarrow> set s \<subseteq> lower_hex \<longrightarrow> hex_encode X b = s)"

text \<open>
  \<open>serde_json\<close>: what it prints it reads back, and a text cut off inside an object is
  an error.
\<close>

definition json_laws :: "codec \<Rightarrow> bool" where
  "json_laws X \<longleftrightarrow>
     (\<forall>j. printable j \<longrightarrow> json_from_slice X (json_to_string X j) = Some j) \<and>
     (\<forall>kvs n. printable (JObj kvs) \<longrightarrow> n < length (json_to_string X (JObj kvs)) \<longrightarrow>
        json_from_slice X (take n (json_to_string X (JObj kvs))) = None)"

text \<open>\<open>quoted_u64\<close> writes a number as a string and reads it back.\<close>

definition quoted_laws :: "codec \<Rightarrow> bool" where
  "quoted_laws X \<longleftrightarrow>
     (\<forall>n. printable (quoted_u64_ser X n) \<and> quoted_u64_de X (quoted_u64_ser X n) = Some n)"

text \<open>
  \<open>SerHex::<StrictPfx>\<close> writes the prefix; reading a fixed-size array, it accepts the
  digits of that many bytes with the prefix and without it, and refuses any other text.
\<close>

definition serhex_laws :: "codec \<Rightarrow> bool" where
  "serhex_laws X \<longleftrightarrow>
     (\<forall>b. serhex_ser X b = JStr (''0x'' @ hex_encode X b)) \<and>
     (\<forall>b. serhex_from_hex X (length b) (hex_encode X b) = Some b) \<and>
     (\<forall>b. serhex_from_hex X (length b) (''0x'' @ hex_encode X b) = Some b) \<and>
     (\<forall>n s b. serhex_from_hex X n s = Some b \<longrightarrow> length b = n)"

text \<open>
  \<open>FixedVector<u8, N>\<close>: \<open>from\<close> cuts or pads a vector to \<open>N\<close> elements,
  \<open>new\<close> refuses any other length; the SSZ form of a byte vector is its bytes.
  \<open>VariableList::new\<close> refuses more than its maximum.
\<close>

definition ssz_laws :: "codec \<Rightarrow> bool" where
  "ssz_laws X \<longleftrightarrow>
     (\<forall>n b. length (fv_from X n b) = n) \<and>
     (\<forall>b. fv_from X (length b) b = b) \<and>
     (\<forall>n b. fv_new X n b = (if length b = n then Some b else None)) \<and>
     (\<forall>b. fv_ssz_bytes X b = b) \<and>
     (\<forall>b. vec_ssz_bytes X b = b) \<and>
     (\<forall>n xs. vl_new X n xs = (if length xs \<le> n then Some xs else None))"

text \<open>
  \<open>num_bigint::BigUint\<close>: \<open>to_u64_digits\<close> gives the digits to base
  \<open>2 ^ 64\<close>, least significant first, without a leading zero digit.
\<close>

fun u64_digits_val :: "u64 list \<Rightarrow> nat" where
  "u64_digits_val [] = 0"
| "u64_digits_val (d # ds) = unat d + 2 ^ 64 * u64_digits_val ds"

definition biguint_laws :: "codec \<Rightarrow> bool" where
  "biguint_laws X \<longleftrightarrow>
     (\<forall>n. u64_digits_val (biguint_to_u64_digits X n) = n) \<and>
     (\<forall>n. biguint_to_u64_digits X n \<noteq> [] \<longrightarrow> last (biguint_to_u64_digits X n) \<noteq> 0) \<and>
     (\<forall>n. biguint_parse_bytes X (biguint_to_str X n) = Some n \<and> is_utf8 (biguint_to_str X n)) \<and>
     (\<forall>ds. biguint_from_bytes_le X (u256_ssz_bytes X ds) = u64_digits_val ds)"

text \<open>\<open>tree_hash_root().to_fixed_bytes()\<close> and \<open>Keccak256\<close> give 32 bytes.\<close>

definition hash_laws :: "codec \<Rightarrow> bool" where
  "hash_laws X \<longleftrightarrow>
     (\<forall>t. length (tree_hash_root X t) = 32) \<and> (\<forall>b. length (keccak256 X b) = 32)"

text \<open>The laws of the text formats together.\<close>

definition codec_laws :: "codec \<Rightarrow> bool" where
  "codec_laws X \<longleftrightarrow> hex_laws X \<and> json_laws X \<and> quoted_laws X \<and> serhex_laws X \<and> ssz_laws X"

text \<open>What \<open>hex::encode\<close> writes: the two digits of each byte.\<close>

definition hex_byte :: "u8 \<Rightarrow> string" where
  "hex_byte b = [''0123456789abcdef'' ! (unat b div 16), ''0123456789abcdef'' ! (unat b mod 16)]"

definition hex_text_law :: "codec \<Rightarrow> bool" where
  "hex_text_law X \<longleftrightarrow> (\<forall>b. hex_encode X b = concat (map hex_byte b))"

section \<open>Consequences\<close>

lemma codec_lawsD:
  assumes "codec_laws X"
  shows "hex_laws X" "json_laws X" "quoted_laws X" "serhex_laws X" "ssz_laws X"
  using assms by (simp_all add: codec_laws_def)

lemma hex_decode_encode [simp, ext_laws]:
  "hex_laws X \<Longrightarrow> hex_decode X (hex_encode X b) = Some b"
  unfolding hex_laws_def by blast

lemma hex_encode_lower [ext_laws]: "hex_laws X \<Longrightarrow> set (hex_encode X b) \<subseteq> lower_hex"
  unfolding hex_laws_def by blast

lemma length_hex_encode [simp, ext_laws]:
  "hex_laws X \<Longrightarrow> length (hex_encode X b) = 2 * length b"
  unfolding hex_laws_def by blast

lemma hex_decode_length: "hex_laws X \<Longrightarrow> hex_decode X s = Some b \<Longrightarrow> length s = 2 * length b"
  unfolding hex_laws_def by blast

lemma hex_encode_decode:
  "hex_laws X \<Longrightarrow> hex_decode X s = Some b \<Longrightarrow> set s \<subseteq> lower_hex \<Longrightarrow> hex_encode X b = s"
  unfolding hex_laws_def by blast

lemma hex_encode_inject [simp]:
  "hex_laws X \<Longrightarrow> hex_encode X a = hex_encode X b \<longleftrightarrow> a = b"
  by (metis hex_decode_encode option.inject)

lemma strip_hex_encode [simp]: "hex_laws X \<Longrightarrow> strip_0x_prefix (hex_encode X b) = hex_encode X b"
  by (rule strip_lower_hex) (rule hex_encode_lower)

lemma plain_hex_encode: "hex_laws X \<Longrightarrow> b \<noteq> [] \<Longrightarrow> plain (hex_encode X b)"
  by (rule plain_lower_hex) (auto dest: hex_encode_lower length_hex_encode[of X b] simp del: length_hex_encode)

lemma is_utf8_hex_encode [simp]: "hex_laws X \<Longrightarrow> is_utf8 (hex_encode X b)"
  by (rule is_utf8_lower_hex) (rule hex_encode_lower)

lemma hex_encode_Nil [simp]: "hex_laws X \<Longrightarrow> hex_encode X b = [] \<longleftrightarrow> b = []"
  by (metis length_0_conv length_hex_encode mult_eq_0_iff zero_neq_numeral)

lemma is_utf8_0x_hex [simp]:
  "hex_laws X \<Longrightarrow> is_utf8 (CHR ''0'' # CHR ''x'' # hex_encode X b)"
  using is_utf8_hex_encode[of X b] by (simp add: is_utf8_def)

lemma json_roundtrip [simp, ext_laws]:
  "json_laws X \<Longrightarrow> printable j \<Longrightarrow> json_from_slice X (json_to_string X j) = Some j"
  by (simp add: json_laws_def)

lemma json_torn [ext_laws]:
  "json_laws X \<Longrightarrow> printable (JObj kvs) \<Longrightarrow> n < length (json_to_string X (JObj kvs)) \<Longrightarrow>
     json_from_slice X (take n (json_to_string X (JObj kvs))) = None"
  by (simp add: json_laws_def)

lemma quoted_roundtrip [simp, ext_laws]:
  "quoted_laws X \<Longrightarrow> quoted_u64_de X (quoted_u64_ser X n) = Some n"
  "quoted_laws X \<Longrightarrow> printable (quoted_u64_ser X n)"
  by (simp_all add: quoted_laws_def)

lemma serhex_roundtrip [simp, ext_laws]:
  "serhex_laws X \<Longrightarrow> length b = n \<Longrightarrow> serhex_from_hex X n (hex_encode X b) = Some b"
  "serhex_laws X \<Longrightarrow> length b = n \<Longrightarrow> serhex_from_hex X n (''0x'' @ hex_encode X b) = Some b"
  by (auto simp: serhex_laws_def)

lemma ssz_simps [simp, ext_laws]:
  "ssz_laws X \<Longrightarrow> length (fv_from X n b) = n"
  "ssz_laws X \<Longrightarrow> length b = n \<Longrightarrow> fv_from X n b = b"
  "ssz_laws X \<Longrightarrow> fv_ssz_bytes X b = b"
  "ssz_laws X \<Longrightarrow> vec_ssz_bytes X b = b"
  by (auto simp: ssz_laws_def)

lemma hash_length [simp, ext_laws]:
  "hash_laws X \<Longrightarrow> length (tree_hash_root X t) = 32"
  "hash_laws X \<Longrightarrow> length (keccak256 X b) = 32"
  by (simp_all add: hash_laws_def)

end
