(* ===== verification/Demo_Codec.thy ===== *)
theory Demo_Codec
  imports Codec
begin

text \<open>
  A concrete codec that has every documented property of the text formats, for the
  properties to be applied to: real hexadecimal, a self-delimiting text form of JSON
  values with its parser, and hash functions into 32 bytes.
\<close>

section \<open>Hexadecimal\<close>

definition hex_digit :: "nat \<Rightarrow> char" where
  "hex_digit n = ''0123456789abcdef'' ! n"

definition digit_val :: "char \<Rightarrow> nat option" where
  "digit_val c = (let n = of_char c in
     if 48 \<le> n \<and> n < 58 then Some (n - 48)
     else if 97 \<le> n \<and> n < 103 then Some (n - 87)
     else if 65 \<le> n \<and> n < 71 then Some (n - 55)
     else None)"

fun demo_hex_encode :: "bytes \<Rightarrow> string" where
  "demo_hex_encode [] = []"
| "demo_hex_encode (b # bs) =
     hex_digit (unat b div 16) # hex_digit (unat b mod 16) # demo_hex_encode bs"

fun demo_hex_decode :: "string \<Rightarrow> bytes option" where
  "demo_hex_decode [] = Some []"
| "demo_hex_decode [c] = None"
| "demo_hex_decode (c # d # s) =
     (case (digit_val c, digit_val d, demo_hex_decode s) of
        (Some x, Some y, Some bs) \<Rightarrow> Some (word_of_nat (16 * x + y) # bs)
      | _ \<Rightarrow> None)"

lemma less_16_cases: "n < 16 \<Longrightarrow> n \<in> {0, 1, 2, 3, 4, 5, 6, 7, 8, 9, 10, 11, 12, 13, 14, 15::nat}"
  by (simp only: insert_iff empty_iff) presburger

lemma digit_val_hex: "n < 16 \<Longrightarrow> digit_val (hex_digit n) = Some n \<and> hex_digit n \<in> lower_hex"
  by (drule less_16_cases) (auto simp: hex_digit_def digit_val_def lower_hex_def)

lemma digit_val_less: "digit_val c = Some n \<Longrightarrow> n < 16"
  by (auto simp: digit_val_def Let_def split: if_splits)

lemma hex_digit_val: "c \<in> lower_hex \<Longrightarrow> digit_val c = Some n \<Longrightarrow> hex_digit n = c"
  by (auto simp: lower_hex_def digit_val_def hex_digit_def)

lemma unat_u8: "unat (b :: u8) < 256"
  using unsigned_less[of b, where ?'a = nat] by simp

lemma demo_hex_roundtrip: "demo_hex_decode (demo_hex_encode b) = Some b"
proof (induction b)
  case (Cons x b)
  have "unat x div 16 < 16" "unat x mod 16 < 16"
    using unat_u8[of x] by (auto simp: less_mult_imp_div_less)
  then have "digit_val (hex_digit (unat x div 16)) = Some (unat x div 16)"
    "digit_val (hex_digit (unat x mod 16)) = Some (unat x mod 16)"
    using digit_val_hex by blast+
  moreover have "word_of_nat (16 * (unat x div 16) + unat x mod 16) = x"
    by (simp add: mult.commute[of 16])
  ultimately show ?case using Cons by simp
qed simp

lemma demo_hex_lower: "set (demo_hex_encode b) \<subseteq> lower_hex"
proof (induction b)
  case (Cons x b)
  have "unat x div 16 < 16" "unat x mod 16 < 16"
    using unat_u8[of x] by (auto simp: less_mult_imp_div_less)
  then show ?case using Cons digit_val_hex by simp
qed simp

lemma demo_hex_length: "length (demo_hex_encode b) = 2 * length b"
  by (induction b) auto

lemma demo_hex_decode_length: "demo_hex_decode s = Some b \<Longrightarrow> length s = 2 * length b"
  by (induction s arbitrary: b rule: demo_hex_decode.induct) (auto split: option.splits)

lemma demo_hex_encode_decode: "demo_hex_decode s = Some b \<Longrightarrow> set s \<subseteq> lower_hex \<Longrightarrow> demo_hex_encode b = s"
proof (induction s arbitrary: b rule: demo_hex_decode.induct)
  case (3 c d s)
  then obtain x y bs where d: "digit_val c = Some x" "digit_val d = Some y" "demo_hex_decode s = Some bs"
    "b = word_of_nat (16 * x + y) # bs"
    by (auto split: option.splits)
  have xy: "x < 16" "y < 16" using d digit_val_less by blast+
  define z where "z = 16 * x + y"
  have z: "z div 16 = x" "z mod 16 = y" "unat (word_of_nat z :: u8) = z"
    using xy by (simp_all add: z_def unsigned_of_nat take_bit_nat_eq_self del: of_nat_add of_nat_mult)
  have "hex_digit x = c" "hex_digit y = d" "demo_hex_encode bs = s"
    using 3 d hex_digit_val by auto
  then show ?case using d(4) z by (simp add: z_def[symmetric] del: of_nat_add of_nat_mult)
qed auto

section \<open>JSON texts\<close>

definition enc_str :: "string \<Rightarrow> string" where
  "enc_str s = concat (map (\<lambda>c. [CHR '':'', c]) s) @ ''.''"

fun enc :: "json \<Rightarrow> string" where
  "enc JNull = ''n''"
| "enc (JBool b) = (if b then ''t'' else ''f'')"
| "enc (JNum w) = CHR ''i'' # map (\<lambda>i. if bit w i then CHR ''1'' else CHR ''0'') [0..<64]"
| "enc (JOtherNum s) = CHR ''o'' # enc_str s"
| "enc (JStr s) = CHR ''s'' # enc_str s"
| "enc (JArr js) = CHR ''['' # concat (map (\<lambda>j. CHR '','' # enc j) js) @ '']''"
| "enc (JObj kvs) =
     CHR ''{'' # concat (map (\<lambda>kv. CHR '','' # enc_str (fst kv) @ enc (snd kv)) kvs) @ ''}''"

fun dec_str :: "string \<Rightarrow> (string \<times> string) option" where
  "dec_str [] = None"
| "dec_str (a # r) =
     (if a = CHR ''.'' then Some ([], r)
      else case r of
             [] \<Rightarrow> None
           | c # r' \<Rightarrow>
               if a = CHR '':''
               then (case dec_str r' of None \<Rightarrow> None | Some (s, r'') \<Rightarrow> Some (c # s, r''))
               else None)"

fun dec :: "nat \<Rightarrow> string \<Rightarrow> (json \<times> string) option"
and dec_arr :: "nat \<Rightarrow> string \<Rightarrow> (json list \<times> string) option"
and dec_obj :: "nat \<Rightarrow> string \<Rightarrow> ((string \<times> json) list \<times> string) option" where
  "dec 0 s = None"
| "dec (Suc n) [] = None"
| "dec (Suc n) (c # r) =
     (if c = CHR ''n'' then Some (JNull, r)
      else if c = CHR ''t'' then Some (JBool True, r)
      else if c = CHR ''f'' then Some (JBool False, r)
      else if c = CHR ''i'' then
        (if length r < 64 then None
         else Some (JNum (horner_sum of_bool 2 (map (\<lambda>c. c = CHR ''1'') (take 64 r))), drop 64 r))
      else if c = CHR ''o'' then map_option (\<lambda>(s, r). (JOtherNum s, r)) (dec_str r)
      else if c = CHR ''s'' then map_option (\<lambda>(s, r). (JStr s, r)) (dec_str r)
      else if c = CHR ''['' then map_option (\<lambda>(js, r). (JArr js, r)) (dec_arr n r)
      else if c = CHR ''{'' then map_option (\<lambda>(kvs, r). (JObj kvs, r)) (dec_obj n r)
      else None)"
| "dec_arr 0 s = None"
| "dec_arr (Suc n) [] = None"
| "dec_arr (Suc n) (c # r) =
     (if c = CHR '']'' then Some ([], r)
      else if c = CHR '','' then
        (case dec n r of
           None \<Rightarrow> None
         | Some (j, r) \<Rightarrow> map_option (\<lambda>(js, r). (j # js, r)) (dec_arr n r))
      else None)"
| "dec_obj 0 s = None"
| "dec_obj (Suc n) [] = None"
| "dec_obj (Suc n) (c # r) =
     (if c = CHR ''}'' then Some ([], r)
      else if c = CHR '','' then
        (case dec_str r of
           None \<Rightarrow> None
         | Some (k, r) \<Rightarrow>
             (case dec n r of
                None \<Rightarrow> None
              | Some (j, r) \<Rightarrow> map_option (\<lambda>(kvs, r). ((k, j) # kvs, r)) (dec_obj n r)))
      else None)"

definition parse_json :: "string \<Rightarrow> json option" where
  "parse_json s = (case dec (Suc (length s)) s of Some (j, []) \<Rightarrow> Some j | _ \<Rightarrow> None)"

lemma dec_enc_str: "dec_str (enc_str s @ r) = Some (s, r)"
  by (induction s) (auto simp: enc_str_def)

lemma length_enc_pos: "0 < length (enc j)"
  by (cases j) auto

lemma dec_arr_enc:
  assumes "\<And>j n r. j \<in> set js \<Longrightarrow> length (enc j) \<le> n \<Longrightarrow> dec n (enc j @ r) = Some (j, r)"
    "length (concat (map (\<lambda>j. CHR '','' # enc j) js)) < n"
  shows "dec_arr n (concat (map (\<lambda>j. CHR '','' # enc j) js) @ CHR '']'' # r) = Some (js, r)"
  using assms
proof (induction js arbitrary: n)
  case Nil
  then show ?case by (cases n) auto
next
  case (Cons j js)
  then obtain n' where n: "n = Suc n'" by (cases n) auto
  with Cons show ?case by simp
qed

lemma dec_obj_enc:
  assumes "\<And>kv n r. kv \<in> set kvs \<Longrightarrow> length (enc (snd kv)) \<le> n \<Longrightarrow>
      dec n (enc (snd kv) @ r) = Some (snd kv, r)"
    "length (concat (map (\<lambda>kv. CHR '','' # enc_str (fst kv) @ enc (snd kv)) kvs)) < n"
  shows "dec_obj n (concat (map (\<lambda>kv. CHR '','' # enc_str (fst kv) @ enc (snd kv)) kvs) @ CHR ''}'' # r) =
    Some (kvs, r)"
  using assms
proof (induction kvs arbitrary: n)
  case Nil
  then show ?case by (cases n) auto
next
  case (Cons kv kvs)
  then obtain n' where n: "n = Suc n'" by (cases n) auto
  with Cons show ?case by (simp add: dec_enc_str)
qed

lemma dec_enc: "length (enc j) \<le> n \<Longrightarrow> dec n (enc j @ r) = Some (j, r)"
proof (induction j arbitrary: n r)
  case (JNum w)
  then obtain n' where "n = Suc n'" by (cases n) auto
  moreover have "horner_sum of_bool 2 (map (bit w) [0..<64]) = w"
    by (simp add: horner_sum_bit_eq_take_bit take_bit_word_eq_self)
  ultimately show ?case by (simp add: comp_def)
next
  case (JArr js)
  then obtain n' where "n = Suc n'" by (cases n) auto
  with JArr show ?case using dec_arr_enc[of js n' r] by simp
next
  case (JObj kvs)
  then obtain n' where n: "n = Suc n'" by (cases n) auto
  have "dec m (enc (snd kv) @ r) = Some (snd kv, r)"
    if "kv \<in> set kvs" "length (enc (snd kv)) \<le> m" for kv m r
    using JObj.IH[of kv "snd kv"] that by (cases kv) (auto simp: snds.simps)
  with JObj.prems n show ?case using dec_obj_enc[of kvs n' r] by simp
qed (auto simp: dec_enc_str gr0_conv_Suc Suc_le_eq split: if_splits elim!: less_natE)

text \<open>Parsing looks no further than it has to, and more fuel does not change a result.\<close>

lemma dec_str_append: "dec_str p = Some (s, r) \<Longrightarrow> dec_str (p @ q) = Some (s, r @ q)"
  by (induction p arbitrary: s rule: dec_str.induct) (auto split: if_splits list.splits option.splits)

lemma dec_append_all:
  "(\<forall>p j r. dec n p = Some (j, r) \<longrightarrow> dec n (p @ q) = Some (j, r @ q)) \<and>
   (\<forall>p js r. dec_arr n p = Some (js, r) \<longrightarrow> dec_arr n (p @ q) = Some (js, r @ q)) \<and>
   (\<forall>p kvs r. dec_obj n p = Some (kvs, r) \<longrightarrow> dec_obj n (p @ q) = Some (kvs, r @ q))"
proof (induction n)
  case (Suc n)
  then have IH: "dec n p = Some (j, r) \<Longrightarrow> dec n (p @ q) = Some (j, r @ q)"
    "dec_arr n p = Some (js, r) \<Longrightarrow> dec_arr n (p @ q) = Some (js, r @ q)"
    "dec_obj n p = Some (kvs, r) \<Longrightarrow> dec_obj n (p @ q) = Some (kvs, r @ q)" for p j r js kvs
    by blast+
  have "dec (Suc n) p = Some (j, r) \<longrightarrow> dec (Suc n) (p @ q) = Some (j, r @ q)" for p j r
    by (cases p) (auto simp: IH dec_str_append)
  moreover have "dec_arr (Suc n) p = Some (js, r) \<longrightarrow> dec_arr (Suc n) (p @ q) = Some (js, r @ q)" for p js r
    by (cases p) (auto simp: IH split: option.splits)
  moreover have "dec_obj (Suc n) p = Some (kvs, r) \<longrightarrow> dec_obj (Suc n) (p @ q) = Some (kvs, r @ q)" for p kvs r
    by (cases p) (auto simp: IH dec_str_append split: option.splits)
  ultimately show ?case by blast
qed simp

lemma dec_more_fuel_all:
  "(\<forall>p x m. dec n p = Some x \<longrightarrow> n \<le> m \<longrightarrow> dec m p = Some x) \<and>
   (\<forall>p y m. dec_arr n p = Some y \<longrightarrow> n \<le> m \<longrightarrow> dec_arr m p = Some y) \<and>
   (\<forall>p z m. dec_obj n p = Some z \<longrightarrow> n \<le> m \<longrightarrow> dec_obj m p = Some z)"
proof (induction n)
  case (Suc n)
  have "(dec (Suc n) p = Some x \<longrightarrow> dec m p = Some x) \<and>
      (dec_arr (Suc n) p = Some y \<longrightarrow> dec_arr m p = Some y) \<and>
      (dec_obj (Suc n) p = Some z \<longrightarrow> dec_obj m p = Some z)" if le: "Suc n \<le> m" for p x y z m
  proof -
    obtain k where m: "m = Suc k" "n \<le> k" using le by (cases m) auto
    have IH: "dec n p = Some x \<Longrightarrow> dec k p = Some x" "dec_arr n p = Some y \<Longrightarrow> dec_arr k p = Some y"
      "dec_obj n p = Some z \<Longrightarrow> dec_obj k p = Some z" for p x y z
      using Suc m(2) by blast+
    have "dec (Suc n) p = Some x \<Longrightarrow> dec (Suc k) p = Some x"
      by (cases p) (auto simp: IH split: if_split_asm)
    moreover have "dec_arr (Suc n) p = Some y \<Longrightarrow> dec_arr (Suc k) p = Some y"
      by (cases p) (auto simp: IH split: if_split_asm option.split_asm)
    moreover have "dec_obj (Suc n) p = Some z \<Longrightarrow> dec_obj (Suc k) p = Some z"
      by (cases p) (auto simp: IH split: if_split_asm option.split_asm)
    ultimately show ?thesis unfolding m(1) by blast
  qed
  then show ?case by blast
qed simp

lemmas dec_append = dec_append_all[THEN conjunct1, rule_format]
lemmas dec_more_fuel = dec_more_fuel_all[THEN conjunct1, rule_format]

lemma parse_enc: "parse_json (enc j) = Some j"
  using dec_enc[of j "Suc (length (enc j))" "[]"] by (simp add: parse_json_def)

lemma parse_torn:
  assumes n: "n < length (enc j)"
  shows "parse_json (take n (enc j)) = None"
proof (rule ccontr)
  let ?p = "take n (enc j)" and ?q = "drop n (enc j)"
  assume "parse_json ?p \<noteq> None"
  then obtain j' where j': "dec (Suc (length ?p)) ?p = Some (j', [])"
    by (auto simp: parse_json_def split: option.splits prod.splits list.splits)
  from dec_append[OF this, of ?q] have "dec (Suc (length ?p)) (enc j) = Some (j', ?q)" by simp
  then have "dec (Suc (length (enc j))) (enc j) = Some (j', ?q)"
    by (rule dec_more_fuel) simp
  moreover have "dec (Suc (length (enc j))) (enc j) = Some (j, [])"
    using dec_enc[of j "Suc (length (enc j))" "[]"] by simp
  ultimately have "drop n (enc j) = []" by (metis option.inject prod.inject)
  with n show False by (simp only: drop_eq_Nil not_le[symmetric])
qed

section \<open>The codec\<close>

fun u64_digits :: "nat \<Rightarrow> nat \<Rightarrow> u64 list" where
  "u64_digits 0 n = []"
| "u64_digits (Suc k) n = (if n = 0 then [] else word_of_nat n # u64_digits k (n div 2 ^ 64))"

text \<open>Constant hash functions are enough for the laws.\<close>

definition demo_codec :: codec where
  "demo_codec = \<lparr>
     hex_encode = demo_hex_encode,
     hex_decode = demo_hex_decode,
     json_to_string = enc,
     json_from_slice = parse_json,
     quoted_u64_ser = JNum,
     quoted_u64_de = (\<lambda>j. case j of JNum n \<Rightarrow> Some n | _ \<Rightarrow> None),
     serhex_ser = (\<lambda>b. JStr (''0x'' @ demo_hex_encode b)),
     serhex_from_hex = (\<lambda>n s. case demo_hex_decode (strip_0x_prefix s) of
        Some b \<Rightarrow> if length b = n then Some b else None | None \<Rightarrow> None),
     fv_from = (\<lambda>n b. take n b @ replicate (n - length b) 0),
     fv_new = (\<lambda>n b. if length b = n then Some b else None),
     fv_ssz_bytes = (\<lambda>b. b),
     vec_ssz_bytes = (\<lambda>b. b),
     u256_ssz_bytes = concat \<circ> map (\<lambda>d. map (\<lambda>i. word_of_nat (unat d div 256 ^ i)) [0..<8]),
     vl_new = (\<lambda>n xs. if length xs \<le> n then Some xs else None),
     biguint_parse_bytes = Some \<circ> length,
     biguint_to_u64_digits = (\<lambda>n. u64_digits n n),
     biguint_from_bytes_le = (\<lambda>b. foldr (\<lambda>x n. unat x + 256 * n) b 0),
     biguint_to_str = (\<lambda>n. replicate n CHR ''1''),
     tree_hash_root = (\<lambda>t. replicate 32 0),
     keccak256 = (\<lambda>b. replicate 32 0)\<rparr>"

lemma demo_hex_laws: "hex_laws demo_codec"
  by (simp add: hex_laws_def demo_codec_def demo_hex_roundtrip demo_hex_lower demo_hex_length
      demo_hex_decode_length demo_hex_encode_decode)

lemma demo_json_laws: "json_laws demo_codec"
  by (simp add: json_laws_def demo_codec_def parse_enc parse_torn del: enc.simps printable.simps)

lemma demo_quoted_laws: "quoted_laws demo_codec"
  by (simp add: quoted_laws_def demo_codec_def)

lemma demo_ssz_laws: "ssz_laws demo_codec"
  by (simp add: ssz_laws_def demo_codec_def min_def)

lemma demo_serhex_laws: "serhex_laws demo_codec"
proof -
  have "strip_0x_prefix (demo_hex_encode b) = demo_hex_encode b" for b
    by (rule strip_lower_hex) (rule demo_hex_lower)
  then show ?thesis
    by (auto simp: serhex_laws_def demo_codec_def demo_hex_roundtrip split: option.splits if_splits)
qed

lemma demo_codec_laws: "codec_laws demo_codec"
  by (simp add: codec_laws_def demo_hex_laws demo_json_laws demo_quoted_laws demo_serhex_laws demo_ssz_laws)

lemma demo_hash_laws: "hash_laws demo_codec"
  by (simp add: hash_laws_def demo_codec_def)

lemma u64_digits_laws:
  assumes "n \<le> k"
  shows "u64_digits_val (u64_digits k n) = n \<and> (u64_digits k n \<noteq> [] \<longrightarrow> last (u64_digits k n) \<noteq> 0)"
  using assms
proof (induction k arbitrary: n)
  case (Suc k)
  show ?case
  proof (cases "n = 0")
    case False
    then have "n div 2 ^ 64 < n" by simp
    with Suc.prems have "n div 2 ^ 64 \<le> k" by linarith
    note IH = Suc.IH[OF this]
    have w: "unat (word_of_nat n :: u64) = n mod 2 ^ 64"
      by (simp add: unsigned_of_nat take_bit_eq_mod)
    have "word_of_nat n \<noteq> (0 :: u64)" if "u64_digits k (n div 2 ^ 64) = []"
    proof -
      have "n div 2 ^ 64 = 0" using IH that by simp
      then have "n mod 2 ^ 64 = n" by (simp add: div_eq_0_iff)
      with w False show ?thesis by (metis unsigned_0)
    qed
    with IH False w show ?thesis by (simp add: mod_mult_div_eq)
  qed simp
qed simp

lemma le_bytes_val:
  "foldr (\<lambda>x n. unat x + 256 * n) (map (\<lambda>i. word_of_nat (n div 256 ^ i) :: u8) [0..<k]) acc =
     n mod 256 ^ k + 256 ^ k * acc"
proof (induction k arbitrary: acc)
  case (Suc k)
  have "unat (word_of_nat (n div 256 ^ k) :: u8) = n div 256 ^ k mod 256"
    by (simp add: unsigned_of_nat take_bit_eq_mod)
  moreover have "n mod 256 ^ Suc k = 256 ^ k * (n div 256 ^ k mod 256) + n mod 256 ^ k"
    using mod_mult2_eq[of n "256 ^ k" 256] by (simp add: mult.commute)
  ultimately show ?case using Suc by (simp add: algebra_simps)
qed simp

lemma demo_biguint_laws: "biguint_laws demo_codec"
proof -
  have "foldr (\<lambda>x n. unat x + 256 * n)
      ((concat \<circ> map (\<lambda>d. map (\<lambda>i. word_of_nat (unat d div 256 ^ i) :: u8) [0..<8])) ds) 0 =
      u64_digits_val ds" for ds :: "u64 list"
  proof (induction ds)
    case (Cons d ds)
    have "unat d < 2 ^ 64" using unsigned_less[of d, where ?'a = nat] by simp
    then have "unat d mod 256 ^ 8 = unat d" by simp
    with Cons le_bytes_val[of "unat d" 8] show ?case by simp
  qed simp
  then show ?thesis
    using u64_digits_laws by (simp add: biguint_laws_def demo_codec_def is_utf8_def utf8_ascii)
qed

end
