(* ===== verification/Serde.thy ===== *)
theory Serde
  imports Codec
begin

text \<open>
  The custom serializers of src/eth2/eth_types.rs and the shape that
  \<open>#[derive(Serialize, Deserialize)]\<close> gives a struct with named fields. A
  deserializer takes a \<^typ>\<open>json\<close> value, a serializer gives one.
\<close>

section \<open>Primitive deserializers\<close>

definition de_str :: "json \<Rightarrow> string res" where
  "de_str j = (case j of JStr s \<Rightarrow> Ok s | _ \<Rightarrow> Err (External ''invalid type: expected a string''))"

definition de_quoted_u64 :: "codec \<Rightarrow> json \<Rightarrow> u64 res" where
  "de_quoted_u64 X j = ok_or ''quoted_u64'' (quoted_u64_de X j)"

definition de_serhex :: "codec \<Rightarrow> nat \<Rightarrow> json \<Rightarrow> bytes res" where
  "de_serhex X n j = rbind (de_str j) (\<lambda>s. ok_or ''serde_hex'' (serhex_from_hex X n s))"

text \<open>Their serializers, and those of a string and a number.\<close>

definition se_quoted_u64 :: "codec \<Rightarrow> u64 \<Rightarrow> json res" where
  "se_quoted_u64 X n = Ok (quoted_u64_ser X n)"

definition se_serhex :: "codec \<Rightarrow> bytes \<Rightarrow> json res" where
  "se_serhex X b = Ok (serhex_ser X b)"

definition se_string :: "string \<Rightarrow> json res" where
  "se_string s = Ok (JStr s)"

definition se_u64 :: "u64 \<Rightarrow> json res" where
  "se_u64 n = Ok (JNum n)"

definition se_bool :: "bool \<Rightarrow> json res" where
  "se_bool b = Ok (JBool b)"

section \<open>Custom serializers of eth\_types.rs\<close>

text \<open>
  The generic functions take the conversion of the target type as an argument:
  \<open>T::from\<close>, \<open>T::from_ssz_bytes\<close> and \<open>as_ssz_bytes\<close> come with \<open>T\<close>.
\<close>

definition from_hex_to_ssz_type :: "codec \<Rightarrow> (bytes \<Rightarrow> 'a) \<Rightarrow> json \<Rightarrow> 'a res" where
  "from_hex_to_ssz_type X from j =
     rbind (de_str j) (\<lambda>hex_str.
       let hex_str = strip_0x_prefix hex_str in
       case hex_decode X hex_str of
         Some bs \<Rightarrow> Ok (from bs)
       | None \<Rightarrow> Err (External ''Not valid hex''))"

definition to_hex_from_ssz_type :: "codec \<Rightarrow> ('a \<Rightarrow> bytes) \<Rightarrow> 'a \<Rightarrow> json res" where
  "to_hex_from_ssz_type X as_ssz_bytes data = Ok (JStr (''0x'' @ hex_encode X (as_ssz_bytes data)))"

definition from_hex_to_ssz_bits_type :: "codec \<Rightarrow> (bytes \<Rightarrow> 'a option) \<Rightarrow> json \<Rightarrow> 'a res" where
  "from_hex_to_ssz_bits_type X from_ssz_bytes j =
     rbind (de_str j) (\<lambda>hex_str.
       let hex_str = strip_0x_prefix hex_str in
       case hex_decode X hex_str of
         None \<Rightarrow> Err (External ''Not valid hex'')
       | Some bs \<Rightarrow>
           (case from_ssz_bytes (vec_ssz_bytes X bs) of
              Some out \<Rightarrow> Ok out
            | None \<Rightarrow> Err (External ''Filaed to deserialize hex string to BitList/BitVector'')))"

text \<open>\<open>Vec::<String>::deserialize\<close>.\<close>

definition de_string_vec :: "json \<Rightarrow> string list res" where
  "de_string_vec j = (case j of
       JArr js \<Rightarrow> mapM de_str js
     | _ \<Rightarrow> Err (External ''invalid type: expected a sequence''))"

text \<open>
  \<open>from_hex_vec_to_ssz_type\<close>: the outer \<open>expect\<close> and the final \<open>unwrap\<close> panic,
  the checks inside the loop are errors. The loop pushes onto \<open>res\<close>.
\<close>

fun hex_vec_loop :: "codec \<Rightarrow> string list \<Rightarrow> bytes list \<Rightarrow> bytes list res" where
  "hex_vec_loop X [] res = Ok res"
| "hex_vec_loop X (hex_str # rest) res =
     (case hex_decode X (strip_0x_prefix hex_str) of
        None \<Rightarrow> Err (External ''Not valid hex'')
      | Some bytes \<Rightarrow>
          (case fv_new X 48 bytes of
             None \<Rightarrow> Err (External ''Failed to create FixedVector'')
           | Some fv \<Rightarrow> hex_vec_loop X rest (res @ [fv])))"

definition from_hex_vec_to_ssz_type :: "codec \<Rightarrow> nat \<Rightarrow> json \<Rightarrow> bytes list res" where
  "from_hex_vec_to_ssz_type X N j =
     rbind (expect ''Failed to deserialize'' (de_string_vec j)) (\<lambda>hex_string_vec.
     rbind (hex_vec_loop X hex_string_vec []) (\<lambda>res.
     expect ''unwrap'' (ok_or ''VariableList::new'' (vl_new X N res))))"

definition to_hex_vec_from_ssz_type :: "codec \<Rightarrow> bytes list \<Rightarrow> json res" where
  "to_hex_vec_from_ssz_type X data =
     Ok (JArr (map (\<lambda>d. JStr (''0x'' @ hex_encode X (fv_ssz_bytes X d))) data))"

definition from_u256_string :: "codec \<Rightarrow> json \<Rightarrow> U256 res" where
  "from_u256_string X j =
     rbind (de_str j) (\<lambda>decimal_str.
       case biguint_parse_bytes X decimal_str of
         None \<Rightarrow> Err (External ''Invalid decimal string for U256'')
       | Some u \<Rightarrow>
           (let bytes = biguint_to_u64_digits X u in
            if length bytes \<noteq> 4
            then Err (External ''Decimal string doesn't match the required length for U256'')
            else Ok bytes))"

definition to_u256_string :: "codec \<Rightarrow> U256 \<Rightarrow> json res" where
  "to_u256_string X num =
     Ok (JStr (biguint_to_str X (biguint_from_bytes_le X (u256_ssz_bytes X num))))"

definition de_signing_root :: "codec \<Rightarrow> json \<Rightarrow> Root option res" where
  "de_signing_root X j =
     rbind (de_str j) (\<lambda>hex_string.
       if hex_string = [] then Ok None
       else case serhex_from_hex X 32 hex_string of
              Some bytes \<Rightarrow> Ok (Some (take 32 bytes))
            | None \<Rightarrow> Err (External ''Not valid hex''))"

text \<open>Assumes that the calling struct skips the field when it is none.\<close>

definition se_signing_root :: "codec \<Rightarrow> Root option \<Rightarrow> json res" where
  "se_signing_root X value = (case value of
       Some v \<Rightarrow> Ok (JStr (hex_encode X v))
     | None \<Rightarrow> Err (External ''Can't serialize None''))"

section \<open>Derived struct serialization\<close>

text \<open>
  A derived serializer emits an object with the fields in order; a field under
  \<open>skip_serializing_if = "Option::is_none"\<close> is left out when it is none.
\<close>

definition se_field :: "string \<Rightarrow> json res \<Rightarrow> (string \<times> json) list res \<Rightarrow> (string \<times> json) list res" where
  "se_field name v rest = rbind v (\<lambda>j. rbind rest (\<lambda>kvs. Ok ((name, j) # kvs)))"

definition se_skip_none ::
  "string \<Rightarrow> ('a option \<Rightarrow> json res) \<Rightarrow> 'a option \<Rightarrow> (string \<times> json) list res \<Rightarrow> (string \<times> json) list res"
where
  "se_skip_none name ser v rest = (if v = None then rest else se_field name (ser v) rest)"

definition se_struct :: "(string \<times> json) list res \<Rightarrow> json res" where
  "se_struct kvr = rbind kvr (\<lambda>kvs. Ok (JObj kvs))"

text \<open>
  A derived deserializer accepts an object (unknown fields are ignored, a known field
  twice is an error) or, from a self-describing format, an array of the fields in order.
  \<open>struct_fields names\<close> brings both into one form: for each field the value found, if
  any. A field without \<open>#[serde(default)]\<close> must be present.
\<close>

definition field_values :: "string \<Rightarrow> (string \<times> json) list \<Rightarrow> json list" where
  "field_values name kvs = map snd (filter (\<lambda>kv. fst kv = name) kvs)"

definition object_field :: "(string \<times> json) list \<Rightarrow> string \<Rightarrow> json option res" where
  "object_field kvs name = (case field_values name kvs of
       [] \<Rightarrow> Ok None
     | [v] \<Rightarrow> Ok (Some v)
     | _ \<Rightarrow> Err (External ''duplicate field''))"

definition struct_fields :: "string list \<Rightarrow> json \<Rightarrow> json option list res" where
  "struct_fields names j = (case j of
       JObj kvs \<Rightarrow> mapM (object_field kvs) names
     | JArr js \<Rightarrow>
         if length js \<le> length names
         then Ok (map Some js @ replicate (length names - length js) None)
         else Err (External ''trailing elements'')
     | _ \<Rightarrow> Err (External ''invalid type: expected a struct''))"

definition required :: "json option \<Rightarrow> (json \<Rightarrow> 'a res) \<Rightarrow> 'a res" where
  "required v de = (case v of None \<Rightarrow> Err (External ''missing field'') | Some j \<Rightarrow> de j)"

definition default_field :: "'a \<Rightarrow> json option \<Rightarrow> (json \<Rightarrow> 'a res) \<Rightarrow> 'a res" where
  "default_field d v de = (case v of None \<Rightarrow> Ok d | Some j \<Rightarrow> de j)"

text \<open>Numbers, booleans and byte arrays; a \<open>[u8; N]\<close> is an array of \<open>N\<close> numbers.\<close>

definition se_u8_array :: "bytes \<Rightarrow> json res" where
  "se_u8_array b = Ok (JArr (map (\<lambda>x. JNum (ucast x)) b))"

definition de_u8 :: "json \<Rightarrow> u8 res" where
  "de_u8 j = (case j of
       JNum n \<Rightarrow> if n < 256 then Ok (ucast n) else Err (External ''invalid value'')
     | _ \<Rightarrow> Err (External ''invalid type: expected u8''))"

definition de_u8_array :: "nat \<Rightarrow> json \<Rightarrow> bytes res" where
  "de_u8_array n j = (case j of
       JArr js \<Rightarrow> if length js \<noteq> n then Err (External ''invalid length'') else mapM de_u8 js
     | _ \<Rightarrow> Err (External ''invalid type: expected an array''))"

definition de_u64 :: "json \<Rightarrow> u64 res" where
  "de_u64 j = (case j of JNum n \<Rightarrow> Ok n | _ \<Rightarrow> Err (External ''invalid type: expected usize''))"

definition de_bool :: "json \<Rightarrow> bool res" where
  "de_bool j = (case j of JBool b \<Rightarrow> Ok b | _ \<Rightarrow> Err (External ''invalid type: expected bool''))"

text \<open>\<open>Vec<T>\<close> of deserializable elements.\<close>

definition de_vec :: "(json \<Rightarrow> 'a res) \<Rightarrow> json \<Rightarrow> 'a list res" where
  "de_vec de j = (case j of
       JArr js \<Rightarrow> mapM de js
     | _ \<Rightarrow> Err (External ''invalid type: expected a sequence''))"

definition se_vec :: "('a \<Rightarrow> json res) \<Rightarrow> 'a list \<Rightarrow> json res" where
  "se_vec se xs = rbind (mapM se xs) (\<lambda>js. Ok (JArr js))"

text \<open>Steps that a proof about a derived serializer takes again and again.\<close>

lemmas serde_defs =
  se_struct_def se_field_def se_skip_none_def required_def default_field_def
  struct_fields_def object_field_def field_values_def de_str_def de_quoted_u64_def de_serhex_def

section \<open>Round trips\<close>

lemma u8_array_roundtrip: "mapM de_u8 (map (\<lambda>x. JNum (ucast x)) b) = Ok b"
proof (induction b)
  case Nil
  then show ?case by simp
next
  case (Cons x b)
  have "(ucast x :: u64) < 256"
    using unsigned_less[of x, where ?'a = nat]
    by (simp add: word_less_nat_alt unsigned_ucast_eq take_bit_nat_eq_self)
  moreover have "ucast (ucast x :: u64) = x"
    by (simp add: word_eq_iff_unsigned unsigned_ucast_eq take_bit_word_eq_self)
  ultimately show ?case using Cons.IH by (simp add: de_u8_def)
qed

lemma hex_ssz_roundtrip:
  assumes "hex_laws X" "ssz_laws X" "length v = n"
  shows "\<exists>j. to_hex_from_ssz_type X (fv_ssz_bytes X) v = Ok j \<and> printable j \<and>
             from_hex_to_ssz_type X (fv_from X n) j = Ok v"
  using assms by (simp add: to_hex_from_ssz_type_def from_hex_to_ssz_type_def de_str_def)

lemma signing_root_roundtrip:
  assumes "hex_laws X" "serhex_laws X" "length v = 32"
  shows "se_signing_root X (Some v) = Ok (JStr (hex_encode X v))"
    and "de_signing_root X (JStr (hex_encode X v)) = Ok (Some v)"
  using assms by (auto simp: se_signing_root_def de_signing_root_def de_str_def)

text \<open>A value whose JSON form can be printed and is read as the same value.\<close>

definition the_ok :: "'a res \<Rightarrow> 'a" where
  "the_ok r = (case r of Ok x \<Rightarrow> x)"

lemma the_ok_Ok [simp]: "the_ok (Ok x) = x"
  by (simp add: the_ok_def)

lemma rbind_is_ok [simp]: "is_ok r \<Longrightarrow> rbind r f = f (the_ok r)"
  by (cases r) auto

definition json_codes :: "('a \<Rightarrow> json res) \<Rightarrow> (json \<Rightarrow> 'a res) \<Rightarrow> 'a \<Rightarrow> bool" where
  "json_codes se de v \<longleftrightarrow> is_ok (se v) \<and> printable (the_ok (se v)) \<and> de (the_ok (se v)) = Ok v"

lemma json_codesD:
  assumes "json_codes se de v"
  shows "is_ok (se v)" "printable (the_ok (se v))" "de (the_ok (se v)) = Ok v"
  using assms by (simp_all add: json_codes_def)

lemma json_codes_iff: "json_codes se de v \<longleftrightarrow> (\<exists>j. se v = Ok j \<and> printable j \<and> de j = Ok v)"
  by (cases "se v") (simp_all add: json_codes_def)

lemma is_utf8_Cons [simp]: "(of_char c :: nat) < 128 \<Longrightarrow> is_utf8 (c # s) = is_utf8 s"
  by (simp add: is_utf8_def)

lemma is_utf8_Nil [simp]: "is_utf8 []"
  by (simp add: is_utf8_def)

text \<open>An object whose names are distinct is read field by field.\<close>

lemma object_field_map_of:
  "distinct (map fst kvs) \<Longrightarrow> object_field kvs name = Ok (map_of kvs name)"
proof (induction kvs)
  case Nil
  then show ?case by (simp add: object_field_def field_values_def)
next
  case (Cons kv kvs)
  have "name \<notin> fst ` set kvs \<Longrightarrow> filter (\<lambda>kv. fst kv = name) kvs = []"
    by (auto simp: filter_empty_conv)
  with Cons show ?case
    by (cases kv) (auto simp: object_field_def field_values_def)
qed

lemma struct_fields_object:
  "distinct (map fst kvs) \<Longrightarrow> struct_fields names (JObj kvs) = Ok (map (map_of kvs) names)"
  unfolding struct_fields_def by (simp add: object_field_map_of mapM_Ok_map)

lemma is_ok_mapM [simp]: "is_ok (mapM f xs) \<longleftrightarrow> (\<forall>x \<in> set xs. is_ok (f x))"
proof (induction xs)
  case Nil
  then show ?case by simp
next
  case (Cons x xs)
  then show ?case by (cases "f x"; cases "mapM f xs") auto
qed

lemma mapM_the_ok: "\<forall>x \<in> set xs. is_ok (f x) \<Longrightarrow> mapM f xs = Ok (map (\<lambda>x. the_ok (f x)) xs)"
  by (induction xs) auto

lemma codes_vec:
  assumes "\<forall>x \<in> set xs. json_codes se de x"
  shows "json_codes (se_vec se) (de_vec de) xs"
proof -
  have ok: "\<forall>x \<in> set xs. is_ok (se x)" and pr: "\<forall>x \<in> set xs. printable (the_ok (se x))"
    and de: "\<forall>x \<in> set xs. de (the_ok (se x)) = Ok x"
    using assms by (auto simp: json_codes_def)
  have "mapM de (map (\<lambda>x. the_ok (se x)) xs) = Ok xs"
    using de by (induction xs) auto
  then show ?thesis
    using ok pr by (simp add: json_codes_def se_vec_def de_vec_def mapM_the_ok)
qed

text \<open>The leaves.\<close>

lemma codes_quoted: "codec_laws X \<Longrightarrow> json_codes (se_quoted_u64 X) (de_quoted_u64 X) n"
  by (simp add: json_codes_def se_quoted_u64_def de_quoted_u64_def codec_lawsD)

lemma codes_serhex: "codec_laws X \<Longrightarrow> length b = n \<Longrightarrow> json_codes (se_serhex X) (de_serhex X n) b"
  by (auto simp: json_codes_def se_serhex_def de_serhex_def de_str_def codec_laws_def serhex_laws_def)

lemma codes_hex_ssz:
  "codec_laws X \<Longrightarrow> length b = n \<Longrightarrow>
     json_codes (to_hex_from_ssz_type X (fv_ssz_bytes X)) (from_hex_to_ssz_type X (fv_from X n)) b"
  by (simp add: json_codes_def to_hex_from_ssz_type_def from_hex_to_ssz_type_def de_str_def codec_lawsD)

lemma codes_string: "is_utf8 s \<Longrightarrow> json_codes se_string de_str s"
  by (simp add: json_codes_def se_string_def de_str_def)

lemma codes_u64: "json_codes se_u64 de_u64 n"
  by (simp add: json_codes_def se_u64_def de_u64_def)

lemma codes_bool: "json_codes se_bool de_bool b"
  by (simp add: json_codes_def se_bool_def de_bool_def)

lemma codes_u8_list: "json_codes se_u8_array (de_vec de_u8) b"
  by (simp add: json_codes_def se_u8_array_def de_vec_def u8_array_roundtrip)

lemma codes_u8_array: "length b = n \<Longrightarrow> json_codes se_u8_array (de_u8_array n) b"
  by (simp add: json_codes_def se_u8_array_def de_u8_array_def u8_array_roundtrip)

text \<open>Both signs of an optional signing root.\<close>

lemma codes_root:
  "codec_laws X \<Longrightarrow> length b = 32 \<Longrightarrow>
     is_ok (se_signing_root X (Some b)) \<and> printable (the_ok (se_signing_root X (Some b))) \<and>
     de_signing_root X (the_ok (se_signing_root X (Some b))) = Ok (Some b)"
  by (auto simp: codec_lawsD signing_root_roundtrip)

text \<open>
  The element loop of \<open>from_hex_vec_to_ssz_type\<close> on the text its counterpart writes.
\<close>

lemma hex_vec_loop_roundtrip:
  assumes "hex_laws X" "ssz_laws X" "\<forall>v \<in> set vs. length v = 48"
  shows "hex_vec_loop X (map (\<lambda>d. ''0x'' @ hex_encode X d) vs) acc = Ok (acc @ vs)"
  using assms(3)
proof (induction vs arbitrary: acc)
  case Nil
  then show ?case by simp
next
  case (Cons v vs)
  have fv: "fv_new X 48 v = Some v"
    using Cons.prems assms(2) unfolding ssz_laws_def by auto
  have IH: "hex_vec_loop X (map (\<lambda>d. ''0x'' @ hex_encode X d) vs) (acc @ [v]) = Ok ((acc @ [v]) @ vs)"
    by (rule Cons.IH) (use Cons.prems in auto)
  show ?case using IH by (simp add: fv assms(1))
qed

section \<open>256-bit numbers\<close>

lemma u64_digits_val_upper: "u64_digits_val ds < 2 ^ (64 * length ds)"
proof (induction ds)
  case Nil
  then show ?case by simp
next
  case (Cons d ds)
  have d: "unat d < 2 ^ 64"
    using unsigned_less[of d, where ?'a = nat] by simp
  have "unat d + 2 ^ 64 * u64_digits_val ds < 2 ^ 64 * Suc (u64_digits_val ds)"
    using d by simp
  also have "\<dots> \<le> 2 ^ 64 * 2 ^ (64 * length ds)"
    using Cons.IH by (intro mult_le_mono) auto
  finally show ?case by (simp add: power_add)
qed

lemma u64_digits_val_lower:
  "ds \<noteq> [] \<Longrightarrow> last ds \<noteq> 0 \<Longrightarrow> 2 ^ (64 * (length ds - 1)) \<le> u64_digits_val ds"
proof (induction ds)
  case Nil
  then show ?case by simp
next
  case (Cons d ds)
  show ?case
  proof (cases "ds = []")
    case True
    with Cons.prems have "unat d \<noteq> 0" by (simp add: unat_eq_0)
    with True show ?thesis by simp
  next
    case False
    with Cons have IH: "2 ^ (64 * (length ds - 1)) \<le> u64_digits_val ds" by simp
    from False have "64 * (length (d # ds) - 1) = 64 + 64 * (length ds - 1)"
      by (cases ds) auto
    then have "2 ^ (64 * (length (d # ds) - 1)) = (2 ^ 64 * 2 ^ (64 * (length ds - 1)) :: nat)"
      by (simp add: power_add)
    also have "\<dots> \<le> 2 ^ 64 * u64_digits_val ds"
      using IH by (intro mult_le_mono) auto
    finally show ?thesis by simp
  qed
qed

text \<open>
  \<open>to_u64_digits\<close> has exactly four digits where the number needs its top digit, that
  is from \<open>2 ^ 192\<close> to \<open>2 ^ 256 - 1\<close>.
\<close>

lemma to_u64_digits_length_4:
  assumes "biguint_laws X"
  shows "length (biguint_to_u64_digits X n) = 4 \<longleftrightarrow> 2 ^ 192 \<le> n \<and> n < 2 ^ 256"
proof -
  define ds where "ds = biguint_to_u64_digits X n"
  have val: "u64_digits_val ds = n" and last: "ds \<noteq> [] \<Longrightarrow> last ds \<noteq> 0"
    using assms by (auto simp: ds_def biguint_laws_def)
  have up: "n < 2 ^ (64 * length ds)"
    using u64_digits_val_upper[of ds] val by simp
  have low: "ds \<noteq> [] \<Longrightarrow> 2 ^ (64 * (length ds - 1)) \<le> n"
    using u64_digits_val_lower[of ds] last val by simp
  have "length ds = 4" if b: "2 ^ 192 \<le> n" "n < 2 ^ 256"
  proof -
    have "(2::nat) ^ 192 < 2 ^ (64 * length ds)"
      using b(1) up by (rule le_less_trans)
    then have l: "192 < 64 * length ds" by (simp only: power_strict_increasing_iff)
    then have "ds \<noteq> []" by auto
    then have "(2::nat) ^ (64 * (length ds - 1)) < 2 ^ 256"
      using low b(2) by (meson le_less_trans)
    then have "64 * (length ds - 1) < 256" by (simp only: power_strict_increasing_iff)
    with l show ?thesis by simp
  qed
  moreover have "2 ^ 192 \<le> n \<and> n < 2 ^ 256" if "length ds = 4"
    using that up low by (cases ds) auto
  ultimately show ?thesis by (auto simp: ds_def)
qed

end
