(* ===== verification/Slash_Protection.thy ===== *)
theory Slash_Protection
  imports Serde "HOL-Library.Product_Order"
begin

text \<open>
  src/eth2/slash_protection.rs: the EIP-3076 data of one validator, its two guards
  (blocks by slot, attestations by source and target epoch), its JSON form and its file.
  The interface \<open>protection_gate\<close> states what a guard promises to the signer that
  asks it before every signature; both guards are interpreted as one.
\<close>

section \<open>Data\<close>

record SlashingProtectionMetaData =
  interchange_format_version :: string
  genesis_validators_root :: Root

record SignedAttestationEpochs =
  source_epoch :: Epoch
  target_epoch :: Epoch
  sae_signing_root :: "Root option"

record SignedBlockSlot =
  slot :: Slot
  sbs_signing_root :: "Root option"

record SlashingProtectionData =
  pubkey :: BLSPubkey
  signed_blocks :: "SignedBlockSlot list"
  signed_attestations :: "SignedAttestationEpochs list"

record SlashingProtectionDB =
  metadata :: SlashingProtectionMetaData
  title :: "string option"
  description :: "string option"
  data :: "SlashingProtectionData list"

definition SLASHING_PROTECTION_DIR :: string where
  "SLASHING_PROTECTION_DIR = ''./data/slashing/''"

section \<open>Operations on the data\<close>

definition spd_new :: "BLSPubkey \<Rightarrow> SlashingProtectionData" where
  "spd_new pk = \<lparr>pubkey = pk, signed_blocks = [], signed_attestations = []\<rparr>"

definition from_pk_hex :: "codec \<Rightarrow> string \<Rightarrow> SlashingProtectionData res" where
  "from_pk_hex X pk_hex =
     (let pk_hex = strip_0x_prefix pk_hex in
      rbind (ok_or ''hex::decode'' (hex_decode X pk_hex)) (\<lambda>pk_bytes.
      let pk_bytes = fv_from X 48 pk_bytes in
      Ok (spd_new pk_bytes)))"

definition get_latest_signed_block_slot :: "SlashingProtectionData \<Rightarrow> Slot" where
  "get_latest_signed_block_slot d =
     (case max_by_key slot (signed_blocks d) of None \<Rightarrow> 0 | Some s \<Rightarrow> slot s)"

definition is_slashable_block_slot :: "SlashingProtectionData \<Rightarrow> Slot \<Rightarrow> bool" where
  "is_slashable_block_slot d s =
     (let last_slot = get_latest_signed_block_slot d in s \<le> last_slot)"

definition new_block :: "SignedBlockSlot \<Rightarrow> bool \<Rightarrow> (SlashingProtectionData, unit) eff" where
  "new_block block growable d =
     (if slot block \<le> get_latest_signed_block_slot d
      then (Err (Bail ''Will not save this slashable Block!''), d)
      else if growable \<or> signed_blocks d = []
      then (Ok (), d\<lparr>signed_blocks := signed_blocks d @ [block]\<rparr>)
      else (Ok (), d\<lparr>signed_blocks := (signed_blocks d)[0 := block]\<rparr>))"

definition get_latest_signed_attestation_epochs :: "SlashingProtectionData \<Rightarrow> Epoch \<times> Epoch" where
  "get_latest_signed_attestation_epochs d =
     (let latest_src = (case max_by_key source_epoch (signed_attestations d) of
                          None \<Rightarrow> 0 | Some s \<Rightarrow> source_epoch s);
          latest_tgt = (case max_by_key target_epoch (signed_attestations d) of
                          None \<Rightarrow> 0 | Some s \<Rightarrow> target_epoch s)
      in (latest_src, latest_tgt))"

definition is_slashable_attestation_epochs ::
  "SlashingProtectionData \<Rightarrow> Epoch \<Rightarrow> Epoch \<Rightarrow> bool" where
  "is_slashable_attestation_epochs d src tgt =
     (let (last_src, last_tgt) = get_latest_signed_attestation_epochs d in
      src < last_src \<or> tgt \<le> last_tgt)"

definition new_attestation ::
  "SignedAttestationEpochs \<Rightarrow> bool \<Rightarrow> (SlashingProtectionData, unit) eff" where
  "new_attestation attest growable d =
     (let (prev_src, prev_tgt) = get_latest_signed_attestation_epochs d in
      if source_epoch attest < prev_src
      then (Err (Bail ''Will not save this slashable Attestation!''), d)
      else if target_epoch attest \<le> prev_tgt
      then (Err (Bail ''Will not save this slashable Attestation!''), d)
      else if growable \<or> signed_attestations d = []
      then (Ok (), d\<lparr>signed_attestations := signed_attestations d @ [attest]\<rparr>)
      else (Ok (), d\<lparr>signed_attestations := (signed_attestations d)[0 := attest]\<rparr>))"

section \<open>JSON form\<close>

definition se_attestation :: "codec \<Rightarrow> SignedAttestationEpochs \<Rightarrow> json res" where
  "se_attestation X a =
     se_struct
       (se_field ''source_epoch'' (Ok (quoted_u64_ser X (source_epoch a)))
       (se_field ''target_epoch'' (Ok (quoted_u64_ser X (target_epoch a)))
       (se_skip_none ''signing_root'' (se_signing_root X) (sae_signing_root a)
       (Ok []))))"

definition de_attestation :: "codec \<Rightarrow> json \<Rightarrow> SignedAttestationEpochs res" where
  "de_attestation X j =
     rbind (struct_fields [''source_epoch'', ''target_epoch'', ''signing_root''] j) (\<lambda>vs.
     rbind (required (vs ! 0) (de_quoted_u64 X)) (\<lambda>src.
     rbind (required (vs ! 1) (de_quoted_u64 X)) (\<lambda>tgt.
     rbind (default_field None (vs ! 2) (de_signing_root X)) (\<lambda>root.
     Ok \<lparr>source_epoch = src, target_epoch = tgt, sae_signing_root = root\<rparr>))))"

definition se_block :: "codec \<Rightarrow> SignedBlockSlot \<Rightarrow> json res" where
  "se_block X b =
     se_struct
       (se_field ''slot'' (Ok (quoted_u64_ser X (slot b)))
       (se_skip_none ''signing_root'' (se_signing_root X) (sbs_signing_root b)
       (Ok [])))"

definition de_block :: "codec \<Rightarrow> json \<Rightarrow> SignedBlockSlot res" where
  "de_block X j =
     rbind (struct_fields [''slot'', ''signing_root''] j) (\<lambda>vs.
     rbind (required (vs ! 0) (de_quoted_u64 X)) (\<lambda>s.
     rbind (default_field None (vs ! 1) (de_signing_root X)) (\<lambda>root.
     Ok \<lparr>slot = s, sbs_signing_root = root\<rparr>)))"

definition se_data :: "codec \<Rightarrow> SlashingProtectionData \<Rightarrow> json res" where
  "se_data X d =
     se_struct
       (se_field ''pubkey'' (to_hex_from_ssz_type X (fv_ssz_bytes X) (pubkey d))
       (se_field ''signed_blocks'' (se_vec (se_block X) (signed_blocks d))
       (se_field ''signed_attestations'' (se_vec (se_attestation X) (signed_attestations d))
       (Ok []))))"

definition de_data :: "codec \<Rightarrow> json \<Rightarrow> SlashingProtectionData res" where
  "de_data X j =
     rbind (struct_fields [''pubkey'', ''signed_blocks'', ''signed_attestations''] j) (\<lambda>vs.
     rbind (required (vs ! 0) (from_hex_to_ssz_type X (fv_from X 48))) (\<lambda>pk.
     rbind (required (vs ! 1) (de_vec (de_block X))) (\<lambda>bs.
     rbind (required (vs ! 2) (de_vec (de_attestation X))) (\<lambda>as.
     Ok \<lparr>pubkey = pk, signed_blocks = bs, signed_attestations = as\<rparr>))))"

text \<open>The whole-database form, with the metadata of EIP-3076.\<close>

definition de_metadata :: "codec \<Rightarrow> json \<Rightarrow> SlashingProtectionMetaData res" where
  "de_metadata X j =
     rbind (struct_fields [''interchange_format_version'', ''genesis_validators_root''] j) (\<lambda>vs.
     rbind (required (vs ! 0) de_str) (\<lambda>v.
     rbind (required (vs ! 1) (de_serhex X 32)) (\<lambda>r.
     Ok \<lparr>interchange_format_version = v, genesis_validators_root = r\<rparr>)))"

text \<open>An absent \<open>Option\<close> field and a null one are both none.\<close>

definition de_option :: "(json \<Rightarrow> 'a res) \<Rightarrow> json \<Rightarrow> 'a option res" where
  "de_option de j = (case j of JNull \<Rightarrow> Ok None | _ \<Rightarrow> rbind (de j) (\<lambda>x. Ok (Some x)))"

definition de_db :: "codec \<Rightarrow> json \<Rightarrow> SlashingProtectionDB res" where
  "de_db X j =
     rbind (struct_fields [''metadata'', ''title'', ''description'', ''data''] j) (\<lambda>vs.
     rbind (required (vs ! 0) (de_metadata X)) (\<lambda>m.
     rbind (default_field None (vs ! 1) (de_option de_str)) (\<lambda>t.
     rbind (default_field None (vs ! 2) (de_option de_str)) (\<lambda>c.
     rbind (required (vs ! 3) (de_vec (de_data X))) (\<lambda>ds.
     Ok \<lparr>metadata = m, title = t, description = c, data = ds\<rparr>)))))"

definition db_new :: SlashingProtectionDB where
  "db_new = \<lparr>
     metadata = \<lparr>interchange_format_version = ''5'', genesis_validators_root = replicate 32 0\<rparr>,
     title = None, description = None, data = []\<rparr>"

definition db_from_str :: "codec \<Rightarrow> string \<Rightarrow> SlashingProtectionDB res" where
  "db_from_str X s = rbind (ok_or ''serde_json'' (json_from_slice X s)) (de_db X)"

section \<open>The file of a validator\<close>

definition spd_write :: "codec \<Rightarrow> SlashingProtectionData \<Rightarrow> (world, unit) eff" where
  "spd_write X d =
     (let fname = hex_encode X (fv_ssz_bytes X (pubkey d));
          file_path = path_collect [SLASHING_PROTECTION_DIR, fname]
      in ebind (case parent file_path of
                  Some p \<Rightarrow> in_context ''Failed to create slashing dir'' (create_dir_all p)
                | None \<Rightarrow> ret ()) (\<lambda>_.
         ebind (lift (rbind (se_data X d) (\<lambda>j. Ok (json_to_string X j)))) (\<lambda>json.
         in_context ''failed to write protection data'' (fs_write file_path json))))"

definition spd_read :: "codec \<Rightarrow> string \<Rightarrow> (world, SlashingProtectionData) eff" where
  "spd_read X pk_hex =
     (let pk_hex = strip_0x_prefix pk_hex;
          file_path = path_collect [SLASHING_PROTECTION_DIR, pk_hex]
      in ebind (fs_read file_path) (\<lambda>json_vec.
         in_context ''failed to read protection data''
           (lift (rbind (ok_or ''serde_json'' (json_from_slice X json_vec)) (de_data X)))))"

section \<open>The guards\<close>

lemma latest_block: "get_latest_signed_block_slot d = latest slot (signed_blocks d)"
  by (simp add: get_latest_signed_block_slot_def latest_def)

lemma latest_attestation:
  "get_latest_signed_attestation_epochs d =
     (latest source_epoch (signed_attestations d), latest target_epoch (signed_attestations d))"
  by (simp add: get_latest_signed_attestation_epochs_def latest_def)

text \<open>
  Storing an entry above the watermark makes its key the watermark, both where the list
  grows and where its first entry is overwritten.
\<close>

lemma latest_singleton [simp]: "latest k [b] = k b"
  by (simp add: latest_def)

lemma latest_append: "latest k xs \<le> k b \<Longrightarrow> latest k (xs @ [b]) = k b"
  by (rule latest_eq) (auto intro: order_trans[OF latest_ge])

lemma latest_overwrite: "xs \<noteq> [] \<Longrightarrow> latest k xs \<le> k b \<Longrightarrow> latest k (xs[0 := b]) = k b"
  by (rule latest_eq) (auto simp: set_update_memI dest!: set_update_subset_insert[THEN subsetD]
      intro: order_trans[OF latest_ge])

text \<open>What is on record, as seen by the guards: a slot, and a pair of epochs.\<close>

definition block_covered :: "SlashingProtectionData \<Rightarrow> SignedBlockSlot \<Rightarrow> bool" where
  "block_covered d b \<longleftrightarrow> slot b \<le> get_latest_signed_block_slot d"

definition epochs :: "SignedAttestationEpochs \<Rightarrow> Epoch \<times> Epoch" where
  "epochs a = (source_epoch a, target_epoch a)"

definition attestation_covered :: "SlashingProtectionData \<Rightarrow> SignedAttestationEpochs \<Rightarrow> bool" where
  "attestation_covered d a \<longleftrightarrow> epochs a \<le> get_latest_signed_attestation_epochs d"

text \<open>
  The slashing conditions of the consensus specification: two proposals for one slot;
  two attestations with one target, or one whose vote surrounds the other's.
\<close>

definition double_proposal :: "SignedBlockSlot \<Rightarrow> SignedBlockSlot \<Rightarrow> bool" where
  "double_proposal a b \<longleftrightarrow> slot a = slot b"

definition surrounds :: "SignedAttestationEpochs \<Rightarrow> SignedAttestationEpochs \<Rightarrow> bool" where
  "surrounds a b \<longleftrightarrow> source_epoch a < source_epoch b \<and> target_epoch b < target_epoch a"

definition slashable_pair :: "SignedAttestationEpochs \<Rightarrow> SignedAttestationEpochs \<Rightarrow> bool" where
  "slashable_pair a b \<longleftrightarrow> target_epoch a = target_epoch b \<or> surrounds a b \<or> surrounds b a"

lemma new_block_Ok:
  assumes "new_block b g d = (Ok (), d')"
  shows "get_latest_signed_block_slot d < slot b"
    "get_latest_signed_block_slot d' = slot b"
    "signed_attestations d' = signed_attestations d" "pubkey d' = pubkey d"
  using assms
  by (auto simp: new_block_def latest_block latest_append latest_overwrite split: if_splits)

lemma new_block_iff:
  "fst (new_block b g d) = Ok () \<longleftrightarrow> \<not> is_slashable_block_slot d (slot b)"
  by (simp add: new_block_def is_slashable_block_slot_def)

lemma new_block_refused: "fst (new_block b g d) \<noteq> Ok () \<Longrightarrow> snd (new_block b g d) = d"
  by (auto simp: new_block_def)

lemma new_attestation_Ok:
  assumes "new_attestation a g d = (Ok (), d')"
  shows "fst (get_latest_signed_attestation_epochs d) \<le> source_epoch a"
    "snd (get_latest_signed_attestation_epochs d) < target_epoch a"
    "get_latest_signed_attestation_epochs d' = epochs a"
    "signed_blocks d' = signed_blocks d" "pubkey d' = pubkey d"
  using assms
  by (auto simp: new_attestation_def latest_attestation epochs_def not_less not_le
      latest_append latest_overwrite split: if_splits)

lemma new_attestation_iff:
  "fst (new_attestation a g d) = Ok () \<longleftrightarrow>
     \<not> is_slashable_attestation_epochs d (source_epoch a) (target_epoch a)"
  by (simp add: new_attestation_def is_slashable_attestation_epochs_def latest_attestation)

lemma new_attestation_refused:
  "fst (new_attestation a g d) \<noteq> Ok () \<Longrightarrow> snd (new_attestation a g d) = d"
  by (auto simp: new_attestation_def latest_attestation)

section \<open>The interface of a guard\<close>

text \<open>
  A client offers entries one after the other and acts on those accepted.
\<close>

fun offer_all :: "('e \<Rightarrow> ('d, unit) eff) \<Rightarrow> 'e list \<Rightarrow> 'd \<Rightarrow> 'e list \<times> 'd" where
  "offer_all offer [] d = ([], d)"
| "offer_all offer (e # es) d =
     (case offer e d of
        (Ok _, d') \<Rightarrow> (case offer_all offer es d' of (acc, d'') \<Rightarrow> (e # acc, d''))
      | (_, d') \<Rightarrow> offer_all offer es d')"

locale protection_gate =
  fixes offer :: "'e \<Rightarrow> ('d, unit) eff"
    and slashable :: "'d \<Rightarrow> 'e \<Rightarrow> bool"
    and covered :: "'d \<Rightarrow> 'e \<Rightarrow> bool"
    and conflict :: "'e \<Rightarrow> 'e \<Rightarrow> bool"
  assumes offer_iff: "fst (offer e d) = Ok () \<longleftrightarrow> \<not> slashable d e"
    and offer_refused: "fst (offer e d) \<noteq> Ok () \<Longrightarrow> snd (offer e d) = d"
    and offer_covers: "offer e d = (Ok (), d') \<Longrightarrow> covered d' e"
    and offer_keeps: "offer e d = (Ok (), d') \<Longrightarrow> covered d x \<Longrightarrow> covered d' x"
    and covered_safe: "covered d old \<Longrightarrow> \<not> slashable d new \<Longrightarrow> \<not> conflict old new"
begin

text \<open>The check a client makes first and the check of the update agree.\<close>

lemma offer_cases:
  obtains (accepted) d' where "offer e d = (Ok (), d')" "\<not> slashable d e" "covered d' e"
  | (refused) r where "offer e d = (r, d)" "r \<noteq> Ok ()" "slashable d e"
proof (cases "fst (offer e d) = Ok ()")
  case True
  then have "offer e d = (Ok (), snd (offer e d))" by (metis prod.collapse)
  with True show ?thesis using accepted offer_iff offer_covers by metis
next
  case False
  then show ?thesis using refused offer_iff offer_refused by (metis prod.collapse)
qed

lemma accepted_safe:
  assumes "offer_all offer es d = (acc, d')"
  shows "(\<forall>old. covered d old \<longrightarrow> (\<forall>new \<in> set acc. \<not> conflict old new) \<and> covered d' old) \<and>
         sorted_wrt (\<lambda>old new. \<not> conflict old new) acc"
  using assms
proof (induction es arbitrary: d acc)
  case Nil
  then show ?case by simp
next
  case (Cons e es)
  show ?case
  proof (cases rule: offer_cases[of e d])
    case (accepted d1)
    obtain acc' where rec: "offer_all offer es d1 = (acc', d')" and acc: "acc = e # acc'"
      using Cons.prems accepted by (auto split: prod.splits)
    note IH = Cons.IH[OF rec]
    have "\<not> conflict old e" if "covered d old" for old
      using that accepted covered_safe by blast
    moreover have "covered d1 old" if "covered d old" for old
      using that accepted offer_keeps by blast
    ultimately show ?thesis using IH accepted(3) by (auto simp: acc)
  next
    case (refused r)
    then have "offer_all offer es d = (acc, d')"
      using Cons.prems by (cases r) auto
    then show ?thesis by (rule Cons.IH)
  qed
qed

end

lemma new_block_covers:
  assumes "new_block b g d = (Ok (), d')"
  shows "block_covered d' b" "block_covered d x \<Longrightarrow> block_covered d' x"
  using new_block_Ok(1,2)[OF assms] by (auto simp: block_covered_def)

lemma new_attestation_covers:
  assumes "new_attestation a g d = (Ok (), d')"
  shows "attestation_covered d' a" "attestation_covered d x \<Longrightarrow> attestation_covered d' x"
  using new_attestation_Ok(1,2,3)[OF assms]
  by (auto simp: attestation_covered_def epochs_def less_eq_prod_def)

lemma block_covered_safe:
  "block_covered d old \<Longrightarrow> \<not> is_slashable_block_slot d (slot new) \<Longrightarrow> \<not> double_proposal old new"
  by (auto simp: block_covered_def is_slashable_block_slot_def double_proposal_def)

lemma attestation_covered_safe:
  "attestation_covered d old \<Longrightarrow>
   \<not> is_slashable_attestation_epochs d (source_epoch new) (target_epoch new) \<Longrightarrow>
   \<not> slashable_pair old new"
  by (auto simp: attestation_covered_def is_slashable_attestation_epochs_def slashable_pair_def
      surrounds_def epochs_def less_eq_prod_def latest_attestation)

interpretation block_gate: protection_gate
  "\<lambda>b. new_block b g" "\<lambda>d b. is_slashable_block_slot d (slot b)" block_covered double_proposal
  for g
  by unfold_locales
    (rule new_block_iff new_block_refused new_block_covers block_covered_safe; assumption?)+

interpretation attestation_gate: protection_gate
  "\<lambda>a. new_attestation a g"
  "\<lambda>d a. is_slashable_attestation_epochs d (source_epoch a) (target_epoch a)"
  attestation_covered slashable_pair
  for g
  by unfold_locales
    (rule new_attestation_iff new_attestation_refused new_attestation_covers
      attestation_covered_safe; assumption?)+

section \<open>JSON round trip\<close>

definition root_ok :: "Root option \<Rightarrow> bool" where
  "root_ok r \<longleftrightarrow> (case r of None \<Rightarrow> True | Some v \<Rightarrow> length v = 32)"

text \<open>The lengths the Rust types fix: a 48-byte public key, 32-byte signing roots.\<close>

definition wf_spd :: "SlashingProtectionData \<Rightarrow> bool" where
  "wf_spd d \<longleftrightarrow> length (pubkey d) = 48 \<and>
     (\<forall>b \<in> set (signed_blocks d). root_ok (sbs_signing_root b)) \<and>
     (\<forall>a \<in> set (signed_attestations d). root_ok (sae_signing_root a))"

text \<open>A serializer and a deserializer that agree on a value.\<close>

definition json_agree :: "('a \<Rightarrow> json res) \<Rightarrow> (json \<Rightarrow> 'a res) \<Rightarrow> 'a \<Rightarrow> bool" where
  "json_agree se de x \<longleftrightarrow> (\<exists>j. se x = Ok j \<and> printable j \<and> de j = Ok x)"

lemma json_agree_vec:
  assumes "\<forall>x \<in> set xs. json_agree se de x"
  shows "json_agree (se_vec se) (de_vec de) xs"
proof -
  have "\<exists>js. mapM se xs = Ok js \<and> (\<forall>j \<in> set js. printable j) \<and> mapM de js = Ok xs"
    using assms
  proof (induction xs)
    case Nil
    then show ?case by simp
  next
    case (Cons x xs)
    then obtain j js where "se x = Ok j" "printable j" "de j = Ok x"
      "mapM se xs = Ok js" "\<forall>j \<in> set js. printable j" "mapM de js = Ok xs"
      by (auto simp: json_agree_def)
    then have "mapM se (x # xs) = Ok (j # js)" "\<forall>j \<in> set (j # js). printable j"
      "mapM de (j # js) = Ok (x # xs)"
      by simp_all
    then show ?case by blast
  qed
  then show ?thesis by (auto simp: json_agree_def se_vec_def de_vec_def)
qed

lemma utf8_field_names [simp]:
  "is_utf8 ''slot''" "is_utf8 ''signing_root''" "is_utf8 ''source_epoch''"
  "is_utf8 ''target_epoch''" "is_utf8 ''pubkey''" "is_utf8 ''signed_blocks''"
  "is_utf8 ''signed_attestations''"
  by (simp_all add: is_utf8_def)

lemma json_agree_block:
  assumes X: "codec_laws X" and r: "root_ok (sbs_signing_root b)"
  shows "json_agree (se_block X) (de_block X) b"
proof (cases "sbs_signing_root b")
  case None
  with codec_lawsD[OF X] show ?thesis
    by (cases b) (simp add: json_agree_def se_block_def de_block_def serde_defs)
next
  case (Some v)
  with r have v: "length v = 32" by (simp add: root_ok_def)
  from Some codec_lawsD[OF X] signing_root_roundtrip[OF _ _ v, of X] show ?thesis
    by (cases b) (simp add: json_agree_def se_block_def de_block_def serde_defs)
qed

lemma json_agree_attestation:
  assumes X: "codec_laws X" and r: "root_ok (sae_signing_root a)"
  shows "json_agree (se_attestation X) (de_attestation X) a"
proof (cases "sae_signing_root a")
  case None
  with codec_lawsD[OF X] show ?thesis
    by (cases a) (simp add: json_agree_def se_attestation_def de_attestation_def serde_defs)
next
  case (Some v)
  with r have v: "length v = 32" by (simp add: root_ok_def)
  from Some codec_lawsD[OF X] signing_root_roundtrip[OF _ _ v, of X] show ?thesis
    by (cases a) (simp add: json_agree_def se_attestation_def de_attestation_def serde_defs)
qed

lemma se_data_object:
  assumes X: "codec_laws X" and d: "wf_spd d"
  shows "\<exists>kvs. se_data X d = Ok (JObj kvs) \<and> printable (JObj kvs) \<and> de_data X (JObj kvs) = Ok d"
proof -
  from d have "\<forall>b \<in> set (signed_blocks d). json_agree (se_block X) (de_block X) b"
    "\<forall>a \<in> set (signed_attestations d). json_agree (se_attestation X) (de_attestation X) a"
    using json_agree_block[OF X] json_agree_attestation[OF X] by (auto simp: wf_spd_def)
  then obtain jb ja where
    jb: "se_vec (se_block X) (signed_blocks d) = Ok jb" "printable jb"
      "de_vec (de_block X) jb = Ok (signed_blocks d)" and
    ja: "se_vec (se_attestation X) (signed_attestations d) = Ok ja" "printable ja"
      "de_vec (de_attestation X) ja = Ok (signed_attestations d)"
    using json_agree_vec[of "signed_blocks d" "se_block X" "de_block X"]
      json_agree_vec[of "signed_attestations d" "se_attestation X" "de_attestation X"]
    by (auto simp: json_agree_def[of "se_vec (se_block X)"] json_agree_def[of "se_vec (se_attestation X)"])
  obtain jp where jp: "to_hex_from_ssz_type X (fv_ssz_bytes X) (pubkey d) = Ok jp" "printable jp"
      "from_hex_to_ssz_type X (fv_from X 48) jp = Ok (pubkey d)"
    using hex_ssz_roundtrip[of X "pubkey d" 48] codec_lawsD[OF X] d by (auto simp: wf_spd_def)
  from jb ja jp show ?thesis
    by (cases d) (simp add: se_data_def de_data_def serde_defs)
qed

section \<open>The file\<close>

definition slash_dir :: path where
  "slash_dir = [''.'', ''data'', ''slashing'']"

definition spd_text :: "codec \<Rightarrow> SlashingProtectionData \<Rightarrow> string" where
  "spd_text X d = (case se_data X d of Ok j \<Rightarrow> json_to_string X j | _ \<Rightarrow> [])"

definition spd_parse :: "codec \<Rightarrow> string \<Rightarrow> SlashingProtectionData res" where
  "spd_parse X s = rbind (ok_or ''serde_json'' (json_from_slice X s)) (de_data X)"

text \<open>What is read back has the lengths of the types.\<close>

lemma de_signing_root_ok:
  "serhex_laws X \<Longrightarrow> de_signing_root X j = Ok r \<Longrightarrow> root_ok r"
  unfolding serhex_laws_def
  by (auto simp: de_signing_root_def res_simps root_ok_def split: if_splits option.splits)

lemma default_root_ok:
  "serhex_laws X \<Longrightarrow> default_field None v (de_signing_root X) = Ok r \<Longrightarrow> root_ok r"
  by (auto simp: default_field_def root_ok_def dest: de_signing_root_ok split: option.splits)

lemma de_block_ok: "serhex_laws X \<Longrightarrow> de_block X j = Ok b \<Longrightarrow> root_ok (sbs_signing_root b)"
  by (auto simp: de_block_def res_simps dest: default_root_ok)

lemma de_attestation_ok: "serhex_laws X \<Longrightarrow> de_attestation X j = Ok a \<Longrightarrow> root_ok (sae_signing_root a)"
  by (auto simp: de_attestation_def res_simps dest: default_root_ok)

lemma required_vec_all:
  assumes "required v (de_vec de) = Ok xs" "\<And>j x. de j = Ok x \<Longrightarrow> P x"
  shows "\<forall>x \<in> set xs. P x"
proof -
  obtain js where "mapM de js = Ok xs"
    using assms(1) by (auto simp: required_def de_vec_def split: option.splits json.splits)
  then show ?thesis
    using assms(2) by (fastforce simp: mapM_Ok_iff in_set_conv_nth)
qed

lemma spd_parse_wf:
  assumes "codec_laws X" "spd_parse X s = Ok d"
  shows "wf_spd d"
proof -
  note L = codec_lawsD[OF assms(1)]
  obtain j where "de_data X j = Ok d"
    using assms(2) by (auto simp: spd_parse_def res_simps)
  then obtain vp vb va where
    p: "required vp (from_hex_to_ssz_type X (fv_from X 48)) = Ok (pubkey d)" and
    b: "required vb (de_vec (de_block X)) = Ok (signed_blocks d)" and
    a: "required va (de_vec (de_attestation X)) = Ok (signed_attestations d)"
    by (auto simp: de_data_def res_simps)
  have "\<exists>y. fv_from X 48 y = pubkey d"
    using p by (auto simp: required_def from_hex_to_ssz_type_def res_simps Let_def split: option.splits)
  then have "length (pubkey d) = 48"
    using ssz_simps(1)[OF L(5)] by metis
  moreover have "\<forall>x \<in> set (signed_blocks d). root_ok (sbs_signing_root x)"
    by (rule required_vec_all[OF b]) (rule de_block_ok[OF L(4)])
  moreover have "\<forall>x \<in> set (signed_attestations d). root_ok (sae_signing_root x)"
    by (rule required_vec_all[OF a]) (rule de_attestation_ok[OF L(4)])
  ultimately show ?thesis by (simp add: wf_spd_def)
qed

lemma path_of_slash_dir: "path_of SLASHING_PROTECTION_DIR = slash_dir"
  by (simp add: path_of_def SLASHING_PROTECTION_DIR_def is_absolute_def normal_comps_def slash_dir_def)

lemma path_collect_slash: "path_collect [SLASHING_PROTECTION_DIR, n] = path_push slash_dir n"
  by (simp add: path_collect_def path_push_def path_of_slash_dir)

lemma slash_dir_not_Nil [simp]: "slash_dir \<noteq> []"
  by (simp add: slash_dir_def)

lemma spd_parse_text: "codec_laws X \<Longrightarrow> wf_spd d \<Longrightarrow> spd_parse X (spd_text X d) = Ok d"
  using se_data_object[of X d] codec_lawsD(2)[of X] by (auto simp: spd_text_def spd_parse_def)

text \<open>
  What is left by a write that was cut short is unreadable or, when only the report of
  success was lost, the whole record: never an older or a mixed one.
\<close>

lemma spd_parse_torn:
  assumes X: "codec_laws X" and d: "wf_spd d" and p: "spd_parse X (take n (spd_text X d)) = Ok d'"
  shows "d' = d"
proof -
  obtain kvs where k: "se_data X d = Ok (JObj kvs)" "printable (JObj kvs)"
    using se_data_object[OF X d] by blast
  then have t: "spd_text X d = json_to_string X (JObj kvs)" by (simp add: spd_text_def)
  have "\<not> n < length (spd_text X d)"
    using p k json_torn[OF codec_lawsD(2)[OF X] k(2), of n] by (auto simp: t spd_parse_def)
  with p spd_parse_text[OF X d] show ?thesis by simp
qed

lemma spd_read_Ok:
  assumes "spd_read X pk w = (Ok d, w')"
  shows "\<exists>s. lookup w (path_push slash_dir (strip_0x_prefix pk)) = Some s \<and> spd_parse X s = Ok d"
    "lookup w' = lookup w"
  using assms unfolding spd_read_def Let_def path_collect_slash
  by (auto simp: res_simps spd_parse_def dest!: fs_read_Ok)

lemma spd_read_lookup [io_simps]: "lookup (snd (spd_read X pk w)) = lookup w"
  unfolding spd_read_def Let_def
  by (rule ebind_keeps) (simp_all add: io_simps)

lemma path_slash_plain [simp]: "plain n \<Longrightarrow> path_push slash_dir n = slash_dir @ [n]"
  by simp

lemma spd_write_eq:
  assumes X: "codec_laws X" and d: "wf_spd d"
  shows "spd_write X d =
     ebind (in_context ''Failed to create slashing dir'' (create_dir_all slash_dir)) (\<lambda>_.
       in_context ''failed to write protection data''
         (fs_write (slash_dir @ [hex_encode X (pubkey d)]) (spd_text X d)))"
proof -
  have ne: "pubkey d \<noteq> []" using d by (auto simp: wf_spd_def)
  have path: "path_collect [SLASHING_PROTECTION_DIR, hex_encode X (fv_ssz_bytes X (pubkey d))] =
      slash_dir @ [hex_encode X (pubkey d)]"
    using codec_lawsD(1,5)[OF X] plain_hex_encode[OF codec_lawsD(1)[OF X] ne]
    by (simp add: path_collect_slash)
  have json: "rbind (se_data X d) (\<lambda>j. Ok (json_to_string X j)) = Ok (spd_text X d)"
    using se_data_object[OF X d] by (auto simp: spd_text_def)
  show ?thesis
    unfolding spd_write_def Let_def path json by simp
qed

text \<open>
  A write changes at most the validator's own file, and leaves in it the new text or,
  when it fails, possibly a prefix of it.
\<close>

lemma spd_write_effect:
  assumes X: "codec_laws X" and d: "wf_spd d" and w: "spd_write X d w = (r, w')"
  defines "p \<equiv> slash_dir @ [hex_encode X (pubkey d)]"
  shows "r = Ok () \<Longrightarrow> lookup w' = (lookup w)(p \<mapsto> spd_text X d)"
    and "lookup w' = lookup w \<or> (\<exists>n. lookup w' = (lookup w)(p \<mapsto> take n (spd_text X d)))"
proof -
  obtain r1 w1 where c: "create_dir_all slash_dir w = (r1, w1)" by fastforce
  have l1: "lookup w1 = lookup w"
    using create_dir_all_lookup[of slash_dir w] by (simp add: c)
  obtain r2 w2 where f: "fs_write p (spd_text X d) w1 = (r2, w2)" by fastforce
  have run: "(r, w') = (case r1 of
      Ok _ \<Rightarrow> (with_context ''failed to write protection data'' r2, w2)
    | Err e \<Rightarrow> (Err (Context ''Failed to create slashing dir'' e), w1)
    | Panic m \<Rightarrow> (Panic m, w1))"
    using w f unfolding spd_write_eq[OF X d] p_def
    by (cases r1) (auto simp: ebind_def in_context_def c)
  show "lookup w' = (lookup w)(p \<mapsto> spd_text X d)" if "r = Ok ()"
    using run that f l1 fs_write_Ok[of p "spd_text X d" w1 "()" w']
    by (cases r1; cases r2) auto
  show "lookup w' = lookup w \<or> (\<exists>n. lookup w' = (lookup w)(p \<mapsto> take n (spd_text X d)))"
    using run fs_write_any[OF f] l1 by (cases r1) auto
qed

lemma spd_write_no_panic [simp]:
  "codec_laws X \<Longrightarrow> wf_spd d \<Longrightarrow> fst (spd_write X d w) \<noteq> Panic m"
  by (simp add: spd_write_eq) (rule ebind_no_panic, simp_all)

end
