(* ===== verification/Eth_Signing.thy ===== *)
theory Eth_Signing
  imports Codec
begin

text \<open>
  src/eth2/eth_signing.rs: signature domains and signing roots, and the signing messages
  of the Web3Signer interface with their two spellings of every type tag.
\<close>

section \<open>Roots and domains\<close>

definition compute_signing_root :: "codec \<Rightarrow> tree_obj \<Rightarrow> Domain \<Rightarrow> Root" where
  "compute_signing_root X ssz_object domain =
     (let object_root = tree_hash_root X ssz_object;
          sign_data = \<lparr>sd_object_root = object_root, sd_domain = domain\<rparr>
      in tree_hash_root X (TSigningData sign_data))"

definition compute_fork_data_root :: "codec \<Rightarrow> Version \<Rightarrow> Root \<Rightarrow> Root" where
  "compute_fork_data_root X current_version gvr =
     (let f = \<lparr>fd_current_version = current_version, fd_genesis_validators_root = gvr\<rparr>
      in tree_hash_root X (TForkData f))"

definition compute_epoch_at_slot :: "Slot \<Rightarrow> Epoch" where
  "compute_epoch_at_slot s = s div SLOTS_PER_EPOCH"

text \<open>
  \<open>compute_domain\<close> fills an array: first the bytes of the domain type one by one, then
  the tail \<open>d[4..32]\<close> from the fork data root, as far as both reach.
\<close>

fun copy_indexed :: "nat \<Rightarrow> 'a list \<Rightarrow> 'a list \<Rightarrow> 'a list" where
  "copy_indexed i [] d = d"
| "copy_indexed i (v # vs) d = copy_indexed (Suc i) vs (d[i := v])"

fun zip_assign :: "'a list \<Rightarrow> 'a list \<Rightarrow> 'a list" where
  "zip_assign (s # ss) (v # vs) = v # zip_assign ss vs"
| "zip_assign ss vs = ss"

definition compute_domain :: "codec \<Rightarrow> DomainType \<Rightarrow> Version option \<Rightarrow> Root option \<Rightarrow> Domain" where
  "compute_domain X domain_type fork_version gvr =
     (let fv = (case fork_version of Some v \<Rightarrow> v | None \<Rightarrow> GENESIS_FORK_VERSION);
          gvr = (case gvr of Some r \<Rightarrow> r | None \<Rightarrow> replicate 32 0);
          fork_data_root = compute_fork_data_root X fv gvr;
          d = replicate 32 0;
          d = copy_indexed 0 domain_type d
      in take 4 d @ zip_assign (drop 4 d) (take 28 fork_data_root))"

definition get_domain :: "codec \<Rightarrow> ForkInfo \<Rightarrow> DomainType \<Rightarrow> Epoch option \<Rightarrow> Domain" where
  "get_domain X fork_info domain_type epoch =
     (let epoch = (case epoch of Some e \<Rightarrow> e | None \<Rightarrow> fork_epoch (fi_fork fork_info));
          fork_version = (if epoch < fork_epoch (fi_fork fork_info)
                          then fork_previous_version (fi_fork fork_info)
                          else fork_current_version (fi_fork fork_info))
      in compute_domain X domain_type (Some fork_version)
           (Some (fi_genesis_validators_root fork_info)))"

section \<open>Messages\<close>

datatype BLSSignMsg =
    BLOCK BlockRequest
  | BLOCK_V2 BlockV2Request
  | ATTESTATION AttestationRequest
  | RANDAO_REVEAL RandaoRevealRequest
  | AGGREGATE_AND_PROOF AggregateAndProofRequest
  | AGGREGATION_SLOT AggregationSlotRequest
  | DEPOSIT DepositRequest
  | VOLUNTARY_EXIT VoluntaryExitRequest
  | SYNC_COMMITTEE_MESSAGE SyncCommitteeMessageRequest
  | SYNC_COMMITTEE_SELECTION_PROOF SyncCommitteeSelectionProofRequest
  | SYNC_COMMITTEE_CONTRIBUTION_AND_PROOF SyncCommitteeContributionAndProofRequest
  | VALIDATOR_REGISTRATION ValidatorRegistrationRequest
  | block BlockRequest
  | block_v2 BlockV2Request
  | attestation AttestationRequest
  | randao_reveal RandaoRevealRequest
  | aggregate_and_proof AggregateAndProofRequest
  | aggregation_slot AggregationSlotRequest
  | deposit DepositRequest
  | voluntary_exit VoluntaryExitRequest
  | sync_committee_message SyncCommitteeMessageRequest
  | sync_committee_selection_proof SyncCommitteeSelectionProofRequest
  | sync_committee_contribution_and_proof SyncCommitteeContributionAndProofRequest
  | validator_registration ValidatorRegistrationRequest

fun can_be_slashed :: "BLSSignMsg \<Rightarrow> bool" where
  "can_be_slashed (BLOCK _) = True"
| "can_be_slashed (block _) = True"
| "can_be_slashed (BLOCK_V2 _) = True"
| "can_be_slashed (block_v2 _) = True"
| "can_be_slashed (ATTESTATION _) = True"
| "can_be_slashed (attestation _) = True"
| "can_be_slashed _ = False"

text \<open>
  The arms of \<open>to_signing_root\<close>, one definition per arm and the match over the
  constructors after them.
\<close>

definition root_block :: "codec \<Rightarrow> BlockRequest \<Rightarrow> Root" where
  "root_block X m =
     (let domain = get_domain X (br_fork_info m) DOMAIN_BEACON_PROPOSER
                     (Some (compute_epoch_at_slot (bb_slot (br_block m))))
      in compute_signing_root X (TBeaconBlock (br_block m)) domain)"

definition root_block_v2 :: "codec \<Rightarrow> BlockV2Request \<Rightarrow> Root" where
  "root_block_v2 X m =
     (let domain = get_domain X (b2r_fork_info m) DOMAIN_BEACON_PROPOSER
                     (Some (compute_epoch_at_slot (bbh_slot (b2w_block_header (b2r_beacon_block m)))))
      in compute_signing_root X (TBeaconBlockHeader (b2w_block_header (b2r_beacon_block m))) domain)"

definition root_attestation :: "codec \<Rightarrow> AttestationRequest \<Rightarrow> Root" where
  "root_attestation X m =
     (let domain = get_domain X (ar_fork_info m) DOMAIN_BEACON_ATTESTER
                     (Some (cp_epoch (ad_target (ar_attestation m))))
      in compute_signing_root X (TAttestationData (ar_attestation m)) domain)"

definition root_randao_reveal :: "codec \<Rightarrow> RandaoRevealRequest \<Rightarrow> Root" where
  "root_randao_reveal X m =
     (let domain = get_domain X (rrr_fork_info m) DOMAIN_RANDAO
                     (Some (rr_epoch (rrr_randao_reveal m)))
      in compute_signing_root X (TU64 (rr_epoch (rrr_randao_reveal m))) domain)"

definition root_aggregate_and_proof :: "codec \<Rightarrow> AggregateAndProofRequest \<Rightarrow> Root" where
  "root_aggregate_and_proof X m =
     (let epoch = compute_epoch_at_slot (ad_slot (att_data (aap_aggregate (apr_aggregate_and_proof m))));
          domain = get_domain X (apr_fork_info m) DOMAIN_AGGREGATE_AND_PROOF (Some epoch)
      in compute_signing_root X (TAggregateAndProof (apr_aggregate_and_proof m)) domain)"

definition root_aggregation_slot :: "codec \<Rightarrow> AggregationSlotRequest \<Rightarrow> Root" where
  "root_aggregation_slot X m =
     (let epoch = compute_epoch_at_slot (asl_slot (asr_aggregation_slot m));
          domain = get_domain X (asr_fork_info m) DOMAIN_SELECTION_PROOF (Some epoch)
      in compute_signing_root X (TU64 (asl_slot (asr_aggregation_slot m))) domain)"

definition root_deposit :: "codec \<Rightarrow> DepositRequest \<Rightarrow> Root" where
  "root_deposit X m =
     (let domain = compute_domain X DOMAIN_DEPOSIT (Some (dr_genesis_fork_version m)) None
      in compute_signing_root X (TDepositMessage (dr_deposit m)) domain)"

definition root_voluntary_exit :: "codec \<Rightarrow> VoluntaryExitRequest \<Rightarrow> Root" where
  "root_voluntary_exit X m =
     (let domain = get_domain X (ver_fork_info m) DOMAIN_VOLUNTARY_EXIT
                     (Some (ve_epoch (ver_voluntary_exit m)))
      in compute_signing_root X (TVoluntaryExit (ver_voluntary_exit m)) domain)"

definition root_sync_committee_message :: "codec \<Rightarrow> SyncCommitteeMessageRequest \<Rightarrow> Root" where
  "root_sync_committee_message X m =
     (let epoch = compute_epoch_at_slot (smw_slot (smr_sync_committee_message m));
          domain = get_domain X (smr_fork_info m) DOMAIN_SYNC_COMMITTEE (Some epoch)
      in compute_signing_root X (TRoot (smw_beacon_block_root (smr_sync_committee_message m))) domain)"

definition root_sync_committee_selection_proof ::
  "codec \<Rightarrow> SyncCommitteeSelectionProofRequest \<Rightarrow> Root" where
  "root_sync_committee_selection_proof X m =
     (let epoch = compute_epoch_at_slot (sasd_slot (spr_sync_aggregator_selection_data m));
          domain = get_domain X (spr_fork_info m) DOMAIN_SYNC_COMMITTEE_SELECTION_PROOF (Some epoch)
      in compute_signing_root X
           (TSyncAggregatorSelectionData (spr_sync_aggregator_selection_data m)) domain)"

definition root_sync_committee_contribution_and_proof ::
  "codec \<Rightarrow> SyncCommitteeContributionAndProofRequest \<Rightarrow> Root" where
  "root_sync_committee_contribution_and_proof X m =
     (let epoch = compute_epoch_at_slot (scc_slot (cap_contribution (scr_contribution_and_proof m)));
          domain = get_domain X (scr_fork_info m) DOMAIN_CONTRIBUTION_AND_PROOF (Some epoch)
      in compute_signing_root X (TContributionAndProof (scr_contribution_and_proof m)) domain)"

definition root_validator_registration ::
  "codec \<Rightarrow> Version option \<Rightarrow> ValidatorRegistrationRequest \<Rightarrow> Root" where
  "root_validator_registration X genesis_fork_version m =
     (let domain = compute_domain X DOMAIN_APPLICATION_BUILDER genesis_fork_version None
      in compute_signing_root X (TValidatorRegistration (vrr_validator_registration m)) domain)"

fun to_signing_root :: "codec \<Rightarrow> BLSSignMsg \<Rightarrow> Version option \<Rightarrow> Root" where
  "to_signing_root X (BLOCK m) gfv = root_block X m"
| "to_signing_root X (block m) gfv = root_block X m"
| "to_signing_root X (BLOCK_V2 m) gfv = root_block_v2 X m"
| "to_signing_root X (block_v2 m) gfv = root_block_v2 X m"
| "to_signing_root X (ATTESTATION m) gfv = root_attestation X m"
| "to_signing_root X (attestation m) gfv = root_attestation X m"
| "to_signing_root X (RANDAO_REVEAL m) gfv = root_randao_reveal X m"
| "to_signing_root X (randao_reveal m) gfv = root_randao_reveal X m"
| "to_signing_root X (AGGREGATE_AND_PROOF m) gfv = root_aggregate_and_proof X m"
| "to_signing_root X (aggregate_and_proof m) gfv = root_aggregate_and_proof X m"
| "to_signing_root X (AGGREGATION_SLOT m) gfv = root_aggregation_slot X m"
| "to_signing_root X (aggregation_slot m) gfv = root_aggregation_slot X m"
| "to_signing_root X (DEPOSIT m) gfv = root_deposit X m"
| "to_signing_root X (deposit m) gfv = root_deposit X m"
| "to_signing_root X (VOLUNTARY_EXIT m) gfv = root_voluntary_exit X m"
| "to_signing_root X (voluntary_exit m) gfv = root_voluntary_exit X m"
| "to_signing_root X (SYNC_COMMITTEE_MESSAGE m) gfv = root_sync_committee_message X m"
| "to_signing_root X (sync_committee_message m) gfv = root_sync_committee_message X m"
| "to_signing_root X (SYNC_COMMITTEE_SELECTION_PROOF m) gfv = root_sync_committee_selection_proof X m"
| "to_signing_root X (sync_committee_selection_proof m) gfv = root_sync_committee_selection_proof X m"
| "to_signing_root X (SYNC_COMMITTEE_CONTRIBUTION_AND_PROOF m) gfv =
     root_sync_committee_contribution_and_proof X m"
| "to_signing_root X (sync_committee_contribution_and_proof m) gfv =
     root_sync_committee_contribution_and_proof X m"
| "to_signing_root X (VALIDATOR_REGISTRATION m) gfv = root_validator_registration X gfv m"
| "to_signing_root X (validator_registration m) gfv = root_validator_registration X gfv m"

section \<open>Domains: the array loops against the specification\<close>

text \<open>
  The consensus specification: \<open>domain_type + fork_data_root[:28]\<close>.
\<close>

lemma copy_indexed_append:
  "length pre = i \<Longrightarrow> length vs \<le> length d \<Longrightarrow>
     copy_indexed i vs (pre @ d) = pre @ vs @ drop (length vs) d"
proof (induction vs arbitrary: i pre d)
  case Nil
  then show ?case by simp
next
  case (Cons v vs)
  then obtain e d' where d: "d = e # d'" by (cases d) auto
  have "copy_indexed i (v # vs) (pre @ d) = copy_indexed (Suc i) vs ((pre @ [v]) @ d')"
    using Cons.prems by (simp add: d list_update_append)
  also have "\<dots> = (pre @ [v]) @ vs @ drop (length vs) d'"
    using Cons.prems by (intro Cons.IH) (auto simp: d)
  finally show ?case by (simp add: d)
qed

lemma zip_assign_append:
  "length vs \<le> length ss \<Longrightarrow> zip_assign ss vs = vs @ drop (length vs) ss"
  by (induction ss vs rule: zip_assign.induct) auto

lemma compute_domain_spec:
  assumes "length dt = 4" "hash_laws X"
  shows "compute_domain X dt fv gvr =
     dt @ take 28 (compute_fork_data_root X
       (case fv of Some v \<Rightarrow> v | None \<Rightarrow> GENESIS_FORK_VERSION)
       (case gvr of Some r \<Rightarrow> r | None \<Rightarrow> replicate 32 0))"
proof -
  have l: "length (compute_fork_data_root X v r) = 32" for v r
    using assms(2) by (simp add: compute_fork_data_root_def)
  have "copy_indexed 0 dt (replicate 32 (0::u8)) = dt @ replicate 28 0"
    using copy_indexed_append[of "[]" 0 dt "replicate 32 0"] assms(1) by simp
  then show ?thesis
    using assms(1) l by (simp add: compute_domain_def Let_def zip_assign_append)
qed

lemma length_domain_types [simp]:
  "length DOMAIN_BEACON_PROPOSER = 4" "length DOMAIN_BEACON_ATTESTER = 4"
  "length DOMAIN_RANDAO = 4" "length DOMAIN_DEPOSIT = 4" "length DOMAIN_VOLUNTARY_EXIT = 4"
  "length DOMAIN_SELECTION_PROOF = 4" "length DOMAIN_AGGREGATE_AND_PROOF = 4"
  "length DOMAIN_SYNC_COMMITTEE = 4" "length DOMAIN_SYNC_COMMITTEE_SELECTION_PROOF = 4"
  "length DOMAIN_CONTRIBUTION_AND_PROOF = 4" "length DOMAIN_APPLICATION_BUILDER = 4"
  by (simp_all add: domain_types)

end
