(* ===== verification/Key_Management.thy ===== *)
theory Key_Management
  imports Codec
begin

text \<open>
  src/io/key_management.rs: secret keys in files named after their public keys, one
  directory for ETH keys and one for BLS keys. The interface \<open>key_store\<close> states what
  a store of keys promises to its clients (crypto/eth\_keys.rs, crypto/bls\_keys.rs and the
  enclaves); the ETH and the BLS store are interpreted as one. The encrypted keystore of
  the \<open>eth_keystore\<close> crate is a parameter.
\<close>

section \<open>Constants\<close>

definition KEYS_DIR :: string where
  "KEYS_DIR = ''./data/keys/''"
definition BLS_KEYS_DIR :: string where
  "BLS_KEYS_DIR = ''./data/keys/bls_keys/''"
definition ETH_KEYS_DIR :: string where
  "ETH_KEYS_DIR = ''./data/keys/eth_keys/''"

section \<open>The eth\_keystore crate\<close>

text \<open>
  \<open>encrypt_key\<close> writes an encrypted keystore into a directory under a given name and
  returns its id; \<open>decrypt_key\<close> reads one back, \<open>decrypt_keystore\<close> works on the
  text of one.
\<close>

record keystore_crate =
  encrypt_key :: "path \<Rightarrow> nat \<Rightarrow> bytes \<Rightarrow> string \<Rightarrow> string option \<Rightarrow> (world, string) eff"
  decrypt_key :: "path \<Rightarrow> string \<Rightarrow> (world, bytes) eff"
  decrypt_keystore :: "string \<Rightarrow> string \<Rightarrow> bytes res"

definition keystore_laws :: "keystore_crate \<Rightarrow> bool" where
  "keystore_laws K \<longleftrightarrow>
     (\<forall>d r sk pw name w uuid w'. encrypt_key K d r sk pw (Some name) w = (Ok uuid, w') \<longrightarrow>
        (\<exists>s. lookup w' = (lookup w)(path_push d name \<mapsto> s) \<and> decrypt_keystore K s pw = Ok sk)) \<and>
     (\<forall>p pw w s. quiet w \<longrightarrow> lookup w p = Some s \<longrightarrow> decrypt_key K p pw w = (decrypt_keystore K s pw, w))"

section \<open>Writing and reading keys\<close>

definition write_key :: "path \<Rightarrow> string \<Rightarrow> (world, unit) eff" where
  "write_key file_path sk_hex =
     ebind (case parent file_path of
              Some p \<Rightarrow> in_context ''Failed to create keys dir'' (create_dir_all p)
            | None \<Rightarrow> ret ()) (\<lambda>_.
     in_context ''failed to write sk'' (fs_write file_path sk_hex))"

definition write_eth_key :: "string \<Rightarrow> string \<Rightarrow> (world, unit) eff" where
  "write_eth_key pk_hex sk_hex =
     (let pk_hex = strip_0x_prefix pk_hex;
          sk_hex = strip_0x_prefix sk_hex;
          file_path = path_collect [ETH_KEYS_DIR, pk_hex]
      in write_key file_path sk_hex)"

definition write_bls_key :: "string \<Rightarrow> string \<Rightarrow> (world, unit) eff" where
  "write_bls_key pk_hex sk_hex =
     (let pk_hex = strip_0x_prefix pk_hex;
          sk_hex = strip_0x_prefix sk_hex;
          file_path = path_collect [BLS_KEYS_DIR, pk_hex]
      in write_key file_path sk_hex)"

definition write_bls_keystore ::
  "keystore_crate \<Rightarrow> string \<Rightarrow> bytes \<Rightarrow> string \<Rightarrow> (world, string) eff" where
  "write_bls_keystore K pk_hex sk password =
     ebind (in_context ''Failed to create keys dir'' (create_dir_all (path_of BLS_KEYS_DIR))) (\<lambda>_.
     let pk_hex = strip_0x_prefix pk_hex in
     ebind draw (\<lambda>r.
     encrypt_key K (path_of BLS_KEYS_DIR) r sk password (Some pk_hex)))"

definition read_key :: "codec \<Rightarrow> path \<Rightarrow> (world, bytes) eff" where
  "read_key X file_path =
     ebind (in_context ''Unable to read secret key'' (fs_read file_path)) (\<lambda>sk_rec_bytes.
     in_context ''Unable to hex-decode secret key''
       (lift (ok_or ''hex::decode'' (hex_decode X sk_rec_bytes))))"

definition read_eth_key :: "codec \<Rightarrow> string \<Rightarrow> (world, bytes) eff" where
  "read_eth_key X pk_hex =
     (let pk_hex = strip_0x_prefix pk_hex;
          file_path = path_collect [ETH_KEYS_DIR, pk_hex]
      in read_key X file_path)"

definition read_bls_key :: "codec \<Rightarrow> string \<Rightarrow> (world, bytes) eff" where
  "read_bls_key X pk_hex =
     (let pk_hex = strip_0x_prefix pk_hex;
          file_path = path_collect [BLS_KEYS_DIR, pk_hex]
      in read_key X file_path)"

definition read_bls_keystore :: "keystore_crate \<Rightarrow> string \<Rightarrow> string \<Rightarrow> (world, bytes) eff" where
  "read_bls_keystore K pk_hex password =
     (let pk_hex = strip_0x_prefix pk_hex;
          file_path = path_collect [BLS_KEYS_DIR, pk_hex]
      in decrypt_key K file_path password)"

section \<open>Deleting, testing, listing\<close>

definition delete_key :: "path \<Rightarrow> (world, unit) eff" where
  "delete_key file_path = in_context ''failed to delete key at'' (remove_file file_path)"

definition delete_eth_key :: "string \<Rightarrow> (world, unit) eff" where
  "delete_eth_key pk_hex =
     (let pk_hex = strip_0x_prefix pk_hex;
          file_path = path_collect [ETH_KEYS_DIR, pk_hex]
      in delete_key file_path)"

definition delete_bls_key :: "string \<Rightarrow> (world, unit) eff" where
  "delete_bls_key pk_hex =
     (let pk_hex = strip_0x_prefix pk_hex;
          file_path = path_collect [BLS_KEYS_DIR, pk_hex]
      in delete_key file_path)"

definition key_exists :: "path \<Rightarrow> (world, bool) eff" where
  "key_exists file_path = exists_path file_path"

definition eth_key_exists :: "string \<Rightarrow> (world, bool) eff" where
  "eth_key_exists pk_hex =
     (let pk_hex = strip_0x_prefix pk_hex;
          file_path = path_collect [ETH_KEYS_DIR, pk_hex]
      in key_exists file_path)"

definition bls_key_exists :: "string \<Rightarrow> (world, bool) eff" where
  "bls_key_exists pk_hex =
     (let pk_hex = strip_0x_prefix pk_hex;
          file_path = path_collect [BLS_KEYS_DIR, pk_hex]
      in key_exists file_path)"

text \<open>
  The loop of \<open>list_fnames\<close>: each directory entry is fetched in its own call, which
  can fail, and its name must be UTF-8.
\<close>

fun list_loop :: "string list \<Rightarrow> string list \<Rightarrow> (world, string list) eff" where
  "list_loop [] ks w = (Ok ks, w)"
| "list_loop (fname # rest) ks w =
     (case next_fault w of
        (NoFault, w') \<Rightarrow>
          if is_utf8 fname then list_loop rest (ks @ [fname]) w'
          else (Err (Bail ''Error, bad file name in list_keys()''), w')
      | (_, w') \<Rightarrow> (Err (Bail ''failed to find path''), w'))"

definition list_fnames :: "string \<Rightarrow> (world, string list) eff" where
  "list_fnames path_to_dir =
     ebind (in_context ''No keys saved in dir'' (read_dir (path_of path_to_dir))) (\<lambda>paths.
     list_loop paths [])"

definition list_bls_keys :: "(world, string list) eff" where
  "list_bls_keys = list_fnames BLS_KEYS_DIR"

definition list_eth_keys :: "(world, string list) eff" where
  "list_eth_keys = list_fnames ETH_KEYS_DIR"

section \<open>The directories\<close>

definition bls_dir :: path where
  "bls_dir = [''.'', ''data'', ''keys'', ''bls_keys'']"
definition eth_dir :: path where
  "eth_dir = [''.'', ''data'', ''keys'', ''eth_keys'']"

lemma path_of_dirs:
  "path_of BLS_KEYS_DIR = bls_dir" "path_of ETH_KEYS_DIR = eth_dir"
  by (simp_all add: path_of_def BLS_KEYS_DIR_def ETH_KEYS_DIR_def is_absolute_def
      normal_comps_def bls_dir_def eth_dir_def)

lemma dirs_not_Nil [simp]: "bls_dir \<noteq> []" "eth_dir \<noteq> []" "bls_dir \<noteq> eth_dir" "eth_dir \<noteq> bls_dir"
  by (simp_all add: bls_dir_def eth_dir_def)

lemma path_collect_keys:
  "path_collect [BLS_KEYS_DIR, n] = path_push bls_dir n"
  "path_collect [ETH_KEYS_DIR, n] = path_push eth_dir n"
  by (simp_all add: path_collect_def path_push_def path_of_dirs)

definition bls_file :: "string \<Rightarrow> path" where
  "bls_file pk_hex = path_push bls_dir (strip_0x_prefix pk_hex)"
definition eth_file :: "string \<Rightarrow> path" where
  "eth_file pk_hex = path_push eth_dir (strip_0x_prefix pk_hex)"

lemmas key_store_defs =
  write_bls_key_def write_eth_key_def read_bls_key_def read_eth_key_def delete_bls_key_def
  delete_eth_key_def bls_key_exists_def eth_key_exists_def

section \<open>Effects of the shared operations\<close>

lemma write_key_Ok: "write_key p s w = (Ok (), w') \<Longrightarrow> lookup w' = (lookup w)(p \<mapsto> s)"
  using create_dir_all_lookup
  by (fastforce simp: write_key_def res_simps dest!: fs_write_Ok split: option.splits
      dest: arg_cong[where f = snd])

lemma write_key_any:
  assumes "write_key p s w = (r, w')"
  shows "lookup w' = lookup w \<or> (\<exists>n. lookup w' = (lookup w)(p \<mapsto> take n s))"
proof -
  define m where "m = (case parent p of
      Some q \<Rightarrow> in_context ''Failed to create keys dir'' (create_dir_all q) | None \<Rightarrow> ret ())"
  obtain r1 w1 where m: "m w = (r1, w1)" by fastforce
  have l1: "lookup w1 = lookup w"
  proof -
    have "lookup (snd (m w)) = lookup w" by (simp add: m_def io_simps split: option.split)
    with m show ?thesis by simp
  qed
  obtain r2 w2 where f: "fs_write p s w1 = (r2, w2)" by fastforce
  have "w' = (case r1 of Ok _ \<Rightarrow> w2 | _ \<Rightarrow> w1)"
    using assms m f by (cases r1) (auto simp: write_key_def m_def[symmetric] ebind_def in_context_def)
  then show ?thesis
    using l1 fs_write_any[OF f] by (cases r1) auto
qed

lemma read_key_Ok:
  "read_key X p w = (Ok b, w') \<Longrightarrow>
     (\<exists>s. lookup w p = Some s \<and> hex_decode X s = Some b) \<and> lookup w' = lookup w"
  by (auto simp: read_key_def res_simps dest!: fs_read_Ok)

lemma read_key_lookup [io_simps]: "lookup (snd (read_key X p w)) = lookup w"
  unfolding read_key_def by (rule ebind_keeps) (simp_all add: io_simps)

lemma read_key_quiet:
  "quiet w \<Longrightarrow> lookup w p = Some s \<Longrightarrow> hex_decode X s = Some b \<Longrightarrow> read_key X p w = (Ok b, w)"
  by (simp add: read_key_def ebind_def in_context_def fs_read_quiet)

section \<open>The interface of a key store\<close>

text \<open>
  The operations a client calls and what they promise about the file \<open>key_file pk\<close> of a
  key, in any world (errors included) and in a world without faults.
\<close>

locale key_store =
  fixes X :: codec
    and key_file :: "string \<Rightarrow> path"
    and wr :: "string \<Rightarrow> string \<Rightarrow> (world, unit) eff"
    and rd :: "string \<Rightarrow> (world, bytes) eff"
    and del :: "string \<Rightarrow> (world, unit) eff"
    and ex :: "string \<Rightarrow> (world, bool) eff"
  assumes file_0x: "strip_0x_prefix pk = pk \<Longrightarrow> key_file (''0x'' @ pk) = key_file pk"
    and wr_Ok: "wr pk sk w = (Ok (), w') \<Longrightarrow> lookup w' = (lookup w)(key_file pk \<mapsto> strip_0x_prefix sk)"
    and wr_any: "wr pk sk w = (r, w') \<Longrightarrow>
      lookup w' = lookup w \<or> (\<exists>n. lookup w' = (lookup w)(key_file pk \<mapsto> take n (strip_0x_prefix sk)))"
    and rd_Ok: "rd pk w = (Ok b, w') \<Longrightarrow>
      (\<exists>s. lookup w (key_file pk) = Some s \<and> hex_decode X s = Some b) \<and> lookup w' = lookup w"
    and rd_quiet: "quiet w \<Longrightarrow> lookup w (key_file pk) = Some s \<Longrightarrow> hex_decode X s = Some b \<Longrightarrow>
      rd pk w = (Ok b, w)"
    and del_Ok: "del pk w = (Ok (), w') \<Longrightarrow>
      lookup w (key_file pk) \<noteq> None \<and> lookup w' = (lookup w)(key_file pk := None)"
    and ex_quiet: "quiet w \<Longrightarrow> \<not> is_dir w (key_file pk) \<Longrightarrow>
      ex pk w = (Ok (lookup w (key_file pk) \<noteq> None), w)"
begin

text \<open>A key written is the key read, until something else is stored under its name.\<close>

lemma read_after_write:
  assumes "wr pk sk w = (Ok (), w')" "hex_decode X (strip_0x_prefix sk) = Some b" "quiet w''"
    "lookup w'' (key_file pk) = lookup w' (key_file pk)"
  shows "rd pk w'' = (Ok b, w'')"
  using assms wr_Ok[OF assms(1)] by (intro rd_quiet) auto

lemma write_other:
  "wr pk sk w = (r, w') \<Longrightarrow> key_file pk \<noteq> p \<Longrightarrow> lookup w' p = lookup w p"
  by (auto dest!: wr_any)

lemma exists_after_write:
  "wr pk sk w = (Ok (), w') \<Longrightarrow> quiet w' \<Longrightarrow> \<not> is_dir w' (key_file pk) \<Longrightarrow> ex pk w' = (Ok True, w')"
  by (auto dest!: wr_Ok simp: ex_quiet)

lemma no_read_after_delete:
  "del pk w = (Ok (), w') \<Longrightarrow> fst (rd pk w') \<noteq> Ok b"
  using del_Ok rd_Ok by (metis fun_upd_same option.distinct(1) prod.collapse)

lemma delete_twice: "del pk w = (Ok (), w') \<Longrightarrow> fst (del pk w') \<noteq> Ok ()"
  using del_Ok by (metis fun_upd_same prod.collapse)

text \<open>A torn write never yields a longer or a different text than the one written.\<close>

lemma torn_write_prefix:
  "wr pk sk w = (r, w') \<Longrightarrow> lookup w' (key_file pk) = Some s \<Longrightarrow>
     lookup w (key_file pk) = Some s \<or> (\<exists>n. s = take n (strip_0x_prefix sk))"
  by (auto dest!: wr_any)

end

lemma delete_key_Ok:
  "delete_key p w = (Ok (), w') \<Longrightarrow> lookup w p \<noteq> None \<and> lookup w' = (lookup w)(p := None)"
  by (auto simp: delete_key_def res_simps dest!: remove_file_Ok)

lemma key_exists_quiet:
  "quiet w \<Longrightarrow> \<not> is_dir w p \<Longrightarrow> key_exists p w = (Ok (lookup w p \<noteq> None), w)"
  by (simp add: key_exists_def exists_path_def next_fault_quiet)

lemma strip_0x_file:
  "strip_0x_prefix pk = pk \<Longrightarrow> bls_file (''0x'' @ pk) = bls_file pk"
  "strip_0x_prefix pk = pk \<Longrightarrow> eth_file (''0x'' @ pk) = eth_file pk"
  by (auto simp: bls_file_def eth_file_def)

interpretation bls_store: key_store X bls_file write_bls_key "read_bls_key X" delete_bls_key bls_key_exists
  for X
proof (unfold_locales, goal_cases)
  case (1 pk) then show ?case by (rule strip_0x_file)
qed (auto simp: key_store_defs Let_def path_collect_keys bls_file_def[symmetric] read_key_quiet
      key_exists_quiet dest: write_key_Ok write_key_any read_key_Ok delete_key_Ok)

interpretation eth_store: key_store X eth_file write_eth_key "read_eth_key X" delete_eth_key eth_key_exists
  for X
proof (unfold_locales, goal_cases)
  case (1 pk) then show ?case by (rule strip_0x_file)
qed (auto simp: key_store_defs Let_def path_collect_keys eth_file_def[symmetric] read_key_quiet
      key_exists_quiet dest: write_key_Ok write_key_any read_key_Ok delete_key_Ok)

end
