(* ===== verification/Bls_Keys.thy ===== *)
theory Bls_Keys
  imports Key_Management
begin

text \<open>
  src/crypto/bls_keys.rs over the \<open>blsttc\<close> crate. The crate's types are type
  variables and its functions the fields of a record \<open>B\<close>: public key set \<open>'ps\<close>,
  public key \<open>'pk\<close>, public key share \<open>'psh\<close>, secret key set \<open>'ss\<close>, secret
  key \<open>'sk\<close>, secret key share \<open>'ssh\<close>, signature \<open>'sg\<close>, signature share
  \<open>'sgh\<close>.
\<close>

section \<open>The blsttc crate\<close>

record ('ps, 'pk, 'psh, 'ss, 'sk, 'ssh, 'sg, 'sgh) blsttc =
  pks_from_bytes :: "bytes \<Rightarrow> 'ps option"
  pks_to_bytes :: "'ps \<Rightarrow> bytes"
  pks_public_key :: "'ps \<Rightarrow> 'pk"
  pks_public_key_share :: "'ps \<Rightarrow> nat \<Rightarrow> 'psh"
  pks_threshold :: "'ps \<Rightarrow> nat"
  pks_combine_signatures :: "'ps \<Rightarrow> (nat \<times> 'sgh) list \<Rightarrow> 'sg option"
  pk_to_bytes :: "'pk \<Rightarrow> bytes"
  pk_to_hex :: "'pk \<Rightarrow> string"
  pk_verify :: "'pk \<Rightarrow> 'sg \<Rightarrow> bytes \<Rightarrow> bool"
  psh_to_bytes :: "'psh \<Rightarrow> bytes"
  psh_verify :: "'psh \<Rightarrow> 'sgh \<Rightarrow> bytes \<Rightarrow> bool"
  sks_random :: "nat \<Rightarrow> nat \<Rightarrow> 'ss option"
  sks_threshold :: "'ss \<Rightarrow> nat"
  sks_to_bytes :: "'ss \<Rightarrow> bytes"
  sks_from_bytes :: "bytes \<Rightarrow> 'ss option"
  sks_public_keys :: "'ss \<Rightarrow> 'ps"
  sks_secret_key :: "'ss \<Rightarrow> 'sk"
  sks_secret_key_share :: "'ss \<Rightarrow> nat \<Rightarrow> 'ssh"
  sk_to_bytes :: "'sk \<Rightarrow> bytes"
  sk_sign :: "'sk \<Rightarrow> bytes \<Rightarrow> 'sg"
  ssh_to_bytes :: "'ssh \<Rightarrow> bytes"
  ssh_from_bytes :: "bytes \<Rightarrow> 'ssh option"
  ssh_public_key_share :: "'ssh \<Rightarrow> 'psh"
  ssh_sign :: "'ssh \<Rightarrow> bytes \<Rightarrow> 'sgh"
  sig_to_bytes :: "'sg \<Rightarrow> bytes"
  sig_from_bytes :: "bytes \<Rightarrow> 'sg option"
  sgh_from_bytes :: "bytes \<Rightarrow> 'sgh option"

text \<open>
  Documented behaviour: byte forms round trip and have the sizes of BLS12-381; a
  signature verifies under the public key of its secret key; the shares of a secret key
  set match those of its public key set; the threshold is the one asked for; the bytes of
  one share, read as a secret key set, are the set whose key is that share; any
  \<open>threshold + 1\<close> signature shares combine to the signature of the whole key.
\<close>

definition bls_laws ::
  "codec \<Rightarrow> ('ps, 'pk, 'psh, 'ss, 'sk, 'ssh, 'sg, 'sgh) blsttc \<Rightarrow> bool" where
  "bls_laws X B \<longleftrightarrow>
     (\<forall>s. sks_from_bytes B (sks_to_bytes B s) = Some s) \<and>
     (\<forall>p. pks_from_bytes B (pks_to_bytes B p) = Some p) \<and>
     (\<forall>h. ssh_from_bytes B (ssh_to_bytes B h) = Some h \<and> length (ssh_to_bytes B h) = 32) \<and>
     (\<forall>g. sig_from_bytes B (sig_to_bytes B g) = Some g \<and> length (sig_to_bytes B g) = 96) \<and>
     (\<forall>p. length (pk_to_bytes B p) = 48 \<and> pk_to_hex B p = hex_encode X (pk_to_bytes B p)) \<and>
     (\<forall>p. length (psh_to_bytes B p) = 48) \<and>
     (\<forall>s m. pk_verify B (pks_public_key B (sks_public_keys B s)) (sk_sign B (sks_secret_key B s) m) m) \<and>
     (\<forall>s i. ssh_public_key_share B (sks_secret_key_share B s i) =
            pks_public_key_share B (sks_public_keys B s) i) \<and>
     (\<forall>s. pks_threshold B (sks_public_keys B s) = sks_threshold B s) \<and>
     (\<forall>t n s. sks_random B t n = Some s \<longrightarrow> sks_threshold B s = t) \<and>
     (\<forall>h. \<exists>s. sks_from_bytes B (ssh_to_bytes B h) = Some s \<and>
        pk_to_bytes B (pks_public_key B (sks_public_keys B s)) =
          psh_to_bytes B (ssh_public_key_share B h))"

text \<open>
  Threshold signatures: more than \<open>t\<close> shares of one message, under distinct indices,
  combine to the signature of the whole key. A key share stored as a key set of its own
  signs as the share: the bytes of its signature are those of the signature share. A
  secret key share is determined by its public one.
\<close>

definition threshold_laws :: "('ps, 'pk, 'psh, 'ss, 'sk, 'ssh, 'sg, 'sgh) blsttc \<Rightarrow> bool" where
  "threshold_laws B \<longleftrightarrow>
     (\<forall>s m ids. distinct ids \<longrightarrow> sks_threshold B s < length ids \<longrightarrow>
        pks_combine_signatures B (sks_public_keys B s)
          (map (\<lambda>i. (i, ssh_sign B (sks_secret_key_share B s i) m)) ids) =
        Some (sk_sign B (sks_secret_key B s) m)) \<and>
     (\<forall>h s m. sks_from_bytes B (ssh_to_bytes B h) = Some s \<longrightarrow>
        sgh_from_bytes B (sig_to_bytes B (sk_sign B (sks_secret_key B s) m)) = Some (ssh_sign B h m)) \<and>
     (\<forall>h h'. psh_to_bytes B (ssh_public_key_share B h) = psh_to_bytes B (ssh_public_key_share B h') \<longrightarrow>
        h = h')"

lemma bls_simps [simp, ext_laws]:
  assumes "bls_laws X B"
  shows "sks_from_bytes B (sks_to_bytes B s) = Some s"
    "pks_from_bytes B (pks_to_bytes B p) = Some p"
    "ssh_from_bytes B (ssh_to_bytes B h) = Some h"
    "length (ssh_to_bytes B h) = 32"
    "sig_from_bytes B (sig_to_bytes B g) = Some g"
    "length (sig_to_bytes B g) = 96"
    "length (pk_to_bytes B k) = 48"
    "pk_verify B (pks_public_key B (sks_public_keys B s)) (sk_sign B (sks_secret_key B s) m) m"
    "ssh_public_key_share B (sks_secret_key_share B s i) = pks_public_key_share B (sks_public_keys B s) i"
    "pks_threshold B (sks_public_keys B s) = sks_threshold B s"
    "length (psh_to_bytes B q) = 48"
  using assms unfolding bls_laws_def by blast+

lemma pk_to_hex_eq: "bls_laws X B \<Longrightarrow> pk_to_hex B p = hex_encode X (pk_to_bytes B p)"
  unfolding bls_laws_def by blast

lemma share_as_set:
  "bls_laws X B \<Longrightarrow> \<exists>s. sks_from_bytes B (ssh_to_bytes B h) = Some s \<and>
     pk_to_bytes B (pks_public_key B (sks_public_keys B s)) =
       psh_to_bytes B (ssh_public_key_share B h)"
  unfolding bls_laws_def by blast

section \<open>Constants and sanitizing\<close>

definition BLS_SIG_BYTES :: nat where
  "BLS_SIG_BYTES = 96"
definition BLS_PUB_KEY_BYTES :: nat where
  "BLS_PUB_KEY_BYTES = 48"

definition sanitize_bls_pk_hex :: "string \<Rightarrow> string res" where
  "sanitize_bls_pk_hex bls_pk_hex =
     (let bls_pk = strip_0x_prefix bls_pk_hex in
      if length bls_pk \<noteq> 2 * BLS_PUB_KEY_BYTES
      then Err (Bail ''Invalid bls_pk_hex length'')
      else Ok bls_pk)"

section \<open>Generating, saving and fetching\<close>

text \<open>
  \<open>SecretKeySet::random\<close> panics where the threshold is too large to allocate; the
  assertion after it panics too.
\<close>

definition new_bls_key ::
  "('ps, 'pk, 'psh, 'ss, 'sk, 'ssh, 'sg, 'sgh) blsttc \<Rightarrow> nat \<Rightarrow> (world, 'ss) eff" where
  "new_bls_key B threshold =
     ebind draw (\<lambda>r.
     lift (case sks_random B threshold r of
             None \<Rightarrow> Panic ''SecretKeySet::random''
           | Some sk_set \<Rightarrow>
               if sks_threshold B sk_set = threshold then Ok sk_set
               else Panic ''assertion failed: sk_set.threshold() == threshold''))"

definition save_bls_key ::
  "codec \<Rightarrow> ('ps, 'pk, 'psh, 'ss, 'sk, 'ssh, 'sg, 'sgh) blsttc \<Rightarrow> 'ss \<Rightarrow> (world, unit) eff" where
  "save_bls_key X B sk_set =
     (let pk_hex = pk_to_hex B (pks_public_key B (sks_public_keys B sk_set));
          sk_hex = hex_encode X (sks_to_bytes B sk_set)
      in in_context ''aggregate bls sk failed to save'' (write_bls_key pk_hex sk_hex))"

definition save_bls_keystore ::
  "keystore_crate \<Rightarrow> ('ps, 'pk, 'psh, 'ss, 'sk, 'ssh, 'sg, 'sgh) blsttc \<Rightarrow> 'ss \<Rightarrow> string \<Rightarrow>
   (world, string) eff" where
  "save_bls_keystore K B sk_set password =
     (let pk_hex = pk_to_hex B (pks_public_key B (sks_public_keys B sk_set))
      in in_context ''aggregate bls sk failed to save''
           (write_bls_keystore K pk_hex (sk_to_bytes B (sks_secret_key B sk_set)) password))"

definition fetch_bls_sk ::
  "codec \<Rightarrow> ('ps, 'pk, 'psh, 'ss, 'sk, 'ssh, 'sg, 'sgh) blsttc \<Rightarrow> string \<Rightarrow> (world, 'ss) eff" where
  "fetch_bls_sk X B pk_hex =
     (let pk_hex = strip_0x_prefix pk_hex
      in ebind (read_bls_key X pk_hex) (\<lambda>sk_bytes.
         lift (case sks_from_bytes B sk_bytes of
                 Some sk \<Rightarrow> Ok sk
               | None \<Rightarrow> Err (Bail ''Error deserializing bls sk bytes''))))"

definition fetch_bls_sk_keystore ::
  "keystore_crate \<Rightarrow> ('ps, 'pk, 'psh, 'ss, 'sk, 'ssh, 'sg, 'sgh) blsttc \<Rightarrow> string \<Rightarrow> string \<Rightarrow>
   (world, 'ss) eff" where
  "fetch_bls_sk_keystore K B pk_hex password =
     (let pk_hex = strip_0x_prefix pk_hex
      in ebind (read_bls_keystore K pk_hex password) (\<lambda>sk_bytes.
         lift (case sks_from_bytes B sk_bytes of
                 Some sk \<Rightarrow> Ok sk
               | None \<Rightarrow> Err (Bail ''Error deserializing bls sk bytes''))))"

section \<open>Signing\<close>

definition bls_agg_sign ::
  "('ps, 'pk, 'psh, 'ss, 'sk, 'ssh, 'sg, 'sgh) blsttc \<Rightarrow> 'ss \<Rightarrow> bytes \<Rightarrow> 'sg" where
  "bls_agg_sign B secret_key_set msg = sk_sign B (sks_secret_key B secret_key_set) msg"

definition bls_agg_sign_from_saved_sk ::
  "codec \<Rightarrow> ('ps, 'pk, 'psh, 'ss, 'sk, 'ssh, 'sg, 'sgh) blsttc \<Rightarrow> string \<Rightarrow> bytes \<Rightarrow>
   (world, 'sg) eff" where
  "bls_agg_sign_from_saved_sk X B pk_hex msg =
     ebind (fetch_bls_sk X B pk_hex) (\<lambda>secret_key_set.
     if pk_hex \<noteq> pk_to_hex B (pks_public_key B (sks_public_keys B secret_key_set))
     then lift (Err (Bail ''Mismatch with input and derived pk''))
     else ret (bls_agg_sign B secret_key_set msg))"

definition distribute_key_shares ::
  "('ps, 'pk, 'psh, 'ss, 'sk, 'ssh, 'sg, 'sgh) blsttc \<Rightarrow> 'ss \<Rightarrow> nat \<Rightarrow> ('ssh \<times> 'psh) list" where
  "distribute_key_shares B sk_set n =
     (let pk_set = sks_public_keys B sk_set
      in map (\<lambda>id. (sks_secret_key_share B sk_set id, pks_public_key_share B pk_set id)) [0..<n])"

definition aggregate_signature_shares ::
  "('ps, 'pk, 'psh, 'ss, 'sk, 'ssh, 'sg, 'sgh) blsttc \<Rightarrow> 'ps \<Rightarrow> 'sgh list \<Rightarrow> 'sg res" where
  "aggregate_signature_shares B pk_set sig_shares =
     (let sig_shares = map (\<lambda>id. (id, sig_shares ! id)) [0..<length sig_shares]
      in with_context ''Failed to aggregate signature shares''
           (ok_or ''combine_signatures'' (pks_combine_signatures B pk_set sig_shares)))"

section \<open>Facts\<close>

lemma fetch_bls_sk_Ok:
  assumes "fetch_bls_sk X B pk w = (Ok s, w')"
  shows "\<exists>t b. lookup w (bls_file (strip_0x_prefix pk)) = Some t \<and> hex_decode X t = Some b \<and>
           sks_from_bytes B b = Some s"
    "lookup w' = lookup w"
  using assms by (auto simp: fetch_bls_sk_def res_simps dest!: bls_store.rd_Ok split: option.splits)

lemma fetch_bls_sk_lookup [io_simps]: "lookup (snd (fetch_bls_sk X B pk w)) = lookup w"
  unfolding fetch_bls_sk_def Let_def
  by (rule ebind_keeps) (simp_all add: io_simps read_bls_key_def Let_def)

lemma bls_agg_sign_lookup [io_simps]:
  "lookup (snd (bls_agg_sign_from_saved_sk X B pk m w)) = lookup w"
  unfolding bls_agg_sign_from_saved_sk_def by (rule ebind_keeps) (simp_all add: io_simps)

text \<open>A signature is only ever made with a key whose public key is the name asked for.\<close>

lemma bls_agg_sign_from_saved_sk_Ok:
  assumes "bls_agg_sign_from_saved_sk X B pk m w = (Ok g, w')"
  shows "\<exists>s. pk = pk_to_hex B (pks_public_key B (sks_public_keys B s)) \<and>
           g = sk_sign B (sks_secret_key B s) m \<and>
           (\<exists>t b. lookup w (bls_file (strip_0x_prefix pk)) = Some t \<and> hex_decode X t = Some b \<and>
              sks_from_bytes B b = Some s)"
  using assms by (auto simp: bls_agg_sign_from_saved_sk_def res_simps bls_agg_sign_def
      split: if_splits dest!: fetch_bls_sk_Ok(1))

lemma save_bls_key_Ok:
  assumes "save_bls_key X B s w = (Ok (), w')" "hex_laws X"
  shows "lookup w' = (lookup w)(bls_file (pk_to_hex B (pks_public_key B (sks_public_keys B s)))
           \<mapsto> hex_encode X (sks_to_bytes B s))"
  using assms by (auto simp: save_bls_key_def res_simps dest!: bls_store.wr_Ok)

lemma threshold_lawsD:
  assumes "threshold_laws B"
  shows "distinct ids \<Longrightarrow> sks_threshold B s < length ids \<Longrightarrow>
      pks_combine_signatures B (sks_public_keys B s)
        (map (\<lambda>i. (i, ssh_sign B (sks_secret_key_share B s i) m)) ids) =
      Some (sk_sign B (sks_secret_key B s) m)"
    "sks_from_bytes B (ssh_to_bytes B h) = Some s \<Longrightarrow>
      sgh_from_bytes B (sig_to_bytes B (sk_sign B (sks_secret_key B s) m)) = Some (ssh_sign B h m)"
    "psh_to_bytes B (ssh_public_key_share B h) = psh_to_bytes B (ssh_public_key_share B h') \<Longrightarrow> h = h'"
  using assms unfolding threshold_laws_def by blast+

text \<open>Save, then fetch: the same key set, from any later world that still has the file.\<close>

lemma fetch_after_save:
  assumes s: "save_bls_key X B s w = (Ok (), w')" and X: "hex_laws X" and B: "bls_laws X B"
    and q: "quiet w''" and p: "pk = pk_to_hex B (pks_public_key B (sks_public_keys B s))"
    and l: "lookup w'' (bls_file pk) = lookup w' (bls_file pk)"
  shows "fetch_bls_sk X B pk w'' = (Ok s, w'')"
proof -
  have st: "strip_0x_prefix pk = pk"
    using X B by (simp add: p pk_to_hex_eq)
  have wr: "write_bls_key pk (hex_encode X (sks_to_bytes B s)) w = (Ok (), w')"
    using s by (simp add: save_bls_key_def res_simps p)
  have "read_bls_key X pk w'' = (Ok (sks_to_bytes B s), w'')"
    by (rule bls_store.read_after_write[OF wr _ q l]) (simp add: X)
  then show ?thesis
    using B by (simp add: fetch_bls_sk_def st)
qed

lemma aggregate_distributed:
  assumes "threshold_laws B" "sks_threshold B s < n"
  shows "aggregate_signature_shares B (sks_public_keys B s)
           (map (\<lambda>sh. ssh_sign B (fst sh) m) (distribute_key_shares B s n)) =
         Ok (sk_sign B (sks_secret_key B s) m)"
proof -
  let ?sh = "\<lambda>i. ssh_sign B (sks_secret_key_share B s i) m"
  have signed: "map (\<lambda>sh. ssh_sign B (fst sh) m) (distribute_key_shares B s n) = map ?sh [0..<n]"
    by (simp add: distribute_key_shares_def comp_def)
  have numbered: "map (\<lambda>id. (id, map ?sh [0..<n] ! id)) [0..<n] = map (\<lambda>i. (i, ?sh i)) [0..<n]"
    by (rule map_cong) simp_all
  have "pks_combine_signatures B (sks_public_keys B s) (map (\<lambda>i. (i, ?sh i)) [0..<n]) =
      Some (sk_sign B (sks_secret_key B s) m)"
    using assms unfolding threshold_laws_def by simp
  then show ?thesis
    unfolding aggregate_signature_shares_def signed Let_def length_map length_upt diff_zero numbered
    by simp
qed

end
