(* ===== verification/Deposits.thy ===== *)
theory Deposits
  imports Eth_Signing Bls_Keys
begin

text \<open>
  The part of src/eth2/eth_signing.rs that signs: \<open>secure_sign\<close> with a saved key, and
  the two ways of making a deposit, from a saved key and from a key set in memory.
  \<open>BLSSignature::from\<close> is \<open>FixedVector::from\<close> at 96 bytes.
\<close>

definition FULL_DEPOSIT_AMOUNT :: u64 where
  "FULL_DEPOSIT_AMOUNT = 32000000000"

definition BLSSignature_from :: "codec \<Rightarrow> bytes \<Rightarrow> BLSSignature" where
  "BLSSignature_from X b = fv_from X 96 b"

definition BLSPubkey_from :: "codec \<Rightarrow> bytes \<Rightarrow> BLSPubkey" where
  "BLSPubkey_from X b = fv_from X 48 b"

definition secure_sign ::
  "codec \<Rightarrow> ('ps, 'pk, 'psh, 'ss, 'sk, 'ssh, 'sg, 'sgh) blsttc \<Rightarrow> string \<Rightarrow> tree_obj \<Rightarrow> Domain \<Rightarrow>
   (world, BLSSignature) eff" where
  "secure_sign X B pk_hex msg domain =
     (let root = compute_signing_root X msg domain in
      ebind (bls_agg_sign_from_saved_sk X B pk_hex root) (\<lambda>sig.
      ret (BLSSignature_from X (sig_to_bytes B sig))))"

definition get_deposit_signature ::
  "codec \<Rightarrow> ('ps, 'pk, 'psh, 'ss, 'sk, 'ssh, 'sg, 'sgh) blsttc \<Rightarrow> string \<Rightarrow> DepositMessage \<Rightarrow> Version \<Rightarrow>
   (world, DepositResponse) eff" where
  "get_deposit_signature X B pk_hex deposit_message fork_version =
     (let domain = compute_domain X DOMAIN_DEPOSIT (Some fork_version) None in
      ebind (secure_sign X B pk_hex (TDepositMessage deposit_message) domain) (\<lambda>sig.
      let dm_root = tree_hash_root X (TDepositMessage deposit_message);
          dd = \<lparr>dd_pubkey = dm_pubkey deposit_message,
                dd_withdrawal_credentials = dm_withdrawal_credentials deposit_message,
                dd_amount = dm_amount deposit_message,
                dd_signature = sig\<rparr>;
          dd_root = tree_hash_root X (TDepositData dd)
      in ret \<lparr>dres_pubkey = hex_encode X (dm_pubkey deposit_message),
              dres_withdrawal_credentials = hex_encode X (dm_withdrawal_credentials deposit_message),
              dres_amount = dm_amount deposit_message,
              dres_signature = hex_encode X sig,
              dres_deposit_message_root = hex_encode X dm_root,
              dres_deposit_data_root = hex_encode X dd_root\<rparr>))"

definition sign_full_deposit ::
  "codec \<Rightarrow> ('ps, 'pk, 'psh, 'ss, 'sk, 'ssh, 'sg, 'sgh) blsttc \<Rightarrow> 'ss \<Rightarrow> Bytes32 \<Rightarrow> Version \<Rightarrow>
   (BLSSignature \<times> Root) res" where
  "sign_full_deposit X B sk_set wc fork_version =
     (let deposit_message =
            \<lparr>dm_pubkey = BLSPubkey_from X (pk_to_bytes B (pks_public_key B (sks_public_keys B sk_set))),
             dm_withdrawal_credentials = wc,
             dm_amount = FULL_DEPOSIT_AMOUNT\<rparr>;
          domain = compute_domain X DOMAIN_DEPOSIT (Some fork_version) None;
          root = compute_signing_root X (TDepositMessage deposit_message) domain;
          sig = BLSSignature_from X (sig_to_bytes B (sk_sign B (sks_secret_key B sk_set) root));
          dd = \<lparr>dd_pubkey = dm_pubkey deposit_message,
                dd_withdrawal_credentials = dm_withdrawal_credentials deposit_message,
                dd_amount = dm_amount deposit_message,
                dd_signature = sig\<rparr>;
          dd_root = tree_hash_root X (TDepositData dd)
      in Ok (sig, dd_root))"

section \<open>Facts\<close>

lemma bls_from_bytes [simp]:
  assumes "ssz_laws X" "bls_laws X B"
  shows "BLSSignature_from X (sig_to_bytes B g) = sig_to_bytes B g"
    "BLSPubkey_from X (pk_to_bytes B p) = pk_to_bytes B p"
  using assms by (simp_all add: BLSSignature_from_def BLSPubkey_from_def)

lemma get_deposit_signature_Ok:
  assumes "get_deposit_signature X B pk m fv w = (Ok r, w')" "ssz_laws X" "bls_laws X B" "hex_laws X"
  shows "\<exists>g s. pk = hex_encode X (pk_to_bytes B (pks_public_key B (sks_public_keys B s))) \<and>
     g = sk_sign B (sks_secret_key B s) (root_deposit X \<lparr>dr_signingRoot = None, dr_deposit = m,
           dr_genesis_fork_version = fv\<rparr>) \<and>
     dres_signature r = hex_encode X (sig_to_bytes B g) \<and> dres_amount r = dm_amount m"
  using assms
  by (auto simp: get_deposit_signature_def secure_sign_def res_simps Let_def root_deposit_def pk_to_hex_eq
      dest!: bls_agg_sign_from_saved_sk_Ok)

text \<open>
  A full deposit is for 32 ETH (in Gwei) to the key's own public key, and its signature
  verifies under it.
\<close>

definition full_deposit_message ::
  "('ps, 'pk, 'psh, 'ss, 'sk, 'ssh, 'sg, 'sgh) blsttc \<Rightarrow> 'pk \<Rightarrow> Bytes32 \<Rightarrow> DepositMessage" where
  "full_deposit_message B pk wc =
     \<lparr>dm_pubkey = pk_to_bytes B pk, dm_withdrawal_credentials = wc, dm_amount = FULL_DEPOSIT_AMOUNT\<rparr>"

definition full_deposit_data ::
  "('ps, 'pk, 'psh, 'ss, 'sk, 'ssh, 'sg, 'sgh) blsttc \<Rightarrow> 'pk \<Rightarrow> Bytes32 \<Rightarrow> 'sg \<Rightarrow> DepositData" where
  "full_deposit_data B pk wc g =
     \<lparr>dd_pubkey = pk_to_bytes B pk, dd_withdrawal_credentials = wc, dd_amount = FULL_DEPOSIT_AMOUNT,
      dd_signature = sig_to_bytes B g\<rparr>"

definition full_deposit_root ::
  "codec \<Rightarrow> ('ps, 'pk, 'psh, 'ss, 'sk, 'ssh, 'sg, 'sgh) blsttc \<Rightarrow> 'pk \<Rightarrow> Bytes32 \<Rightarrow> Version \<Rightarrow> Root" where
  "full_deposit_root X B pk wc fv =
     compute_signing_root X (TDepositMessage (full_deposit_message B pk wc))
       (compute_domain X DOMAIN_DEPOSIT (Some fv) None)"

lemma sign_full_deposit_eq:
  assumes "ssz_laws X" "bls_laws X B"
  shows "sign_full_deposit X B s wc fv =
     (let pk = pks_public_key B (sks_public_keys B s);
          g = sk_sign B (sks_secret_key B s) (full_deposit_root X B pk wc fv)
      in Ok (sig_to_bytes B g, tree_hash_root X (TDepositData (full_deposit_data B pk wc g))))"
  using assms by (simp add: sign_full_deposit_def full_deposit_root_def full_deposit_message_def
      full_deposit_data_def Let_def)

end
