(* ===== verification/Eth_Keys.thy ===== *)
theory Eth_Keys
  imports Key_Management
begin

text \<open>
  src/crypto/eth_keys.rs and src/crypto/keystore.rs: secp256k1 keys of the enclaves, their
  textual forms, their files, ECDSA signatures over Keccak-256 digests and ECIES envelopes.
  The crates \<open>ecies\<close> and \<open>libsecp256k1\<close> are the fields of a record
  \<open>E\<close>: secret key \<open>'esk\<close>, public key \<open>'epk\<close>, message \<open>'emsg\<close>,
  signature \<open>'esig\<close>. \<open>generate_keypair\<close> and \<open>encrypt\<close> take the random
  draw they use.
\<close>

section \<open>The crates\<close>

record ('esk, 'epk, 'emsg, 'esig) secp =
  generate_keypair :: "nat \<Rightarrow> 'esk \<times> 'epk"
  esk_serialize :: "'esk \<Rightarrow> bytes"
  esk_parse_slice :: "bytes \<Rightarrow> 'esk option"
  epk_serialize :: "'epk \<Rightarrow> bytes"
  epk_serialize_compressed :: "'epk \<Rightarrow> bytes"
  epk_parse :: "bytes \<Rightarrow> 'epk option"
  epk_parse_compressed :: "bytes \<Rightarrow> 'epk option"
  epk_parse_slice :: "bytes \<Rightarrow> 'epk option"
  msg_parse_slice :: "bytes \<Rightarrow> 'emsg option"
  secp_sign :: "'emsg \<Rightarrow> 'esk \<Rightarrow> 'esig"
  secp_verify :: "'emsg \<Rightarrow> 'esig \<Rightarrow> 'epk \<Rightarrow> bool"
  esig_serialize :: "'esig \<Rightarrow> bytes"
  esig_parse_standard :: "bytes \<Rightarrow> 'esig option"
  esig_parse_standard_slice :: "bytes \<Rightarrow> 'esig option"
  ecies_encrypt :: "nat \<Rightarrow> bytes \<Rightarrow> bytes \<Rightarrow> bytes option"
  ecies_decrypt :: "bytes \<Rightarrow> bytes \<Rightarrow> bytes option"

text \<open>
  Documented behaviour: the byte forms round trip and have the sizes of secp256k1; a
  message is any 32 bytes; a signature verifies, and an envelope opens, with the other key
  of the pair; encryption to a valid key does not fail.
\<close>

definition key_pair :: "('esk, 'epk, 'emsg, 'esig) secp \<Rightarrow> 'esk \<Rightarrow> 'epk \<Rightarrow> bool" where
  "key_pair E sk pk \<longleftrightarrow> (\<exists>r. generate_keypair E r = (sk, pk))"

definition secp_laws :: "('esk, 'epk, 'emsg, 'esig) secp \<Rightarrow> bool" where
  "secp_laws E \<longleftrightarrow>
     (\<forall>sk. esk_parse_slice E (esk_serialize E sk) = Some sk \<and> length (esk_serialize E sk) = 32) \<and>
     (\<forall>pk. epk_parse E (epk_serialize E pk) = Some pk \<and> length (epk_serialize E pk) = 65 \<and>
           epk_parse_slice E (epk_serialize E pk) = Some pk) \<and>
     (\<forall>pk. epk_parse_compressed E (epk_serialize_compressed E pk) = Some pk \<and>
           length (epk_serialize_compressed E pk) = 33) \<and>
     (\<forall>b. length b = 32 \<longrightarrow> msg_parse_slice E b \<noteq> None) \<and>
     (\<forall>g. esig_parse_standard E (esig_serialize E g) = Some g \<and> length (esig_serialize E g) = 64 \<and>
          esig_parse_standard_slice E (esig_serialize E g) = Some g) \<and>
     (\<forall>sk pk d. key_pair E sk pk \<longrightarrow> secp_verify E d (secp_sign E d sk) pk) \<and>
     (\<forall>r pk m. ecies_encrypt E r (epk_serialize E pk) m \<noteq> None) \<and>
     (\<forall>r sk pk m c. key_pair E sk pk \<longrightarrow> ecies_encrypt E r (epk_serialize E pk) m = Some c \<longrightarrow>
        ecies_decrypt E (esk_serialize E sk) c = Some m)"

lemma secp_simps [simp, ext_laws]:
  assumes "secp_laws E"
  shows "esk_parse_slice E (esk_serialize E sk) = Some sk"
    "length (esk_serialize E sk) = 32"
    "epk_parse E (epk_serialize E pk) = Some pk"
    "epk_parse_slice E (epk_serialize E pk) = Some pk"
    "length (epk_serialize E pk) = 65"
    "epk_parse_compressed E (epk_serialize_compressed E pk) = Some pk"
    "length (epk_serialize_compressed E pk) = 33"
    "esig_parse_standard E (esig_serialize E g) = Some g"
    "esig_parse_standard_slice E (esig_serialize E g) = Some g"
    "length (esig_serialize E g) = 64"
    "key_pair E sk pk \<Longrightarrow> secp_verify E d (secp_sign E d sk) pk"
  using assms unfolding secp_laws_def by blast+

lemma msg_parse_32: "secp_laws E \<Longrightarrow> length b = 32 \<Longrightarrow> \<exists>d. msg_parse_slice E b = Some d"
  unfolding secp_laws_def by blast

lemma ecies_total: "secp_laws E \<Longrightarrow> \<exists>c. ecies_encrypt E r (epk_serialize E pk) m = Some c"
  unfolding secp_laws_def by blast

lemma ecies_open:
  "secp_laws E \<Longrightarrow> key_pair E sk pk \<Longrightarrow> ecies_encrypt E r (epk_serialize E pk) m = Some c \<Longrightarrow>
     ecies_decrypt E (esk_serialize E sk) c = Some m"
  unfolding secp_laws_def by blast

section \<open>Constants and textual forms\<close>

definition ETH_COMPRESSED_PK_BYTES :: nat where
  "ETH_COMPRESSED_PK_BYTES = 33"
definition ETH_UNCOMPRESSED_PK_BYTES :: nat where
  "ETH_UNCOMPRESSED_PK_BYTES = 65"
definition ETH_SIGNATURE_BYTES :: nat where
  "ETH_SIGNATURE_BYTES = 64"

definition eth_sk_to_hex :: "codec \<Rightarrow> ('esk, 'epk, 'emsg, 'esig) secp \<Rightarrow> 'esk \<Rightarrow> string" where
  "eth_sk_to_hex X E sk = strip_0x_prefix (hex_encode X (esk_serialize E sk))"

definition eth_pk_to_hex :: "codec \<Rightarrow> ('esk, 'epk, 'emsg, 'esig) secp \<Rightarrow> 'epk \<Rightarrow> string" where
  "eth_pk_to_hex X E pk = strip_0x_prefix (hex_encode X (epk_serialize_compressed E pk))"

definition eth_pk_to_hex_uncompressed ::
  "codec \<Rightarrow> ('esk, 'epk, 'emsg, 'esig) secp \<Rightarrow> 'epk \<Rightarrow> string" where
  "eth_pk_to_hex_uncompressed X E pk = strip_0x_prefix (hex_encode X (epk_serialize E pk))"

definition eth_pk_from_hex ::
  "codec \<Rightarrow> ('esk, 'epk, 'emsg, 'esig) secp \<Rightarrow> string \<Rightarrow> 'epk res" where
  "eth_pk_from_hex X E pk_hex =
     (let pk_hex = strip_0x_prefix pk_hex in
      rbind (ok_or ''hex::decode'' (hex_decode X pk_hex)) (\<lambda>pk_bytes.
      if length pk_bytes \<noteq> ETH_COMPRESSED_PK_BYTES
      then Err (Bail ''ETH pk should be in compressed 33B form'')
      else case epk_parse_compressed E pk_bytes of
             Some pk \<Rightarrow> Ok pk
           | None \<Rightarrow> Err (Bail ''failed to recover ETH pk from pk_hex'')))"

definition eth_pk_from_hex_uncompressed ::
  "codec \<Rightarrow> ('esk, 'epk, 'emsg, 'esig) secp \<Rightarrow> string \<Rightarrow> 'epk res" where
  "eth_pk_from_hex_uncompressed X E pk_hex =
     (let pk_hex = strip_0x_prefix pk_hex in
      rbind (ok_or ''hex::decode'' (hex_decode X pk_hex)) (\<lambda>pk_bytes.
      if length pk_bytes \<noteq> ETH_UNCOMPRESSED_PK_BYTES
      then Err (Bail ''ETH pk should be in 65B form'')
      else case epk_parse E pk_bytes of
             Some pk \<Rightarrow> Ok pk
           | None \<Rightarrow> Err (Bail ''failed to recover ETH pk from pk_hex'')))"

definition eth_sk_from_bytes :: "('esk, 'epk, 'emsg, 'esig) secp \<Rightarrow> bytes \<Rightarrow> 'esk res" where
  "eth_sk_from_bytes E sk =
     with_context ''couldn't parse sk bytes to eth sk type''
       (ok_or ''SecretKey::parse_slice'' (esk_parse_slice E sk))"

section \<open>Generating, saving and fetching\<close>

definition new_eth_key :: "('esk, 'epk, 'emsg, 'esig) secp \<Rightarrow> (world, 'esk \<times> 'epk) eff" where
  "new_eth_key E = ebind draw (\<lambda>r. ret (generate_keypair E r))"

definition save_eth_key ::
  "codec \<Rightarrow> ('esk, 'epk, 'emsg, 'esig) secp \<Rightarrow> 'esk \<Rightarrow> 'epk \<Rightarrow> (world, 'epk) eff" where
  "save_eth_key X E sk pk =
     (let pk_hex = eth_pk_to_hex X E pk;
          sk_hex = eth_sk_to_hex X E sk
      in ebind (in_context ''eth sk failed to save'' (write_eth_key pk_hex sk_hex)) (\<lambda>_.
         ret pk))"

definition eth_key_gen :: "codec \<Rightarrow> ('esk, 'epk, 'emsg, 'esig) secp \<Rightarrow> (world, 'epk) eff" where
  "eth_key_gen X E =
     ebind (new_eth_key E) (\<lambda>(sk, pk).
     in_context ''Failed to save generated ETH key'' (save_eth_key X E sk pk))"

definition fetch_eth_key ::
  "codec \<Rightarrow> ('esk, 'epk, 'emsg, 'esig) secp \<Rightarrow> string \<Rightarrow> (world, 'esk) eff" where
  "fetch_eth_key X E pk_hex =
     (let pk_hex = strip_0x_prefix pk_hex
      in ebind (read_eth_key X pk_hex) (\<lambda>sk_bytes. lift (eth_sk_from_bytes E sk_bytes)))"

section \<open>Signatures\<close>

definition sign_message ::
  "codec \<Rightarrow> ('esk, 'epk, 'emsg, 'esig) secp \<Rightarrow> bytes \<Rightarrow> 'esk \<Rightarrow> ('esig \<times> 'emsg) res" where
  "sign_message X E message secret_key =
     (let digest_bytes = keccak256 X message in
      rbind (with_context ''Failed to parse the message hash into a libsecp256k1 Message''
               (ok_or ''Message::parse_slice'' (msg_parse_slice E digest_bytes))) (\<lambda>digest.
      Ok (secp_sign E digest secret_key, digest)))"

definition verify_message ::
  "codec \<Rightarrow> ('esk, 'epk, 'emsg, 'esig) secp \<Rightarrow> bytes \<Rightarrow> bytes \<Rightarrow> 'epk \<Rightarrow> bool res" where
  "verify_message X E message signature public_key =
     (let digest_bytes = keccak256 X message in
      rbind (with_context ''Failed to parse the message hash into a libsecp256k1 Message''
               (ok_or ''Message::parse_slice'' (msg_parse_slice E digest_bytes))) (\<lambda>digest.
      rbind (with_context ''Invalid signature encoding''
               (ok_or ''Signature::parse_standard'' (esig_parse_standard E signature))) (\<lambda>signature.
      Ok (secp_verify E digest signature public_key))))"

section \<open>Envelopes\<close>

definition envelope_encrypt ::
  "('esk, 'epk, 'emsg, 'esig) secp \<Rightarrow> 'epk \<Rightarrow> bytes \<Rightarrow> (world, bytes) eff" where
  "envelope_encrypt E public_key message =
     ebind draw (\<lambda>r.
     in_context ''Failed to encrypt the message using the provided public key''
       (lift (ok_or ''ecies::encrypt'' (ecies_encrypt E r (epk_serialize E public_key) message))))"

definition envelope_decrypt ::
  "('esk, 'epk, 'emsg, 'esig) secp \<Rightarrow> 'esk \<Rightarrow> bytes \<Rightarrow> bytes res" where
  "envelope_decrypt E secret_key encrypted_message =
     with_context ''Failed to decrypt the message using the provided secret key''
       (ok_or ''ecies::decrypt'' (ecies_decrypt E (esk_serialize E secret_key) encrypted_message))"

definition envelope_decrypt_from_saved_sk ::
  "codec \<Rightarrow> ('esk, 'epk, 'emsg, 'esig) secp \<Rightarrow> string \<Rightarrow> bytes \<Rightarrow> (world, bytes) eff" where
  "envelope_decrypt_from_saved_sk X E eth_pk_hex encrypted_message =
     ebind (fetch_eth_key X E eth_pk_hex) (\<lambda>secret_key.
     lift (envelope_decrypt E secret_key encrypted_message))"

text \<open>src/crypto/keystore.rs.\<close>

definition import_keystore ::
  "codec \<Rightarrow> ('esk, 'epk, 'emsg, 'esig) secp \<Rightarrow> keystore_crate \<Rightarrow> string \<Rightarrow> string \<Rightarrow> 'esk \<Rightarrow> bytes res" where
  "import_keystore X E K keystore ct_password_hex envelope_sk =
     (let ct_password_hex = strip_0x_prefix ct_password_hex in
      rbind (ok_or ''hex::decode'' (hex_decode X ct_password_hex)) (\<lambda>ct_password_bytes.
      rbind (envelope_decrypt E envelope_sk ct_password_bytes) (\<lambda>password_bytes.
      let password = map (\<lambda>b. char_of (unat b)) password_bytes in
      rbind (with_context ''non-utf8 password''
               (if is_utf8 password then Ok password else Err (External ''FromUtf8Error''))) (\<lambda>password.
      with_context ''Failed to decrypt keystore'' (decrypt_keystore K keystore password)))))"

section \<open>Facts\<close>

lemma eth_hex [simp]:
  assumes "hex_laws X"
  shows "eth_sk_to_hex X E sk = hex_encode X (esk_serialize E sk)"
    "eth_pk_to_hex X E pk = hex_encode X (epk_serialize_compressed E pk)"
    "eth_pk_to_hex_uncompressed X E pk = hex_encode X (epk_serialize E pk)"
  using assms by (simp_all add: eth_sk_to_hex_def eth_pk_to_hex_def eth_pk_to_hex_uncompressed_def)

lemma eth_pk_hex_roundtrip:
  assumes "hex_laws X" "secp_laws E"
  shows "eth_pk_from_hex X E (eth_pk_to_hex X E pk) = Ok pk"
    "eth_pk_from_hex_uncompressed X E (eth_pk_to_hex_uncompressed X E pk) = Ok pk"
  using assms by (simp_all add: eth_pk_from_hex_def eth_pk_from_hex_uncompressed_def
      ETH_COMPRESSED_PK_BYTES_def ETH_UNCOMPRESSED_PK_BYTES_def)

lemma eth_sk_roundtrip: "secp_laws E \<Longrightarrow> eth_sk_from_bytes E (esk_serialize E sk) = Ok sk"
  by (simp add: eth_sk_from_bytes_def)

lemma fetch_eth_key_lookup [io_simps]: "lookup (snd (fetch_eth_key X E pk w)) = lookup w"
  unfolding fetch_eth_key_def Let_def
  by (rule ebind_keeps) (simp_all add: io_simps read_eth_key_def Let_def)

lemma save_eth_key_Ok:
  assumes "save_eth_key X E sk pk w = (Ok pk', w')" "hex_laws X"
  shows "pk' = pk" "lookup w' = (lookup w)(eth_file (eth_pk_to_hex X E pk) \<mapsto> eth_sk_to_hex X E sk)"
  using assms by (auto simp: save_eth_key_def res_simps dest!: eth_store.wr_Ok)

text \<open>Save, then fetch: the same key, from any later world that still has the file.\<close>

lemma fetch_after_save_eth:
  assumes s: "save_eth_key X E sk pk w = (Ok pk', w')" and X: "hex_laws X" and E: "secp_laws E"
    and q: "quiet w''" and p: "pk_hex = eth_pk_to_hex X E pk"
    and l: "lookup w'' (eth_file pk_hex) = lookup w' (eth_file pk_hex)"
  shows "fetch_eth_key X E pk_hex w'' = (Ok sk, w'')"
proof -
  have wr: "write_eth_key pk_hex (eth_sk_to_hex X E sk) w = (Ok (), w')"
    using s by (auto simp: save_eth_key_def res_simps p)
  have "read_eth_key X pk_hex w'' = (Ok (esk_serialize E sk), w'')"
    by (rule eth_store.read_after_write[OF wr _ q l]) (simp add: X)
  then show ?thesis
    using X E by (simp add: fetch_eth_key_def p eth_sk_roundtrip)
qed

lemma verify_signed:
  assumes "secp_laws E" "hash_laws X" "key_pair E sk pk"
  shows "\<exists>g d. sign_message X E m sk = Ok (g, d) \<and> verify_message X E m (esig_serialize E g) pk = Ok True"
proof -
  obtain d where "msg_parse_slice E (keccak256 X m) = Some d"
    using msg_parse_32[OF assms(1)] assms(2) by force
  with assms show ?thesis by (auto simp: sign_message_def verify_message_def Let_def)
qed

lemma envelope_encrypt_total:
  assumes "secp_laws E"
  shows "\<exists>c w'. envelope_encrypt E pk m w = (Ok c, w') \<and> lookup w' = lookup w \<and>
           faults w' = faults w \<and> (\<forall>sk. key_pair E sk pk \<longrightarrow> envelope_decrypt E sk c = Ok m)"
proof -
  obtain c where "ecies_encrypt E (rng w) (epk_serialize E pk) m = Some c"
    using ecies_total[OF assms] by blast
  then show ?thesis
    using ecies_open[OF assms]
    by (auto simp: envelope_encrypt_def ebind_def draw_def in_context_def envelope_decrypt_def
        lookup_def fun_eq_iff)
qed

end
