(* ===== verification/Attestation.thy ===== *)
theory Attestation
  imports Codec
begin

text \<open>
  src/io/cvm_agent.rs, src/io/remote_attestation.rs and src/io/session_registry.rs: the
  evidence that a payload was signed by the session key of the confidential VM, and the
  calls that check it against the SessionRegistry contract. The CVM agent, the RPC
  provider with the contract behind it, and the \<open>alloy\<close> types are the fields of a record
  \<open>N\<close>.
\<close>

section \<open>The services and their types\<close>

text \<open>
  A public identity has a key type and the bytes of the key; a byte string of
  \<open>alloy\<close> (\<open>B256\<close>, \<open>Address\<close>, \<open>Bytes\<close>) is its bytes.
\<close>

record PublicIdentity =
  pi_type_id :: u8
  pi_key :: bytes

record SignMessageResponse =
  smres_signature :: bytes
  smres_session_id :: bytes
  smres_session_key_public :: PublicIdentity
  smres_owner_key_public :: PublicIdentity

record CVMSession =
  cs_sessionId :: bytes
  cs_owner :: bytes
  cs_akPubKeyFingerprint :: bytes
  cs_tpmSigningKeyFingerprint :: bytes
  cs_sessionKeyFingerprint :: bytes
  cs_baseImageId :: bytes
  cs_workloadId :: bytes
  cs_platformProfileId :: bytes
  cs_measurementVariantId :: bytes
  cs_registeredAt :: u64
  cs_expiresAt :: u64
  cs_isActive :: bool

record services =
  cvm_sign_message :: "string \<Rightarrow> bytes \<Rightarrow> (world, SignMessageResponse) eff"
  rpc_url_valid :: "string \<Rightarrow> bool"
  verifySessionSignature ::
    "string \<Rightarrow> bytes \<Rightarrow> bytes \<Rightarrow> PublicIdentity \<Rightarrow> bytes \<Rightarrow> bytes \<Rightarrow> (world, bool) eff"
  getSession :: "string \<Rightarrow> bytes \<Rightarrow> bytes \<Rightarrow> (world, CVMSession) eff"
  alloy_address_parse :: "string \<Rightarrow> bytes option"
  alloy_to_string :: "bytes \<Rightarrow> string"
  identity_default :: PublicIdentity
  identity_from_str :: "string \<Rightarrow> PublicIdentity option"

text \<open>
  The services do not touch the data directory of the program, nor its random numbers;
  \<open>alloy\<close> prints byte strings in hex with the prefix.
\<close>

definition services_laws :: "codec \<Rightarrow> services \<Rightarrow> bool" where
  "services_laws X N \<longleftrightarrow>
     (\<forall>p m w. snd (cvm_sign_message N p m w) = w) \<and>
     (\<forall>u a i k m g w. snd (verifySessionSignature N u a i k m g w) = w) \<and>
     (\<forall>u a i w. snd (getSession N u a i w) = w) \<and>
     (\<forall>b. alloy_to_string N b = ''0x'' @ hex_encode X b)"

section \<open>cvm\_agent.rs\<close>

definition CVM_AGENT_SOCKET_PATH :: string where
  "CVM_AGENT_SOCKET_PATH = ''/app/cvm-agent.sock''"

record SessionProof =
  sp_session_id :: bytes
  sp_signature :: bytes
  sp_session_key :: PublicIdentity
  sp_owner_key :: PublicIdentity

definition unwrap_or :: "'a \<Rightarrow> 'a res \<Rightarrow> 'a" where
  "unwrap_or d r = (case r of Ok x \<Rightarrow> x | _ \<Rightarrow> d)"

definition sign_with_session :: "services \<Rightarrow> bytes \<Rightarrow> (world, SessionProof) eff" where
  "sign_with_session N message w =
     (let socket_path = unwrap_or CVM_AGENT_SOCKET_PATH (fst (env_var ''CVM_AGENT_SOCKET_PATH'' w))
      in ebind (cvm_sign_message N socket_path message) (\<lambda>result.
         ret \<lparr>sp_session_id = smres_session_id result,
              sp_signature = smres_signature result,
              sp_session_key = smres_session_key_public result,
              sp_owner_key = smres_owner_key_public result\<rparr>) w)"

section \<open>remote\_attestation.rs\<close>

record AttestationEvidence =
  ae_session_id :: string
  ae_signature :: string
  ae_session_public_key :: PublicIdentity
  ae_owner_public_key :: PublicIdentity

definition evidence_default :: "services \<Rightarrow> AttestationEvidence" where
  "evidence_default N = \<lparr>ae_session_id = [], ae_signature = [],
     ae_session_public_key = identity_default N, ae_owner_public_key = identity_default N\<rparr>"

definition evidence_new :: "services \<Rightarrow> bytes \<Rightarrow> (world, AttestationEvidence) eff" where
  "evidence_new N d w =
     (if unwrap_or [] (fst (env_var ''CVM_AGENT_STUB'' w)) = ''true''
      then (Ok (evidence_default N), w)
      else ebind (sign_with_session N d) (\<lambda>resp.
             ret \<lparr>ae_session_id = alloy_to_string N (sp_session_id resp),
                  ae_signature = alloy_to_string N (sp_signature resp),
                  ae_session_public_key = sp_session_key resp,
                  ae_owner_public_key = sp_owner_key resp\<rparr>) w)"

section \<open>session\_registry.rs\<close>

definition verify_session_signature ::
  "services \<Rightarrow> string \<Rightarrow> bytes \<Rightarrow> bytes \<Rightarrow> PublicIdentity \<Rightarrow> bytes \<Rightarrow> bytes \<Rightarrow> (world, bool) eff" where
  "verify_session_signature N rpc_url registry_address session_id session_key message signature =
     (if \<not> rpc_url_valid N rpc_url then lift (Err (Context ''Invalid RPC URL'' (External ''Url::parse'')))
      else in_context ''SessionRegistry.verifySessionSignature() call failed''
             (verifySessionSignature N rpc_url registry_address session_id session_key message signature))"

definition get_session :: "services \<Rightarrow> string \<Rightarrow> bytes \<Rightarrow> bytes \<Rightarrow> (world, CVMSession) eff" where
  "get_session N rpc_url registry_address session_id =
     (if \<not> rpc_url_valid N rpc_url then lift (Err (Context ''Invalid RPC URL'' (External ''Url::parse'')))
      else in_context ''SessionRegistry.getSession() call failed''
             (getSession N rpc_url registry_address session_id))"

section \<open>Facts\<close>

lemma services_frame:
  assumes "services_laws X N"
  shows "snd (cvm_sign_message N p m w) = w" "snd (verifySessionSignature N u a i k m' g w) = w"
    "snd (getSession N u a i w) = w"
  using assms by (simp_all add: services_laws_def)

lemma alloy_to_string_eq: "services_laws X N \<Longrightarrow> alloy_to_string N b = ''0x'' @ hex_encode X b"
  by (simp add: services_laws_def)

lemma evidence_new_frame: "services_laws X N \<Longrightarrow> snd (evidence_new N d w) = w"
  by (auto simp: evidence_new_def sign_with_session_def Let_def services_frame
      intro!: ebind_keeps[where P = "\<lambda>w'. w' = w"])

text \<open>With the stub switched on, evidence is made without the agent and is empty.\<close>

lemma evidence_stub:
  "map_of (env w) ''CVM_AGENT_STUB'' = Some ''true'' \<Longrightarrow> evidence_new N d w = (Ok (evidence_default N), w)"
  by (simp add: evidence_new_def env_var_def unwrap_or_def)

text \<open>Otherwise its session id and signature are the printed forms of what the agent returned.\<close>

lemma evidence_new_Ok:
  assumes "evidence_new N d w = (Ok e, w')" "unwrap_or [] (fst (env_var ''CVM_AGENT_STUB'' w)) \<noteq> ''true''"
  shows "\<exists>r p. cvm_sign_message N p d w = (Ok r, w') \<and>
     ae_session_id e = alloy_to_string N (smres_session_id r) \<and>
     ae_signature e = alloy_to_string N (smres_signature r) \<and>
     ae_session_public_key e = smres_session_key_public r"
  using assms by (auto simp: evidence_new_def sign_with_session_def Let_def res_simps)

end
