(* ===== verification/Enclave_Types.thy ===== *)
theory Enclave_Types
  imports Deposits Eth_Keys Attestation Serde
begin

text \<open>
  src/enclave/types.rs: requests and responses of the enclaves, the checks and derived
  values of a key generation payload, and the custom serializers of the request that asks
  for one.
\<close>

section \<open>Responses\<close>

record KeyGenResponse =
  kg_pk_hex :: string
  kg_evidence :: AttestationEvidence

definition from_eth_key ::
  "codec \<Rightarrow> ('esk, 'epk, 'emsg, 'esig) secp \<Rightarrow> 'epk \<Rightarrow> AttestationEvidence \<Rightarrow> KeyGenResponse" where
  "from_eth_key X E pk evidence =
     (let pk = strip_0x_prefix (hex_encode X (epk_serialize E pk))
      in \<lparr>kg_pk_hex = ''0x'' @ pk, kg_evidence = evidence\<rparr>)"

definition from_bls_key ::
  "('ps, 'pk, 'psh, 'ss, 'sk, 'ssh, 'sg, 'sgh) blsttc \<Rightarrow> 'pk \<Rightarrow> AttestationEvidence \<Rightarrow> KeyGenResponse" where
  "from_bls_key B pk evidence = \<lparr>kg_pk_hex = ''0x'' @ pk_to_hex B pk, kg_evidence = evidence\<rparr>"

record ListKeysResponseInner =
  lk_pubkey :: string

record ListKeysResponse =
  lk_data :: "ListKeysResponseInner list"

text \<open>
  \<open>pk[0..2]\<close> panics on a string of fewer than two bytes, and where the second byte
  does not end a character.
\<close>

definition str_slice_to :: "string \<Rightarrow> nat \<Rightarrow> string res" where
  "str_slice_to s n =
     (if n \<le> length s \<and> (n = length s \<or> (of_char (s ! n) :: nat) div 64 \<noteq> 2)
      then Ok (take n s) else Panic ''byte index is out of bounds or not a char boundary'')"

definition ListKeysResponse_new :: "string list \<Rightarrow> ListKeysResponse res" where
  "ListKeysResponse_new keys =
     rbind (mapM (\<lambda>pk.
              rbind (str_slice_to pk 2) (\<lambda>start.
              let pubkey = (if start = ''0x'' then pk else ''0x'' @ pk)
              in Ok \<lparr>lk_pubkey = pubkey\<rparr>)) keys) (\<lambda>inners.
     Ok \<lparr>lk_data = inners\<rparr>)"

record SignatureResponse =
  sr_signature :: string

definition SignatureResponse_new :: "codec \<Rightarrow> bytes \<Rightarrow> SignatureResponse" where
  "SignatureResponse_new X sig = \<lparr>sr_signature = ''0x'' @ hex_encode X sig\<rparr>"

definition SignatureResponse_to_ssz_bytes :: "codec \<Rightarrow> SignatureResponse \<Rightarrow> BLSSignature res" where
  "SignatureResponse_to_ssz_bytes X r =
     (let sig_stripped = strip_0x_prefix (sr_signature r) in
      rbind (ok_or ''hex::decode'' (hex_decode X sig_stripped)) (\<lambda>sig_bytes.
      Ok (BLSSignature_from X sig_bytes)))"

section \<open>The key generation payload\<close>

record BlsKeygenPayload =
  bls_pub_key_set :: string
  bls_pub_key :: string
  kp_signature :: string
  kp_deposit_data_root :: string
  bls_enc_priv_key_shares :: "string list"
  session_id :: string
  attestation_signature :: string
  session_public_key :: string
  guardian_eth_pub_keys :: "string list"
  kp_withdrawal_credentials :: string
  kp_fork_version :: Version

record 'epk ValidateCustodyRequest =
  keygen_payload :: BlsKeygenPayload
  guardian_enclave_public_key :: 'epk
  workload_id :: string
  verify_session :: bool
  vc_validator_index :: ValidatorIndex

record ValidateCustodyResponse =
  vc_enclave_signature :: string
  vc_bls_pub_key :: string
  vc_withdrawal_credentials :: string
  vc_deposit_signature :: string
  vc_deposit_data_root :: string

definition WITHDRAWAL_CREDENTIALS_BYTES :: nat where
  "WITHDRAWAL_CREDENTIALS_BYTES = 32"

text \<open>\<open>[T]::copy_from_slice\<close> panics where the lengths differ.\<close>

definition copy_from_slice :: "nat \<Rightarrow> bytes \<Rightarrow> bytes res" where
  "copy_from_slice n src =
     (if length src = n then Ok src
      else Panic ''copy_from_slice: source slice length does not match destination slice length'')"

definition parse_public_key_set ::
  "codec \<Rightarrow> ('ps, 'pk, 'psh, 'ss, 'sk, 'ssh, 'sg, 'sgh) blsttc \<Rightarrow> string \<Rightarrow> 'ps res" where
  "parse_public_key_set X B s =
     (let sanitized = strip_0x_prefix s in
      rbind (ok_or ''hex::decode'' (hex_decode X sanitized)) (\<lambda>b.
      ok_or ''PublicKeySet::from_bytes'' (pks_from_bytes B b)))"

definition kp_public_key_set ::
  "codec \<Rightarrow> ('ps, 'pk, 'psh, 'ss, 'sk, 'ssh, 'sg, 'sgh) blsttc \<Rightarrow> BlsKeygenPayload \<Rightarrow> 'ps res" where
  "kp_public_key_set X B p = parse_public_key_set X B (bls_pub_key_set p)"

definition withdrawal_credentials_of :: "codec \<Rightarrow> BlsKeygenPayload \<Rightarrow> bytes res" where
  "withdrawal_credentials_of X p =
     (let sanitized = strip_0x_prefix (kp_withdrawal_credentials p) in
      rbind (ok_or ''hex::decode'' (hex_decode X sanitized)) (\<lambda>wc_bytes.
      if length wc_bytes \<noteq> WITHDRAWAL_CREDENTIALS_BYTES
      then Err (Bail ''Invalid  withdrawal_credentials'')
      else copy_from_slice WITHDRAWAL_CREDENTIALS_BYTES wc_bytes))"

definition signature_of ::
  "codec \<Rightarrow> ('ps, 'pk, 'psh, 'ss, 'sk, 'ssh, 'sg, 'sgh) blsttc \<Rightarrow> BlsKeygenPayload \<Rightarrow> 'sg res" where
  "signature_of X B p =
     (let sanitized = strip_0x_prefix (kp_signature p) in
      rbind (ok_or ''hex::decode'' (hex_decode X sanitized)) (\<lambda>b.
      rbind (copy_from_slice BLS_SIG_BYTES b) (\<lambda>sig_bytes.
      ok_or ''Signature::from_bytes'' (sig_from_bytes B sig_bytes))))"

definition deposit_message_root_of ::
  "codec \<Rightarrow> ('ps, 'pk, 'psh, 'ss, 'sk, 'ssh, 'sg, 'sgh) blsttc \<Rightarrow> BlsKeygenPayload \<Rightarrow> Root res" where
  "deposit_message_root_of X B p =
     rbind (kp_public_key_set X B p) (\<lambda>pk_set.
     rbind (withdrawal_credentials_of X p) (\<lambda>wc.
     let deposit_message =
           \<lparr>dm_pubkey = BLSPubkey_from X (pk_to_bytes B (pks_public_key B pk_set)),
            dm_withdrawal_credentials = wc,
            dm_amount = FULL_DEPOSIT_AMOUNT\<rparr>;
         domain = compute_domain X DOMAIN_DEPOSIT (Some (kp_fork_version p)) None
     in Ok (compute_signing_root X (TDepositMessage deposit_message) domain)))"

definition deposit_data_root_of ::
  "codec \<Rightarrow> ('ps, 'pk, 'psh, 'ss, 'sk, 'ssh, 'sg, 'sgh) blsttc \<Rightarrow> BlsKeygenPayload \<Rightarrow> Root res" where
  "deposit_data_root_of X B p =
     rbind (kp_public_key_set X B p) (\<lambda>pk_set.
     rbind (withdrawal_credentials_of X p) (\<lambda>wc.
     rbind (signature_of X B p) (\<lambda>sig.
     let deposit_data =
           \<lparr>dd_pubkey = BLSPubkey_from X (pk_to_bytes B (pks_public_key B pk_set)),
            dd_withdrawal_credentials = wc,
            dd_amount = FULL_DEPOSIT_AMOUNT,
            dd_signature = BLSSignature_from X (sig_to_bytes B sig)\<rparr>
     in Ok (tree_hash_root X (TDepositData deposit_data)))))"

definition verify_public_keys_match ::
  "codec \<Rightarrow> ('ps, 'pk, 'psh, 'ss, 'sk, 'ssh, 'sg, 'sgh) blsttc \<Rightarrow> BlsKeygenPayload \<Rightarrow> bool res" where
  "verify_public_keys_match X B p =
     rbind (kp_public_key_set X B p) (\<lambda>pk_set.
     let exp_pk_hex = strip_0x_prefix (bls_pub_key p)
     in Ok (pk_to_hex B (pks_public_key B pk_set) = exp_pk_hex))"

definition decrypt_sk_share ::
  "codec \<Rightarrow> ('ps, 'pk, 'psh, 'ss, 'sk, 'ssh, 'sg, 'sgh) blsttc \<Rightarrow> ('esk, 'epk, 'emsg, 'esig) secp \<Rightarrow>
   BlsKeygenPayload \<Rightarrow> nat \<Rightarrow> 'esk \<Rightarrow> 'ssh res" where
  "decrypt_sk_share X B E p share_index guardian_enclave_sk =
     rbind (if share_index < length (bls_enc_priv_key_shares p)
            then Ok (strip_0x_prefix (bls_enc_priv_key_shares p ! share_index))
            else Err (Bail ''bad share_index to read from bls_enc_priv_key_shares''))
       (\<lambda>sanitized_enc_sk_share.
     rbind (ok_or ''hex::decode'' (hex_decode X sanitized_enc_sk_share)) (\<lambda>enc_sk_bytes.
     rbind (envelope_decrypt E guardian_enclave_sk enc_sk_bytes) (\<lambda>sk_bytes.
     rbind (if length sk_bytes = 32 then Ok sk_bytes else Err (External ''TryFromSliceError'')) (\<lambda>b.
     ok_or ''SecretKeyShare::from_bytes'' (ssh_from_bytes B b)))))"

section \<open>Exit requests\<close>

record SignExitRequest =
  se_bls_pub_key_set :: string
  se_guardian_index :: u64
  se_validator_index :: u64
  se_fork_info :: ForkInfo

definition exit_public_key_set ::
  "codec \<Rightarrow> ('ps, 'pk, 'psh, 'ss, 'sk, 'ssh, 'sg, 'sgh) blsttc \<Rightarrow> SignExitRequest \<Rightarrow> 'ps res" where
  "exit_public_key_set X B r = parse_public_key_set X B (se_bls_pub_key_set r)"

record SignExitResponse =
  sx_signature :: string
  sx_message :: string

section \<open>The key generation request and its JSON form\<close>

record 'epk AttestFreshBlsKeyPayload =
  af_guardian_pubkeys :: "'epk list"
  af_withdrawal_credentials :: Bytes32
  af_threshold :: u64
  af_fork_version :: Version
  af_do_remote_attestation :: bool

definition serialize_signature_as_hex ::
  "codec \<Rightarrow> ('esk, 'epk, 'emsg, 'esig) secp \<Rightarrow> 'esig \<Rightarrow> json res" where
  "serialize_signature_as_hex X E signature = Ok (JStr (hex_encode X (esig_serialize E signature)))"

definition deserialize_signature_from_hex ::
  "codec \<Rightarrow> ('esk, 'epk, 'emsg, 'esig) secp \<Rightarrow> json \<Rightarrow> 'esig res" where
  "deserialize_signature_from_hex X E j =
     rbind (de_str j) (\<lambda>hex_string.
     rbind (ok_or ''hex::decode'' (hex_decode X hex_string)) (\<lambda>bytes.
     ok_or ''Signature::parse_standard_slice'' (esig_parse_standard_slice E bytes)))"

definition serialize_pubkeys_hex ::
  "codec \<Rightarrow> ('esk, 'epk, 'emsg, 'esig) secp \<Rightarrow> 'epk list \<Rightarrow> json res" where
  "serialize_pubkeys_hex X E pubkeys =
     Ok (JArr (map (\<lambda>pubkey. JStr (hex_encode X (epk_serialize E pubkey))) pubkeys))"

definition deserialize_pubkeys_from_hex ::
  "codec \<Rightarrow> ('esk, 'epk, 'emsg, 'esig) secp \<Rightarrow> json \<Rightarrow> 'epk list res" where
  "deserialize_pubkeys_from_hex X E j = (case j of
       JArr js \<Rightarrow> mapM (\<lambda>el.
         rbind (de_str el) (\<lambda>hex_string.
         let hex_string = strip_0x_prefix hex_string in
         rbind (ok_or ''hex::decode'' (hex_decode X hex_string)) (\<lambda>bytes.
         ok_or ''PublicKey::parse_slice'' (epk_parse_slice E bytes)))) js
     | _ \<Rightarrow> Err (External ''a sequence of hex strings''))"

definition serialize_as_32_bytes_array :: "codec \<Rightarrow> bytes \<Rightarrow> json res" where
  "serialize_as_32_bytes_array X d = Ok (JStr (hex_encode X d))"

definition deserialize_32_bytes_from_hex :: "codec \<Rightarrow> json \<Rightarrow> bytes res" where
  "deserialize_32_bytes_from_hex X j =
     rbind (de_str j) (\<lambda>value.
     rbind (ok_or ''hex::decode'' (hex_decode X value)) (\<lambda>bytes.
     if length bytes \<noteq> 32 then Err (External ''Expected 32 bytes'')
     else copy_from_slice 32 bytes))"

text \<open>The derived form of the request (\<open>rename_all = "camelCase"\<close>).\<close>

definition se_keygen_request ::
  "codec \<Rightarrow> ('esk, 'epk, 'emsg, 'esig) secp \<Rightarrow> 'epk AttestFreshBlsKeyPayload \<Rightarrow> json res" where
  "se_keygen_request X E p =
     se_struct
       (se_field ''guardianPubkeys'' (serialize_pubkeys_hex X E (af_guardian_pubkeys p))
       (se_field ''withdrawalCredentials'' (serialize_as_32_bytes_array X (af_withdrawal_credentials p))
       (se_field ''threshold'' (Ok (JNum (af_threshold p)))
       (se_field ''forkVersion'' (se_u8_array (af_fork_version p))
       (se_field ''doRemoteAttestation'' (Ok (JBool (af_do_remote_attestation p)))
       (Ok []))))))"

definition de_keygen_request ::
  "codec \<Rightarrow> ('esk, 'epk, 'emsg, 'esig) secp \<Rightarrow> json \<Rightarrow> 'epk AttestFreshBlsKeyPayload res" where
  "de_keygen_request X E j =
     rbind (struct_fields [''guardianPubkeys'', ''withdrawalCredentials'', ''threshold'', ''forkVersion'',
              ''doRemoteAttestation''] j) (\<lambda>vs.
     rbind (required (vs ! 0) (deserialize_pubkeys_from_hex X E)) (\<lambda>pks.
     rbind (required (vs ! 1) (deserialize_32_bytes_from_hex X)) (\<lambda>wc.
     rbind (required (vs ! 2) de_u64) (\<lambda>t.
     rbind (required (vs ! 3) (de_u8_array 4)) (\<lambda>fv.
     rbind (required (vs ! 4) de_bool) (\<lambda>ra.
     Ok \<lparr>af_guardian_pubkeys = pks, af_withdrawal_credentials = wc, af_threshold = t,
         af_fork_version = fv, af_do_remote_attestation = ra\<rparr>))))))"

section \<open>Facts\<close>

lemma list_keys_Ok:
  assumes "\<forall>k \<in> set keys. \<exists>b. b \<noteq> [] \<and> k = hex_encode X b" "hex_laws X"
  shows "ListKeysResponse_new keys = Ok \<lparr>lk_data = map (\<lambda>k. \<lparr>lk_pubkey = ''0x'' @ k\<rparr>) keys\<rparr>"
proof -
  have el: "str_slice_to k 2 = Ok (take 2 k) \<and> take 2 k \<noteq> ''0x''" if k: "k \<in> set keys" for k
  proof -
    obtain b where b: "b \<noteq> []" "k = hex_encode X b" using assms(1) k by blast
    have low: "set k \<subseteq> lower_hex" using hex_encode_lower[OF assms(2)] b by simp
    have len: "length k = 2 * length b" using assms(2) b by simp
    have l: "2 \<le> length k"
      using b(1) len by (cases b) auto
    have "k ! 2 \<in> lower_hex" if "2 < length k"
      using low that by (meson nth_mem subsetD)
    then have "2 < length k \<Longrightarrow> (of_char (k ! 2) :: nat) div 64 \<noteq> 2"
      by (auto simp: lower_hex_def)
    then have "str_slice_to k 2 = Ok (take 2 k)"
      using l by (auto simp: str_slice_to_def)
    moreover have "take 2 k \<noteq> ''0x''"
    proof
      assume "take 2 k = ''0x''"
      then have "CHR ''x'' \<in> set (take 2 k)" by simp
      then have "CHR ''x'' \<in> lower_hex" using low by (meson in_set_takeD subsetD)
      then show False by (simp add: lower_hex_def)
    qed
    ultimately show ?thesis by simp
  qed
  show ?thesis
    unfolding ListKeysResponse_new_def
    by (subst mapM_Ok_map[where g = "\<lambda>k. \<lparr>lk_pubkey = ''0x'' @ k\<rparr>"]) (use el in auto)
qed

lemma list_keys_short: "k \<in> set keys \<Longrightarrow> length k < 2 \<Longrightarrow> ListKeysResponse_new keys \<noteq> Ok r"
proof
  assume k: "k \<in> set keys" "length k < 2" and r: "ListKeysResponse_new keys = Ok r"
  then obtain i where "i < length keys" "keys ! i = k" by (auto simp: in_set_conv_nth)
  with r k(2) show False
    by (auto simp: ListKeysResponse_new_def res_simps mapM_Ok_iff str_slice_to_def)
qed

lemma pubkeys_roundtrip:
  assumes "hex_laws X" "secp_laws E"
  shows "deserialize_pubkeys_from_hex X E
           (JArr (map (\<lambda>pubkey. JStr (hex_encode X (epk_serialize E pubkey))) pks)) = Ok pks"
proof -
  have "mapM (\<lambda>el. rbind (de_str el) (\<lambda>hex_string.
           rbind (ok_or ''hex::decode'' (hex_decode X (strip_0x_prefix hex_string))) (\<lambda>bytes.
           ok_or ''PublicKey::parse_slice'' (epk_parse_slice E bytes))))
          (map (\<lambda>pubkey. JStr (hex_encode X (epk_serialize E pubkey))) pks) = Ok pks"
    using assms by (induction pks) (simp_all add: de_str_def)
  then show ?thesis by (simp add: deserialize_pubkeys_from_hex_def Let_def)
qed

lemma keygen_request_roundtrip:
  assumes "hex_laws X" "secp_laws E" "length (af_withdrawal_credentials p) = 32" "length (af_fork_version p) = 4"
  shows "\<exists>j. se_keygen_request X E p = Ok j \<and> printable j \<and> de_keygen_request X E j = Ok p"
  using assms
  by (cases p) (simp add: se_keygen_request_def de_keygen_request_def serde_defs se_u8_array_def
      de_u8_array_def u8_array_roundtrip serialize_pubkeys_hex_def pubkeys_roundtrip
      serialize_as_32_bytes_array_def deserialize_32_bytes_from_hex_def copy_from_slice_def
      de_u64_def de_bool_def is_utf8_def[of "''guardianPubkeys''"] is_utf8_def[of "''withdrawalCredentials''"]
      is_utf8_def[of "''threshold''"] is_utf8_def[of "''forkVersion''"] is_utf8_def[of "''doRemoteAttestation''"])

end
