(* ===== verification/Http.thy ===== *)
theory Http
  imports Std_World
begin

text \<open>
  What an \<open>axum\<close> handler answers: a status code with a body, or nothing because the
  handler panicked and the connection was dropped. The handlers of the program all have
  the same shape, a call whose error becomes a status code and a message.
\<close>

datatype 'a body =
    NoBody
  | Message string
  | Failure string error
  | JsonBody 'a

datatype 'a response = Response nat "'a body" | Dropped string

definition HTTP_OK :: nat where "HTTP_OK = 200"
definition CREATED :: nat where "CREATED = 201"
definition BAD_REQUEST :: nat where "BAD_REQUEST = 400"
definition PRECONDITION_FAILED :: nat where "PRECONDITION_FAILED = 412"
definition INTERNAL_SERVER_ERROR :: nat where "INTERNAL_SERVER_ERROR = 500"

lemmas status_defs =
  HTTP_OK_def CREATED_def BAD_REQUEST_def PRECONDITION_FAILED_def INTERNAL_SERVER_ERROR_def

text \<open>
  \<open>match call { Ok(x) => k, Err(e) => return bad }\<close>, where a panic of the call drops
  the connection.
\<close>

definition on_ok :: "('w, 'a) eff \<Rightarrow> (error \<Rightarrow> 'r response) \<Rightarrow> ('a \<Rightarrow> 'w \<Rightarrow> 'r response \<times> 'w) \<Rightarrow> 'w \<Rightarrow>
    'r response \<times> 'w" where
  "on_ok m bad k w = (case m w of
       (Ok x, w') \<Rightarrow> k x w'
     | (Err e, w') \<Rightarrow> (bad e, w')
     | (Panic p, w') \<Rightarrow> (Dropped p, w'))"

definition respond :: "'r response \<Rightarrow> 'w \<Rightarrow> 'r response \<times> 'w" where
  "respond r w = (r, w)"

lemma respond_apply [simp]: "respond r w = (r, w)"
  by (simp add: respond_def)

text \<open>A handler that answers 2xx got there through the success of every call.\<close>

lemma on_ok_success:
  assumes "\<And>e. bad e \<noteq> Response c b"
  shows "on_ok m bad k w = (Response c b, w'') \<longleftrightarrow>
    (\<exists>x w'. m w = (Ok x, w') \<and> k x w' = (Response c b, w''))"
  using assms by (auto simp: on_ok_def split: prod.splits res.splits)

lemma on_ok_keeps:
  assumes "P (snd (m w))" and "\<And>x w'. m w = (Ok x, w') \<Longrightarrow> P w' \<Longrightarrow> P (snd (k x w'))"
  shows "P (snd (on_ok m bad k w))"
proof (cases "m w")
  case (Pair r w')
  with assms show ?thesis by (cases r) (auto simp: on_ok_def)
qed

lemma on_ok_simps [simp]:
  "m w = (Ok x, w') \<Longrightarrow> on_ok m bad k w = k x w'"
  "m w = (Err e, w') \<Longrightarrow> on_ok m bad k w = (bad e, w')"
  "m w = (Panic p, w') \<Longrightarrow> on_ok m bad k w = (Dropped p, w')"
  by (simp_all add: on_ok_def)

end
