(* ===== verification/Signer.thy ===== *)
theory Signer
  imports Slash_Protection Enclave_Types Http
begin

text \<open>
  src/enclave/shared/: the signing endpoint of the validator and secure-signer enclaves,
  the slashing check before it and the update of the slashing database, the listing
  endpoints, and the payload that a freshly generated validator key is attested with.
\<close>

section \<open>State and constants\<close>

record AppState =
  genesis_fork_version :: Version

definition ALLOW_GROWABLE_SLASH_PROTECTION_DB :: bool where
  "ALLOW_GROWABLE_SLASH_PROTECTION_DB = False"

section \<open>The slashing check and update\<close>

definition is_slashable :: "codec \<Rightarrow> string \<Rightarrow> BLSSignMsg \<Rightarrow> (world, bool) eff" where
  "is_slashable X bls_pk_hex signing_data =
     ebind (spd_read X bls_pk_hex) (\<lambda>db.
     ret (case signing_data of
            BLOCK m \<Rightarrow> is_slashable_block_slot db (bb_slot (br_block m))
          | block m \<Rightarrow> is_slashable_block_slot db (bb_slot (br_block m))
          | BLOCK_V2 m \<Rightarrow>
              is_slashable_block_slot db (bbh_slot (b2w_block_header (b2r_beacon_block m)))
          | block_v2 m \<Rightarrow>
              is_slashable_block_slot db (bbh_slot (b2w_block_header (b2r_beacon_block m)))
          | ATTESTATION m \<Rightarrow>
              is_slashable_attestation_epochs db (cp_epoch (ad_source (ar_attestation m)))
                (cp_epoch (ad_target (ar_attestation m)))
          | attestation m \<Rightarrow>
              is_slashable_attestation_epochs db (cp_epoch (ad_source (ar_attestation m)))
                (cp_epoch (ad_target (ar_attestation m)))
          | _ \<Rightarrow> False))"

text \<open>
  \<open>db.new_block(b, g)?; db.write()\<close> on a local database: the updated value is what
  is written.
\<close>

definition store_block ::
  "codec \<Rightarrow> SlashingProtectionData \<Rightarrow> SignedBlockSlot \<Rightarrow> (world, unit) eff" where
  "store_block X db b =
     (case new_block b ALLOW_GROWABLE_SLASH_PROTECTION_DB db of
        (r, db) \<Rightarrow> ebind (lift r) (\<lambda>_. spd_write X db))"

definition store_attestation ::
  "codec \<Rightarrow> SlashingProtectionData \<Rightarrow> SignedAttestationEpochs \<Rightarrow> (world, unit) eff" where
  "store_attestation X db a =
     (case new_attestation a ALLOW_GROWABLE_SLASH_PROTECTION_DB db of
        (r, db) \<Rightarrow> ebind (lift r) (\<lambda>_. spd_write X db))"

definition block_entry :: "Slot \<Rightarrow> Root \<Rightarrow> SignedBlockSlot" where
  "block_entry s r = \<lparr>slot = s, sbs_signing_root = Some r\<rparr>"

definition attestation_entry :: "AttestationRequest \<Rightarrow> Root \<Rightarrow> SignedAttestationEpochs" where
  "attestation_entry m r =
     \<lparr>source_epoch = cp_epoch (ad_source (ar_attestation m)),
      target_epoch = cp_epoch (ad_target (ar_attestation m)),
      sae_signing_root = Some r\<rparr>"

definition update_slash_protection_db :: "codec \<Rightarrow> string \<Rightarrow> BLSSignMsg \<Rightarrow> (world, unit) eff" where
  "update_slash_protection_db X bls_pk_hex signing_data =
     ebind (spd_read X bls_pk_hex) (\<lambda>db.
     let signing_root = to_signing_root X signing_data None in
     (case signing_data of
        BLOCK m \<Rightarrow> store_block X db (block_entry (bb_slot (br_block m)) signing_root)
      | block m \<Rightarrow> store_block X db (block_entry (bb_slot (br_block m)) signing_root)
      | BLOCK_V2 m \<Rightarrow>
          store_block X db
            (block_entry (bbh_slot (b2w_block_header (b2r_beacon_block m))) signing_root)
      | block_v2 m \<Rightarrow>
          store_block X db
            (block_entry (bbh_slot (b2w_block_header (b2r_beacon_block m))) signing_root)
      | ATTESTATION m \<Rightarrow> store_attestation X db (attestation_entry m signing_root)
      | attestation m \<Rightarrow> store_attestation X db (attestation_entry m signing_root)
      | _ \<Rightarrow> lift (Err (Bail ''Should not update slash protection db for non blocks/attestations''))))"

section \<open>The signing endpoint\<close>

fun is_upper_deposit :: "BLSSignMsg \<Rightarrow> bool" where
  "is_upper_deposit (DEPOSIT _) = True"
| "is_upper_deposit _ = False"

definition sign_validator_message ::
  "codec \<Rightarrow> ('ps, 'pk, 'psh, 'ss, 'sk, 'ssh, 'sg, 'sgh) blsttc \<Rightarrow> string \<Rightarrow> AppState \<Rightarrow> BLSSignMsg \<Rightarrow>
   world \<Rightarrow> SignatureResponse response \<times> world" where
  "sign_validator_message X B bls_pk_hex state req =
     (if is_upper_deposit req
      then respond (Response BAD_REQUEST (Message ''Signing deposit message not allowed''))
      else
        on_ok (lift (sanitize_bls_pk_hex bls_pk_hex))
          (\<lambda>e. Response BAD_REQUEST (Failure ''Bad bls_pk_hex'' e)) (\<lambda>bls_pk_hex.
        on_ok (is_slashable X bls_pk_hex req)
          (\<lambda>e. Response INTERNAL_SERVER_ERROR (Failure ''Signing operation failed'' e)) (\<lambda>b.
        if b
        then respond (Response PRECONDITION_FAILED
               (Message ''Signing operation failed due to slashing protection rules''))
        else
          let signing_root = to_signing_root X req (Some (genesis_fork_version state)) in
          on_ok (if can_be_slashed req then update_slash_protection_db X bls_pk_hex req else ret ())
            (\<lambda>e. Response INTERNAL_SERVER_ERROR (Failure ''Signing operation failed'' e)) (\<lambda>_.
          on_ok (bls_agg_sign_from_saved_sk X B bls_pk_hex signing_root)
            (\<lambda>e. Response INTERNAL_SERVER_ERROR (Failure ''Signing operation failed'' e)) (\<lambda>sig.
          respond (Response HTTP_OK (JsonBody (SignatureResponse_new X (sig_to_bytes B sig)))))))))"

text \<open>handlers/secure\_sign\_bls.rs.\<close>

definition secure_sign_bls_handler ::
  "codec \<Rightarrow> ('ps, 'pk, 'psh, 'ss, 'sk, 'ssh, 'sg, 'sgh) blsttc \<Rightarrow> string \<Rightarrow> AppState \<Rightarrow> BLSSignMsg \<Rightarrow>
   world \<Rightarrow> SignatureResponse response \<times> world" where
  "secure_sign_bls_handler X B bls_pk_hex state req = sign_validator_message X B bls_pk_hex state req"

section \<open>Health and listing\<close>

definition health_handler :: "world \<Rightarrow> unit response \<times> world" where
  "health_handler = respond (Response HTTP_OK NoBody)"

text \<open>
  The response object is built inside the \<open>Ok\<close> arm: a panic there drops the connection.
\<close>

definition list_keys_response :: "string list \<Rightarrow> world \<Rightarrow> ListKeysResponse response \<times> world" where
  "list_keys_response list_res =
     on_ok (lift (ListKeysResponse_new list_res)) (\<lambda>e. Response INTERNAL_SERVER_ERROR NoBody) (\<lambda>resp.
     respond (Response HTTP_OK (JsonBody resp)))"

definition list_bls_keys_handler :: "world \<Rightarrow> ListKeysResponse response \<times> world" where
  "list_bls_keys_handler =
     on_ok list_bls_keys (\<lambda>e. Response INTERNAL_SERVER_ERROR NoBody) list_keys_response"

definition list_eth_keys_handler :: "world \<Rightarrow> ListKeysResponse response \<times> world" where
  "list_eth_keys_handler =
     on_ok list_eth_keys (\<lambda>e. Response INTERNAL_SERVER_ERROR NoBody) list_keys_response"

definition list_bls_keys_for_vc_handler :: "world \<Rightarrow> string list response \<times> world" where
  "list_bls_keys_for_vc_handler =
     on_ok list_bls_keys (\<lambda>e. Response INTERNAL_SERVER_ERROR NoBody) (\<lambda>list_res.
     let list_res = map (\<lambda>x. let stripped = strip_0x_prefix x in ''0x'' @ stripped) list_res
     in respond (Response HTTP_OK (JsonBody list_res)))"

section \<open>The attestation payload of a validator key\<close>

text \<open>\<open>usize::to_be_bytes\<close> on a 64-bit machine.\<close>

definition usize_to_be_bytes :: "nat \<Rightarrow> bytes" where
  "usize_to_be_bytes n = map (\<lambda>i. word_of_nat (n div 256 ^ (7 - i))) [0..<8]"

definition build_validator_remote_attestation_payload ::
  "codec \<Rightarrow> ('ps, 'pk, 'psh, 'ss, 'sk, 'ssh, 'sg, 'sgh) blsttc \<Rightarrow> ('esk, 'epk, 'emsg, 'esig) secp \<Rightarrow>
   'ps \<Rightarrow> BLSSignature \<Rightarrow> Root \<Rightarrow> string list \<Rightarrow> 'epk list \<Rightarrow> bytes res" where
  "build_validator_remote_attestation_payload X B E pk_set signature dd_root enc_sk_shares guardian_pks =
     (let hashed = pks_to_bytes B pk_set @ pk_to_bytes B (pks_public_key B pk_set) @ signature @ dd_root in
      rbind (mapM (\<lambda>(i, sk_share, g_pk).
               rbind (ok_or ''hex::decode'' (hex_decode X sk_share)) (\<lambda>ct.
               Ok (ct @ psh_to_bytes B (pks_public_key_share B pk_set i) @ epk_serialize E g_pk)))
             (enumerate 0 (zip enc_sk_shares guardian_pks))) (\<lambda>parts.
      let hashed = hashed @ concat parts @ usize_to_be_bytes (pks_threshold B pk_set);
          digest = keccak256 X hashed
      in Ok (digest @ replicate 32 0)))"

end
