(* ===== verification/Signer_Safety.thy ===== *)
theory Signer_Safety
  imports Signer
begin

text \<open>
  What the signing endpoint guarantees: an abstract view of its requests (a proposal at a
  slot, a vote from a source to a target epoch), the two guards of the slashing database
  as one gate over that view, an invariant that ties the files of the slashing directory
  to the signatures already released, and its preservation by every request under every
  schedule of I/O faults.
\<close>

section \<open>The abstract view of a signing request\<close>

datatype entry = Proposal SignedBlockSlot | Vote SignedAttestationEpochs

fun signed_entry :: "codec \<Rightarrow> BLSSignMsg \<Rightarrow> entry option" where
  "signed_entry X (BLOCK m) =
     Some (Proposal (block_entry (bb_slot (br_block m)) (to_signing_root X (BLOCK m) None)))"
| "signed_entry X (block m) =
     Some (Proposal (block_entry (bb_slot (br_block m)) (to_signing_root X (block m) None)))"
| "signed_entry X (BLOCK_V2 m) =
     Some (Proposal (block_entry (bbh_slot (b2w_block_header (b2r_beacon_block m)))
       (to_signing_root X (BLOCK_V2 m) None)))"
| "signed_entry X (block_v2 m) =
     Some (Proposal (block_entry (bbh_slot (b2w_block_header (b2r_beacon_block m)))
       (to_signing_root X (block_v2 m) None)))"
| "signed_entry X (ATTESTATION m) =
     Some (Vote (attestation_entry m (to_signing_root X (ATTESTATION m) None)))"
| "signed_entry X (attestation m) =
     Some (Vote (attestation_entry m (to_signing_root X (attestation m) None)))"
| "signed_entry X _ = None"

fun entry_slashable :: "SlashingProtectionData \<Rightarrow> entry \<Rightarrow> bool" where
  "entry_slashable d (Proposal b) = is_slashable_block_slot d (slot b)"
| "entry_slashable d (Vote a) = is_slashable_attestation_epochs d (source_epoch a) (target_epoch a)"

fun offer_entry :: "entry \<Rightarrow> (SlashingProtectionData, unit) eff" where
  "offer_entry (Proposal b) d = new_block b ALLOW_GROWABLE_SLASH_PROTECTION_DB d"
| "offer_entry (Vote a) d = new_attestation a ALLOW_GROWABLE_SLASH_PROTECTION_DB d"

fun entry_covered :: "SlashingProtectionData \<Rightarrow> entry \<Rightarrow> bool" where
  "entry_covered d (Proposal b) = block_covered d b"
| "entry_covered d (Vote a) = attestation_covered d a"

text \<open>
  Two requests of one validator that must not both be signed: proposals for one slot;
  votes for one target or of which one surrounds the other.
\<close>

fun conflicting :: "entry \<Rightarrow> entry \<Rightarrow> bool" where
  "conflicting (Proposal a) (Proposal b) = double_proposal a b"
| "conflicting (Vote a) (Vote b) = slashable_pair a b"
| "conflicting _ _ = False"

definition slashable_offence :: "codec \<Rightarrow> BLSSignMsg \<Rightarrow> BLSSignMsg \<Rightarrow> bool" where
  "slashable_offence X m m' \<longleftrightarrow>
     (case (signed_entry X m, signed_entry X m') of (Some e, Some e') \<Rightarrow> conflicting e e' | _ \<Rightarrow> False)"

lemma can_be_slashed_entry: "can_be_slashed m \<longleftrightarrow> signed_entry X m \<noteq> None"
  by (cases m) simp_all

text \<open>Blocks and attestations are recorded side by side.\<close>

lemma offer_entry_keeps:
  assumes "offer_entry e d = (Ok (), d')" "entry_covered d x"
  shows "entry_covered d' x"
proof (cases e)
  case (Proposal b)
  with assms new_block_Ok(3)[of b False d d'] show ?thesis
    by (cases x) (auto simp: ALLOW_GROWABLE_SLASH_PROTECTION_DB_def attestation_covered_def
        latest_attestation dest: new_block_covers(2))
next
  case (Vote a)
  with assms new_attestation_Ok(4)[of a False d d'] show ?thesis
    by (cases x) (auto simp: ALLOW_GROWABLE_SLASH_PROTECTION_DB_def block_covered_def
        latest_block dest: new_attestation_covers(2))
qed

interpretation entry_gate: protection_gate offer_entry entry_slashable entry_covered conflicting
proof (unfold_locales, goal_cases)
  case (1 e d) then show ?case
    by (cases e) (simp_all add: block_gate.offer_iff attestation_gate.offer_iff)
next
  case (2 e d) then show ?case
    by (cases e) (simp_all add: block_gate.offer_refused attestation_gate.offer_refused)
next
  case (3 e d d') then show ?case
    by (cases e) (auto dest: block_gate.offer_covers attestation_gate.offer_covers)
next
  case (4 e d d' x) then show ?case by (rule offer_entry_keeps)
next
  case (5 d old new) then show ?case
    by (cases old; cases new) (auto dest: block_gate.covered_safe attestation_gate.covered_safe)
qed

lemma offer_entry_pubkey: "offer_entry e d = (Ok (), d') \<Longrightarrow> pubkey d' = pubkey d"
  by (cases e) (auto dest: new_block_Ok(4) new_attestation_Ok(5))

section \<open>The operations over the abstract view\<close>

lemma is_slashable_entry:
  "is_slashable X pk m = ebind (spd_read X pk) (\<lambda>db.
     ret (case signed_entry X m of None \<Rightarrow> False | Some e \<Rightarrow> entry_slashable db e))"
  by (cases m) (simp_all add: is_slashable_def block_entry_def attestation_entry_def)

definition store_entry :: "codec \<Rightarrow> SlashingProtectionData \<Rightarrow> entry \<Rightarrow> (world, unit) eff" where
  "store_entry X db e = (case offer_entry e db of (r, db) \<Rightarrow> ebind (lift r) (\<lambda>_. spd_write X db))"

lemma update_entry:
  "update_slash_protection_db X pk m = ebind (spd_read X pk) (\<lambda>db.
     case signed_entry X m of
       None \<Rightarrow> lift (Err (Bail ''Should not update slash protection db for non blocks/attestations''))
     | Some e \<Rightarrow> store_entry X db e)"
  by (cases m) (simp_all add: update_slash_protection_db_def store_entry_def store_block_def
      store_attestation_def Let_def)

lemma wf_offer:
  assumes "wf_spd d" "offer_entry e d = (Ok (), d')"
    "case e of Proposal b \<Rightarrow> root_ok (sbs_signing_root b) | Vote a \<Rightarrow> root_ok (sae_signing_root a)"
  shows "wf_spd d'"
  using assms
  by (cases e) (auto simp: new_block_def new_attestation_def latest_attestation wf_spd_def
      ALLOW_GROWABLE_SLASH_PROTECTION_DB_def split: if_splits dest!: set_update_subset_insert[THEN subsetD])

lemma compute_signing_root_32 [simp]: "hash_laws X \<Longrightarrow> length (compute_signing_root X t d) = 32"
  by (simp add: compute_signing_root_def Let_def)

lemma to_signing_root_32: "hash_laws X \<Longrightarrow> length (to_signing_root X m g) = 32"
  by (cases m) (simp_all add: root_block_def root_block_v2_def root_attestation_def
      root_randao_reveal_def root_aggregate_and_proof_def root_aggregation_slot_def root_deposit_def
      root_voluntary_exit_def root_sync_committee_message_def root_sync_committee_selection_proof_def
      root_sync_committee_contribution_and_proof_def root_validator_registration_def Let_def)

lemma entry_root_ok:
  assumes "hash_laws X" "signed_entry X m = Some e"
  shows "case e of Proposal b \<Rightarrow> root_ok (sbs_signing_root b) | Vote a \<Rightarrow> root_ok (sae_signing_root a)"
  using assms(2) to_signing_root_32[OF assms(1)]
  by (cases m) (auto simp: root_ok_def block_entry_def attestation_entry_def simp del: to_signing_root.simps)

section \<open>The invariant\<close>

text \<open>
  \<open>guarded X w log\<close>: every file of the slashing directory that can be read at all holds
  the database of the validator it is named after, and that database covers every request
  for which the validator has released a signature (the \<open>log\<close>).
\<close>

definition guarded :: "codec \<Rightarrow> world \<Rightarrow> (string \<times> BLSSignMsg) list \<Rightarrow> bool" where
  "guarded X w log \<longleftrightarrow>
     (\<forall>n s d. lookup w (path_push slash_dir n) = Some s \<longrightarrow> spd_parse X s = Ok d \<longrightarrow>
        path_push slash_dir n = slash_dir @ [hex_encode X (pubkey d)] \<and>
        (\<forall>m e. (hex_encode X (pubkey d), m) \<in> set log \<longrightarrow> signed_entry X m = Some e \<longrightarrow> entry_covered d e))"

text \<open>The files of the slashing directory are the same in both worlds.\<close>

definition same_slash :: "world \<Rightarrow> world \<Rightarrow> bool" where
  "same_slash w w' \<longleftrightarrow> (\<forall>n. lookup w' (path_push slash_dir n) = lookup w (path_push slash_dir n))"

lemma guarded_same: "guarded X w log \<Longrightarrow> same_slash w w' \<Longrightarrow> guarded X w' log"
  unfolding guarded_def same_slash_def by simp

lemma same_slash_lookup: "lookup w' = lookup w \<Longrightarrow> same_slash w w'"
  by (simp add: same_slash_def)

lemma guarded_lookup: "guarded X w log \<Longrightarrow> lookup w' = lookup w \<Longrightarrow> guarded X w' log"
  by (blast intro: guarded_same same_slash_lookup)

text \<open>
  Writing a well-formed database that covers a log keeps the invariant, whatever part of
  the write reaches the disk; the log may have grown by requests of that validator.
\<close>

lemma guarded_written:
  assumes X: "codec_laws X" and G: "guarded X w log" and d: "wf_spd d"
    and l: "lookup w' = (lookup w)(slash_dir @ [hex_encode X (pubkey d)] \<mapsto> take k (spd_text X d))"
    and cov: "\<And>m e. (hex_encode X (pubkey d), m) \<in> set log' \<Longrightarrow> signed_entry X m = Some e \<Longrightarrow> entry_covered d e"
    and sub: "\<And>h m. (h, m) \<in> set log' \<Longrightarrow> h \<noteq> hex_encode X (pubkey d) \<Longrightarrow> (h, m) \<in> set log"
  shows "guarded X w' log'"
proof -
  let ?p = "slash_dir @ [hex_encode X (pubkey d)]"
  have "path_push slash_dir n = slash_dir @ [hex_encode X (pubkey d')] \<and>
      (\<forall>m e. (hex_encode X (pubkey d'), m) \<in> set log' \<longrightarrow> signed_entry X m = Some e \<longrightarrow> entry_covered d' e)"
    if f: "lookup w' (path_push slash_dir n) = Some s" and p: "spd_parse X s = Ok d'" for n s d'
  proof (cases "path_push slash_dir n = ?p")
    case True
    with f l have "s = take k (spd_text X d)" by simp
    with p have "d' = d" using spd_parse_torn[OF X d] by simp
    with True cov show ?thesis by blast
  next
    case False
    with f l have f0: "lookup w (path_push slash_dir n) = Some s" by simp
    with p G have g: "path_push slash_dir n = slash_dir @ [hex_encode X (pubkey d')]"
      "\<forall>m e. (hex_encode X (pubkey d'), m) \<in> set log \<longrightarrow> signed_entry X m = Some e \<longrightarrow> entry_covered d' e"
      unfolding guarded_def by blast+
    with False have "hex_encode X (pubkey d') \<noteq> hex_encode X (pubkey d)" by auto
    with g sub show ?thesis by blast
  qed
  then show ?thesis unfolding guarded_def by blast
qed

lemma guarded_write:
  assumes X: "codec_laws X" and G: "guarded X w log" and d: "wf_spd d"
    and cov: "\<And>m e. (hex_encode X (pubkey d), m) \<in> set log \<Longrightarrow> signed_entry X m = Some e \<Longrightarrow> entry_covered d e"
    and w: "spd_write X d w = (r, w')"
  shows "guarded X w' log"
proof -
  consider "lookup w' = lookup w"
    | k where "lookup w' = (lookup w)(slash_dir @ [hex_encode X (pubkey d)] \<mapsto> take k (spd_text X d))"
    using spd_write_effect(2)[OF X d w] by blast
  then show ?thesis
  proof cases
    case 1
    with G show ?thesis by (rule guarded_lookup)
  next
    case 2
    show ?thesis by (rule guarded_written[OF X G d 2]) (use cov in auto)
  qed
qed

text \<open>The update of the database, on every outcome.\<close>

lemma guarded_store:
  assumes X: "codec_laws X" and G: "guarded X w log"
    and f: "lookup w (path_push slash_dir n) = Some s" "spd_parse X s = Ok d"
    and e: "signed_entry X m = Some e" "hash_laws X"
    and st: "store_entry X d e w = (r, w')"
  shows "guarded X w' log"
    and "r = Ok () \<Longrightarrow> guarded X w' (log @ [(hex_encode X (pubkey d), m)]) \<and>
      (\<forall>m' e'. (hex_encode X (pubkey d), m') \<in> set log \<longrightarrow> signed_entry X m' = Some e' \<longrightarrow> \<not> conflicting e' e)"
proof -
  have cov: "entry_covered d e'" if "(hex_encode X (pubkey d), m') \<in> set log" "signed_entry X m' = Some e'" for m' e'
    using G f that unfolding guarded_def by blast
  have wf: "wf_spd d" by (rule spd_parse_wf[OF X f(2)])
  have "guarded X w' log \<and> (r = Ok () \<longrightarrow> guarded X w' (log @ [(hex_encode X (pubkey d), m)]) \<and>
      (\<forall>m' e'. (hex_encode X (pubkey d), m') \<in> set log \<longrightarrow> signed_entry X m' = Some e' \<longrightarrow> \<not> conflicting e' e))"
  proof (cases rule: entry_gate.offer_cases[of e d])
    case (accepted d')
    have wf': "wf_spd d'" by (rule wf_offer[OF wf accepted(1) entry_root_ok[OF e(2,1)]])
    have pk: "pubkey d' = pubkey d" by (rule offer_entry_pubkey[OF accepted(1)])
    have w: "spd_write X d' w = (r, w')"
      using st accepted(1) by (simp add: store_entry_def)
    have cov': "entry_covered d' e'"
      if "(hex_encode X (pubkey d'), m') \<in> set (log @ [(hex_encode X (pubkey d), m)])" "signed_entry X m' = Some e'" for m' e'
      using that cov accepted(3) e(1) offer_entry_keeps[OF accepted(1)] by (auto simp: pk)
    have "guarded X w' log"
      by (rule guarded_write[OF X G wf' _ w]) (use cov' in auto)
    moreover have "guarded X w' (log @ [(hex_encode X (pubkey d), m)])" if "r = Ok ()"
    proof (rule guarded_written[OF X G wf' _ cov'])
      show "lookup w' = (lookup w)(slash_dir @ [hex_encode X (pubkey d')] \<mapsto>
          take (length (spd_text X d')) (spd_text X d'))"
        using spd_write_effect(1)[OF X wf' w that] by simp
    qed (auto simp: pk)
    ultimately show ?thesis
      using cov accepted(2) entry_gate.covered_safe by blast
  next
    case (refused r')
    with G show ?thesis
      using st by (cases r') (auto simp: store_entry_def ebind_def)
  qed
  then show "guarded X w' log" "r = Ok () \<Longrightarrow> guarded X w' (log @ [(hex_encode X (pubkey d), m)]) \<and>
      (\<forall>m' e'. (hex_encode X (pubkey d), m') \<in> set log \<longrightarrow> signed_entry X m' = Some e' \<longrightarrow> \<not> conflicting e' e)"
    by blast+
qed

lemma guarded_update:
  assumes X: "codec_laws X" "hash_laws X" and G: "guarded X w log"
    and u: "update_slash_protection_db X pk m w = (r, w')"
  shows "guarded X w' log"
    and "r = Ok () \<Longrightarrow> pk = hex_encode X k \<Longrightarrow> k \<noteq> [] \<Longrightarrow>
      guarded X w' (log @ [(pk, m)]) \<and>
      (\<forall>old \<in> set log. fst old = pk \<longrightarrow> \<not> slashable_offence X (snd old) m)"
proof -
  obtain rd w1 where read: "spd_read X pk w = (rd, w1)" by fastforce
  have l1: "lookup w1 = lookup w" using spd_read_lookup[of X pk w] read by simp
  note G1 = guarded_lookup[OF G l1]
  let ?n = "strip_0x_prefix pk"
  have stored: "\<exists>s. lookup w1 (path_push slash_dir ?n) = Some s \<and> spd_parse X s = Ok d" if "rd = Ok d" for d
    using spd_read_Ok(1)[of X pk w d w1] read that l1 by auto
  have run: "(\<exists>d e. rd = Ok d \<and> signed_entry X m = Some e \<and> store_entry X d e w1 = (r, w')) \<or>
      (w' = w1 \<and> r \<noteq> Ok ())"
    using u read by (cases rd) (auto simp: update_entry ebind_def split: option.splits)
  show "guarded X w' log"
    using run stored guarded_store(1)[OF X(1) G1 _ _ _ X(2)] G1 by blast
  show "guarded X w' (log @ [(pk, m)]) \<and>
      (\<forall>old \<in> set log. fst old = pk \<longrightarrow> \<not> slashable_offence X (snd old) m)"
    if ok: "r = Ok ()" and pk: "pk = hex_encode X k" "k \<noteq> []"
  proof -
    obtain d e s where d: "rd = Ok d" "signed_entry X m = Some e" "store_entry X d e w1 = (r, w')"
      "lookup w1 (path_push slash_dir ?n) = Some s" "spd_parse X s = Ok d"
      using run ok stored by blast
    have "path_push slash_dir ?n = slash_dir @ [pk]"
      using plain_hex_encode[OF codec_lawsD(1)[OF X(1)] pk(2)] codec_lawsD(1)[OF X(1)] by (simp add: pk(1))
    moreover have "path_push slash_dir ?n = slash_dir @ [hex_encode X (pubkey d)]"
      using G1 d(4,5) unfolding guarded_def by blast
    ultimately have h: "hex_encode X (pubkey d) = pk" by simp
    note S = guarded_store(2)[OF X(1) G1 d(4,5,2) X(2) d(3) ok, unfolded h]
    then show ?thesis
      using d(2) by (auto simp: slashable_offence_def split: option.splits)
  qed
qed

section \<open>The endpoint\<close>

lemma sanitize_Ok: "sanitize_bls_pk_hex pk = Ok h \<longleftrightarrow> h = strip_0x_prefix pk \<and> length h = 96"
  by (auto simp: sanitize_bls_pk_hex_def BLS_PUB_KEY_BYTES_def Let_def)

lemma sanitize_cases: "sanitize_bls_pk_hex pk = Ok h \<or> (\<exists>e. sanitize_bls_pk_hex pk = Err e)"
  if "h = strip_0x_prefix pk"
  using that by (auto simp: sanitize_bls_pk_hex_def Let_def)

lemma is_slashable_lookup [io_simps]: "lookup (snd (is_slashable X pk m w)) = lookup w"
  unfolding is_slashable_entry by (rule ebind_keeps) (simp_all add: io_simps)

lemma update_guard:
  "(if can_be_slashed m then update_slash_protection_db X pk m else ret ()) w = (Ok (), w') \<Longrightarrow>
     can_be_slashed m \<and> update_slash_protection_db X pk m w = (Ok (), w') \<or> \<not> can_be_slashed m \<and> w' = w"
  by (simp split: if_splits)

text \<open>An answer 200 took the whole path: not refused, checked, recorded, and then signed.\<close>

lemma sign_success:
  assumes "sign_validator_message X B pk st m w = (Response HTTP_OK b, w')"
  defines "h \<equiv> strip_0x_prefix pk"
  shows "\<exists>w1 w2 g. \<not> is_upper_deposit m \<and> length h = 96 \<and>
     is_slashable X h m w = (Ok False, w1) \<and>
     (can_be_slashed m \<and> update_slash_protection_db X h m w1 = (Ok (), w2) \<or> \<not> can_be_slashed m \<and> w2 = w1) \<and>
     bls_agg_sign_from_saved_sk X B h (to_signing_root X m (Some (genesis_fork_version st))) w2 = (Ok g, w') \<and>
     b = JsonBody (SignatureResponse_new X (sig_to_bytes B g))"
  using assms(1) unfolding h_def
  by (auto simp: sign_validator_message_def Let_def on_ok_success status_defs sanitize_Ok
      split: if_splits)

text \<open>Whatever the endpoint answers, the files of the database stay guarded.\<close>

lemma sign_keeps_guarded:
  assumes X: "codec_laws X" "hash_laws X" and G: "guarded X w log"
  shows "guarded X (snd (sign_validator_message X B pk st m w)) log"
proof -
  have upd: "guarded X (snd (update_slash_protection_db X h m w1)) log" if "guarded X w1 log" for w1 h
    using guarded_update(1)[OF X that] by (metis prod.collapse)
  have agg: "guarded X (snd (bls_agg_sign_from_saved_sk X B h r w1)) log" if "guarded X w1 log" for w1 h r
    by (rule guarded_lookup[OF that bls_agg_sign_lookup])
  show ?thesis
    unfolding sign_validator_message_def Let_def using G
    by (auto intro!: on_ok_keeps[where P = "\<lambda>w. guarded X w log"] upd agg simp: io_simps
        elim: guarded_lookup)
qed

text \<open>A signature is released only under a name that is the hex of a public key.\<close>

lemma saved_sk_name:
  assumes "hex_laws X" "bls_laws X B" "bls_agg_sign_from_saved_sk X B h r w = (Ok g, w')"
  shows "\<exists>k. h = hex_encode X k \<and> k \<noteq> []"
proof -
  obtain k where k: "h = pk_to_hex B k" using bls_agg_sign_from_saved_sk_Ok[OF assms(3)] by blast
  have "length (pk_to_bytes B k) = 48" using bls_simps(7)[OF assms(2)] .
  then have "pk_to_bytes B k \<noteq> []" by auto
  with k pk_to_hex_eq[OF assms(2)] show ?thesis by metis
qed

lemma spd_read_hex_file:
  assumes "hex_laws X" "h = hex_encode X k" "k \<noteq> []" "spd_read X h w = (Ok d, w')"
  shows "\<exists>s. lookup w (slash_dir @ [h]) = Some s \<and> spd_parse X s = Ok d"
  using spd_read_Ok(1)[OF assms(4)] assms(1-3) by (simp add: plain_hex_encode)

text \<open>
  A released signature is on record before it leaves, and does not conflict with any
  signature released before it under the same name.
\<close>

lemma sign_released:
  assumes L: "codec_laws X" "hash_laws X" "bls_laws X B" and G: "guarded X w log"
    and s: "sign_validator_message X B pk st m w = (Response HTTP_OK b, w')"
  shows "guarded X w' (log @ [(strip_0x_prefix pk, m)])"
    "\<forall>old \<in> set log. fst old = strip_0x_prefix pk \<longrightarrow> \<not> slashable_offence X (snd old) m"
proof -
  let ?h = "strip_0x_prefix pk"
  obtain w1 w2 g where c: "is_slashable X ?h m w = (Ok False, w1)"
    and u: "can_be_slashed m \<and> update_slash_protection_db X ?h m w1 = (Ok (), w2) \<or> \<not> can_be_slashed m \<and> w2 = w1"
    and a: "bls_agg_sign_from_saved_sk X B ?h (to_signing_root X m (Some (genesis_fork_version st))) w2 = (Ok g, w')"
    using sign_success[OF s] by blast
  obtain k where k: "?h = hex_encode X k" "k \<noteq> []"
    using saved_sk_name[OF codec_lawsD(1)[OF L(1)] L(3) a] by blast
  have G1: "guarded X w1 log"
    using guarded_lookup[OF G] is_slashable_lookup[of X ?h m w] c by simp
  have "guarded X w2 (log @ [(?h, m)]) \<and>
      (\<forall>old \<in> set log. fst old = ?h \<longrightarrow> \<not> slashable_offence X (snd old) m)"
  proof (cases "can_be_slashed m")
    case True
    with u have "update_slash_protection_db X ?h m w1 = (Ok (), w2)" by simp
    from guarded_update(2)[OF L(1,2) G1 this _ k] show ?thesis by simp
  next
    case False
    then have "signed_entry X m = None" using can_be_slashed_entry by blast
    with False u G1 show ?thesis
      by (auto simp: guarded_def slashable_offence_def split: option.splits)
  qed
  moreover have "lookup w' = lookup w2"
    using bls_agg_sign_lookup[of X B ?h "to_signing_root X m (Some (genesis_fork_version st))" w2] a by simp
  ultimately show "guarded X w' (log @ [(?h, m)])"
    "\<forall>old \<in> set log. fst old = ?h \<longrightarrow> \<not> slashable_offence X (snd old) m"
    by (auto intro: guarded_lookup)
qed

text \<open>The database file of a released signature existed.\<close>

lemma sign_file_exists:
  assumes L: "codec_laws X" "bls_laws X B"
    and s: "sign_validator_message X B pk st m w = (Response HTTP_OK b, w')"
  shows "lookup w (slash_dir @ [strip_0x_prefix pk]) \<noteq> None"
proof -
  let ?h = "strip_0x_prefix pk"
  obtain w1 w2 g where c: "is_slashable X ?h m w = (Ok False, w1)"
    and a: "bls_agg_sign_from_saved_sk X B ?h (to_signing_root X m (Some (genesis_fork_version st))) w2 = (Ok g, w')"
    using sign_success[OF s] by blast
  obtain k where k: "?h = hex_encode X k" "k \<noteq> []"
    using saved_sk_name[OF codec_lawsD(1)[OF L(1)] L(2) a] by blast
  obtain d w'' where "spd_read X ?h w = (Ok d, w'')"
    using c unfolding is_slashable_entry by (auto simp: res_simps)
  from spd_read_hex_file[OF codec_lawsD(1)[OF L(1)] k this] show ?thesis by auto
qed

end
