(* ===== verification/Keygen.thy ===== *)
theory Keygen
  imports Signer
begin

text \<open>
  Generating keys: src/enclave/validator/ (a validator key shared among guardians),
  src/enclave/secure_signer/ (keys of the secure signer, and deposits with them) and
  src/client/keygen.rs (a validator key kept in an encrypted keystore outside an enclave).
\<close>

section \<open>Recipients\<close>

record ('epk, 'ssh, 'psh) RecipientKeys =
  rk_guardian_public_key :: 'epk
  rk_secret_key_share :: 'ssh
  rk_public_key_share :: 'psh

record ('epk, 'psh) EncryptedRecipientKeys =
  erk_guardian_public_key :: 'epk
  erk_public_key_share :: 'psh
  encrypted_secret_key_share_hex :: string

definition encrypt_to_recipient ::
  "codec \<Rightarrow> ('ps, 'pk, 'psh, 'ss, 'sk, 'ssh, 'sg, 'sgh) blsttc \<Rightarrow> ('esk, 'epk, 'emsg, 'esig) secp \<Rightarrow>
   ('epk, 'ssh, 'psh) RecipientKeys \<Rightarrow> (world, ('epk, 'psh) EncryptedRecipientKeys) eff" where
  "encrypt_to_recipient X B E k =
     ebind (envelope_encrypt E (rk_guardian_public_key k) (ssh_to_bytes B (rk_secret_key_share k))) (\<lambda>ct_sk.
     ret \<lparr>erk_guardian_public_key = rk_guardian_public_key k,
          erk_public_key_share = rk_public_key_share k,
          encrypted_secret_key_share_hex = hex_encode X ct_sk\<rparr>)"

definition bls_partial_sign ::
  "('ps, 'pk, 'psh, 'ss, 'sk, 'ssh, 'sg, 'sgh) blsttc \<Rightarrow> ('epk, 'ssh, 'psh) RecipientKeys \<Rightarrow> bytes \<Rightarrow> 'sgh" where
  "bls_partial_sign B k message = ssh_sign B (rk_secret_key_share k) message"

definition bls_partial_verify ::
  "('ps, 'pk, 'psh, 'ss, 'sk, 'ssh, 'sg, 'sgh) blsttc \<Rightarrow> ('epk, 'ssh, 'psh) RecipientKeys \<Rightarrow> 'sgh \<Rightarrow>
   bytes \<Rightarrow> bool" where
  "bls_partial_verify B k signature message = psh_verify B (rk_public_key_share k) signature message"

text \<open>The loop that encrypts the shares, pushing onto \<open>recipient_keys\<close>.\<close>

fun encrypt_shares ::
  "codec \<Rightarrow> ('ps, 'pk, 'psh, 'ss, 'sk, 'ssh, 'sg, 'sgh) blsttc \<Rightarrow> ('esk, 'epk, 'emsg, 'esig) secp \<Rightarrow>
   ('epk \<times> 'ssh \<times> 'psh) list \<Rightarrow> ('epk, 'psh) EncryptedRecipientKeys list \<Rightarrow>
   (world, ('epk, 'psh) EncryptedRecipientKeys list) eff" where
  "encrypt_shares X B E [] recipient_keys = ret recipient_keys"
| "encrypt_shares X B E ((g_pk, sk_share, pk_share) # rest) recipient_keys =
     ebind (encrypt_to_recipient X B E
              \<lparr>rk_guardian_public_key = g_pk, rk_secret_key_share = sk_share,
               rk_public_key_share = pk_share\<rparr>) (\<lambda>k.
     encrypt_shares X B E rest (recipient_keys @ [k]))"

section \<open>The validator enclave\<close>

text \<open>
  \<open>threshold - 1\<close> is machine arithmetic; a release build wraps at zero, and
  \<open>SecretKeySet::random\<close> then cannot allocate the polynomial.
\<close>

definition attest_fresh_bls_key ::
  "codec \<Rightarrow> ('ps, 'pk, 'psh, 'ss, 'sk, 'ssh, 'sg, 'sgh) blsttc \<Rightarrow> ('esk, 'epk, 'emsg, 'esig) secp \<Rightarrow>
   services \<Rightarrow> Bytes32 \<Rightarrow> 'epk list \<Rightarrow> u64 \<Rightarrow> Version \<Rightarrow> bool \<Rightarrow> (world, BlsKeygenPayload) eff" where
  "attest_fresh_bls_key X B E N wc guardian_public_keys threshold fork_version do_remote_attestation =
     ebind (new_bls_key B (unat (threshold - 1))) (\<lambda>secret_key_set.
     let n = length guardian_public_keys;
         key_shares = distribute_key_shares B secret_key_set n in
     ebind (encrypt_shares X B E (zip guardian_public_keys key_shares) []) (\<lambda>recipient_keys.
     let pk_set = sks_public_keys B secret_key_set;
         validator_pubkey = pks_public_key B pk_set in
     ebind (save_bls_key X B secret_key_set) (\<lambda>_.
     ebind (lift (from_pk_hex X (pk_to_hex B validator_pubkey))) (\<lambda>db.
     ebind (spd_write X db) (\<lambda>_.
     ebind (lift (sign_full_deposit X B secret_key_set wc fork_version)) (\<lambda>(signature, dd_root).
     ebind (lift (build_validator_remote_attestation_payload X B E pk_set signature dd_root
                    (map encrypted_secret_key_share_hex recipient_keys)
                    (map erk_guardian_public_key recipient_keys))) (\<lambda>payload.
     ebind (if do_remote_attestation then evidence_new N payload else ret (evidence_default N)) (\<lambda>evidence.
     ret \<lparr>bls_pub_key_set = hex_encode X (pks_to_bytes B pk_set),
          bls_pub_key = pk_to_hex B validator_pubkey,
          kp_signature = hex_encode X signature,
          kp_deposit_data_root = hex_encode X dd_root,
          bls_enc_priv_key_shares = map encrypted_secret_key_share_hex recipient_keys,
          session_id = ae_session_id evidence,
          attestation_signature = ae_signature evidence,
          session_public_key = alloy_to_string N (pi_key (ae_session_public_key evidence)),
          guardian_eth_pub_keys =
            map (\<lambda>k. eth_pk_to_hex_uncompressed X E (erk_guardian_public_key k)) recipient_keys,
          kp_withdrawal_credentials = hex_encode X wc,
          kp_fork_version = fork_version\<rparr>))))))))"

definition attest_fresh_bls_key_handler ::
  "codec \<Rightarrow> ('ps, 'pk, 'psh, 'ss, 'sk, 'ssh, 'sg, 'sgh) blsttc \<Rightarrow> ('esk, 'epk, 'emsg, 'esig) secp \<Rightarrow>
   services \<Rightarrow> 'epk AttestFreshBlsKeyPayload \<Rightarrow> world \<Rightarrow> BlsKeygenPayload response \<times> world" where
  "attest_fresh_bls_key_handler X B E N payload =
     on_ok (attest_fresh_bls_key X B E N (af_withdrawal_credentials payload) (af_guardian_pubkeys payload)
              (af_threshold payload) (af_fork_version payload) (af_do_remote_attestation payload))
       (\<lambda>e. Response INTERNAL_SERVER_ERROR NoBody) (\<lambda>keygen_result.
     respond (Response CREATED (JsonBody keygen_result)))"

section \<open>The secure signer\<close>

definition attest_new_eth_key ::
  "codec \<Rightarrow> ('esk, 'epk, 'emsg, 'esig) secp \<Rightarrow> services \<Rightarrow> (world, AttestationEvidence \<times> 'epk) eff" where
  "attest_new_eth_key X E N =
     ebind (eth_key_gen X E) (\<lambda>pk.
     ebind (evidence_new N (epk_serialize_compressed E pk)) (\<lambda>proof.
     ret (proof, pk)))"

definition attest_new_bls_key ::
  "codec \<Rightarrow> ('ps, 'pk, 'psh, 'ss, 'sk, 'ssh, 'sg, 'sgh) blsttc \<Rightarrow> services \<Rightarrow>
   (world, AttestationEvidence \<times> 'pk) eff" where
  "attest_new_bls_key X B N =
     ebind (new_bls_key B 0) (\<lambda>sk.
     let pk = pks_public_key B (sks_public_keys B sk) in
     ebind (in_context ''Failed to save BLS key'' (save_bls_key X B sk)) (\<lambda>_.
     ebind (lift (from_pk_hex X (pk_to_hex B pk))) (\<lambda>db.
     ebind (spd_write X db) (\<lambda>_.
     ebind (evidence_new N (pk_to_bytes B pk)) (\<lambda>proof.
     ret (proof, pk))))))"

definition eth_keygen_handler ::
  "codec \<Rightarrow> ('esk, 'epk, 'emsg, 'esig) secp \<Rightarrow> services \<Rightarrow> world \<Rightarrow> KeyGenResponse response \<times> world" where
  "eth_keygen_handler X E N =
     on_ok (attest_new_eth_key X E N)
       (\<lambda>e. Response INTERNAL_SERVER_ERROR (Failure ''eth_key_gen_service failed'' e)) (\<lambda>(evidence, eth_pk).
     respond (Response CREATED (JsonBody (from_eth_key X E eth_pk evidence))))"

definition bls_keygen_handler ::
  "codec \<Rightarrow> ('ps, 'pk, 'psh, 'ss, 'sk, 'ssh, 'sg, 'sgh) blsttc \<Rightarrow> services \<Rightarrow> world \<Rightarrow>
   KeyGenResponse response \<times> world" where
  "bls_keygen_handler X B N =
     on_ok (attest_new_bls_key X B N)
       (\<lambda>e. Response INTERNAL_SERVER_ERROR (Failure ''bls_key_gen_service failed'' e)) (\<lambda>(evidence, eth_pk).
     respond (Response CREATED (JsonBody (from_bls_key B eth_pk evidence))))"

definition validator_deposit_handler ::
  "codec \<Rightarrow> ('ps, 'pk, 'psh, 'ss, 'sk, 'ssh, 'sg, 'sgh) blsttc \<Rightarrow> DepositRequest \<Rightarrow> world \<Rightarrow>
   DepositResponse response \<times> world" where
  "validator_deposit_handler X B req =
     (let bls_pk_hex = hex_encode X (fv_ssz_bytes X (dm_pubkey (dr_deposit req))) in
      on_ok (lift (sanitize_bls_pk_hex bls_pk_hex))
        (\<lambda>e. Response BAD_REQUEST (Failure ''Bad bls_pk_hex'' e)) (\<lambda>bls_pk_hex.
      on_ok (bls_key_exists bls_pk_hex) (\<lambda>e. Response INTERNAL_SERVER_ERROR NoBody) (\<lambda>exists.
      if \<not> exists
      then respond (Response PRECONDITION_FAILED (Message ''This validator key does not exist''))
      else
        on_ok (get_deposit_signature X B bls_pk_hex (dr_deposit req) (dr_genesis_fork_version req))
          (\<lambda>e. Response INTERNAL_SERVER_ERROR (Failure ''Deposit signing operation failed'' e)) (\<lambda>resp.
        respond (Response HTTP_OK (JsonBody resp))))))"

section \<open>Key generation in a client\<close>

definition generate_bls_keystore ::
  "codec \<Rightarrow> ('ps, 'pk, 'psh, 'ss, 'sk, 'ssh, 'sg, 'sgh) blsttc \<Rightarrow> ('esk, 'epk, 'emsg, 'esig) secp \<Rightarrow>
   keystore_crate \<Rightarrow> Bytes32 \<Rightarrow> 'epk list \<Rightarrow> u64 \<Rightarrow> string \<Rightarrow> Version \<Rightarrow> (world, BlsKeygenPayload) eff" where
  "generate_bls_keystore X B E K wc guardian_public_keys threshold password fork_version =
     ebind (new_bls_key B (unat (threshold - 1))) (\<lambda>secret_key_set.
     let n = length guardian_public_keys;
         key_shares = distribute_key_shares B secret_key_set n in
     ebind (encrypt_shares X B E (zip guardian_public_keys key_shares) []) (\<lambda>recipient_keys.
     let pk_set = sks_public_keys B secret_key_set;
         validator_pubkey = pks_public_key B pk_set in
     ebind (save_bls_keystore K B secret_key_set password) (\<lambda>_.
     ebind (lift (sign_full_deposit X B secret_key_set wc fork_version)) (\<lambda>(signature, dd_root).
     ret \<lparr>bls_pub_key_set = hex_encode X (pks_to_bytes B pk_set),
          bls_pub_key = pk_to_hex B validator_pubkey,
          kp_signature = hex_encode X signature,
          kp_deposit_data_root = hex_encode X dd_root,
          bls_enc_priv_key_shares = map encrypted_secret_key_share_hex recipient_keys,
          session_id = [],
          attestation_signature = [],
          session_public_key = [],
          guardian_eth_pub_keys =
            map (\<lambda>k. eth_pk_to_hex_uncompressed X E (erk_guardian_public_key k)) recipient_keys,
          kp_withdrawal_credentials = hex_encode X wc,
          kp_fork_version = GENESIS_FORK_VERSION\<rparr>))))"

definition generate_bls_keystore_handler ::
  "codec \<Rightarrow> ('ps, 'pk, 'psh, 'ss, 'sk, 'ssh, 'sg, 'sgh) blsttc \<Rightarrow> ('esk, 'epk, 'emsg, 'esig) secp \<Rightarrow>
   keystore_crate \<Rightarrow> 'epk AttestFreshBlsKeyPayload \<Rightarrow> string \<Rightarrow> (world, BlsKeygenPayload) eff" where
  "generate_bls_keystore_handler X B E K payload keystore_password =
     generate_bls_keystore X B E K (af_withdrawal_credentials payload) (af_guardian_pubkeys payload)
       (af_threshold payload) keystore_password (af_fork_version payload)"

end
