(* ===== verification/Guardian.thy ===== *)
theory Guardian
  imports Keygen
begin

text \<open>
  src/enclave/guardian/: a guardian's enclave key, the acceptance of a key share into
  custody (evidence of the generating enclave, deposit message, the share itself), and the
  voluntary exit it signs with a share it holds. The \<open>ethers\<close> crate is the record
  \<open>H\<close>: ABI encoding, and a wallet \<open>'wal\<close> with its signatures \<open>'wsig\<close>.
\<close>

section \<open>The ethers crate\<close>

datatype abi_token =
    TokString string
  | TokAddress bytes
  | TokUint nat
  | TokBytes bytes
  | TokFixedBytes bytes

record ('wal, 'wsig) ethers =
  abi_encode :: "abi_token list \<Rightarrow> bytes"
  address_parse :: "string \<Rightarrow> bytes option"
  wallet_parse :: "string \<Rightarrow> 'wal option"
  wallet_address :: "'wal \<Rightarrow> bytes"
  wallet_sign_message :: "'wal \<Rightarrow> bytes \<Rightarrow> 'wsig option"
  wsig_recover :: "'wsig \<Rightarrow> bytes \<Rightarrow> bytes option"
  wsig_to_string :: "'wsig \<Rightarrow> string"

section \<open>The enclave key\<close>

record KeygenWithBlockhashRequest =
  kb_block_number :: u64
  kb_guardian_module_address :: string
  kb_chain_id :: u64

definition attest_new_eth_key_with_blockhash ::
  "codec \<Rightarrow> ('esk, 'epk, 'emsg, 'esig) secp \<Rightarrow> services \<Rightarrow> ('wal, 'wsig) ethers \<Rightarrow> u64 \<Rightarrow> string \<Rightarrow> u64 \<Rightarrow>
   (world, AttestationEvidence \<times> 'epk) eff" where
  "attest_new_eth_key_with_blockhash X E N H block_number guardian_module_address chain_id =
     ebind (eth_key_gen X E) (\<lambda>pk.
     let address_str = strip_0x_prefix guardian_module_address in
     ebind (lift (with_context ''Invalid guardian_module_address''
                    (ok_or ''Address::from_str'' (address_parse H address_str)))) (\<lambda>address.
     let payload = abi_encode H [
           TokString ''ROTATE_GUARDIAN_KEY'',
           TokAddress address,
           TokUint (unat chain_id),
           TokUint (unat block_number),
           TokBytes (epk_serialize E pk)] in
     ebind (evidence_new N payload) (\<lambda>proof.
     ret (proof, pk))))"

section \<open>Session evidence\<close>

text \<open>
  \<open>parse_session_public_key\<close>: JSON first, then the hex of a secp256k1 key (type 3).
\<close>

definition parse_session_public_key :: "codec \<Rightarrow> services \<Rightarrow> string \<Rightarrow> PublicIdentity res" where
  "parse_session_public_key X N spk =
     (case identity_from_str N spk of
        Some identity \<Rightarrow> Ok \<lparr>pi_type_id = pi_type_id identity, pi_key = pi_key identity\<rparr>
      | None \<Rightarrow>
          (let key_hex = strip_0x_prefix spk in
           rbind (with_context ''session_public_key is neither valid JSON nor hex''
                    (ok_or ''hex::decode'' (hex_decode X key_hex))) (\<lambda>key_bytes.
           Ok \<lparr>pi_type_id = 3, pi_key = key_bytes\<rparr>)))"

definition session_message ::
  "codec \<Rightarrow> ('ps, 'pk, 'psh, 'ss, 'sk, 'ssh, 'sg, 'sgh) blsttc \<Rightarrow> ('esk, 'epk, 'emsg, 'esig) secp \<Rightarrow>
   BlsKeygenPayload \<Rightarrow> bytes res" where
  "session_message X B E p =
     rbind (ok_or ''hex::decode'' (hex_decode X (bls_pub_key_set p))) (\<lambda>b.
     rbind (ok_or ''PublicKeySet::from_bytes'' (pks_from_bytes B b)) (\<lambda>pk_set.
     rbind (ok_or ''hex::decode'' (hex_decode X (kp_deposit_data_root p))) (\<lambda>r.
     rbind (copy_from_slice 32 r) (\<lambda>dd_root.
     rbind (ok_or ''hex::decode'' (hex_decode X (kp_signature p))) (\<lambda>sig.
     rbind (mapM (eth_pk_from_hex_uncompressed X E) (guardian_eth_pub_keys p)) (\<lambda>pks.
     rbind (build_validator_remote_attestation_payload X B E pk_set (BLSSignature_from X sig) dd_root
              (bls_enc_priv_key_shares p) pks) (\<lambda>payload.
     Ok (keccak256 X payload))))))))"

definition check_workload ::
  "codec \<Rightarrow> services \<Rightarrow> string \<Rightarrow> bytes \<Rightarrow> bytes \<Rightarrow> string \<Rightarrow> (world, unit) eff" where
  "check_workload X N rpc_url registry_address sid wid =
     (if wid = [] then ret ()
      else
        ebind (get_session N rpc_url registry_address sid) (\<lambda>session.
        let workload_id_hex = strip_0x_prefix wid in
        ebind (lift (ok_or ''hex::decode'' (hex_decode X workload_id_hex))) (\<lambda>workload_id_bytes.
        if length workload_id_bytes \<noteq> 32 then lift (Err (Bail ''workload_id must be 32 bytes''))
        else if cs_workloadId session \<noteq> workload_id_bytes
        then lift (Err (Bail ''Session workload mismatch''))
        else ret ())))"

definition verify_session_evidence ::
  "codec \<Rightarrow> ('ps, 'pk, 'psh, 'ss, 'sk, 'ssh, 'sg, 'sgh) blsttc \<Rightarrow> ('esk, 'epk, 'emsg, 'esig) secp \<Rightarrow>
   services \<Rightarrow> BlsKeygenPayload \<Rightarrow> string \<Rightarrow> (world, unit) eff" where
  "verify_session_evidence X B E N p wid =
     (if session_id p = [] then lift (Err (Bail ''Missing session_id in keygen payload''))
      else if attestation_signature p = []
      then lift (Err (Bail ''Missing attestation_signature in keygen payload''))
      else if session_public_key p = []
      then lift (Err (Bail ''Missing session_public_key in keygen payload''))
      else
        ebind (lift (session_message X B E p)) (\<lambda>message.
        ebind (lift (ok_or ''hex::decode'' (hex_decode X (strip_0x_prefix (session_id p))))) (\<lambda>sid.
        if length sid \<noteq> 32 then lift (Err (Bail ''session_id must be 32 bytes''))
        else
          ebind (lift (parse_session_public_key X N (session_public_key p))) (\<lambda>session_key.
          ebind (lift (ok_or ''hex::decode''
                   (hex_decode X (strip_0x_prefix (attestation_signature p))))) (\<lambda>signature.
          ebind (in_context ''SESSION_REGISTRY_RPC_URL env var is required for session verification''
                   (env_var ''SESSION_REGISTRY_RPC_URL'')) (\<lambda>rpc_url.
          ebind (in_context ''SESSION_REGISTRY_ADDRESS env var is required for session verification''
                   (env_var ''SESSION_REGISTRY_ADDRESS'')) (\<lambda>addr.
          ebind (lift (with_context ''SESSION_REGISTRY_ADDRESS is not a valid address''
                   (ok_or ''Address::from_str'' (alloy_address_parse N addr)))) (\<lambda>registry_address.
          ebind (verify_session_signature N rpc_url registry_address sid session_key message signature)
            (\<lambda>valid.
          if \<not> valid
          then lift (Err (Bail ''SessionRegistry.verifySessionSignature() returned false''))
          else check_workload X N rpc_url registry_address sid wid)))))))))"

section \<open>Custody\<close>

definition verify_deposit_message ::
  "codec \<Rightarrow> ('ps, 'pk, 'psh, 'ss, 'sk, 'ssh, 'sg, 'sgh) blsttc \<Rightarrow> BlsKeygenPayload \<Rightarrow> unit res" where
  "verify_deposit_message X B p =
     rbind (kp_public_key_set X B p) (\<lambda>pk_set.
     rbind (signature_of X B p) (\<lambda>sig.
     rbind (deposit_message_root_of X B p) (\<lambda>root.
     if \<not> pk_verify B (pks_public_key B pk_set) sig root
     then Err (Bail ''DepositMessage signature invalid'')
     else
       rbind (deposit_data_root_of X B p) (\<lambda>dd_root.
       let expected = strip_0x_prefix (kp_deposit_data_root p) in
       if expected \<noteq> hex_encode X dd_root then Err (Bail ''DepositDataRoot invalid'')
       else Ok ()))))"

text \<open>
  The search for the share: a share that does not decrypt is skipped, as is one that
  decrypts to the share of another index.
\<close>

fun custody_loop ::
  "codec \<Rightarrow> ('ps, 'pk, 'psh, 'ss, 'sk, 'ssh, 'sg, 'sgh) blsttc \<Rightarrow> ('esk, 'epk, 'emsg, 'esig) secp \<Rightarrow>
   BlsKeygenPayload \<Rightarrow> 'esk \<Rightarrow> nat list \<Rightarrow> 'ssh res" where
  "custody_loop X B E p sk [] =
     Err (Bail ''verify_custody failed to decrypt using Guardian enclave key'')"
| "custody_loop X B E p sk (i # is) =
     (case decrypt_sk_share X B E p i sk of
        Err e \<Rightarrow> custody_loop X B E p sk is
      | Panic m \<Rightarrow> Panic m
      | Ok sk_share \<Rightarrow>
          rbind (kp_public_key_set X B p) (\<lambda>pk_set.
          if hex_encode X (psh_to_bytes B (pks_public_key_share B pk_set i)) =
             hex_encode X (psh_to_bytes B (ssh_public_key_share B sk_share))
          then Ok sk_share
          else custody_loop X B E p sk is))"

definition verify_custody ::
  "codec \<Rightarrow> ('ps, 'pk, 'psh, 'ss, 'sk, 'ssh, 'sg, 'sgh) blsttc \<Rightarrow> ('esk, 'epk, 'emsg, 'esig) secp \<Rightarrow>
   BlsKeygenPayload \<Rightarrow> 'esk \<Rightarrow> 'ssh res" where
  "verify_custody X B E p guardian_enclave_sk =
     rbind (verify_public_keys_match X B p) (\<lambda>b.
     if \<not> b then Err (Bail ''Supplied bls_pub_key cannot be derived from bls_pub_key_set'')
     else custody_loop X B E p guardian_enclave_sk [0..<length (bls_enc_priv_key_shares p)])"

definition approve_custody ::
  "codec \<Rightarrow> ('ps, 'pk, 'psh, 'ss, 'sk, 'ssh, 'sg, 'sgh) blsttc \<Rightarrow> ('esk, 'epk, 'emsg, 'esig) secp \<Rightarrow>
   ('wal, 'wsig) ethers \<Rightarrow> BlsKeygenPayload \<Rightarrow> 'esk \<Rightarrow> ValidatorIndex \<Rightarrow> string res" where
  "approve_custody X B E H p guardian_enclave_sk validator_index =
     rbind (kp_public_key_set X B p) (\<lambda>pk_set.
     rbind (withdrawal_credentials_of X p) (\<lambda>wc.
     rbind (signature_of X B p) (\<lambda>sig.
     rbind (deposit_data_root_of X B p) (\<lambda>dd_root.
     let msg = abi_encode H [
           TokUint (unat validator_index),
           TokBytes (pk_to_bytes B (pks_public_key B pk_set)),
           TokBytes wc,
           TokBytes (sig_to_bytes B sig),
           TokFixedBytes dd_root];
         msg_to_be_signed = keccak256 X msg in
     rbind (ok_or ''LocalWallet::from_str''
              (wallet_parse H (hex_encode X (esk_serialize E guardian_enclave_sk)))) (\<lambda>wallet.
     rbind (ok_or ''sign_message'' (wallet_sign_message H wallet msg_to_be_signed)) (\<lambda>sig.
     let sig_str = wsig_to_string H sig in
     rbind (ok_or ''recover'' (wsig_recover H sig msg_to_be_signed)) (\<lambda>a.
     if a \<noteq> wallet_address H wallet then Err (Bail ''Failed to sign correctly'')
     else Ok sig_str)))))))"

definition verify_and_sign_custody_received ::
  "codec \<Rightarrow> ('ps, 'pk, 'psh, 'ss, 'sk, 'ssh, 'sg, 'sgh) blsttc \<Rightarrow> ('esk, 'epk, 'emsg, 'esig) secp \<Rightarrow>
   services \<Rightarrow> ('wal, 'wsig) ethers \<Rightarrow> 'epk ValidateCustodyRequest \<Rightarrow> (world, ValidateCustodyResponse) eff" where
  "verify_and_sign_custody_received X B E N H request w =
     (case fetch_eth_key X E (eth_pk_to_hex X E (guardian_enclave_public_key request)) w of
        (Err e, w) \<Rightarrow> (Err (Bail ''Could not fetch guardian enclave public key''), w)
      | (Panic m, w) \<Rightarrow> (Panic m, w)
      | (Ok guardian_enclave_sk, w) \<Rightarrow>
          (let p = keygen_payload request in
           ebind (if verify_session request then verify_session_evidence X B E N p (workload_id request)
                  else ret ()) (\<lambda>_.
           ebind (lift (verify_deposit_message X B p)) (\<lambda>_.
           ebind (lift (verify_custody X B E p guardian_enclave_sk)) (\<lambda>sk_share.
           ebind (write_bls_key (hex_encode X (psh_to_bytes B (ssh_public_key_share B sk_share)))
                    (hex_encode X (ssh_to_bytes B sk_share))) (\<lambda>_.
           ebind (lift (approve_custody X B E H p guardian_enclave_sk (vc_validator_index request)))
             (\<lambda>signature.
           ret \<lparr>vc_enclave_signature = signature,
                vc_bls_pub_key = bls_pub_key p,
                vc_withdrawal_credentials = kp_withdrawal_credentials p,
                vc_deposit_signature = kp_signature p,
                vc_deposit_data_root = kp_deposit_data_root p\<rparr>))))) w))"

section \<open>Voluntary exits\<close>

definition sign_vem ::
  "codec \<Rightarrow> ('ps, 'pk, 'psh, 'ss, 'sk, 'ssh, 'sg, 'sgh) blsttc \<Rightarrow> 'sk \<Rightarrow> Epoch \<Rightarrow> ValidatorIndex \<Rightarrow> ForkInfo \<Rightarrow>
   (BLSSignature \<times> Root) res" where
  "sign_vem X B sk_share epoch validator_index fork_info =
     (let voluntary_exit = \<lparr>ve_epoch = epoch, ve_validator_index = validator_index\<rparr>;
          vem_req = \<lparr>ver_fork_info = fork_info, ver_signingRoot = None, ver_voluntary_exit = voluntary_exit\<rparr>;
          root = to_signing_root X (VOLUNTARY_EXIT vem_req) None;
          sig = BLSSignature_from X (sig_to_bytes B (sk_sign B sk_share root))
      in Ok (sig, root))"

definition sign_voluntary_exit_message ::
  "codec \<Rightarrow> ('ps, 'pk, 'psh, 'ss, 'sk, 'ssh, 'sg, 'sgh) blsttc \<Rightarrow> SignExitRequest \<Rightarrow>
   (world, SignExitResponse) eff" where
  "sign_voluntary_exit_message X B req =
     ebind (lift (exit_public_key_set X B req)) (\<lambda>pk_set.
     let pk_hex = hex_encode X (psh_to_bytes B (pks_public_key_share B pk_set (unat (se_guardian_index req)))) in
     ebind (fetch_bls_sk X B pk_hex) (\<lambda>sk_set.
     let sk = sks_secret_key B sk_set in
     ebind (lift (sign_vem X B sk 0 (se_validator_index req) (se_fork_info req))) (\<lambda>(sig, root).
     ret \<lparr>sx_signature = hex_encode X (fv_ssz_bytes X sig), sx_message = hex_encode X root\<rparr>)))"

section \<open>Handlers\<close>

definition attest_fresh_eth_key_handler ::
  "codec \<Rightarrow> ('esk, 'epk, 'emsg, 'esig) secp \<Rightarrow> services \<Rightarrow> ('wal, 'wsig) ethers \<Rightarrow>
   KeygenWithBlockhashRequest \<Rightarrow> world \<Rightarrow> KeyGenResponse response \<times> world" where
  "attest_fresh_eth_key_handler X E N H request_data =
     on_ok (attest_new_eth_key_with_blockhash X E N H (kb_block_number request_data)
              (kb_guardian_module_address request_data) (kb_chain_id request_data))
       (\<lambda>e. Response INTERNAL_SERVER_ERROR (Failure ''eth_key_gen_with_blockhash_service failed'' e))
       (\<lambda>(evidence, eth_pk).
     respond (Response CREATED (JsonBody (from_eth_key X E eth_pk evidence))))"

definition validate_custody_handler ::
  "codec \<Rightarrow> ('ps, 'pk, 'psh, 'ss, 'sk, 'ssh, 'sg, 'sgh) blsttc \<Rightarrow> ('esk, 'epk, 'emsg, 'esig) secp \<Rightarrow>
   services \<Rightarrow> ('wal, 'wsig) ethers \<Rightarrow> 'epk ValidateCustodyRequest \<Rightarrow> world \<Rightarrow>
   ValidateCustodyResponse response \<times> world" where
  "validate_custody_handler X B E N H request =
     on_ok (verify_and_sign_custody_received X B E N H request)
       (\<lambda>e. Response INTERNAL_SERVER_ERROR (Failure [] e)) (\<lambda>resp.
     respond (Response HTTP_OK (JsonBody resp)))"

definition sign_exit_handler ::
  "codec \<Rightarrow> ('ps, 'pk, 'psh, 'ss, 'sk, 'ssh, 'sg, 'sgh) blsttc \<Rightarrow> SignExitRequest \<Rightarrow> world \<Rightarrow>
   SignExitResponse response \<times> world" where
  "sign_exit_handler X B request =
     on_ok (sign_voluntary_exit_message X B request)
       (\<lambda>e. Response INTERNAL_SERVER_ERROR (Failure [] e)) (\<lambda>resp.
     respond (Response HTTP_OK (JsonBody resp)))"

end
