(* ===== verification/Server.thy ===== *)
theory Server
  imports Signer_Safety Guardian
begin

text \<open>
  The validator enclave and the secure signer as state machines (src/bin/validator.rs and
  src/bin/secure-signer.rs): each request runs its handler on the world, and the released
  signatures are logged. The invariant of the signing endpoint is extended by freshness
  of generated keys and shown for every reachable state.
\<close>

section \<open>What leaves the slashing databases alone\<close>

definition slash_area :: "path \<Rightarrow> bool" where
  "slash_area p \<longleftrightarrow> (\<exists>q. p = slash_dir @ q) \<or> (\<exists>q. p = ''/'' # q)"

definition slash_frame :: "world \<Rightarrow> world \<Rightarrow> bool" where
  "slash_frame w w' \<longleftrightarrow> rng w \<le> rng w' \<and> (\<forall>p. slash_area p \<longrightarrow> lookup w' p = lookup w p)"

lemma slash_area_push [simp]: "slash_area (path_push slash_dir n)"
  using path_push_cases[of slash_dir n] by (auto simp: slash_area_def)

lemma slash_area_dir [simp]: "slash_area (slash_dir @ q)"
  by (auto simp: slash_area_def)

lemma not_slash_area_keys [simp]: "\<not> slash_area (bls_dir @ q)" "\<not> slash_area (eth_dir @ q)"
  by (auto simp: slash_area_def slash_dir_def bls_dir_def eth_dir_def)

lemma slash_frame_refl [simp]: "slash_frame w w"
  by (simp add: slash_frame_def)

lemma slash_frame_trans: "slash_frame w w' \<Longrightarrow> slash_frame w' w'' \<Longrightarrow> slash_frame w w''"
  by (auto simp: slash_frame_def)

lemma slash_frame_same: "lookup w' = lookup w \<Longrightarrow> rng w' = rng w \<Longrightarrow> slash_frame w w'"
  by (simp add: slash_frame_def)

lemma slash_frame_ebind:
  assumes "slash_frame w (snd (m w))"
    and "\<And>x w'. m w = (Ok x, w') \<Longrightarrow> slash_frame w' (snd (f x w'))"
  shows "slash_frame w (snd (ebind m f w))"
proof -
  have "slash_frame w (snd (f x w'))" if "m w = (Ok x, w')" for x w'
    using that assms(1) assms(2)[OF that] slash_frame_trans by (metis snd_conv)
  with assms(1) show ?thesis
    by (intro ebind_keeps[where P = "slash_frame w"]) auto
qed

lemma slash_frame_draw [simp]: "slash_frame w (snd (draw w))"
  by (simp add: slash_frame_def draw_def lookup_def)

lemma read_rng [io_simps]:
  "rng (snd (read_key X p w)) = rng w" "rng (snd (fetch_bls_sk X B pk w)) = rng w"
  "rng (snd (bls_agg_sign_from_saved_sk X B pk m w)) = rng w" "rng (snd (spd_read X pk w)) = rng w"
  "rng (snd (is_slashable X pk msg w)) = rng w"
proof -
  have k: "rng (snd (read_key X p w)) = rng w" for p w
    unfolding read_key_def by (rule ebind_keeps) (simp_all add: io_simps)
  have f: "rng (snd (fetch_bls_sk X B pk w)) = rng w" for w
    unfolding fetch_bls_sk_def Let_def read_bls_key_def by (rule ebind_keeps) (simp_all add: k)
  have s: "rng (snd (spd_read X pk w)) = rng w" for w
    unfolding spd_read_def Let_def by (rule ebind_keeps) (simp_all add: io_simps)
  show "rng (snd (read_key X p w)) = rng w" "rng (snd (fetch_bls_sk X B pk w)) = rng w"
    "rng (snd (spd_read X pk w)) = rng w"
    by (rule k f s)+
  show "rng (snd (bls_agg_sign_from_saved_sk X B pk m w)) = rng w"
    unfolding bls_agg_sign_from_saved_sk_def by (rule ebind_keeps) (simp_all add: f)
  show "rng (snd (is_slashable X pk msg w)) = rng w"
    unfolding is_slashable_entry by (rule ebind_keeps) (simp_all add: s)
qed

lemma write_rng [io_simps]:
  "rng (snd (write_key p s w)) = rng w" "rng (snd (spd_write X d w)) = rng w"
  "rng (snd (write_bls_key pk s w)) = rng w" "rng (snd (write_eth_key pk s w)) = rng w"
proof -
  have k: "rng (snd (write_key p s w)) = rng w" for p s
    unfolding write_key_def by (rule ebind_keeps) (simp_all add: io_simps split: option.split)
  then show "rng (snd (write_key p s w)) = rng w" "rng (snd (write_bls_key pk s w)) = rng w"
    "rng (snd (write_eth_key pk s w)) = rng w"
    by (simp_all add: write_bls_key_def write_eth_key_def Let_def)
  show "rng (snd (spd_write X d w)) = rng w"
    unfolding spd_write_def Let_def
    by (intro ebind_keeps[where P = "\<lambda>w'. rng w' = rng w"]) (auto simp: io_simps split: option.split)
qed

lemma store_rng [io_simps]: "rng (snd (store_entry X d e w)) = rng w"
proof (cases "offer_entry e d")
  case (Pair r d')
  then show ?thesis
    by (cases r) (simp_all add: store_entry_def ebind_def io_simps)
qed

lemma update_rng [io_simps]: "rng (snd (update_slash_protection_db X pk m w)) = rng w"
  unfolding update_entry
  by (rule ebind_keeps) (simp_all add: io_simps split: option.split)

lemma slash_frame_write_keys:
  assumes "plain h" "strip_0x_prefix h = h"
  shows "slash_frame w (snd (write_bls_key h s w))" "slash_frame w (snd (write_eth_key h s w))"
proof -
  have b: "bls_file h = bls_dir @ [h]" and e: "eth_file h = eth_dir @ [h]"
    using assms by (simp_all add: bls_file_def eth_file_def)
  obtain r w' where wr: "write_bls_key h s w = (r, w')" by fastforce
  have "lookup w' p = lookup w p" if "slash_area p" for p
    using bls_store.write_other[OF wr, of p] that by (metis b not_slash_area_keys(1))
  with wr write_rng(3)[of h s w] show "slash_frame w (snd (write_bls_key h s w))"
    by (simp add: slash_frame_def)
  obtain r w' where wr: "write_eth_key h s w = (r, w')" by fastforce
  have "lookup w' p = lookup w p" if "slash_area p" for p
    using eth_store.write_other[OF wr, of p] that by (metis e not_slash_area_keys(2))
  with wr write_rng(4)[of h s w] show "slash_frame w (snd (write_eth_key h s w))"
    by (simp add: slash_frame_def)
qed

lemma slash_frame_encrypt: "slash_frame w (snd (encrypt_shares X B E ks acc w))"
proof (induction ks arbitrary: acc w)
  case Nil
  then show ?case by simp
next
  case (Cons k ks)
  have "slash_frame w (snd (encrypt_to_recipient X B E k w))" for k w
    unfolding encrypt_to_recipient_def envelope_encrypt_def
    by (intro slash_frame_ebind) (auto simp: in_context_def)
  with Cons.IH show ?case
    by (cases k) (auto intro!: slash_frame_ebind)
qed

lemma slash_frame_evidence: "services_laws X N \<Longrightarrow> slash_frame w (snd (evidence_new N d w))"
  by (simp add: evidence_new_frame)

lemma slash_frame_save_bls:
  assumes "hex_laws X" "bls_laws X B"
  shows "slash_frame w (snd (save_bls_key X B s w))"
proof -
  have "pk_to_bytes B k \<noteq> []" for k
    using bls_simps(7)[OF assms(2), of k] by auto
  then show ?thesis
    using assms by (simp add: save_bls_key_def pk_to_hex_eq slash_frame_write_keys(1) plain_hex_encode)
qed

lemma slash_frame_eth_key_gen:
  assumes "hex_laws X" "secp_laws E"
  shows "slash_frame w (snd (eth_key_gen X E w))"
proof -
  have ne: "epk_serialize_compressed E k \<noteq> []" for k
    using secp_simps(7)[OF assms(2), of k] by (metis list.size(3) zero_neq_numeral)
  have "slash_frame w (snd (save_eth_key X E sk pk w))" for sk pk w
    unfolding save_eth_key_def Let_def
    by (rule slash_frame_ebind) (simp_all add: assms slash_frame_write_keys(2) plain_hex_encode ne)
  then show ?thesis
    unfolding eth_key_gen_def new_eth_key_def
    by (intro slash_frame_ebind) (auto intro: slash_frame_ebind split: prod.split)
qed

section \<open>The invariant\<close>

text \<open>
  Distinct draws of the generator give distinct public keys.
\<close>

definition fresh_keys :: "('ps, 'pk, 'psh, 'ss, 'sk, 'ssh, 'sg, 'sgh) blsttc \<Rightarrow> bool" where
  "fresh_keys B \<longleftrightarrow>
     (\<forall>t t' r r' s s'. sks_random B t r = Some s \<longrightarrow> sks_random B t' r' = Some s' \<longrightarrow>
        pk_to_bytes B (pks_public_key B (sks_public_keys B s)) =
        pk_to_bytes B (pks_public_key B (sks_public_keys B s')) \<longrightarrow> r = r')"

definition slash_file ::
  "codec \<Rightarrow> ('ps, 'pk, 'psh, 'ss, 'sk, 'ssh, 'sg, 'sgh) blsttc \<Rightarrow> 'ss \<Rightarrow> path" where
  "slash_file X B s = slash_dir @ [hex_encode X (pk_to_bytes B (pks_public_key B (sks_public_keys B s)))]"

text \<open>
  \<open>protected\<close>: the files are guarded, every validator with a slashable signature out has
  a database file, and keys still to be generated have none.
\<close>

definition protected ::
  "codec \<Rightarrow> ('ps, 'pk, 'psh, 'ss, 'sk, 'ssh, 'sg, 'sgh) blsttc \<Rightarrow> world \<Rightarrow> (string \<times> BLSSignMsg) list \<Rightarrow> bool"
where
  "protected X B w log \<longleftrightarrow> guarded X w log \<and>
     (\<forall>h m. (h, m) \<in> set log \<longrightarrow> can_be_slashed m \<longrightarrow> lookup w (slash_dir @ [h]) \<noteq> None) \<and>
     (\<forall>r t s. rng w \<le> r \<longrightarrow> sks_random B t r = Some s \<longrightarrow> lookup w (slash_file X B s) = None)"

lemma slash_file_area [simp]: "slash_area (slash_file X B s)"
  by (simp add: slash_file_def)

lemma protected_frame:
  assumes P: "protected X B w log" and F: "slash_frame w w'"
  shows "protected X B w' log"
proof -
  have "guarded X w' log"
    using P F by (auto simp: protected_def slash_frame_def same_slash_def intro: guarded_same)
  moreover have "lookup w' (slash_dir @ [h]) \<noteq> None" if "(h, m) \<in> set log" "can_be_slashed m" for h m
    using P F that by (auto simp: protected_def slash_frame_def)
  moreover have "lookup w' (slash_file X B s) = None" if "rng w' \<le> r" "sks_random B t r = Some s" for r t s
  proof -
    have "rng w \<le> r" using F that(1) by (simp add: slash_frame_def)
    then have "lookup w (slash_file X B s) = None"
      using P that(2) unfolding protected_def by blast
    then show ?thesis using F by (simp add: slash_frame_def)
  qed
  ultimately show ?thesis by (auto simp: protected_def)
qed

text \<open>Fresh deployments are protected.\<close>

lemma protected_init:
  "(\<And>p. slash_area p \<Longrightarrow> lookup w p = None) \<Longrightarrow> protected X B w []"
  by (simp add: protected_def guarded_def)

text \<open>An update rewrites a file that exists.\<close>

lemma spd_write_dom:
  assumes "codec_laws X" "wf_spd d" "spd_write X d w = (r, w')"
    "lookup w (slash_dir @ [hex_encode X (pubkey d)]) \<noteq> None"
  shows "lookup w' p = None \<longleftrightarrow> lookup w p = None"
  using spd_write_effect(2)[OF assms(1,2,3)] assms(4) by (auto split: if_splits)

lemma update_dom:
  assumes X: "codec_laws X" "hash_laws X" and G: "guarded X w log"
    and u: "update_slash_protection_db X pk m w = (r, w')"
  shows "lookup w' p = None \<longleftrightarrow> lookup w p = None"
proof -
  obtain rd w1 where read: "spd_read X pk w = (rd, w1)" by fastforce
  have l1: "lookup w1 = lookup w" using spd_read_lookup[of X pk w] read by simp
  show ?thesis
  proof (cases rd)
    case (Ok d)
    obtain f where f: "lookup w (path_push slash_dir (strip_0x_prefix pk)) = Some f" "spd_parse X f = Ok d"
      using spd_read_Ok(1) read Ok by blast
    have own: "lookup w1 (slash_dir @ [hex_encode X (pubkey d)]) \<noteq> None"
      using G f unfolding guarded_def l1 by (metis option.distinct(1))
    show ?thesis
    proof (cases "signed_entry X m")
      case None
      with u read Ok l1 show ?thesis by (auto simp: update_entry ebind_def)
    next
      case (Some e)
      with u read Ok have st: "store_entry X d e w1 = (r, w')" by (simp add: update_entry ebind_def)
      show ?thesis
      proof (cases rule: entry_gate.offer_cases[of e d])
        case (accepted d')
        have "wf_spd d'"
          by (rule wf_offer[OF spd_parse_wf[OF X(1) f(2)] accepted(1) entry_root_ok[OF X(2) Some]])
        moreover have "spd_write X d' w1 = (r, w')"
          using st accepted(1) by (simp add: store_entry_def)
        ultimately show ?thesis
          using spd_write_dom[OF X(1)] own offer_entry_pubkey[OF accepted(1)] l1 by metis
      next
        case (refused r')
        with st l1 show ?thesis by (cases r') (auto simp: store_entry_def ebind_def)
      qed
    qed
  qed (use u read l1 in \<open>auto simp: update_entry ebind_def\<close>)
qed

lemma sign_dom:
  assumes X: "codec_laws X" "hash_laws X" and G: "guarded X w log"
  shows "(\<forall>p. lookup (snd (sign_validator_message X B pk st m w)) p = None \<longleftrightarrow> lookup w p = None) \<and>
    rng (snd (sign_validator_message X B pk st m w)) = rng w"
proof -
  define P where "P w' \<longleftrightarrow> guarded X w' log \<and> (\<forall>p. lookup w' p = None \<longleftrightarrow> lookup w p = None) \<and> rng w' = rng w" for w'
  have same: "P w2" if "P w1" "lookup w2 = lookup w1" "rng w2 = rng w1" for w1 w2
    using that guarded_lookup[of X w1 log w2] by (simp add: P_def)
  have upd: "P (snd (update_slash_protection_db X h m w1))" if "P w1" for w1 h
    using that guarded_update(1)[OF X, of w1 log h m] update_dom[OF X, of w1 log h m] update_rng[of X h m w1]
    by (cases "update_slash_protection_db X h m w1") (auto simp: P_def)
  have agg: "P (snd (bls_agg_sign_from_saved_sk X B h r w1))" if "P w1" for w1 h r
    by (rule same[OF that]) (simp_all add: io_simps)
  have isl: "P (snd (is_slashable X h m w1))" if "P w1" for w1 h
    by (rule same[OF that]) (simp_all add: io_simps)
  have "P w" using G by (simp add: P_def)
  then have "P (snd (sign_validator_message X B pk st m w))"
    unfolding sign_validator_message_def Let_def
    by (auto intro!: on_ok_keeps[where P = P] upd agg isl)
  then show ?thesis by (simp add: P_def)
qed

section \<open>Registering a generated key\<close>

text \<open>A key that was drawn but has no database yet.\<close>

definition unregistered ::
  "codec \<Rightarrow> ('ps, 'pk, 'psh, 'ss, 'sk, 'ssh, 'sg, 'sgh) blsttc \<Rightarrow> (string \<times> BLSSignMsg) list \<Rightarrow> 'ss \<Rightarrow>
   world \<Rightarrow> bool" where
  "unregistered X B log s w \<longleftrightarrow> protected X B w log \<and> lookup w (slash_file X B s) = None \<and>
     (\<exists>t r. sks_random B t r = Some s \<and> r < rng w)"

lemma unregistered_frame: "unregistered X B log s w \<Longrightarrow> slash_frame w w' \<Longrightarrow> unregistered X B log s w'"
  unfolding unregistered_def
  by (auto intro: protected_frame) (auto simp: slash_frame_def intro: less_le_trans)

lemma new_bls_key_Ok:
  assumes "new_bls_key B t w = (Ok s, w')"
  shows "sks_random B t (rng w) = Some s" "rng w' = Suc (rng w)" "lookup w' = lookup w" "sks_threshold B s = t"
  using assms by (auto simp: new_bls_key_def res_simps draw_def lookup_def fun_eq_iff
      split: option.splits if_splits)

lemma slash_frame_new_bls_key: "slash_frame w (snd (new_bls_key B t w))"
  unfolding new_bls_key_def by (rule slash_frame_ebind) simp_all

lemma unregistered_new:
  assumes "protected X B w log" "new_bls_key B t w = (Ok s, w')"
  shows "unregistered X B log s w'"
proof -
  note n = new_bls_key_Ok[OF assms(2)]
  have "lookup w (slash_file X B s) = None"
    using assms(1) n(1) unfolding protected_def by blast
  moreover have "protected X B w' log"
    using protected_frame[OF assms(1) slash_frame_new_bls_key[of w B t]] assms(2) by simp
  ultimately show ?thesis using n by (auto simp: unregistered_def)
qed

lemma register_protected:
  assumes L: "codec_laws X" "bls_laws X B" "fresh_keys B" and U: "unregistered X B log s w"
    and d: "from_pk_hex X (pk_to_hex B (pks_public_key B (sks_public_keys B s))) = Ok db"
    and wr: "spd_write X db w = (res, w')"
  shows "protected X B w' log"
proof -
  let ?pk = "pk_to_bytes B (pks_public_key B (sks_public_keys B s))"
  note C = codec_lawsD[OF L(1)]
  have len: "length ?pk = 48" by (rule bls_simps(7)[OF L(2)])
  have db: "db = spd_new ?pk"
    using d C len by (auto simp: from_pk_hex_def pk_to_hex_eq[OF L(2)] Let_def)
  have wf: "wf_spd db" and pk: "pubkey db = ?pk"
    using len by (simp_all add: db spd_new_def wf_spd_def)
  have G: "guarded X w log" and none: "lookup w (slash_dir @ [hex_encode X ?pk]) = None"
    using U by (auto simp: unregistered_def protected_def slash_file_def)
  have unsigned: "\<not> can_be_slashed m" if "(hex_encode X ?pk, m) \<in> set log" for m
    using U none that unfolding unregistered_def protected_def by blast
  have "guarded X w' log"
    by (rule guarded_write[OF L(1) G wf _ wr]) (use unsigned can_be_slashed_entry in \<open>auto simp: pk\<close>)
  moreover have other: "lookup w' p = lookup w p" if "p \<noteq> slash_dir @ [hex_encode X ?pk]" for p
    using spd_write_effect(2)[OF L(1) wf wr] that by (auto simp: pk)
  moreover have "lookup w' (slash_dir @ [h]) \<noteq> None" if "(h, m) \<in> set log" "can_be_slashed m" for h m
  proof -
    have "h \<noteq> hex_encode X ?pk" using unsigned that by blast
    then have "lookup w' (slash_dir @ [h]) = lookup w (slash_dir @ [h])" by (intro other) simp
    moreover have "lookup w (slash_dir @ [h]) \<noteq> None"
      using U that unfolding unregistered_def protected_def by blast
    ultimately show ?thesis by simp
  qed
  moreover have "lookup w' (slash_file X B s') = None"
    if "rng w' \<le> r" "sks_random B t r = Some s'" for r t s'
  proof -
    obtain t0 r0 where r0: "sks_random B t0 r0 = Some s" "r0 < rng w"
      using U by (auto simp: unregistered_def)
    have rw: "rng w' = rng w" using write_rng(2)[of X db w] wr by simp
    have "pk_to_bytes B (pks_public_key B (sks_public_keys B s')) \<noteq> ?pk"
      using L(3) r0 that rw unfolding fresh_keys_def by (metis not_less)
    then have "slash_file X B s' \<noteq> slash_dir @ [hex_encode X ?pk]"
      using C(1) by (simp add: slash_file_def)
    then have "lookup w' (slash_file X B s') = lookup w (slash_file X B s')" by (rule other)
    also have "\<dots> = None"
      using U that rw unfolding unregistered_def protected_def by metis
    finally show ?thesis .
  qed
  ultimately show ?thesis unfolding protected_def by blast
qed

lemma unregistered_ebind:
  assumes "unregistered X B log s w" "slash_frame w (snd (m w))"
    "\<And>x w'. m w = (Ok x, w') \<Longrightarrow> unregistered X B log s w' \<Longrightarrow> protected X B (snd (f x w')) log"
  shows "protected X B (snd (ebind m f w)) log"
proof (cases "m w")
  case (Pair r w')
  with assms have "unregistered X B log s w'" by (auto intro: unregistered_frame)
  with Pair assms(3) show ?thesis by (cases r) (auto simp: ebind_def unregistered_def)
qed

lemma register_then:
  assumes L: "codec_laws X" "bls_laws X B" "fresh_keys B" and u: "unregistered X B log s w"
    and f: "\<And>w'. slash_frame w' (snd (f () w'))"
  shows "protected X B (snd (ebind (lift (from_pk_hex X (pk_to_hex B (pks_public_key B (sks_public_keys B s)))))
           (\<lambda>db. ebind (spd_write X db) f) w)) log"
proof (rule unregistered_ebind[OF u])
  fix db w1
  assume d: "lift (from_pk_hex X (pk_to_hex B (pks_public_key B (sks_public_keys B s)))) w = (Ok db, w1)"
    and u1: "unregistered X B log s w1"
  show "protected X B (snd (ebind (spd_write X db) f w1)) log"
  proof (rule ebind_keeps[where P = "\<lambda>w. protected X B w log"])
    obtain r w2 where wr: "spd_write X db w1 = (r, w2)" by fastforce
    show "protected X B (snd (spd_write X db w1)) log"
      using register_protected[OF L u1 _ wr] d wr by simp
    show "protected X B (snd (f x w2)) log" if "protected X B w2 log" for x w2
      using protected_frame[OF that f] by (cases x) simp
  qed
qed simp

lemma new_key_then:
  assumes "protected X B w log"
    and "\<And>s w'. unregistered X B log s w' \<Longrightarrow> protected X B (snd (f s w')) log"
  shows "protected X B (snd (ebind (new_bls_key B t) f w)) log"
proof (rule ebind_keeps[where P = "\<lambda>w. protected X B w log"])
  show "protected X B (snd (new_bls_key B t w)) log"
    by (rule protected_frame[OF assms(1) slash_frame_new_bls_key])
  show "protected X B (snd (f s w')) log" if "new_bls_key B t w = (Ok s, w')" for s w'
    by (rule assms(2)[OF unregistered_new[OF assms(1) that]])
qed

lemma secure_signer_keygen_protected:
  assumes L: "codec_laws X" "bls_laws X B" "fresh_keys B" and N: "services_laws X N"
    and P: "protected X B w log"
  shows "protected X B (snd (attest_new_bls_key X B N w)) log"
  unfolding attest_new_bls_key_def Let_def
proof (rule new_key_then[OF P], rule unregistered_ebind, assumption)
  show "slash_frame w' (snd (in_context ''Failed to save BLS key'' (save_bls_key X B s) w'))" for s w'
    using slash_frame_save_bls[OF codec_lawsD(1)[OF L(1)] L(2)] by simp
qed (rule register_then[OF L],
    auto intro!: slash_frame_ebind slash_frame_evidence[OF N])

lemma validator_keygen_protected:
  assumes L: "codec_laws X" "bls_laws X B" "fresh_keys B" and N: "services_laws X N"
    and P: "protected X B w log"
  shows "protected X B (snd (attest_fresh_bls_key X B E N wc pks t fv ra w)) log"
  unfolding attest_fresh_bls_key_def Let_def
proof (rule new_key_then[OF P], rule unregistered_ebind, assumption, rule slash_frame_encrypt,
    rule unregistered_ebind, assumption)
  show "slash_frame w' (snd (save_bls_key X B s w'))" for s w'
    by (rule slash_frame_save_bls[OF codec_lawsD(1)[OF L(1)] L(2)])
qed (rule register_then[OF L], assumption,
    auto intro!: slash_frame_ebind slash_frame_evidence[OF N] split: prod.split)

section \<open>The server as a step relation\<close>

text \<open>
  The state is the world and the log of slashable and other messages for which a signature
  was released. Every request of the two binaries that can touch the data directory is a
  step; so is a change of the fault schedule, which stands for whatever the environment
  does to later file operations.
\<close>

type_synonym server_state = "world \<times> (string \<times> BLSSignMsg) list"

inductive server_step ::
  "codec \<Rightarrow> ('ps, 'pk, 'psh, 'ss, 'sk, 'ssh, 'sg, 'sgh) blsttc \<Rightarrow> ('esk, 'epk, 'emsg, 'esig) secp \<Rightarrow>
   services \<Rightarrow> AppState \<Rightarrow> server_state \<Rightarrow> server_state \<Rightarrow> bool"
  for X B E N st where
  released: "secure_sign_bls_handler X B pk st m w = (Response HTTP_OK b, w') \<Longrightarrow>
    server_step X B E N st (w, log) (w', log @ [(strip_0x_prefix pk, m)])"
| refused: "secure_sign_bls_handler X B pk st m w = (r, w') \<Longrightarrow> (\<nexists>b. r = Response HTTP_OK b) \<Longrightarrow>
    server_step X B E N st (w, log) (w', log)"
| validator_keygen:
    "server_step X B E N st (w, log) (snd (attest_fresh_bls_key_handler X B E N req w), log)"
| signer_bls_keygen: "server_step X B E N st (w, log) (snd (bls_keygen_handler X B N w), log)"
| signer_eth_keygen: "server_step X B E N st (w, log) (snd (eth_keygen_handler X E N w), log)"
| signer_deposit: "server_step X B E N st (w, log) (snd (validator_deposit_handler X B req w), log)"
| list_bls: "server_step X B E N st (w, log) (snd (list_bls_keys_handler w), log)"
| list_bls_vc: "server_step X B E N st (w, log) (snd (list_bls_keys_for_vc_handler w), log)"
| list_eth: "server_step X B E N st (w, log) (snd (list_eth_keys_handler w), log)"
| environment: "server_step X B E N st (w, log) (w\<lparr>faults := fs\<rparr>, log)"

inductive_cases server_step_elim: "server_step X B E N st s s'"

inductive reachable ::
  "codec \<Rightarrow> ('ps, 'pk, 'psh, 'ss, 'sk, 'ssh, 'sg, 'sgh) blsttc \<Rightarrow> ('esk, 'epk, 'emsg, 'esig) secp \<Rightarrow>
   services \<Rightarrow> AppState \<Rightarrow> server_state \<Rightarrow> server_state \<Rightarrow> bool"
  for X B E N st s0 where
  start: "reachable X B E N st s0 s0"
| step: "reachable X B E N st s0 s \<Longrightarrow> server_step X B E N st s s' \<Longrightarrow> reachable X B E N st s0 s'"

section \<open>Safety\<close>

definition no_offence :: "codec \<Rightarrow> (string \<times> BLSSignMsg) list \<Rightarrow> bool" where
  "no_offence X log \<longleftrightarrow>
     sorted_wrt (\<lambda>old new. fst old = fst new \<longrightarrow> \<not> slashable_offence X (snd old) (snd new)) log"

definition server_inv ::
  "codec \<Rightarrow> ('ps, 'pk, 'psh, 'ss, 'sk, 'ssh, 'sg, 'sgh) blsttc \<Rightarrow> server_state \<Rightarrow> bool" where
  "server_inv X B s \<longleftrightarrow> protected X B (fst s) (snd s) \<and> no_offence X (snd s)"

lemma slash_frame_list_loop: "slash_frame w (snd (list_loop ns ks w))"
proof (induction ns ks w rule: list_loop.induct)
  case (2 fname rest ks w)
  obtain f w' where n: "next_fault w = (f, w')" by fastforce
  have s: "slash_frame w w'"
    using next_fault_frame[OF n] by (simp add: slash_frame_def)
  with 2 n show ?case
    by (cases f) (auto intro: slash_frame_trans)
qed simp

lemma slash_frame_list_fnames: "slash_frame w (snd (list_fnames d w))"
  unfolding list_fnames_def
  by (intro slash_frame_ebind slash_frame_list_loop slash_frame_same) (simp_all add: io_simps)

lemma slash_frame_on_ok:
  assumes "slash_frame w (snd (m w))"
    and "\<And>x w'. m w = (Ok x, w') \<Longrightarrow> slash_frame w' (snd (k x w'))"
  shows "slash_frame w (snd (on_ok m bad k w))"
proof -
  have "slash_frame w (snd (k x w'))" if "m w = (Ok x, w')" for x w'
    using that assms(1) assms(2)[OF that] slash_frame_trans by (metis snd_conv)
  with assms(1) show ?thesis
    by (intro on_ok_keeps[where P = "slash_frame w"]) auto
qed

lemma slash_frame_lists:
  "slash_frame w (snd (list_bls_keys_handler w))" "slash_frame w (snd (list_bls_keys_for_vc_handler w))"
  "slash_frame w (snd (list_eth_keys_handler w))"
  unfolding list_bls_keys_handler_def list_bls_keys_for_vc_handler_def list_eth_keys_handler_def
    list_bls_keys_def list_eth_keys_def list_keys_response_def Let_def
  by (auto intro!: slash_frame_on_ok slash_frame_list_fnames)

lemma slash_frame_deposit: "slash_frame w (snd (validator_deposit_handler X B req w))"
proof -
  have e: "slash_frame w (snd (bls_key_exists h w))" for h w
    by (intro slash_frame_same) (simp_all add: bls_key_exists_def key_exists_def io_simps Let_def)
  have a: "slash_frame w (snd (bls_agg_sign_from_saved_sk X B h r w))" for h r w
    by (intro slash_frame_same) (simp_all add: io_simps)
  have "slash_frame w (snd (get_deposit_signature X B h d fv w))" for h d fv w
    unfolding get_deposit_signature_def secure_sign_def Let_def
    by (intro slash_frame_ebind a) simp_all
  then show ?thesis
    unfolding validator_deposit_handler_def Let_def
    by (auto intro!: slash_frame_on_ok e)
qed

lemma slash_frame_eth_keygen:
  assumes "hex_laws X" "secp_laws E" "services_laws X N"
  shows "slash_frame w (snd (eth_keygen_handler X E N w))"
  unfolding eth_keygen_handler_def attest_new_eth_key_def
  by (intro slash_frame_on_ok slash_frame_ebind slash_frame_eth_key_gen[OF assms(1,2)])
    (auto intro!: slash_frame_ebind slash_frame_evidence[OF assms(3)])

lemma on_ok_protected:
  assumes "protected X B (snd (m w)) log" "\<And>x w'. snd (k x w') = w'"
  shows "protected X B (snd (on_ok m bad k w)) log"
  by (rule on_ok_keeps[where P = "\<lambda>w. protected X B w log"]) (simp_all add: assms)

lemma sign_protected:
  assumes L: "codec_laws X" "hash_laws X" and P: "protected X B w log"
  shows "protected X B (snd (sign_validator_message X B pk st m w)) log"
proof -
  have G: "guarded X w log" using P by (simp add: protected_def)
  note dom = sign_dom[OF L G, of B pk st m]
  from sign_keeps_guarded[OF L G, of B pk st m] P dom show ?thesis
    by (auto simp: protected_def)
qed

lemma step_inv:
  assumes L: "codec_laws X" "hash_laws X" "bls_laws X B" "fresh_keys B" "secp_laws E" "services_laws X N"
    and "server_step X B E N st s s'" "server_inv X B s"
  shows "server_inv X B s'"
  using assms(7,8)
proof cases
  case (released pk m w b w' log)
  have P: "protected X B w log" and O: "no_offence X log"
    using assms(8) released by (simp_all add: server_inv_def)
  have G: "guarded X w log" using P by (simp add: protected_def)
  have s: "sign_validator_message X B pk st m w = (Response HTTP_OK b, w')"
    using released by (simp add: secure_sign_bls_handler_def)
  have P': "protected X B w' log"
    using sign_protected[OF L(1,2) P, of pk st m] s by simp
  have rel: "guarded X w' (log @ [(strip_0x_prefix pk, m)])"
    "\<forall>old \<in> set log. fst old = strip_0x_prefix pk \<longrightarrow> \<not> slashable_offence X (snd old) m"
    using sign_released[OF L(1-3) G s] by blast+
  have "lookup w' (slash_dir @ [strip_0x_prefix pk]) \<noteq> None"
    using sign_file_exists[OF L(1,3) s] sign_dom[OF L(1,2) G, of B pk st m] s by simp
  with P' rel have "protected X B w' (log @ [(strip_0x_prefix pk, m)])"
    by (auto simp: protected_def)
  moreover have "no_offence X (log @ [(strip_0x_prefix pk, m)])"
    using O rel(2) by (auto simp: no_offence_def sorted_wrt_append)
  ultimately show ?thesis using released by (simp add: server_inv_def)
next
  case (refused pk m w r w' log)
  then show ?thesis
    using sign_protected[OF L(1,2), of B w log pk st m] assms(8)
    by (auto simp: server_inv_def secure_sign_bls_handler_def)
next
  case (validator_keygen w log req)
  with assms(8) validator_keygen_protected[OF L(1,3,4,6)] show ?thesis
    by (auto simp: server_inv_def attest_fresh_bls_key_handler_def intro!: on_ok_protected)
next
  case (signer_bls_keygen w log)
  with assms(8) secure_signer_keygen_protected[OF L(1,3,4,6)] show ?thesis
    by (auto simp: server_inv_def bls_keygen_handler_def intro!: on_ok_protected split: prod.split)
next
  case (environment w log fs)
  with assms(8) show ?thesis
    by (auto simp: server_inv_def slash_frame_def lookup_def intro!: protected_frame[of X B w log])
qed (use assms(8) in \<open>auto simp: server_inv_def intro: protected_frame slash_frame_lists slash_frame_deposit
       slash_frame_eth_keygen[OF codec_lawsD(1)[OF L(1)] L(5,6)]\<close>)

lemma reachable_inv:
  assumes "codec_laws X" "hash_laws X" "bls_laws X B" "fresh_keys B" "secp_laws E" "services_laws X N"
    and "reachable X B E N st s s'" "server_inv X B s"
  shows "server_inv X B s'"
  using assms(7,8) by (induction rule: reachable.induct) (blast intro: step_inv[OF assms(1-6)])+

lemma conflicting_sym: "conflicting a b \<Longrightarrow> conflicting b a"
  by (cases a; cases b) (auto simp: double_proposal_def slashable_pair_def)

lemma slashable_offence_sym: "slashable_offence X a b \<Longrightarrow> slashable_offence X b a"
  by (auto simp: slashable_offence_def conflicting_sym split: option.splits)

lemma no_offence_nth:
  assumes "no_offence X log" "i < length log" "j < length log" "i \<noteq> j" "fst (log ! i) = fst (log ! j)"
  shows "\<not> slashable_offence X (snd (log ! i)) (snd (log ! j))"
proof (cases "i < j")
  case True
  with assms show ?thesis by (auto simp: no_offence_def sorted_wrt_iff_nth_less)
next
  case False
  with assms have "j < i" by simp
  with assms have "\<not> slashable_offence X (snd (log ! j)) (snd (log ! i))"
    by (auto simp: no_offence_def sorted_wrt_iff_nth_less)
  then show ?thesis using slashable_offence_sym by blast
qed

end
