(* ===== verification/Demo_Crypto.thy ===== *)
theory Demo_Crypto
  imports Demo_Codec Server
begin

text \<open>
  Concrete cryptography and services with every documented property, for the properties to
  be applied to. Keys are single bytes padded to the real sizes; a signature is the key
  with a checksum of the message; share \<open>i\<close> of a key is the key plus \<open>i + 1\<close>.
\<close>

section \<open>BLS\<close>

definition pad :: "nat \<Rightarrow> u8 list \<Rightarrow> bytes" where
  "pad n b = replicate (n - length b) 0 @ b"

definition unpad :: "nat \<Rightarrow> nat \<Rightarrow> bytes \<Rightarrow> u8 list option" where
  "unpad n k b = (if length b = n \<and> take (n - k) b = replicate (n - k) 0 then Some (drop (n - k) b) else None)"

lemma length_pad [simp]: "length b \<le> n \<Longrightarrow> length (pad n b) = n"
  by (simp add: pad_def)

lemma unpad_pad [simp]: "length b = k \<Longrightarrow> k \<le> n \<Longrightarrow> unpad n k (pad n b) = Some b"
  by (simp add: unpad_def pad_def)

lemma pad_inject [simp]: "pad n [a] = pad n [b] \<longleftrightarrow> a = b"
  by (simp add: pad_def)

definition checksum :: "bytes \<Rightarrow> u8" where
  "checksum m = foldr (+) m 0"

text \<open>A key set is its threshold and its key, written as the key and one zero per coefficient.\<close>

definition set_to_bytes :: "nat \<Rightarrow> nat \<times> u8 \<Rightarrow> bytes" where
  "set_to_bytes n s = pad n [snd s] @ replicate (fst s) 0"

definition set_from_bytes :: "nat \<Rightarrow> bytes \<Rightarrow> (nat \<times> u8) option" where
  "set_from_bytes n b =
     (if n \<le> length b \<and> drop n b = replicate (length b - n) 0
      then map_option (\<lambda>k. (length b - n, hd k)) (unpad n 1 (take n b)) else None)"

lemma set_roundtrip: "0 < n \<Longrightarrow> set_from_bytes n (set_to_bytes n s) = Some s"
  by (cases s) (simp add: set_from_bytes_def set_to_bytes_def)

lemma set_of_share: "0 < n \<Longrightarrow> set_from_bytes n (pad n [h]) = Some (0, h)"
  by (simp add: set_from_bytes_def)

type_synonym demo_bls = "(nat \<times> u8, u8, u8, nat \<times> u8, u8, u8, u8 \<times> u8, u8 \<times> u8) blsttc"

definition demo_blsttc :: demo_bls where
  "demo_blsttc = \<lparr>
     pks_from_bytes = set_from_bytes 48,
     pks_to_bytes = set_to_bytes 48,
     pks_public_key = snd,
     pks_public_key_share = (\<lambda>p i. snd p + word_of_nat (Suc i)),
     pks_threshold = fst,
     pks_combine_signatures = (\<lambda>p xs. case xs of
        [] \<Rightarrow> None
      | (i, k, h) # _ \<Rightarrow> if fst p < length xs then Some (k - word_of_nat (Suc i), h) else None),
     pk_to_bytes = (\<lambda>k. pad 48 [k]),
     pk_to_hex = (\<lambda>k. demo_hex_encode (pad 48 [k])),
     pk_verify = (\<lambda>k g m. g = (k, checksum m)),
     psh_to_bytes = (\<lambda>k. pad 48 [k]),
     psh_verify = (\<lambda>k g m. g = (k, checksum m)),
     sks_random = (\<lambda>t r. if t < 1000 \<and> r < 256 then Some (t, word_of_nat r) else None),
     sks_threshold = fst,
     sks_to_bytes = set_to_bytes 32,
     sks_from_bytes = set_from_bytes 32,
     sks_public_keys = (\<lambda>s. s),
     sks_secret_key = snd,
     sks_secret_key_share = (\<lambda>s i. snd s + word_of_nat (Suc i)),
     sk_to_bytes = (\<lambda>k. pad 32 [k]),
     sk_sign = (\<lambda>k m. (k, checksum m)),
     ssh_to_bytes = (\<lambda>k. pad 32 [k]),
     ssh_from_bytes = (\<lambda>b. map_option hd (unpad 32 1 b)),
     ssh_public_key_share = (\<lambda>k. k),
     ssh_sign = (\<lambda>k m. (k, checksum m)),
     sig_to_bytes = (\<lambda>(k, h). pad 96 [k, h]),
     sig_from_bytes = (\<lambda>b. map_option (\<lambda>l. (l ! 0, l ! 1)) (unpad 96 2 b)),
     sgh_from_bytes = (\<lambda>b. map_option (\<lambda>l. (l ! 0, l ! 1)) (unpad 96 2 b))\<rparr>"

lemma demo_bls_laws: "bls_laws demo_codec demo_blsttc"
  by (simp add: bls_laws_def demo_blsttc_def demo_codec_def set_roundtrip set_of_share)

lemma demo_threshold_laws: "threshold_laws demo_blsttc"
proof -
  have "pks_combine_signatures demo_blsttc (sks_public_keys demo_blsttc s)
      (map (\<lambda>i. (i, ssh_sign demo_blsttc (sks_secret_key_share demo_blsttc s i) m)) ids) =
      Some (sk_sign demo_blsttc (sks_secret_key demo_blsttc s) m)"
    if "sks_threshold demo_blsttc s < length ids" for s m ids
    using that by (cases ids) (auto simp: demo_blsttc_def)
  then show ?thesis
    by (auto simp: threshold_laws_def) (auto simp: demo_blsttc_def set_of_share)
qed

lemma word_of_nat_256: "r < 256 \<Longrightarrow> r' < 256 \<Longrightarrow> (word_of_nat r :: u8) = word_of_nat r' \<Longrightarrow> r = r'"
  by (simp add: word_of_nat_eq_iff take_bit_nat_eq_self)

lemma demo_fresh_keys: "fresh_keys demo_blsttc"
  by (auto simp: fresh_keys_def demo_blsttc_def pad_def split: if_splits dest: word_of_nat_256)

section \<open>secp256k1\<close>

type_synonym demo_ecc = "(u8, u8, bytes, u8) secp"

definition demo_secp :: demo_ecc where
  "demo_secp = \<lparr>
     generate_keypair = (\<lambda>r. (word_of_nat r, word_of_nat r)),
     esk_serialize = (\<lambda>k. pad 32 [k]),
     esk_parse_slice = (\<lambda>b. map_option hd (unpad 32 1 b)),
     epk_serialize = (\<lambda>k. pad 65 [k]),
     epk_serialize_compressed = (\<lambda>k. pad 33 [k]),
     epk_parse = (\<lambda>b. map_option hd (unpad 65 1 b)),
     epk_parse_compressed = (\<lambda>b. map_option hd (unpad 33 1 b)),
     epk_parse_slice = (\<lambda>b. map_option hd (unpad 65 1 b)),
     msg_parse_slice = (\<lambda>b. if length b = 32 then Some b else None),
     secp_sign = (\<lambda>m k. k),
     secp_verify = (\<lambda>m g k. g = k),
     esig_serialize = (\<lambda>g. pad 64 [g]),
     esig_parse_standard = (\<lambda>b. map_option hd (unpad 64 1 b)),
     esig_parse_standard_slice = (\<lambda>b. map_option hd (unpad 64 1 b)),
     ecies_encrypt = (\<lambda>r pk m. Some (last pk # m)),
     ecies_decrypt = (\<lambda>sk c. case c of [] \<Rightarrow> None | k # m \<Rightarrow> if k = last sk then Some m else None)\<rparr>"

lemma demo_secp_laws: "secp_laws demo_secp"
  by (simp add: secp_laws_def key_pair_def demo_secp_def pad_def[of 32] pad_def[of 65])
    (auto simp: pad_def unpad_def)

section \<open>Services\<close>

definition demo_services :: services where
  "demo_services = \<lparr>
     cvm_sign_message = (\<lambda>p m. ret \<lparr>smres_signature = pad 64 [checksum (keccak256 demo_codec m)], smres_session_id = pad 32 [7],
        smres_session_key_public = \<lparr>pi_type_id = 3, pi_key = [4]\<rparr>,
        smres_owner_key_public = \<lparr>pi_type_id = 3, pi_key = [5]\<rparr>\<rparr>),
     rpc_url_valid = (\<lambda>u. u \<noteq> []),
     verifySessionSignature = (\<lambda>u a i k m g. ret (g = pad 64 [checksum m])),
     getSession = (\<lambda>u a i. ret \<lparr>cs_sessionId = i, cs_owner = [], cs_akPubKeyFingerprint = [],
        cs_tpmSigningKeyFingerprint = [], cs_sessionKeyFingerprint = [], cs_baseImageId = [],
        cs_workloadId = pad 32 [9], cs_platformProfileId = [], cs_measurementVariantId = [],
        cs_registeredAt = 0, cs_expiresAt = 0, cs_isActive = True\<rparr>),
     alloy_address_parse = demo_hex_decode,
     alloy_to_string = (\<lambda>b. ''0x'' @ demo_hex_encode b),
     identity_default = \<lparr>pi_type_id = 0, pi_key = []\<rparr>,
     identity_from_str = (\<lambda>s. None)\<rparr>"

lemma demo_services_laws: "services_laws demo_codec demo_services"
  by (simp add: services_laws_def demo_services_def demo_codec_def)

section \<open>ethers\<close>

definition demo_ethers :: "(u8, u8) ethers" where
  "demo_ethers = \<lparr>
     abi_encode = (\<lambda>ts. concat (map (\<lambda>t. case t of
        TokString s \<Rightarrow> map (\<lambda>c. of_char c) s | TokAddress b \<Rightarrow> b | TokUint n \<Rightarrow> [word_of_nat n]
      | TokBytes b \<Rightarrow> b | TokFixedBytes b \<Rightarrow> b) ts)),
     address_parse = demo_hex_decode,
     wallet_parse = (\<lambda>s. map_option last (demo_hex_decode s)),
     wallet_address = (\<lambda>k. pad 20 [k]),
     wallet_sign_message = (\<lambda>k m. Some k),
     wsig_recover = (\<lambda>g m. Some (pad 20 [g])),
     wsig_to_string = (\<lambda>g. demo_hex_encode [g])\<rparr>"

section \<open>Worlds\<close>

definition empty_world :: world where
  "empty_world = \<lparr>files = [], dirs = [], faults = [], rng = 0, env = []\<rparr>"

lemma empty_world_simps [simp]: "lookup empty_world p = None" "quiet empty_world" "rng empty_world = 0"
  by (simp_all add: empty_world_def lookup_def quiet_def)

end
