(* ===== verification/Signer_Progress.thy ===== *)
theory Signer_Progress
  imports Signer_Safety
begin

text \<open>
  The signing endpoint in a world without faults: with the key and the database of a
  validator in place it answers every request, with the signature where the request does
  not conflict with the record, with a refusal where it does, and the record moves on.
\<close>

section \<open>Reading and writing the database\<close>

lemma spd_read_quiet:
  assumes "quiet w" "lookup w (path_push slash_dir (strip_0x_prefix h)) = Some s" "spd_parse X s = Ok d"
  shows "spd_read X h w = (Ok d, w)"
  using assms by (simp add: spd_read_def spd_parse_def Let_def path_collect_slash ebind_def fs_read_quiet
      in_context_def)

lemma spd_write_quiet:
  assumes X: "codec_laws X" and d: "wf_spd d" and w: "quiet w" "free_dir w slash_dir"
  shows "\<exists>w'. spd_write X d w = (Ok (), w') \<and> quiet w' \<and>
    lookup w' = (lookup w)(slash_dir @ [hex_encode X (pubkey d)] \<mapsto> spd_text X d) \<and>
    free_dir w' slash_dir"
proof -
  let ?n = "hex_encode X (pubkey d)"
  obtain w1 w' where c: "create_dir_all slash_dir w = (Ok (), w1)"
    and f: "fs_write (slash_dir @ [?n]) (spd_text X d) w1 = (Ok (), w')"
    and q: "quiet w'" and l: "lookup w' = (lookup w)(slash_dir @ [?n] \<mapsto> spd_text X d)"
    and i: "\<forall>p. is_dir w' p \<longleftrightarrow> is_dir w p \<or> p \<in> set (prefixes_of slash_dir)"
    using dir_write_quiet[OF w, of ?n "spd_text X d"] by blast
  have "spd_write X d w = (Ok (), w')"
    by (simp add: spd_write_eq[OF X d] ebind_def in_context_def c f)
  moreover have "free_dir w' slash_dir"
  proof -
    have long: "slash_dir @ [n] \<notin> set (prefixes_of slash_dir)" for n
      using prefixes_of_length[of "slash_dir @ [n]" slash_dir] by auto
    moreover have "q \<noteq> slash_dir @ [?n]" if "q \<in> set (prefixes_of slash_dir)" for q
      using that long by blast
    ultimately show ?thesis
      using w(2) by (auto simp: free_dir_def l i)
  qed
  ultimately show ?thesis using q l by blast
qed

section \<open>A validator in service\<close>

text \<open>
  \<open>in_service X B s d w\<close>: the key set \<open>s\<close> is saved, the database \<open>d\<close> of its
  public key is on disk, and nothing is in the way of later writes.
\<close>

definition validator_name ::
  "codec \<Rightarrow> ('ps, 'pk, 'psh, 'ss, 'sk, 'ssh, 'sg, 'sgh) blsttc \<Rightarrow> 'ss \<Rightarrow> string" where
  "validator_name X B s = hex_encode X (pk_to_bytes B (pks_public_key B (sks_public_keys B s)))"

definition in_service ::
  "codec \<Rightarrow> ('ps, 'pk, 'psh, 'ss, 'sk, 'ssh, 'sg, 'sgh) blsttc \<Rightarrow> 'ss \<Rightarrow> SlashingProtectionData \<Rightarrow> world \<Rightarrow> bool"
where
  "in_service X B s d w \<longleftrightarrow> quiet w \<and> free_dir w slash_dir \<and>
     lookup w (bls_dir @ [validator_name X B s]) = Some (hex_encode X (sks_to_bytes B s)) \<and>
     wf_spd d \<and> hex_encode X (pubkey d) = validator_name X B s \<and>
     (\<exists>t. lookup w (slash_dir @ [validator_name X B s]) = Some t \<and> spd_parse X t = Ok d)"

lemma validator_name_facts:
  assumes "hex_laws X" "bls_laws X B"
  shows "validator_name X B s = pk_to_hex B (pks_public_key B (sks_public_keys B s))"
    "strip_0x_prefix (validator_name X B s) = validator_name X B s"
    "plain (validator_name X B s)" "length (validator_name X B s) = 96"
proof -
  have l: "length (pk_to_bytes B k) = 48" for k by (rule bls_simps(7)[OF assms(2)])
  then have "pk_to_bytes B k \<noteq> []" for k by (metis list.size(3) zero_neq_numeral)
  then show "plain (validator_name X B s)"
    using assms by (simp add: validator_name_def plain_hex_encode)
  show "validator_name X B s = pk_to_hex B (pks_public_key B (sks_public_keys B s))"
    using pk_to_hex_eq[OF assms(2)] by (simp add: validator_name_def)
  show "strip_0x_prefix (validator_name X B s) = validator_name X B s"
    "length (validator_name X B s) = 96"
    using assms l by (simp_all add: validator_name_def)
qed

lemma in_service_read:
  assumes "codec_laws X" "bls_laws X B" "in_service X B s d w"
  shows "spd_read X (validator_name X B s) w = (Ok d, w)"
proof -
  note V = validator_name_facts[OF codec_lawsD(1)[OF assms(1)] assms(2), of s]
  from assms(3) obtain t where "lookup w (slash_dir @ [validator_name X B s]) = Some t" "spd_parse X t = Ok d"
    by (auto simp: in_service_def)
  with assms(3) V show ?thesis
    by (intro spd_read_quiet[where s = t]) (auto simp: in_service_def)
qed

lemma in_service_sign:
  assumes "codec_laws X" "bls_laws X B" "in_service X B s d w"
  shows "bls_agg_sign_from_saved_sk X B (validator_name X B s) r w = (Ok (sk_sign B (sks_secret_key B s) r), w)"
proof -
  note hex = codec_lawsD(1)[OF assms(1)]
  note V = validator_name_facts[OF hex assms(2), of s]
  have "bls_file (validator_name X B s) = bls_dir @ [validator_name X B s]"
    using V by (simp add: bls_file_def)
  then have "read_bls_key X (validator_name X B s) w = (Ok (sks_to_bytes B s), w)"
    using assms(3) hex by (intro bls_store.rd_quiet) (auto simp: in_service_def)
  then have "fetch_bls_sk X B (validator_name X B s) w = (Ok s, w)"
    using V assms(2) by (simp add: fetch_bls_sk_def)
  then show ?thesis
    using V by (simp add: bls_agg_sign_from_saved_sk_def bls_agg_sign_def)
qed

lemma in_service_store:
  assumes X: "codec_laws X" "hash_laws X" and B: "bls_laws X B" and S: "in_service X B s d w"
    and e: "signed_entry X m = Some e" "offer_entry e d = (Ok (), d')"
  shows "\<exists>w'. update_slash_protection_db X (validator_name X B s) m w = (Ok (), w') \<and> in_service X B s d' w'"
proof -
  have wf': "wf_spd d'"
    using S wf_offer[OF _ e(2) entry_root_ok[OF X(2) e(1)]] by (simp add: in_service_def)
  have pk: "pubkey d' = pubkey d" by (rule offer_entry_pubkey[OF e(2)])
  obtain w' where w: "spd_write X d' w = (Ok (), w')" "quiet w'" "free_dir w' slash_dir"
    "lookup w' = (lookup w)(slash_dir @ [hex_encode X (pubkey d')] \<mapsto> spd_text X d')"
    using spd_write_quiet[OF X(1) wf', of w] S by (auto simp: in_service_def)
  have "update_slash_protection_db X (validator_name X B s) m w = (Ok (), w')"
    using in_service_read[OF X(1) B S] e w(1) by (simp add: update_entry store_entry_def)
  moreover have "in_service X B s d' w'"
    using S w wf' pk spd_parse_text[OF X(1) wf']
    by (auto simp: in_service_def slash_dir_def bls_dir_def)
  ultimately show ?thesis by blast
qed

section \<open>The endpoint\<close>

lemma sign_accepts:
  assumes X: "codec_laws X" "hash_laws X" and B: "bls_laws X B" and S: "in_service X B s d w"
    and m: "\<not> is_upper_deposit m" "\<And>e. signed_entry X m = Some e \<Longrightarrow> offer_entry e d = (Ok (), d')"
    "signed_entry X m = None \<Longrightarrow> d' = d"
  shows "\<exists>w'. sign_validator_message X B (validator_name X B s) st m w =
      (Response HTTP_OK (JsonBody (SignatureResponse_new X
         (sig_to_bytes B (sk_sign B (sks_secret_key B s)
            (to_signing_root X m (Some (genesis_fork_version st))))))), w') \<and>
    in_service X B s d' w'"
proof -
  let ?h = "validator_name X B s"
  note V = validator_name_facts[OF codec_lawsD(1)[OF X(1)] B, of s]
  have san: "sanitize_bls_pk_hex ?h = Ok ?h"
    using V by (simp add: sanitize_Ok)
  have slash: "is_slashable X ?h m w = (Ok False, w)"
  proof -
    have "\<not> entry_slashable d e" if "signed_entry X m = Some e" for e
      using entry_gate.offer_iff[of e d] m(2)[OF that] by simp
    then show ?thesis
      using in_service_read[OF X(1) B S] by (auto simp: is_slashable_entry split: option.split)
  qed
  obtain w' where upd: "(if can_be_slashed m then update_slash_protection_db X ?h m else ret ()) w = (Ok (), w')"
    and S': "in_service X B s d' w'"
  proof (cases "signed_entry X m")
    case None
    then have "\<not> can_be_slashed m" using can_be_slashed_entry by blast
    with S m(3)[OF None] that[of w] show ?thesis by simp
  next
    case (Some e)
    then have "can_be_slashed m" using can_be_slashed_entry by blast
    with in_service_store[OF X B S Some m(2)[OF Some]] that show ?thesis by auto
  qed
  show ?thesis
    using san slash upd in_service_sign[OF X(1) B S'] S' m(1)
    by (simp add: sign_validator_message_def on_ok_def Let_def)
qed

lemma sign_refuses:
  assumes X: "codec_laws X" and B: "bls_laws X B" and S: "in_service X B s d w"
    and m: "signed_entry X m = Some e" "entry_slashable d e"
  shows "sign_validator_message X B (validator_name X B s) st m w =
    (Response PRECONDITION_FAILED (Message ''Signing operation failed due to slashing protection rules''), w)"
proof -
  let ?h = "validator_name X B s"
  note V = validator_name_facts[OF codec_lawsD(1)[OF X(1)] B, of s]
  have "sanitize_bls_pk_hex ?h = Ok ?h"
    using V by (simp add: sanitize_Ok)
  moreover have "is_slashable X ?h m w = (Ok True, w)"
    using in_service_read[OF X(1) B S] m by (simp add: is_slashable_entry)
  moreover have "\<not> is_upper_deposit m"
    using m(1) by (cases m) auto
  ultimately show ?thesis
    by (simp add: sign_validator_message_def on_ok_def)
qed

end
