(* ===== verification/Properties_Data.thy ===== *)
theory Properties_Data
  imports Demo_Crypto Signer_Progress
begin

text \<open>
  Properties of the data layer: the two guards of the slashing database, its text and its
  file, numbers and vectors in JSON, signature domains and signing roots, and the key
  stores. After each property with hypotheses a theorem applies it to the concrete codec and
  cryptography of Demo\_Codec and Demo\_Crypto.
\<close>

section \<open>The guards\<close>

definition demo_block :: "Slot \<Rightarrow> SignedBlockSlot" where
  "demo_block s = \<lparr>slot = s, sbs_signing_root = None\<rparr>"

definition demo_vote :: "Epoch \<Rightarrow> Epoch \<Rightarrow> SignedAttestationEpochs" where
  "demo_vote a b = \<lparr>source_epoch = a, target_epoch = b, sae_signing_root = Some (replicate 32 1)\<rparr>"

definition demo_spd :: SlashingProtectionData where
  "demo_spd = \<lparr>pubkey = pad 48 [5], signed_blocks = [demo_block 7], signed_attestations = [demo_vote 1 2]\<rparr>"

text \<open>
  C3: a client that signs exactly the blocks \<open>new_block\<close> accepts, in either mode of
  the database, never signs two for one slot, nor one for a slot that was on record
  before.
\<close>

theorem accepted_blocks_never_conflict:
  assumes "offer_all (\<lambda>b. new_block b growable) bs d = (accepted, d')"
  shows "sorted_wrt (\<lambda>old new. \<not> double_proposal old new) accepted \<and>
    (\<forall>old. block_covered d old \<longrightarrow>
       block_covered d' old \<and> (\<forall>new \<in> set accepted. \<not> double_proposal old new))"
  using block_gate.accepted_safe[OF assms] by blast

theorem accepted_blocks_never_conflict_witness:
  "sorted_wrt (\<lambda>old new. \<not> double_proposal old new) [demo_block 8, demo_block 9] \<and>
    block_covered (demo_spd\<lparr>signed_blocks := [demo_block 9]\<rparr>) (demo_block 7) \<and>
    \<not> double_proposal (demo_block 7) (demo_block 9)"
proof -
  have "offer_all (\<lambda>b. new_block b False) [demo_block 7, demo_block 8, demo_block 8, demo_block 9] demo_spd =
      ([demo_block 8, demo_block 9], demo_spd\<lparr>signed_blocks := [demo_block 9]\<rparr>)"
    by (simp add: demo_spd_def demo_block_def new_block_def get_latest_signed_block_slot_def)
  from accepted_blocks_never_conflict[OF this]
  show ?thesis by (simp add: block_covered_def demo_spd_def demo_block_def get_latest_signed_block_slot_def)
qed

text \<open>
  C4: the same for attestations: no two accepted votes have one target or surround one
  another, and none conflicts with a vote the database covered.
\<close>

theorem accepted_attestations_never_conflict:
  assumes "offer_all (\<lambda>a. new_attestation a growable) as d = (accepted, d')"
  shows "sorted_wrt (\<lambda>old new. \<not> slashable_pair old new) accepted \<and>
    (\<forall>old. attestation_covered d old \<longrightarrow>
       attestation_covered d' old \<and> (\<forall>new \<in> set accepted. \<not> slashable_pair old new))"
  using attestation_gate.accepted_safe[OF assms] by blast

theorem accepted_attestations_never_conflict_witness:
  "sorted_wrt (\<lambda>old new. \<not> slashable_pair old new) [demo_vote 1 3] \<and>
    attestation_covered (demo_spd\<lparr>signed_attestations := [demo_vote 1 2, demo_vote 1 3]\<rparr>) (demo_vote 1 2) \<and>
    \<not> slashable_pair (demo_vote 1 2) (demo_vote 1 3)"
proof -
  have "offer_all (\<lambda>a. new_attestation a True) [demo_vote 0 9, demo_vote 1 3, demo_vote 2 3] demo_spd =
      ([demo_vote 1 3], demo_spd\<lparr>signed_attestations := [demo_vote 1 2, demo_vote 1 3]\<rparr>)"
    by (simp add: demo_spd_def demo_vote_def new_attestation_def get_latest_signed_attestation_epochs_def)
  note safe = accepted_attestations_never_conflict[OF this]
  have "attestation_covered demo_spd (demo_vote 1 2)"
    by (simp add: attestation_covered_def demo_spd_def demo_vote_def epochs_def get_latest_signed_attestation_epochs_def)
  with safe show ?thesis by simp
qed

text \<open>The two modes accept the same blocks and votes.\<close>

lemma block_modes_agree:
  assumes "get_latest_signed_block_slot d = get_latest_signed_block_slot e"
    "offer_all (\<lambda>b. new_block b True) bs d = (accepted, d')"
  shows "\<exists>e'. offer_all (\<lambda>b. new_block b False) bs e = (accepted, e') \<and>
    get_latest_signed_block_slot d' = get_latest_signed_block_slot e'"
  using assms
proof (induction bs arbitrary: d e accepted)
  case Nil
  then show ?case by simp
next
  case (Cons b bs)
  have same: "is_slashable_block_slot d (slot b) = is_slashable_block_slot e (slot b)"
    using Cons.prems(1) by (simp add: is_slashable_block_slot_def)
  show ?case
  proof (cases rule: block_gate.offer_cases[where e = b and d = d and g = True])
    case (accepted d1)
    then have "fst (new_block b False e) = Ok ()" by (simp add: block_gate.offer_iff flip: same)
    then obtain e1 where e1: "new_block b False e = (Ok (), e1)" by (metis prod.collapse)
    have l: "get_latest_signed_block_slot d1 = get_latest_signed_block_slot e1"
      using new_block_Ok(2)[OF accepted(1)] new_block_Ok(2)[OF e1] by simp
    obtain acc where rest: "offer_all (\<lambda>b. new_block b True) bs d1 = (acc, d')" "accepted = b # acc"
      using Cons.prems(2) accepted(1) by (auto split: prod.splits)
    with Cons.IH[OF l rest(1)] e1 show ?thesis by auto
  next
    case (refused r)
    then have "fst (new_block b False e) \<noteq> Ok ()" by (simp add: block_gate.offer_iff flip: same)
    moreover have "snd (new_block b False e) = e"
      using block_gate.offer_refused calculation by blast
    moreover have "offer_all (\<lambda>b. new_block b True) bs d = (accepted, d')"
      using Cons.prems(2) refused by (cases r) auto
    ultimately show ?thesis
      using Cons.IH[OF Cons.prems(1)] by (cases "new_block b False e"; cases "fst (new_block b False e)") auto
  qed
qed

text \<open>
  The constant \<open>ALLOW_GROWABLE_SLASH_PROTECTION_DB\<close> changes what is kept, not
  what is accepted: on every sequence of blocks the database that grows and the one that
  overwrites its first entry accept the same ones.
\<close>

theorem growable_mode_irrelevant:
  assumes "offer_all (\<lambda>b. new_block b True) bs d = (accepted, d')"
  shows "\<exists>e'. offer_all (\<lambda>b. new_block b False) bs d = (accepted, e') \<and>
    get_latest_signed_block_slot d' = get_latest_signed_block_slot e'"
  using block_modes_agree[OF refl assms] .

theorem growable_mode_irrelevant_witness:
  "\<exists>e'. offer_all (\<lambda>b. new_block b False) [demo_block 8, demo_block 8] demo_spd = ([demo_block 8], e') \<and>
    get_latest_signed_block_slot (demo_spd\<lparr>signed_blocks := [demo_block 7, demo_block 8]\<rparr>) =
      get_latest_signed_block_slot e'"
proof (rule growable_mode_irrelevant)
  show "offer_all (\<lambda>b. new_block b True) [demo_block 8, demo_block 8] demo_spd =
      ([demo_block 8], demo_spd\<lparr>signed_blocks := [demo_block 7, demo_block 8]\<rparr>)"
    by (simp add: demo_spd_def demo_block_def new_block_def get_latest_signed_block_slot_def)
qed

text \<open>
  The check the signer makes first and the guard of the update accept the same
  requests, in every database and mode; the update of a refused request changes nothing.
\<close>

theorem check_agrees_with_update:
  "(fst (new_block b g d) = Ok () \<longleftrightarrow> \<not> is_slashable_block_slot d (slot b)) \<and>
   (fst (new_attestation a g d) = Ok () \<longleftrightarrow>
      \<not> is_slashable_attestation_epochs d (source_epoch a) (target_epoch a)) \<and>
   (fst (new_block b g d) = Ok () \<or> snd (new_block b g d) = d) \<and>
   (fst (new_attestation a g d) = Ok () \<or> snd (new_attestation a g d) = d)"
  using block_gate.offer_iff block_gate.offer_refused attestation_gate.offer_iff
    attestation_gate.offer_refused by metis

section \<open>The database on disk\<close>

lemma demo_spd_wf: "wf_spd demo_spd"
  by (simp add: wf_spd_def demo_spd_def demo_block_def demo_vote_def root_ok_def)

text \<open>
  C24: the text written for a validator's database is read back as the same database,
  entry for entry, signing roots included.
\<close>

theorem database_text_roundtrip:
  assumes "codec_laws X" "wf_spd d"
  shows "spd_parse X (spd_text X d) = Ok d"
  by (rule spd_parse_text[OF assms])

theorem database_text_roundtrip_witness:
  "spd_parse demo_codec (spd_text demo_codec demo_spd) = Ok demo_spd"
  by (rule database_text_roundtrip[OF demo_codec_laws demo_spd_wf])

text \<open>
  C23: whatever part of a write reaches the disk, a later read gives the new database or
  the one that was there before, or fails; it never gives anything else.
\<close>

theorem torn_write_is_old_or_new:
  assumes X: "codec_laws X" and d: "wf_spd d" and w: "spd_write X d w = (r, w')"
    and rd: "spd_read X (hex_encode X (pubkey d)) w' = (Ok d', w'')"
  shows "d' = d \<or>
    (\<exists>s. lookup w (slash_dir @ [hex_encode X (pubkey d)]) = Some s \<and> spd_parse X s = Ok d')"
proof -
  have "pubkey d \<noteq> []" using d by (auto simp: wf_spd_def)
  then obtain s where s: "lookup w' (slash_dir @ [hex_encode X (pubkey d)]) = Some s" "spd_parse X s = Ok d'"
    using spd_read_hex_file[OF codec_lawsD(1)[OF X] refl _ rd] by blast
  show ?thesis
    using spd_write_effect(2)[OF X d w] s spd_parse_torn[OF X d] by auto
qed

definition demo_file :: path where
  "demo_file = slash_dir @ [hex_encode demo_codec (pad 48 [5])]"

definition demo_old_world :: world where
  "demo_old_world = empty_world\<lparr>files := [(demo_file, spd_text demo_codec (spd_new (pad 48 [5])))],
     faults := [Unavailable]\<rparr>"

lemma demo_old_wf: "wf_spd (spd_new (pad 48 [5]))"
  by (simp add: wf_spd_def spd_new_def)

lemma demo_file_push: "path_push slash_dir (strip_0x_prefix (hex_encode demo_codec (pad 48 [5]))) = demo_file"
  using plain_hex_encode[OF demo_hex_laws, of "pad 48 [5]"] demo_hex_laws
  by (simp add: demo_file_def pad_def)

theorem torn_write_is_old_or_new_witness:
  "spd_new (pad 48 [5]) = demo_spd \<or>
    (\<exists>s. lookup demo_old_world (slash_dir @ [hex_encode demo_codec (pubkey demo_spd)]) = Some s \<and>
       spd_parse demo_codec s = Ok (spd_new (pad 48 [5])))"
proof (rule torn_write_is_old_or_new[OF demo_codec_laws demo_spd_wf])
  show "spd_write demo_codec demo_spd demo_old_world =
      (Err (Context ''Failed to create slashing dir'' Io), demo_old_world\<lparr>faults := []\<rparr>)"
    by (simp add: spd_write_eq[OF demo_codec_laws demo_spd_wf] demo_old_world_def ebind_def in_context_def
        create_dir_all_def next_fault_def)
  show "spd_read demo_codec (hex_encode demo_codec (pubkey demo_spd)) (demo_old_world\<lparr>faults := []\<rparr>) =
      (Ok (spd_new (pad 48 [5])), demo_old_world\<lparr>faults := []\<rparr>)"
  proof (rule spd_read_quiet)
    show "lookup (demo_old_world\<lparr>faults := []\<rparr>)
        (path_push slash_dir (strip_0x_prefix (hex_encode demo_codec (pubkey demo_spd)))) =
        Some (spd_text demo_codec (spd_new (pad 48 [5])))"
      using demo_file_push by (simp add: demo_spd_def demo_old_world_def lookup_def)
  qed (simp_all add: quiet_def spd_parse_text[OF demo_codec_laws demo_old_wf])
qed

text \<open>
  Without faults a database written is read back under the name of its key, with and
  without the \<open>0x\<close> prefix.
\<close>

theorem database_write_then_read:
  assumes X: "codec_laws X" and d: "wf_spd d" and w: "quiet w" "free_dir w slash_dir"
  shows "\<exists>w'. spd_write X d w = (Ok (), w') \<and>
    spd_read X (hex_encode X (pubkey d)) w' = (Ok d, w') \<and>
    spd_read X (''0x'' @ hex_encode X (pubkey d)) w' = (Ok d, w')"
proof -
  obtain w' where w': "spd_write X d w = (Ok (), w')" "quiet w'"
    "lookup w' = (lookup w)(slash_dir @ [hex_encode X (pubkey d)] \<mapsto> spd_text X d)"
    using spd_write_quiet[OF X d w] by blast
  have "plain (hex_encode X (pubkey d))"
    using d codec_lawsD(1)[OF X] by (intro plain_hex_encode) (auto simp: wf_spd_def)
  with w' have "spd_read X h w' = (Ok d, w')" if "strip_0x_prefix h = hex_encode X (pubkey d)" for h
    using that by (intro spd_read_quiet) (auto simp: spd_parse_text[OF X d])
  with w'(1) codec_lawsD(1)[OF X] show ?thesis by auto
qed

lemma empty_world_free [simp]: "free_dir empty_world slash_dir"
  by (simp add: free_dir_def empty_world_def is_dir_def lookup_def)

theorem database_write_then_read_witness:
  "\<exists>w'. spd_write demo_codec demo_spd empty_world = (Ok (), w') \<and>
    spd_read demo_codec (hex_encode demo_codec (pubkey demo_spd)) w' = (Ok demo_spd, w') \<and>
    spd_read demo_codec (''0x'' @ hex_encode demo_codec (pubkey demo_spd)) w' = (Ok demo_spd, w')"
  by (rule database_write_then_read[OF demo_codec_laws demo_spd_wf]) simp_all

section \<open>Numbers and vectors\<close>

text \<open>
  Of the decimal numbers, \<open>from_u256_string\<close> accepts exactly those from
  \<open>2 ^ 192\<close> to \<open>2 ^ 256 - 1\<close>, with the number as the value of the digits and
  \<open>to_u256_string\<close> as the inverse. The lower bound is a defect: 256-bit fields such
  as a base fee are far below it.
\<close>

theorem u256_accepts_only_large:
  assumes "biguint_laws X"
  shows "if 2 ^ 192 \<le> n \<and> n < 2 ^ 256
    then \<exists>ds. from_u256_string X (JStr (biguint_to_str X n)) = Ok ds \<and> u64_digits_val ds = n \<and>
           to_u256_string X ds = Ok (JStr (biguint_to_str X n))
    else from_u256_string X (JStr (biguint_to_str X n)) =
           Err (External ''Decimal string doesn't match the required length for U256'')"
  using to_u64_digits_length_4[OF assms, of n] assms
  by (simp add: from_u256_string_def to_u256_string_def de_str_def biguint_laws_def)

theorem u256_accepts_only_large_witness:
  "from_u256_string demo_codec (JStr (biguint_to_str demo_codec 7)) =
     Err (External ''Decimal string doesn't match the required length for U256'') \<and>
   (\<exists>ds. from_u256_string demo_codec (JStr (biguint_to_str demo_codec (2 ^ 200))) = Ok ds \<and>
      u64_digits_val ds = 2 ^ 200)"
  using u256_accepts_only_large[OF demo_biguint_laws, of 7]
    u256_accepts_only_large[OF demo_biguint_laws, of "2 ^ 200"] by (auto split: if_splits)

text \<open>
  The vector of public keys of a sync committee is written as \<open>0x\<close>-prefixed hex
  strings and read back as the same vector when it is within the bound \<open>N\<close> of the
  target type; a longer one makes the reader panic instead of failing.
\<close>

theorem hex_vec_roundtrip_or_panic:
  assumes "hex_laws X" "ssz_laws X" "\<forall>v \<in> set vs. length v = 48"
  shows "\<exists>j. to_hex_vec_from_ssz_type X vs = Ok j \<and>
    from_hex_vec_to_ssz_type X N j = (if length vs \<le> N then Ok vs else Panic ''unwrap'')"
proof -
  have strs: "mapM de_str (map (\<lambda>d. JStr (''0x'' @ hex_encode X d)) vs) =
      Ok (map (\<lambda>d. ''0x'' @ hex_encode X d) vs)"
    by (induction vs) (simp_all add: de_str_def)
  have "to_hex_vec_from_ssz_type X vs = Ok (JArr (map (\<lambda>d. JStr (''0x'' @ hex_encode X d)) vs))"
    using assms(2) by (simp add: to_hex_vec_from_ssz_type_def)
  moreover have "vl_new X N vs = (if length vs \<le> N then Some vs else None)"
    using assms(2) unfolding ssz_laws_def by blast
  ultimately show ?thesis
    using strs hex_vec_loop_roundtrip[OF assms, of "[]"]
    by (simp add: from_hex_vec_to_ssz_type_def de_string_vec_def split del: if_split) simp
qed

theorem hex_vec_roundtrip_or_panic_witness:
  "\<exists>j. to_hex_vec_from_ssz_type demo_codec [pad 48 [1], pad 48 [2]] = Ok j \<and>
    from_hex_vec_to_ssz_type demo_codec 1 j = Panic ''unwrap''"
  using hex_vec_roundtrip_or_panic[OF demo_hex_laws demo_ssz_laws, of "[pad 48 [1], pad 48 [2]]" 1] by simp

end
