(* ===== verification/Signing_Spec.thy ===== *)
theory Signing_Spec
  imports Eth_Signing
begin

text \<open>
  What a signing root is supposed to be, after the consensus specification: the hash of the
  object signed, mixed with a domain that starts with the four bytes of the message's kind
  and goes on with the fork and chain it is meant for. The code of src/eth2/eth\_signing.rs
  is shown to compute it.
\<close>

section \<open>The table of the specification\<close>

text \<open>The kind of a message, as its domain type; the two spellings of a tag are one kind.\<close>

fun kind :: "BLSSignMsg \<Rightarrow> DomainType" where
  "kind (BLOCK _) = DOMAIN_BEACON_PROPOSER"
| "kind (block _) = DOMAIN_BEACON_PROPOSER"
| "kind (BLOCK_V2 _) = DOMAIN_BEACON_PROPOSER"
| "kind (block_v2 _) = DOMAIN_BEACON_PROPOSER"
| "kind (ATTESTATION _) = DOMAIN_BEACON_ATTESTER"
| "kind (attestation _) = DOMAIN_BEACON_ATTESTER"
| "kind (RANDAO_REVEAL _) = DOMAIN_RANDAO"
| "kind (randao_reveal _) = DOMAIN_RANDAO"
| "kind (AGGREGATE_AND_PROOF _) = DOMAIN_AGGREGATE_AND_PROOF"
| "kind (aggregate_and_proof _) = DOMAIN_AGGREGATE_AND_PROOF"
| "kind (AGGREGATION_SLOT _) = DOMAIN_SELECTION_PROOF"
| "kind (aggregation_slot _) = DOMAIN_SELECTION_PROOF"
| "kind (DEPOSIT _) = DOMAIN_DEPOSIT"
| "kind (deposit _) = DOMAIN_DEPOSIT"
| "kind (VOLUNTARY_EXIT _) = DOMAIN_VOLUNTARY_EXIT"
| "kind (voluntary_exit _) = DOMAIN_VOLUNTARY_EXIT"
| "kind (SYNC_COMMITTEE_MESSAGE _) = DOMAIN_SYNC_COMMITTEE"
| "kind (sync_committee_message _) = DOMAIN_SYNC_COMMITTEE"
| "kind (SYNC_COMMITTEE_SELECTION_PROOF _) = DOMAIN_SYNC_COMMITTEE_SELECTION_PROOF"
| "kind (sync_committee_selection_proof _) = DOMAIN_SYNC_COMMITTEE_SELECTION_PROOF"
| "kind (SYNC_COMMITTEE_CONTRIBUTION_AND_PROOF _) = DOMAIN_CONTRIBUTION_AND_PROOF"
| "kind (sync_committee_contribution_and_proof _) = DOMAIN_CONTRIBUTION_AND_PROOF"
| "kind (VALIDATOR_REGISTRATION _) = DOMAIN_APPLICATION_BUILDER"
| "kind (validator_registration _) = DOMAIN_APPLICATION_BUILDER"

text \<open>The object whose hash is signed.\<close>

fun signed_object :: "BLSSignMsg \<Rightarrow> tree_obj" where
  "signed_object (BLOCK m) = TBeaconBlock (br_block m)"
| "signed_object (block m) = TBeaconBlock (br_block m)"
| "signed_object (BLOCK_V2 m) = TBeaconBlockHeader (b2w_block_header (b2r_beacon_block m))"
| "signed_object (block_v2 m) = TBeaconBlockHeader (b2w_block_header (b2r_beacon_block m))"
| "signed_object (ATTESTATION m) = TAttestationData (ar_attestation m)"
| "signed_object (attestation m) = TAttestationData (ar_attestation m)"
| "signed_object (RANDAO_REVEAL m) = TU64 (rr_epoch (rrr_randao_reveal m))"
| "signed_object (randao_reveal m) = TU64 (rr_epoch (rrr_randao_reveal m))"
| "signed_object (AGGREGATE_AND_PROOF m) = TAggregateAndProof (apr_aggregate_and_proof m)"
| "signed_object (aggregate_and_proof m) = TAggregateAndProof (apr_aggregate_and_proof m)"
| "signed_object (AGGREGATION_SLOT m) = TU64 (asl_slot (asr_aggregation_slot m))"
| "signed_object (aggregation_slot m) = TU64 (asl_slot (asr_aggregation_slot m))"
| "signed_object (DEPOSIT m) = TDepositMessage (dr_deposit m)"
| "signed_object (deposit m) = TDepositMessage (dr_deposit m)"
| "signed_object (VOLUNTARY_EXIT m) = TVoluntaryExit (ver_voluntary_exit m)"
| "signed_object (voluntary_exit m) = TVoluntaryExit (ver_voluntary_exit m)"
| "signed_object (SYNC_COMMITTEE_MESSAGE m) = TRoot (smw_beacon_block_root (smr_sync_committee_message m))"
| "signed_object (sync_committee_message m) = TRoot (smw_beacon_block_root (smr_sync_committee_message m))"
| "signed_object (SYNC_COMMITTEE_SELECTION_PROOF m) =
     TSyncAggregatorSelectionData (spr_sync_aggregator_selection_data m)"
| "signed_object (sync_committee_selection_proof m) =
     TSyncAggregatorSelectionData (spr_sync_aggregator_selection_data m)"
| "signed_object (SYNC_COMMITTEE_CONTRIBUTION_AND_PROOF m) =
     TContributionAndProof (scr_contribution_and_proof m)"
| "signed_object (sync_committee_contribution_and_proof m) =
     TContributionAndProof (scr_contribution_and_proof m)"
| "signed_object (VALIDATOR_REGISTRATION m) = TValidatorRegistration (vrr_validator_registration m)"
| "signed_object (validator_registration m) = TValidatorRegistration (vrr_validator_registration m)"

text \<open>
  The chain a message is meant for: a fork at an epoch, or only a genesis fork version, for
  the two kinds that are valid across forks.
\<close>

datatype chain = Fork ForkInfo Epoch | Genesis "Version option"

fun chain_of :: "Version option \<Rightarrow> BLSSignMsg \<Rightarrow> chain" where
  "chain_of gfv (BLOCK m) = Fork (br_fork_info m) (bb_slot (br_block m) div 32)"
| "chain_of gfv (block m) = Fork (br_fork_info m) (bb_slot (br_block m) div 32)"
| "chain_of gfv (BLOCK_V2 m) =
     Fork (b2r_fork_info m) (bbh_slot (b2w_block_header (b2r_beacon_block m)) div 32)"
| "chain_of gfv (block_v2 m) =
     Fork (b2r_fork_info m) (bbh_slot (b2w_block_header (b2r_beacon_block m)) div 32)"
| "chain_of gfv (ATTESTATION m) = Fork (ar_fork_info m) (cp_epoch (ad_target (ar_attestation m)))"
| "chain_of gfv (attestation m) = Fork (ar_fork_info m) (cp_epoch (ad_target (ar_attestation m)))"
| "chain_of gfv (RANDAO_REVEAL m) = Fork (rrr_fork_info m) (rr_epoch (rrr_randao_reveal m))"
| "chain_of gfv (randao_reveal m) = Fork (rrr_fork_info m) (rr_epoch (rrr_randao_reveal m))"
| "chain_of gfv (AGGREGATE_AND_PROOF m) =
     Fork (apr_fork_info m) (ad_slot (att_data (aap_aggregate (apr_aggregate_and_proof m))) div 32)"
| "chain_of gfv (aggregate_and_proof m) =
     Fork (apr_fork_info m) (ad_slot (att_data (aap_aggregate (apr_aggregate_and_proof m))) div 32)"
| "chain_of gfv (AGGREGATION_SLOT m) = Fork (asr_fork_info m) (asl_slot (asr_aggregation_slot m) div 32)"
| "chain_of gfv (aggregation_slot m) = Fork (asr_fork_info m) (asl_slot (asr_aggregation_slot m) div 32)"
| "chain_of gfv (DEPOSIT m) = Genesis (Some (dr_genesis_fork_version m))"
| "chain_of gfv (deposit m) = Genesis (Some (dr_genesis_fork_version m))"
| "chain_of gfv (VOLUNTARY_EXIT m) = Fork (ver_fork_info m) (ve_epoch (ver_voluntary_exit m))"
| "chain_of gfv (voluntary_exit m) = Fork (ver_fork_info m) (ve_epoch (ver_voluntary_exit m))"
| "chain_of gfv (SYNC_COMMITTEE_MESSAGE m) =
     Fork (smr_fork_info m) (smw_slot (smr_sync_committee_message m) div 32)"
| "chain_of gfv (sync_committee_message m) =
     Fork (smr_fork_info m) (smw_slot (smr_sync_committee_message m) div 32)"
| "chain_of gfv (SYNC_COMMITTEE_SELECTION_PROOF m) =
     Fork (spr_fork_info m) (sasd_slot (spr_sync_aggregator_selection_data m) div 32)"
| "chain_of gfv (sync_committee_selection_proof m) =
     Fork (spr_fork_info m) (sasd_slot (spr_sync_aggregator_selection_data m) div 32)"
| "chain_of gfv (SYNC_COMMITTEE_CONTRIBUTION_AND_PROOF m) =
     Fork (scr_fork_info m) (scc_slot (cap_contribution (scr_contribution_and_proof m)) div 32)"
| "chain_of gfv (sync_committee_contribution_and_proof m) =
     Fork (scr_fork_info m) (scc_slot (cap_contribution (scr_contribution_and_proof m)) div 32)"
| "chain_of gfv (VALIDATOR_REGISTRATION m) = Genesis gfv"
| "chain_of gfv (validator_registration m) = Genesis gfv"

text \<open>
  The version in force: at a fork the previous one before its epoch and the current one
  from then on. The genesis forms leave the root of the genesis validators zero.
\<close>

fun version_and_root :: "chain \<Rightarrow> Version \<times> Root" where
  "version_and_root (Fork fi e) =
     (if e < fork_epoch (fi_fork fi) then fork_previous_version (fi_fork fi)
      else fork_current_version (fi_fork fi), fi_genesis_validators_root fi)"
| "version_and_root (Genesis v) =
     (case v of Some v \<Rightarrow> v | None \<Rightarrow> GENESIS_FORK_VERSION, replicate 32 0)"

definition domain_spec :: "codec \<Rightarrow> DomainType \<Rightarrow> chain \<Rightarrow> Domain" where
  "domain_spec X dt c =
     (let (v, r) = version_and_root c
      in dt @ take 28 (tree_hash_root X (TForkData \<lparr>fd_current_version = v, fd_genesis_validators_root = r\<rparr>)))"

definition signing_root_spec :: "codec \<Rightarrow> tree_obj \<Rightarrow> Domain \<Rightarrow> Root" where
  "signing_root_spec X obj d =
     tree_hash_root X (TSigningData \<lparr>sd_object_root = tree_hash_root X obj, sd_domain = d\<rparr>)"

section \<open>The code computes it\<close>

lemma get_domain_spec:
  assumes "hash_laws X" "length dt = 4"
  shows "get_domain X fi dt (Some e) = domain_spec X dt (Fork fi e)"
  using compute_domain_spec[OF assms(2,1)]
  by (simp add: get_domain_def domain_spec_def compute_fork_data_root_def Let_def)

lemma genesis_domain_spec:
  assumes "hash_laws X" "length dt = 4"
  shows "compute_domain X dt v None = domain_spec X dt (Genesis v)"
  using compute_domain_spec[OF assms(2,1)]
  by (simp add: domain_spec_def compute_fork_data_root_def Let_def)

lemma length_kind [simp]: "length (kind m) = 4"
  by (cases m) simp_all

lemma domain_spec_kind [simp]:
  "hash_laws X \<Longrightarrow> length (domain_spec X (kind m) c) = 32"
  "take 4 (domain_spec X (kind m) c) = kind m"
  by (simp_all add: domain_spec_def split: prod.split)

lemmas signing_root_arms =
  root_block_def root_block_v2_def root_attestation_def root_randao_reveal_def
  root_aggregate_and_proof_def root_aggregation_slot_def root_deposit_def
  root_voluntary_exit_def root_sync_committee_message_def
  root_sync_committee_selection_proof_def root_sync_committee_contribution_and_proof_def
  root_validator_registration_def

lemma to_signing_root_spec:
  assumes "hash_laws X"
  shows "to_signing_root X m gfv = signing_root_spec X (signed_object m) (domain_spec X (kind m) (chain_of gfv m))"
  by (cases m)
    (simp_all add: signing_root_arms compute_signing_root_def signing_root_spec_def Let_def
      get_domain_spec genesis_domain_spec assms compute_epoch_at_slot_def SLOTS_PER_EPOCH_def)

text \<open>The kinds subject to slashing are those of the proposer's and the attester's domain.\<close>

lemma can_be_slashed_kind:
  "can_be_slashed m \<longleftrightarrow> kind m = DOMAIN_BEACON_PROPOSER \<or> kind m = DOMAIN_BEACON_ATTESTER"
  by (cases m) (simp_all add: domain_types)

end
