(* ===== verification/Key_Listing.thy ===== *)
theory Key_Listing
  imports Signer
begin

text \<open>
  What the listing endpoints of the signer return: exactly the names in the key directory,
  as long as every name is one a key can have.
\<close>

definition children :: "world \<Rightarrow> path \<Rightarrow> string set" where
  "children w d = {n. lookup w (d @ [n]) \<noteq> None \<or> d @ [n] \<in> set (dirs w)}"

lemma set_entry_of: "n \<in> set (entry_of d p) \<longleftrightarrow> p = d @ [n]"
  by (cases p rule: rev_cases) (auto simp: entry_of_def)

lemma set_dir_entries: "set (dir_entries w d) = children w d"
  by (auto simp: dir_entries_def children_def set_entry_of lookup_def map_of_eq_None_iff
      dest: map_of_SomeD intro: rev_image_eqI)

lemma distinct_dir_entries: "distinct (dir_entries w d)"
  by (simp add: dir_entries_def)

lemma list_loop_quiet:
  "quiet w \<Longrightarrow> \<forall>n \<in> set ns. is_utf8 n \<Longrightarrow> list_loop ns ks w = (Ok (ks @ ns), w)"
  by (induction ns arbitrary: ks) (simp_all add: next_fault_quiet)

lemma list_loop_Ok: "list_loop ns ks w = (Ok r, w') \<Longrightarrow> r = ks @ ns"
  by (induction ns ks w rule: list_loop.induct) (auto split: prod.splits fault.splits if_splits)

lemma list_fnames_quiet:
  assumes "quiet w" "is_dir w (path_of d)" "\<forall>n \<in> children w (path_of d). is_utf8 n"
  shows "list_fnames d w = (Ok (dir_entries w (path_of d)), w)"
  using assms by (simp add: list_fnames_def ebind_def in_context_def read_dir_def next_fault_quiet
      list_loop_quiet set_dir_entries)

lemma list_fnames_Ok:
  assumes "list_fnames d w = (Ok names, w')"
  shows "names = dir_entries w (path_of d)"
  using assms by (auto simp: list_fnames_def res_simps read_dir_def in_context_def
      split: prod.splits fault.splits if_splits res.splits dest!: list_loop_Ok dest: next_fault_frame(8))

lemma mapM_no_Err: "(\<And>x. f x \<noteq> Err e) \<Longrightarrow> mapM f xs \<noteq> Err e"
  by (induction xs) (auto simp: res_simps)

text \<open>
  A directory entry of fewer than two characters makes \<open>ListKeysResponse::new\<close> index
  outside the string.
\<close>

lemma list_keys_panics:
  assumes "k \<in> set keys" "length k < 2"
  shows "\<exists>p. ListKeysResponse_new keys = Panic p"
proof -
  have "ListKeysResponse_new keys \<noteq> Err e" for e
    unfolding ListKeysResponse_new_def
    by (simp add: res_simps, rule mapM_no_Err) (simp add: res_simps str_slice_to_def Let_def)
  then show ?thesis
    using list_keys_short[OF assms] by (cases "ListKeysResponse_new keys") auto
qed

end
