(* ===== verification/Key_Lifecycle.thy ===== *)
theory Key_Lifecycle
  imports Bls_Keys Eth_Keys
begin

text \<open>
  The life of a key in its store when the file system works: generated, saved, used by
  name, deleted. The laws come from the interface \<open>key_store\<close> of Key\_Management.
\<close>

lemma write_key_quiet:
  assumes "quiet w" "free_dir w d"
  shows "\<exists>w'. write_key (d @ [n]) s w = (Ok (), w') \<and> quiet w' \<and> \<not> is_dir w' (d @ [n]) \<and>
    lookup w' = (lookup w)(d @ [n] \<mapsto> s) \<and> (\<forall>p. is_dir w' p \<longleftrightarrow> is_dir w p \<or> p \<in> set (prefixes_of d))"
proof -
  obtain w1 w' where w: "create_dir_all d w = (Ok (), w1)" "fs_write (d @ [n]) s w1 = (Ok (), w')"
    "quiet w'" "lookup w' = (lookup w)(d @ [n] \<mapsto> s)"
    "\<forall>p. is_dir w' p \<longleftrightarrow> is_dir w p \<or> p \<in> set (prefixes_of d)"
    using dir_write_quiet[OF assms, of n s] by blast
  have "\<not> is_dir w' (d @ [n])"
    using w(5) assms(2) prefixes_of_length[of "d @ [n]" d] by (auto simp: free_dir_def)
  moreover have "d \<noteq> []" using assms(2) by (simp add: free_dir_def)
  ultimately show ?thesis using w
    by (simp add: write_key_def ebind_def in_context_def parent_def)
qed

lemma delete_key_quiet:
  assumes "quiet w" "lookup w p = Some s"
  shows "\<exists>w'. delete_key p w = (Ok (), w') \<and> quiet w' \<and> lookup w' = (lookup w)(p := None) \<and>
    is_dir w' = is_dir w \<and> rng w' = rng w"
  using assms by (simp add: delete_key_def in_context_def remove_file_def next_fault_quiet)
    (simp add: quiet_def lookup_def is_dir_def delete_conv' fun_eq_iff)

lemma write_bls_key_quiet:
  assumes "hex_laws X" "quiet w" "free_dir w bls_dir" "b \<noteq> []"
  shows "\<exists>w'. write_bls_key (hex_encode X b) (hex_encode X c) w = (Ok (), w') \<and> quiet w' \<and>
    lookup w' = (lookup w)(bls_file (hex_encode X b) \<mapsto> hex_encode X c)"
  using write_key_quiet[OF assms(2,3), of "hex_encode X b" "hex_encode X c"] plain_hex_encode[OF assms(1,4)] assms(1)
  by (auto simp: write_bls_key_def path_collect_keys bls_file_def)

lemma save_bls_key_quiet:
  assumes X: "hex_laws X" and B: "bls_laws X B" and w: "quiet w" "free_dir w bls_dir"
    and p: "pk = pk_to_hex B (pks_public_key B (sks_public_keys B s))"
  shows "\<exists>w'. save_bls_key X B s w = (Ok (), w') \<and> quiet w' \<and> \<not> is_dir w' (bls_file pk) \<and>
    lookup w' = (lookup w)(bls_file pk \<mapsto> hex_encode X (sks_to_bytes B s)) \<and> bls_file pk = bls_dir @ [pk] \<and>
    (\<forall>p. is_dir w' p \<longleftrightarrow> is_dir w p \<or> p \<in> set (prefixes_of bls_dir))"
proof -
  have l: "length (pk_to_bytes B k) = 48" for k by (rule bls_simps(7)[OF B])
  then have "pk_to_bytes B k \<noteq> []" for k by (metis list.size(3) zero_neq_numeral)
  then have pl: "plain pk" and st: "strip_0x_prefix pk = pk"
    using X pk_to_hex_eq[OF B] p by (simp_all add: plain_hex_encode)
  have f: "bls_file pk = bls_dir @ [pk]"
    using pl st by (simp add: bls_file_def)
  show ?thesis
    using write_key_quiet[OF w, of pk "hex_encode X (sks_to_bytes B s)"] f pl st X p[symmetric]
    by (auto simp: save_bls_key_def in_context_def write_bls_key_def path_collect_keys)
qed

lemma save_eth_key_quiet:
  assumes X: "hex_laws X" and E: "secp_laws E" and w: "quiet w" "free_dir w eth_dir"
    and p: "h = eth_pk_to_hex X E pk"
  shows "\<exists>w'. save_eth_key X E sk pk w = (Ok pk, w') \<and> quiet w' \<and> \<not> is_dir w' (eth_file h) \<and>
    lookup w' = (lookup w)(eth_file h \<mapsto> hex_encode X (esk_serialize E sk)) \<and>
    (\<forall>p. is_dir w' p \<longleftrightarrow> is_dir w p \<or> p \<in> set (prefixes_of eth_dir))"
proof -
  have "length (epk_serialize_compressed E pk) = 33" using E by simp
  then have "epk_serialize_compressed E pk \<noteq> []" by (metis list.size(3) zero_neq_numeral)
  then have pl: "plain h" and st: "strip_0x_prefix h = h"
    using X p by (simp_all add: plain_hex_encode)
  have f: "eth_file h = eth_dir @ [h]"
    using pl st by (simp add: eth_file_def)
  show ?thesis
    using write_key_quiet[OF w, of h "hex_encode X (esk_serialize E sk)"] f pl st X p
    by (auto simp: save_eth_key_def ebind_def in_context_def write_eth_key_def path_collect_keys ret_def)
qed

text \<open>Signing with a saved BLS key needs its exact name, without the prefix.\<close>

lemma agg_sign_after_save:
  assumes "save_bls_key X B s w = (Ok (), w')" "hex_laws X" "bls_laws X B" "quiet w'"
    "pk = pk_to_hex B (pks_public_key B (sks_public_keys B s))"
  shows "bls_agg_sign_from_saved_sk X B pk m w' = (Ok (sk_sign B (sks_secret_key B s) m), w')"
    "bls_agg_sign_from_saved_sk X B (''0x'' @ pk) m w' = (Err (Bail ''Mismatch with input and derived pk''), w')"
proof -
  have f: "fetch_bls_sk X B pk w' = (Ok s, w')"
    by (rule fetch_after_save[OF assms(1-5) refl])
  have st: "strip_0x_prefix pk = pk"
    using assms(2,3,5) by (simp add: pk_to_hex_eq)
  then have "fetch_bls_sk X B (''0x'' @ pk) w' = fetch_bls_sk X B pk w'"
    by (simp add: fetch_bls_sk_def)
  moreover have "''0x'' @ pk \<noteq> pk" by (metis append_self_conv2 list.distinct(1))
  ultimately show "bls_agg_sign_from_saved_sk X B (''0x'' @ pk) m w' =
      (Err (Bail ''Mismatch with input and derived pk''), w')"
    using f assms(5) by (simp add: bls_agg_sign_from_saved_sk_def)
  show "bls_agg_sign_from_saved_sk X B pk m w' = (Ok (sk_sign B (sks_secret_key B s) m), w')"
    using f assms(5) by (simp add: bls_agg_sign_from_saved_sk_def bls_agg_sign_def)
qed

lemma eth_key_gen_quiet:
  assumes X: "hex_laws X" and E: "secp_laws E" and w: "quiet w" "free_dir w eth_dir"
  shows "\<exists>sk pk w'. eth_key_gen X E w = (Ok pk, w') \<and> generate_keypair E (rng w) = (sk, pk) \<and> quiet w' \<and>
    fetch_eth_key X E (eth_pk_to_hex X E pk) w' = (Ok sk, w') \<and>
    lookup w' (eth_file (eth_pk_to_hex X E pk)) = Some (hex_encode X (esk_serialize E sk))"
proof -
  obtain sk pk where g: "generate_keypair E (rng w) = (sk, pk)" by fastforce
  let ?w = "w\<lparr>rng := Suc (rng w)\<rparr>"
  have w2: "quiet ?w" "free_dir ?w eth_dir"
    using w by (auto simp: quiet_def free_dir_def is_dir_def lookup_def)
  obtain w' where w': "save_eth_key X E sk pk ?w = (Ok pk, w')" "quiet w'"
    "lookup w' = (lookup ?w)(eth_file (eth_pk_to_hex X E pk) \<mapsto> hex_encode X (esk_serialize E sk))"
    using save_eth_key_quiet[OF X E w2 refl] by blast
  have "eth_key_gen X E w = (Ok pk, w')"
    using w'(1) g by (simp add: eth_key_gen_def new_eth_key_def ebind_def draw_def ret_def in_context_def)
  moreover have "fetch_eth_key X E (eth_pk_to_hex X E pk) w' = (Ok sk, w')"
    by (rule fetch_after_save_eth[OF w'(1) X E w'(2) refl refl])
  ultimately show ?thesis using g w' by auto
qed

end
