(* ===== verification/Properties_Keys.thy ===== *)
theory Properties_Keys
  imports Properties_Data Signing_Spec Key_Listing Key_Lifecycle
begin

text \<open>
  Properties of signing roots, of the key stores and of the endpoints that list them, each
  with hypotheses applied to the concrete codec and cryptography.
\<close>

section \<open>Signing roots\<close>

text \<open>
  C6: for every message and either spelling of its tag, \<open>to_signing_root\<close> is the root
  of the specification: the object of the message, hashed with a domain made of the
  message's domain type and the fork and chain it is for.
\<close>

theorem signing_root_matches_spec:
  assumes "hash_laws X"
  shows "to_signing_root X m gfv =
    signing_root_spec X (signed_object m) (domain_spec X (kind m) (chain_of gfv m))"
  by (rule to_signing_root_spec[OF assms])

definition demo_fork :: ForkInfo where
  "demo_fork = \<lparr>fi_fork = \<lparr>fork_previous_version = [0, 0, 0, 1], fork_current_version = [0, 0, 0, 2],
     fork_epoch = 10\<rparr>, fi_genesis_validators_root = replicate 32 7\<rparr>"

definition demo_randao :: "Epoch \<Rightarrow> BLSSignMsg" where
  "demo_randao e = randao_reveal \<lparr>rrr_fork_info = demo_fork, rrr_signingRoot = None,
     rrr_randao_reveal = \<lparr>rr_epoch = e\<rparr>\<rparr>"

theorem signing_root_matches_spec_witness:
  "to_signing_root demo_codec (demo_randao 9) None =
    signing_root_spec demo_codec (TU64 9) (domain_spec demo_codec DOMAIN_RANDAO (Fork demo_fork 9))"
  using signing_root_matches_spec[OF demo_hash_laws, of "demo_randao 9" None] by (simp add: demo_randao_def)



section \<open>Key stores\<close>

text \<open>
  The life of a BLS key. In a working file system the key set is saved; from then on
  the saved key signs under the name of its public key, with a signature that verifies, and
  refuses the same name with a \<open>0x\<close> prefix; once deleted it signs nothing and cannot be
  deleted again.
\<close>

theorem bls_key_lifecycle:
  assumes X: "hex_laws X" and B: "bls_laws X B" and w: "quiet w" "free_dir w bls_dir"
    and pk: "pk = pk_to_hex B (pks_public_key B (sks_public_keys B s))"
  shows "\<exists>w' w''. save_bls_key X B s w = (Ok (), w') \<and>
    (\<forall>m. \<exists>g. bls_agg_sign_from_saved_sk X B pk m w' = (Ok g, w') \<and>
       pk_verify B (pks_public_key B (sks_public_keys B s)) g m \<and>
       bls_agg_sign_from_saved_sk X B (''0x'' @ pk) m w' =
         (Err (Bail ''Mismatch with input and derived pk''), w')) \<and>
    delete_bls_key pk w' = (Ok (), w'') \<and>
    (\<forall>m. \<not> is_ok (fst (bls_agg_sign_from_saved_sk X B pk m w''))) \<and>
    \<not> is_ok (fst (delete_bls_key pk w''))"
proof -
  obtain w' where w': "save_bls_key X B s w = (Ok (), w')" "quiet w'"
    "lookup w' = (lookup w)(bls_file pk \<mapsto> hex_encode X (sks_to_bytes B s))"
    using save_bls_key_quiet[OF X B w pk] by blast
  obtain w'' where d: "delete_bls_key pk w' = (Ok (), w'')"
    using delete_key_quiet[OF w'(2), of "bls_file pk"] w'(3)
    by (auto simp: delete_bls_key_def path_collect_keys bls_file_def)
  have st: "strip_0x_prefix pk = pk" using X B pk by (simp add: pk_to_hex_eq)
  have "\<not> is_ok (fst (bls_agg_sign_from_saved_sk X B pk m w''))" for m
  proof
    assume "is_ok (fst (bls_agg_sign_from_saved_sk X B pk m w''))"
    then obtain g v where "bls_agg_sign_from_saved_sk X B pk m w'' = (Ok g, v)"
      by (metis is_ok_def prod.collapse)
    then have "lookup w'' (bls_file pk) \<noteq> None"
      using bls_agg_sign_from_saved_sk_Ok st by fastforce
    with bls_store.del_Ok[OF d] show False by simp
  qed
  moreover have "\<not> is_ok (fst (delete_bls_key pk w''))"
    using bls_store.delete_twice[OF d] by (simp add: is_ok_def)
  ultimately show ?thesis
    using w'(1) d agg_sign_after_save[OF w'(1) X B w'(2) pk] bls_simps(8)[OF B] by blast
qed

lemma empty_world_free_keys [simp]: "free_dir empty_world bls_dir" "free_dir empty_world eth_dir"
  by (simp_all add: free_dir_def empty_world_def is_dir_def lookup_def)

theorem bls_key_lifecycle_witness:
  "\<exists>w' w''. save_bls_key demo_codec demo_blsttc (1, 5) empty_world = (Ok (), w') \<and>
    delete_bls_key (demo_hex_encode (pad 48 [5])) w' = (Ok (), w'')"
proof -
  have pk: "demo_hex_encode (pad 48 [5]) =
      pk_to_hex demo_blsttc (pks_public_key demo_blsttc (sks_public_keys demo_blsttc (1, 5)))"
    by (simp add: demo_blsttc_def)
  show ?thesis
    using bls_key_lifecycle[OF demo_hex_laws demo_bls_laws _ _ pk, of empty_world] by auto
qed

text \<open>
  The life of an enclave's ETH key. In a working file system \<open>eth_key_gen\<close> succeeds
  and returns a public key under whose name the matching secret key is found: it signs
  messages that verify, and opens envelopes sealed to the public key.
\<close>

theorem eth_key_lifecycle:
  assumes X: "hex_laws X" "hash_laws X" and E: "secp_laws E" and w: "quiet w" "free_dir w eth_dir"
  shows "\<exists>pk w' sk. eth_key_gen X E w = (Ok pk, w') \<and>
    fetch_eth_key X E (eth_pk_to_hex X E pk) w' = (Ok sk, w') \<and>
    (\<forall>m. \<exists>g d. sign_message X E m sk = Ok (g, d) \<and> verify_message X E m (esig_serialize E g) pk = Ok True) \<and>
    (\<forall>m v. \<exists>c v'. envelope_encrypt E pk m v = (Ok c, v') \<and>
       envelope_decrypt_from_saved_sk X E (eth_pk_to_hex X E pk) c w' = (Ok m, w'))"
proof -
  obtain sk pk w' where g: "eth_key_gen X E w = (Ok pk, w')" "generate_keypair E (rng w) = (sk, pk)"
    "fetch_eth_key X E (eth_pk_to_hex X E pk) w' = (Ok sk, w')"
    using eth_key_gen_quiet[OF X(1) E w] by blast
  have kp: "key_pair E sk pk" using g(2) by (auto simp: key_pair_def)
  have "\<exists>c v'. envelope_encrypt E pk m v = (Ok c, v') \<and>
      envelope_decrypt_from_saved_sk X E (eth_pk_to_hex X E pk) c w' = (Ok m, w')" for m v
    using envelope_encrypt_total[OF E, of pk m v] kp g(3)
    by (fastforce simp: envelope_decrypt_from_saved_sk_def ebind_def lift_def)
  with g(1,3) verify_signed[OF E X(2) kp] show ?thesis by blast
qed

theorem eth_key_lifecycle_witness:
  "\<exists>pk w' sk. eth_key_gen demo_codec demo_secp empty_world = (Ok pk, w') \<and>
    fetch_eth_key demo_codec demo_secp (eth_pk_to_hex demo_codec demo_secp pk) w' = (Ok sk, w')"
  using eth_key_lifecycle[OF demo_hex_laws demo_hash_laws demo_secp_laws, of empty_world] by auto

lemma char_of_byte: "char_of (unat (of_char c :: u8)) = c"
proof -
  have "unat (of_char c :: u8) = of_char c"
    by (cases c) (simp add: of_char_def)
  then show ?thesis by simp
qed

text \<open>
  A keystore encrypted under a password is recovered by \<open>import_keystore\<close> from the
  password sealed to the enclave's key, with or without the \<open>0x\<close> prefix of its hex form;
  a password that is not UTF-8 is refused before the keystore is touched.
\<close>

theorem import_keystore_opens:
  assumes X: "hex_laws X" and E: "secp_laws E" "key_pair E sk pk"
    and c: "envelope_encrypt E pk (map (\<lambda>c. of_char c) pw) w = (Ok c, w')"
  shows "\<forall>h \<in> {hex_encode X c, ''0x'' @ hex_encode X c}. import_keystore X E K ks h sk =
    (if is_utf8 pw then with_context ''Failed to decrypt keystore'' (decrypt_keystore K ks pw)
     else Err (Context ''non-utf8 password'' (External ''FromUtf8Error'')))"
proof -
  have "ecies_encrypt E (rng w) (epk_serialize E pk) (map (\<lambda>c. of_char c) pw) = Some c"
    using c by (auto simp: envelope_encrypt_def ebind_def draw_def in_context_def lift_def)
  then have d: "envelope_decrypt E sk c = Ok (map (\<lambda>c. of_char c) pw)"
    using ecies_open[OF E] by (simp add: envelope_decrypt_def)
  have p: "map ((\<lambda>b. char_of (unat b)) \<circ> (\<lambda>c. of_char c :: u8)) pw = pw"
    by (rule map_idI) (simp add: char_of_byte)
  show ?thesis
    using d X by (auto simp: import_keystore_def p)
qed

text \<open>A keystore whose text is its password followed by its key.\<close>

definition demo_keystore :: keystore_crate where
  "demo_keystore = \<lparr>
     encrypt_key = (\<lambda>d r sk pw name. case name of
        None \<Rightarrow> lift (Err (External ''no name''))
      | Some n \<Rightarrow> ebind (fs_write (path_push d n) (pw @ map (\<lambda>b. char_of (unat b)) sk)) (\<lambda>_. ret n)),
     decrypt_key = (\<lambda>p pw. ebind (fs_read p) (\<lambda>s. lift
        (if take (length pw) s = pw then Ok (map of_char (drop (length pw) s)) else Err (External ''password'')))),
     decrypt_keystore = (\<lambda>s pw.
        if take (length pw) s = pw then Ok (map of_char (drop (length pw) s)) else Err (External ''password''))\<rparr>"

theorem import_keystore_opens_witness:
  "import_keystore demo_codec demo_secp demo_keystore ''pwkey'' (''0x'' @ hex_encode demo_codec (5 # [112, 119])) 5 =
    Ok [107, 101, 121]"
proof -
  have kp: "key_pair demo_secp 5 5"
    unfolding key_pair_def by (rule exI[of _ 5]) (simp add: demo_secp_def)
  have "envelope_encrypt demo_secp 5 (map (\<lambda>c. of_char c) ''pw'') empty_world =
      (Ok (5 # [112, 119]), empty_world\<lparr>rng := 1\<rparr>)"
    by (simp add: envelope_encrypt_def ebind_def draw_def in_context_def lift_def demo_secp_def pad_def)
  from import_keystore_opens[OF demo_hex_laws demo_secp_laws kp this, of demo_keystore "''pwkey''"]
  show ?thesis
    by (simp add: demo_keystore_def is_utf8_def)
qed

section \<open>Listing\<close>

text \<open>
  Where every file of the key directory is named by the hex form of a key, the listing
  endpoint answers 200 with exactly those keys, each once, under their \<open>0x\<close>-prefixed
  names, and changes nothing.
\<close>

theorem listing_is_exact:
  assumes X: "hex_laws X" and w: "quiet w" "is_dir w bls_dir"
    and n: "\<forall>n \<in> children w bls_dir. \<exists>b. b \<noteq> [] \<and> n = hex_encode X b"
  shows "\<exists>ks. list_bls_keys_handler w = (Response HTTP_OK (JsonBody \<lparr>lk_data = map (\<lambda>k. \<lparr>lk_pubkey = ''0x'' @ k\<rparr>) ks\<rparr>), w) \<and>
    list_bls_keys_for_vc_handler w = (Response HTTP_OK (JsonBody (map (\<lambda>k. ''0x'' @ k) ks)), w) \<and>
    distinct ks \<and> set ks = children w bls_dir"
proof -
  let ?ks = "dir_entries w bls_dir"
  have "\<forall>n \<in> children w bls_dir. is_utf8 n"
    using n is_utf8_hex_encode[OF X] by metis
  then have l: "list_bls_keys w = (Ok ?ks, w)"
    using list_fnames_quiet[of w BLS_KEYS_DIR] w by (simp add: list_bls_keys_def path_of_dirs)
  have k: "ListKeysResponse_new ?ks = Ok \<lparr>lk_data = map (\<lambda>k. \<lparr>lk_pubkey = ''0x'' @ k\<rparr>) ?ks\<rparr>"
    by (rule list_keys_Ok) (use n X in \<open>auto simp: set_dir_entries\<close>)
  have "map (\<lambda>x. let stripped = strip_0x_prefix x in ''0x'' @ stripped) ?ks = map (\<lambda>k. ''0x'' @ k) ?ks"
    using n X by (auto simp: set_dir_entries)
  with l k show ?thesis
    by (intro exI[of _ ?ks]) (simp add: list_bls_keys_handler_def list_bls_keys_for_vc_handler_def
        list_keys_response_def on_ok_def lift_def set_dir_entries distinct_dir_entries)
qed

definition demo_key_world :: world where
  "demo_key_world = empty_world\<lparr>files := [(bls_dir @ [demo_hex_encode [171]], ''00'')], dirs := [bls_dir]\<rparr>"

theorem listing_is_exact_witness:
  "\<exists>ks. list_bls_keys_handler demo_key_world =
      (Response HTTP_OK (JsonBody \<lparr>lk_data = map (\<lambda>k. \<lparr>lk_pubkey = ''0x'' @ k\<rparr>) ks\<rparr>), demo_key_world) \<and>
    list_bls_keys_for_vc_handler demo_key_world =
      (Response HTTP_OK (JsonBody (map (\<lambda>k. ''0x'' @ k) ks)), demo_key_world) \<and>
    distinct ks \<and> set ks = children demo_key_world bls_dir"
proof (rule listing_is_exact[OF demo_hex_laws])
  show "quiet demo_key_world" "is_dir demo_key_world bls_dir"
    by (simp_all add: demo_key_world_def empty_world_def quiet_def is_dir_def)
  have "children demo_key_world bls_dir = {demo_hex_encode [171]}"
    by (auto simp: children_def demo_key_world_def lookup_def bls_dir_def)
  then show "\<forall>n \<in> children demo_key_world bls_dir. \<exists>b. b \<noteq> [] \<and> n = hex_encode demo_codec b"
    by (auto simp: demo_codec_def intro: exI[of _ "[171]"])
qed

text \<open>
  One file with a name shorter than two characters in the key directory, whoever put it
  there, and the listing endpoint never answers with a list: where the directory is read the
  request is dropped by a panic.
\<close>

theorem short_name_drops_listing:
  assumes "n \<in> children w bls_dir" "length n < 2"
  shows "(\<forall>b. fst (list_bls_keys_handler w) \<noteq> Response HTTP_OK b) \<and>
    (is_ok (fst (list_bls_keys w)) \<longrightarrow> (\<exists>p. fst (list_bls_keys_handler w) = Dropped p))"
proof -
  have drop: "\<exists>p. fst (list_bls_keys_handler w) = Dropped p" if l: "list_bls_keys w = (Ok names, w')" for names w'
  proof -
    have "n \<in> set names"
      using list_fnames_Ok[of BLS_KEYS_DIR w names w'] l assms(1)
      by (simp add: list_bls_keys_def path_of_dirs set_dir_entries)
    then obtain p where "ListKeysResponse_new names = Panic p"
      using list_keys_panics assms(2) by blast
    with l show ?thesis
      by (simp add: list_bls_keys_handler_def list_keys_response_def on_ok_def lift_def)
  qed
  obtain r w' where r: "list_bls_keys w = (r, w')" by fastforce
  show ?thesis
  proof (cases r)
    case (Ok names)
    with r drop[of names w'] show ?thesis by auto
  qed (use r in \<open>simp_all add: list_bls_keys_handler_def on_ok_def is_ok_def status_defs\<close>)
qed

theorem short_name_drops_listing_witness:
  "\<exists>p. fst (list_bls_keys_handler (demo_key_world\<lparr>files := [(bls_dir @ [''x''], [])]\<rparr>)) = Dropped p"
proof -
  let ?w = "demo_key_world\<lparr>files := [(bls_dir @ [''x''], [])]\<rparr>"
  have c: "children ?w bls_dir = {''x''}"
    by (auto simp: children_def demo_key_world_def lookup_def bls_dir_def)
  have "list_fnames BLS_KEYS_DIR ?w = (Ok (dir_entries ?w (path_of BLS_KEYS_DIR)), ?w)"
    by (rule list_fnames_quiet)
      (auto simp: path_of_dirs c is_utf8_def, auto simp: demo_key_world_def empty_world_def quiet_def is_dir_def)
  then have "is_ok (fst (list_bls_keys ?w))" by (simp add: list_bls_keys_def)
  then show ?thesis
    using short_name_drops_listing[of "''x''" ?w] c by simp
qed

section \<open>Requests\<close>

text \<open>
  The JSON form of a key generation request, the one request that holds a user's
  choices of guardians, threshold and withdrawal credentials, is read back unchanged.
\<close>

theorem keygen_request_roundtrips:
  assumes "hex_laws X" "json_laws X" "secp_laws E"
    "length (af_withdrawal_credentials p) = 32" "length (af_fork_version p) = 4"
  shows "\<exists>j. se_keygen_request X E p = Ok j \<and>
    rbind (ok_or ''serde_json'' (json_from_slice X (json_to_string X j))) (de_keygen_request X E) = Ok p"
  using keygen_request_roundtrip[OF assms(1,3,4,5)] assms(2) by fastforce

theorem keygen_request_roundtrips_witness:
  "\<exists>j. se_keygen_request demo_codec demo_secp
      \<lparr>af_guardian_pubkeys = [3, 4], af_withdrawal_credentials = replicate 32 1, af_threshold = 1,
       af_fork_version = [1, 2, 3, 4], af_do_remote_attestation = True\<rparr> = Ok j"
  using keygen_request_roundtrips[OF demo_hex_laws demo_json_laws demo_secp_laws,
      of "\<lparr>af_guardian_pubkeys = [3, 4], af_withdrawal_credentials = replicate 32 1, af_threshold = 1,
       af_fork_version = [1, 2, 3, 4], af_do_remote_attestation = True\<rparr>"] by auto

end
