(* ===== verification/Custody.thy ===== *)
theory Custody
  imports Guardian
begin

text \<open>
  From key generation to custody: what a payload made by the validator enclave contains,
  that it passes the checks of every guardian it names, that the evidence a guardian
  reconstructs is the evidence that was signed, and what custody checks mean for a payload
  from anywhere.
\<close>

section \<open>Payloads that describe a key set\<close>

text \<open>
  \<open>describes X B E s wc fv gs p\<close>: payload \<open>p\<close> was made for the key set \<open>s\<close>,
  withdrawal credentials \<open>wc\<close> and fork version \<open>fv\<close>, with share \<open>i\<close>
  encrypted to the \<open>i\<close>-th guardian.
\<close>

definition share_for ::
  "codec \<Rightarrow> ('ps, 'pk, 'psh, 'ss, 'sk, 'ssh, 'sg, 'sgh) blsttc \<Rightarrow> ('esk, 'epk, 'emsg, 'esig) secp \<Rightarrow>
   'ss \<Rightarrow> nat \<Rightarrow> 'epk \<Rightarrow> string \<Rightarrow> bool" where
  "share_for X B E s i pk h \<longleftrightarrow>
     (\<exists>r c. h = hex_encode X c \<and>
        ecies_encrypt E r (epk_serialize E pk) (ssh_to_bytes B (sks_secret_key_share B s i)) = Some c)"

definition describes ::
  "codec \<Rightarrow> ('ps, 'pk, 'psh, 'ss, 'sk, 'ssh, 'sg, 'sgh) blsttc \<Rightarrow> ('esk, 'epk, 'emsg, 'esig) secp \<Rightarrow>
   'ss \<Rightarrow> Bytes32 \<Rightarrow> Version \<Rightarrow> 'epk list \<Rightarrow> BlsKeygenPayload \<Rightarrow> bool" where
  "describes X B E s wc fv gs p \<longleftrightarrow>
     (let pk = pks_public_key B (sks_public_keys B s);
          g = sk_sign B (sks_secret_key B s) (full_deposit_root X B pk wc fv)
      in bls_pub_key_set p = hex_encode X (pks_to_bytes B (sks_public_keys B s)) \<and>
         bls_pub_key p = hex_encode X (pk_to_bytes B pk) \<and>
         kp_signature p = hex_encode X (sig_to_bytes B g) \<and>
         kp_deposit_data_root p =
           hex_encode X (tree_hash_root X (TDepositData (full_deposit_data B pk wc g))) \<and>
         kp_withdrawal_credentials p = hex_encode X wc \<and>
         guardian_eth_pub_keys p = map (\<lambda>k. hex_encode X (epk_serialize E k)) gs \<and>
         length (bls_enc_priv_key_shares p) = length gs \<and>
         (\<forall>i < length gs. share_for X B E s i (gs ! i) (bls_enc_priv_key_shares p ! i)))"

section \<open>The encryption loop\<close>

lemma encrypt_to_recipient_Ok:
  assumes "encrypt_to_recipient X B E k w = (Ok e, w')"
  shows "\<exists>r c. ecies_encrypt E r (epk_serialize E (rk_guardian_public_key k))
      (ssh_to_bytes B (rk_secret_key_share k)) = Some c \<and>
    encrypted_secret_key_share_hex e = hex_encode X c \<and>
    erk_guardian_public_key e = rk_guardian_public_key k"
  using assms by (fastforce simp: encrypt_to_recipient_def envelope_encrypt_def res_simps)

lemma encrypt_shares_Ok:
  assumes "encrypt_shares X B E ks acc w = (Ok es, w')"
  shows "\<exists>new. es = acc @ new \<and> length new = length ks \<and>
    map erk_guardian_public_key new = map fst ks \<and>
    (\<forall>i < length ks. \<exists>r c. encrypted_secret_key_share_hex (new ! i) = hex_encode X c \<and>
       ecies_encrypt E r (epk_serialize E (fst (ks ! i))) (ssh_to_bytes B (fst (snd (ks ! i)))) = Some c)"
  using assms
proof (induction ks arbitrary: acc w)
  case Nil
  then show ?case by simp
next
  case (Cons k ks)
  obtain g sh ps where k: "k = (g, sh, ps)" by (cases k) auto
  obtain e w1 where e: "encrypt_to_recipient X B E
      \<lparr>rk_guardian_public_key = g, rk_secret_key_share = sh, rk_public_key_share = ps\<rparr> w = (Ok e, w1)"
    and rest: "encrypt_shares X B E ks (acc @ [e]) w1 = (Ok es, w')"
    using Cons.prems by (auto simp: k res_simps)
  obtain new where new: "es = (acc @ [e]) @ new" "length new = length ks"
    "map erk_guardian_public_key new = map fst ks"
    "\<forall>i < length ks. \<exists>r c. encrypted_secret_key_share_hex (new ! i) = hex_encode X c \<and>
       ecies_encrypt E r (epk_serialize E (fst (ks ! i))) (ssh_to_bytes B (fst (snd (ks ! i)))) = Some c"
    using Cons.IH[OF rest] by blast
  have "\<exists>r c. encrypted_secret_key_share_hex ((e # new) ! i) = hex_encode X c \<and>
       ecies_encrypt E r (epk_serialize E (fst ((k # ks) ! i))) (ssh_to_bytes B (fst (snd ((k # ks) ! i)))) = Some c"
    if "i < length (k # ks)" for i
    using that new(4) encrypt_to_recipient_Ok[OF e] by (cases i) (auto simp: k)
  with new encrypt_to_recipient_Ok[OF e] show ?case
    by (intro exI[of _ "e # new"]) (auto simp: k)
qed

lemma distribute_nth:
  "i < n \<Longrightarrow> distribute_key_shares B s n ! i =
     (sks_secret_key_share B s i, pks_public_key_share B (sks_public_keys B s) i)"
  "length (distribute_key_shares B s n) = n"
  by (simp_all add: distribute_key_shares_def Let_def)

lemma recipient_shares:
  assumes "encrypt_shares X B E (zip gs (distribute_key_shares B s (length gs))) [] w = (Ok es, w')"
  shows "length es = length gs" "map erk_guardian_public_key es = gs"
    "\<forall>i < length gs. share_for X B E s i (gs ! i) (encrypted_secret_key_share_hex (es ! i))"
  using encrypt_shares_Ok[OF assms]
  by (auto simp: distribute_nth share_for_def)

lemma describesI:
  assumes L: "codec_laws X" "bls_laws X B"
    and es: "encrypt_shares X B E (zip gs (distribute_key_shares B s (length gs))) [] w = (Ok es, w')"
    and g: "sign_full_deposit X B s wc fv = Ok (g, r)"
    and p: "bls_pub_key_set p = hex_encode X (pks_to_bytes B (sks_public_keys B s))"
      "bls_pub_key p = pk_to_hex B (pks_public_key B (sks_public_keys B s))"
      "kp_signature p = hex_encode X g" "kp_deposit_data_root p = hex_encode X r"
      "bls_enc_priv_key_shares p = map encrypted_secret_key_share_hex es"
      "guardian_eth_pub_keys p = map (\<lambda>k. eth_pk_to_hex_uncompressed X E (erk_guardian_public_key k)) es"
      "kp_withdrawal_credentials p = hex_encode X wc"
  shows "describes X B E s wc fv gs p"
proof -
  note C = codec_lawsD[OF L(1)]
  note R = recipient_shares[OF es]
  have "guardian_eth_pub_keys p = map (\<lambda>k. hex_encode X (epk_serialize E k)) gs"
    using p(6) C(1) arg_cong[OF R(2), of "map (\<lambda>k. hex_encode X (epk_serialize E k))"] by (simp add: comp_def)
  with p R C L(2) g show ?thesis
    by (auto simp: describes_def Let_def sign_full_deposit_eq pk_to_hex_eq)
qed

lemma attest_fresh_bls_key_Ok:
  assumes L: "codec_laws X" "bls_laws X B"
    and k: "attest_fresh_bls_key X B E N wc gs t fv ra w = (Ok p, w')"
  shows "\<exists>s w1. new_bls_key B (unat (t - 1)) w = (Ok s, w1) \<and> describes X B E s wc fv gs p \<and> kp_fork_version p = fv"
proof -
  obtain s w1 es w2 g r where s: "new_bls_key B (unat (t - 1)) w = (Ok s, w1)"
    and es: "encrypt_shares X B E (zip gs (distribute_key_shares B s (length gs))) [] w1 = (Ok es, w2)"
    and d: "sign_full_deposit X B s wc fv = Ok (g, r)"
    and p: "bls_pub_key_set p = hex_encode X (pks_to_bytes B (sks_public_keys B s))"
      "bls_pub_key p = pk_to_hex B (pks_public_key B (sks_public_keys B s))"
      "kp_signature p = hex_encode X g" "kp_deposit_data_root p = hex_encode X r"
      "bls_enc_priv_key_shares p = map encrypted_secret_key_share_hex es"
      "guardian_eth_pub_keys p = map (\<lambda>k. eth_pk_to_hex_uncompressed X E (erk_guardian_public_key k)) es"
      "kp_withdrawal_credentials p = hex_encode X wc" "kp_fork_version p = fv"
    using k unfolding attest_fresh_bls_key_def Let_def by (auto simp: res_simps)
  have "describes X B E s wc fv gs p" by (rule describesI[OF L es d p(1-7)])
  with s p(8) show ?thesis by blast
qed

text \<open>The client's variant writes the same description, but for the genesis fork version.\<close>

lemma generate_bls_keystore_Ok:
  assumes L: "codec_laws X" "bls_laws X B"
    and k: "generate_bls_keystore X B E K wc gs t pw fv w = (Ok p, w')"
  shows "\<exists>s w1. new_bls_key B (unat (t - 1)) w = (Ok s, w1) \<and> describes X B E s wc fv gs p \<and>
    kp_fork_version p = GENESIS_FORK_VERSION"
proof -
  obtain s w1 es w2 g r where s: "new_bls_key B (unat (t - 1)) w = (Ok s, w1)"
    and es: "encrypt_shares X B E (zip gs (distribute_key_shares B s (length gs))) [] w1 = (Ok es, w2)"
    and d: "sign_full_deposit X B s wc fv = Ok (g, r)"
    and p: "bls_pub_key_set p = hex_encode X (pks_to_bytes B (sks_public_keys B s))"
      "bls_pub_key p = pk_to_hex B (pks_public_key B (sks_public_keys B s))"
      "kp_signature p = hex_encode X g" "kp_deposit_data_root p = hex_encode X r"
      "bls_enc_priv_key_shares p = map encrypted_secret_key_share_hex es"
      "guardian_eth_pub_keys p = map (\<lambda>k. eth_pk_to_hex_uncompressed X E (erk_guardian_public_key k)) es"
      "kp_withdrawal_credentials p = hex_encode X wc" "kp_fork_version p = GENESIS_FORK_VERSION"
    using k unfolding generate_bls_keystore_def Let_def by (auto simp: res_simps)
  have "describes X B E s wc fv gs p" by (rule describesI[OF L es d p(1-7)])
  with s p(8) show ?thesis by blast
qed

section \<open>The checks of a guardian\<close>

lemma describes_values:
  assumes L: "codec_laws X" "bls_laws X B" and D: "describes X B E s wc fv gs p" and wc: "length wc = 32"
  defines "pk \<equiv> pks_public_key B (sks_public_keys B s)"
  defines "g \<equiv> sk_sign B (sks_secret_key B s) (full_deposit_root X B pk wc fv)"
  shows "kp_public_key_set X B p = Ok (sks_public_keys B s)"
    "withdrawal_credentials_of X p = Ok wc"
    "signature_of X B p = Ok g"
    "deposit_message_root_of X B p = Ok (full_deposit_root X B pk wc (kp_fork_version p))"
    "deposit_data_root_of X B p = Ok (tree_hash_root X (TDepositData (full_deposit_data B pk wc g)))"
    "verify_public_keys_match X B p = Ok True"
proof -
  note C = codec_lawsD[OF L(1)]
  note d = D[unfolded describes_def Let_def]
  show k: "kp_public_key_set X B p = Ok (sks_public_keys B s)"
    using d C(1) L(2) by (simp add: kp_public_key_set_def parse_public_key_set_def Let_def)
  show w: "withdrawal_credentials_of X p = Ok wc"
    using d C(1) wc by (simp add: withdrawal_credentials_of_def WITHDRAWAL_CREDENTIALS_BYTES_def
        copy_from_slice_def Let_def)
  show g: "signature_of X B p = Ok g"
    using d C(1) L(2) by (simp add: signature_of_def copy_from_slice_def BLS_SIG_BYTES_def Let_def g_def pk_def)
  show "deposit_message_root_of X B p = Ok (full_deposit_root X B pk wc (kp_fork_version p))"
    using C(5) L(2) by (simp add: deposit_message_root_of_def k w Let_def full_deposit_root_def
        full_deposit_message_def pk_def)
  show "deposit_data_root_of X B p = Ok (tree_hash_root X (TDepositData (full_deposit_data B pk wc g)))"
    using C(5) L(2) by (simp add: deposit_data_root_of_def k w g Let_def full_deposit_data_def pk_def)
  show "verify_public_keys_match X B p = Ok True"
    using d C(1) L(2) by (simp add: verify_public_keys_match_def k pk_to_hex_eq Let_def)
qed

text \<open>The deposit check of a described payload comes down to the signature check.\<close>

lemma describes_deposit:
  assumes L: "codec_laws X" "bls_laws X B" and D: "describes X B E s wc fv gs p" and wc: "length wc = 32"
  defines "pk \<equiv> pks_public_key B (sks_public_keys B s)"
  shows "verify_deposit_message X B p =
    (if pk_verify B pk (sk_sign B (sks_secret_key B s) (full_deposit_root X B pk wc fv))
          (full_deposit_root X B pk wc (kp_fork_version p))
     then Ok () else Err (Bail ''DepositMessage signature invalid''))"
proof -
  note V = describes_values[OF L D wc]
  have "strip_0x_prefix (kp_deposit_data_root p) =
      hex_encode X (tree_hash_root X (TDepositData (full_deposit_data B pk wc
        (sk_sign B (sks_secret_key B s) (full_deposit_root X B pk wc fv)))))"
    using D codec_lawsD(1)[OF L(1)] by (simp add: describes_def Let_def pk_def)
  then show ?thesis
    by (simp add: verify_deposit_message_def V pk_def Let_def)
qed

subsection \<open>Custody\<close>

lemma decrypt_no_panic: "decrypt_sk_share X B E p i sk \<noteq> Panic m"
  by (auto simp: decrypt_sk_share_def envelope_decrypt_def res_simps with_context_def
      split: if_splits) (auto simp: ok_or_def split: option.splits)

definition share_matches ::
  "codec \<Rightarrow> ('ps, 'pk, 'psh, 'ss, 'sk, 'ssh, 'sg, 'sgh) blsttc \<Rightarrow> ('esk, 'epk, 'emsg, 'esig) secp \<Rightarrow>
   BlsKeygenPayload \<Rightarrow> 'esk \<Rightarrow> 'ps \<Rightarrow> nat \<Rightarrow> 'ssh \<Rightarrow> bool" where
  "share_matches X B E p sk pk_set i sh \<longleftrightarrow> decrypt_sk_share X B E p i sk = Ok sh \<and>
     psh_to_bytes B (pks_public_key_share B pk_set i) = psh_to_bytes B (ssh_public_key_share B sh)"

text \<open>One round of the loop.\<close>

lemma custody_loop_Cons:
  assumes "hex_laws X" "kp_public_key_set X B p = Ok pk_set"
  shows "share_matches X B E p sk pk_set i sh \<Longrightarrow> custody_loop X B E p sk (i # is) = Ok sh"
    "\<nexists>sh. share_matches X B E p sk pk_set i sh \<Longrightarrow>
      custody_loop X B E p sk (i # is) = custody_loop X B E p sk is"
proof -
  show "share_matches X B E p sk pk_set i sh \<Longrightarrow> custody_loop X B E p sk (i # is) = Ok sh"
    using assms by (simp add: share_matches_def)
  show "\<nexists>sh. share_matches X B E p sk pk_set i sh \<Longrightarrow>
      custody_loop X B E p sk (i # is) = custody_loop X B E p sk is"
    using assms decrypt_no_panic[of X B E p i sk]
    by (cases "decrypt_sk_share X B E p i sk") (auto simp: share_matches_def)
qed

text \<open>The loop returns the first share that decrypts and matches.\<close>

lemma custody_loop_Ok:
  assumes "hex_laws X" "kp_public_key_set X B p = Ok pk_set"
  shows "custody_loop X B E p sk [k..<n] = Ok sh \<longleftrightarrow>
    (\<exists>i. k \<le> i \<and> i < n \<and> share_matches X B E p sk pk_set i sh \<and>
       (\<forall>j. k \<le> j \<longrightarrow> j < i \<longrightarrow> (\<nexists>sh'. share_matches X B E p sk pk_set j sh')))"
proof (induction "n - k" arbitrary: k)
  case 0
  then show ?case by auto
next
  case (Suc m)
  then have kn: "[k..<n] = k # [Suc k..<n]" and m: "m = n - Suc k" "k < n"
    by (auto simp: upt_conv_Cons)
  note IH = Suc.hyps(1)[OF m(1)]
  show ?case
  proof (cases "\<exists>sh'. share_matches X B E p sk pk_set k sh'")
    case True
    then obtain sh' where k: "share_matches X B E p sk pk_set k sh'" by blast
    have "custody_loop X B E p sk [k..<n] = Ok sh'"
      unfolding kn by (rule custody_loop_Cons(1)[OF assms k])
    moreover have "sh = sh'" if "k \<le> i" "share_matches X B E p sk pk_set i sh"
        "\<forall>j. k \<le> j \<longrightarrow> j < i \<longrightarrow> (\<nexists>sh'. share_matches X B E p sk pk_set j sh')" for i
    proof -
      have "i = k" using that k by (metis le_neq_implies_less order_refl)
      with k that(2) show ?thesis by (simp add: share_matches_def)
    qed
    moreover have "\<exists>i. k \<le> i \<and> i < n \<and> share_matches X B E p sk pk_set i sh' \<and>
       (\<forall>j. k \<le> j \<longrightarrow> j < i \<longrightarrow> (\<nexists>sh'. share_matches X B E p sk pk_set j sh'))"
      using k m(2) by (intro exI[of _ k]) auto
    ultimately show ?thesis by auto
  next
    case False
    then have "custody_loop X B E p sk [k..<n] = custody_loop X B E p sk [Suc k..<n]"
      unfolding kn by (rule custody_loop_Cons(2)[OF assms])
    with IH False show ?thesis by (metis Suc_le_eq le_neq_implies_less nat_less_le)
  qed
qed

lemma verify_custody_Ok:
  assumes "hex_laws X"
  shows "verify_custody X B E p sk = Ok sh \<longleftrightarrow>
    verify_public_keys_match X B p = Ok True \<and>
    (\<exists>pk_set i. kp_public_key_set X B p = Ok pk_set \<and> i < length (bls_enc_priv_key_shares p) \<and>
       share_matches X B E p sk pk_set i sh \<and>
       (\<forall>j < i. \<nexists>sh'. share_matches X B E p sk pk_set j sh'))"
proof (cases "kp_public_key_set X B p")
  case (Ok pk_set)
  have "verify_custody X B E p sk = Ok sh \<longleftrightarrow> verify_public_keys_match X B p = Ok True \<and>
      custody_loop X B E p sk [0..<length (bls_enc_priv_key_shares p)] = Ok sh"
    by (auto simp: verify_custody_def res_simps split: if_splits)
  then show ?thesis
    unfolding custody_loop_Ok[OF assms Ok] using Ok by simp
next
  case (Err e)
  then show ?thesis by (simp add: verify_custody_def verify_public_keys_match_def)
next
  case (Panic m)
  then show ?thesis by (simp add: verify_custody_def verify_public_keys_match_def)
qed

text \<open>Every guardian of a described payload finds a share of the key set.\<close>

lemma describes_decrypt:
  assumes L: "codec_laws X" "bls_laws X B" "secp_laws E" and D: "describes X B E s wc fv gs p"
    and k: "key_pair E sk (gs ! j)" "j < length gs"
  shows "decrypt_sk_share X B E p j sk = Ok (sks_secret_key_share B s j)"
proof -
  have "share_for X B E s j (gs ! j) (bls_enc_priv_key_shares p ! j)" and len: "length (bls_enc_priv_key_shares p) = length gs"
    using D k(2) by (auto simp: describes_def Let_def)
  then obtain r c where "bls_enc_priv_key_shares p ! j = hex_encode X c"
    "ecies_encrypt E r (epk_serialize E (gs ! j)) (ssh_to_bytes B (sks_secret_key_share B s j)) = Some c"
    by (auto simp: share_for_def)
  with ecies_open[OF L(3) k(1)] len k(2) codec_lawsD(1)[OF L(1)] L(2) show ?thesis
    by (simp add: decrypt_sk_share_def envelope_decrypt_def)
qed

lemma describes_custody:
  assumes L: "codec_laws X" "bls_laws X B" "secp_laws E" "threshold_laws B"
    and D: "describes X B E s wc fv gs p" and wc: "length wc = 32"
    and k: "key_pair E sk (gs ! j)" "j < length gs"
  shows "\<exists>i \<le> j. verify_custody X B E p sk = Ok (sks_secret_key_share B s i)"
proof -
  note V = describes_values[OF L(1,2) D wc]
  let ?M = "share_matches X B E p sk (sks_public_keys B s)"
  have "?M j (sks_secret_key_share B s j)"
    using describes_decrypt[OF L(1-3) D k] bls_simps(9)[OF L(2), of s j]
    by (simp add: share_matches_def)
  then have ex: "\<exists>i. \<exists>sh. ?M i sh" by blast
  define i where "i = (LEAST i. \<exists>sh. ?M i sh)"
  obtain sh where sh: "?M i sh" using LeastI_ex[OF ex] unfolding i_def by blast
  have least: "\<forall>l < i. \<nexists>sh. ?M l sh" using not_less_Least unfolding i_def by blast
  have ij: "i \<le> j"
    using \<open>?M j _\<close> unfolding i_def by (intro Least_le) blast
  have "sh = sks_secret_key_share B s i"
    using sh threshold_lawsD(3)[OF L(4)] bls_simps(9)[OF L(2), of s i] by (simp add: share_matches_def)
  moreover have "i < length (bls_enc_priv_key_shares p)"
    using ij k(2) D by (simp add: describes_def Let_def)
  ultimately show ?thesis
    using verify_custody_Ok[OF codec_lawsD(1)[OF L(1)], of B E p sk sh] V(1,6) sh least ij by blast
qed

section \<open>Evidence\<close>

lemma mapM_eth_pks:
  assumes "hex_laws X" "secp_laws E"
  shows "mapM (eth_pk_from_hex_uncompressed X E) (map (\<lambda>k. hex_encode X (epk_serialize E k)) gs) = Ok gs"
proof -
  have "eth_pk_from_hex_uncompressed X E (hex_encode X (epk_serialize E k)) = Ok k" for k
    using eth_pk_hex_roundtrip(2)[OF assms, of k] assms(1) by simp
  then show ?thesis by (induction gs) simp_all
qed

text \<open>
  The message a guardian reconstructs is the digest of the payload that key generation
  put under the session key.
\<close>

lemma describes_session_message:
  assumes L: "codec_laws X" "hash_laws X" "bls_laws X B" "secp_laws E"
    and D: "describes X B E s wc fv gs p"
    and b: "sign_full_deposit X B s wc fv = Ok (sig, dd_root)"
      "build_validator_remote_attestation_payload X B E (sks_public_keys B s) sig dd_root
         (bls_enc_priv_key_shares p) gs = Ok payload"
  shows "session_message X B E p = Ok (keccak256 X payload)"
proof -
  note C = codec_lawsD[OF L(1)]
  have "sig = sig_to_bytes B (sk_sign B (sks_secret_key B s)
      (full_deposit_root X B (pks_public_key B (sks_public_keys B s)) wc fv))"
    "dd_root = tree_hash_root X (TDepositData (full_deposit_data B (pks_public_key B (sks_public_keys B s)) wc
      (sk_sign B (sks_secret_key B s)
      (full_deposit_root X B (pks_public_key B (sks_public_keys B s)) wc fv))))"
    using b(1) by (auto simp: sign_full_deposit_eq[OF C(5) L(3)] Let_def)
  with D b(2) show ?thesis
    using C L by (simp add: session_message_def describes_def Let_def copy_from_slice_def mapM_eth_pks)
qed

lemma attest_fresh_bls_key_evidence:
  assumes L: "codec_laws X" "hash_laws X" "bls_laws X B" "secp_laws E"
    and k: "attest_fresh_bls_key X B E N wc gs t fv True w = (Ok p, w')"
  shows "\<exists>payload e w1. session_message X B E p = Ok (keccak256 X payload) \<and>
    evidence_new N payload w1 = (Ok e, w') \<and>
    session_id p = ae_session_id e \<and> attestation_signature p = ae_signature e \<and>
    session_public_key p = alloy_to_string N (pi_key (ae_session_public_key e))"
proof -
  obtain s w0 where s: "new_bls_key B (unat (t - 1)) w = (Ok s, w0)" and D: "describes X B E s wc fv gs p"
    using attest_fresh_bls_key_Ok[OF L(1,3) k] by blast
  obtain es wa w1 sig dd payload e where
    es: "encrypt_shares X B E (zip gs (distribute_key_shares B s (length gs))) [] w0 = (Ok es, wa)"
    and dep: "sign_full_deposit X B s wc fv = Ok (sig, dd)"
    and b: "build_validator_remote_attestation_payload X B E (sks_public_keys B s) sig dd
       (map encrypted_secret_key_share_hex es) (map erk_guardian_public_key es) = Ok payload"
    and ev: "evidence_new N payload w1 = (Ok e, w')"
    and p: "bls_enc_priv_key_shares p = map encrypted_secret_key_share_hex es"
      "session_id p = ae_session_id e" "attestation_signature p = ae_signature e"
      "session_public_key p = alloy_to_string N (pi_key (ae_session_public_key e))"
    using k s unfolding attest_fresh_bls_key_def Let_def by (auto simp: res_simps)
  have "map erk_guardian_public_key es = gs" by (rule recipient_shares(2)[OF es])
  with describes_session_message[OF L D dep, of payload] b p ev show ?thesis by auto
qed

section \<open>Taking custody and signing an exit\<close>

lemma custody_received_Ok:
  assumes L: "hex_laws X" "bls_laws X B"
    and c: "verify_and_sign_custody_received X B E N H req w = (Ok resp, w')"
  shows "\<exists>sk sh w1 w2. fetch_eth_key X E (eth_pk_to_hex X E (guardian_enclave_public_key req)) w = (Ok sk, w1) \<and>
    (verify_session req \<longrightarrow> verify_session_evidence X B E N (keygen_payload req) (workload_id req) w1 = (Ok (), w2)) \<and>
    verify_deposit_message X B (keygen_payload req) = Ok () \<and>
    verify_custody X B E (keygen_payload req) sk = Ok sh \<and>
    lookup w' (bls_file (hex_encode X (psh_to_bytes B (ssh_public_key_share B sh)))) =
      Some (hex_encode X (ssh_to_bytes B sh)) \<and>
    approve_custody X B E H (keygen_payload req) sk (vc_validator_index req) = Ok (vc_enclave_signature resp)"
proof -
  obtain sk w1 where f: "fetch_eth_key X E (eth_pk_to_hex X E (guardian_enclave_public_key req)) w = (Ok sk, w1)"
    using c by (auto simp: verify_and_sign_custody_received_def split: prod.splits res.splits)
  obtain w2 sh w3 where
    "verify_session req \<longrightarrow> verify_session_evidence X B E N (keygen_payload req) (workload_id req) w1 = (Ok (), w2)"
    "verify_deposit_message X B (keygen_payload req) = Ok ()"
    "verify_custody X B E (keygen_payload req) sk = Ok sh"
    and w: "write_bls_key (hex_encode X (psh_to_bytes B (ssh_public_key_share B sh)))
       (hex_encode X (ssh_to_bytes B sh)) w2 = (Ok (), w3)"
    and "approve_custody X B E H (keygen_payload req) sk (vc_validator_index req) = Ok (vc_enclave_signature resp)"
    "w' = w3"
    using c f by (auto simp: verify_and_sign_custody_received_def Let_def res_simps split: if_splits)
  moreover have "lookup w3 (bls_file (hex_encode X (psh_to_bytes B (ssh_public_key_share B sh)))) =
      Some (hex_encode X (ssh_to_bytes B sh))"
    using bls_store.wr_Ok[OF w] L(1) by simp
  ultimately show ?thesis using f by blast
qed

text \<open>\<open>holds\<close>: the share of index \<open>i\<close> is in the store of a guardian.\<close>

definition holds ::
  "codec \<Rightarrow> ('ps, 'pk, 'psh, 'ss, 'sk, 'ssh, 'sg, 'sgh) blsttc \<Rightarrow> 'ss \<Rightarrow> nat \<Rightarrow> world \<Rightarrow> bool" where
  "holds X B s i w \<longleftrightarrow> quiet w \<and>
     lookup w (bls_file (hex_encode X (psh_to_bytes B (pks_public_key_share B (sks_public_keys B s) i)))) =
       Some (hex_encode X (ssh_to_bytes B (sks_secret_key_share B s i)))"

definition exit_root :: "codec \<Rightarrow> SignExitRequest \<Rightarrow> Root" where
  "exit_root X req = root_voluntary_exit X \<lparr>ver_fork_info = se_fork_info req, ver_signingRoot = None,
     ver_voluntary_exit = \<lparr>ve_epoch = 0, ve_validator_index = se_validator_index req\<rparr>\<rparr>"

lemma sign_exit_share:
  assumes L: "codec_laws X" "bls_laws X B" "threshold_laws B"
    and h: "holds X B s (unat (se_guardian_index req)) w"
    and r: "se_bls_pub_key_set req = hex_encode X (pks_to_bytes B (sks_public_keys B s))"
  shows "\<exists>g. sign_voluntary_exit_message X B req w =
      (Ok \<lparr>sx_signature = hex_encode X (sig_to_bytes B g), sx_message = hex_encode X (exit_root X req)\<rparr>, w) \<and>
    sgh_from_bytes B (sig_to_bytes B g) =
      Some (ssh_sign B (sks_secret_key_share B s (unat (se_guardian_index req))) (exit_root X req))"
proof -
  note C = codec_lawsD[OF L(1)]
  let ?i = "unat (se_guardian_index req)"
  let ?sh = "sks_secret_key_share B s ?i"
  let ?n = "hex_encode X (psh_to_bytes B (pks_public_key_share B (sks_public_keys B s) ?i))"
  obtain s' where s': "sks_from_bytes B (ssh_to_bytes B ?sh) = Some s'"
    using share_as_set[OF L(2), of ?sh] by blast
  have "read_bls_key X ?n w = (Ok (ssh_to_bytes B ?sh), w)"
    using h C(1) by (intro bls_store.rd_quiet) (auto simp: holds_def)
  then have f: "fetch_bls_sk X B ?n w = (Ok s', w)"
    using C(1) s' by (simp add: fetch_bls_sk_def)
  have k: "exit_public_key_set X B req = Ok (sks_public_keys B s)"
    using r C(1) L(2) by (simp add: exit_public_key_set_def parse_public_key_set_def Let_def)
  show ?thesis
    using f k s' C L(2) threshold_lawsD(2)[OF L(3) s', of "exit_root X req"]
    by (intro exI[of _ "sk_sign B (sks_secret_key B s') (exit_root X req)"])
      (simp add: sign_voluntary_exit_message_def sign_vem_def Let_def exit_root_def)
qed

section \<open>Evidence\<close>

text \<open>The steps behind a check of session evidence that passes.\<close>

lemma verify_session_evidence_Ok:
  assumes N: "services_laws X N" and v: "verify_session_evidence X B E N p wid w = (Ok (), w')"
  shows "\<exists>message sid key g url addr registry. session_id p \<noteq> [] \<and>
    session_message X B E p = Ok message \<and>
    hex_decode X (strip_0x_prefix (session_id p)) = Some sid \<and> length sid = 32 \<and>
    parse_session_public_key X N (session_public_key p) = Ok key \<and>
    hex_decode X (strip_0x_prefix (attestation_signature p)) = Some g \<and>
    map_of (env w) ''SESSION_REGISTRY_RPC_URL'' = Some url \<and>
    map_of (env w) ''SESSION_REGISTRY_ADDRESS'' = Some addr \<and> alloy_address_parse N addr = Some registry \<and>
    verifySessionSignature N url registry sid key message g w = (Ok True, w) \<and>
    (wid = [] \<or> (\<exists>session wb. getSession N url registry sid w = (Ok session, w) \<and>
       hex_decode X (strip_0x_prefix wid) = Some wb \<and> cs_workloadId session = wb)) \<and> w' = w"
proof -
  note F = services_frame[OF N]
  have vs: "verifySessionSignature N u a i k m g w = (r, w1) \<longleftrightarrow>
      fst (verifySessionSignature N u a i k m g w) = r \<and> w1 = w" for u a i k m g r w w1
    using F(2)[of u a i k m g w] by (metis fst_conv prod.collapse snd_conv)
  have gs: "getSession N u a i w = (r, w1) \<longleftrightarrow> fst (getSession N u a i w) = r \<and> w1 = w" for u a i r w w1
    using F(3)[of u a i w] by (metis fst_conv prod.collapse snd_conv)
  show ?thesis
    using v by (auto simp: verify_session_evidence_def verify_session_signature_def get_session_def
        check_workload_def env_var_def res_simps Let_def vs gs split: if_splits option.splits)
qed

text \<open>
  The agent and the registry work together: what the agent signs has a session id of 32
  bytes and a secp256k1 key (type 3), and the registry, reached at \<open>url\<close>, accepts the
  signature for the Keccak digest of the data.
\<close>

definition registry_laws :: "codec \<Rightarrow> services \<Rightarrow> string \<Rightarrow> bytes \<Rightarrow> bool" where
  "registry_laws X N url registry \<longleftrightarrow> rpc_url_valid N url \<and>
     (\<forall>path d v r v' w. cvm_sign_message N path d v = (Ok r, v') \<longrightarrow>
        length (smres_session_id r) = 32 \<and> pi_type_id (smres_session_key_public r) = 3 \<and>
        verifySessionSignature N url registry (smres_session_id r) (smres_session_key_public r)
          (keccak256 X d) (smres_signature r) w = (Ok True, w)) \<and>
     (\<forall>b. identity_from_str N (''0x'' @ hex_encode X b) = None)"

lemma evidence_accepted:
  assumes L: "codec_laws X" "services_laws X N" "registry_laws X N url registry"
    and e: "evidence_new N d v = (Ok e, v')" "unwrap_or [] (fst (env_var ''CVM_AGENT_STUB'' v)) \<noteq> ''true''"
    and p: "session_message X B E p = Ok (keccak256 X d)" "session_id p = ae_session_id e"
      "attestation_signature p = ae_signature e"
      "session_public_key p = alloy_to_string N (pi_key (ae_session_public_key e))"
    and w: "map_of (env w) ''SESSION_REGISTRY_RPC_URL'' = Some url"
      "map_of (env w) ''SESSION_REGISTRY_ADDRESS'' = Some addr" "alloy_address_parse N addr = Some registry"
  shows "verify_session_evidence X B E N p [] w = (Ok (), w)"
proof -
  note hex = codec_lawsD(1)[OF L(1)]
  obtain r path where r: "cvm_sign_message N path d v = (Ok r, v')"
    "ae_session_id e = alloy_to_string N (smres_session_id r)" "ae_signature e = alloy_to_string N (smres_signature r)"
    "ae_session_public_key e = smres_session_key_public r"
    using evidence_new_Ok[OF e] by blast
  have R: "rpc_url_valid N url" "length (smres_session_id r) = 32" "pi_type_id (smres_session_key_public r) = 3"
    "verifySessionSignature N url registry (smres_session_id r) (smres_session_key_public r)
       (keccak256 X d) (smres_signature r) w = (Ok True, w)"
    "\<And>b. identity_from_str N (''0x'' @ hex_encode X b) = None"
    using L(3) r(1) unfolding registry_laws_def by blast+
  have key: "parse_session_public_key X N (session_public_key p) = Ok (smres_session_key_public r)"
    using R(3) R(5)[of "pi_key (smres_session_key_public r)"] hex r(4)
    by (simp add: parse_session_public_key_def p(4) alloy_to_string_eq[OF L(2)] Let_def)
  show ?thesis
    using hex p r w R key alloy_to_string_eq[OF L(2)]
    by (simp add: verify_session_evidence_def verify_session_signature_def check_workload_def env_var_def
        ebind_def lift_def in_context_def ret_def)
qed

text \<open>Nothing is written before the custody checks have passed.\<close>

lemma lift_same [simp]: "snd (lift r w) = w"
  by (simp add: lift_def)

lemma verify_session_evidence_frame:
  assumes "services_laws X N"
  shows "snd (verify_session_evidence X B E N p wid w) = w"
proof -
  have v: "snd (verify_session_signature N u a i k m g w) = w" for u a i k m g w
    by (simp add: verify_session_signature_def services_frame[OF assms])
  have s: "snd (get_session N u a i w) = w" for u a i w
    by (simp add: get_session_def services_frame[OF assms])
  have e: "snd (env_var k w) = w" for k w by (simp add: env_var_def split: option.split)
  show ?thesis
    unfolding verify_session_evidence_def check_workload_def Let_def
    by (auto intro!: ebind_keeps[where P = "\<lambda>v. v = w"] simp: v s e)
qed

lemma custody_refused:
  assumes N: "services_laws X N"
    and bad: "verify_deposit_message X B (keygen_payload req) \<noteq> Ok () \<or>
      (\<forall>sk sh. verify_custody X B E (keygen_payload req) sk \<noteq> Ok sh) \<or>
      verify_session req \<and> (\<forall>v v'. verify_session_evidence X B E N (keygen_payload req) (workload_id req) v \<noteq> (Ok (), v'))"
  shows "\<not> is_ok (fst (verify_and_sign_custody_received X B E N H req w)) \<and>
    lookup (snd (verify_and_sign_custody_received X B E N H req w)) = lookup w"
proof -
  let ?p = "keygen_payload req"
  obtain r w1 where f: "fetch_eth_key X E (eth_pk_to_hex X E (guardian_enclave_public_key req)) w = (r, w1)"
    by fastforce
  have l: "lookup w1 = lookup w"
    using fetch_eth_key_lookup[of X E _ w] f by (metis snd_conv)
  obtain q w2 where q: "(if verify_session req then verify_session_evidence X B E N ?p (workload_id req) else ret ()) w1 = (q, w2)"
    by fastforce
  have l2: "w2 = w1"
    using q verify_session_evidence_frame[OF N, of B E ?p "workload_id req" w1] by (auto simp: ret_def split: if_splits)
  show ?thesis
  proof (cases "verify_deposit_message X B ?p")
    case d: (Ok u)
    show ?thesis
    proof (cases "\<exists>sk. r = Ok sk \<and> q = Ok ()")
      case True
      then obtain sk where sk: "r = Ok sk" "q = Ok ()" by blast
      then have "\<nexists>sh. verify_custody X B E ?p sk = Ok sh" using bad d q by (auto split: if_splits)
      then show ?thesis
        using f sk q d l l2
        by (cases "verify_custody X B E ?p sk")
          (simp_all add: verify_and_sign_custody_received_def ebind_def[of "if _ then _ else _"] ebind_def[of "lift _"] lift_def Let_def)
    next
      case False
      then show ?thesis
        using f q l l2
        by (cases r; cases q)
          (simp_all add: verify_and_sign_custody_received_def ebind_def[of "if _ then _ else _"] Let_def)
    qed
  qed (use f q l l2 in \<open>cases r; cases q;
      simp add: verify_and_sign_custody_received_def ebind_def[of "if _ then _ else _"] ebind_def[of "lift _"] lift_def Let_def\<close>)+
qed

section \<open>A quorum of exits\<close>

text \<open>What is left of a guardian's answer when its signature is parsed as a share.\<close>

definition exit_share ::
  "codec \<Rightarrow> ('ps, 'pk, 'psh, 'ss, 'sk, 'ssh, 'sg, 'sgh) blsttc \<Rightarrow> SignExitResponse \<Rightarrow> 'sgh option" where
  "exit_share X B resp = (case hex_decode X (sx_signature resp) of
       Some b \<Rightarrow> sgh_from_bytes B b
     | None \<Rightarrow> None)"

lemma exit_share_signed:
  assumes L: "codec_laws X" "bls_laws X B" "threshold_laws B"
    and h: "holds X B s (unat (se_guardian_index req)) w"
    and r: "se_bls_pub_key_set req = hex_encode X (pks_to_bytes B (sks_public_keys B s))"
  shows "\<exists>resp. sign_voluntary_exit_message X B req w = (Ok resp, w) \<and>
    sx_message resp = hex_encode X (exit_root X req) \<and>
    exit_share X B resp = Some (ssh_sign B (sks_secret_key_share B s (unat (se_guardian_index req))) (exit_root X req))"
  using sign_exit_share[OF assms] codec_lawsD(1)[OF L(1)] by (auto simp: exit_share_def)

text \<open>Custody of a generated payload leaves the guardian holding its share.\<close>

lemma custody_holds:
  assumes B: "bls_laws X B" and q: "quiet w'"
    and l: "lookup w' (bls_file (hex_encode X (psh_to_bytes B (ssh_public_key_share B (sks_secret_key_share B s i))))) =
      Some (hex_encode X (ssh_to_bytes B (sks_secret_key_share B s i)))"
  shows "holds X B s i w'"
  using assms bls_simps(9)[OF B, of s i] by (simp add: holds_def)

section \<open>A guardian that accepts\<close>

text \<open>
  Documented behaviour of the wallets of \<open>ethers\<close>: every secp256k1 secret key is one,
  and the signer of a signature it makes is recovered as its address.
\<close>

definition ethers_laws :: "codec \<Rightarrow> ('esk, 'epk, 'emsg, 'esig) secp \<Rightarrow> ('wal, 'wsig) ethers \<Rightarrow> bool" where
  "ethers_laws X E H \<longleftrightarrow> (\<forall>sk. \<exists>v. wallet_parse H (hex_encode X (esk_serialize E sk)) = Some v \<and>
     (\<forall>m. \<exists>g. wallet_sign_message H v m = Some g \<and> wsig_recover H g m = Some (wallet_address H v)))"

lemma approve_generated:
  assumes L: "codec_laws X" "bls_laws X B" "ethers_laws X E H"
    and D: "describes X B E s wc fv gs p" "length wc = 32"
  shows "\<exists>a. approve_custody X B E H p sk vi = Ok a"
proof -
  note V = describes_values[OF L(1,2) D]
  obtain v where "wallet_parse H (hex_encode X (esk_serialize E sk)) = Some v"
    "\<forall>m. \<exists>g. wallet_sign_message H v m = Some g \<and> wsig_recover H g m = Some (wallet_address H v)"
    using L(3) unfolding ethers_laws_def by blast
  then obtain G where "\<And>m. wallet_sign_message H v m = Some (G m)"
    "\<And>m. wsig_recover H (G m) m = Some (wallet_address H v)"
    by metis
  with \<open>wallet_parse H _ = Some v\<close> show ?thesis
    by (simp add: approve_custody_def V Let_def)
qed

lemma custody_accepted:
  assumes L: "hex_laws X" "bls_laws X B"
    and f: "fetch_eth_key X E (eth_pk_to_hex X E (guardian_enclave_public_key req)) w = (Ok sk, w)"
    and e: "verify_session req \<longrightarrow> verify_session_evidence X B E N (keygen_payload req) (workload_id req) w = (Ok (), w)"
    and d: "verify_deposit_message X B (keygen_payload req) = Ok ()"
    and c: "verify_custody X B E (keygen_payload req) sk = Ok sh"
    and a: "approve_custody X B E H (keygen_payload req) sk (vc_validator_index req) = Ok a"
    and wr: "write_bls_key (hex_encode X (psh_to_bytes B (ssh_public_key_share B sh)))
       (hex_encode X (ssh_to_bytes B sh)) w = (Ok (), w')"
  shows "\<exists>resp. validate_custody_handler X B E N H req w = (Response HTTP_OK (JsonBody resp), w') \<and>
    vc_enclave_signature resp = a"
proof -
  have "(if verify_session req then verify_session_evidence X B E N (keygen_payload req) (workload_id req) else ret ()) w =
      (Ok (), w)"
    using e by (simp add: ret_def)
  then show ?thesis
    using f d c a wr by (simp add: validate_custody_handler_def on_ok_def verify_and_sign_custody_received_def
        ebind_def lift_def ret_def Let_def)
qed

end
