(* ===== verification/Ready_To_Sign.thy ===== *)
theory Ready_To_Sign
  imports Key_Lifecycle Server Signer_Progress Custody
begin

text \<open>
  Key generation and what follows: in a working file system the key that is drawn is in
  service when the handler answers, with an empty database. On the secure signer this holds
  whatever becomes of the attestation at the end; on the validator enclave the payload
  describes the key.
\<close>

lemma free_dir_after_key:
  assumes "free_dir w slash_dir" "lookup w' = (lookup w)(bls_dir @ [n] \<mapsto> s)"
    "\<forall>p. is_dir w' p \<longleftrightarrow> is_dir w p \<or> p \<in> set (prefixes_of bls_dir)"
  shows "free_dir w' slash_dir"
  using assms by (auto simp: free_dir_def bls_dir_def slash_dir_def prefixes_of_def)

lemma register_quiet:
  assumes L: "codec_laws X" "bls_laws X B" and w: "quiet w" "free_dir w bls_dir" "free_dir w slash_dir"
  shows "\<exists>w2 w3 db. save_bls_key X B s w = (Ok (), w2) \<and>
    from_pk_hex X (pk_to_hex B (pks_public_key B (sks_public_keys B s))) = Ok db \<and>
    db = spd_new (pk_to_bytes B (pks_public_key B (sks_public_keys B s))) \<and>
    spd_write X db w2 = (Ok (), w3) \<and> in_service X B s db w3"
proof -
  let ?pk = "pk_to_bytes B (pks_public_key B (sks_public_keys B s))"
  let ?h = "pk_to_hex B (pks_public_key B (sks_public_keys B s))"
  let ?db = "spd_new ?pk"
  note C = codec_lawsD[OF L(1)]
  note V = validator_name_facts[OF C(1) L(2), of s]
  obtain w2 where w2: "save_bls_key X B s w = (Ok (), w2)" "quiet w2"
    "lookup w2 = (lookup w)(bls_dir @ [?h] \<mapsto> hex_encode X (sks_to_bytes B s))"
    "\<forall>p. is_dir w2 p \<longleftrightarrow> is_dir w p \<or> p \<in> set (prefixes_of bls_dir)"
    using save_bls_key_quiet[OF C(1) L(2) w(1,2) refl, of s] by auto
  have len: "length ?pk = 48" by (rule bls_simps(7)[OF L(2)])
  then have wf: "wf_spd ?db" by (auto simp: wf_spd_def spd_new_def)
  have fresh: "from_pk_hex X ?h = Ok ?db"
    using C len by (simp add: from_pk_hex_def pk_to_hex_eq[OF L(2)] Let_def)
  have "free_dir w2 slash_dir" by (rule free_dir_after_key[OF w(3) w2(3,4)])
  then obtain w3 where w3: "spd_write X ?db w2 = (Ok (), w3)" "quiet w3"
    "lookup w3 = (lookup w2)(slash_dir @ [hex_encode X (pubkey ?db)] \<mapsto> spd_text X ?db)" "free_dir w3 slash_dir"
    using spd_write_quiet[OF L(1) wf w2(2)] by auto
  have "in_service X B s ?db w3"
    using w2 w3 wf V(1) spd_parse_text[OF L(1) wf]
    by (auto simp: in_service_def validator_name_def spd_new_def slash_dir_def bls_dir_def)
  with w2(1) fresh w3(1) show ?thesis by blast
qed

text \<open>Draws change the world in no other way.\<close>

lemma draws_only [simp]:
  "quiet (w\<lparr>rng := n\<rparr>) = quiet w" "free_dir (w\<lparr>rng := n\<rparr>) d = free_dir w d"
  by (simp_all add: quiet_def free_dir_def is_dir_def lookup_def)

lemma new_bls_key_draw:
  assumes "sks_random B t (rng w) = Some s" "sks_threshold B s = t"
  shows "new_bls_key B t w = (Ok s, w\<lparr>rng := Suc (rng w)\<rparr>)"
  using assms by (simp add: new_bls_key_def ebind_def draw_def lift_def)

lemma signer_keygen_ready:
  assumes L: "codec_laws X" "bls_laws X B" "services_laws X N"
    and w: "quiet w" "free_dir w bls_dir" "free_dir w slash_dir"
    and k: "sks_random B 0 (rng w) = Some s" "sks_threshold B s = 0"
  shows "in_service X B s (spd_new (pk_to_bytes B (pks_public_key B (sks_public_keys B s))))
    (snd (bls_keygen_handler X B N w))"
proof -
  let ?pk = "pks_public_key B (sks_public_keys B s)"
  let ?w1 = "w\<lparr>rng := Suc (rng w)\<rparr>"
  note n = new_bls_key_draw[OF k]
  obtain w2 w3 where s: "save_bls_key X B s ?w1 = (Ok (), w2)"
    "from_pk_hex X (pk_to_hex B ?pk) = Ok (spd_new (pk_to_bytes B ?pk))"
    "spd_write X (spd_new (pk_to_bytes B ?pk)) w2 = (Ok (), w3)" "in_service X B s (spd_new (pk_to_bytes B ?pk)) w3"
    using register_quiet[OF L(1,2), of ?w1 s] w by auto
  obtain r where e: "evidence_new N (pk_to_bytes B ?pk) w3 = (r, w3)"
    using evidence_new_frame[OF L(3)] by (metis prod.collapse)
  have "\<exists>r'. attest_new_bls_key X B N w = (r', w3)"
    using n s e by (cases r) (simp_all add: attest_new_bls_key_def ebind_def in_context_def lift_def ret_def Let_def)
  then obtain r' where "attest_new_bls_key X B N w = (r', w3)" by blast
  with s(4) show ?thesis
    by (cases r') (auto simp: bls_keygen_handler_def on_ok_def)
qed

text \<open>A validator in service gets its deposits signed, with no change on disk.\<close>

lemma deposit_in_service:
  assumes X: "codec_laws X" and B: "bls_laws X B" and w: "in_service X B s d w"
    and pk: "dm_pubkey (dr_deposit req) = pk_to_bytes B (pks_public_key B (sks_public_keys B s))"
  shows "\<exists>resp. validator_deposit_handler X B req w = (Response HTTP_OK (JsonBody resp), w) \<and>
    dres_signature resp = hex_encode X (sig_to_bytes B (sk_sign B (sks_secret_key B s) (root_deposit X req))) \<and>
    dres_amount resp = dm_amount (dr_deposit req)"
proof -
  let ?n = "validator_name X B s"
  note V = validator_name_facts[OF codec_lawsD(1)[OF X] B, of s]
  have n: "hex_encode X (fv_ssz_bytes X (dm_pubkey (dr_deposit req))) = ?n"
    using V(1) pk X by (simp add: pk_to_hex_eq[OF B] codec_lawsD)
  have path: "bls_file ?n = bls_dir @ [?n]" using V by (simp add: bls_file_def)
  have "bls_key_exists ?n w = (Ok True, w)"
    using w path by (simp add: in_service_def bls_key_exists_def key_exists_def exists_path_def next_fault_quiet
        path_collect_keys bls_file_def)
  moreover have "sanitize_bls_pk_hex ?n = Ok ?n"
    using V by (simp add: sanitize_bls_pk_hex_def BLS_PUB_KEY_BYTES_def)
  moreover obtain resp where "get_deposit_signature X B ?n (dr_deposit req) (dr_genesis_fork_version req) w = (Ok resp, w)"
    "dres_signature resp = hex_encode X (sig_to_bytes B (sk_sign B (sks_secret_key B s) (root_deposit X req)))"
    "dres_amount resp = dm_amount (dr_deposit req)"
    using in_service_sign[OF X B w] codec_lawsD(5)[OF X] B
    by (simp add: get_deposit_signature_def secure_sign_def Let_def ebind_def root_deposit_def)
  ultimately show ?thesis by (simp add: validator_deposit_handler_def n)
qed

section \<open>The validator enclave\<close>

lemma encrypt_shares_total:
  assumes "secp_laws E"
  shows "\<exists>es n. encrypt_shares X B E ks acc w = (Ok es, w\<lparr>rng := n\<rparr>)"
proof (induction ks arbitrary: acc w)
  case Nil
  show ?case by (intro exI[of _ acc] exI[of _ "rng w"]) (simp add: ret_def)
next
  case (Cons k ks)
  obtain g sh ps where k: "k = (g, sh, ps)" by (cases k) auto
  obtain c where c: "ecies_encrypt E (rng w) (epk_serialize E g) (ssh_to_bytes B sh) = Some c"
    using ecies_total[OF assms] by blast
  obtain e where e: "encrypt_to_recipient X B E
      \<lparr>rk_guardian_public_key = g, rk_secret_key_share = sh, rk_public_key_share = ps\<rparr> w =
      (Ok e, w\<lparr>rng := Suc (rng w)\<rparr>)"
    using c by (simp add: encrypt_to_recipient_def envelope_encrypt_def ebind_def draw_def in_context_def lift_def ret_def)
  obtain es n where "encrypt_shares X B E ks (acc @ [e]) (w\<lparr>rng := Suc (rng w)\<rparr>) =
      (Ok es, (w\<lparr>rng := Suc (rng w)\<rparr>)\<lparr>rng := n\<rparr>)"
    using Cons.IH by blast
  with e show ?case by (auto simp: k ebind_def)
qed

lemma payload_total:
  assumes "hex_laws X" "\<forall>h \<in> set hs. \<exists>c. h = hex_encode X c"
  shows "\<exists>p. build_validator_remote_attestation_payload X B E ps g r hs gs = Ok p"
proof -
  let ?f = "\<lambda>(i, sk_share, g_pk). rbind (ok_or ''hex::decode'' (hex_decode X sk_share)) (\<lambda>ct.
      Ok (ct @ psh_to_bytes B (pks_public_key_share B ps i) @ epk_serialize E g_pk))"
  have "\<exists>ys. mapM ?f (enumerate n (zip hs gs)) = Ok ys" for n
    using assms(2)
  proof (induction hs arbitrary: n gs)
    case step: (Cons h hs)
    then obtain c where "h = hex_encode X c" by auto
    with assms(1) have h: "hex_decode X h = Some c" by simp
    show ?case
    proof (cases gs)
      case (Cons g gs')
      obtain ys where "mapM ?f (enumerate (Suc n) (zip hs gs')) = Ok ys"
        using step.IH[of "Suc n" gs'] step.prems by auto
      then show ?thesis by (simp add: Cons h)
    qed simp
  qed simp
  from this[of 0] show ?thesis
    by (auto simp: build_validator_remote_attestation_payload_def Let_def)
qed

lemma validator_keygen_ready:
  assumes L: "codec_laws X" "bls_laws X B" "secp_laws E"
    and w: "quiet w" "free_dir w bls_dir" "free_dir w slash_dir"
    and k: "sks_random B (unat (t - 1)) (rng w) = Some s" "sks_threshold B s = unat (t - 1)"
    and ra: "ra \<longrightarrow> (\<forall>d v. \<exists>e. evidence_new N d v = (Ok e, v))"
  shows "\<exists>p w'. attest_fresh_bls_key X B E N wc gs t fv ra w = (Ok p, w') \<and>
    in_service X B s (spd_new (pk_to_bytes B (pks_public_key B (sks_public_keys B s)))) w' \<and>
    describes X B E s wc fv gs p \<and> kp_fork_version p = fv"
proof -
  let ?pk = "pks_public_key B (sks_public_keys B s)"
  let ?w1 = "w\<lparr>rng := Suc (rng w)\<rparr>"
  note C = codec_lawsD[OF L(1)]
  note n = new_bls_key_draw[OF k]
  obtain es m where es: "encrypt_shares X B E (zip gs (distribute_key_shares B s (length gs))) [] ?w1 =
      (Ok es, ?w1\<lparr>rng := m\<rparr>)"
    using encrypt_shares_total[OF L(3)] by blast
  obtain w2 w3 where s: "save_bls_key X B s (?w1\<lparr>rng := m\<rparr>) = (Ok (), w2)"
    "from_pk_hex X (pk_to_hex B ?pk) = Ok (spd_new (pk_to_bytes B ?pk))"
    "spd_write X (spd_new (pk_to_bytes B ?pk)) w2 = (Ok (), w3)" "in_service X B s (spd_new (pk_to_bytes B ?pk)) w3"
    using register_quiet[OF L(1,2), of "?w1\<lparr>rng := m\<rparr>" s] w by auto
  obtain g r where d: "sign_full_deposit X B s wc fv = Ok (g, r)"
    using sign_full_deposit_eq[OF C(5) L(2)] by (simp add: Let_def)
  have "\<forall>h \<in> set (map encrypted_secret_key_share_hex es). \<exists>c. h = hex_encode X c"
    using recipient_shares(1,3)[OF es] unfolding share_for_def by (fastforce simp: in_set_conv_nth)
  then obtain pl where pl: "build_validator_remote_attestation_payload X B E (sks_public_keys B s) g r
      (map encrypted_secret_key_share_hex es) (map erk_guardian_public_key es) = Ok pl"
    using payload_total[OF C(1), where B = B and E = E] by blast
  obtain e where ev: "ra \<longrightarrow> evidence_new N pl w3 = (Ok e, w3)" using ra by blast
  have "\<exists>p. attest_fresh_bls_key X B E N wc gs t fv ra w = (Ok p, w3)"
    using n es s(1-3) d pl ev
    by (cases ra) (simp_all add: attest_fresh_bls_key_def ebind_def lift_def ret_def Let_def)
  then obtain p where p: "attest_fresh_bls_key X B E N wc gs t fv ra w = (Ok p, w3)" by blast
  with attest_fresh_bls_key_Ok[OF L(1,2) p] n s(4) show ?thesis by auto
qed

text \<open>Generating a key leaves the environment variables alone.\<close>

lemma env_ebind:
  "(\<And>w. env (snd (m w)) = env w) \<Longrightarrow> (\<And>x w. env (snd (f x w)) = env w) \<Longrightarrow> env (snd (ebind m f w)) = env w"
  by (rule ebind_keeps[where P = "\<lambda>w'. env w' = env w"]) simp_all

lemma env_io:
  "env (snd (draw w)) = env w" "env (snd (create_dir_all p w)) = env w" "env (snd (fs_write p s w)) = env w"
  by (auto simp: draw_def create_dir_all_def fs_write_def next_fault_frame split: prod.splits fault.splits)

lemma env_keygen:
  assumes "services_laws X N"
  shows "env (snd (attest_fresh_bls_key X B E N wc gs t fv ra w)) = env w"
proof -
  have enc: "env (snd (encrypt_shares X B E ks acc w)) = env w" for ks acc w
  proof (induction ks arbitrary: acc w)
    case (Cons k ks)
    then show ?case
      by (cases k) (auto simp: encrypt_to_recipient_def envelope_encrypt_def env_io intro!: env_ebind)
  qed simp
  have wr: "env (snd (write_key p s w)) = env w" for p s w
    unfolding write_key_def by (rule env_ebind) (simp_all add: env_io split: option.split)
  have save: "env (snd (save_bls_key X B s w)) = env w" for s w
    by (simp add: save_bls_key_def write_bls_key_def Let_def wr)
  have spd: "env (snd (spd_write X d w)) = env w" for d w
    unfolding spd_write_def Let_def
    by (intro env_ebind) (simp_all add: env_io split: option.split)
  show ?thesis
    unfolding attest_fresh_bls_key_def new_bls_key_def Let_def
    by (auto intro!: env_ebind simp: env_io enc save spd evidence_new_frame[OF assms] split: prod.split)
qed

section \<open>The guardians' enclaves\<close>

lemma holds_exit:
  assumes L: "codec_laws X" "bls_laws X B" "threshold_laws B"
    and h: "holds X B s i w"
    and r: "se_bls_pub_key_set er = hex_encode X (pks_to_bytes B (sks_public_keys B s))" "unat (se_guardian_index er) = i"
  shows "\<exists>resp. sign_exit_handler X B er w = (Response HTTP_OK (JsonBody resp), w) \<and>
    exit_share X B resp = Some (ssh_sign B (sks_secret_key_share B s i) (exit_root X er))"
  using exit_share_signed[OF L _ r(1), of w] h r(2) by (auto simp: sign_exit_handler_def)

lemma custody_of_generated:
  assumes L: "codec_laws X" "bls_laws X B" "secp_laws E" "threshold_laws B" "ethers_laws X E H"
    and D: "describes X B E s wc fv gs p" "length wc = 32" "kp_fork_version p = fv"
    and req: "keygen_payload req = p" "guardian_enclave_public_key req = gs ! j" "j < length gs"
      "verify_session req \<longrightarrow> verify_session_evidence X B E N p (workload_id req) w = (Ok (), w)"
    and w: "quiet w" "free_dir w bls_dir"
    and sk: "fetch_eth_key X E (eth_pk_to_hex X E (gs ! j)) w = (Ok sk, w)" "key_pair E sk (gs ! j)"
  shows "\<exists>i \<le> j. \<exists>resp w'. validate_custody_handler X B E N H req w = (Response HTTP_OK (JsonBody resp), w') \<and>
    holds X B s i w'"
proof -
  note C = codec_lawsD[OF L(1)]
  obtain i where i: "i \<le> j" "verify_custody X B E p sk = Ok (sks_secret_key_share B s i)"
    using describes_custody[OF L(1-4) D(1,2) sk(2) req(3)] by blast
  have d: "verify_deposit_message X B p = Ok ()"
    using describes_deposit[OF L(1,2) D(1,2)] bls_simps(8)[OF L(2)] D(3) by simp
  obtain a where a: "approve_custody X B E H p sk (vc_validator_index req) = Ok a"
    using approve_generated[OF L(1,2,5) D(1,2)] by blast
  let ?sh = "sks_secret_key_share B s i"
  have ne: "psh_to_bytes B (ssh_public_key_share B ?sh) \<noteq> []"
    using bls_simps(11)[OF L(2), of "ssh_public_key_share B ?sh"] by (metis list.size(3) zero_neq_numeral)
  obtain w' where w': "write_bls_key (hex_encode X (psh_to_bytes B (ssh_public_key_share B ?sh)))
      (hex_encode X (ssh_to_bytes B ?sh)) w = (Ok (), w')" "quiet w'"
    "lookup w' = (lookup w)(bls_file (hex_encode X (psh_to_bytes B (ssh_public_key_share B ?sh))) \<mapsto>
       hex_encode X (ssh_to_bytes B ?sh))"
    using write_bls_key_quiet[OF C(1) w ne] by blast
  have "holds X B s i w'" by (rule custody_holds[OF L(2) w'(2)]) (simp add: w'(3))
  moreover have "\<exists>resp. validate_custody_handler X B E N H req w = (Response HTTP_OK (JsonBody resp), w')"
    using custody_accepted[OF C(1) L(2), of E req w sk N _ H a w'] sk(1) req d i(2) a w'(1) by auto
  ultimately show ?thesis using i(1) by blast
qed

text \<open>The exits of the first \<open>n\<close> guardians, each from its own enclave.\<close>

lemma exit_quorum:
  assumes L: "codec_laws X" "bls_laws X B" "threshold_laws B"
    and n: "sks_threshold B s < n"
    and r: "exit_root X er = root"
    and shares: "shares = map (\<lambda>i. ssh_sign B (sks_secret_key_share B s i) root) [0..<n]"
  shows "\<exists>g. aggregate_signature_shares B (sks_public_keys B s) shares = Ok g \<and>
    pk_verify B (pks_public_key B (sks_public_keys B s)) g root"
proof -
  have "map (\<lambda>sh. ssh_sign B (fst sh) root) (distribute_key_shares B s n) = shares"
    by (simp add: shares distribute_key_shares_def comp_def)
  then show ?thesis
    using aggregate_distributed[OF L(3) n, of root] bls_simps(8)[OF L(2)] by auto
qed

end
