(* ===== verification/Concurrency.thy ===== *)
theory Concurrency
  imports Signer_Progress
begin

text \<open>
  Two signing requests at once. The handlers of src/enclave/shared/mod.rs take no lock, and
  the runtime runs requests on several threads, so the file operations of two requests
  interleave. A thread is the signing handler cut at its accesses to the shared files; run
  alone it is the handler.
\<close>

section \<open>A request as a thread\<close>

datatype phase =
    Check
  | Load
  | Store SlashingProtectionData
  | Sign
  | Finished "SignatureResponse response"

definition sign_failed :: "error \<Rightarrow> SignatureResponse response" where
  "sign_failed e = Response INTERNAL_SERVER_ERROR (Failure ''Signing operation failed'' e)"

lemma sign_failed_eq:
  "sign_failed = (\<lambda>e. Response INTERNAL_SERVER_ERROR (Failure ''Signing operation failed'' e))"
  by (simp add: fun_eq_iff sign_failed_def)

text \<open>The outcome of a file access, as the next phase.\<close>

definition next_phase :: "('a \<Rightarrow> phase) \<Rightarrow> 'a res \<Rightarrow> phase" where
  "next_phase k r = (case r of
       Ok x \<Rightarrow> k x
     | Err e \<Rightarrow> Finished (sign_failed e)
     | Panic p \<Rightarrow> Finished (Dropped p))"

fun start_phase :: "string \<Rightarrow> BLSSignMsg \<Rightarrow> phase" where
  "start_phase pk m =
     (if is_upper_deposit m
      then Finished (Response BAD_REQUEST (Message ''Signing deposit message not allowed''))
      else case sanitize_bls_pk_hex pk of
             Ok h \<Rightarrow> Check
           | Err e \<Rightarrow> Finished (Response BAD_REQUEST (Failure ''Bad bls_pk_hex'' e))
           | Panic p \<Rightarrow> Finished (Dropped p))"

fun thread_step ::
  "codec \<Rightarrow> ('ps, 'pk, 'psh, 'ss, 'sk, 'ssh, 'sg, 'sgh) blsttc \<Rightarrow> string \<Rightarrow> AppState \<Rightarrow> BLSSignMsg \<Rightarrow>
   phase \<Rightarrow> world \<Rightarrow> phase \<times> world" where
  "thread_step X B h st m Check w =
     (case is_slashable X h m w of (r, w') \<Rightarrow>
        (next_phase (\<lambda>b. if b
           then Finished (Response PRECONDITION_FAILED
                  (Message ''Signing operation failed due to slashing protection rules''))
           else if can_be_slashed m then Load else Sign) r, w'))"
| "thread_step X B h st m Load w =
     (case spd_read X h w of (r, w') \<Rightarrow>
        (next_phase (\<lambda>db. case signed_entry X m of
             None \<Rightarrow> Finished (sign_failed
               (Bail ''Should not update slash protection db for non blocks/attestations''))
           | Some e \<Rightarrow> (case offer_entry e db of (r, db) \<Rightarrow> next_phase (\<lambda>_. Store db) r)) r, w'))"
| "thread_step X B h st m (Store db) w =
     (case spd_write X db w of (r, w') \<Rightarrow> (next_phase (\<lambda>_. Sign) r, w'))"
| "thread_step X B h st m Sign w =
     (case bls_agg_sign_from_saved_sk X B h (to_signing_root X m (Some (genesis_fork_version st))) w of
        (r, w') \<Rightarrow>
          (next_phase (\<lambda>g. Finished (Response HTTP_OK
             (JsonBody (SignatureResponse_new X (sig_to_bytes B g))))) r, w'))"
| "thread_step X B h st m (Finished r) w = (Finished r, w)"

fun run_thread ::
  "codec \<Rightarrow> ('ps, 'pk, 'psh, 'ss, 'sk, 'ssh, 'sg, 'sgh) blsttc \<Rightarrow> string \<Rightarrow> AppState \<Rightarrow> BLSSignMsg \<Rightarrow>
   nat \<Rightarrow> phase \<times> world \<Rightarrow> phase \<times> world" where
  "run_thread X B h st m 0 s = s"
| "run_thread X B h st m (Suc n) s =
     run_thread X B h st m n (thread_step X B h st m (fst s) (snd s))"

text \<open>Alone, a thread does what the handler does.\<close>

lemma run_finished [simp]: "run_thread X B h st m n (Finished r, w) = (Finished r, w)"
  by (induction n) simp_all

lemma run_thread_numeral:
  "run_thread X B h st m (numeral k) s =
     run_thread X B h st m (pred_numeral k) (thread_step X B h st m (fst s) (snd s))"
  by (simp add: numeral_eq_Suc)

lemma run_store:
  "run_thread X B h st m 2 (Store db, w) =
     (case on_ok (spd_write X db) sign_failed (\<lambda>_.
        on_ok (bls_agg_sign_from_saved_sk X B h (to_signing_root X m (Some (genesis_fork_version st))))
          sign_failed (\<lambda>sig.
        respond (Response HTTP_OK (JsonBody (SignatureResponse_new X (sig_to_bytes B sig)))))) w of
      (r, w') \<Rightarrow> (Finished r, w'))"
  by (auto simp: numeral_2_eq_2 next_phase_def on_ok_def split: prod.splits res.splits)

lemma run_sign:
  "run_thread X B h st m (Suc n) (Sign, w) =
     (case on_ok (bls_agg_sign_from_saved_sk X B h (to_signing_root X m (Some (genesis_fork_version st))))
          sign_failed (\<lambda>sig.
        respond (Response HTTP_OK (JsonBody (SignatureResponse_new X (sig_to_bytes B sig))))) w of
      (r, w') \<Rightarrow> (Finished r, w'))"
  by (auto simp: next_phase_def on_ok_def split: prod.splits res.splits)

lemma run_load:
  assumes e: "signed_entry X m = Some e"
  shows "run_thread X B h st m 3 (Load, w) =
     (case on_ok (update_slash_protection_db X h m) sign_failed (\<lambda>_.
        on_ok (bls_agg_sign_from_saved_sk X B h (to_signing_root X m (Some (genesis_fork_version st))))
          sign_failed (\<lambda>sig.
        respond (Response HTTP_OK (JsonBody (SignatureResponse_new X (sig_to_bytes B sig)))))) w of
      (r, w') \<Rightarrow> (Finished r, w'))"
proof (cases "spd_read X h w")
  case (Pair r w1)
  show ?thesis
  proof (cases r)
    case (Ok d)
    obtain r2 d' where o: "offer_entry e d = (r2, d')" by fastforce
    have "run_thread X B h st m 3 (Load, w) = run_thread X B h st m 2 (next_phase (\<lambda>_. Store d') r2, w1)"
      by (simp add: run_thread_numeral[of X B h st m "num.Bit1 num.One"] Pair Ok e o next_phase_def)
    then show ?thesis
      using Pair Ok e o
      by (cases r2) (auto simp: run_store next_phase_def update_entry store_entry_def on_ok_def ebind_def
          split: prod.splits)
  qed (simp_all add: run_thread_numeral Pair next_phase_def update_entry on_ok_def ebind_def)
qed

lemma thread_alone:
  assumes "h = strip_0x_prefix pk"
  shows "run_thread X B h st m 4 (start_phase pk m, w) =
    (case sign_validator_message X B pk st m w of (r, w') \<Rightarrow> (Finished r, w'))"
proof (cases "\<not> is_upper_deposit m \<and> sanitize_bls_pk_hex pk = Ok h")
  case False
  then show ?thesis
    using sanitize_cases[OF assms]
    by (cases "sanitize_bls_pk_hex pk") (auto simp: sign_validator_message_def on_ok_def)
next
  case True
  then have start: "start_phase pk m = Check" by simp
  obtain r w1 where c: "is_slashable X h m w = (r, w1)" by fastforce
  have run: "run_thread X B h st m 4 (Check, w) = run_thread X B h st m 3
      (next_phase (\<lambda>b. if b
           then Finished (Response PRECONDITION_FAILED
                  (Message ''Signing operation failed due to slashing protection rules''))
           else if can_be_slashed m then Load else Sign) r, w1)"
    by (simp add: run_thread_numeral[of X B h st m "num.Bit0 (num.Bit0 num.One)"] c)
  note s3 = run_sign[of X B h st m "Suc (Suc 0)" w1, folded numeral_3_eq_3]
  show ?thesis
  proof (cases r)
    case (Ok b)
    show ?thesis
    proof (cases "can_be_slashed m")
      case True
      then obtain e where "signed_entry X m = Some e" using can_be_slashed_entry by blast
      with True Ok c \<open>\<not> is_upper_deposit m \<and> _\<close> start show ?thesis
        by (simp add: run run_load next_phase_def sign_validator_message_def on_ok_def[of "lift _"]
            on_ok_def[of "is_slashable X h m"] sign_failed_eq Let_def del: run_thread.simps)
    next
      case False
      with Ok c \<open>\<not> is_upper_deposit m \<and> _\<close> start show ?thesis
        by (simp add: run s3 next_phase_def sign_validator_message_def on_ok_def[of "lift _"]
            on_ok_def[of "is_slashable X h m"] on_ok_def[of "ret ()"] sign_failed_eq Let_def
            del: run_thread.simps)
    qed
  qed (use True c start in \<open>simp_all add: run next_phase_def sign_validator_message_def on_ok_def
         sign_failed_eq\<close>)
qed

section \<open>Two threads\<close>

text \<open>A schedule says at each step which of the two threads runs.\<close>

fun interleave ::
  "codec \<Rightarrow> ('ps, 'pk, 'psh, 'ss, 'sk, 'ssh, 'sg, 'sgh) blsttc \<Rightarrow> string \<Rightarrow> AppState \<Rightarrow> BLSSignMsg \<Rightarrow> BLSSignMsg \<Rightarrow>
   bool list \<Rightarrow> phase \<times> phase \<times> world \<Rightarrow> phase \<times> phase \<times> world" where
  "interleave X B h st m1 m2 [] s = s"
| "interleave X B h st m1 m2 (True # is) (p1, p2, w) =
     (case thread_step X B h st m1 p1 w of (p1, w) \<Rightarrow> interleave X B h st m1 m2 is (p1, p2, w))"
| "interleave X B h st m1 m2 (False # is) (p1, p2, w) =
     (case thread_step X B h st m2 p2 w of (p2, w) \<Rightarrow> interleave X B h st m1 m2 is (p1, p2, w))"

definition signed_reply ::
  "codec \<Rightarrow> ('ps, 'pk, 'psh, 'ss, 'sk, 'ssh, 'sg, 'sgh) blsttc \<Rightarrow> 'ss \<Rightarrow> AppState \<Rightarrow> BLSSignMsg \<Rightarrow>
   SignatureResponse response" where
  "signed_reply X B s st m = Response HTTP_OK (JsonBody (SignatureResponse_new X
     (sig_to_bytes B (sk_sign B (sks_secret_key B s) (to_signing_root X m (Some (genesis_fork_version st)))))))"

text \<open>Requests the record admits one at a time are both signed when they overlap.\<close>

lemma in_service_write:
  assumes X: "codec_laws X" and S: "in_service X B s d w" and d: "wf_spd d'" "pubkey d' = pubkey d"
  shows "\<exists>w'. spd_write X d' w = (Ok (), w') \<and> in_service X B s d' w'"
proof -
  obtain w' where w: "spd_write X d' w = (Ok (), w')" "quiet w'" "free_dir w' slash_dir"
    "lookup w' = (lookup w)(slash_dir @ [hex_encode X (pubkey d')] \<mapsto> spd_text X d')"
    using spd_write_quiet[OF X d(1), of w] S by (auto simp: in_service_def)
  then have "in_service X B s d' w'"
    using S d spd_parse_text[OF X d(1)] by (auto simp: in_service_def slash_dir_def bls_dir_def)
  with w(1) show ?thesis by blast
qed

lemma overlapping_steps:
  assumes X: "codec_laws X" "hash_laws X" and B: "bls_laws X B" and S: "in_service X B s d w"
    and e: "signed_entry X m = Some e" "offer_entry e d = (Ok (), d')"
  shows "thread_step X B (validator_name X B s) st m Check w = (Load, w)"
    "thread_step X B (validator_name X B s) st m Load w = (Store d', w)"
    "thread_step X B (validator_name X B s) st m Sign w = (Finished (signed_reply X B s st m), w)"
    "in_service X B s d0 w0 \<Longrightarrow> pubkey d0 = pubkey d \<Longrightarrow>
      \<exists>w'. thread_step X B (validator_name X B s) st m (Store d') w0 = (Sign, w') \<and> in_service X B s d' w'"
proof -
  note R = in_service_read[OF X(1) B S]
  have "\<not> entry_slashable d e"
    using entry_gate.offer_iff[of e d] e(2) by simp
  moreover have "can_be_slashed m" using can_be_slashed_entry e(1) by blast
  ultimately show "thread_step X B (validator_name X B s) st m Check w = (Load, w)"
    using R e(1) by (simp add: is_slashable_entry next_phase_def)
  show "thread_step X B (validator_name X B s) st m Load w = (Store d', w)"
    using R e by (simp add: next_phase_def)
  show "thread_step X B (validator_name X B s) st m Sign w = (Finished (signed_reply X B s st m), w)"
    using in_service_sign[OF X(1) B S] by (simp add: next_phase_def signed_reply_def)
  assume S0: "in_service X B s d0 w0" and pk: "pubkey d0 = pubkey d"
  have "wf_spd d'"
    using S wf_offer[OF _ e(2) entry_root_ok[OF X(2) e(1)]] by (simp add: in_service_def)
  then obtain w' where "spd_write X d' w0 = (Ok (), w')" "in_service X B s d' w'"
    using in_service_write[OF X(1) S0] offer_entry_pubkey[OF e(2)] pk by auto
  then show "\<exists>w'. thread_step X B (validator_name X B s) st m (Store d') w0 = (Sign, w') \<and> in_service X B s d' w'"
    by (simp add: next_phase_def)
qed

lemma overlapping_both_sign:
  assumes X: "codec_laws X" "hash_laws X" and B: "bls_laws X B" and S: "in_service X B s d w"
    and m1: "signed_entry X m1 = Some e1" "offer_entry e1 d = (Ok (), d1)"
    and m2: "signed_entry X m2 = Some e2" "offer_entry e2 d = (Ok (), d2)"
  shows "\<exists>w'. interleave X B (validator_name X B s) st m1 m2
      [True, False, True, False, True, False, True, False] (Check, Check, w) =
    (Finished (signed_reply X B s st m1), Finished (signed_reply X B s st m2), w')"
proof -
  note A = overlapping_steps[OF X B S m1, where st = st] and C = overlapping_steps[OF X B S m2, where st = st]
  obtain w1 where w1: "thread_step X B (validator_name X B s) st m1 (Store d1) w = (Sign, w1)" "in_service X B s d1 w1"
    using A(4)[OF S] by blast
  obtain w2 where w2: "thread_step X B (validator_name X B s) st m2 (Store d2) w1 = (Sign, w2)" "in_service X B s d2 w2"
    using C(4)[OF w1(2)] offer_entry_pubkey[OF m1(2)] by blast
  have "thread_step X B (validator_name X B s) st m Sign w2 = (Finished (signed_reply X B s st m), w2)" for m
    using in_service_sign[OF X(1) B w2(2)] by (simp add: next_phase_def signed_reply_def)
  with A(1,2) C(1,2) w1 w2 show ?thesis by (simp del: thread_step.simps)
qed

end
