(* ===== verification/Properties_Signer.thy ===== *)
theory Properties_Signer
  imports Properties_Keys Ready_To_Sign Concurrency
begin

text \<open>
  Properties of the signing endpoint and of the enclaves that serve it, from a fresh start
  over any sequence of requests and faults, and of two requests that overlap.
\<close>

section \<open>Concrete requests and states\<close>

definition demo_proposal :: "Slot \<Rightarrow> BLSSignMsg" where
  "demo_proposal s = BLOCK_V2 \<lparr>b2r_fork_info = demo_fork, b2r_signingRoot = None,
     b2r_beacon_block = \<lparr>b2w_version = ''CAPELLA'', b2w_block_header =
       \<lparr>bbh_slot = s, bbh_proposer_index = 3, bbh_parent_root = replicate 32 0,
        bbh_state_root = replicate 32 0, bbh_body_root = replicate 32 0\<rparr>\<rparr>\<rparr>"

definition demo_deposit :: DepositRequest where
  "demo_deposit = \<lparr>dr_signingRoot = None, dr_deposit = \<lparr>dm_pubkey = pad 48 [0],
     dm_withdrawal_credentials = replicate 32 1, dm_amount = 32000000000\<rparr>,
     dr_genesis_fork_version = [0, 0, 0, 0]\<rparr>"

definition demo_state :: AppState where
  "demo_state = \<lparr>genesis_fork_version = [0, 0, 16, 32]\<rparr>"

definition demo_name :: string where
  "demo_name = validator_name demo_codec demo_blsttc (0, 0)"

definition demo_entry :: "Slot \<Rightarrow> SignedBlockSlot" where
  "demo_entry s = block_entry s (to_signing_root demo_codec (demo_proposal s) None)"

definition demo_empty_db :: SlashingProtectionData where
  "demo_empty_db = spd_new (pad 48 [0])"

text \<open>The signer after it has generated its first key.\<close>

definition demo_signer :: world where
  "demo_signer = snd (bls_keygen_handler demo_codec demo_blsttc demo_services empty_world)"

lemma demo_proposal_entry [simp]: "signed_entry demo_codec (demo_proposal s) = Some (Proposal (demo_entry s))"
  by (simp add: demo_proposal_def demo_entry_def)

lemma demo_proposal_simps [simp]:
  "can_be_slashed (demo_proposal s)" "\<not> is_upper_deposit (demo_proposal s)"
  by (simp_all add: demo_proposal_def)

lemma demo_signer_ready: "in_service demo_codec demo_blsttc (0, 0) demo_empty_db demo_signer"
proof -
  have "sks_random demo_blsttc 0 (rng empty_world) = Some (0, 0)" "sks_threshold demo_blsttc (0, 0) = 0"
    by (simp_all add: demo_blsttc_def)
  from signer_keygen_ready[OF demo_codec_laws demo_bls_laws demo_services_laws _ _ _ this] show ?thesis
    by (simp add: demo_signer_def demo_empty_db_def) (simp add: demo_blsttc_def)
qed

lemma demo_offer:
  "0 < s \<Longrightarrow> offer_entry (Proposal (demo_entry s)) demo_empty_db =
     (Ok (), demo_empty_db\<lparr>signed_blocks := [demo_entry s]\<rparr>)"
  by (simp add: demo_entry_def block_entry_def new_block_def ALLOW_GROWABLE_SLASH_PROTECTION_DB_def
      demo_empty_db_def spd_new_def get_latest_signed_block_slot_def)

lemma demo_name_strip: "strip_0x_prefix demo_name = demo_name"
  unfolding demo_name_def by (rule validator_name_facts(2)[OF demo_hex_laws demo_bls_laws])

section \<open>Availability\<close>

text \<open>
  C36: generating a key on the secure signer puts it in service: in a working file system,
  the key that is drawn is on disk when the handler answers, together with an empty slashing
  database of its own, whether or not the attestation agent then fails.
\<close>

theorem generated_key_in_service:
  assumes "codec_laws X" "bls_laws X B" "services_laws X N"
    and "quiet w" "free_dir w bls_dir" "free_dir w slash_dir"
    and "sks_random B 0 (rng w) = Some s" "sks_threshold B s = 0"
  shows "in_service X B s (spd_new (pk_to_bytes B (pks_public_key B (sks_public_keys B s))))
    (snd (bls_keygen_handler X B N w))"
  by (rule signer_keygen_ready[OF assms])

theorem generated_key_in_service_witness:
  "in_service demo_codec demo_blsttc (0, 0)
    (spd_new (pk_to_bytes demo_blsttc (pks_public_key demo_blsttc (sks_public_keys demo_blsttc (0, 0)))))
    (snd (bls_keygen_handler demo_codec demo_blsttc demo_services empty_world))"
  by (rule generated_key_in_service[OF demo_codec_laws demo_bls_laws demo_services_laws])
    (simp_all add: demo_blsttc_def)



text \<open>
  C18: a request that the record of a validator in service rules out is answered 412, and
  nothing on disk changes.
\<close>

theorem slashable_request_is_refused:
  assumes "codec_laws X" "bls_laws X B" "in_service X B s d w"
    and "signed_entry X m = Some e" "entry_slashable d e"
  shows "sign_validator_message X B (validator_name X B s) st m w =
    (Response PRECONDITION_FAILED (Message ''Signing operation failed due to slashing protection rules''), w)"
  by (rule sign_refuses[OF assms])

theorem slashable_request_is_refused_witness:
  "sign_validator_message demo_codec demo_blsttc demo_name demo_state (demo_proposal 0) demo_signer =
    (Response PRECONDITION_FAILED (Message ''Signing operation failed due to slashing protection rules''), demo_signer)"
  unfolding demo_name_def
  by (rule slashable_request_is_refused[OF demo_codec_laws demo_bls_laws demo_signer_ready demo_proposal_entry])
    (simp_all add: demo_entry_def block_entry_def is_slashable_block_slot_def demo_empty_db_def spd_new_def
      get_latest_signed_block_slot_def)

section \<open>Safety\<close>

text \<open>
  C5: an answer 200, in any world and under any faults, carries the signature of a saved
  key set whose public key is the name that was asked for, on the signing root of the
  request; it verifies under that public key. A slashable request was admissible under the
  database found on disk, and the record of it was written before the key was used.
\<close>

theorem released_signature_is_genuine:
  assumes X: "hex_laws X" and B: "bls_laws X B"
    and s: "sign_validator_message X B pk st m w = (Response HTTP_OK b, w')"
  shows "\<exists>ks w1 d.
    let root = to_signing_root X m (Some (genesis_fork_version st));
        g = sk_sign B (sks_secret_key B ks) root
    in b = JsonBody (SignatureResponse_new X (sig_to_bytes B g)) \<and>
       strip_0x_prefix pk = validator_name X B ks \<and>
       pk_verify B (pks_public_key B (sks_public_keys B ks)) g root \<and>
       spd_read X (strip_0x_prefix pk) w = (Ok d, w1) \<and>
       (case signed_entry X m of None \<Rightarrow> True | Some e \<Rightarrow>
          \<not> entry_slashable d e \<and> (\<exists>w2. update_slash_protection_db X (strip_0x_prefix pk) m w1 = (Ok (), w2) \<and>
            lookup w' = lookup w2))"
proof -
  let ?h = "strip_0x_prefix pk"
  let ?root = "to_signing_root X m (Some (genesis_fork_version st))"
  obtain w1 w2 g where c: "is_slashable X ?h m w = (Ok False, w1)"
    and u: "can_be_slashed m \<and> update_slash_protection_db X ?h m w1 = (Ok (), w2) \<or> \<not> can_be_slashed m \<and> w2 = w1"
    and a: "bls_agg_sign_from_saved_sk X B ?h ?root w2 = (Ok g, w')"
    and b: "b = JsonBody (SignatureResponse_new X (sig_to_bytes B g))"
    using sign_success[OF s] by blast
  obtain ks where k: "?h = pk_to_hex B (pks_public_key B (sks_public_keys B ks))"
    "g = sk_sign B (sks_secret_key B ks) ?root"
    using bls_agg_sign_from_saved_sk_Ok[OF a] by blast
  obtain d where d: "spd_read X ?h w = (Ok d, w1)"
    "\<And>e. signed_entry X m = Some e \<Longrightarrow> \<not> entry_slashable d e"
    using c unfolding is_slashable_entry by (fastforce simp: res_simps)
  have same: "lookup w' = lookup w2"
    using bls_agg_sign_lookup[of X B ?h ?root w2] a by simp
  have upd: "\<exists>w2. update_slash_protection_db X ?h m w1 = (Ok (), w2) \<and> lookup w' = lookup w2" if "signed_entry X m = Some e" for e
    using u same that can_be_slashed_entry by blast
  show ?thesis
    using b k d(1) bls_simps(8)[OF B] validator_name_facts(1)[OF X B] d(2) upd
    by (intro exI[of _ ks] exI[of _ w1] exI[of _ d]) (auto simp: Let_def split: option.split)
qed

theorem released_signature_is_genuine_witness:
  "\<exists>ks b. strip_0x_prefix demo_name = validator_name demo_codec demo_blsttc ks \<and>
     signed_reply demo_codec demo_blsttc (0, 0) demo_state (demo_proposal 5) = Response HTTP_OK b"
proof -
  obtain w' where "sign_validator_message demo_codec demo_blsttc demo_name demo_state (demo_proposal 5) demo_signer =
      (signed_reply demo_codec demo_blsttc (0, 0) demo_state (demo_proposal 5), w')"
    using sign_accepts[OF demo_codec_laws demo_hash_laws demo_bls_laws demo_signer_ready, of "demo_proposal 5"]
      demo_offer[of 5]
    by (force simp: signed_reply_def demo_name_def simp del: offer_entry.simps)
  then show ?thesis
    using released_signature_is_genuine[OF demo_hex_laws demo_bls_laws] unfolding signed_reply_def Let_def by blast
qed

text \<open>
  C1: from a deployment whose slashing directory is empty, whatever requests are served in
  whatever order and whatever file operations fail, tear or are retried, no two signatures
  released for one validator are a slashable offence.
\<close>

theorem never_signs_slashable:
  assumes "codec_laws X" "hash_laws X" "bls_laws X B" "fresh_keys B" "secp_laws E" "services_laws X N"
    and fresh: "\<And>p. slash_area p \<Longrightarrow> lookup w p = None"
    and run: "reachable X B E N st (w, []) (w', log)"
    and ij: "i < length log" "j < length log" "i \<noteq> j" "fst (log ! i) = fst (log ! j)"
  shows "\<not> slashable_offence X (snd (log ! i)) (snd (log ! j))"
proof -
  have "server_inv X B (w, [])"
    using protected_init[of w X B] fresh by (simp add: server_inv_def no_offence_def)
  then have "server_inv X B (w', log)"
    by (rule reachable_inv[OF assms(1-6) run])
  then show ?thesis
    using no_offence_nth ij by (auto simp: server_inv_def)
qed

lemma demo_two_signed:
  "\<exists>w'. reachable demo_codec demo_blsttc demo_secp demo_services demo_state (empty_world, [])
     (w', [(demo_name, demo_proposal 5), (demo_name, demo_proposal 6)])"
proof -
  note L = demo_codec_laws demo_hash_laws demo_bls_laws
  have 1: "reachable demo_codec demo_blsttc demo_secp demo_services demo_state (empty_world, []) (demo_signer, [])"
    unfolding demo_signer_def by (rule reachable.step[OF reachable.start server_step.signer_bls_keygen])
  let ?db = "demo_empty_db\<lparr>signed_blocks := [demo_entry 5]\<rparr>"
  have o1: "offer_entry (Proposal (demo_entry 5)) demo_empty_db = (Ok (), ?db)"
    by (rule demo_offer) simp
  obtain w1 b1 where s1: "sign_validator_message demo_codec demo_blsttc demo_name demo_state (demo_proposal 5) demo_signer =
      (Response HTTP_OK b1, w1)" "in_service demo_codec demo_blsttc (0, 0) ?db w1"
    using sign_accepts[OF L demo_signer_ready, of "demo_proposal 5" ?db demo_state] o1
    unfolding demo_name_def by (force simp del: offer_entry.simps)
  have o2: "offer_entry (Proposal (demo_entry 6)) ?db = (Ok (), ?db\<lparr>signed_blocks := [demo_entry 6]\<rparr>)"
    by (simp add: demo_entry_def block_entry_def new_block_def ALLOW_GROWABLE_SLASH_PROTECTION_DB_def
        demo_empty_db_def spd_new_def get_latest_signed_block_slot_def)
  obtain w2 b2 where s2: "sign_validator_message demo_codec demo_blsttc demo_name demo_state (demo_proposal 6) w1 =
      (Response HTTP_OK b2, w2)"
    using sign_accepts[OF L s1(2), of "demo_proposal 6" _ demo_state] o2
    unfolding demo_name_def by (force simp del: offer_entry.simps)
  have 2: "reachable demo_codec demo_blsttc demo_secp demo_services demo_state (empty_world, [])
      (w1, [] @ [(strip_0x_prefix demo_name, demo_proposal 5)])"
    by (rule reachable.step[OF 1 server_step.released]) (simp add: secure_sign_bls_handler_def s1)
  have "reachable demo_codec demo_blsttc demo_secp demo_services demo_state (empty_world, [])
      (w2, ([] @ [(strip_0x_prefix demo_name, demo_proposal 5)]) @ [(strip_0x_prefix demo_name, demo_proposal 6)])"
    by (rule reachable.step[OF 2 server_step.released]) (simp add: secure_sign_bls_handler_def s2)
  then show ?thesis by (auto simp: demo_name_strip)
qed

theorem never_signs_slashable_witness:
  "\<not> slashable_offence demo_codec (demo_proposal 5) (demo_proposal 6)"
proof -
  obtain w' where "reachable demo_codec demo_blsttc demo_secp demo_services demo_state (empty_world, [])
     (w', [(demo_name, demo_proposal 5), (demo_name, demo_proposal 6)])"
    using demo_two_signed by blast
  from never_signs_slashable[OF demo_codec_laws demo_hash_laws demo_bls_laws demo_fresh_keys demo_secp_laws
      demo_services_laws _ this, of 0 1] show ?thesis by simp
qed

section \<open>Deposits at the signing endpoint\<close>

text \<open>
  The endpoint refuses to sign a deposit tagged \<open>DEPOSIT\<close>, always, and signs the
  same deposit tagged \<open>deposit\<close> for every validator in service: the refusal can be
  sidestepped by spelling.
\<close>

theorem lower_case_deposit_bypasses_refusal:
  assumes "codec_laws X" "hash_laws X" "bls_laws X B" "in_service X B s d w"
  shows "sign_validator_message X B (validator_name X B s) st (DEPOSIT m) w =
      (Response BAD_REQUEST (Message ''Signing deposit message not allowed''), w) \<and>
    (\<exists>w'. sign_validator_message X B (validator_name X B s) st (deposit m) w =
      (signed_reply X B s st (DEPOSIT m), w'))"
  using sign_accepts[OF assms, of "deposit m" d st]
  by (auto simp: sign_validator_message_def[of X B "validator_name X B s" st "DEPOSIT m"] signed_reply_def)

theorem lower_case_deposit_bypasses_refusal_witness:
  "\<exists>w'. sign_validator_message demo_codec demo_blsttc demo_name demo_state (deposit demo_deposit) demo_signer =
     (signed_reply demo_codec demo_blsttc (0, 0) demo_state (DEPOSIT demo_deposit), w')"
  using lower_case_deposit_bypasses_refusal[OF demo_codec_laws demo_hash_laws demo_bls_laws demo_signer_ready,
      of demo_state demo_deposit] unfolding demo_name_def by blast

section \<open>Requests that overlap\<close>


text \<open>
  C20: two requests that the record of a validator admits one at a time are both signed when
  they overlap, also where signing the one rules out the other: the check, the update and
  the write of the database are not one critical section, so the safety of requests in sequence does not
  extend to requests served at the same time.
\<close>

theorem overlapping_requests_both_signed:
  assumes "codec_laws X" "hash_laws X" "bls_laws X B" "in_service X B s d w"
    and "signed_entry X m1 = Some e1" "signed_entry X m2 = Some e2"
    and "offer_entry e1 d = (Ok (), d1)" "offer_entry e2 d = (Ok (), d2)" "conflicting e1 e2"
  shows "slashable_offence X m1 m2 \<and> (\<exists>w' is. interleave X B (validator_name X B s) st m1 m2 is (Check, Check, w) =
    (Finished (signed_reply X B s st m1), Finished (signed_reply X B s st m2), w'))"
proof -
  have "slashable_offence X m1 m2" using assms(5,6,9) by (simp add: slashable_offence_def)
  with overlapping_both_sign[OF assms(1-5,7,6,8), of st] show ?thesis by blast
qed

text \<open>Two different blocks for one slot.\<close>

definition demo_rival :: "Slot \<Rightarrow> BLSSignMsg" where
  "demo_rival s = BLOCK_V2 \<lparr>b2r_fork_info = demo_fork, b2r_signingRoot = None,
     b2r_beacon_block = \<lparr>b2w_version = ''CAPELLA'', b2w_block_header =
       \<lparr>bbh_slot = s, bbh_proposer_index = 3, bbh_parent_root = replicate 32 1,
        bbh_state_root = replicate 32 0, bbh_body_root = replicate 32 0\<rparr>\<rparr>\<rparr>"

theorem overlapping_requests_both_signed_witness:
  "slashable_offence demo_codec (demo_proposal 5) (demo_rival 5) \<and>
    (\<exists>w' is. interleave demo_codec demo_blsttc demo_name demo_state (demo_proposal 5) (demo_rival 5) is
        (Check, Check, demo_signer) =
      (Finished (signed_reply demo_codec demo_blsttc (0, 0) demo_state (demo_proposal 5)),
       Finished (signed_reply demo_codec demo_blsttc (0, 0) demo_state (demo_rival 5)), w'))"
  unfolding demo_name_def
proof (rule overlapping_requests_both_signed[OF demo_codec_laws demo_hash_laws demo_bls_laws demo_signer_ready
      demo_proposal_entry])
  let ?b = "block_entry 5 (to_signing_root demo_codec (demo_rival 5) None)"
  show "signed_entry demo_codec (demo_rival 5) = Some (Proposal ?b)"
    by (simp add: demo_rival_def)
  show "offer_entry (Proposal (demo_entry 5)) demo_empty_db =
      (Ok (), demo_empty_db\<lparr>signed_blocks := [demo_entry 5]\<rparr>)"
    by (rule demo_offer) simp
  show "offer_entry (Proposal ?b) demo_empty_db = (Ok (), demo_empty_db\<lparr>signed_blocks := [?b]\<rparr>)"
    by (simp add: block_entry_def new_block_def ALLOW_GROWABLE_SLASH_PROTECTION_DB_def
        demo_empty_db_def spd_new_def get_latest_signed_block_slot_def)
  show "conflicting (Proposal (demo_entry 5)) (Proposal ?b)"
    by (simp add: demo_entry_def block_entry_def double_proposal_def)
qed

end
