(* ===== verification/Properties_Custody.thy ===== *)
theory Properties_Custody
  imports Properties_Signer
begin

text \<open>
  Properties across components: a validator key made in one enclave, its shares taken into
  custody by the guardians' enclaves, and the exits they sign with them.
\<close>

section \<open>Generating a shared key\<close>

text \<open>
  C31: key generation for guardians. In a working file system it succeeds, as far as the
  attestation agent answers where an attestation is asked for; the key set is in service on the validator with an empty database, and the
  payload describes it: its public key and key set, the deposit of 32 ETH signed by it, and
  for each guardian its own share, sealed to that guardian.
\<close>

theorem shared_key_is_generated:
  assumes "codec_laws X" "bls_laws X B" "secp_laws E"
    and "quiet w" "free_dir w bls_dir" "free_dir w slash_dir"
    and "sks_random B (unat (t - 1)) (rng w) = Some s" "sks_threshold B s = unat (t - 1)"
    and "ra \<longrightarrow> (\<forall>d v. \<exists>e. evidence_new N d v = (Ok e, v))"
  shows "\<exists>p w'. attest_fresh_bls_key X B E N wc gs t fv ra w = (Ok p, w') \<and>
    in_service X B s (spd_new (pk_to_bytes B (pks_public_key B (sks_public_keys B s)))) w' \<and>
    describes X B E s wc fv gs p \<and> kp_fork_version p = fv"
  by (rule validator_keygen_ready[OF assms])

definition demo_credentials :: Bytes32 where
  "demo_credentials = replicate 32 1"

lemma demo_draw: "sks_random demo_blsttc (unat (2 - 1 :: u64)) (rng empty_world) = Some (1, 0)"
  "sks_threshold demo_blsttc (1, 0) = unat (2 - 1 :: u64)"
  by (simp_all add: demo_blsttc_def)

lemma demo_evidence: "\<exists>e. evidence_new demo_services d v = (Ok e, v)"
  by (simp add: evidence_new_def sign_with_session_def demo_services_def ebind_def ret_def Let_def)

theorem shared_key_is_generated_witness:
  "\<exists>p w'. attest_fresh_bls_key demo_codec demo_blsttc demo_secp demo_services demo_credentials [3, 4] 2 [0, 0, 0, 0] True
      empty_world = (Ok p, w') \<and>
    in_service demo_codec demo_blsttc (1, 0)
      (spd_new (pk_to_bytes demo_blsttc (pks_public_key demo_blsttc (sks_public_keys demo_blsttc (1, 0))))) w' \<and>
    describes demo_codec demo_blsttc demo_secp (1, 0) demo_credentials [0, 0, 0, 0] [3, 4] p \<and> kp_fork_version p = [0, 0, 0, 0]"
  by (rule shared_key_is_generated[OF demo_codec_laws demo_bls_laws demo_secp_laws _ _ _ demo_draw]) (simp_all add: demo_evidence)

lemma demo_payload:
  obtains p w' where "attest_fresh_bls_key demo_codec demo_blsttc demo_secp demo_services demo_credentials [3, 4] 2
      [0, 0, 0, 0] True empty_world = (Ok p, w')"
    "describes demo_codec demo_blsttc demo_secp (1, 0) demo_credentials [0, 0, 0, 0] [3, 4] p"
    "kp_fork_version p = [0, 0, 0, 0]"
proof -
  have "free_dir empty_world bls_dir" "free_dir empty_world slash_dir" by simp_all
  from validator_keygen_ready[OF demo_codec_laws demo_bls_laws demo_secp_laws _ this demo_draw] show ?thesis
    using that demo_evidence by (metis empty_world_simps(2))
qed

lemma demo_guardian_key: "key_pair demo_secp k k"
  unfolding key_pair_def by (rule exI[of _ "unat k"]) (simp add: demo_secp_def)

text \<open>
  C9: what key generation returns, under any faults and with or without an attestation, is
  accepted by every guardian it was made for: the deposit message check passes, and the
  custody check finds a share of the key set at or before the guardian's own place.
\<close>

theorem generated_payload_is_accepted:
  assumes L: "codec_laws X" "bls_laws X B" "secp_laws E" "threshold_laws B" and wc: "length wc = 32"
    and k: "attest_fresh_bls_key X B E N wc gs t fv ra w = (Ok p, w')"
  shows "verify_deposit_message X B p = Ok () \<and>
    (\<forall>j sk. j < length gs \<longrightarrow> key_pair E sk (gs ! j) \<longrightarrow>
       (\<exists>s. \<exists>i \<le> j. bls_pub_key p = validator_name X B s \<and> sks_threshold B s = unat (t - 1) \<and>
          verify_custody X B E p sk = Ok (sks_secret_key_share B s i)))"
proof -
  obtain s w1 where s: "new_bls_key B (unat (t - 1)) w = (Ok s, w1)" "describes X B E s wc fv gs p" "kp_fork_version p = fv"
    using attest_fresh_bls_key_Ok[OF L(1,2) k] by blast
  have dep: "verify_deposit_message X B p = Ok ()"
    using describes_deposit[OF L(1,2) s(2) wc] bls_simps(8)[OF L(2)] s(3) by simp
  have name: "bls_pub_key p = validator_name X B s"
    using s(2) by (simp add: describes_def Let_def validator_name_def)
  show ?thesis
    using dep name new_bls_key_Ok(4)[OF s(1)] describes_custody[OF L s(2) wc] by blast
qed

theorem generated_payload_is_accepted_witness:
  "\<exists>p sh. verify_deposit_message demo_codec demo_blsttc p = Ok () \<and>
    verify_custody demo_codec demo_blsttc demo_secp p 4 = Ok sh"
proof -
  obtain p w' where p: "attest_fresh_bls_key demo_codec demo_blsttc demo_secp demo_services demo_credentials [3, 4] 2
      [0, 0, 0, 0] True empty_world = (Ok p, w')" by (rule demo_payload)
  have wc: "length demo_credentials = 32" by (simp add: demo_credentials_def)
  note A = generated_payload_is_accepted[OF demo_codec_laws demo_bls_laws demo_secp_laws demo_threshold_laws wc p]
  have "\<exists>sh. verify_custody demo_codec demo_blsttc demo_secp p 4 = Ok sh"
    using A[THEN conjunct2, rule_format, of 1 4] demo_guardian_key[of 4] by force
  with A show ?thesis by blast
qed

text \<open>
  C12: the custody check, on any payload whatever: a guardian accepts a share exactly when
  the payload's public key is that of its key set, and the share is the first that both
  decrypts under the guardian's key and has the public share of its place in the key set.
\<close>

theorem custody_check_is_exact:
  assumes "hex_laws X"
  shows "verify_custody X B E p sk = Ok sh \<longleftrightarrow>
    verify_public_keys_match X B p = Ok True \<and>
    (\<exists>pk_set i. kp_public_key_set X B p = Ok pk_set \<and> i < length (bls_enc_priv_key_shares p) \<and>
       share_matches X B E p sk pk_set i sh \<and>
       (\<forall>j < i. \<nexists>sh'. share_matches X B E p sk pk_set j sh'))"
  by (rule verify_custody_Ok[OF assms])

theorem custody_check_is_exact_witness:
  "\<exists>p sh pk_set i. kp_public_key_set demo_codec demo_blsttc p = Ok pk_set \<and>
    share_matches demo_codec demo_blsttc demo_secp p 4 pk_set i sh"
proof -
  obtain p w' where p: "describes demo_codec demo_blsttc demo_secp (1, 0) demo_credentials [0, 0, 0, 0] [3, 4] p"
    by (rule demo_payload)
  have wc: "length demo_credentials = 32" by (simp add: demo_credentials_def)
  have "\<exists>sh. verify_custody demo_codec demo_blsttc demo_secp p 4 = Ok sh"
    using describes_custody[OF demo_codec_laws demo_bls_laws demo_secp_laws demo_threshold_laws p wc, of 4 1]
      demo_guardian_key[of 4] by auto
  then show ?thesis
    using custody_check_is_exact[OF demo_hex_laws, of demo_blsttc demo_secp p 4] by blast
qed

text \<open>
  C15: the two ends of the attestation agree: the message a guardian recomputes from a
  payload is the digest of the very data whose signature by the session key the generating
  enclave asked its agent for and put into the payload.
\<close>

theorem evidence_covers_payload:
  assumes "codec_laws X" "hash_laws X" "bls_laws X B" "secp_laws E"
    and "attest_fresh_bls_key X B E N wc gs t fv True w = (Ok p, w')"
  shows "\<exists>payload e w1. session_message X B E p = Ok (keccak256 X payload) \<and>
    evidence_new N payload w1 = (Ok e, w') \<and>
    session_id p = ae_session_id e \<and> attestation_signature p = ae_signature e \<and>
    session_public_key p = alloy_to_string N (pi_key (ae_session_public_key e))"
  by (rule attest_fresh_bls_key_evidence[OF assms])

theorem evidence_covers_payload_witness:
  "\<exists>p payload. session_message demo_codec demo_blsttc demo_secp p = Ok (keccak256 demo_codec payload)"
proof -
  obtain p w' where p: "attest_fresh_bls_key demo_codec demo_blsttc demo_secp demo_services demo_credentials [3, 4] 2
      [0, 0, 0, 0] True empty_world = (Ok p, w')" by (rule demo_payload)
  from evidence_covers_payload[OF demo_codec_laws demo_hash_laws demo_bls_laws demo_secp_laws p] show ?thesis by blast
qed

section \<open>Custody\<close>

text \<open>
  C7: a guardian answers a custody request with 200 only after everything it promises was
  done: the enclave's own key was found, the session evidence was verified where asked for,
  the deposit message and the share passed their checks, the share is on disk under its
  public share, and the approval is signed.
\<close>

theorem custody_answer_is_earned:
  assumes "hex_laws X" "bls_laws X B"
    and c: "validate_custody_handler X B E N H req w = (Response HTTP_OK b, w')"
  shows "\<exists>sk sh resp w1 w2. b = JsonBody resp \<and>
    fetch_eth_key X E (eth_pk_to_hex X E (guardian_enclave_public_key req)) w = (Ok sk, w1) \<and>
    (verify_session req \<longrightarrow> verify_session_evidence X B E N (keygen_payload req) (workload_id req) w1 = (Ok (), w2)) \<and>
    verify_deposit_message X B (keygen_payload req) = Ok () \<and>
    verify_custody X B E (keygen_payload req) sk = Ok sh \<and>
    lookup w' (bls_file (hex_encode X (psh_to_bytes B (ssh_public_key_share B sh)))) =
      Some (hex_encode X (ssh_to_bytes B sh)) \<and>
    approve_custody X B E H (keygen_payload req) sk (vc_validator_index req) = Ok (vc_enclave_signature resp)"
proof -
  obtain resp where "verify_and_sign_custody_received X B E N H req w = (Ok resp, w')" "b = JsonBody resp"
    using c by (auto simp: validate_custody_handler_def on_ok_success status_defs)
  with custody_received_Ok[OF assms(1,2), of E N H req w resp w'] show ?thesis by blast
qed

definition demo_request :: "BlsKeygenPayload \<Rightarrow> u8 ValidateCustodyRequest" where
  "demo_request p = \<lparr>keygen_payload = p, guardian_enclave_public_key = 4, workload_id = [],
     verify_session = False, vc_validator_index = 7\<rparr>"

text \<open>A guardian whose enclave key is the fourth the generator draws.\<close>

definition demo_guardian :: world where
  "demo_guardian = empty_world\<lparr>
     files := [(eth_file (eth_pk_to_hex demo_codec demo_secp 4), hex_encode demo_codec (pad 32 [4]))]\<rparr>"

lemma demo_guardian_world: "quiet demo_guardian" "free_dir demo_guardian bls_dir"
proof -
  have "lookup demo_guardian q = None" if "q \<in> set (prefixes_of bls_dir)" for q
  proof -
    have "plain (eth_pk_to_hex demo_codec demo_secp 4)"
      using plain_hex_encode[OF demo_hex_laws, of "pad 33 [4]"] demo_hex_laws by (simp add: demo_secp_def pad_def)
    then have "eth_file (eth_pk_to_hex demo_codec demo_secp 4) =
        eth_dir @ [eth_pk_to_hex demo_codec demo_secp 4]"
      using demo_hex_laws by (simp add: eth_file_def)
    then show ?thesis
      using that prefixes_of_length[OF that]
      by (auto simp: demo_guardian_def lookup_def eth_dir_def bls_dir_def prefixes_of_def)
  qed
  then show "quiet demo_guardian" "free_dir demo_guardian bls_dir"
    by (simp_all add: free_dir_def demo_guardian_def empty_world_def quiet_def is_dir_def)
qed

lemma demo_guardian_fetch:
  "fetch_eth_key demo_codec demo_secp (eth_pk_to_hex demo_codec demo_secp 4) demo_guardian = (Ok 4, demo_guardian)"
proof -
  have "read_eth_key demo_codec (eth_pk_to_hex demo_codec demo_secp 4) demo_guardian = (Ok (pad 32 [4]), demo_guardian)"
    by (rule eth_store.rd_quiet[OF demo_guardian_world(1) _ hex_decode_encode[OF demo_hex_laws]])
      (simp add: demo_guardian_def lookup_def)
  then show ?thesis
    using demo_hex_laws by (simp add: fetch_eth_key_def) (simp add: eth_sk_from_bytes_def demo_secp_def)
qed

lemma demo_ethers_laws: "ethers_laws demo_codec demo_secp demo_ethers"
  by (simp add: ethers_laws_def demo_ethers_def demo_codec_def demo_hex_roundtrip)

lemma demo_custody:
  obtains p i resp w' where
    "describes demo_codec demo_blsttc demo_secp (1, 0) demo_credentials [0, 0, 0, 0] [3, 4] p"
    "validate_custody_handler demo_codec demo_blsttc demo_secp demo_services demo_ethers (demo_request p) demo_guardian =
      (Response HTTP_OK (JsonBody resp), w')" "holds demo_codec demo_blsttc (1, 0) i w'"
proof -
  obtain p w0 where p: "describes demo_codec demo_blsttc demo_secp (1, 0) demo_credentials [0, 0, 0, 0] [3, 4] p"
    "kp_fork_version p = [0, 0, 0, 0]" by (rule demo_payload)
  have wc: "length demo_credentials = 32" by (simp add: demo_credentials_def)
  obtain i resp w' where "validate_custody_handler demo_codec demo_blsttc demo_secp demo_services demo_ethers
      (demo_request p) demo_guardian = (Response HTTP_OK (JsonBody resp), w')" "holds demo_codec demo_blsttc (1, 0) i w'"
    using custody_of_generated[OF demo_codec_laws demo_bls_laws demo_secp_laws demo_threshold_laws demo_ethers_laws
        p(1) wc p(2), of "demo_request p" 1 demo_services demo_guardian 4]
      demo_guardian_world demo_guardian_fetch demo_guardian_key[of 4] by (auto simp: demo_request_def)
  with p(1) that show thesis by blast
qed

theorem custody_answer_is_earned_witness:
  "\<exists>p w' sh. verify_deposit_message demo_codec demo_blsttc p = Ok () \<and>
    verify_custody demo_codec demo_blsttc demo_secp p 4 = Ok sh \<and>
    lookup w' (bls_file (hex_encode demo_codec (psh_to_bytes demo_blsttc (ssh_public_key_share demo_blsttc sh)))) =
      Some (hex_encode demo_codec (ssh_to_bytes demo_blsttc sh))"
proof -
  obtain p i resp w' where "validate_custody_handler demo_codec demo_blsttc demo_secp demo_services demo_ethers
      (demo_request p) demo_guardian = (Response HTTP_OK (JsonBody resp), w')"
    by (rule demo_custody)
  from custody_answer_is_earned[OF demo_hex_laws demo_bls_laws this] demo_guardian_fetch show ?thesis
    by (force simp: demo_request_def)
qed



text \<open>
  C16: where a guardian checks session evidence and the check passes, the on-chain registry
  answered true for exactly the message recomputed from the payload, under the session and
  the key the payload names; and where a workload is demanded, the registry's session has it.
\<close>

theorem evidence_check_is_sound:
  assumes "services_laws X N" "verify_session_evidence X B E N p wid w = (Ok (), w')"
  shows "\<exists>message sid key g url addr registry. session_id p \<noteq> [] \<and>
    session_message X B E p = Ok message \<and>
    hex_decode X (strip_0x_prefix (session_id p)) = Some sid \<and> length sid = 32 \<and>
    parse_session_public_key X N (session_public_key p) = Ok key \<and>
    hex_decode X (strip_0x_prefix (attestation_signature p)) = Some g \<and>
    map_of (env w) ''SESSION_REGISTRY_RPC_URL'' = Some url \<and>
    map_of (env w) ''SESSION_REGISTRY_ADDRESS'' = Some addr \<and> alloy_address_parse N addr = Some registry \<and>
    verifySessionSignature N url registry sid key message g w = (Ok True, w) \<and>
    (wid = [] \<or> (\<exists>session wb. getSession N url registry sid w = (Ok session, w) \<and>
       hex_decode X (strip_0x_prefix wid) = Some wb \<and> cs_workloadId session = wb)) \<and> w' = w"
  by (rule verify_session_evidence_Ok[OF assms])

definition demo_registry_world :: world where
  "demo_registry_world = demo_guardian\<lparr>env :=
     [(''SESSION_REGISTRY_RPC_URL'', ''http''), (''SESSION_REGISTRY_ADDRESS'', ''00'')]\<rparr>"

lemma demo_registry_laws: "registry_laws demo_codec demo_services ''http'' [0]"
  by (simp add: registry_laws_def demo_services_def ret_def)

lemma demo_registry_env:
  "map_of (env demo_registry_world) ''SESSION_REGISTRY_RPC_URL'' = Some ''http''"
  "map_of (env demo_registry_world) ''SESSION_REGISTRY_ADDRESS'' = Some ''00''"
  "alloy_address_parse demo_services ''00'' = Some [0]"
  by (simp_all add: demo_registry_world_def demo_services_def digit_val_def)

lemma attested_payload_accepted:
  assumes L: "codec_laws X" "hash_laws X" "bls_laws X B" "secp_laws E" "services_laws X N"
      "registry_laws X N url registry"
    and k: "attest_fresh_bls_key X B E N wc gs t fv True v = (Ok p, v')"
      "map_of (env v) ''CVM_AGENT_STUB'' \<noteq> Some ''true''"
    and w: "map_of (env w) ''SESSION_REGISTRY_RPC_URL'' = Some url"
      "map_of (env w) ''SESSION_REGISTRY_ADDRESS'' = Some addr" "alloy_address_parse N addr = Some registry"
  shows "verify_session_evidence X B E N p [] w = (Ok (), w)"
proof -
  obtain d e v1 where e: "session_message X B E p = Ok (keccak256 X d)" "evidence_new N d v1 = (Ok e, v')"
    "session_id p = ae_session_id e" "attestation_signature p = ae_signature e"
    "session_public_key p = alloy_to_string N (pi_key (ae_session_public_key e))"
    using attest_fresh_bls_key_evidence[OF L(1-4) k(1)] by blast
  have "v1 = v'" using evidence_new_frame[OF L(5), of d v1] e(2) by simp
  then have "env v1 = env v" using env_keygen[OF L(5), of B E wc gs t fv True v] k(1) by simp
  then have "unwrap_or [] (fst (env_var ''CVM_AGENT_STUB'' v1)) \<noteq> ''true''"
    using k(2) by (auto simp: env_var_def unwrap_or_def split: option.split)
  from evidence_accepted[OF L(1,5,6) e(2) this e(1,3-5) w] show ?thesis .
qed

theorem evidence_check_is_sound_witness:
  "\<exists>p message g. session_message demo_codec demo_blsttc demo_secp p = Ok message \<and>
    hex_decode demo_codec (strip_0x_prefix (attestation_signature p)) = Some g"
proof -
  obtain p w' where p: "attest_fresh_bls_key demo_codec demo_blsttc demo_secp demo_services demo_credentials [3, 4] 2
      [0, 0, 0, 0] True empty_world = (Ok p, w')" by (rule demo_payload)
  have "verify_session_evidence demo_codec demo_blsttc demo_secp demo_services p [] demo_registry_world = (Ok (), demo_registry_world)"
    by (rule attested_payload_accepted[OF demo_codec_laws demo_hash_laws demo_bls_laws demo_secp_laws demo_services_laws
        demo_registry_laws p _ demo_registry_env]) (simp add: empty_world_def)
  from evidence_check_is_sound[OF demo_services_laws this] show ?thesis by blast
qed

text \<open>
  With an agent whose signatures the registry accepts, the evidence in a payload made
  with remote attestation passes every guardian's check, unless the agent was stubbed out by
  the environment.
\<close>

theorem attested_payload_passes_evidence_check:
  assumes "codec_laws X" "hash_laws X" "bls_laws X B" "secp_laws E" "services_laws X N"
      "registry_laws X N url registry"
    and "attest_fresh_bls_key X B E N wc gs t fv True v = (Ok p, v')"
      "map_of (env v) ''CVM_AGENT_STUB'' \<noteq> Some ''true''"
    and "map_of (env w) ''SESSION_REGISTRY_RPC_URL'' = Some url"
      "map_of (env w) ''SESSION_REGISTRY_ADDRESS'' = Some addr" "alloy_address_parse N addr = Some registry"
  shows "verify_session_evidence X B E N p [] w = (Ok (), w)"
  by (rule attested_payload_accepted[OF assms])

theorem attested_payload_passes_evidence_check_witness:
  "\<exists>p. verify_session_evidence demo_codec demo_blsttc demo_secp demo_services p [] demo_registry_world =
     (Ok (), demo_registry_world)"
proof -
  obtain p w' where p: "attest_fresh_bls_key demo_codec demo_blsttc demo_secp demo_services demo_credentials [3, 4] 2
      [0, 0, 0, 0] True empty_world = (Ok p, w')" by (rule demo_payload)
  have "verify_session_evidence demo_codec demo_blsttc demo_secp demo_services p [] demo_registry_world = (Ok (), demo_registry_world)"
    by (rule attested_payload_passes_evidence_check[OF demo_codec_laws demo_hash_laws demo_bls_laws demo_secp_laws
        demo_services_laws demo_registry_laws p _ demo_registry_env]) (simp add: empty_world_def)
  then show ?thesis by blast
qed

section \<open>Exits\<close>

text \<open>
  From custody to exit. In a working file system a guardian accepts the custody of a
  generated payload, and from then on answers exit requests for the share it took with the
  share's signature on the exit message of the request.
\<close>

theorem custody_enables_exit:
  assumes L: "codec_laws X" "bls_laws X B" "secp_laws E" "threshold_laws B" "ethers_laws X E H"
    and k: "attest_fresh_bls_key X B E N0 wc gs t fv ra v = (Ok p, v')" "length wc = 32"
    and req: "keygen_payload req = p" "guardian_enclave_public_key req = gs ! j" "j < length gs"
      "verify_session req \<longrightarrow> verify_session_evidence X B E N p (workload_id req) w = (Ok (), w)"
    and w: "quiet w" "free_dir w bls_dir"
    and sk: "fetch_eth_key X E (eth_pk_to_hex X E (gs ! j)) w = (Ok sk, w)" "key_pair E sk (gs ! j)"
  shows "\<exists>s w' resp. \<exists>i \<le> j. bls_pub_key p = validator_name X B s \<and>
    validate_custody_handler X B E N H req w = (Response HTTP_OK (JsonBody resp), w') \<and>
    (\<forall>er. se_bls_pub_key_set er = bls_pub_key_set p \<longrightarrow> unat (se_guardian_index er) = i \<longrightarrow>
       (\<exists>er'. sign_exit_handler X B er w' = (Response HTTP_OK (JsonBody er'), w') \<and>
          exit_share X B er' = Some (ssh_sign B (sks_secret_key_share B s i) (exit_root X er))))"
proof -
  obtain s where s: "describes X B E s wc fv gs p" "kp_fork_version p = fv"
    using attest_fresh_bls_key_Ok[OF L(1,2) k(1)] by blast
  have n: "bls_pub_key p = validator_name X B s" "bls_pub_key_set p = hex_encode X (pks_to_bytes B (sks_public_keys B s))"
    using s(1) by (simp_all add: describes_def Let_def validator_name_def)
  obtain i resp w' where i: "i \<le> j" "validate_custody_handler X B E N H req w = (Response HTTP_OK (JsonBody resp), w')"
    "holds X B s i w'"
    using custody_of_generated[OF L s(1) k(2) s(2) req w sk] by blast
  then show ?thesis
    using n holds_exit[OF L(1,2,4) i(3)] by (intro exI[of _ s] exI[of _ w'] exI[of _ resp] exI[of _ i]) auto
qed

theorem custody_enables_exit_witness:
  "\<exists>p w' resp. validate_custody_handler demo_codec demo_blsttc demo_secp demo_services demo_ethers (demo_request p) demo_guardian =
    (Response HTTP_OK (JsonBody resp), w')"
proof -
  obtain p w' where p: "attest_fresh_bls_key demo_codec demo_blsttc demo_secp demo_services demo_credentials [3, 4] 2
      [0, 0, 0, 0] True empty_world = (Ok p, w')" by (rule demo_payload)
  have wc: "length demo_credentials = 32" by (simp add: demo_credentials_def)
  from custody_enables_exit[OF demo_codec_laws demo_bls_laws demo_secp_laws demo_threshold_laws demo_ethers_laws
      p wc, of "demo_request p" 1 demo_services demo_guardian 4]
  show ?thesis
    using demo_guardian_world demo_guardian_fetch demo_guardian_key[of 4] by (auto simp: demo_request_def)
qed


definition demo_holder :: "nat \<Rightarrow> world" where
  "demo_holder i = empty_world\<lparr>files :=
     [(bls_file (hex_encode demo_codec (pad 48 [word_of_nat (Suc i)])), hex_encode demo_codec (pad 32 [word_of_nat (Suc i)]))]\<rparr>"

definition demo_exit :: SignExitRequest where
  "demo_exit = \<lparr>se_bls_pub_key_set = hex_encode demo_codec (set_to_bytes 48 (1, 0)), se_guardian_index = 0,
     se_validator_index = 7, se_fork_info = demo_fork\<rparr>"


section \<open>Edges of key generation\<close>

text \<open>
  The payload of the client's own key generation states the genesis fork version
  whatever version the deposit was signed for, so a guardian accepts its deposit message only
  where the signature for the one version is also one for the other: on a chain whose version
  is not the genesis one, not at all.
\<close>

theorem client_payload_states_wrong_version:
  assumes L: "codec_laws X" "bls_laws X B"
    and k: "generate_bls_keystore_handler X B E K req pw w = (Ok p, w')"
      "length (af_withdrawal_credentials req) = 32"
  shows "\<exists>s. bls_pub_key p = validator_name X B s \<and>
    (let pk = pks_public_key B (sks_public_keys B s);
         g = sk_sign B (sks_secret_key B s)
               (full_deposit_root X B pk (af_withdrawal_credentials req) (af_fork_version req))
     in pk_verify B pk g (full_deposit_root X B pk (af_withdrawal_credentials req) (af_fork_version req)) \<and>
        verify_deposit_message X B p =
          (if pk_verify B pk g (full_deposit_root X B pk (af_withdrawal_credentials req) GENESIS_FORK_VERSION)
           then Ok () else Err (Bail ''DepositMessage signature invalid'')))"
proof -
  obtain s where s: "describes X B E s (af_withdrawal_credentials req) (af_fork_version req) (af_guardian_pubkeys req) p"
    "kp_fork_version p = GENESIS_FORK_VERSION"
    using generate_bls_keystore_Ok[OF L] k(1) unfolding generate_bls_keystore_handler_def by blast
  have "bls_pub_key p = validator_name X B s"
    using s(1) by (simp add: describes_def Let_def validator_name_def)
  with describes_deposit[OF L s(1) k(2)] s(2) bls_simps(8)[OF L(2)] show ?thesis by (auto simp: Let_def)
qed

definition demo_af :: "u8 AttestFreshBlsKeyPayload" where
  "demo_af = \<lparr>af_guardian_pubkeys = [3, 4], af_withdrawal_credentials = demo_credentials, af_threshold = 2,
     af_fork_version = [0, 0, 16, 32], af_do_remote_attestation = False\<rparr>"

lemma demo_save_keystore:
  assumes "quiet w" "free_dir w bls_dir"
  shows "\<exists>u w'. save_bls_keystore demo_keystore demo_blsttc s pw w = (Ok u, w')"
proof -
  let ?h = "demo_hex_encode (pad 48 [snd s])"
  obtain w1 where c: "create_dir_all bls_dir w = (Ok (), w1)" "quiet w1" "writable w1 (bls_dir @ [?h])"
    using create_dir_quiet[OF assms] by blast
  have h: "hex_encode demo_codec (pad 48 [snd s]) = ?h" by (simp add: demo_codec_def)
  have "plain ?h" "strip_0x_prefix ?h = ?h"
    using plain_hex_encode[OF demo_hex_laws, of "pad 48 [snd s]"] strip_hex_encode[OF demo_hex_laws, of "pad 48 [snd s]"]
    by (simp_all add: h) (simp add: pad_def)
  moreover obtain w2 where "fs_write (bls_dir @ [?h]) (pw @ map (\<lambda>b. char_of (unat b)) (pad 32 [snd s]))
      (w1\<lparr>rng := Suc (rng w1)\<rparr>) = (Ok (), w2)"
    using fs_write_quiet[of "w1\<lparr>rng := Suc (rng w1)\<rparr>" "bls_dir @ [?h]"] c(2,3)
    by (simp add: writable_def is_dir_def)
  ultimately show ?thesis
    using c(1) by (auto simp: save_bls_keystore_def write_bls_keystore_def demo_keystore_def demo_blsttc_def
        path_of_dirs ebind_def in_context_def draw_def ret_def Let_def)
qed

theorem client_payload_states_wrong_version_witness:
  "\<exists>p w' s. generate_bls_keystore_handler demo_codec demo_blsttc demo_secp demo_keystore demo_af ''pw'' empty_world = (Ok p, w') \<and>
    bls_pub_key p = validator_name demo_codec demo_blsttc s"
proof -
  let ?w1 = "empty_world\<lparr>rng := Suc (rng empty_world)\<rparr>"
  note n = new_bls_key_draw[OF demo_draw]
  obtain es m where es: "encrypt_shares demo_codec demo_blsttc demo_secp (zip [3, 4]
      (distribute_key_shares demo_blsttc (1, 0) (length [3, 4 :: u8]))) [] ?w1 = (Ok es, ?w1\<lparr>rng := m\<rparr>)"
    using encrypt_shares_total[OF demo_secp_laws] by blast
  obtain u w2 where s: "save_bls_keystore demo_keystore demo_blsttc (1, 0) ''pw'' (?w1\<lparr>rng := m\<rparr>) = (Ok u, w2)"
    using demo_save_keystore[of "?w1\<lparr>rng := m\<rparr>" "(1, 0)" "''pw''"] by auto
  obtain g r where d: "sign_full_deposit demo_codec demo_blsttc (1, 0) demo_credentials [0, 0, 16, 32] = Ok (g, r)"
    using sign_full_deposit_eq[OF demo_ssz_laws demo_bls_laws] by (simp add: Let_def)
  have "\<exists>p. generate_bls_keystore_handler demo_codec demo_blsttc demo_secp demo_keystore demo_af ''pw'' empty_world = (Ok p, w2)"
    using n es s d by (simp add: generate_bls_keystore_handler_def generate_bls_keystore_def demo_af_def
        ebind_def lift_def ret_def Let_def del: empty_world_simps)
  then obtain p where p: "generate_bls_keystore_handler demo_codec demo_blsttc demo_secp demo_keystore demo_af ''pw'' empty_world = (Ok p, w2)"
    by blast
  have wc: "length (af_withdrawal_credentials demo_af) = 32" by (simp add: demo_af_def demo_credentials_def)
  from client_payload_states_wrong_version[OF demo_codec_laws demo_bls_laws p wc] p show ?thesis by blast
qed

text \<open>
  A key generation request with threshold zero is not refused: \<open>threshold - 1\<close> wraps
  to \<open>2 ^ 64 - 1\<close>, for which the crate cannot allocate a polynomial, so the request is
  dropped by a panic, in the enclave and in the client, with no key made.
\<close>

theorem zero_threshold_panics:
  assumes "\<forall>r. sks_random B (2 ^ 64 - 1) r = None" "af_threshold req = 0"
  shows "attest_fresh_bls_key_handler X B E N req w =
      (Dropped ''SecretKeySet::random'', w\<lparr>rng := Suc (rng w)\<rparr>) \<and>
    generate_bls_keystore_handler X B E K req pw w =
      (Panic ''SecretKeySet::random'', w\<lparr>rng := Suc (rng w)\<rparr>)"
proof -
  have t: "unat (0 - 1 :: u64) = 2 ^ 64 - 1" by (simp add: unsigned_minus_1_eq_mask mask_eq_exp_minus_1)
  have "new_bls_key B (unat (af_threshold req - 1)) w = (Panic ''SecretKeySet::random'', w\<lparr>rng := Suc (rng w)\<rparr>)"
    unfolding assms(2) t using assms(1) by (simp add: new_bls_key_def ebind_def draw_def lift_def)
  then show ?thesis
    by (simp add: attest_fresh_bls_key_handler_def attest_fresh_bls_key_def generate_bls_keystore_handler_def
        generate_bls_keystore_def on_ok_def ebind_def)
qed

theorem zero_threshold_panics_witness:
  "fst (attest_fresh_bls_key_handler demo_codec demo_blsttc demo_secp demo_services (demo_af\<lparr>af_threshold := 0\<rparr>) empty_world) =
     Dropped ''SecretKeySet::random''"
proof -
  have "\<forall>r. sks_random demo_blsttc (2 ^ 64 - 1) r = None" by (simp add: demo_blsttc_def)
  from zero_threshold_panics[OF this, of "demo_af\<lparr>af_threshold := 0\<rparr>" demo_codec demo_secp demo_services empty_world]
  show ?thesis by simp
qed

section \<open>Deposits\<close>

text \<open>
  C33: the deposit endpoint signs with the key of the deposit's own public key or not at all:
  an answer 200 has a signature, valid under that public key, of the deposit for the chain of
  the request; for a key the signer does not have, in a working file system, the answer is
  412; and for a validator in service it is 200, with no change on disk.
\<close>

theorem deposit_is_signed_by_its_key:
  assumes L: "codec_laws X" and B: "bls_laws X B" and pk: "length (dm_pubkey (dr_deposit req)) = 48"
  shows "(\<forall>b w'. validator_deposit_handler X B req w = (Response HTTP_OK b, w') \<longrightarrow>
      (\<exists>s g resp. b = JsonBody resp \<and>
        dm_pubkey (dr_deposit req) = pk_to_bytes B (pks_public_key B (sks_public_keys B s)) \<and>
        dres_signature resp = hex_encode X (sig_to_bytes B g) \<and> dres_amount resp = dm_amount (dr_deposit req) \<and>
        pk_verify B (pks_public_key B (sks_public_keys B s)) g (root_deposit X req))) \<and>
    (quiet w \<and> \<not> is_dir w (bls_file (hex_encode X (dm_pubkey (dr_deposit req)))) \<and>
       lookup w (bls_file (hex_encode X (dm_pubkey (dr_deposit req)))) = None \<longrightarrow>
     validator_deposit_handler X B req w =
       (Response PRECONDITION_FAILED (Message ''This validator key does not exist''), w)) \<and>
    (\<forall>s d. in_service X B s d w \<and> dm_pubkey (dr_deposit req) = pk_to_bytes B (pks_public_key B (sks_public_keys B s)) \<longrightarrow>
      (\<exists>resp. validator_deposit_handler X B req w = (Response HTTP_OK (JsonBody resp), w)))"
proof -
  note X = codec_lawsD(1,5)[OF L]
  let ?h = "hex_encode X (dm_pubkey (dr_deposit req))"
  have san: "sanitize_bls_pk_hex ?h = Ok ?h"
    using X pk by (simp add: sanitize_Ok)
  have fv: "fv_ssz_bytes X (dm_pubkey (dr_deposit req)) = dm_pubkey (dr_deposit req)" using X by simp
  have "\<exists>s g resp. b = JsonBody resp \<and>
        dm_pubkey (dr_deposit req) = pk_to_bytes B (pks_public_key B (sks_public_keys B s)) \<and>
        dres_signature resp = hex_encode X (sig_to_bytes B g) \<and> dres_amount resp = dm_amount (dr_deposit req) \<and>
        pk_verify B (pks_public_key B (sks_public_keys B s)) g (root_deposit X req)"
    if d: "validator_deposit_handler X B req w = (Response HTTP_OK b, w')" for b w'
  proof -
    obtain w1 resp where r: "get_deposit_signature X B ?h (dr_deposit req) (dr_genesis_fork_version req) w1 = (Ok resp, w')"
      "b = JsonBody resp"
      using d san fv by (auto simp: validator_deposit_handler_def Let_def on_ok_success status_defs split: if_splits)
    obtain g s where s: "?h = hex_encode X (pk_to_bytes B (pks_public_key B (sks_public_keys B s)))"
      "g = sk_sign B (sks_secret_key B s) (root_deposit X \<lparr>dr_signingRoot = None, dr_deposit = dr_deposit req,
           dr_genesis_fork_version = dr_genesis_fork_version req\<rparr>)"
      "dres_signature resp = hex_encode X (sig_to_bytes B g)" "dres_amount resp = dm_amount (dr_deposit req)"
      using get_deposit_signature_Ok[OF r(1) X(2) B X(1)] by blast
    have "root_deposit X \<lparr>dr_signingRoot = None, dr_deposit = dr_deposit req,
        dr_genesis_fork_version = dr_genesis_fork_version req\<rparr> = root_deposit X req"
      by (simp add: root_deposit_def)
    with s r(2) X(1) bls_simps(8)[OF B] show ?thesis by (intro exI[of _ s] exI[of _ g] exI[of _ resp]) simp
  qed
  moreover have "validator_deposit_handler X B req w =
      (Response PRECONDITION_FAILED (Message ''This validator key does not exist''), w)"
    if "quiet w \<and> \<not> is_dir w (bls_file ?h) \<and> lookup w (bls_file ?h) = None"
    using that bls_store.ex_quiet[of w ?h] san fv
    by (simp add: validator_deposit_handler_def on_ok_def lift_def Let_def)
  ultimately show ?thesis using deposit_in_service[OF L B, where req = req] by blast
qed

theorem deposit_is_signed_by_its_key_witness:
  "\<exists>s g resp. validator_deposit_handler demo_codec demo_blsttc demo_deposit demo_signer =
      (Response HTTP_OK (JsonBody resp), demo_signer) \<and>
    dres_signature resp = hex_encode demo_codec (sig_to_bytes demo_blsttc g) \<and>
    pk_verify demo_blsttc (pks_public_key demo_blsttc (sks_public_keys demo_blsttc s)) g (root_deposit demo_codec demo_deposit)"
proof -
  have k: "length (dm_pubkey (dr_deposit demo_deposit)) = 48"
    "dm_pubkey (dr_deposit demo_deposit) = pk_to_bytes demo_blsttc (pks_public_key demo_blsttc (sks_public_keys demo_blsttc (0, 0)))"
    by (simp_all add: demo_deposit_def) (simp add: demo_blsttc_def)
  note D = deposit_is_signed_by_its_key[OF demo_codec_laws demo_bls_laws k(1), of demo_signer]
  obtain resp where r: "validator_deposit_handler demo_codec demo_blsttc demo_deposit demo_signer =
      (Response HTTP_OK (JsonBody resp), demo_signer)"
    using D demo_signer_ready k(2) by blast
  with D show ?thesis by (metis body.inject(3))
qed

end
