(* ===== verification/Eth_Json.thy ===== *)
theory Eth_Json
  imports Serde Eth_Signing
begin

text \<open>
  The JSON forms that \<open>serde\<close> derives for the structs of src/eth2/eth_types.rs that a
  request can hold, and for the tagged enum of signing messages in src/eth2/eth_signing.rs.
  Where several fields of one object are bad the model reports the first in the order of
  the struct.
\<close>

section \<open>Containers of the ssz\_types crate\<close>

text \<open>
  \<open>VariableList\<close> and \<open>FixedVector\<close> read from a JSON array, \<open>BitList\<close> and
  \<open>BitVector\<close> as SSZ bytes. Whether a list of a wrong length is refused depends on the crate.
\<close>

record ssz_serde =
  vl_accepts :: "nat \<Rightarrow> nat \<Rightarrow> bool"
  fv_accepts :: "nat \<Rightarrow> nat \<Rightarrow> bool"
  vl_from :: "nat \<Rightarrow> bytes \<Rightarrow> bytes"
  bitlist_to_ssz :: "bool list \<Rightarrow> bytes"
  bitlist_from_ssz :: "nat \<Rightarrow> bytes \<Rightarrow> bool list option"
  bitvector_to_ssz :: "bool list \<Rightarrow> bytes"
  bitvector_from_ssz :: "nat \<Rightarrow> bytes \<Rightarrow> bool list option"

text \<open>Values of the right length are accepted and their SSZ bytes decode to them.\<close>

definition ssz_serde_laws :: "ssz_serde \<Rightarrow> bool" where
  "ssz_serde_laws S \<longleftrightarrow>
     (\<forall>n k. k \<le> n \<longrightarrow> vl_accepts S n k) \<and>
     (\<forall>n. fv_accepts S n n) \<and>
     (\<forall>n b. length b \<le> n \<longrightarrow> vl_from S n b = b) \<and>
     (\<forall>n b. length b \<le> n \<longrightarrow> bitlist_from_ssz S n (bitlist_to_ssz S b) = Some b) \<and>
     (\<forall>n b. length b = n \<longrightarrow> bitvector_from_ssz S n (bitvector_to_ssz S b) = Some b)"

definition de_vl :: "ssz_serde \<Rightarrow> nat \<Rightarrow> (json \<Rightarrow> 'a res) \<Rightarrow> json \<Rightarrow> 'a list res" where
  "de_vl S n de j =
     rbind (de_vec de j) (\<lambda>xs.
     if vl_accepts S n (length xs) then Ok xs else Err (External ''VariableList''))"

definition de_fv :: "ssz_serde \<Rightarrow> nat \<Rightarrow> (json \<Rightarrow> 'a res) \<Rightarrow> json \<Rightarrow> 'a list res" where
  "de_fv S n de j =
     rbind (de_vec de j) (\<lambda>xs.
     if fv_accepts S n (length xs) then Ok xs else Err (External ''FixedVector''))"

definition MAX_VALIDATORS_PER_COMMITTEE :: nat where "MAX_VALIDATORS_PER_COMMITTEE = 2048"
definition DEPOSIT_CONTRACT_TREE_DEPTH_PLUS_ONE :: nat where "DEPOSIT_CONTRACT_TREE_DEPTH_PLUS_ONE = 33"
definition MAX_PROPOSER_SLASHINGS :: nat where "MAX_PROPOSER_SLASHINGS = 16"
definition MAX_ATTESTER_SLASHINGS :: nat where "MAX_ATTESTER_SLASHINGS = 2"
definition MAX_ATTESTATIONS :: nat where "MAX_ATTESTATIONS = 128"
definition MAX_DEPOSITS :: nat where "MAX_DEPOSITS = 16"
definition MAX_VOLUNTARY_EXITS :: nat where "MAX_VOLUNTARY_EXITS = 16"
definition SYNC_COMMITTEE_SIZE :: nat where "SYNC_COMMITTEE_SIZE = 512"
definition SYNC_COMMITTEE_SIZE_BY_SYNC_COMMITTEE_SUBNET_COUNT :: nat where
  "SYNC_COMMITTEE_SIZE_BY_SYNC_COMMITTEE_SUBNET_COUNT = 128"
definition MAX_EXTRA_DATA_BYTES :: nat where "MAX_EXTRA_DATA_BYTES = 32"
definition MAX_TRANSACTIONS_PER_PAYLOAD :: nat where "MAX_TRANSACTIONS_PER_PAYLOAD = 1048576"
definition MAX_BYTES_PER_TRANSACTION :: nat where "MAX_BYTES_PER_TRANSACTION = 1073741824"
definition MAX_BLS_TO_EXECUTION_CHANGES :: nat where "MAX_BLS_TO_EXECUTION_CHANGES = 16"
definition MAX_WITHDRAWALS_PER_PAYLOAD :: nat where "MAX_WITHDRAWALS_PER_PAYLOAD = 16"

section \<open>Structs\<close>

definition se_Fork :: "codec \<Rightarrow> Fork \<Rightarrow> json res" where
  "se_Fork X v =
     se_struct
       (se_field ''previous_version'' (se_serhex X (fork_previous_version v))
       (se_field ''current_version'' (se_serhex X (fork_current_version v))
       (se_field ''epoch'' (se_quoted_u64 X (fork_epoch v))
       (Ok []))))"

definition de_Fork :: "codec \<Rightarrow> json \<Rightarrow> Fork res" where
  "de_Fork X j =
     rbind (struct_fields [''previous_version'', ''current_version'', ''epoch''] j) (\<lambda>vs.
     rbind (required (vs ! 0) (de_serhex X 4)) (\<lambda>x0.
     rbind (required (vs ! 1) (de_serhex X 4)) (\<lambda>x1.
     rbind (required (vs ! 2) (de_quoted_u64 X)) (\<lambda>x2.
     Ok \<lparr>fork_previous_version = x0, fork_current_version = x1, fork_epoch = x2\<rparr>))))"

definition se_ForkInfo :: "codec \<Rightarrow> ForkInfo \<Rightarrow> json res" where
  "se_ForkInfo X v =
     se_struct
       (se_field ''fork'' (se_Fork X (fi_fork v))
       (se_field ''genesis_validators_root'' (se_serhex X (fi_genesis_validators_root v))
       (Ok [])))"

definition de_ForkInfo :: "codec \<Rightarrow> json \<Rightarrow> ForkInfo res" where
  "de_ForkInfo X j =
     rbind (struct_fields [''fork'', ''genesis_validators_root''] j) (\<lambda>vs.
     rbind (required (vs ! 0) (de_Fork X)) (\<lambda>x0.
     rbind (required (vs ! 1) (de_serhex X 32)) (\<lambda>x1.
     Ok \<lparr>fi_fork = x0, fi_genesis_validators_root = x1\<rparr>)))"

definition se_BeaconBlockHeader :: "codec \<Rightarrow> BeaconBlockHeader \<Rightarrow> json res" where
  "se_BeaconBlockHeader X v =
     se_struct
       (se_field ''slot'' (se_quoted_u64 X (bbh_slot v))
       (se_field ''proposer_index'' (se_quoted_u64 X (bbh_proposer_index v))
       (se_field ''parent_root'' (se_serhex X (bbh_parent_root v))
       (se_field ''state_root'' (se_serhex X (bbh_state_root v))
       (se_field ''body_root'' (se_serhex X (bbh_body_root v))
       (Ok []))))))"

definition de_BeaconBlockHeader :: "codec \<Rightarrow> json \<Rightarrow> BeaconBlockHeader res" where
  "de_BeaconBlockHeader X j =
     rbind (struct_fields [''slot'', ''proposer_index'', ''parent_root'', ''state_root'',
              ''body_root''] j) (\<lambda>vs.
     rbind (required (vs ! 0) (de_quoted_u64 X)) (\<lambda>x0.
     rbind (required (vs ! 1) (de_quoted_u64 X)) (\<lambda>x1.
     rbind (required (vs ! 2) (de_serhex X 32)) (\<lambda>x2.
     rbind (required (vs ! 3) (de_serhex X 32)) (\<lambda>x3.
     rbind (required (vs ! 4) (de_serhex X 32)) (\<lambda>x4.
     Ok \<lparr>bbh_slot = x0, bbh_proposer_index = x1, bbh_parent_root = x2, bbh_state_root = x3,
         bbh_body_root = x4\<rparr>))))))"

definition se_SignedBeaconBlockHeader :: "codec \<Rightarrow> SignedBeaconBlockHeader \<Rightarrow> json res" where
  "se_SignedBeaconBlockHeader X v =
     se_struct
       (se_field ''message'' (se_BeaconBlockHeader X (sbbh_message v))
       (se_field ''signature'' (to_hex_from_ssz_type X (fv_ssz_bytes X) (sbbh_signature v))
       (Ok [])))"

definition de_SignedBeaconBlockHeader :: "codec \<Rightarrow> json \<Rightarrow> SignedBeaconBlockHeader res" where
  "de_SignedBeaconBlockHeader X j =
     rbind (struct_fields [''message'', ''signature''] j) (\<lambda>vs.
     rbind (required (vs ! 0) (de_BeaconBlockHeader X)) (\<lambda>x0.
     rbind (required (vs ! 1) (from_hex_to_ssz_type X (fv_from X 96))) (\<lambda>x1.
     Ok \<lparr>sbbh_message = x0, sbbh_signature = x1\<rparr>)))"

definition se_ProposerSlashing :: "codec \<Rightarrow> ProposerSlashing \<Rightarrow> json res" where
  "se_ProposerSlashing X v =
     se_struct
       (se_field ''signed_header_1'' (se_SignedBeaconBlockHeader X (ps_signed_header_1 v))
       (se_field ''signed_header_2'' (se_SignedBeaconBlockHeader X (ps_signed_header_2 v))
       (Ok [])))"

definition de_ProposerSlashing :: "codec \<Rightarrow> json \<Rightarrow> ProposerSlashing res" where
  "de_ProposerSlashing X j =
     rbind (struct_fields [''signed_header_1'', ''signed_header_2''] j) (\<lambda>vs.
     rbind (required (vs ! 0) (de_SignedBeaconBlockHeader X)) (\<lambda>x0.
     rbind (required (vs ! 1) (de_SignedBeaconBlockHeader X)) (\<lambda>x1.
     Ok \<lparr>ps_signed_header_1 = x0, ps_signed_header_2 = x1\<rparr>)))"

definition se_Checkpoint :: "codec \<Rightarrow> Checkpoint \<Rightarrow> json res" where
  "se_Checkpoint X v =
     se_struct
       (se_field ''epoch'' (se_quoted_u64 X (cp_epoch v))
       (se_field ''root'' (se_serhex X (cp_root v))
       (Ok [])))"

definition de_Checkpoint :: "codec \<Rightarrow> json \<Rightarrow> Checkpoint res" where
  "de_Checkpoint X j =
     rbind (struct_fields [''epoch'', ''root''] j) (\<lambda>vs.
     rbind (required (vs ! 0) (de_quoted_u64 X)) (\<lambda>x0.
     rbind (required (vs ! 1) (de_serhex X 32)) (\<lambda>x1.
     Ok \<lparr>cp_epoch = x0, cp_root = x1\<rparr>)))"

definition se_AttestationData :: "codec \<Rightarrow> AttestationData \<Rightarrow> json res" where
  "se_AttestationData X v =
     se_struct
       (se_field ''slot'' (se_quoted_u64 X (ad_slot v))
       (se_field ''index'' (se_quoted_u64 X (ad_index v))
       (se_field ''beacon_block_root'' (se_serhex X (ad_beacon_block_root v))
       (se_field ''source'' (se_Checkpoint X (ad_source v))
       (se_field ''target'' (se_Checkpoint X (ad_target v))
       (Ok []))))))"

definition de_AttestationData :: "codec \<Rightarrow> json \<Rightarrow> AttestationData res" where
  "de_AttestationData X j =
     rbind (struct_fields [''slot'', ''index'', ''beacon_block_root'', ''source'',
              ''target''] j) (\<lambda>vs.
     rbind (required (vs ! 0) (de_quoted_u64 X)) (\<lambda>x0.
     rbind (required (vs ! 1) (de_quoted_u64 X)) (\<lambda>x1.
     rbind (required (vs ! 2) (de_serhex X 32)) (\<lambda>x2.
     rbind (required (vs ! 3) (de_Checkpoint X)) (\<lambda>x3.
     rbind (required (vs ! 4) (de_Checkpoint X)) (\<lambda>x4.
     Ok \<lparr>ad_slot = x0, ad_index = x1, ad_beacon_block_root = x2, ad_source = x3,
         ad_target = x4\<rparr>))))))"

definition se_IndexedAttestation :: "codec \<Rightarrow> ssz_serde \<Rightarrow> IndexedAttestation \<Rightarrow> json res" where
  "se_IndexedAttestation X S v =
     se_struct
       (se_field ''attesting_indices'' (se_vec se_u64 (ia_attesting_indices v))
       (se_field ''data'' (se_AttestationData X (ia_data v))
       (se_field ''signature'' (to_hex_from_ssz_type X (fv_ssz_bytes X) (ia_signature v))
       (Ok []))))"

definition de_IndexedAttestation :: "codec \<Rightarrow> ssz_serde \<Rightarrow> json \<Rightarrow> IndexedAttestation res" where
  "de_IndexedAttestation X S j =
     rbind (struct_fields [''attesting_indices'', ''data'', ''signature''] j) (\<lambda>vs.
     rbind (required (vs ! 0) (de_vl S MAX_VALIDATORS_PER_COMMITTEE de_u64)) (\<lambda>x0.
     rbind (required (vs ! 1) (de_AttestationData X)) (\<lambda>x1.
     rbind (required (vs ! 2) (from_hex_to_ssz_type X (fv_from X 96))) (\<lambda>x2.
     Ok \<lparr>ia_attesting_indices = x0, ia_data = x1, ia_signature = x2\<rparr>))))"

definition se_AttesterSlashing :: "codec \<Rightarrow> ssz_serde \<Rightarrow> AttesterSlashing \<Rightarrow> json res" where
  "se_AttesterSlashing X S v =
     se_struct
       (se_field ''attestation_1'' (se_IndexedAttestation X S (atsl_attestation_1 v))
       (se_field ''attestation_2'' (se_IndexedAttestation X S (atsl_attestation_2 v))
       (Ok [])))"

definition de_AttesterSlashing :: "codec \<Rightarrow> ssz_serde \<Rightarrow> json \<Rightarrow> AttesterSlashing res" where
  "de_AttesterSlashing X S j =
     rbind (struct_fields [''attestation_1'', ''attestation_2''] j) (\<lambda>vs.
     rbind (required (vs ! 0) (de_IndexedAttestation X S)) (\<lambda>x0.
     rbind (required (vs ! 1) (de_IndexedAttestation X S)) (\<lambda>x1.
     Ok \<lparr>atsl_attestation_1 = x0, atsl_attestation_2 = x1\<rparr>)))"

definition se_Eth1Data :: "codec \<Rightarrow> Eth1Data \<Rightarrow> json res" where
  "se_Eth1Data X v =
     se_struct
       (se_field ''deposit_root'' (se_serhex X (ed_deposit_root v))
       (se_field ''deposit_count'' (se_quoted_u64 X (ed_deposit_count v))
       (se_field ''block_hash'' (se_serhex X (ed_block_hash v))
       (Ok []))))"

definition de_Eth1Data :: "codec \<Rightarrow> json \<Rightarrow> Eth1Data res" where
  "de_Eth1Data X j =
     rbind (struct_fields [''deposit_root'', ''deposit_count'', ''block_hash''] j) (\<lambda>vs.
     rbind (required (vs ! 0) (de_serhex X 32)) (\<lambda>x0.
     rbind (required (vs ! 1) (de_quoted_u64 X)) (\<lambda>x1.
     rbind (required (vs ! 2) (de_serhex X 32)) (\<lambda>x2.
     Ok \<lparr>ed_deposit_root = x0, ed_deposit_count = x1, ed_block_hash = x2\<rparr>))))"

definition se_DepositData :: "codec \<Rightarrow> DepositData \<Rightarrow> json res" where
  "se_DepositData X v =
     se_struct
       (se_field ''pubkey'' (to_hex_from_ssz_type X (fv_ssz_bytes X) (dd_pubkey v))
       (se_field ''withdrawal_credentials'' (se_serhex X (dd_withdrawal_credentials v))
       (se_field ''amount'' (se_quoted_u64 X (dd_amount v))
       (se_field ''signature'' (to_hex_from_ssz_type X (fv_ssz_bytes X) (dd_signature v))
       (Ok [])))))"

definition de_DepositData :: "codec \<Rightarrow> json \<Rightarrow> DepositData res" where
  "de_DepositData X j =
     rbind (struct_fields [''pubkey'', ''withdrawal_credentials'', ''amount'',
              ''signature''] j) (\<lambda>vs.
     rbind (required (vs ! 0) (from_hex_to_ssz_type X (fv_from X 48))) (\<lambda>x0.
     rbind (required (vs ! 1) (de_serhex X 32)) (\<lambda>x1.
     rbind (required (vs ! 2) (de_quoted_u64 X)) (\<lambda>x2.
     rbind (required (vs ! 3) (from_hex_to_ssz_type X (fv_from X 96))) (\<lambda>x3.
     Ok \<lparr>dd_pubkey = x0, dd_withdrawal_credentials = x1, dd_amount = x2,
         dd_signature = x3\<rparr>)))))"

definition se_Deposit :: "codec \<Rightarrow> ssz_serde \<Rightarrow> Deposit \<Rightarrow> json res" where
  "se_Deposit X S v =
     se_struct
       (se_field ''proof'' (se_vec se_u8_array (dep_proof v))
       (se_field ''data'' (se_DepositData X (dep_data v))
       (Ok [])))"

definition de_Deposit :: "codec \<Rightarrow> ssz_serde \<Rightarrow> json \<Rightarrow> Deposit res" where
  "de_Deposit X S j =
     rbind (struct_fields [''proof'', ''data''] j) (\<lambda>vs.
     rbind (required (vs ! 0) (de_fv S DEPOSIT_CONTRACT_TREE_DEPTH_PLUS_ONE (de_u8_array 32))) (\<lambda>x0.
     rbind (required (vs ! 1) (de_DepositData X)) (\<lambda>x1.
     Ok \<lparr>dep_proof = x0, dep_data = x1\<rparr>)))"

definition se_VoluntaryExit :: "codec \<Rightarrow> VoluntaryExit \<Rightarrow> json res" where
  "se_VoluntaryExit X v =
     se_struct
       (se_field ''epoch'' (se_quoted_u64 X (ve_epoch v))
       (se_field ''validator_index'' (se_quoted_u64 X (ve_validator_index v))
       (Ok [])))"

definition de_VoluntaryExit :: "codec \<Rightarrow> json \<Rightarrow> VoluntaryExit res" where
  "de_VoluntaryExit X j =
     rbind (struct_fields [''epoch'', ''validator_index''] j) (\<lambda>vs.
     rbind (required (vs ! 0) (de_quoted_u64 X)) (\<lambda>x0.
     rbind (required (vs ! 1) (de_quoted_u64 X)) (\<lambda>x1.
     Ok \<lparr>ve_epoch = x0, ve_validator_index = x1\<rparr>)))"

definition se_SignedVoluntaryExit :: "codec \<Rightarrow> SignedVoluntaryExit \<Rightarrow> json res" where
  "se_SignedVoluntaryExit X v =
     se_struct
       (se_field ''message'' (se_VoluntaryExit X (sve_message v))
       (se_field ''signature'' (to_hex_from_ssz_type X (fv_ssz_bytes X) (sve_signature v))
       (Ok [])))"

definition de_SignedVoluntaryExit :: "codec \<Rightarrow> json \<Rightarrow> SignedVoluntaryExit res" where
  "de_SignedVoluntaryExit X j =
     rbind (struct_fields [''message'', ''signature''] j) (\<lambda>vs.
     rbind (required (vs ! 0) (de_VoluntaryExit X)) (\<lambda>x0.
     rbind (required (vs ! 1) (from_hex_to_ssz_type X (fv_from X 96))) (\<lambda>x1.
     Ok \<lparr>sve_message = x0, sve_signature = x1\<rparr>)))"

definition se_Attestation :: "codec \<Rightarrow> ssz_serde \<Rightarrow> Attestation \<Rightarrow> json res" where
  "se_Attestation X S v =
     se_struct
       (se_field ''aggregation_bits'' (to_hex_from_ssz_type X (bitlist_to_ssz S) (att_aggregation_bits v))
       (se_field ''data'' (se_AttestationData X (att_data v))
       (se_field ''signature'' (to_hex_from_ssz_type X (fv_ssz_bytes X) (att_signature v))
       (Ok []))))"

definition de_Attestation :: "codec \<Rightarrow> ssz_serde \<Rightarrow> json \<Rightarrow> Attestation res" where
  "de_Attestation X S j =
     rbind (struct_fields [''aggregation_bits'', ''data'', ''signature''] j) (\<lambda>vs.
     rbind (required (vs ! 0) (from_hex_to_ssz_bits_type X (bitlist_from_ssz S MAX_VALIDATORS_PER_COMMITTEE))) (\<lambda>x0.
     rbind (required (vs ! 1) (de_AttestationData X)) (\<lambda>x1.
     rbind (required (vs ! 2) (from_hex_to_ssz_type X (fv_from X 96))) (\<lambda>x2.
     Ok \<lparr>att_aggregation_bits = x0, att_data = x1, att_signature = x2\<rparr>))))"

definition se_SyncAggregate :: "codec \<Rightarrow> ssz_serde \<Rightarrow> SyncAggregate \<Rightarrow> json res" where
  "se_SyncAggregate X S v =
     se_struct
       (se_field ''sync_committee_bits'' (to_hex_from_ssz_type X (bitvector_to_ssz S) (sa_sync_committee_bits v))
       (se_field ''sync_committee_signature'' (to_hex_from_ssz_type X (fv_ssz_bytes X) (sa_sync_committee_signature v))
       (Ok [])))"

definition de_SyncAggregate :: "codec \<Rightarrow> ssz_serde \<Rightarrow> json \<Rightarrow> SyncAggregate res" where
  "de_SyncAggregate X S j =
     rbind (struct_fields [''sync_committee_bits'', ''sync_committee_signature''] j) (\<lambda>vs.
     rbind (required (vs ! 0) (from_hex_to_ssz_bits_type X (bitvector_from_ssz S SYNC_COMMITTEE_SIZE))) (\<lambda>x0.
     rbind (required (vs ! 1) (from_hex_to_ssz_type X (fv_from X 96))) (\<lambda>x1.
     Ok \<lparr>sa_sync_committee_bits = x0, sa_sync_committee_signature = x1\<rparr>)))"

definition se_Withdrawal :: "codec \<Rightarrow> Withdrawal \<Rightarrow> json res" where
  "se_Withdrawal X v =
     se_struct
       (se_field ''index'' (se_quoted_u64 X (wd_index v))
       (se_field ''validator_index'' (se_quoted_u64 X (wd_validator_index v))
       (se_field ''address'' (to_hex_from_ssz_type X (fv_ssz_bytes X) (wd_address v))
       (se_field ''amount'' (se_quoted_u64 X (wd_amount v))
       (Ok [])))))"

definition de_Withdrawal :: "codec \<Rightarrow> json \<Rightarrow> Withdrawal res" where
  "de_Withdrawal X j =
     rbind (struct_fields [''index'', ''validator_index'', ''address'',
              ''amount''] j) (\<lambda>vs.
     rbind (required (vs ! 0) (de_quoted_u64 X)) (\<lambda>x0.
     rbind (required (vs ! 1) (de_quoted_u64 X)) (\<lambda>x1.
     rbind (required (vs ! 2) (from_hex_to_ssz_type X (fv_from X 20))) (\<lambda>x2.
     rbind (required (vs ! 3) (de_quoted_u64 X)) (\<lambda>x3.
     Ok \<lparr>wd_index = x0, wd_validator_index = x1, wd_address = x2,
         wd_amount = x3\<rparr>)))))"

definition se_ExecutionPayload :: "codec \<Rightarrow> ssz_serde \<Rightarrow> ExecutionPayload \<Rightarrow> json res" where
  "se_ExecutionPayload X S v =
     se_struct
       (se_field ''parent_hash'' (se_serhex X (ep_parent_hash v))
       (se_field ''fee_recipient'' (to_hex_from_ssz_type X (fv_ssz_bytes X) (ep_fee_recipient v))
       (se_field ''state_root'' (se_serhex X (ep_state_root v))
       (se_field ''receipts_root'' (se_serhex X (ep_receipts_root v))
       (se_field ''logs_bloom'' (to_hex_from_ssz_type X (fv_ssz_bytes X) (ep_logs_bloom v))
       (se_field ''prev_randao'' (se_serhex X (ep_prev_randao v))
       (se_field ''block_number'' (se_quoted_u64 X (ep_block_number v))
       (se_field ''gas_limit'' (se_quoted_u64 X (ep_gas_limit v))
       (se_field ''gas_used'' (se_quoted_u64 X (ep_gas_used v))
       (se_field ''timestamp'' (se_quoted_u64 X (ep_timestamp v))
       (se_field ''extra_data'' (to_hex_from_ssz_type X (vec_ssz_bytes X) (ep_extra_data v))
       (se_field ''base_fee_per_gas'' (to_u256_string X (ep_base_fee_per_gas v))
       (se_field ''block_hash'' (se_serhex X (ep_block_hash v))
       (se_field ''transactions'' (se_vec se_u8_array (ep_transactions v))
       (se_field ''withdrawals'' (se_vec (se_Withdrawal X) (ep_withdrawals v))
       (se_field ''excess_data_gas'' (to_u256_string X (ep_excess_data_gas v))
       (Ok [])))))))))))))))))"

definition de_ExecutionPayload :: "codec \<Rightarrow> ssz_serde \<Rightarrow> json \<Rightarrow> ExecutionPayload res" where
  "de_ExecutionPayload X S j =
     rbind (struct_fields [''parent_hash'', ''fee_recipient'', ''state_root'', ''receipts_root'',
              ''logs_bloom'', ''prev_randao'', ''block_number'', ''gas_limit'', ''gas_used'',
              ''timestamp'', ''extra_data'', ''base_fee_per_gas'', ''block_hash'',
              ''transactions'', ''withdrawals'', ''excess_data_gas''] j) (\<lambda>vs.
     rbind (required (vs ! 0) (de_serhex X 32)) (\<lambda>x0.
     rbind (required (vs ! 1) (from_hex_to_ssz_type X (fv_from X 20))) (\<lambda>x1.
     rbind (required (vs ! 2) (de_serhex X 32)) (\<lambda>x2.
     rbind (required (vs ! 3) (de_serhex X 32)) (\<lambda>x3.
     rbind (required (vs ! 4) (from_hex_to_ssz_type X (fv_from X 256))) (\<lambda>x4.
     rbind (required (vs ! 5) (de_serhex X 32)) (\<lambda>x5.
     rbind (required (vs ! 6) (de_quoted_u64 X)) (\<lambda>x6.
     rbind (required (vs ! 7) (de_quoted_u64 X)) (\<lambda>x7.
     rbind (required (vs ! 8) (de_quoted_u64 X)) (\<lambda>x8.
     rbind (required (vs ! 9) (de_quoted_u64 X)) (\<lambda>x9.
     rbind (required (vs ! 10) (from_hex_to_ssz_type X (vl_from S MAX_EXTRA_DATA_BYTES))) (\<lambda>x10.
     rbind (required (vs ! 11) (from_u256_string X)) (\<lambda>x11.
     rbind (required (vs ! 12) (de_serhex X 32)) (\<lambda>x12.
     rbind (required (vs ! 13) (de_vl S MAX_TRANSACTIONS_PER_PAYLOAD (de_vl S MAX_BYTES_PER_TRANSACTION de_u8))) (\<lambda>x13.
     rbind (required (vs ! 14) (de_vl S MAX_WITHDRAWALS_PER_PAYLOAD (de_Withdrawal X))) (\<lambda>x14.
     rbind (required (vs ! 15) (from_u256_string X)) (\<lambda>x15.
     Ok \<lparr>ep_parent_hash = x0, ep_fee_recipient = x1, ep_state_root = x2,
         ep_receipts_root = x3, ep_logs_bloom = x4, ep_prev_randao = x5, ep_block_number = x6,
         ep_gas_limit = x7, ep_gas_used = x8, ep_timestamp = x9, ep_extra_data = x10,
         ep_base_fee_per_gas = x11, ep_block_hash = x12, ep_transactions = x13,
         ep_withdrawals = x14, ep_excess_data_gas = x15\<rparr>)))))))))))))))))"

definition se_BLSToExecutionChange :: "codec \<Rightarrow> BLSToExecutionChange \<Rightarrow> json res" where
  "se_BLSToExecutionChange X v =
     se_struct
       (se_field ''validator_index'' (se_quoted_u64 X (btec_validator_index v))
       (se_field ''from_bls_pubkey'' (to_hex_from_ssz_type X (fv_ssz_bytes X) (btec_from_bls_pubkey v))
       (se_field ''to_execution_address'' (to_hex_from_ssz_type X (fv_ssz_bytes X) (btec_to_execution_address v))
       (Ok []))))"

definition de_BLSToExecutionChange :: "codec \<Rightarrow> json \<Rightarrow> BLSToExecutionChange res" where
  "de_BLSToExecutionChange X j =
     rbind (struct_fields [''validator_index'', ''from_bls_pubkey'',
              ''to_execution_address''] j) (\<lambda>vs.
     rbind (required (vs ! 0) (de_quoted_u64 X)) (\<lambda>x0.
     rbind (required (vs ! 1) (from_hex_to_ssz_type X (fv_from X 48))) (\<lambda>x1.
     rbind (required (vs ! 2) (from_hex_to_ssz_type X (fv_from X 20))) (\<lambda>x2.
     Ok \<lparr>btec_validator_index = x0, btec_from_bls_pubkey = x1,
         btec_to_execution_address = x2\<rparr>))))"

definition se_SignedBLSToExecutionChange :: "codec \<Rightarrow> SignedBLSToExecutionChange \<Rightarrow> json res" where
  "se_SignedBLSToExecutionChange X v =
     se_struct
       (se_field ''message'' (se_BLSToExecutionChange X (sbtec_message v))
       (se_field ''signature'' (to_hex_from_ssz_type X (fv_ssz_bytes X) (sbtec_signature v))
       (Ok [])))"

definition de_SignedBLSToExecutionChange :: "codec \<Rightarrow> json \<Rightarrow> SignedBLSToExecutionChange res" where
  "de_SignedBLSToExecutionChange X j =
     rbind (struct_fields [''message'', ''signature''] j) (\<lambda>vs.
     rbind (required (vs ! 0) (de_BLSToExecutionChange X)) (\<lambda>x0.
     rbind (required (vs ! 1) (from_hex_to_ssz_type X (fv_from X 96))) (\<lambda>x1.
     Ok \<lparr>sbtec_message = x0, sbtec_signature = x1\<rparr>)))"

definition se_BeaconBlockBody :: "codec \<Rightarrow> ssz_serde \<Rightarrow> BeaconBlockBody \<Rightarrow> json res" where
  "se_BeaconBlockBody X S v =
     se_struct
       (se_field ''randao_reveal'' (to_hex_from_ssz_type X (fv_ssz_bytes X) (bbb_randao_reveal v))
       (se_field ''eth1_data'' (se_Eth1Data X (bbb_eth1_data v))
       (se_field ''graffiti'' (se_serhex X (bbb_graffiti v))
       (se_field ''proposer_slashings'' (se_vec (se_ProposerSlashing X) (bbb_proposer_slashings v))
       (se_field ''attester_slashings'' (se_vec (se_AttesterSlashing X S) (bbb_attester_slashings v))
       (se_field ''attestations'' (se_vec (se_Attestation X S) (bbb_attestations v))
       (se_field ''deposits'' (se_vec (se_Deposit X S) (bbb_deposits v))
       (se_field ''voluntary_exits'' (se_vec (se_SignedVoluntaryExit X) (bbb_voluntary_exits v))
       (se_field ''sync_aggregate'' (se_SyncAggregate X S (bbb_sync_aggregate v))
       (se_field ''execution_payload'' (se_ExecutionPayload X S (bbb_execution_payload v))
       (se_field ''bls_to_execution_changes'' (se_vec (se_SignedBLSToExecutionChange X) (bbb_bls_to_execution_changes v))
       (se_field ''blob_kzg_commitments'' (to_hex_vec_from_ssz_type X (bbb_blob_kzg_commitments v))
       (Ok [])))))))))))))"

definition de_BeaconBlockBody :: "codec \<Rightarrow> ssz_serde \<Rightarrow> json \<Rightarrow> BeaconBlockBody res" where
  "de_BeaconBlockBody X S j =
     rbind (struct_fields [''randao_reveal'', ''eth1_data'', ''graffiti'',
              ''proposer_slashings'', ''attester_slashings'', ''attestations'', ''deposits'',
              ''voluntary_exits'', ''sync_aggregate'', ''execution_payload'',
              ''bls_to_execution_changes'', ''blob_kzg_commitments''] j) (\<lambda>vs.
     rbind (required (vs ! 0) (from_hex_to_ssz_type X (fv_from X 96))) (\<lambda>x0.
     rbind (required (vs ! 1) (de_Eth1Data X)) (\<lambda>x1.
     rbind (required (vs ! 2) (de_serhex X 32)) (\<lambda>x2.
     rbind (required (vs ! 3) (de_vl S MAX_PROPOSER_SLASHINGS (de_ProposerSlashing X))) (\<lambda>x3.
     rbind (required (vs ! 4) (de_vl S MAX_ATTESTER_SLASHINGS (de_AttesterSlashing X S))) (\<lambda>x4.
     rbind (required (vs ! 5) (de_vl S MAX_ATTESTATIONS (de_Attestation X S))) (\<lambda>x5.
     rbind (required (vs ! 6) (de_vl S MAX_DEPOSITS (de_Deposit X S))) (\<lambda>x6.
     rbind (required (vs ! 7) (de_vl S MAX_VOLUNTARY_EXITS (de_SignedVoluntaryExit X))) (\<lambda>x7.
     rbind (required (vs ! 8) (de_SyncAggregate X S)) (\<lambda>x8.
     rbind (required (vs ! 9) (de_ExecutionPayload X S)) (\<lambda>x9.
     rbind (required (vs ! 10) (de_vl S MAX_BLS_TO_EXECUTION_CHANGES (de_SignedBLSToExecutionChange X))) (\<lambda>x10.
     rbind (required (vs ! 11) (from_hex_vec_to_ssz_type X MAX_BLOB_COMMITMENTS_PER_BLOCK)) (\<lambda>x11.
     Ok \<lparr>bbb_randao_reveal = x0, bbb_eth1_data = x1, bbb_graffiti = x2,
         bbb_proposer_slashings = x3, bbb_attester_slashings = x4, bbb_attestations = x5,
         bbb_deposits = x6, bbb_voluntary_exits = x7, bbb_sync_aggregate = x8,
         bbb_execution_payload = x9, bbb_bls_to_execution_changes = x10,
         bbb_blob_kzg_commitments = x11\<rparr>)))))))))))))"

definition se_BeaconBlock :: "codec \<Rightarrow> ssz_serde \<Rightarrow> BeaconBlock \<Rightarrow> json res" where
  "se_BeaconBlock X S v =
     se_struct
       (se_field ''slot'' (se_quoted_u64 X (bb_slot v))
       (se_field ''proposer_index'' (se_quoted_u64 X (bb_proposer_index v))
       (se_field ''parent_root'' (se_serhex X (bb_parent_root v))
       (se_field ''state_root'' (se_serhex X (bb_state_root v))
       (se_field ''body'' (se_BeaconBlockBody X S (bb_body v))
       (Ok []))))))"

definition de_BeaconBlock :: "codec \<Rightarrow> ssz_serde \<Rightarrow> json \<Rightarrow> BeaconBlock res" where
  "de_BeaconBlock X S j =
     rbind (struct_fields [''slot'', ''proposer_index'', ''parent_root'', ''state_root'',
              ''body''] j) (\<lambda>vs.
     rbind (required (vs ! 0) (de_quoted_u64 X)) (\<lambda>x0.
     rbind (required (vs ! 1) (de_quoted_u64 X)) (\<lambda>x1.
     rbind (required (vs ! 2) (de_serhex X 32)) (\<lambda>x2.
     rbind (required (vs ! 3) (de_serhex X 32)) (\<lambda>x3.
     rbind (required (vs ! 4) (de_BeaconBlockBody X S)) (\<lambda>x4.
     Ok \<lparr>bb_slot = x0, bb_proposer_index = x1, bb_parent_root = x2, bb_state_root = x3,
         bb_body = x4\<rparr>))))))"

definition se_BlockRequest :: "codec \<Rightarrow> ssz_serde \<Rightarrow> BlockRequest \<Rightarrow> json res" where
  "se_BlockRequest X S v =
     se_struct
       (se_field ''fork_info'' (se_ForkInfo X (br_fork_info v))
       (se_skip_none ''signingRoot'' (se_signing_root X) (br_signingRoot v)
       (se_field ''block'' (se_BeaconBlock X S (br_block v))
       (Ok []))))"

definition de_BlockRequest :: "codec \<Rightarrow> ssz_serde \<Rightarrow> json \<Rightarrow> BlockRequest res" where
  "de_BlockRequest X S j =
     rbind (struct_fields [''fork_info'', ''signingRoot'', ''block''] j) (\<lambda>vs.
     rbind (required (vs ! 0) (de_ForkInfo X)) (\<lambda>x0.
     rbind (default_field None (vs ! 1) (de_signing_root X)) (\<lambda>x1.
     rbind (required (vs ! 2) (de_BeaconBlock X S)) (\<lambda>x2.
     Ok \<lparr>br_fork_info = x0, br_signingRoot = x1, br_block = x2\<rparr>))))"

definition se_BlockV2RequestWrapper :: "codec \<Rightarrow> BlockV2RequestWrapper \<Rightarrow> json res" where
  "se_BlockV2RequestWrapper X v =
     se_struct
       (se_field ''version'' (se_string (b2w_version v))
       (se_field ''block_header'' (se_BeaconBlockHeader X (b2w_block_header v))
       (Ok [])))"

definition de_BlockV2RequestWrapper :: "codec \<Rightarrow> json \<Rightarrow> BlockV2RequestWrapper res" where
  "de_BlockV2RequestWrapper X j =
     rbind (struct_fields [''version'', ''block_header''] j) (\<lambda>vs.
     rbind (required (vs ! 0) de_str) (\<lambda>x0.
     rbind (required (vs ! 1) (de_BeaconBlockHeader X)) (\<lambda>x1.
     Ok \<lparr>b2w_version = x0, b2w_block_header = x1\<rparr>)))"

definition se_BlockV2Request :: "codec \<Rightarrow> BlockV2Request \<Rightarrow> json res" where
  "se_BlockV2Request X v =
     se_struct
       (se_field ''fork_info'' (se_ForkInfo X (b2r_fork_info v))
       (se_skip_none ''signingRoot'' (se_signing_root X) (b2r_signingRoot v)
       (se_field ''beacon_block'' (se_BlockV2RequestWrapper X (b2r_beacon_block v))
       (Ok []))))"

definition de_BlockV2Request :: "codec \<Rightarrow> json \<Rightarrow> BlockV2Request res" where
  "de_BlockV2Request X j =
     rbind (struct_fields [''fork_info'', ''signingRoot'', ''beacon_block''] j) (\<lambda>vs.
     rbind (required (vs ! 0) (de_ForkInfo X)) (\<lambda>x0.
     rbind (default_field None (vs ! 1) (de_signing_root X)) (\<lambda>x1.
     rbind (required (vs ! 2) (de_BlockV2RequestWrapper X)) (\<lambda>x2.
     Ok \<lparr>b2r_fork_info = x0, b2r_signingRoot = x1, b2r_beacon_block = x2\<rparr>))))"

definition se_AttestationRequest :: "codec \<Rightarrow> AttestationRequest \<Rightarrow> json res" where
  "se_AttestationRequest X v =
     se_struct
       (se_field ''fork_info'' (se_ForkInfo X (ar_fork_info v))
       (se_skip_none ''signingRoot'' (se_signing_root X) (ar_signingRoot v)
       (se_field ''attestation'' (se_AttestationData X (ar_attestation v))
       (Ok []))))"

definition de_AttestationRequest :: "codec \<Rightarrow> json \<Rightarrow> AttestationRequest res" where
  "de_AttestationRequest X j =
     rbind (struct_fields [''fork_info'', ''signingRoot'', ''attestation''] j) (\<lambda>vs.
     rbind (required (vs ! 0) (de_ForkInfo X)) (\<lambda>x0.
     rbind (default_field None (vs ! 1) (de_signing_root X)) (\<lambda>x1.
     rbind (required (vs ! 2) (de_AttestationData X)) (\<lambda>x2.
     Ok \<lparr>ar_fork_info = x0, ar_signingRoot = x1, ar_attestation = x2\<rparr>))))"

definition se_RandaoReveal :: "codec \<Rightarrow> RandaoReveal \<Rightarrow> json res" where
  "se_RandaoReveal X v =
     se_struct
       (se_field ''epoch'' (se_quoted_u64 X (rr_epoch v))
       (Ok []))"

definition de_RandaoReveal :: "codec \<Rightarrow> json \<Rightarrow> RandaoReveal res" where
  "de_RandaoReveal X j =
     rbind (struct_fields [''epoch''] j) (\<lambda>vs.
     rbind (required (vs ! 0) (de_quoted_u64 X)) (\<lambda>x0.
     Ok \<lparr>rr_epoch = x0\<rparr>))"

definition se_RandaoRevealRequest :: "codec \<Rightarrow> RandaoRevealRequest \<Rightarrow> json res" where
  "se_RandaoRevealRequest X v =
     se_struct
       (se_field ''fork_info'' (se_ForkInfo X (rrr_fork_info v))
       (se_skip_none ''signingRoot'' (se_signing_root X) (rrr_signingRoot v)
       (se_field ''randao_reveal'' (se_RandaoReveal X (rrr_randao_reveal v))
       (Ok []))))"

definition de_RandaoRevealRequest :: "codec \<Rightarrow> json \<Rightarrow> RandaoRevealRequest res" where
  "de_RandaoRevealRequest X j =
     rbind (struct_fields [''fork_info'', ''signingRoot'', ''randao_reveal''] j) (\<lambda>vs.
     rbind (required (vs ! 0) (de_ForkInfo X)) (\<lambda>x0.
     rbind (default_field None (vs ! 1) (de_signing_root X)) (\<lambda>x1.
     rbind (required (vs ! 2) (de_RandaoReveal X)) (\<lambda>x2.
     Ok \<lparr>rrr_fork_info = x0, rrr_signingRoot = x1, rrr_randao_reveal = x2\<rparr>))))"

definition se_AggregateAndProof :: "codec \<Rightarrow> ssz_serde \<Rightarrow> AggregateAndProof \<Rightarrow> json res" where
  "se_AggregateAndProof X S v =
     se_struct
       (se_field ''aggregator_index'' (se_quoted_u64 X (aap_aggregator_index v))
       (se_field ''aggregate'' (se_Attestation X S (aap_aggregate v))
       (se_field ''selection_proof'' (to_hex_from_ssz_type X (fv_ssz_bytes X) (aap_selection_proof v))
       (Ok []))))"

definition de_AggregateAndProof :: "codec \<Rightarrow> ssz_serde \<Rightarrow> json \<Rightarrow> AggregateAndProof res" where
  "de_AggregateAndProof X S j =
     rbind (struct_fields [''aggregator_index'', ''aggregate'',
              ''selection_proof''] j) (\<lambda>vs.
     rbind (required (vs ! 0) (de_quoted_u64 X)) (\<lambda>x0.
     rbind (required (vs ! 1) (de_Attestation X S)) (\<lambda>x1.
     rbind (required (vs ! 2) (from_hex_to_ssz_type X (fv_from X 96))) (\<lambda>x2.
     Ok \<lparr>aap_aggregator_index = x0, aap_aggregate = x1, aap_selection_proof = x2\<rparr>))))"

definition se_AggregateAndProofRequest :: "codec \<Rightarrow> ssz_serde \<Rightarrow> AggregateAndProofRequest \<Rightarrow> json res" where
  "se_AggregateAndProofRequest X S v =
     se_struct
       (se_field ''fork_info'' (se_ForkInfo X (apr_fork_info v))
       (se_skip_none ''signingRoot'' (se_signing_root X) (apr_signingRoot v)
       (se_field ''aggregate_and_proof'' (se_AggregateAndProof X S (apr_aggregate_and_proof v))
       (Ok []))))"

definition de_AggregateAndProofRequest :: "codec \<Rightarrow> ssz_serde \<Rightarrow> json \<Rightarrow> AggregateAndProofRequest res" where
  "de_AggregateAndProofRequest X S j =
     rbind (struct_fields [''fork_info'', ''signingRoot'',
              ''aggregate_and_proof''] j) (\<lambda>vs.
     rbind (required (vs ! 0) (de_ForkInfo X)) (\<lambda>x0.
     rbind (default_field None (vs ! 1) (de_signing_root X)) (\<lambda>x1.
     rbind (required (vs ! 2) (de_AggregateAndProof X S)) (\<lambda>x2.
     Ok \<lparr>apr_fork_info = x0, apr_signingRoot = x1, apr_aggregate_and_proof = x2\<rparr>))))"

definition se_AggregationSlot :: "codec \<Rightarrow> AggregationSlot \<Rightarrow> json res" where
  "se_AggregationSlot X v =
     se_struct
       (se_field ''slot'' (se_quoted_u64 X (asl_slot v))
       (Ok []))"

definition de_AggregationSlot :: "codec \<Rightarrow> json \<Rightarrow> AggregationSlot res" where
  "de_AggregationSlot X j =
     rbind (struct_fields [''slot''] j) (\<lambda>vs.
     rbind (required (vs ! 0) (de_quoted_u64 X)) (\<lambda>x0.
     Ok \<lparr>asl_slot = x0\<rparr>))"

definition se_AggregationSlotRequest :: "codec \<Rightarrow> AggregationSlotRequest \<Rightarrow> json res" where
  "se_AggregationSlotRequest X v =
     se_struct
       (se_field ''fork_info'' (se_ForkInfo X (asr_fork_info v))
       (se_skip_none ''signingRoot'' (se_signing_root X) (asr_signingRoot v)
       (se_field ''aggregation_slot'' (se_AggregationSlot X (asr_aggregation_slot v))
       (Ok []))))"

definition de_AggregationSlotRequest :: "codec \<Rightarrow> json \<Rightarrow> AggregationSlotRequest res" where
  "de_AggregationSlotRequest X j =
     rbind (struct_fields [''fork_info'', ''signingRoot'', ''aggregation_slot''] j) (\<lambda>vs.
     rbind (required (vs ! 0) (de_ForkInfo X)) (\<lambda>x0.
     rbind (default_field None (vs ! 1) (de_signing_root X)) (\<lambda>x1.
     rbind (required (vs ! 2) (de_AggregationSlot X)) (\<lambda>x2.
     Ok \<lparr>asr_fork_info = x0, asr_signingRoot = x1, asr_aggregation_slot = x2\<rparr>))))"

definition se_DepositMessage :: "codec \<Rightarrow> DepositMessage \<Rightarrow> json res" where
  "se_DepositMessage X v =
     se_struct
       (se_field ''pubkey'' (to_hex_from_ssz_type X (fv_ssz_bytes X) (dm_pubkey v))
       (se_field ''withdrawal_credentials'' (se_serhex X (dm_withdrawal_credentials v))
       (se_field ''amount'' (se_quoted_u64 X (dm_amount v))
       (Ok []))))"

definition de_DepositMessage :: "codec \<Rightarrow> json \<Rightarrow> DepositMessage res" where
  "de_DepositMessage X j =
     rbind (struct_fields [''pubkey'', ''withdrawal_credentials'', ''amount''] j) (\<lambda>vs.
     rbind (required (vs ! 0) (from_hex_to_ssz_type X (fv_from X 48))) (\<lambda>x0.
     rbind (required (vs ! 1) (de_serhex X 32)) (\<lambda>x1.
     rbind (required (vs ! 2) (de_quoted_u64 X)) (\<lambda>x2.
     Ok \<lparr>dm_pubkey = x0, dm_withdrawal_credentials = x1, dm_amount = x2\<rparr>))))"

definition se_DepositRequest :: "codec \<Rightarrow> DepositRequest \<Rightarrow> json res" where
  "se_DepositRequest X v =
     se_struct
       (se_skip_none ''signingRoot'' (se_signing_root X) (dr_signingRoot v)
       (se_field ''deposit'' (se_DepositMessage X (dr_deposit v))
       (se_field ''genesis_fork_version'' (se_serhex X (dr_genesis_fork_version v))
       (Ok []))))"

definition de_DepositRequest :: "codec \<Rightarrow> json \<Rightarrow> DepositRequest res" where
  "de_DepositRequest X j =
     rbind (struct_fields [''signingRoot'', ''deposit'',
              ''genesis_fork_version''] j) (\<lambda>vs.
     rbind (default_field None (vs ! 0) (de_signing_root X)) (\<lambda>x0.
     rbind (required (vs ! 1) (de_DepositMessage X)) (\<lambda>x1.
     rbind (required (vs ! 2) (de_serhex X 4)) (\<lambda>x2.
     Ok \<lparr>dr_signingRoot = x0, dr_deposit = x1, dr_genesis_fork_version = x2\<rparr>))))"

definition se_VoluntaryExitRequest :: "codec \<Rightarrow> VoluntaryExitRequest \<Rightarrow> json res" where
  "se_VoluntaryExitRequest X v =
     se_struct
       (se_field ''fork_info'' (se_ForkInfo X (ver_fork_info v))
       (se_skip_none ''signingRoot'' (se_signing_root X) (ver_signingRoot v)
       (se_field ''voluntary_exit'' (se_VoluntaryExit X (ver_voluntary_exit v))
       (Ok []))))"

definition de_VoluntaryExitRequest :: "codec \<Rightarrow> json \<Rightarrow> VoluntaryExitRequest res" where
  "de_VoluntaryExitRequest X j =
     rbind (struct_fields [''fork_info'', ''signingRoot'', ''voluntary_exit''] j) (\<lambda>vs.
     rbind (required (vs ! 0) (de_ForkInfo X)) (\<lambda>x0.
     rbind (default_field None (vs ! 1) (de_signing_root X)) (\<lambda>x1.
     rbind (required (vs ! 2) (de_VoluntaryExit X)) (\<lambda>x2.
     Ok \<lparr>ver_fork_info = x0, ver_signingRoot = x1, ver_voluntary_exit = x2\<rparr>))))"

definition se_SyncCommitteeMessageRequestWrapper :: "codec \<Rightarrow> SyncCommitteeMessageRequestWrapper \<Rightarrow> json res" where
  "se_SyncCommitteeMessageRequestWrapper X v =
     se_struct
       (se_field ''slot'' (se_quoted_u64 X (smw_slot v))
       (se_field ''beacon_block_root'' (se_serhex X (smw_beacon_block_root v))
       (Ok [])))"

definition de_SyncCommitteeMessageRequestWrapper :: "codec \<Rightarrow> json \<Rightarrow> SyncCommitteeMessageRequestWrapper res" where
  "de_SyncCommitteeMessageRequestWrapper X j =
     rbind (struct_fields [''slot'', ''beacon_block_root''] j) (\<lambda>vs.
     rbind (required (vs ! 0) (de_quoted_u64 X)) (\<lambda>x0.
     rbind (required (vs ! 1) (de_serhex X 32)) (\<lambda>x1.
     Ok \<lparr>smw_slot = x0, smw_beacon_block_root = x1\<rparr>)))"

definition se_SyncCommitteeMessageRequest :: "codec \<Rightarrow> SyncCommitteeMessageRequest \<Rightarrow> json res" where
  "se_SyncCommitteeMessageRequest X v =
     se_struct
       (se_field ''fork_info'' (se_ForkInfo X (smr_fork_info v))
       (se_skip_none ''signingRoot'' (se_signing_root X) (smr_signingRoot v)
       (se_field ''sync_committee_message'' (se_SyncCommitteeMessageRequestWrapper X (smr_sync_committee_message v))
       (Ok []))))"

definition de_SyncCommitteeMessageRequest :: "codec \<Rightarrow> json \<Rightarrow> SyncCommitteeMessageRequest res" where
  "de_SyncCommitteeMessageRequest X j =
     rbind (struct_fields [''fork_info'', ''signingRoot'',
              ''sync_committee_message''] j) (\<lambda>vs.
     rbind (required (vs ! 0) (de_ForkInfo X)) (\<lambda>x0.
     rbind (default_field None (vs ! 1) (de_signing_root X)) (\<lambda>x1.
     rbind (required (vs ! 2) (de_SyncCommitteeMessageRequestWrapper X)) (\<lambda>x2.
     Ok \<lparr>smr_fork_info = x0, smr_signingRoot = x1,
         smr_sync_committee_message = x2\<rparr>))))"

definition se_SyncAggregatorSelectionData :: "codec \<Rightarrow> SyncAggregatorSelectionData \<Rightarrow> json res" where
  "se_SyncAggregatorSelectionData X v =
     se_struct
       (se_field ''slot'' (se_quoted_u64 X (sasd_slot v))
       (se_field ''subcommittee_index'' (se_quoted_u64 X (sasd_subcommittee_index v))
       (Ok [])))"

definition de_SyncAggregatorSelectionData :: "codec \<Rightarrow> json \<Rightarrow> SyncAggregatorSelectionData res" where
  "de_SyncAggregatorSelectionData X j =
     rbind (struct_fields [''slot'', ''subcommittee_index''] j) (\<lambda>vs.
     rbind (required (vs ! 0) (de_quoted_u64 X)) (\<lambda>x0.
     rbind (required (vs ! 1) (de_quoted_u64 X)) (\<lambda>x1.
     Ok \<lparr>sasd_slot = x0, sasd_subcommittee_index = x1\<rparr>)))"

definition se_SyncCommitteeSelectionProofRequest :: "codec \<Rightarrow> SyncCommitteeSelectionProofRequest \<Rightarrow> json res" where
  "se_SyncCommitteeSelectionProofRequest X v =
     se_struct
       (se_field ''fork_info'' (se_ForkInfo X (spr_fork_info v))
       (se_skip_none ''signingRoot'' (se_signing_root X) (spr_signingRoot v)
       (se_field ''sync_aggregator_selection_data'' (se_SyncAggregatorSelectionData X (spr_sync_aggregator_selection_data v))
       (Ok []))))"

definition de_SyncCommitteeSelectionProofRequest :: "codec \<Rightarrow> json \<Rightarrow> SyncCommitteeSelectionProofRequest res" where
  "de_SyncCommitteeSelectionProofRequest X j =
     rbind (struct_fields [''fork_info'', ''signingRoot'',
              ''sync_aggregator_selection_data''] j) (\<lambda>vs.
     rbind (required (vs ! 0) (de_ForkInfo X)) (\<lambda>x0.
     rbind (default_field None (vs ! 1) (de_signing_root X)) (\<lambda>x1.
     rbind (required (vs ! 2) (de_SyncAggregatorSelectionData X)) (\<lambda>x2.
     Ok \<lparr>spr_fork_info = x0, spr_signingRoot = x1,
         spr_sync_aggregator_selection_data = x2\<rparr>))))"

definition se_SyncCommitteeContribution :: "codec \<Rightarrow> ssz_serde \<Rightarrow> SyncCommitteeContribution \<Rightarrow> json res" where
  "se_SyncCommitteeContribution X S v =
     se_struct
       (se_field ''slot'' (se_quoted_u64 X (scc_slot v))
       (se_field ''beacon_block_root'' (se_serhex X (scc_beacon_block_root v))
       (se_field ''subcommittee_index'' (se_quoted_u64 X (scc_subcommittee_index v))
       (se_field ''aggregation_bits'' (to_hex_from_ssz_type X (bitvector_to_ssz S) (scc_aggregation_bits v))
       (se_field ''signature'' (to_hex_from_ssz_type X (fv_ssz_bytes X) (scc_signature v))
       (Ok []))))))"

definition de_SyncCommitteeContribution :: "codec \<Rightarrow> ssz_serde \<Rightarrow> json \<Rightarrow> SyncCommitteeContribution res" where
  "de_SyncCommitteeContribution X S j =
     rbind (struct_fields [''slot'', ''beacon_block_root'', ''subcommittee_index'',
              ''aggregation_bits'', ''signature''] j) (\<lambda>vs.
     rbind (required (vs ! 0) (de_quoted_u64 X)) (\<lambda>x0.
     rbind (required (vs ! 1) (de_serhex X 32)) (\<lambda>x1.
     rbind (required (vs ! 2) (de_quoted_u64 X)) (\<lambda>x2.
     rbind (required (vs ! 3) (from_hex_to_ssz_bits_type X (bitvector_from_ssz S SYNC_COMMITTEE_SIZE_BY_SYNC_COMMITTEE_SUBNET_COUNT))) (\<lambda>x3.
     rbind (required (vs ! 4) (from_hex_to_ssz_type X (fv_from X 96))) (\<lambda>x4.
     Ok \<lparr>scc_slot = x0, scc_beacon_block_root = x1, scc_subcommittee_index = x2,
         scc_aggregation_bits = x3, scc_signature = x4\<rparr>))))))"

definition se_ContributionAndProof :: "codec \<Rightarrow> ssz_serde \<Rightarrow> ContributionAndProof \<Rightarrow> json res" where
  "se_ContributionAndProof X S v =
     se_struct
       (se_field ''aggregator_index'' (se_quoted_u64 X (cap_aggregator_index v))
       (se_field ''contribution'' (se_SyncCommitteeContribution X S (cap_contribution v))
       (se_field ''selection_proof'' (to_hex_from_ssz_type X (fv_ssz_bytes X) (cap_selection_proof v))
       (Ok []))))"

definition de_ContributionAndProof :: "codec \<Rightarrow> ssz_serde \<Rightarrow> json \<Rightarrow> ContributionAndProof res" where
  "de_ContributionAndProof X S j =
     rbind (struct_fields [''aggregator_index'', ''contribution'',
              ''selection_proof''] j) (\<lambda>vs.
     rbind (required (vs ! 0) (de_quoted_u64 X)) (\<lambda>x0.
     rbind (required (vs ! 1) (de_SyncCommitteeContribution X S)) (\<lambda>x1.
     rbind (required (vs ! 2) (from_hex_to_ssz_type X (fv_from X 96))) (\<lambda>x2.
     Ok \<lparr>cap_aggregator_index = x0, cap_contribution = x1,
         cap_selection_proof = x2\<rparr>))))"

definition se_SyncCommitteeContributionAndProofRequest :: "codec \<Rightarrow> ssz_serde \<Rightarrow> SyncCommitteeContributionAndProofRequest \<Rightarrow> json res" where
  "se_SyncCommitteeContributionAndProofRequest X S v =
     se_struct
       (se_field ''fork_info'' (se_ForkInfo X (scr_fork_info v))
       (se_skip_none ''signingRoot'' (se_signing_root X) (scr_signingRoot v)
       (se_field ''contribution_and_proof'' (se_ContributionAndProof X S (scr_contribution_and_proof v))
       (Ok []))))"

definition de_SyncCommitteeContributionAndProofRequest :: "codec \<Rightarrow> ssz_serde \<Rightarrow> json \<Rightarrow> SyncCommitteeContributionAndProofRequest res" where
  "de_SyncCommitteeContributionAndProofRequest X S j =
     rbind (struct_fields [''fork_info'', ''signingRoot'',
              ''contribution_and_proof''] j) (\<lambda>vs.
     rbind (required (vs ! 0) (de_ForkInfo X)) (\<lambda>x0.
     rbind (default_field None (vs ! 1) (de_signing_root X)) (\<lambda>x1.
     rbind (required (vs ! 2) (de_ContributionAndProof X S)) (\<lambda>x2.
     Ok \<lparr>scr_fork_info = x0, scr_signingRoot = x1,
         scr_contribution_and_proof = x2\<rparr>))))"

definition se_ValidatorRegistration :: "codec \<Rightarrow> ValidatorRegistration \<Rightarrow> json res" where
  "se_ValidatorRegistration X v =
     se_struct
       (se_field ''fee_recipient'' (to_hex_from_ssz_type X (fv_ssz_bytes X) (vr_fee_recipient v))
       (se_field ''gas_limit'' (se_quoted_u64 X (vr_gas_limit v))
       (se_field ''timestamp'' (se_quoted_u64 X (vr_timestamp v))
       (se_field ''pubkey'' (to_hex_from_ssz_type X (fv_ssz_bytes X) (vr_pubkey v))
       (Ok [])))))"

definition de_ValidatorRegistration :: "codec \<Rightarrow> json \<Rightarrow> ValidatorRegistration res" where
  "de_ValidatorRegistration X j =
     rbind (struct_fields [''fee_recipient'', ''gas_limit'', ''timestamp'',
              ''pubkey''] j) (\<lambda>vs.
     rbind (required (vs ! 0) (from_hex_to_ssz_type X (fv_from X 20))) (\<lambda>x0.
     rbind (required (vs ! 1) (de_quoted_u64 X)) (\<lambda>x1.
     rbind (required (vs ! 2) (de_quoted_u64 X)) (\<lambda>x2.
     rbind (required (vs ! 3) (from_hex_to_ssz_type X (fv_from X 48))) (\<lambda>x3.
     Ok \<lparr>vr_fee_recipient = x0, vr_gas_limit = x1, vr_timestamp = x2,
         vr_pubkey = x3\<rparr>)))))"

definition se_ValidatorRegistrationRequest :: "codec \<Rightarrow> ValidatorRegistrationRequest \<Rightarrow> json res" where
  "se_ValidatorRegistrationRequest X v =
     se_struct
       (se_skip_none ''signingRoot'' (se_signing_root X) (vrr_signingRoot v)
       (se_field ''validator_registration'' (se_ValidatorRegistration X (vrr_validator_registration v))
       (Ok [])))"

definition de_ValidatorRegistrationRequest :: "codec \<Rightarrow> json \<Rightarrow> ValidatorRegistrationRequest res" where
  "de_ValidatorRegistrationRequest X j =
     rbind (struct_fields [''signingRoot'', ''validator_registration''] j) (\<lambda>vs.
     rbind (default_field None (vs ! 0) (de_signing_root X)) (\<lambda>x0.
     rbind (required (vs ! 1) (de_ValidatorRegistration X)) (\<lambda>x1.
     Ok \<lparr>vrr_signingRoot = x0, vrr_validator_registration = x1\<rparr>)))"

definition se_DepositResponse :: "codec \<Rightarrow> DepositResponse \<Rightarrow> json res" where
  "se_DepositResponse X v =
     se_struct
       (se_field ''pubkey'' (se_string (dres_pubkey v))
       (se_field ''withdrawal_credentials'' (se_string (dres_withdrawal_credentials v))
       (se_field ''amount'' (se_u64 (dres_amount v))
       (se_field ''signature'' (se_string (dres_signature v))
       (se_field ''deposit_message_root'' (se_string (dres_deposit_message_root v))
       (se_field ''deposit_data_root'' (se_string (dres_deposit_data_root v))
       (Ok [])))))))"

definition de_DepositResponse :: "codec \<Rightarrow> json \<Rightarrow> DepositResponse res" where
  "de_DepositResponse X j =
     rbind (struct_fields [''pubkey'', ''withdrawal_credentials'', ''amount'', ''signature'',
              ''deposit_message_root'', ''deposit_data_root''] j) (\<lambda>vs.
     rbind (required (vs ! 0) de_str) (\<lambda>x0.
     rbind (required (vs ! 1) de_str) (\<lambda>x1.
     rbind (required (vs ! 2) de_u64) (\<lambda>x2.
     rbind (required (vs ! 3) de_str) (\<lambda>x3.
     rbind (required (vs ! 4) de_str) (\<lambda>x4.
     rbind (required (vs ! 5) de_str) (\<lambda>x5.
     Ok \<lparr>dres_pubkey = x0, dres_withdrawal_credentials = x1, dres_amount = x2,
         dres_signature = x3, dres_deposit_message_root = x4,
         dres_deposit_data_root = x5\<rparr>)))))))"

section \<open>Signing messages\<close>

text \<open>
  \<open>#[serde(tag = "type")]\<close>: the variant's name is one more field of the object, in front
  when it is written, anywhere when it is read; an array starts with it.
\<close>

definition se_tagged :: "string \<Rightarrow> json res \<Rightarrow> json res" where
  "se_tagged tag r = rbind r (\<lambda>j. case j of
       JObj kvs \<Rightarrow> Ok (JObj ((''type'', JStr tag) # kvs))
     | _ \<Rightarrow> Err (External ''cannot serialize tagged newtype variant''))"

definition de_tagged :: "json \<Rightarrow> (string \<times> json) res" where
  "de_tagged j = (case j of
       JObj kvs \<Rightarrow>
         (case field_values ''type'' kvs of
            [] \<Rightarrow> Err (External ''missing field'')
          | [t] \<Rightarrow> rbind (de_str t) (\<lambda>tag. Ok (tag, JObj (filter (\<lambda>kv. fst kv \<noteq> ''type'') kvs)))
          | _ \<Rightarrow> Err (External ''duplicate field''))
     | JArr (t # js) \<Rightarrow> rbind (de_str t) (\<lambda>tag. Ok (tag, JArr js))
     | _ \<Rightarrow> Err (External ''invalid type: expected internally tagged enum''))"

fun se_BLSSignMsg :: "codec \<Rightarrow> ssz_serde \<Rightarrow> BLSSignMsg \<Rightarrow> json res" where
  "se_BLSSignMsg X S (BLOCK m) = se_tagged ''BLOCK'' (se_BlockRequest X S m)"
| "se_BLSSignMsg X S (BLOCK_V2 m) = se_tagged ''BLOCK_V2'' (se_BlockV2Request X m)"
| "se_BLSSignMsg X S (ATTESTATION m) = se_tagged ''ATTESTATION'' (se_AttestationRequest X m)"
| "se_BLSSignMsg X S (RANDAO_REVEAL m) = se_tagged ''RANDAO_REVEAL'' (se_RandaoRevealRequest X m)"
| "se_BLSSignMsg X S (AGGREGATE_AND_PROOF m) = se_tagged ''AGGREGATE_AND_PROOF'' (se_AggregateAndProofRequest X S m)"
| "se_BLSSignMsg X S (AGGREGATION_SLOT m) = se_tagged ''AGGREGATION_SLOT'' (se_AggregationSlotRequest X m)"
| "se_BLSSignMsg X S (DEPOSIT m) = se_tagged ''DEPOSIT'' (se_DepositRequest X m)"
| "se_BLSSignMsg X S (VOLUNTARY_EXIT m) = se_tagged ''VOLUNTARY_EXIT'' (se_VoluntaryExitRequest X m)"
| "se_BLSSignMsg X S (SYNC_COMMITTEE_MESSAGE m) = se_tagged ''SYNC_COMMITTEE_MESSAGE'' (se_SyncCommitteeMessageRequest X m)"
| "se_BLSSignMsg X S (SYNC_COMMITTEE_SELECTION_PROOF m) = se_tagged ''SYNC_COMMITTEE_SELECTION_PROOF'' (se_SyncCommitteeSelectionProofRequest X m)"
| "se_BLSSignMsg X S (SYNC_COMMITTEE_CONTRIBUTION_AND_PROOF m) = se_tagged ''SYNC_COMMITTEE_CONTRIBUTION_AND_PROOF'' (se_SyncCommitteeContributionAndProofRequest X S m)"
| "se_BLSSignMsg X S (VALIDATOR_REGISTRATION m) = se_tagged ''VALIDATOR_REGISTRATION'' (se_ValidatorRegistrationRequest X m)"
| "se_BLSSignMsg X S (block m) = se_tagged ''block'' (se_BlockRequest X S m)"
| "se_BLSSignMsg X S (block_v2 m) = se_tagged ''block_v2'' (se_BlockV2Request X m)"
| "se_BLSSignMsg X S (attestation m) = se_tagged ''attestation'' (se_AttestationRequest X m)"
| "se_BLSSignMsg X S (randao_reveal m) = se_tagged ''randao_reveal'' (se_RandaoRevealRequest X m)"
| "se_BLSSignMsg X S (aggregate_and_proof m) = se_tagged ''aggregate_and_proof'' (se_AggregateAndProofRequest X S m)"
| "se_BLSSignMsg X S (aggregation_slot m) = se_tagged ''aggregation_slot'' (se_AggregationSlotRequest X m)"
| "se_BLSSignMsg X S (deposit m) = se_tagged ''deposit'' (se_DepositRequest X m)"
| "se_BLSSignMsg X S (voluntary_exit m) = se_tagged ''voluntary_exit'' (se_VoluntaryExitRequest X m)"
| "se_BLSSignMsg X S (sync_committee_message m) = se_tagged ''sync_committee_message'' (se_SyncCommitteeMessageRequest X m)"
| "se_BLSSignMsg X S (sync_committee_selection_proof m) = se_tagged ''sync_committee_selection_proof'' (se_SyncCommitteeSelectionProofRequest X m)"
| "se_BLSSignMsg X S (sync_committee_contribution_and_proof m) = se_tagged ''sync_committee_contribution_and_proof'' (se_SyncCommitteeContributionAndProofRequest X S m)"
| "se_BLSSignMsg X S (validator_registration m) = se_tagged ''validator_registration'' (se_ValidatorRegistrationRequest X m)"

definition de_BLSSignMsg :: "codec \<Rightarrow> ssz_serde \<Rightarrow> json \<Rightarrow> BLSSignMsg res" where
  "de_BLSSignMsg X S j =
     rbind (de_tagged j) (\<lambda>(tag, c).
     if tag = ''BLOCK'' then rbind (de_BlockRequest X S c) (\<lambda>m. Ok (BLOCK m))
     else if tag = ''BLOCK_V2'' then rbind (de_BlockV2Request X c) (\<lambda>m. Ok (BLOCK_V2 m))
     else if tag = ''ATTESTATION'' then rbind (de_AttestationRequest X c) (\<lambda>m. Ok (ATTESTATION m))
     else if tag = ''RANDAO_REVEAL'' then rbind (de_RandaoRevealRequest X c) (\<lambda>m. Ok (RANDAO_REVEAL m))
     else if tag = ''AGGREGATE_AND_PROOF'' then rbind (de_AggregateAndProofRequest X S c) (\<lambda>m. Ok (AGGREGATE_AND_PROOF m))
     else if tag = ''AGGREGATION_SLOT'' then rbind (de_AggregationSlotRequest X c) (\<lambda>m. Ok (AGGREGATION_SLOT m))
     else if tag = ''DEPOSIT'' then rbind (de_DepositRequest X c) (\<lambda>m. Ok (DEPOSIT m))
     else if tag = ''VOLUNTARY_EXIT'' then rbind (de_VoluntaryExitRequest X c) (\<lambda>m. Ok (VOLUNTARY_EXIT m))
     else if tag = ''SYNC_COMMITTEE_MESSAGE'' then rbind (de_SyncCommitteeMessageRequest X c) (\<lambda>m. Ok (SYNC_COMMITTEE_MESSAGE m))
     else if tag = ''SYNC_COMMITTEE_SELECTION_PROOF'' then rbind (de_SyncCommitteeSelectionProofRequest X c) (\<lambda>m. Ok (SYNC_COMMITTEE_SELECTION_PROOF m))
     else if tag = ''SYNC_COMMITTEE_CONTRIBUTION_AND_PROOF'' then rbind (de_SyncCommitteeContributionAndProofRequest X S c) (\<lambda>m. Ok (SYNC_COMMITTEE_CONTRIBUTION_AND_PROOF m))
     else if tag = ''VALIDATOR_REGISTRATION'' then rbind (de_ValidatorRegistrationRequest X c) (\<lambda>m. Ok (VALIDATOR_REGISTRATION m))
     else if tag = ''block'' then rbind (de_BlockRequest X S c) (\<lambda>m. Ok (block m))
     else if tag = ''block_v2'' then rbind (de_BlockV2Request X c) (\<lambda>m. Ok (block_v2 m))
     else if tag = ''attestation'' then rbind (de_AttestationRequest X c) (\<lambda>m. Ok (attestation m))
     else if tag = ''randao_reveal'' then rbind (de_RandaoRevealRequest X c) (\<lambda>m. Ok (randao_reveal m))
     else if tag = ''aggregate_and_proof'' then rbind (de_AggregateAndProofRequest X S c) (\<lambda>m. Ok (aggregate_and_proof m))
     else if tag = ''aggregation_slot'' then rbind (de_AggregationSlotRequest X c) (\<lambda>m. Ok (aggregation_slot m))
     else if tag = ''deposit'' then rbind (de_DepositRequest X c) (\<lambda>m. Ok (deposit m))
     else if tag = ''voluntary_exit'' then rbind (de_VoluntaryExitRequest X c) (\<lambda>m. Ok (voluntary_exit m))
     else if tag = ''sync_committee_message'' then rbind (de_SyncCommitteeMessageRequest X c) (\<lambda>m. Ok (sync_committee_message m))
     else if tag = ''sync_committee_selection_proof'' then rbind (de_SyncCommitteeSelectionProofRequest X c) (\<lambda>m. Ok (sync_committee_selection_proof m))
     else if tag = ''sync_committee_contribution_and_proof'' then rbind (de_SyncCommitteeContributionAndProofRequest X S c) (\<lambda>m. Ok (sync_committee_contribution_and_proof m))
     else if tag = ''validator_registration'' then rbind (de_ValidatorRegistrationRequest X c) (\<lambda>m. Ok (validator_registration m))
     else Err (External ''unknown variant''))"

end
