(* ===== verification/Eth_Json_Laws.thy ===== *)
theory Eth_Json_Laws
  imports Eth_Json
begin

text \<open>
  Every signing message whose fields have the lengths of their types survives its JSON
  form: what one program writes with these derives the other reads as the same message. The
  256-bit fields of a block must be at least \<open>2 ^ 192\<close> (see \<open>from_u256_string\<close>).
\<close>

section \<open>Values that survive the JSON form\<close>

definition wf_bytes :: "nat \<Rightarrow> bytes \<Rightarrow> bool" where
  "wf_bytes n b \<longleftrightarrow> length b = n"

definition wf_vl :: "nat \<Rightarrow> ('a \<Rightarrow> bool) \<Rightarrow> 'a list \<Rightarrow> bool" where
  "wf_vl n P xs \<longleftrightarrow> length xs \<le> n \<and> list_all P xs"

definition wf_fv :: "nat \<Rightarrow> ('a \<Rightarrow> bool) \<Rightarrow> 'a list \<Rightarrow> bool" where
  "wf_fv n P xs \<longleftrightarrow> length xs = n \<and> list_all P xs"

definition wf_u256 :: "U256 \<Rightarrow> bool" where
  "wf_u256 ds \<longleftrightarrow> length ds = 4 \<and> 2 ^ 192 \<le> u64_digits_val ds"

definition wf_root_option :: "Root option \<Rightarrow> bool" where
  "wf_root_option r \<longleftrightarrow> (case r of None \<Rightarrow> True | Some b \<Rightarrow> length b = 32)"

section \<open>Containers and leaves\<close>

lemma is_ok_leaves [simp]:
  "is_ok (se_serhex X b)" "is_ok (se_quoted_u64 X n)" "is_ok (to_hex_from_ssz_type X as_ssz d)"
  "is_ok (se_string s)" "is_ok (se_u64 n)" "is_ok (se_bool t)" "is_ok (se_u8_array b)"
  "is_ok (to_u256_string X u)" "is_ok (se_signing_root X (Some b))" "is_ok (to_hex_vec_from_ssz_type X vs)"
  by (simp_all add: se_serhex_def se_quoted_u64_def to_hex_from_ssz_type_def se_string_def se_u64_def se_bool_def
      se_u8_array_def to_u256_string_def se_signing_root_def to_hex_vec_from_ssz_type_def)

lemma is_ok_se_vec [simp]: "is_ok (se_vec se xs) \<longleftrightarrow> (\<forall>x \<in> set xs. is_ok (se x))"
  by (cases "mapM se xs") (use is_ok_mapM[of se xs] in \<open>auto simp: se_vec_def\<close>)

lemma printable_leaves [simp]:
  "codec_laws X \<Longrightarrow> printable (the_ok (se_serhex X b))"
  "codec_laws X \<Longrightarrow> printable (the_ok (se_quoted_u64 X n))"
  "codec_laws X \<Longrightarrow> printable (the_ok (to_hex_from_ssz_type X as_ssz d))"
  "is_utf8 s \<Longrightarrow> printable (the_ok (se_string s))"
  "printable (the_ok (se_u64 n))" "printable (the_ok (se_bool t))" "printable (the_ok (se_u8_array b))"
  "biguint_laws X \<Longrightarrow> printable (the_ok (to_u256_string X u))"
  "codec_laws X \<Longrightarrow> printable (the_ok (se_signing_root X (Some b)))"
  "codec_laws X \<Longrightarrow> printable (the_ok (to_hex_vec_from_ssz_type X vs))"
  by (auto simp: se_serhex_def se_quoted_u64_def to_hex_from_ssz_type_def se_string_def se_u64_def se_bool_def
      se_u8_array_def to_u256_string_def se_signing_root_def to_hex_vec_from_ssz_type_def codec_lawsD
      codec_lawsD(4)[unfolded serhex_laws_def] biguint_laws_def)

lemma printable_se_vec [simp]:
  "\<forall>x \<in> set xs. is_ok (se x) \<and> printable (the_ok (se x)) \<Longrightarrow> printable (the_ok (se_vec se xs))"
  by (simp add: se_vec_def mapM_the_ok)

lemma de_leaves [simp]:
  "codec_laws X \<Longrightarrow> length b = n \<Longrightarrow> de_serhex X n (the_ok (se_serhex X b)) = Ok b"
  "codec_laws X \<Longrightarrow> de_quoted_u64 X (the_ok (se_quoted_u64 X m)) = Ok m"
  "codec_laws X \<Longrightarrow> length b = n \<Longrightarrow>
     from_hex_to_ssz_type X (fv_from X n) (the_ok (to_hex_from_ssz_type X (fv_ssz_bytes X) b)) = Ok b"
  "is_utf8 s \<Longrightarrow> de_str (the_ok (se_string s)) = Ok s"
  "de_u64 (the_ok (se_u64 m)) = Ok m" "de_bool (the_ok (se_bool t)) = Ok t"
  "length b = n \<Longrightarrow> de_u8_array n (the_ok (se_u8_array b)) = Ok b"
  using codes_serhex codes_quoted codes_hex_ssz codes_string codes_u64 codes_bool codes_u8_array
  by (blast dest: json_codesD(3))+

lemma de_root [simp]:
  "codec_laws X \<Longrightarrow> length b = 32 \<Longrightarrow> de_signing_root X (the_ok (se_signing_root X (Some b))) = Ok (Some b)"
  by (simp add: codes_root)

lemma de_bits [simp]:
  "codec_laws X \<Longrightarrow> ssz_serde_laws S \<Longrightarrow> length b \<le> n \<Longrightarrow>
     from_hex_to_ssz_bits_type X (bitlist_from_ssz S n) (the_ok (to_hex_from_ssz_type X (bitlist_to_ssz S) b)) = Ok b"
  "codec_laws X \<Longrightarrow> ssz_serde_laws S \<Longrightarrow> length b = n \<Longrightarrow>
     from_hex_to_ssz_bits_type X (bitvector_from_ssz S n) (the_ok (to_hex_from_ssz_type X (bitvector_to_ssz S) b)) = Ok b"
  "codec_laws X \<Longrightarrow> ssz_serde_laws S \<Longrightarrow> length d \<le> n \<Longrightarrow>
     from_hex_to_ssz_type X (vl_from S n) (the_ok (to_hex_from_ssz_type X (vec_ssz_bytes X) d)) = Ok d"
  by (auto simp: from_hex_to_ssz_bits_type_def from_hex_to_ssz_type_def to_hex_from_ssz_type_def de_str_def
      codec_lawsD ssz_serde_laws_def)

lemma de_vl_codes [simp]:
  assumes "ssz_serde_laws S" "length xs \<le> n" "\<forall>x \<in> set xs. is_ok (se x) \<and> de (the_ok (se x)) = Ok x"
  shows "de_vl S n de (the_ok (se_vec se xs)) = Ok xs"
proof -
  have "mapM de (map (\<lambda>x. the_ok (se x)) xs) = Ok xs" using assms(3) by (induction xs) auto
  then show ?thesis using assms by (simp add: de_vl_def de_vec_def se_vec_def mapM_the_ok ssz_serde_laws_def)
qed

lemma de_fv_codes [simp]:
  assumes "ssz_serde_laws S" "length xs = n" "\<forall>x \<in> set xs. is_ok (se x) \<and> de (the_ok (se x)) = Ok x"
  shows "de_fv S n de (the_ok (se_vec se xs)) = Ok xs"
proof -
  have "mapM de (map (\<lambda>x. the_ok (se x)) xs) = Ok xs" using assms(3) by (induction xs) auto
  then show ?thesis using assms by (simp add: de_fv_def de_vec_def se_vec_def mapM_the_ok ssz_serde_laws_def)
qed

lemma de_transaction [simp]:
  "ssz_serde_laws S \<Longrightarrow> length t \<le> n \<Longrightarrow> de_vl S n de_u8 (the_ok (se_u8_array t)) = Ok t"
  by (simp add: de_vl_def de_vec_def se_u8_array_def u8_array_roundtrip ssz_serde_laws_def)

lemma de_commitments [simp]:
  assumes "codec_laws X" "length vs \<le> n" "\<forall>v \<in> set vs. length v = 48"
  shows "from_hex_vec_to_ssz_type X n (the_ok (to_hex_vec_from_ssz_type X vs)) = Ok vs"
proof -
  have "mapM de_str (map (\<lambda>d. JStr (''0x'' @ hex_encode X d)) vs) = Ok (map (\<lambda>d. ''0x'' @ hex_encode X d) vs)"
    by (induction vs) (simp_all add: de_str_def)
  then show ?thesis
    using assms hex_vec_loop_roundtrip[OF codec_lawsD(1,5)[OF assms(1)] assms(3), of "[]"]
    by (simp add: from_hex_vec_to_ssz_type_def to_hex_vec_from_ssz_type_def de_string_vec_def codec_lawsD
        codec_lawsD(5)[unfolded ssz_laws_def] comp_def)
qed

text \<open>A 256-bit number that needs its top digit has one form with four digits.\<close>

lemma u64_digits_val_inject:
  "length ds = length es \<Longrightarrow> u64_digits_val ds = u64_digits_val es \<Longrightarrow> ds = es"
proof (induction ds es rule: list_induct2)
  case Nil
  then show ?case by simp
next
  case (Cons d ds e es)
  have b: "unat d < 2 ^ 64" "unat e < 2 ^ 64"
    using unsigned_less[of d, where ?'a = nat] unsigned_less[of e, where ?'a = nat] by simp_all
  have "(unat d + 2 ^ 64 * u64_digits_val ds) mod 2 ^ 64 = (unat e + 2 ^ 64 * u64_digits_val es) mod 2 ^ 64"
    using Cons.prems by simp
  then have "unat d = unat e" using b by simp
  with Cons show ?case by (simp add: word_unat_eq_iff)
qed

lemma de_u256 [simp]:
  assumes "biguint_laws X" "wf_u256 ds"
  shows "from_u256_string X (the_ok (to_u256_string X ds)) = Ok ds"
proof -
  have l: "length ds = 4" "2 ^ 192 \<le> u64_digits_val ds" using assms(2) by (auto simp: wf_u256_def)
  have "u64_digits_val ds < 2 ^ 256" using u64_digits_val_upper[of ds] l(1) by simp
  then have "length (biguint_to_u64_digits X (u64_digits_val ds)) = 4"
    using to_u64_digits_length_4[OF assms(1)] l(2) by blast
  moreover from this have "biguint_to_u64_digits X (u64_digits_val ds) = ds"
    using assms(1) l(1) by (intro u64_digits_val_inject) (simp_all add: biguint_laws_def)
  ultimately show ?thesis
    using assms(1) by (simp add: from_u256_string_def to_u256_string_def de_str_def biguint_laws_def)
qed

lemmas codes_simps =
  json_codes_def se_struct_def se_field_def se_skip_none_def struct_fields_object required_def
  default_field_def wf_bytes_def wf_vl_def wf_fv_def wf_root_option_def list_all_iff

section \<open>Structs\<close>

definition wf_Fork :: "Fork \<Rightarrow> bool" where
  "wf_Fork v \<longleftrightarrow>
     length (fork_previous_version v) = 4 \<and>
     length (fork_current_version v) = 4"

lemma codes_Fork:
  assumes "codec_laws X" "wf_Fork v"
  shows "json_codes (se_Fork X) (de_Fork X) v"
  using assms by (cases v) (simp add: se_Fork_def de_Fork_def wf_Fork_def codes_simps)

lemmas codes_Fork_facts [simp] = codes_Fork[THEN json_codesD(1)] codes_Fork[THEN json_codesD(2)] codes_Fork[THEN json_codesD(3)]

definition wf_ForkInfo :: "ForkInfo \<Rightarrow> bool" where
  "wf_ForkInfo v \<longleftrightarrow>
     wf_Fork (fi_fork v) \<and>
     length (fi_genesis_validators_root v) = 32"

lemma codes_ForkInfo:
  assumes "codec_laws X" "wf_ForkInfo v"
  shows "json_codes (se_ForkInfo X) (de_ForkInfo X) v"
  using assms by (cases v) (simp add: se_ForkInfo_def de_ForkInfo_def wf_ForkInfo_def codes_simps)

lemmas codes_ForkInfo_facts [simp] = codes_ForkInfo[THEN json_codesD(1)] codes_ForkInfo[THEN json_codesD(2)] codes_ForkInfo[THEN json_codesD(3)]

definition wf_BeaconBlockHeader :: "BeaconBlockHeader \<Rightarrow> bool" where
  "wf_BeaconBlockHeader v \<longleftrightarrow>
     length (bbh_parent_root v) = 32 \<and>
     length (bbh_state_root v) = 32 \<and>
     length (bbh_body_root v) = 32"

lemma codes_BeaconBlockHeader:
  assumes "codec_laws X" "wf_BeaconBlockHeader v"
  shows "json_codes (se_BeaconBlockHeader X) (de_BeaconBlockHeader X) v"
  using assms by (cases v) (simp add: se_BeaconBlockHeader_def de_BeaconBlockHeader_def wf_BeaconBlockHeader_def codes_simps)

lemmas codes_BeaconBlockHeader_facts [simp] = codes_BeaconBlockHeader[THEN json_codesD(1)] codes_BeaconBlockHeader[THEN json_codesD(2)] codes_BeaconBlockHeader[THEN json_codesD(3)]

definition wf_SignedBeaconBlockHeader :: "SignedBeaconBlockHeader \<Rightarrow> bool" where
  "wf_SignedBeaconBlockHeader v \<longleftrightarrow>
     wf_BeaconBlockHeader (sbbh_message v) \<and>
     length (sbbh_signature v) = 96"

lemma codes_SignedBeaconBlockHeader:
  assumes "codec_laws X" "wf_SignedBeaconBlockHeader v"
  shows "json_codes (se_SignedBeaconBlockHeader X) (de_SignedBeaconBlockHeader X) v"
  using assms by (cases v) (simp add: se_SignedBeaconBlockHeader_def de_SignedBeaconBlockHeader_def wf_SignedBeaconBlockHeader_def codes_simps)

lemmas codes_SignedBeaconBlockHeader_facts [simp] = codes_SignedBeaconBlockHeader[THEN json_codesD(1)] codes_SignedBeaconBlockHeader[THEN json_codesD(2)] codes_SignedBeaconBlockHeader[THEN json_codesD(3)]

definition wf_ProposerSlashing :: "ProposerSlashing \<Rightarrow> bool" where
  "wf_ProposerSlashing v \<longleftrightarrow>
     wf_SignedBeaconBlockHeader (ps_signed_header_1 v) \<and>
     wf_SignedBeaconBlockHeader (ps_signed_header_2 v)"

lemma codes_ProposerSlashing:
  assumes "codec_laws X" "wf_ProposerSlashing v"
  shows "json_codes (se_ProposerSlashing X) (de_ProposerSlashing X) v"
  using assms by (cases v) (simp add: se_ProposerSlashing_def de_ProposerSlashing_def wf_ProposerSlashing_def codes_simps)

lemmas codes_ProposerSlashing_facts [simp] = codes_ProposerSlashing[THEN json_codesD(1)] codes_ProposerSlashing[THEN json_codesD(2)] codes_ProposerSlashing[THEN json_codesD(3)]

definition wf_Checkpoint :: "Checkpoint \<Rightarrow> bool" where
  "wf_Checkpoint v \<longleftrightarrow>
     length (cp_root v) = 32"

lemma codes_Checkpoint:
  assumes "codec_laws X" "wf_Checkpoint v"
  shows "json_codes (se_Checkpoint X) (de_Checkpoint X) v"
  using assms by (cases v) (simp add: se_Checkpoint_def de_Checkpoint_def wf_Checkpoint_def codes_simps)

lemmas codes_Checkpoint_facts [simp] = codes_Checkpoint[THEN json_codesD(1)] codes_Checkpoint[THEN json_codesD(2)] codes_Checkpoint[THEN json_codesD(3)]

definition wf_AttestationData :: "AttestationData \<Rightarrow> bool" where
  "wf_AttestationData v \<longleftrightarrow>
     length (ad_beacon_block_root v) = 32 \<and>
     wf_Checkpoint (ad_source v) \<and>
     wf_Checkpoint (ad_target v)"

lemma codes_AttestationData:
  assumes "codec_laws X" "wf_AttestationData v"
  shows "json_codes (se_AttestationData X) (de_AttestationData X) v"
  using assms by (cases v) (simp add: se_AttestationData_def de_AttestationData_def wf_AttestationData_def codes_simps)

lemmas codes_AttestationData_facts [simp] = codes_AttestationData[THEN json_codesD(1)] codes_AttestationData[THEN json_codesD(2)] codes_AttestationData[THEN json_codesD(3)]

definition wf_IndexedAttestation :: "IndexedAttestation \<Rightarrow> bool" where
  "wf_IndexedAttestation v \<longleftrightarrow>
     wf_vl MAX_VALIDATORS_PER_COMMITTEE (\<lambda>_. True) (ia_attesting_indices v) \<and>
     wf_AttestationData (ia_data v) \<and>
     length (ia_signature v) = 96"

lemma codes_IndexedAttestation:
  assumes "codec_laws X" "ssz_serde_laws S" "wf_IndexedAttestation v"
  shows "json_codes (se_IndexedAttestation X S) (de_IndexedAttestation X S) v"
  using assms by (cases v) (simp add: se_IndexedAttestation_def de_IndexedAttestation_def wf_IndexedAttestation_def codes_simps)

lemmas codes_IndexedAttestation_facts [simp] = codes_IndexedAttestation[THEN json_codesD(1)] codes_IndexedAttestation[THEN json_codesD(2)] codes_IndexedAttestation[THEN json_codesD(3)]

definition wf_AttesterSlashing :: "AttesterSlashing \<Rightarrow> bool" where
  "wf_AttesterSlashing v \<longleftrightarrow>
     wf_IndexedAttestation (atsl_attestation_1 v) \<and>
     wf_IndexedAttestation (atsl_attestation_2 v)"

lemma codes_AttesterSlashing:
  assumes "codec_laws X" "ssz_serde_laws S" "wf_AttesterSlashing v"
  shows "json_codes (se_AttesterSlashing X S) (de_AttesterSlashing X S) v"
  using assms by (cases v) (simp add: se_AttesterSlashing_def de_AttesterSlashing_def wf_AttesterSlashing_def codes_simps)

lemmas codes_AttesterSlashing_facts [simp] = codes_AttesterSlashing[THEN json_codesD(1)] codes_AttesterSlashing[THEN json_codesD(2)] codes_AttesterSlashing[THEN json_codesD(3)]

definition wf_Eth1Data :: "Eth1Data \<Rightarrow> bool" where
  "wf_Eth1Data v \<longleftrightarrow>
     length (ed_deposit_root v) = 32 \<and>
     length (ed_block_hash v) = 32"

lemma codes_Eth1Data:
  assumes "codec_laws X" "wf_Eth1Data v"
  shows "json_codes (se_Eth1Data X) (de_Eth1Data X) v"
  using assms by (cases v) (simp add: se_Eth1Data_def de_Eth1Data_def wf_Eth1Data_def codes_simps)

lemmas codes_Eth1Data_facts [simp] = codes_Eth1Data[THEN json_codesD(1)] codes_Eth1Data[THEN json_codesD(2)] codes_Eth1Data[THEN json_codesD(3)]

definition wf_DepositData :: "DepositData \<Rightarrow> bool" where
  "wf_DepositData v \<longleftrightarrow>
     length (dd_pubkey v) = 48 \<and>
     length (dd_withdrawal_credentials v) = 32 \<and>
     length (dd_signature v) = 96"

lemma codes_DepositData:
  assumes "codec_laws X" "wf_DepositData v"
  shows "json_codes (se_DepositData X) (de_DepositData X) v"
  using assms by (cases v) (simp add: se_DepositData_def de_DepositData_def wf_DepositData_def codes_simps)

lemmas codes_DepositData_facts [simp] = codes_DepositData[THEN json_codesD(1)] codes_DepositData[THEN json_codesD(2)] codes_DepositData[THEN json_codesD(3)]

definition wf_Deposit :: "Deposit \<Rightarrow> bool" where
  "wf_Deposit v \<longleftrightarrow>
     wf_fv DEPOSIT_CONTRACT_TREE_DEPTH_PLUS_ONE (wf_bytes 32) (dep_proof v) \<and>
     wf_DepositData (dep_data v)"

lemma codes_Deposit:
  assumes "codec_laws X" "ssz_serde_laws S" "wf_Deposit v"
  shows "json_codes (se_Deposit X S) (de_Deposit X S) v"
  using assms by (cases v) (simp add: se_Deposit_def de_Deposit_def wf_Deposit_def codes_simps)

lemmas codes_Deposit_facts [simp] = codes_Deposit[THEN json_codesD(1)] codes_Deposit[THEN json_codesD(2)] codes_Deposit[THEN json_codesD(3)]

definition wf_VoluntaryExit :: "VoluntaryExit \<Rightarrow> bool" where
  "wf_VoluntaryExit v \<longleftrightarrow>
     True"

lemma codes_VoluntaryExit:
  assumes "codec_laws X" "wf_VoluntaryExit v"
  shows "json_codes (se_VoluntaryExit X) (de_VoluntaryExit X) v"
  using assms by (cases v) (simp add: se_VoluntaryExit_def de_VoluntaryExit_def wf_VoluntaryExit_def codes_simps)

lemmas codes_VoluntaryExit_facts [simp] = codes_VoluntaryExit[THEN json_codesD(1)] codes_VoluntaryExit[THEN json_codesD(2)] codes_VoluntaryExit[THEN json_codesD(3)]

definition wf_SignedVoluntaryExit :: "SignedVoluntaryExit \<Rightarrow> bool" where
  "wf_SignedVoluntaryExit v \<longleftrightarrow>
     wf_VoluntaryExit (sve_message v) \<and>
     length (sve_signature v) = 96"

lemma codes_SignedVoluntaryExit:
  assumes "codec_laws X" "wf_SignedVoluntaryExit v"
  shows "json_codes (se_SignedVoluntaryExit X) (de_SignedVoluntaryExit X) v"
  using assms by (cases v) (simp add: se_SignedVoluntaryExit_def de_SignedVoluntaryExit_def wf_SignedVoluntaryExit_def codes_simps)

lemmas codes_SignedVoluntaryExit_facts [simp] = codes_SignedVoluntaryExit[THEN json_codesD(1)] codes_SignedVoluntaryExit[THEN json_codesD(2)] codes_SignedVoluntaryExit[THEN json_codesD(3)]

definition wf_Attestation :: "Attestation \<Rightarrow> bool" where
  "wf_Attestation v \<longleftrightarrow>
     length (att_aggregation_bits v) \<le> MAX_VALIDATORS_PER_COMMITTEE \<and>
     wf_AttestationData (att_data v) \<and>
     length (att_signature v) = 96"

lemma codes_Attestation:
  assumes "codec_laws X" "ssz_serde_laws S" "wf_Attestation v"
  shows "json_codes (se_Attestation X S) (de_Attestation X S) v"
  using assms by (cases v) (simp add: se_Attestation_def de_Attestation_def wf_Attestation_def codes_simps)

lemmas codes_Attestation_facts [simp] = codes_Attestation[THEN json_codesD(1)] codes_Attestation[THEN json_codesD(2)] codes_Attestation[THEN json_codesD(3)]

definition wf_SyncAggregate :: "SyncAggregate \<Rightarrow> bool" where
  "wf_SyncAggregate v \<longleftrightarrow>
     length (sa_sync_committee_bits v) = SYNC_COMMITTEE_SIZE \<and>
     length (sa_sync_committee_signature v) = 96"

lemma codes_SyncAggregate:
  assumes "codec_laws X" "ssz_serde_laws S" "wf_SyncAggregate v"
  shows "json_codes (se_SyncAggregate X S) (de_SyncAggregate X S) v"
  using assms by (cases v) (simp add: se_SyncAggregate_def de_SyncAggregate_def wf_SyncAggregate_def codes_simps)

lemmas codes_SyncAggregate_facts [simp] = codes_SyncAggregate[THEN json_codesD(1)] codes_SyncAggregate[THEN json_codesD(2)] codes_SyncAggregate[THEN json_codesD(3)]

definition wf_Withdrawal :: "Withdrawal \<Rightarrow> bool" where
  "wf_Withdrawal v \<longleftrightarrow>
     length (wd_address v) = 20"

lemma codes_Withdrawal:
  assumes "codec_laws X" "wf_Withdrawal v"
  shows "json_codes (se_Withdrawal X) (de_Withdrawal X) v"
  using assms by (cases v) (simp add: se_Withdrawal_def de_Withdrawal_def wf_Withdrawal_def codes_simps)

lemmas codes_Withdrawal_facts [simp] = codes_Withdrawal[THEN json_codesD(1)] codes_Withdrawal[THEN json_codesD(2)] codes_Withdrawal[THEN json_codesD(3)]

definition wf_ExecutionPayload :: "ExecutionPayload \<Rightarrow> bool" where
  "wf_ExecutionPayload v \<longleftrightarrow>
     length (ep_parent_hash v) = 32 \<and>
     length (ep_fee_recipient v) = 20 \<and>
     length (ep_state_root v) = 32 \<and>
     length (ep_receipts_root v) = 32 \<and>
     length (ep_logs_bloom v) = 256 \<and>
     length (ep_prev_randao v) = 32 \<and>
     length (ep_extra_data v) \<le> MAX_EXTRA_DATA_BYTES \<and>
     wf_u256 (ep_base_fee_per_gas v) \<and>
     length (ep_block_hash v) = 32 \<and>
     wf_vl MAX_TRANSACTIONS_PER_PAYLOAD (\<lambda>t. length t \<le> MAX_BYTES_PER_TRANSACTION) (ep_transactions v) \<and>
     wf_vl MAX_WITHDRAWALS_PER_PAYLOAD wf_Withdrawal (ep_withdrawals v) \<and>
     wf_u256 (ep_excess_data_gas v)"

lemma codes_ExecutionPayload:
  assumes "codec_laws X" "ssz_serde_laws S" "biguint_laws X" "wf_ExecutionPayload v"
  shows "json_codes (se_ExecutionPayload X S) (de_ExecutionPayload X S) v"
  using assms by (cases v) (simp add: se_ExecutionPayload_def de_ExecutionPayload_def wf_ExecutionPayload_def codes_simps)

lemmas codes_ExecutionPayload_facts [simp] = codes_ExecutionPayload[THEN json_codesD(1)] codes_ExecutionPayload[THEN json_codesD(2)] codes_ExecutionPayload[THEN json_codesD(3)]

definition wf_BLSToExecutionChange :: "BLSToExecutionChange \<Rightarrow> bool" where
  "wf_BLSToExecutionChange v \<longleftrightarrow>
     length (btec_from_bls_pubkey v) = 48 \<and>
     length (btec_to_execution_address v) = 20"

lemma codes_BLSToExecutionChange:
  assumes "codec_laws X" "wf_BLSToExecutionChange v"
  shows "json_codes (se_BLSToExecutionChange X) (de_BLSToExecutionChange X) v"
  using assms by (cases v) (simp add: se_BLSToExecutionChange_def de_BLSToExecutionChange_def wf_BLSToExecutionChange_def codes_simps)

lemmas codes_BLSToExecutionChange_facts [simp] = codes_BLSToExecutionChange[THEN json_codesD(1)] codes_BLSToExecutionChange[THEN json_codesD(2)] codes_BLSToExecutionChange[THEN json_codesD(3)]

definition wf_SignedBLSToExecutionChange :: "SignedBLSToExecutionChange \<Rightarrow> bool" where
  "wf_SignedBLSToExecutionChange v \<longleftrightarrow>
     wf_BLSToExecutionChange (sbtec_message v) \<and>
     length (sbtec_signature v) = 96"

lemma codes_SignedBLSToExecutionChange:
  assumes "codec_laws X" "wf_SignedBLSToExecutionChange v"
  shows "json_codes (se_SignedBLSToExecutionChange X) (de_SignedBLSToExecutionChange X) v"
  using assms by (cases v) (simp add: se_SignedBLSToExecutionChange_def de_SignedBLSToExecutionChange_def wf_SignedBLSToExecutionChange_def codes_simps)

lemmas codes_SignedBLSToExecutionChange_facts [simp] = codes_SignedBLSToExecutionChange[THEN json_codesD(1)] codes_SignedBLSToExecutionChange[THEN json_codesD(2)] codes_SignedBLSToExecutionChange[THEN json_codesD(3)]

definition wf_BeaconBlockBody :: "BeaconBlockBody \<Rightarrow> bool" where
  "wf_BeaconBlockBody v \<longleftrightarrow>
     length (bbb_randao_reveal v) = 96 \<and>
     wf_Eth1Data (bbb_eth1_data v) \<and>
     length (bbb_graffiti v) = 32 \<and>
     wf_vl MAX_PROPOSER_SLASHINGS wf_ProposerSlashing (bbb_proposer_slashings v) \<and>
     wf_vl MAX_ATTESTER_SLASHINGS wf_AttesterSlashing (bbb_attester_slashings v) \<and>
     wf_vl MAX_ATTESTATIONS wf_Attestation (bbb_attestations v) \<and>
     wf_vl MAX_DEPOSITS wf_Deposit (bbb_deposits v) \<and>
     wf_vl MAX_VOLUNTARY_EXITS wf_SignedVoluntaryExit (bbb_voluntary_exits v) \<and>
     wf_SyncAggregate (bbb_sync_aggregate v) \<and>
     wf_ExecutionPayload (bbb_execution_payload v) \<and>
     wf_vl MAX_BLS_TO_EXECUTION_CHANGES wf_SignedBLSToExecutionChange (bbb_bls_to_execution_changes v) \<and>
     wf_vl MAX_BLOB_COMMITMENTS_PER_BLOCK (wf_bytes 48) (bbb_blob_kzg_commitments v)"

lemma codes_BeaconBlockBody:
  assumes "codec_laws X" "ssz_serde_laws S" "biguint_laws X" "wf_BeaconBlockBody v"
  shows "json_codes (se_BeaconBlockBody X S) (de_BeaconBlockBody X S) v"
  using assms by (cases v) (simp add: se_BeaconBlockBody_def de_BeaconBlockBody_def wf_BeaconBlockBody_def codes_simps)

lemmas codes_BeaconBlockBody_facts [simp] = codes_BeaconBlockBody[THEN json_codesD(1)] codes_BeaconBlockBody[THEN json_codesD(2)] codes_BeaconBlockBody[THEN json_codesD(3)]

definition wf_BeaconBlock :: "BeaconBlock \<Rightarrow> bool" where
  "wf_BeaconBlock v \<longleftrightarrow>
     length (bb_parent_root v) = 32 \<and>
     length (bb_state_root v) = 32 \<and>
     wf_BeaconBlockBody (bb_body v)"

lemma codes_BeaconBlock:
  assumes "codec_laws X" "ssz_serde_laws S" "biguint_laws X" "wf_BeaconBlock v"
  shows "json_codes (se_BeaconBlock X S) (de_BeaconBlock X S) v"
  using assms by (cases v) (simp add: se_BeaconBlock_def de_BeaconBlock_def wf_BeaconBlock_def codes_simps)

lemmas codes_BeaconBlock_facts [simp] = codes_BeaconBlock[THEN json_codesD(1)] codes_BeaconBlock[THEN json_codesD(2)] codes_BeaconBlock[THEN json_codesD(3)]

definition wf_BlockRequest :: "BlockRequest \<Rightarrow> bool" where
  "wf_BlockRequest v \<longleftrightarrow>
     wf_ForkInfo (br_fork_info v) \<and>
     wf_root_option (br_signingRoot v) \<and>
     wf_BeaconBlock (br_block v)"

lemma codes_BlockRequest:
  assumes "codec_laws X" "ssz_serde_laws S" "biguint_laws X" "wf_BlockRequest v"
  shows "json_codes (se_BlockRequest X S) (de_BlockRequest X S) v"
  using assms by (cases "br_signingRoot v"; cases v) (simp_all add: se_BlockRequest_def de_BlockRequest_def wf_BlockRequest_def codes_simps)

lemmas codes_BlockRequest_facts [simp] = codes_BlockRequest[THEN json_codesD(1)] codes_BlockRequest[THEN json_codesD(2)] codes_BlockRequest[THEN json_codesD(3)]

definition wf_BlockV2RequestWrapper :: "BlockV2RequestWrapper \<Rightarrow> bool" where
  "wf_BlockV2RequestWrapper v \<longleftrightarrow>
     is_utf8 (b2w_version v) \<and>
     wf_BeaconBlockHeader (b2w_block_header v)"

lemma codes_BlockV2RequestWrapper:
  assumes "codec_laws X" "wf_BlockV2RequestWrapper v"
  shows "json_codes (se_BlockV2RequestWrapper X) (de_BlockV2RequestWrapper X) v"
  using assms by (cases v) (simp add: se_BlockV2RequestWrapper_def de_BlockV2RequestWrapper_def wf_BlockV2RequestWrapper_def codes_simps)

lemmas codes_BlockV2RequestWrapper_facts [simp] = codes_BlockV2RequestWrapper[THEN json_codesD(1)] codes_BlockV2RequestWrapper[THEN json_codesD(2)] codes_BlockV2RequestWrapper[THEN json_codesD(3)]

definition wf_BlockV2Request :: "BlockV2Request \<Rightarrow> bool" where
  "wf_BlockV2Request v \<longleftrightarrow>
     wf_ForkInfo (b2r_fork_info v) \<and>
     wf_root_option (b2r_signingRoot v) \<and>
     wf_BlockV2RequestWrapper (b2r_beacon_block v)"

lemma codes_BlockV2Request:
  assumes "codec_laws X" "wf_BlockV2Request v"
  shows "json_codes (se_BlockV2Request X) (de_BlockV2Request X) v"
  using assms by (cases "b2r_signingRoot v"; cases v) (simp_all add: se_BlockV2Request_def de_BlockV2Request_def wf_BlockV2Request_def codes_simps)

lemmas codes_BlockV2Request_facts [simp] = codes_BlockV2Request[THEN json_codesD(1)] codes_BlockV2Request[THEN json_codesD(2)] codes_BlockV2Request[THEN json_codesD(3)]

definition wf_AttestationRequest :: "AttestationRequest \<Rightarrow> bool" where
  "wf_AttestationRequest v \<longleftrightarrow>
     wf_ForkInfo (ar_fork_info v) \<and>
     wf_root_option (ar_signingRoot v) \<and>
     wf_AttestationData (ar_attestation v)"

lemma codes_AttestationRequest:
  assumes "codec_laws X" "wf_AttestationRequest v"
  shows "json_codes (se_AttestationRequest X) (de_AttestationRequest X) v"
  using assms by (cases "ar_signingRoot v"; cases v) (simp_all add: se_AttestationRequest_def de_AttestationRequest_def wf_AttestationRequest_def codes_simps)

lemmas codes_AttestationRequest_facts [simp] = codes_AttestationRequest[THEN json_codesD(1)] codes_AttestationRequest[THEN json_codesD(2)] codes_AttestationRequest[THEN json_codesD(3)]

definition wf_RandaoReveal :: "RandaoReveal \<Rightarrow> bool" where
  "wf_RandaoReveal v \<longleftrightarrow>
     True"

lemma codes_RandaoReveal:
  assumes "codec_laws X" "wf_RandaoReveal v"
  shows "json_codes (se_RandaoReveal X) (de_RandaoReveal X) v"
  using assms by (cases v) (simp add: se_RandaoReveal_def de_RandaoReveal_def wf_RandaoReveal_def codes_simps)

lemmas codes_RandaoReveal_facts [simp] = codes_RandaoReveal[THEN json_codesD(1)] codes_RandaoReveal[THEN json_codesD(2)] codes_RandaoReveal[THEN json_codesD(3)]

definition wf_RandaoRevealRequest :: "RandaoRevealRequest \<Rightarrow> bool" where
  "wf_RandaoRevealRequest v \<longleftrightarrow>
     wf_ForkInfo (rrr_fork_info v) \<and>
     wf_root_option (rrr_signingRoot v) \<and>
     wf_RandaoReveal (rrr_randao_reveal v)"

lemma codes_RandaoRevealRequest:
  assumes "codec_laws X" "wf_RandaoRevealRequest v"
  shows "json_codes (se_RandaoRevealRequest X) (de_RandaoRevealRequest X) v"
  using assms by (cases "rrr_signingRoot v"; cases v) (simp_all add: se_RandaoRevealRequest_def de_RandaoRevealRequest_def wf_RandaoRevealRequest_def codes_simps)

lemmas codes_RandaoRevealRequest_facts [simp] = codes_RandaoRevealRequest[THEN json_codesD(1)] codes_RandaoRevealRequest[THEN json_codesD(2)] codes_RandaoRevealRequest[THEN json_codesD(3)]

definition wf_AggregateAndProof :: "AggregateAndProof \<Rightarrow> bool" where
  "wf_AggregateAndProof v \<longleftrightarrow>
     wf_Attestation (aap_aggregate v) \<and>
     length (aap_selection_proof v) = 96"

lemma codes_AggregateAndProof:
  assumes "codec_laws X" "ssz_serde_laws S" "wf_AggregateAndProof v"
  shows "json_codes (se_AggregateAndProof X S) (de_AggregateAndProof X S) v"
  using assms by (cases v) (simp add: se_AggregateAndProof_def de_AggregateAndProof_def wf_AggregateAndProof_def codes_simps)

lemmas codes_AggregateAndProof_facts [simp] = codes_AggregateAndProof[THEN json_codesD(1)] codes_AggregateAndProof[THEN json_codesD(2)] codes_AggregateAndProof[THEN json_codesD(3)]

definition wf_AggregateAndProofRequest :: "AggregateAndProofRequest \<Rightarrow> bool" where
  "wf_AggregateAndProofRequest v \<longleftrightarrow>
     wf_ForkInfo (apr_fork_info v) \<and>
     wf_root_option (apr_signingRoot v) \<and>
     wf_AggregateAndProof (apr_aggregate_and_proof v)"

lemma codes_AggregateAndProofRequest:
  assumes "codec_laws X" "ssz_serde_laws S" "wf_AggregateAndProofRequest v"
  shows "json_codes (se_AggregateAndProofRequest X S) (de_AggregateAndProofRequest X S) v"
  using assms by (cases "apr_signingRoot v"; cases v) (simp_all add: se_AggregateAndProofRequest_def de_AggregateAndProofRequest_def wf_AggregateAndProofRequest_def codes_simps)

lemmas codes_AggregateAndProofRequest_facts [simp] = codes_AggregateAndProofRequest[THEN json_codesD(1)] codes_AggregateAndProofRequest[THEN json_codesD(2)] codes_AggregateAndProofRequest[THEN json_codesD(3)]

definition wf_AggregationSlot :: "AggregationSlot \<Rightarrow> bool" where
  "wf_AggregationSlot v \<longleftrightarrow>
     True"

lemma codes_AggregationSlot:
  assumes "codec_laws X" "wf_AggregationSlot v"
  shows "json_codes (se_AggregationSlot X) (de_AggregationSlot X) v"
  using assms by (cases v) (simp add: se_AggregationSlot_def de_AggregationSlot_def wf_AggregationSlot_def codes_simps)

lemmas codes_AggregationSlot_facts [simp] = codes_AggregationSlot[THEN json_codesD(1)] codes_AggregationSlot[THEN json_codesD(2)] codes_AggregationSlot[THEN json_codesD(3)]

definition wf_AggregationSlotRequest :: "AggregationSlotRequest \<Rightarrow> bool" where
  "wf_AggregationSlotRequest v \<longleftrightarrow>
     wf_ForkInfo (asr_fork_info v) \<and>
     wf_root_option (asr_signingRoot v) \<and>
     wf_AggregationSlot (asr_aggregation_slot v)"

lemma codes_AggregationSlotRequest:
  assumes "codec_laws X" "wf_AggregationSlotRequest v"
  shows "json_codes (se_AggregationSlotRequest X) (de_AggregationSlotRequest X) v"
  using assms by (cases "asr_signingRoot v"; cases v) (simp_all add: se_AggregationSlotRequest_def de_AggregationSlotRequest_def wf_AggregationSlotRequest_def codes_simps)

lemmas codes_AggregationSlotRequest_facts [simp] = codes_AggregationSlotRequest[THEN json_codesD(1)] codes_AggregationSlotRequest[THEN json_codesD(2)] codes_AggregationSlotRequest[THEN json_codesD(3)]

definition wf_DepositMessage :: "DepositMessage \<Rightarrow> bool" where
  "wf_DepositMessage v \<longleftrightarrow>
     length (dm_pubkey v) = 48 \<and>
     length (dm_withdrawal_credentials v) = 32"

lemma codes_DepositMessage:
  assumes "codec_laws X" "wf_DepositMessage v"
  shows "json_codes (se_DepositMessage X) (de_DepositMessage X) v"
  using assms by (cases v) (simp add: se_DepositMessage_def de_DepositMessage_def wf_DepositMessage_def codes_simps)

lemmas codes_DepositMessage_facts [simp] = codes_DepositMessage[THEN json_codesD(1)] codes_DepositMessage[THEN json_codesD(2)] codes_DepositMessage[THEN json_codesD(3)]

definition wf_DepositRequest :: "DepositRequest \<Rightarrow> bool" where
  "wf_DepositRequest v \<longleftrightarrow>
     wf_root_option (dr_signingRoot v) \<and>
     wf_DepositMessage (dr_deposit v) \<and>
     length (dr_genesis_fork_version v) = 4"

lemma codes_DepositRequest:
  assumes "codec_laws X" "wf_DepositRequest v"
  shows "json_codes (se_DepositRequest X) (de_DepositRequest X) v"
  using assms by (cases "dr_signingRoot v"; cases v) (simp_all add: se_DepositRequest_def de_DepositRequest_def wf_DepositRequest_def codes_simps)

lemmas codes_DepositRequest_facts [simp] = codes_DepositRequest[THEN json_codesD(1)] codes_DepositRequest[THEN json_codesD(2)] codes_DepositRequest[THEN json_codesD(3)]

definition wf_VoluntaryExitRequest :: "VoluntaryExitRequest \<Rightarrow> bool" where
  "wf_VoluntaryExitRequest v \<longleftrightarrow>
     wf_ForkInfo (ver_fork_info v) \<and>
     wf_root_option (ver_signingRoot v) \<and>
     wf_VoluntaryExit (ver_voluntary_exit v)"

lemma codes_VoluntaryExitRequest:
  assumes "codec_laws X" "wf_VoluntaryExitRequest v"
  shows "json_codes (se_VoluntaryExitRequest X) (de_VoluntaryExitRequest X) v"
  using assms by (cases "ver_signingRoot v"; cases v) (simp_all add: se_VoluntaryExitRequest_def de_VoluntaryExitRequest_def wf_VoluntaryExitRequest_def codes_simps)

lemmas codes_VoluntaryExitRequest_facts [simp] = codes_VoluntaryExitRequest[THEN json_codesD(1)] codes_VoluntaryExitRequest[THEN json_codesD(2)] codes_VoluntaryExitRequest[THEN json_codesD(3)]

definition wf_SyncCommitteeMessageRequestWrapper :: "SyncCommitteeMessageRequestWrapper \<Rightarrow> bool" where
  "wf_SyncCommitteeMessageRequestWrapper v \<longleftrightarrow>
     length (smw_beacon_block_root v) = 32"

lemma codes_SyncCommitteeMessageRequestWrapper:
  assumes "codec_laws X" "wf_SyncCommitteeMessageRequestWrapper v"
  shows "json_codes (se_SyncCommitteeMessageRequestWrapper X) (de_SyncCommitteeMessageRequestWrapper X) v"
  using assms by (cases v) (simp add: se_SyncCommitteeMessageRequestWrapper_def de_SyncCommitteeMessageRequestWrapper_def wf_SyncCommitteeMessageRequestWrapper_def codes_simps)

lemmas codes_SyncCommitteeMessageRequestWrapper_facts [simp] = codes_SyncCommitteeMessageRequestWrapper[THEN json_codesD(1)] codes_SyncCommitteeMessageRequestWrapper[THEN json_codesD(2)] codes_SyncCommitteeMessageRequestWrapper[THEN json_codesD(3)]

definition wf_SyncCommitteeMessageRequest :: "SyncCommitteeMessageRequest \<Rightarrow> bool" where
  "wf_SyncCommitteeMessageRequest v \<longleftrightarrow>
     wf_ForkInfo (smr_fork_info v) \<and>
     wf_root_option (smr_signingRoot v) \<and>
     wf_SyncCommitteeMessageRequestWrapper (smr_sync_committee_message v)"

lemma codes_SyncCommitteeMessageRequest:
  assumes "codec_laws X" "wf_SyncCommitteeMessageRequest v"
  shows "json_codes (se_SyncCommitteeMessageRequest X) (de_SyncCommitteeMessageRequest X) v"
  using assms by (cases "smr_signingRoot v"; cases v) (simp_all add: se_SyncCommitteeMessageRequest_def de_SyncCommitteeMessageRequest_def wf_SyncCommitteeMessageRequest_def codes_simps)

lemmas codes_SyncCommitteeMessageRequest_facts [simp] = codes_SyncCommitteeMessageRequest[THEN json_codesD(1)] codes_SyncCommitteeMessageRequest[THEN json_codesD(2)] codes_SyncCommitteeMessageRequest[THEN json_codesD(3)]

definition wf_SyncAggregatorSelectionData :: "SyncAggregatorSelectionData \<Rightarrow> bool" where
  "wf_SyncAggregatorSelectionData v \<longleftrightarrow>
     True"

lemma codes_SyncAggregatorSelectionData:
  assumes "codec_laws X" "wf_SyncAggregatorSelectionData v"
  shows "json_codes (se_SyncAggregatorSelectionData X) (de_SyncAggregatorSelectionData X) v"
  using assms by (cases v) (simp add: se_SyncAggregatorSelectionData_def de_SyncAggregatorSelectionData_def wf_SyncAggregatorSelectionData_def codes_simps)

lemmas codes_SyncAggregatorSelectionData_facts [simp] = codes_SyncAggregatorSelectionData[THEN json_codesD(1)] codes_SyncAggregatorSelectionData[THEN json_codesD(2)] codes_SyncAggregatorSelectionData[THEN json_codesD(3)]

definition wf_SyncCommitteeSelectionProofRequest :: "SyncCommitteeSelectionProofRequest \<Rightarrow> bool" where
  "wf_SyncCommitteeSelectionProofRequest v \<longleftrightarrow>
     wf_ForkInfo (spr_fork_info v) \<and>
     wf_root_option (spr_signingRoot v) \<and>
     wf_SyncAggregatorSelectionData (spr_sync_aggregator_selection_data v)"

lemma codes_SyncCommitteeSelectionProofRequest:
  assumes "codec_laws X" "wf_SyncCommitteeSelectionProofRequest v"
  shows "json_codes (se_SyncCommitteeSelectionProofRequest X) (de_SyncCommitteeSelectionProofRequest X) v"
  using assms by (cases "spr_signingRoot v"; cases v) (simp_all add: se_SyncCommitteeSelectionProofRequest_def de_SyncCommitteeSelectionProofRequest_def wf_SyncCommitteeSelectionProofRequest_def codes_simps)

lemmas codes_SyncCommitteeSelectionProofRequest_facts [simp] = codes_SyncCommitteeSelectionProofRequest[THEN json_codesD(1)] codes_SyncCommitteeSelectionProofRequest[THEN json_codesD(2)] codes_SyncCommitteeSelectionProofRequest[THEN json_codesD(3)]

definition wf_SyncCommitteeContribution :: "SyncCommitteeContribution \<Rightarrow> bool" where
  "wf_SyncCommitteeContribution v \<longleftrightarrow>
     length (scc_beacon_block_root v) = 32 \<and>
     length (scc_aggregation_bits v) = SYNC_COMMITTEE_SIZE_BY_SYNC_COMMITTEE_SUBNET_COUNT \<and>
     length (scc_signature v) = 96"

lemma codes_SyncCommitteeContribution:
  assumes "codec_laws X" "ssz_serde_laws S" "wf_SyncCommitteeContribution v"
  shows "json_codes (se_SyncCommitteeContribution X S) (de_SyncCommitteeContribution X S) v"
  using assms by (cases v) (simp add: se_SyncCommitteeContribution_def de_SyncCommitteeContribution_def wf_SyncCommitteeContribution_def codes_simps)

lemmas codes_SyncCommitteeContribution_facts [simp] = codes_SyncCommitteeContribution[THEN json_codesD(1)] codes_SyncCommitteeContribution[THEN json_codesD(2)] codes_SyncCommitteeContribution[THEN json_codesD(3)]

definition wf_ContributionAndProof :: "ContributionAndProof \<Rightarrow> bool" where
  "wf_ContributionAndProof v \<longleftrightarrow>
     wf_SyncCommitteeContribution (cap_contribution v) \<and>
     length (cap_selection_proof v) = 96"

lemma codes_ContributionAndProof:
  assumes "codec_laws X" "ssz_serde_laws S" "wf_ContributionAndProof v"
  shows "json_codes (se_ContributionAndProof X S) (de_ContributionAndProof X S) v"
  using assms by (cases v) (simp add: se_ContributionAndProof_def de_ContributionAndProof_def wf_ContributionAndProof_def codes_simps)

lemmas codes_ContributionAndProof_facts [simp] = codes_ContributionAndProof[THEN json_codesD(1)] codes_ContributionAndProof[THEN json_codesD(2)] codes_ContributionAndProof[THEN json_codesD(3)]

definition wf_SyncCommitteeContributionAndProofRequest :: "SyncCommitteeContributionAndProofRequest \<Rightarrow> bool" where
  "wf_SyncCommitteeContributionAndProofRequest v \<longleftrightarrow>
     wf_ForkInfo (scr_fork_info v) \<and>
     wf_root_option (scr_signingRoot v) \<and>
     wf_ContributionAndProof (scr_contribution_and_proof v)"

lemma codes_SyncCommitteeContributionAndProofRequest:
  assumes "codec_laws X" "ssz_serde_laws S" "wf_SyncCommitteeContributionAndProofRequest v"
  shows "json_codes (se_SyncCommitteeContributionAndProofRequest X S) (de_SyncCommitteeContributionAndProofRequest X S) v"
  using assms by (cases "scr_signingRoot v"; cases v) (simp_all add: se_SyncCommitteeContributionAndProofRequest_def de_SyncCommitteeContributionAndProofRequest_def wf_SyncCommitteeContributionAndProofRequest_def codes_simps)

lemmas codes_SyncCommitteeContributionAndProofRequest_facts [simp] = codes_SyncCommitteeContributionAndProofRequest[THEN json_codesD(1)] codes_SyncCommitteeContributionAndProofRequest[THEN json_codesD(2)] codes_SyncCommitteeContributionAndProofRequest[THEN json_codesD(3)]

definition wf_ValidatorRegistration :: "ValidatorRegistration \<Rightarrow> bool" where
  "wf_ValidatorRegistration v \<longleftrightarrow>
     length (vr_fee_recipient v) = 20 \<and>
     length (vr_pubkey v) = 48"

lemma codes_ValidatorRegistration:
  assumes "codec_laws X" "wf_ValidatorRegistration v"
  shows "json_codes (se_ValidatorRegistration X) (de_ValidatorRegistration X) v"
  using assms by (cases v) (simp add: se_ValidatorRegistration_def de_ValidatorRegistration_def wf_ValidatorRegistration_def codes_simps)

lemmas codes_ValidatorRegistration_facts [simp] = codes_ValidatorRegistration[THEN json_codesD(1)] codes_ValidatorRegistration[THEN json_codesD(2)] codes_ValidatorRegistration[THEN json_codesD(3)]

definition wf_ValidatorRegistrationRequest :: "ValidatorRegistrationRequest \<Rightarrow> bool" where
  "wf_ValidatorRegistrationRequest v \<longleftrightarrow>
     wf_root_option (vrr_signingRoot v) \<and>
     wf_ValidatorRegistration (vrr_validator_registration v)"

lemma codes_ValidatorRegistrationRequest:
  assumes "codec_laws X" "wf_ValidatorRegistrationRequest v"
  shows "json_codes (se_ValidatorRegistrationRequest X) (de_ValidatorRegistrationRequest X) v"
  using assms by (cases "vrr_signingRoot v"; cases v) (simp_all add: se_ValidatorRegistrationRequest_def de_ValidatorRegistrationRequest_def wf_ValidatorRegistrationRequest_def codes_simps)

lemmas codes_ValidatorRegistrationRequest_facts [simp] = codes_ValidatorRegistrationRequest[THEN json_codesD(1)] codes_ValidatorRegistrationRequest[THEN json_codesD(2)] codes_ValidatorRegistrationRequest[THEN json_codesD(3)]

definition wf_DepositResponse :: "DepositResponse \<Rightarrow> bool" where
  "wf_DepositResponse v \<longleftrightarrow>
     is_utf8 (dres_pubkey v) \<and>
     is_utf8 (dres_withdrawal_credentials v) \<and>
     is_utf8 (dres_signature v) \<and>
     is_utf8 (dres_deposit_message_root v) \<and>
     is_utf8 (dres_deposit_data_root v)"

lemma codes_DepositResponse:
  assumes "codec_laws X" "wf_DepositResponse v"
  shows "json_codes (se_DepositResponse X) (de_DepositResponse X) v"
  using assms by (cases v) (simp add: se_DepositResponse_def de_DepositResponse_def wf_DepositResponse_def codes_simps)

lemmas codes_DepositResponse_facts [simp] = codes_DepositResponse[THEN json_codesD(1)] codes_DepositResponse[THEN json_codesD(2)] codes_DepositResponse[THEN json_codesD(3)]

section \<open>Signing messages\<close>

text \<open>No struct of a message has a field named \<open>type\<close>.\<close>

definition untyped :: "(string \<times> json) list res \<Rightarrow> bool" where
  "untyped r \<longleftrightarrow> (\<forall>kvs. r = Ok kvs \<longrightarrow> (\<forall>kv \<in> set kvs. fst kv \<noteq> ''type''))"

lemma untyped_intros [simp]:
  "untyped (Ok [])"
  "name \<noteq> ''type'' \<Longrightarrow> untyped rest \<Longrightarrow> untyped (se_field name v rest)"
  "name \<noteq> ''type'' \<Longrightarrow> untyped rest \<Longrightarrow> untyped (se_skip_none name ser r rest)"
  by (fastforce simp: untyped_def se_field_def se_skip_none_def res_simps split: if_splits)+

lemma tagged_codes:
  assumes codes: "json_codes se de v" and struct: "se v = se_struct r" "untyped r" and tag: "is_utf8 tag"
  shows "is_ok (se_tagged tag (se v))" "printable (the_ok (se_tagged tag (se v)))"
    "de_tagged (the_ok (se_tagged tag (se v))) = Ok (tag, the_ok (se v))"
proof -
  obtain j where j: "se v = Ok j" "printable j" using codes by (auto simp: json_codes_iff)
  then obtain kvs where kvs: "r = Ok kvs" "j = JObj kvs"
    using struct(1) by (auto simp: se_struct_def res_simps)
  have fresh: "\<forall>kv \<in> set kvs. fst kv \<noteq> ''type''" using struct(2) kvs(1) by (simp add: untyped_def)
  then have "filter (\<lambda>kv. fst kv = ''type'') kvs = []" "filter (\<lambda>kv. fst kv \<noteq> ''type'') kvs = kvs"
    by (auto simp: filter_empty_conv filter_id_conv)
  then show "is_ok (se_tagged tag (se v))" "printable (the_ok (se_tagged tag (se v)))"
    "de_tagged (the_ok (se_tagged tag (se v))) = Ok (tag, the_ok (se v))"
    using j kvs fresh tag by (auto simp: se_tagged_def de_tagged_def field_values_def de_str_def)
qed

fun wf_BLSSignMsg :: "BLSSignMsg \<Rightarrow> bool" where
  "wf_BLSSignMsg (BLOCK m) = wf_BlockRequest m"
| "wf_BLSSignMsg (BLOCK_V2 m) = wf_BlockV2Request m"
| "wf_BLSSignMsg (ATTESTATION m) = wf_AttestationRequest m"
| "wf_BLSSignMsg (RANDAO_REVEAL m) = wf_RandaoRevealRequest m"
| "wf_BLSSignMsg (AGGREGATE_AND_PROOF m) = wf_AggregateAndProofRequest m"
| "wf_BLSSignMsg (AGGREGATION_SLOT m) = wf_AggregationSlotRequest m"
| "wf_BLSSignMsg (DEPOSIT m) = wf_DepositRequest m"
| "wf_BLSSignMsg (VOLUNTARY_EXIT m) = wf_VoluntaryExitRequest m"
| "wf_BLSSignMsg (SYNC_COMMITTEE_MESSAGE m) = wf_SyncCommitteeMessageRequest m"
| "wf_BLSSignMsg (SYNC_COMMITTEE_SELECTION_PROOF m) = wf_SyncCommitteeSelectionProofRequest m"
| "wf_BLSSignMsg (SYNC_COMMITTEE_CONTRIBUTION_AND_PROOF m) = wf_SyncCommitteeContributionAndProofRequest m"
| "wf_BLSSignMsg (VALIDATOR_REGISTRATION m) = wf_ValidatorRegistrationRequest m"
| "wf_BLSSignMsg (block m) = wf_BlockRequest m"
| "wf_BLSSignMsg (block_v2 m) = wf_BlockV2Request m"
| "wf_BLSSignMsg (attestation m) = wf_AttestationRequest m"
| "wf_BLSSignMsg (randao_reveal m) = wf_RandaoRevealRequest m"
| "wf_BLSSignMsg (aggregate_and_proof m) = wf_AggregateAndProofRequest m"
| "wf_BLSSignMsg (aggregation_slot m) = wf_AggregationSlotRequest m"
| "wf_BLSSignMsg (deposit m) = wf_DepositRequest m"
| "wf_BLSSignMsg (voluntary_exit m) = wf_VoluntaryExitRequest m"
| "wf_BLSSignMsg (sync_committee_message m) = wf_SyncCommitteeMessageRequest m"
| "wf_BLSSignMsg (sync_committee_selection_proof m) = wf_SyncCommitteeSelectionProofRequest m"
| "wf_BLSSignMsg (sync_committee_contribution_and_proof m) = wf_SyncCommitteeContributionAndProofRequest m"
| "wf_BLSSignMsg (validator_registration m) = wf_ValidatorRegistrationRequest m"

lemma untyped_BlockRequest:
  assumes "codec_laws X" "ssz_serde_laws S" "biguint_laws X" "wf_BlockRequest v" "is_utf8 tag"
  shows "is_ok (se_tagged tag (se_BlockRequest X S v))" "printable (the_ok (se_tagged tag (se_BlockRequest X S v)))"
    "de_tagged (the_ok (se_tagged tag (se_BlockRequest X S v))) = Ok (tag, the_ok (se_BlockRequest X S v))"
  by (rule tagged_codes[OF codes_BlockRequest[OF assms(1,2,3,4)] se_BlockRequest_def _ assms(5)], simp)+

lemma untyped_BlockV2Request:
  assumes "codec_laws X" "wf_BlockV2Request v" "is_utf8 tag"
  shows "is_ok (se_tagged tag (se_BlockV2Request X v))" "printable (the_ok (se_tagged tag (se_BlockV2Request X v)))"
    "de_tagged (the_ok (se_tagged tag (se_BlockV2Request X v))) = Ok (tag, the_ok (se_BlockV2Request X v))"
  by (rule tagged_codes[OF codes_BlockV2Request[OF assms(1,2)] se_BlockV2Request_def _ assms(3)], simp)+

lemma untyped_AttestationRequest:
  assumes "codec_laws X" "wf_AttestationRequest v" "is_utf8 tag"
  shows "is_ok (se_tagged tag (se_AttestationRequest X v))" "printable (the_ok (se_tagged tag (se_AttestationRequest X v)))"
    "de_tagged (the_ok (se_tagged tag (se_AttestationRequest X v))) = Ok (tag, the_ok (se_AttestationRequest X v))"
  by (rule tagged_codes[OF codes_AttestationRequest[OF assms(1,2)] se_AttestationRequest_def _ assms(3)], simp)+

lemma untyped_RandaoRevealRequest:
  assumes "codec_laws X" "wf_RandaoRevealRequest v" "is_utf8 tag"
  shows "is_ok (se_tagged tag (se_RandaoRevealRequest X v))" "printable (the_ok (se_tagged tag (se_RandaoRevealRequest X v)))"
    "de_tagged (the_ok (se_tagged tag (se_RandaoRevealRequest X v))) = Ok (tag, the_ok (se_RandaoRevealRequest X v))"
  by (rule tagged_codes[OF codes_RandaoRevealRequest[OF assms(1,2)] se_RandaoRevealRequest_def _ assms(3)], simp)+

lemma untyped_AggregateAndProofRequest:
  assumes "codec_laws X" "ssz_serde_laws S" "wf_AggregateAndProofRequest v" "is_utf8 tag"
  shows "is_ok (se_tagged tag (se_AggregateAndProofRequest X S v))" "printable (the_ok (se_tagged tag (se_AggregateAndProofRequest X S v)))"
    "de_tagged (the_ok (se_tagged tag (se_AggregateAndProofRequest X S v))) = Ok (tag, the_ok (se_AggregateAndProofRequest X S v))"
  by (rule tagged_codes[OF codes_AggregateAndProofRequest[OF assms(1,2,3)] se_AggregateAndProofRequest_def _ assms(4)], simp)+

lemma untyped_AggregationSlotRequest:
  assumes "codec_laws X" "wf_AggregationSlotRequest v" "is_utf8 tag"
  shows "is_ok (se_tagged tag (se_AggregationSlotRequest X v))" "printable (the_ok (se_tagged tag (se_AggregationSlotRequest X v)))"
    "de_tagged (the_ok (se_tagged tag (se_AggregationSlotRequest X v))) = Ok (tag, the_ok (se_AggregationSlotRequest X v))"
  by (rule tagged_codes[OF codes_AggregationSlotRequest[OF assms(1,2)] se_AggregationSlotRequest_def _ assms(3)], simp)+

lemma untyped_DepositRequest:
  assumes "codec_laws X" "wf_DepositRequest v" "is_utf8 tag"
  shows "is_ok (se_tagged tag (se_DepositRequest X v))" "printable (the_ok (se_tagged tag (se_DepositRequest X v)))"
    "de_tagged (the_ok (se_tagged tag (se_DepositRequest X v))) = Ok (tag, the_ok (se_DepositRequest X v))"
  by (rule tagged_codes[OF codes_DepositRequest[OF assms(1,2)] se_DepositRequest_def _ assms(3)], simp)+

lemma untyped_VoluntaryExitRequest:
  assumes "codec_laws X" "wf_VoluntaryExitRequest v" "is_utf8 tag"
  shows "is_ok (se_tagged tag (se_VoluntaryExitRequest X v))" "printable (the_ok (se_tagged tag (se_VoluntaryExitRequest X v)))"
    "de_tagged (the_ok (se_tagged tag (se_VoluntaryExitRequest X v))) = Ok (tag, the_ok (se_VoluntaryExitRequest X v))"
  by (rule tagged_codes[OF codes_VoluntaryExitRequest[OF assms(1,2)] se_VoluntaryExitRequest_def _ assms(3)], simp)+

lemma untyped_SyncCommitteeMessageRequest:
  assumes "codec_laws X" "wf_SyncCommitteeMessageRequest v" "is_utf8 tag"
  shows "is_ok (se_tagged tag (se_SyncCommitteeMessageRequest X v))" "printable (the_ok (se_tagged tag (se_SyncCommitteeMessageRequest X v)))"
    "de_tagged (the_ok (se_tagged tag (se_SyncCommitteeMessageRequest X v))) = Ok (tag, the_ok (se_SyncCommitteeMessageRequest X v))"
  by (rule tagged_codes[OF codes_SyncCommitteeMessageRequest[OF assms(1,2)] se_SyncCommitteeMessageRequest_def _ assms(3)], simp)+

lemma untyped_SyncCommitteeSelectionProofRequest:
  assumes "codec_laws X" "wf_SyncCommitteeSelectionProofRequest v" "is_utf8 tag"
  shows "is_ok (se_tagged tag (se_SyncCommitteeSelectionProofRequest X v))" "printable (the_ok (se_tagged tag (se_SyncCommitteeSelectionProofRequest X v)))"
    "de_tagged (the_ok (se_tagged tag (se_SyncCommitteeSelectionProofRequest X v))) = Ok (tag, the_ok (se_SyncCommitteeSelectionProofRequest X v))"
  by (rule tagged_codes[OF codes_SyncCommitteeSelectionProofRequest[OF assms(1,2)] se_SyncCommitteeSelectionProofRequest_def _ assms(3)], simp)+

lemma untyped_SyncCommitteeContributionAndProofRequest:
  assumes "codec_laws X" "ssz_serde_laws S" "wf_SyncCommitteeContributionAndProofRequest v" "is_utf8 tag"
  shows "is_ok (se_tagged tag (se_SyncCommitteeContributionAndProofRequest X S v))" "printable (the_ok (se_tagged tag (se_SyncCommitteeContributionAndProofRequest X S v)))"
    "de_tagged (the_ok (se_tagged tag (se_SyncCommitteeContributionAndProofRequest X S v))) = Ok (tag, the_ok (se_SyncCommitteeContributionAndProofRequest X S v))"
  by (rule tagged_codes[OF codes_SyncCommitteeContributionAndProofRequest[OF assms(1,2,3)] se_SyncCommitteeContributionAndProofRequest_def _ assms(4)], simp)+

lemma untyped_ValidatorRegistrationRequest:
  assumes "codec_laws X" "wf_ValidatorRegistrationRequest v" "is_utf8 tag"
  shows "is_ok (se_tagged tag (se_ValidatorRegistrationRequest X v))" "printable (the_ok (se_tagged tag (se_ValidatorRegistrationRequest X v)))"
    "de_tagged (the_ok (se_tagged tag (se_ValidatorRegistrationRequest X v))) = Ok (tag, the_ok (se_ValidatorRegistrationRequest X v))"
  by (rule tagged_codes[OF codes_ValidatorRegistrationRequest[OF assms(1,2)] se_ValidatorRegistrationRequest_def _ assms(3)], simp)+

lemmas tags =
  untyped_BlockRequest
  untyped_BlockV2Request
  untyped_AttestationRequest
  untyped_RandaoRevealRequest
  untyped_AggregateAndProofRequest
  untyped_AggregationSlotRequest
  untyped_DepositRequest
  untyped_VoluntaryExitRequest
  untyped_SyncCommitteeMessageRequest
  untyped_SyncCommitteeSelectionProofRequest
  untyped_SyncCommitteeContributionAndProofRequest
  untyped_ValidatorRegistrationRequest


lemma codes_BLSSignMsg:
  assumes "codec_laws X" "ssz_serde_laws S" "biguint_laws X" "wf_BLSSignMsg m"
  shows "json_codes (se_BLSSignMsg X S) (de_BLSSignMsg X S) m"
  using assms by (cases m) (simp_all add: json_codes_def de_BLSSignMsg_def tags)

end
