(* ===== verification/Wire.thy ===== *)
theory Wire
  imports Guardian Eth_Json_Laws
begin

text \<open>
  The JSON forms of the requests and responses of src/enclave/types.rs (and of
  \<open>AttestationEvidence\<close> and \<open>KeygenWithBlockhashRequest\<close>): what the clients
  and the servers of the crate exchange. The form of a public identity and of a secp256k1
  key is that of their crates.
\<close>

record 'epk wire =
  identity_ser :: "PublicIdentity \<Rightarrow> json"
  identity_de :: "json \<Rightarrow> PublicIdentity option"
  epk_ser :: "'epk \<Rightarrow> json"
  epk_de :: "json \<Rightarrow> 'epk option"

text \<open>Both read what they write.\<close>

definition wire_laws :: "'epk wire \<Rightarrow> bool" where
  "wire_laws W \<longleftrightarrow>
     (\<forall>i. printable (identity_ser W i) \<and> identity_de W (identity_ser W i) = Some i) \<and>
     (\<forall>k. printable (epk_ser W k) \<and> epk_de W (epk_ser W k) = Some k)"

definition se_identity :: "'epk wire \<Rightarrow> PublicIdentity \<Rightarrow> json res" where
  "se_identity W i = Ok (identity_ser W i)"

definition de_identity :: "'epk wire \<Rightarrow> json \<Rightarrow> PublicIdentity res" where
  "de_identity W j = ok_or ''PublicIdentity'' (identity_de W j)"

definition se_epk :: "'epk wire \<Rightarrow> 'epk \<Rightarrow> json res" where
  "se_epk W k = Ok (epk_ser W k)"

definition de_epk :: "'epk wire \<Rightarrow> json \<Rightarrow> 'epk res" where
  "de_epk W j = ok_or ''PublicKey'' (epk_de W j)"

section \<open>Structs\<close>

definition se_AttestationEvidence :: "'epk wire \<Rightarrow> AttestationEvidence \<Rightarrow> json res" where
  "se_AttestationEvidence W v =
     se_struct
       (se_field ''session_id'' (se_string (ae_session_id v))
       (se_field ''signature'' (se_string (ae_signature v))
       (se_field ''session_public_key'' (se_identity W (ae_session_public_key v))
       (se_field ''owner_public_key'' (se_identity W (ae_owner_public_key v))
       (Ok [])))))"

definition de_AttestationEvidence :: "'epk wire \<Rightarrow> json \<Rightarrow> AttestationEvidence res" where
  "de_AttestationEvidence W j =
     rbind (struct_fields [''session_id'', ''signature'', ''session_public_key'',
              ''owner_public_key''] j) (\<lambda>vs.
     rbind (required (vs ! 0) de_str) (\<lambda>x0.
     rbind (required (vs ! 1) de_str) (\<lambda>x1.
     rbind (required (vs ! 2) (de_identity W)) (\<lambda>x2.
     rbind (required (vs ! 3) (de_identity W)) (\<lambda>x3.
     Ok \<lparr>ae_session_id = x0, ae_signature = x1, ae_session_public_key = x2,
         ae_owner_public_key = x3\<rparr>)))))"

definition se_KeyGenResponse :: "'epk wire \<Rightarrow> KeyGenResponse \<Rightarrow> json res" where
  "se_KeyGenResponse W v =
     se_struct
       (se_field ''pk_hex'' (se_string (kg_pk_hex v))
       (se_field ''evidence'' (se_AttestationEvidence W (kg_evidence v))
       (Ok [])))"

definition de_KeyGenResponse :: "'epk wire \<Rightarrow> json \<Rightarrow> KeyGenResponse res" where
  "de_KeyGenResponse W j =
     rbind (struct_fields [''pk_hex'', ''evidence''] j) (\<lambda>vs.
     rbind (required (vs ! 0) de_str) (\<lambda>x0.
     rbind (required (vs ! 1) (de_AttestationEvidence W)) (\<lambda>x1.
     Ok \<lparr>kg_pk_hex = x0, kg_evidence = x1\<rparr>)))"

definition se_ListKeysResponseInner :: "ListKeysResponseInner \<Rightarrow> json res" where
  "se_ListKeysResponseInner v =
     se_struct
       (se_field ''pubkey'' (se_string (lk_pubkey v))
       (Ok []))"

definition de_ListKeysResponseInner :: "json \<Rightarrow> ListKeysResponseInner res" where
  "de_ListKeysResponseInner j =
     rbind (struct_fields [''pubkey''] j) (\<lambda>vs.
     rbind (required (vs ! 0) de_str) (\<lambda>x0.
     Ok \<lparr>lk_pubkey = x0\<rparr>))"

definition se_ListKeysResponse :: "ListKeysResponse \<Rightarrow> json res" where
  "se_ListKeysResponse v =
     se_struct
       (se_field ''data'' (se_vec se_ListKeysResponseInner (lk_data v))
       (Ok []))"

definition de_ListKeysResponse :: "json \<Rightarrow> ListKeysResponse res" where
  "de_ListKeysResponse j =
     rbind (struct_fields [''data''] j) (\<lambda>vs.
     rbind (required (vs ! 0) (de_vec de_ListKeysResponseInner)) (\<lambda>x0.
     Ok \<lparr>lk_data = x0\<rparr>))"

definition se_SignatureResponse :: "SignatureResponse \<Rightarrow> json res" where
  "se_SignatureResponse v =
     se_struct
       (se_field ''signature'' (se_string (sr_signature v))
       (Ok []))"

definition de_SignatureResponse :: "json \<Rightarrow> SignatureResponse res" where
  "de_SignatureResponse j =
     rbind (struct_fields [''signature''] j) (\<lambda>vs.
     rbind (required (vs ! 0) de_str) (\<lambda>x0.
     Ok \<lparr>sr_signature = x0\<rparr>))"

definition se_BlsKeygenPayload :: "BlsKeygenPayload \<Rightarrow> json res" where
  "se_BlsKeygenPayload v =
     se_struct
       (se_field ''bls_pub_key_set'' (se_string (bls_pub_key_set v))
       (se_field ''bls_pub_key'' (se_string (bls_pub_key v))
       (se_field ''signature'' (se_string (kp_signature v))
       (se_field ''deposit_data_root'' (se_string (kp_deposit_data_root v))
       (se_field ''bls_enc_priv_key_shares'' (se_vec se_string (bls_enc_priv_key_shares v))
       (se_field ''session_id'' (se_string (session_id v))
       (se_field ''attestation_signature'' (se_string (attestation_signature v))
       (se_field ''session_public_key'' (se_string (session_public_key v))
       (se_field ''guardian_eth_pub_keys'' (se_vec se_string (guardian_eth_pub_keys v))
       (se_field ''withdrawal_credentials'' (se_string (kp_withdrawal_credentials v))
       (se_field ''fork_version'' (se_u8_array (kp_fork_version v))
       (Ok []))))))))))))"

definition de_BlsKeygenPayload :: "json \<Rightarrow> BlsKeygenPayload res" where
  "de_BlsKeygenPayload j =
     rbind (struct_fields [''bls_pub_key_set'', ''bls_pub_key'', ''signature'',
              ''deposit_data_root'', ''bls_enc_priv_key_shares'', ''session_id'',
              ''attestation_signature'', ''session_public_key'', ''guardian_eth_pub_keys'',
              ''withdrawal_credentials'', ''fork_version''] j) (\<lambda>vs.
     rbind (required (vs ! 0) de_str) (\<lambda>x0.
     rbind (required (vs ! 1) de_str) (\<lambda>x1.
     rbind (required (vs ! 2) de_str) (\<lambda>x2.
     rbind (required (vs ! 3) de_str) (\<lambda>x3.
     rbind (required (vs ! 4) (de_vec de_str)) (\<lambda>x4.
     rbind (required (vs ! 5) de_str) (\<lambda>x5.
     rbind (required (vs ! 6) de_str) (\<lambda>x6.
     rbind (required (vs ! 7) de_str) (\<lambda>x7.
     rbind (required (vs ! 8) (de_vec de_str)) (\<lambda>x8.
     rbind (required (vs ! 9) de_str) (\<lambda>x9.
     rbind (required (vs ! 10) (de_u8_array 4)) (\<lambda>x10.
     Ok \<lparr>bls_pub_key_set = x0, bls_pub_key = x1, kp_signature = x2,
         kp_deposit_data_root = x3, bls_enc_priv_key_shares = x4, session_id = x5,
         attestation_signature = x6, session_public_key = x7, guardian_eth_pub_keys = x8,
         kp_withdrawal_credentials = x9, kp_fork_version = x10\<rparr>))))))))))))"

definition se_ValidateCustodyRequest :: "'epk wire \<Rightarrow> 'epk ValidateCustodyRequest \<Rightarrow> json res" where
  "se_ValidateCustodyRequest W v =
     se_struct
       (se_field ''keygenPayload'' (se_BlsKeygenPayload (keygen_payload v))
       (se_field ''guardianEnclavePublicKey'' (se_epk W (guardian_enclave_public_key v))
       (se_field ''workloadId'' (se_string (workload_id v))
       (se_field ''verifySession'' (se_bool (verify_session v))
       (se_field ''validatorIndex'' (se_u64 (vc_validator_index v))
       (Ok []))))))"

definition de_ValidateCustodyRequest :: "'epk wire \<Rightarrow> json \<Rightarrow> 'epk ValidateCustodyRequest res" where
  "de_ValidateCustodyRequest W j =
     rbind (struct_fields [''keygenPayload'', ''guardianEnclavePublicKey'', ''workloadId'',
              ''verifySession'', ''validatorIndex''] j) (\<lambda>vs.
     rbind (required (vs ! 0) de_BlsKeygenPayload) (\<lambda>x0.
     rbind (required (vs ! 1) (de_epk W)) (\<lambda>x1.
     rbind (required (vs ! 2) de_str) (\<lambda>x2.
     rbind (required (vs ! 3) de_bool) (\<lambda>x3.
     rbind (required (vs ! 4) de_u64) (\<lambda>x4.
     Ok \<lparr>keygen_payload = x0, guardian_enclave_public_key = x1, workload_id = x2,
         verify_session = x3, vc_validator_index = x4\<rparr>))))))"

definition se_ValidateCustodyResponse :: "ValidateCustodyResponse \<Rightarrow> json res" where
  "se_ValidateCustodyResponse v =
     se_struct
       (se_field ''enclaveSignature'' (se_string (vc_enclave_signature v))
       (se_field ''blsPubKey'' (se_string (vc_bls_pub_key v))
       (se_field ''withdrawalCredentials'' (se_string (vc_withdrawal_credentials v))
       (se_field ''depositSignature'' (se_string (vc_deposit_signature v))
       (se_field ''depositDataRoot'' (se_string (vc_deposit_data_root v))
       (Ok []))))))"

definition de_ValidateCustodyResponse :: "json \<Rightarrow> ValidateCustodyResponse res" where
  "de_ValidateCustodyResponse j =
     rbind (struct_fields [''enclaveSignature'', ''blsPubKey'', ''withdrawalCredentials'',
              ''depositSignature'', ''depositDataRoot''] j) (\<lambda>vs.
     rbind (required (vs ! 0) de_str) (\<lambda>x0.
     rbind (required (vs ! 1) de_str) (\<lambda>x1.
     rbind (required (vs ! 2) de_str) (\<lambda>x2.
     rbind (required (vs ! 3) de_str) (\<lambda>x3.
     rbind (required (vs ! 4) de_str) (\<lambda>x4.
     Ok \<lparr>vc_enclave_signature = x0, vc_bls_pub_key = x1, vc_withdrawal_credentials = x2,
         vc_deposit_signature = x3, vc_deposit_data_root = x4\<rparr>))))))"

definition se_SignExitRequest :: "codec \<Rightarrow> SignExitRequest \<Rightarrow> json res" where
  "se_SignExitRequest X v =
     se_struct
       (se_field ''blsPubKeySet'' (se_string (se_bls_pub_key_set v))
       (se_field ''guardianIndex'' (se_u64 (se_guardian_index v))
       (se_field ''validatorIndex'' (se_u64 (se_validator_index v))
       (se_field ''forkInfo'' (se_ForkInfo X (se_fork_info v))
       (Ok [])))))"

definition de_SignExitRequest :: "codec \<Rightarrow> json \<Rightarrow> SignExitRequest res" where
  "de_SignExitRequest X j =
     rbind (struct_fields [''blsPubKeySet'', ''guardianIndex'', ''validatorIndex'',
              ''forkInfo''] j) (\<lambda>vs.
     rbind (required (vs ! 0) de_str) (\<lambda>x0.
     rbind (required (vs ! 1) de_u64) (\<lambda>x1.
     rbind (required (vs ! 2) de_u64) (\<lambda>x2.
     rbind (required (vs ! 3) (de_ForkInfo X)) (\<lambda>x3.
     Ok \<lparr>se_bls_pub_key_set = x0, se_guardian_index = x1, se_validator_index = x2,
         se_fork_info = x3\<rparr>)))))"

definition se_SignExitResponse :: "SignExitResponse \<Rightarrow> json res" where
  "se_SignExitResponse v =
     se_struct
       (se_field ''signature'' (se_string (sx_signature v))
       (se_field ''message'' (se_string (sx_message v))
       (Ok [])))"

definition de_SignExitResponse :: "json \<Rightarrow> SignExitResponse res" where
  "de_SignExitResponse j =
     rbind (struct_fields [''signature'', ''message''] j) (\<lambda>vs.
     rbind (required (vs ! 0) de_str) (\<lambda>x0.
     rbind (required (vs ! 1) de_str) (\<lambda>x1.
     Ok \<lparr>sx_signature = x0, sx_message = x1\<rparr>)))"

definition se_KeygenWithBlockhashRequest :: "KeygenWithBlockhashRequest \<Rightarrow> json res" where
  "se_KeygenWithBlockhashRequest v =
     se_struct
       (se_field ''block_number'' (se_u64 (kb_block_number v))
       (se_field ''guardian_module_address'' (se_string (kb_guardian_module_address v))
       (se_field ''chain_id'' (se_u64 (kb_chain_id v))
       (Ok []))))"

definition de_KeygenWithBlockhashRequest :: "json \<Rightarrow> KeygenWithBlockhashRequest res" where
  "de_KeygenWithBlockhashRequest j =
     rbind (struct_fields [''block_number'', ''guardian_module_address'',
              ''chain_id''] j) (\<lambda>vs.
     rbind (required (vs ! 0) de_u64) (\<lambda>x0.
     rbind (required (vs ! 1) de_str) (\<lambda>x1.
     rbind (required (vs ! 2) de_u64) (\<lambda>x2.
     Ok \<lparr>kb_block_number = x0, kb_guardian_module_address = x1, kb_chain_id = x2\<rparr>))))"

section \<open>Values that survive the JSON form\<close>

lemma identity_codes [simp]:
  "is_ok (se_identity W i)" "wire_laws W \<Longrightarrow> printable (the_ok (se_identity W i))"
  "wire_laws W \<Longrightarrow> de_identity W (the_ok (se_identity W i)) = Ok i"
  by (simp_all add: se_identity_def de_identity_def wire_laws_def)

lemma epk_codes [simp]:
  "is_ok (se_epk W k)" "wire_laws W \<Longrightarrow> printable (the_ok (se_epk W k))"
  "wire_laws W \<Longrightarrow> de_epk W (the_ok (se_epk W k)) = Ok k"
  by (simp_all add: se_epk_def de_epk_def wire_laws_def)

lemma de_vec_codes [simp]:
  assumes "\<forall>x \<in> set xs. is_ok (se x) \<and> de (the_ok (se x)) = Ok x"
  shows "de_vec de (the_ok (se_vec se xs)) = Ok xs"
proof -
  have "mapM de (map (\<lambda>x. the_ok (se x)) xs) = Ok xs" using assms by (induction xs) auto
  then show ?thesis using assms by (simp add: de_vec_def se_vec_def mapM_the_ok)
qed

definition wf_AttestationEvidence :: "AttestationEvidence \<Rightarrow> bool" where
  "wf_AttestationEvidence v \<longleftrightarrow>
     is_utf8 (ae_session_id v) \<and>
     is_utf8 (ae_signature v)"

lemma codes_AttestationEvidence:
  assumes "wire_laws W" "wf_AttestationEvidence v"
  shows "json_codes (se_AttestationEvidence W) (de_AttestationEvidence W) v"
  using assms by (cases v) (simp add: se_AttestationEvidence_def de_AttestationEvidence_def wf_AttestationEvidence_def codes_simps)

lemmas codes_AttestationEvidence_facts [simp] = codes_AttestationEvidence[THEN json_codesD(1)] codes_AttestationEvidence[THEN json_codesD(2)] codes_AttestationEvidence[THEN json_codesD(3)]

definition wf_KeyGenResponse :: "KeyGenResponse \<Rightarrow> bool" where
  "wf_KeyGenResponse v \<longleftrightarrow>
     is_utf8 (kg_pk_hex v) \<and>
     wf_AttestationEvidence (kg_evidence v)"

lemma codes_KeyGenResponse:
  assumes "wire_laws W" "wf_KeyGenResponse v"
  shows "json_codes (se_KeyGenResponse W) (de_KeyGenResponse W) v"
  using assms by (cases v) (simp add: se_KeyGenResponse_def de_KeyGenResponse_def wf_KeyGenResponse_def codes_simps)

lemmas codes_KeyGenResponse_facts [simp] = codes_KeyGenResponse[THEN json_codesD(1)] codes_KeyGenResponse[THEN json_codesD(2)] codes_KeyGenResponse[THEN json_codesD(3)]

definition wf_ListKeysResponseInner :: "ListKeysResponseInner \<Rightarrow> bool" where
  "wf_ListKeysResponseInner v \<longleftrightarrow>
     is_utf8 (lk_pubkey v)"

lemma codes_ListKeysResponseInner:
  assumes "wf_ListKeysResponseInner v"
  shows "json_codes se_ListKeysResponseInner de_ListKeysResponseInner v"
  using assms by (cases v) (simp add: se_ListKeysResponseInner_def de_ListKeysResponseInner_def wf_ListKeysResponseInner_def codes_simps)

lemmas codes_ListKeysResponseInner_facts [simp] = codes_ListKeysResponseInner[THEN json_codesD(1)] codes_ListKeysResponseInner[THEN json_codesD(2)] codes_ListKeysResponseInner[THEN json_codesD(3)]

definition wf_ListKeysResponse :: "ListKeysResponse \<Rightarrow> bool" where
  "wf_ListKeysResponse v \<longleftrightarrow>
     list_all wf_ListKeysResponseInner (lk_data v)"

lemma codes_ListKeysResponse:
  assumes "wf_ListKeysResponse v"
  shows "json_codes se_ListKeysResponse de_ListKeysResponse v"
  using assms by (cases v) (simp add: se_ListKeysResponse_def de_ListKeysResponse_def wf_ListKeysResponse_def codes_simps)

lemmas codes_ListKeysResponse_facts [simp] = codes_ListKeysResponse[THEN json_codesD(1)] codes_ListKeysResponse[THEN json_codesD(2)] codes_ListKeysResponse[THEN json_codesD(3)]

definition wf_SignatureResponse :: "SignatureResponse \<Rightarrow> bool" where
  "wf_SignatureResponse v \<longleftrightarrow>
     is_utf8 (sr_signature v)"

lemma codes_SignatureResponse:
  assumes "wf_SignatureResponse v"
  shows "json_codes se_SignatureResponse de_SignatureResponse v"
  using assms by (cases v) (simp add: se_SignatureResponse_def de_SignatureResponse_def wf_SignatureResponse_def codes_simps)

lemmas codes_SignatureResponse_facts [simp] = codes_SignatureResponse[THEN json_codesD(1)] codes_SignatureResponse[THEN json_codesD(2)] codes_SignatureResponse[THEN json_codesD(3)]

definition wf_BlsKeygenPayload :: "BlsKeygenPayload \<Rightarrow> bool" where
  "wf_BlsKeygenPayload v \<longleftrightarrow>
     is_utf8 (bls_pub_key_set v) \<and>
     is_utf8 (bls_pub_key v) \<and>
     is_utf8 (kp_signature v) \<and>
     is_utf8 (kp_deposit_data_root v) \<and>
     list_all is_utf8 (bls_enc_priv_key_shares v) \<and>
     is_utf8 (session_id v) \<and>
     is_utf8 (attestation_signature v) \<and>
     is_utf8 (session_public_key v) \<and>
     list_all is_utf8 (guardian_eth_pub_keys v) \<and>
     is_utf8 (kp_withdrawal_credentials v) \<and>
     length (kp_fork_version v) = 4"

lemma codes_BlsKeygenPayload:
  assumes "wf_BlsKeygenPayload v"
  shows "json_codes se_BlsKeygenPayload de_BlsKeygenPayload v"
  using assms by (cases v) (simp add: se_BlsKeygenPayload_def de_BlsKeygenPayload_def wf_BlsKeygenPayload_def codes_simps)

lemmas codes_BlsKeygenPayload_facts [simp] = codes_BlsKeygenPayload[THEN json_codesD(1)] codes_BlsKeygenPayload[THEN json_codesD(2)] codes_BlsKeygenPayload[THEN json_codesD(3)]

definition wf_ValidateCustodyRequest :: "'epk ValidateCustodyRequest \<Rightarrow> bool" where
  "wf_ValidateCustodyRequest v \<longleftrightarrow>
     wf_BlsKeygenPayload (keygen_payload v) \<and>
     is_utf8 (workload_id v)"

lemma codes_ValidateCustodyRequest:
  assumes "wire_laws W" "wf_ValidateCustodyRequest v"
  shows "json_codes (se_ValidateCustodyRequest W) (de_ValidateCustodyRequest W) v"
  using assms by (cases v) (simp add: se_ValidateCustodyRequest_def de_ValidateCustodyRequest_def wf_ValidateCustodyRequest_def codes_simps)

lemmas codes_ValidateCustodyRequest_facts [simp] = codes_ValidateCustodyRequest[THEN json_codesD(1)] codes_ValidateCustodyRequest[THEN json_codesD(2)] codes_ValidateCustodyRequest[THEN json_codesD(3)]

definition wf_ValidateCustodyResponse :: "ValidateCustodyResponse \<Rightarrow> bool" where
  "wf_ValidateCustodyResponse v \<longleftrightarrow>
     is_utf8 (vc_enclave_signature v) \<and>
     is_utf8 (vc_bls_pub_key v) \<and>
     is_utf8 (vc_withdrawal_credentials v) \<and>
     is_utf8 (vc_deposit_signature v) \<and>
     is_utf8 (vc_deposit_data_root v)"

lemma codes_ValidateCustodyResponse:
  assumes "wf_ValidateCustodyResponse v"
  shows "json_codes se_ValidateCustodyResponse de_ValidateCustodyResponse v"
  using assms by (cases v) (simp add: se_ValidateCustodyResponse_def de_ValidateCustodyResponse_def wf_ValidateCustodyResponse_def codes_simps)

lemmas codes_ValidateCustodyResponse_facts [simp] = codes_ValidateCustodyResponse[THEN json_codesD(1)] codes_ValidateCustodyResponse[THEN json_codesD(2)] codes_ValidateCustodyResponse[THEN json_codesD(3)]

definition wf_SignExitRequest :: "SignExitRequest \<Rightarrow> bool" where
  "wf_SignExitRequest v \<longleftrightarrow>
     is_utf8 (se_bls_pub_key_set v) \<and>
     wf_ForkInfo (se_fork_info v)"

lemma codes_SignExitRequest:
  assumes "codec_laws X" "wf_SignExitRequest v"
  shows "json_codes (se_SignExitRequest X) (de_SignExitRequest X) v"
  using assms by (cases v) (simp add: se_SignExitRequest_def de_SignExitRequest_def wf_SignExitRequest_def codes_simps)

lemmas codes_SignExitRequest_facts [simp] = codes_SignExitRequest[THEN json_codesD(1)] codes_SignExitRequest[THEN json_codesD(2)] codes_SignExitRequest[THEN json_codesD(3)]

definition wf_SignExitResponse :: "SignExitResponse \<Rightarrow> bool" where
  "wf_SignExitResponse v \<longleftrightarrow>
     is_utf8 (sx_signature v) \<and>
     is_utf8 (sx_message v)"

lemma codes_SignExitResponse:
  assumes "wf_SignExitResponse v"
  shows "json_codes se_SignExitResponse de_SignExitResponse v"
  using assms by (cases v) (simp add: se_SignExitResponse_def de_SignExitResponse_def wf_SignExitResponse_def codes_simps)

lemmas codes_SignExitResponse_facts [simp] = codes_SignExitResponse[THEN json_codesD(1)] codes_SignExitResponse[THEN json_codesD(2)] codes_SignExitResponse[THEN json_codesD(3)]

definition wf_KeygenWithBlockhashRequest :: "KeygenWithBlockhashRequest \<Rightarrow> bool" where
  "wf_KeygenWithBlockhashRequest v \<longleftrightarrow>
     is_utf8 (kb_guardian_module_address v)"

lemma codes_KeygenWithBlockhashRequest:
  assumes "wf_KeygenWithBlockhashRequest v"
  shows "json_codes se_KeygenWithBlockhashRequest de_KeygenWithBlockhashRequest v"
  using assms by (cases v) (simp add: se_KeygenWithBlockhashRequest_def de_KeygenWithBlockhashRequest_def wf_KeygenWithBlockhashRequest_def codes_simps)

lemmas codes_KeygenWithBlockhashRequest_facts [simp] = codes_KeygenWithBlockhashRequest[THEN json_codesD(1)] codes_KeygenWithBlockhashRequest[THEN json_codesD(2)] codes_KeygenWithBlockhashRequest[THEN json_codesD(3)]

end
