(* ===== verification/Startup.thy ===== *)
theory Startup
  imports Signer
begin

text \<open>
  The start of the three servers (src/bin/): the port and the genesis fork version come from
  the environment, else from the command line, else from a default, and anything malformed
  stops the process; then the routes are laid out, as data that the router of the \<open>axum\<close>
  crate interprets.
\<close>

section \<open>Numbers and arguments\<close>

type_synonym u16 = "16 word"

definition is_digit :: "char \<Rightarrow> bool" where
  "is_digit c \<longleftrightarrow> 48 \<le> (of_char c :: nat) \<and> (of_char c :: nat) \<le> 57"

definition digits_val :: "string \<Rightarrow> nat" where
  "digits_val ds = foldl (\<lambda>n c. 10 * n + ((of_char c :: nat) - 48)) 0 ds"

text \<open>
  \<open>u16::from_str\<close>: decimal digits, at least one, after an optional plus sign; an error
  when the number does not fit.
\<close>

definition parse_u16 :: "string \<Rightarrow> u16 option" where
  "parse_u16 s =
     (let ds = (if take 1 s = ''+'' then drop 1 s else s) in
      if ds = [] \<or> \<not> list_all is_digit ds then None
      else if digits_val ds < 2 ^ 16 then Some (of_nat (digits_val ds)) else None)"

text \<open>
  \<open>std::env::args().nth(i)\<close> goes through the arguments up to the \<open>i\<close>th and
  panics on one that is not Unicode.
\<close>

definition args_nth :: "string list \<Rightarrow> nat \<Rightarrow> string option res" where
  "args_nth args i =
     (if list_all is_utf8 (take (Suc i) args)
      then Ok (if i < length args then Some (args ! i) else None)
      else Panic ''args'')"

section \<open>Configuration\<close>

text \<open>\<open>env::var(k).ok().or_else(|| args().nth(i)).unwrap_or(d)\<close>.\<close>

definition setting :: "string \<Rightarrow> nat \<Rightarrow> string \<Rightarrow> string list \<Rightarrow> world \<Rightarrow> string res" where
  "setting k i d args w =
     (case fst (env_var k w) of
        Ok v \<Rightarrow> Ok v
      | _ \<Rightarrow> rbind (args_nth args i) (\<lambda>a. Ok (case a of Some v \<Rightarrow> v | None \<Rightarrow> d)))"

definition port_setting :: "string \<Rightarrow> string \<Rightarrow> string list \<Rightarrow> world \<Rightarrow> u16 res" where
  "port_setting k d args w =
     rbind (setting k 1 d args w) (\<lambda>s.
     expect ''BAD PORT'' (ok_or ''u16::from_str'' (parse_u16 s)))"

definition genesis_setting :: "codec \<Rightarrow> string list \<Rightarrow> world \<Rightarrow> Version res" where
  "genesis_setting X args w =
     rbind (setting ''GENESIS_FORK_VERSION'' 2 ''00000000'' args w) (\<lambda>s.
     let s = strip_0x_prefix s in
     rbind (expect ''Bad genesis_fork_version'' (ok_or ''hex::decode'' (hex_decode X s))) (\<lambda>b.
     copy_from_slice 4 b))"

section \<open>Routes\<close>

text \<open>
  The handlers by the module they are in, the two methods the program serves, and what
  \<open>Router::new()\<close>, \<open>route\<close> and \<open>nest\<close> build.
\<close>

datatype endpoint =
    Health
  | List_eth_keys
  | List_bls_keys
  | List_bls_keys_for_vc
  | Secure_sign_bls
  | Attest_fresh_bls_key
  | Eth_keygen
  | Bls_keygen
  | Validator_deposit
  | Attest_fresh_eth_key_with_blockhash
  | Validate_custody
  | Sign_exit

datatype http_method = GET | POST

datatype router =
    Router_new
  | Route router string "(http_method \<times> endpoint) list"
  | Nest router string router

definition guardian_app :: router where
  "guardian_app =
     Route (Route (Route (Route Router_new
       ''/upcheck'' [(GET, Health)])
       ''/eth/v1/keygen'' [(POST, Attest_fresh_eth_key_with_blockhash), (GET, List_eth_keys)])
       ''/guardian/v1/validate-custody'' [(POST, Validate_custody)])
       ''/guardian/v1/sign-exit'' [(POST, Sign_exit)]"

definition secure_signer_eth_v1 :: router where
  "secure_signer_eth_v1 =
     Route (Route (Route (Route Router_new
       ''/keygen/secp256k1'' [(POST, Eth_keygen)])
       ''/keygen/bls'' [(POST, Bls_keygen)])
       ''/keygen/secp256k1'' [(GET, List_eth_keys)])
       ''/keystores'' [(GET, List_bls_keys)]"

definition secure_signer_app :: router where
  "secure_signer_app =
     Route (Route (Nest (Route Router_new
       ''/upcheck'' [(GET, Health)])
       ''/eth/v1'' secure_signer_eth_v1)
       ''/api/v1/eth2/deposit'' [(POST, Validator_deposit)])
       ''/api/v1/eth2/sign/:bls_pk_hex'' [(POST, Secure_sign_bls)]"

definition validator_app :: router where
  "validator_app =
     Route (Route (Route (Route (Route Router_new
       ''/upcheck'' [(GET, Health)])
       ''/bls/v1/keygen'' [(POST, Attest_fresh_bls_key)])
       ''/eth/v1/keystores'' [(GET, List_bls_keys)])
       ''/api/v1/eth2/publicKeys'' [(GET, List_bls_keys_for_vc)])
       ''/api/v1/eth2/sign/:bls_pk_hex'' [(POST, Secure_sign_bls)]"

section \<open>Start\<close>

text \<open>What a server listens with once it has started.\<close>

record listener =
  li_port :: u16
  li_state :: AppState
  li_app :: router

definition guardian_main :: "codec \<Rightarrow> string list \<Rightarrow> world \<Rightarrow> listener res" where
  "guardian_main X args w =
     rbind (port_setting ''GUARDIAN_PORT'' ''3031'' args w) (\<lambda>port.
     rbind (genesis_setting X args w) (\<lambda>v.
     Ok \<lparr>li_port = port, li_state = \<lparr>genesis_fork_version = v\<rparr>, li_app = guardian_app\<rparr>))"

definition secure_signer_main :: "codec \<Rightarrow> string list \<Rightarrow> world \<Rightarrow> listener res" where
  "secure_signer_main X args w =
     rbind (port_setting ''SECURE_SIGNER_PORT'' ''9001'' args w) (\<lambda>port.
     rbind (genesis_setting X args w) (\<lambda>v.
     Ok \<lparr>li_port = port, li_state = \<lparr>genesis_fork_version = v\<rparr>, li_app = secure_signer_app\<rparr>))"

definition validator_main :: "codec \<Rightarrow> string list \<Rightarrow> world \<Rightarrow> listener res" where
  "validator_main X args w =
     rbind (port_setting ''VALIDATOR_PORT'' ''3031'' args w) (\<lambda>port.
     rbind (genesis_setting X args w) (\<lambda>v.
     Ok \<lparr>li_port = port, li_state = \<lparr>genesis_fork_version = v\<rparr>, li_app = validator_app\<rparr>))"

end
