(* ===== verification/Service.thy ===== *)
theory Service
  imports Wire Startup
begin

text \<open>
  The three servers as functions from an HTTP request to an HTTP response: the routes of
  src/bin/, the extractors in the signatures of the handlers, and the form of their answers.
  How a router picks a route, what a rejected body is answered, and how an error is printed
  is up to the crates \<open>axum\<close> and \<open>anyhow\<close>.
\<close>

section \<open>Requests and responses\<close>

record wire_request =
  wq_method :: http_method
  wq_url :: string
  wq_body :: "string option"

record wire_response =
  wp_status :: nat
  wp_body :: string

datatype routed = Handle endpoint "(string \<times> string) list" | Unmatched wire_response

record axum =
  axum_route :: "router \<Rightarrow> http_method \<Rightarrow> string \<Rightarrow> routed"
  json_rejection :: "string option \<Rightarrow> wire_response"
  failure_text :: "string \<Rightarrow> error \<Rightarrow> string"

section \<open>Documented behaviour of the router\<close>

text \<open>
  The routes of a router: \<open>nest\<close> puts a prefix before those of the inner router. A
  pattern matches a path segment by segment; a segment \<open>:name\<close> matches anything but the
  empty one and gives it that name. A path that no pattern matches is answered 404, a matched
  path without a handler for the method 405.
\<close>

fun routes :: "router \<Rightarrow> (string \<times> (http_method \<times> endpoint) list) list" where
  "routes Router_new = []"
| "routes (Route r pat ms) = routes r @ [(pat, ms)]"
| "routes (Nest r pre inner) = routes r @ map (\<lambda>(pat, ms). (pre @ pat, ms)) (routes inner)"

fun match_segments :: "string list \<Rightarrow> string list \<Rightarrow> (string \<times> string) list option" where
  "match_segments [] [] = Some []"
| "match_segments (p # ps) (s # ss) =
     (if take 1 p = '':''
      then if s = [] then None
           else map_option (\<lambda>params. (drop 1 p, s) # params) (match_segments ps ss)
      else if p = s then match_segments ps ss else None)"
| "match_segments _ _ = None"

definition match_path :: "string \<Rightarrow> string \<Rightarrow> (string \<times> string) list option" where
  "match_path pat path = match_segments (split_on CHR ''/'' pat) (split_on CHR ''/'' path)"

definition candidates :: "router \<Rightarrow> string \<Rightarrow> (string \<times> (http_method \<times> endpoint) list) list" where
  "candidates r path = filter (\<lambda>(pat, ms). match_path pat path \<noteq> None) (routes r)"

text \<open>Paths of letters, digits, underscores, dashes and slashes reach the router unchanged.\<close>

definition path_char :: "char \<Rightarrow> bool" where
  "path_char c \<longleftrightarrow> (let n = (of_char c :: nat) in
     n = 45 \<or> 47 \<le> n \<and> n \<le> 57 \<or> 65 \<le> n \<and> n \<le> 90 \<or> n = 95 \<or> 97 \<le> n \<and> n \<le> 122)"

definition axum_laws :: "axum \<Rightarrow> bool" where
  "axum_laws A \<longleftrightarrow>
     (\<forall>r m path pat e params. list_all path_char path \<longrightarrow>
        (\<forall>c \<in> set (candidates r path). fst c = pat) \<longrightarrow>
        map_of (concat (map snd (candidates r path))) m = Some e \<longrightarrow>
        match_path pat path = Some params \<longrightarrow>
        axum_route A r m path = Handle e params) \<and>
     (\<forall>r m path. candidates r path = [] \<longrightarrow>
        (\<exists>resp. axum_route A r m path = Unmatched resp \<and> wp_status resp = 404)) \<and>
     (\<forall>r m path pat. list_all path_char path \<longrightarrow> candidates r path \<noteq> [] \<longrightarrow>
        (\<forall>c \<in> set (candidates r path). fst c = pat) \<longrightarrow>
        map_of (concat (map snd (candidates r path))) m = None \<longrightarrow>
        (\<exists>resp. axum_route A r m path = Unmatched resp \<and> wp_status resp = 405)) \<and>
     (\<forall>b. 400 \<le> wp_status (json_rejection A b) \<and> wp_status (json_rejection A b) < 500)"

section \<open>Extractors and answers\<close>

text \<open>
  \<open>Json<T>\<close>: the body is parsed and deserialized, else the request is rejected without
  running the handler. A panic inside a deserializer drops the connection.
\<close>

definition with_json ::
  "codec \<Rightarrow> axum \<Rightarrow> (json \<Rightarrow> 'a res) \<Rightarrow> string option \<Rightarrow> ('a \<Rightarrow> world \<Rightarrow> wire_response option \<times> world) \<Rightarrow>
   world \<Rightarrow> wire_response option \<times> world" where
  "with_json X A de body handler w =
     (case body of
        None \<Rightarrow> (Some (json_rejection A body), w)
      | Some text \<Rightarrow>
          (case json_from_slice X text of
             None \<Rightarrow> (Some (json_rejection A body), w)
           | Some j \<Rightarrow>
               (case de j of
                  Ok req \<Rightarrow> handler req w
                | Err e \<Rightarrow> (Some (json_rejection A body), w)
                | Panic m \<Rightarrow> (None, w))))"

text \<open>
  \<open>into_response()\<close>. A dropped connection is \<open>None\<close>; a value that cannot be
  serialized is answered 500.
\<close>

definition answer ::
  "codec \<Rightarrow> axum \<Rightarrow> ('a \<Rightarrow> json res) \<Rightarrow> 'a response \<times> world \<Rightarrow> wire_response option \<times> world" where
  "answer X A se res = (case res of (r, w) \<Rightarrow>
     ((case r of
         Response c NoBody \<Rightarrow> Some \<lparr>wp_status = c, wp_body = []\<rparr>
       | Response c (Message s) \<Rightarrow> Some \<lparr>wp_status = c, wp_body = s\<rparr>
       | Response c (Failure s e) \<Rightarrow> Some \<lparr>wp_status = c, wp_body = failure_text A s e\<rparr>
       | Response c (JsonBody x) \<Rightarrow>
           (case se x of
              Ok j \<Rightarrow> Some \<lparr>wp_status = c, wp_body = json_to_string X j\<rparr>
            | Err e \<Rightarrow> Some \<lparr>wp_status = INTERNAL_SERVER_ERROR, wp_body = failure_text A [] e\<rparr>
            | Panic m \<Rightarrow> None)
       | Dropped m \<Rightarrow> None), w))"

section \<open>The servers\<close>

definition run_endpoint ::
  "codec \<Rightarrow> ('ps, 'pk, 'psh, 'ss, 'sk, 'ssh, 'sg, 'sgh) blsttc \<Rightarrow> ('esk, 'epk, 'emsg, 'esig) secp \<Rightarrow>
   services \<Rightarrow> ('wal, 'wsig) ethers \<Rightarrow> ssz_serde \<Rightarrow> 'epk wire \<Rightarrow> axum \<Rightarrow> AppState \<Rightarrow>
   endpoint \<Rightarrow> (string \<times> string) list \<Rightarrow> string option \<Rightarrow> world \<Rightarrow> wire_response option \<times> world" where
  "run_endpoint X B E N H S W A st e params body w =
     (case e of
        Health \<Rightarrow> answer X A (\<lambda>_. Ok JNull) (health_handler w)
      | List_eth_keys \<Rightarrow> answer X A se_ListKeysResponse (list_eth_keys_handler w)
      | List_bls_keys \<Rightarrow> answer X A se_ListKeysResponse (list_bls_keys_handler w)
      | List_bls_keys_for_vc \<Rightarrow> answer X A (se_vec se_string) (list_bls_keys_for_vc_handler w)
      | Secure_sign_bls \<Rightarrow>
          (case params of
             [(_, bls_pk_hex)] \<Rightarrow>
               with_json X A (de_BLSSignMsg X S) body
                 (\<lambda>req w. answer X A se_SignatureResponse (secure_sign_bls_handler X B bls_pk_hex st req w)) w
           | _ \<Rightarrow> (Some \<lparr>wp_status = INTERNAL_SERVER_ERROR, wp_body = []\<rparr>, w))
      | Attest_fresh_bls_key \<Rightarrow>
          with_json X A (de_keygen_request X E) body
            (\<lambda>req w. answer X A se_BlsKeygenPayload (attest_fresh_bls_key_handler X B E N req w)) w
      | Eth_keygen \<Rightarrow> answer X A (se_KeyGenResponse W) (eth_keygen_handler X E N w)
      | Bls_keygen \<Rightarrow> answer X A (se_KeyGenResponse W) (bls_keygen_handler X B N w)
      | Validator_deposit \<Rightarrow>
          with_json X A (de_DepositRequest X) body
            (\<lambda>req w. answer X A (se_DepositResponse X) (validator_deposit_handler X B req w)) w
      | Attest_fresh_eth_key_with_blockhash \<Rightarrow>
          with_json X A de_KeygenWithBlockhashRequest body
            (\<lambda>req w. answer X A (se_KeyGenResponse W) (attest_fresh_eth_key_handler X E N H req w)) w
      | Validate_custody \<Rightarrow>
          with_json X A (de_ValidateCustodyRequest W) body
            (\<lambda>req w. answer X A se_ValidateCustodyResponse (validate_custody_handler X B E N H req w)) w
      | Sign_exit \<Rightarrow>
          with_json X A (de_SignExitRequest X) body
            (\<lambda>req w. answer X A se_SignExitResponse (sign_exit_handler X B req w)) w)"

definition serve ::
  "codec \<Rightarrow> ('ps, 'pk, 'psh, 'ss, 'sk, 'ssh, 'sg, 'sgh) blsttc \<Rightarrow> ('esk, 'epk, 'emsg, 'esig) secp \<Rightarrow>
   services \<Rightarrow> ('wal, 'wsig) ethers \<Rightarrow> ssz_serde \<Rightarrow> 'epk wire \<Rightarrow> axum \<Rightarrow> listener \<Rightarrow>
   http_method \<Rightarrow> string \<Rightarrow> string option \<Rightarrow> world \<Rightarrow> wire_response option \<times> world" where
  "serve X B E N H S W A l m path body w =
     (case axum_route A (li_app l) m path of
        Unmatched r \<Rightarrow> (Some r, w)
      | Handle e params \<Rightarrow> run_endpoint X B E N H S W A (li_state l) e params body w)"

section \<open>Facts\<close>

lemma answer_simps [simp]:
  "answer X A se (Response c NoBody, w) = (Some \<lparr>wp_status = c, wp_body = []\<rparr>, w)"
  "answer X A se (Response c (Message s), w) = (Some \<lparr>wp_status = c, wp_body = s\<rparr>, w)"
  "answer X A se (Response c (Failure s e), w) = (Some \<lparr>wp_status = c, wp_body = failure_text A s e\<rparr>, w)"
  "is_ok (se x) \<Longrightarrow>
     answer X A se (Response c (JsonBody x), w) =
       (Some \<lparr>wp_status = c, wp_body = json_to_string X (the_ok (se x))\<rparr>, w)"
  "answer X A se (Dropped m, w) = (None, w)"
  by (simp_all add: answer_def) (cases "se x"; simp)

lemma with_json_codes:
  assumes "codec_laws X" "json_codes se de v"
  shows "with_json X A de (Some (json_to_string X (the_ok (se v)))) handler w = handler v w"
  using assms by (simp add: with_json_def json_codes_def codec_lawsD)

lemma axum_routeI:
  assumes "axum_laws A" "list_all path_char path" "\<forall>c \<in> set (candidates r path). fst c = pat"
    "map_of (concat (map snd (candidates r path))) m = Some e" "match_path pat path = Some params"
  shows "axum_route A r m path = Handle e params"
  using assms unfolding axum_laws_def by blast

lemma axum_no_method:
  assumes "axum_laws A" "list_all path_char path" "candidates r path \<noteq> []"
    "\<forall>c \<in> set (candidates r path). fst c = pat" "map_of (concat (map snd (candidates r path))) m = None"
  shows "\<exists>resp. axum_route A r m path = Unmatched resp \<and> wp_status resp = 405"
  using assms unfolding axum_laws_def by blast

end
