(* ===== verification/Client.thy ===== *)
theory Client
  imports Service
begin

text \<open>
  src/client/: the clients of the three servers and the builder that gives them their
  addresses. \<open>reqwest\<close> is a record over the state \<open>'n\<close> of the network: sending a
  request, and reading the body of a response.
\<close>

section \<open>reqwest\<close>

record 'n reqwest =
  rq_send :: "wire_request \<Rightarrow> ('n, wire_response) eff"
  rq_text :: "wire_response \<Rightarrow> ('n, string) eff"

definition is_success :: "wire_response \<Rightarrow> bool" where
  "is_success resp \<longleftrightarrow> 200 \<le> wp_status resp \<and> wp_status resp < 300"

definition send_get :: "'n reqwest \<Rightarrow> string \<Rightarrow> ('n, wire_response) eff" where
  "send_get R url = rq_send R \<lparr>wq_method = GET, wq_url = url, wq_body = None\<rparr>"

definition send_post :: "'n reqwest \<Rightarrow> string \<Rightarrow> ('n, wire_response) eff" where
  "send_post R url = rq_send R \<lparr>wq_method = POST, wq_url = url, wq_body = None\<rparr>"

text \<open>\<open>.post(url).json(&x).send()\<close>: a value that does not serialize fails the request.\<close>

definition send_json :: "codec \<Rightarrow> 'n reqwest \<Rightarrow> string \<Rightarrow> json res \<Rightarrow> ('n, wire_response) eff" where
  "send_json X R url x =
     ebind (lift x) (\<lambda>j.
     rq_send R \<lparr>wq_method = POST, wq_url = url, wq_body = Some (json_to_string X j)\<rparr>)"

definition resp_json :: "codec \<Rightarrow> 'n reqwest \<Rightarrow> (json \<Rightarrow> 'a res) \<Rightarrow> wire_response \<Rightarrow> ('n, 'a) eff" where
  "resp_json X R de resp =
     ebind (rq_text R resp) (\<lambda>text.
     lift (rbind (ok_or ''reqwest: error decoding response body'' (json_from_slice X text)) de))"

text \<open>
  The end of every call of the guardian and validator clients: the body of an answer that
  is no success becomes the error.
\<close>

definition checked_json :: "codec \<Rightarrow> 'n reqwest \<Rightarrow> (json \<Rightarrow> 'a res) \<Rightarrow> wire_response \<Rightarrow> ('n, 'a) eff" where
  "checked_json X R de resp =
     (if \<not> is_success resp
      then ebind (rq_text R resp) (\<lambda>body. lift (Err (Bail body)))
      else resp_json X R de resp)"

text \<open>\<open>health\<close>: whatever goes wrong, the answer is no.\<close>

definition client_health :: "'n reqwest \<Rightarrow> string \<Rightarrow> ('n, bool) eff" where
  "client_health R url n =
     (case send_get R (url @ ''/upcheck'') n of
        (Ok resp, n') \<Rightarrow> (Ok (wp_status resp = 200), n')
      | (Err e, n') \<Rightarrow> (Ok False, n')
      | (Panic m, n') \<Rightarrow> (Panic m, n'))"

section \<open>The guardian's client\<close>

record GuardianClient =
  gc_url :: string

definition GuardianClient_health :: "'n reqwest \<Rightarrow> GuardianClient \<Rightarrow> ('n, bool) eff" where
  "GuardianClient_health R c = client_health R (gc_url c)"

definition GuardianClient_attest_fresh_eth_key ::
  "codec \<Rightarrow> 'epk wire \<Rightarrow> 'n reqwest \<Rightarrow> GuardianClient \<Rightarrow> u64 \<Rightarrow> string \<Rightarrow> u64 \<Rightarrow> ('n, KeyGenResponse) eff" where
  "GuardianClient_attest_fresh_eth_key X W R c block_number guardian_module_address chain_id =
     (let request = \<lparr>kb_block_number = block_number, kb_guardian_module_address = guardian_module_address,
                     kb_chain_id = chain_id\<rparr>
      in ebind (send_json X R (gc_url c @ ''/eth/v1/keygen'') (se_KeygenWithBlockhashRequest request))
           (checked_json X R (de_KeyGenResponse W)))"

definition GuardianClient_list_eth_keys ::
  "codec \<Rightarrow> 'n reqwest \<Rightarrow> GuardianClient \<Rightarrow> ('n, ListKeysResponse) eff" where
  "GuardianClient_list_eth_keys X R c =
     ebind (send_get R (gc_url c @ ''/eth/v1/keygen'')) (checked_json X R de_ListKeysResponse)"

definition GuardianClient_validate_custody ::
  "codec \<Rightarrow> 'epk wire \<Rightarrow> 'n reqwest \<Rightarrow> GuardianClient \<Rightarrow> 'epk ValidateCustodyRequest \<Rightarrow>
   ('n, ValidateCustodyResponse) eff" where
  "GuardianClient_validate_custody X W R c request =
     ebind (send_json X R (gc_url c @ ''/guardian/v1/validate-custody'') (se_ValidateCustodyRequest W request))
       (checked_json X R de_ValidateCustodyResponse)"

definition GuardianClient_sign_exit ::
  "codec \<Rightarrow> 'n reqwest \<Rightarrow> GuardianClient \<Rightarrow> SignExitRequest \<Rightarrow> ('n, SignExitResponse) eff" where
  "GuardianClient_sign_exit X R c request =
     ebind (send_json X R (gc_url c @ ''/guardian/v1/sign-exit'') (se_SignExitRequest X request))
       (checked_json X R de_SignExitResponse)"

section \<open>The validator enclave's client\<close>

record ValidatorClient =
  vcl_url :: string

definition ValidatorClient_health :: "'n reqwest \<Rightarrow> ValidatorClient \<Rightarrow> ('n, bool) eff" where
  "ValidatorClient_health R c = client_health R (vcl_url c)"

definition ValidatorClient_attest_fresh_bls_key ::
  "codec \<Rightarrow> ('esk, 'epk, 'emsg, 'esig) secp \<Rightarrow> 'n reqwest \<Rightarrow> ValidatorClient \<Rightarrow>
   'epk AttestFreshBlsKeyPayload \<Rightarrow> ('n, BlsKeygenPayload) eff" where
  "ValidatorClient_attest_fresh_bls_key X E R c payload =
     ebind (send_json X R (vcl_url c @ ''/bls/v1/keygen'') (se_keygen_request X E payload))
       (checked_json X R de_BlsKeygenPayload)"

definition ValidatorClient_list_bls_keys ::
  "codec \<Rightarrow> 'n reqwest \<Rightarrow> ValidatorClient \<Rightarrow> ('n, ListKeysResponse) eff" where
  "ValidatorClient_list_bls_keys X R c =
     ebind (send_get R (vcl_url c @ ''/eth/v1/keystores'')) (checked_json X R de_ListKeysResponse)"

definition ValidatorClient_sign_voluntary_exit_message ::
  "codec \<Rightarrow> ssz_serde \<Rightarrow> 'n reqwest \<Rightarrow> ValidatorClient \<Rightarrow> string \<Rightarrow> Epoch \<Rightarrow> ValidatorIndex \<Rightarrow> ForkInfo \<Rightarrow>
   ('n, SignatureResponse) eff" where
  "ValidatorClient_sign_voluntary_exit_message X S R c bls_pk_hex epoch validator_index fork_info =
     (let bls_pk_hex = strip_0x_prefix bls_pk_hex;
          vem = \<lparr>ver_fork_info = fork_info, ver_signingRoot = None,
                 ver_voluntary_exit = \<lparr>ve_epoch = epoch, ve_validator_index = validator_index\<rparr>\<rparr>;
          req = VOLUNTARY_EXIT vem
      in ebind (send_json X R (vcl_url c @ ''/api/v1/eth2/sign/'' @ bls_pk_hex) (se_BLSSignMsg X S req))
           (checked_json X R de_SignatureResponse))"

section \<open>The secure signer's client\<close>

text \<open>It does not look at the status: the body of a refusal is parsed like an answer.\<close>

record SecureSignerClient =
  sc_url :: string

definition SecureSignerClient_health :: "'n reqwest \<Rightarrow> SecureSignerClient \<Rightarrow> ('n, bool) eff" where
  "SecureSignerClient_health R c = client_health R (sc_url c)"

definition SecureSignerClient_list_eth_keys ::
  "codec \<Rightarrow> 'n reqwest \<Rightarrow> SecureSignerClient \<Rightarrow> ('n, ListKeysResponse) eff" where
  "SecureSignerClient_list_eth_keys X R c =
     ebind (send_get R (sc_url c @ ''/eth/v1/keygen/secp256k1'')) (resp_json X R de_ListKeysResponse)"

definition SecureSignerClient_list_bls_keys ::
  "codec \<Rightarrow> 'n reqwest \<Rightarrow> SecureSignerClient \<Rightarrow> ('n, ListKeysResponse) eff" where
  "SecureSignerClient_list_bls_keys X R c =
     ebind (send_get R (sc_url c @ ''/eth/v1/keystores'')) (resp_json X R de_ListKeysResponse)"

definition SecureSignerClient_generate_eth_key ::
  "codec \<Rightarrow> 'epk wire \<Rightarrow> 'n reqwest \<Rightarrow> SecureSignerClient \<Rightarrow> ('n, KeyGenResponse) eff" where
  "SecureSignerClient_generate_eth_key X W R c =
     ebind (send_post R (sc_url c @ ''/eth/v1/keygen/secp256k1'')) (resp_json X R (de_KeyGenResponse W))"

definition SecureSignerClient_generate_bls_key ::
  "codec \<Rightarrow> 'epk wire \<Rightarrow> 'n reqwest \<Rightarrow> SecureSignerClient \<Rightarrow> ('n, KeyGenResponse) eff" where
  "SecureSignerClient_generate_bls_key X W R c =
     ebind (send_post R (sc_url c @ ''/eth/v1/keygen/bls'')) (resp_json X R (de_KeyGenResponse W))"

definition SecureSignerClient_secure_sign_bls ::
  "codec \<Rightarrow> ssz_serde \<Rightarrow> 'n reqwest \<Rightarrow> SecureSignerClient \<Rightarrow> string \<Rightarrow> BLSSignMsg \<Rightarrow> ('n, SignatureResponse) eff" where
  "SecureSignerClient_secure_sign_bls X S R c public_key_hex signing_data =
     ebind (send_json X R (sc_url c @ ''/api/v1/eth2/sign/'' @ public_key_hex) (se_BLSSignMsg X S signing_data))
       (resp_json X R de_SignatureResponse)"

section \<open>The builder\<close>

record Client =
  cl_validator :: ValidatorClient
  cl_secure_signer :: SecureSignerClient
  cl_guardian :: GuardianClient

record ClientBuilder =
  cb_validator_url :: "string option"
  cb_secure_signer_url :: "string option"
  cb_guardian_url :: "string option"

definition default_client_guardian_url :: string where
  "default_client_guardian_url = ''http://localhost:9002''"

definition default_client_validator_url :: string where
  "default_client_validator_url = ''http://localhost:9003''"

definition default_client_secure_signer_url :: string where
  "default_client_secure_signer_url = ''http://localhost:9001''"

definition ClientBuilder_new :: ClientBuilder where
  "ClientBuilder_new = \<lparr>cb_validator_url = None, cb_secure_signer_url = None, cb_guardian_url = None\<rparr>"

definition url_or :: "string option \<Rightarrow> string \<Rightarrow> string" where
  "url_or u d = (case u of Some url \<Rightarrow> url | None \<Rightarrow> d)"

definition ClientBuilder_build :: "ClientBuilder \<Rightarrow> Client" where
  "ClientBuilder_build b =
     \<lparr>cl_validator = \<lparr>vcl_url = url_or (cb_validator_url b) default_client_validator_url\<rparr>,
      cl_secure_signer = \<lparr>sc_url = url_or (cb_secure_signer_url b) default_client_secure_signer_url\<rparr>,
      cl_guardian = \<lparr>gc_url = url_or (cb_guardian_url b) default_client_guardian_url\<rparr>\<rparr>"

definition ClientBuilder_validator_url :: "string \<Rightarrow> ClientBuilder \<Rightarrow> ClientBuilder" where
  "ClientBuilder_validator_url url b = b\<lparr>cb_validator_url := Some url\<rparr>"

definition ClientBuilder_guardian_url :: "string \<Rightarrow> ClientBuilder \<Rightarrow> ClientBuilder" where
  "ClientBuilder_guardian_url url b = b\<lparr>cb_guardian_url := Some url\<rparr>"

definition ClientBuilder_secure_signer_url :: "string \<Rightarrow> ClientBuilder \<Rightarrow> ClientBuilder" where
  "ClientBuilder_secure_signer_url url b = b\<lparr>cb_secure_signer_url := Some url\<rparr>"

end
