(* ===== verification/Network.thy ===== *)
theory Network
  imports Client Ready_To_Sign
begin

text \<open>
  The clients of src/client/ talking to the servers of src/bin/: in a network that delivers
  requests and responses, a call of a client is the handler behind the route it names, run
  on the server's world, with the value of the answer handed over and the text of a refusal
  as the error.
\<close>

section \<open>A server behind a network\<close>

text \<open>
  Requests under \<open>base\<close> run the server \<open>srv\<close> on its part of the state, read and put
  back by \<open>rd\<close> and \<open>wr\<close>; a dropped connection is an error.
\<close>

definition remote ::
  "'n reqwest \<Rightarrow> string \<Rightarrow>
   (http_method \<Rightarrow> string \<Rightarrow> string option \<Rightarrow> world \<Rightarrow> wire_response option \<times> world) \<Rightarrow>
   ('n \<Rightarrow> world) \<Rightarrow> (world \<Rightarrow> 'n \<Rightarrow> 'n) \<Rightarrow> bool" where
  "remote R base srv rd wr \<longleftrightarrow>
     (\<forall>m path body n. list_all path_char path \<longrightarrow>
        rq_send R \<lparr>wq_method = m, wq_url = base @ path, wq_body = body\<rparr> n =
          (case srv m path body (rd n) of
             (Some resp, w) \<Rightarrow> (Ok resp, wr w n)
           | (None, w) \<Rightarrow> (Err (External ''connection closed''), wr w n))) \<and>
     (\<forall>resp n. rq_text R resp n = (Ok (wp_body resp), n)) \<and>
     (\<forall>w n. rd (wr w n) = w) \<and> (\<forall>n. wr (rd n) n = n)"

text \<open>What a client that checks the status makes of a handler's answer.\<close>

fun client_sees :: "axum \<Rightarrow> 'a response \<Rightarrow> 'a res" where
  "client_sees A (Response c (JsonBody x)) = Ok x"
| "client_sees A (Response c NoBody) = Err (Bail [])"
| "client_sees A (Response c (Message s)) = Err (Bail s)"
| "client_sees A (Response c (Failure s e)) = Err (Bail (failure_text A s e))"
| "client_sees A (Dropped m) = Err (External ''connection closed'')"

text \<open>Handlers answer 2xx with a value and anything else without one.\<close>

definition orderly :: "('a \<Rightarrow> bool) \<Rightarrow> 'a response \<Rightarrow> bool" where
  "orderly good r \<longleftrightarrow> (case r of
     Response c (JsonBody x) \<Rightarrow> 200 \<le> c \<and> c < 300 \<and> good x
   | Response c _ \<Rightarrow> \<not> (200 \<le> c \<and> c < 300)
   | Dropped _ \<Rightarrow> True)"

lemma orderly_simps [simp]:
  "orderly good (Response c (JsonBody x)) \<longleftrightarrow> 200 \<le> c \<and> c < 300 \<and> good x"
  "orderly good (Response c NoBody) \<longleftrightarrow> \<not> (200 \<le> c \<and> c < 300)"
  "orderly good (Response c (Message s)) \<longleftrightarrow> \<not> (200 \<le> c \<and> c < 300)"
  "orderly good (Response c (Failure s e)) \<longleftrightarrow> \<not> (200 \<le> c \<and> c < 300)"
  "orderly good (Dropped m)"
  by (simp_all add: orderly_def)

lemma remote_call:
  assumes X: "codec_laws X" and net: "remote R base srv rd wr" and path: "list_all path_char path"
    and run: "srv m path body (rd n) = answer X A se (h, w)"
    and ord: "orderly good h" and codes: "\<And>x. good x \<Longrightarrow> json_codes se de x"
  shows "ebind (rq_send R \<lparr>wq_method = m, wq_url = base @ path, wq_body = body\<rparr>) (checked_json X R de) n =
    (client_sees A h, wr w n)"
proof -
  have send: "rq_send R \<lparr>wq_method = m, wq_url = base @ path, wq_body = body\<rparr> n =
      (case answer X A se (h, w) of
         (Some resp, w) \<Rightarrow> (Ok resp, wr w n)
       | (None, w) \<Rightarrow> (Err (External ''connection closed''), wr w n))"
    using net path unfolding remote_def run[symmetric] by blast
  have rd_body: "rq_text R resp v = (Ok (wp_body resp), v)" for resp v
    using net unfolding remote_def by blast
  have refused: "ebind (rq_send R \<lparr>wq_method = m, wq_url = base @ path, wq_body = body\<rparr>) (checked_json X R de) n =
      (Err (Bail t), wr w n)"
    if "answer X A se (h, w) = (Some \<lparr>wp_status = c, wp_body = t\<rparr>, w)" "\<not> (200 \<le> c \<and> c < 300)" for c t
    using that send by (simp add: ebind_def checked_json_def is_success_def rd_body)
  show ?thesis
  proof (cases h)
    case (Response c b)
    show ?thesis
    proof (cases b)
      case NoBody
      with Response ord show ?thesis by (simp add: refused)
    next
      case (Message s)
      with Response ord show ?thesis by (simp add: refused)
    next
      case (Failure s e)
      with Response ord show ?thesis by (simp add: refused)
    next
      case (JsonBody x)
      with Response ord have s: "200 \<le> c" "c < 300" "json_codes se de x" by (auto intro: codes)
      have a: "answer X A se (h, w) = (Some \<lparr>wp_status = c, wp_body = json_to_string X (the_ok (se x))\<rparr>, w)"
        using Response JsonBody json_codesD(1)[OF s(3)] by simp
      have j: "resp_json X R de \<lparr>wp_status = c, wp_body = json_to_string X (the_ok (se x))\<rparr> v = (Ok x, v)" for v
        using X json_codesD(2,3)[OF s(3)] by (simp add: resp_json_def ebind_def rd_body codec_lawsD)
      have "ebind (rq_send R \<lparr>wq_method = m, wq_url = base @ path, wq_body = body\<rparr>) (checked_json X R de) n =
          (Ok x, wr w n)"
        using s send[unfolded a] by (simp add: ebind_def checked_json_def is_success_def j)
      then show ?thesis using Response JsonBody by simp
    qed
  next
    case (Dropped q)
    then show ?thesis using send by (simp add: ebind_def)
  qed
qed

text \<open>The same call when the request carries a value.\<close>

lemma remote_json_call:
  assumes X: "codec_laws X" and net: "remote R base srv rd wr" and path: "list_all path_char path"
    and req: "json_codes se_req de_req v"
    and run: "\<And>body w. srv POST path body w = with_json X A de_req body (\<lambda>v w. answer X A se (handler v w)) w"
    and h: "handler v (rd n) = (h, w)" "orderly good h" and codes: "\<And>x. good x \<Longrightarrow> json_codes se de x"
  shows "ebind (send_json X R (base @ path) (se_req v)) (checked_json X R de) n = (client_sees A h, wr w n)"
proof -
  let ?text = "json_to_string X (the_ok (se_req v))"
  have ok: "se_req v = Ok (the_ok (se_req v))" using json_codesD(1)[OF req] by (cases "se_req v") simp_all
  have "srv POST path (Some ?text) (rd n) = answer X A se (h, w)"
    using run with_json_codes[OF X req] h(1) by simp
  note call = remote_call[OF X net path this h(2) codes]
  have "send_json X R (base @ path) (se_req v) =
      rq_send R \<lparr>wq_method = POST, wq_url = base @ path, wq_body = Some ?text\<rparr>"
    unfolding send_json_def by (subst ok) simp
  then show ?thesis using call by simp
qed

section \<open>The routes the clients use\<close>

lemmas route_simps =
  guardian_app_def validator_app_def secure_signer_app_def secure_signer_eth_v1_def candidates_def match_path_def path_char_def

lemma static_route:
  assumes "axum_laws A" "list_all path_char path" "\<forall>c \<in> set (candidates r path). fst c = path"
    "map_of (concat (map snd (candidates r path))) m = Some e" "match_path path path = Some []"
  shows "axum_route A r m path = Handle e []"
  by (rule axum_routeI[OF assms])

lemma guardian_routes:
  assumes "axum_laws A"
  shows "axum_route A guardian_app POST ''/eth/v1/keygen'' = Handle Attest_fresh_eth_key_with_blockhash []"
    "axum_route A guardian_app GET ''/eth/v1/keygen'' = Handle List_eth_keys []"
    "axum_route A guardian_app POST ''/guardian/v1/validate-custody'' = Handle Validate_custody []"
    "axum_route A guardian_app POST ''/guardian/v1/sign-exit'' = Handle Sign_exit []"
    "axum_route A guardian_app GET ''/upcheck'' = Handle Health []"
  by (rule static_route[OF assms], simp add: route_simps, simp add: route_simps, simp add: route_simps,
      simp add: route_simps)+

lemma validator_routes:
  assumes "axum_laws A"
  shows "axum_route A validator_app POST ''/bls/v1/keygen'' = Handle Attest_fresh_bls_key []"
    "axum_route A validator_app GET ''/eth/v1/keystores'' = Handle List_bls_keys []"
    "axum_route A validator_app GET ''/upcheck'' = Handle Health []"
  by (rule static_route[OF assms], simp add: route_simps, simp add: route_simps, simp add: route_simps,
      simp add: route_simps)+

lemma secure_signer_routes:
  assumes "axum_laws A"
  shows "axum_route A secure_signer_app POST ''/eth/v1/keygen/secp256k1'' = Handle Eth_keygen []"
    "axum_route A secure_signer_app POST ''/eth/v1/keygen/bls'' = Handle Bls_keygen []"
    "axum_route A secure_signer_app GET ''/eth/v1/keygen/secp256k1'' = Handle List_eth_keys []"
    "axum_route A secure_signer_app GET ''/eth/v1/keystores'' = Handle List_bls_keys []"
    "axum_route A secure_signer_app POST ''/api/v1/eth2/deposit'' = Handle Validator_deposit []"
    "axum_route A secure_signer_app GET ''/upcheck'' = Handle Health []"
  by (rule static_route[OF assms], simp add: route_simps, simp add: route_simps, simp add: route_simps,
      simp add: route_simps)+

text \<open>The signing route takes the key's name from the path.\<close>

lemma split_on_nonempty: "split_on c s \<noteq> []"
  by (cases s) (auto split: list.split)

lemma split_on_slash:
  "CHR ''/'' \<notin> set name \<Longrightarrow> split_on CHR ''/'' (pre @ CHR ''/'' # name) = split_on CHR ''/'' pre @ [name]"
proof (induction pre)
  case Nil
  then show ?case by (simp add: split_on_plain)
next
  case (Cons c pre)
  then show ?case by (cases "split_on CHR ''/'' pre") (auto simp: split_on_nonempty)
qed

lemma sign_routes:
  assumes "axum_laws A" "list_all path_char name" "CHR ''/'' \<notin> set name" "name \<noteq> []"
  shows "axum_route A validator_app POST (''/api/v1/eth2/sign/'' @ name) = Handle Secure_sign_bls [(''bls_pk_hex'', name)]"
    "axum_route A secure_signer_app POST (''/api/v1/eth2/sign/'' @ name) = Handle Secure_sign_bls [(''bls_pk_hex'', name)]"
proof -
  have sp: "split_on CHR ''/'' (''/api/v1/eth2/sign/'' @ name) = [[], ''api'', ''v1'', ''eth2'', ''sign'', name]"
    using split_on_slash[OF assms(3), of "''/api/v1/eth2/sign''"] by simp
  have pc: "list_all path_char (''/api/v1/eth2/sign/'' @ name)"
    using assms(2) by (simp add: path_char_def)
  show "axum_route A validator_app POST (''/api/v1/eth2/sign/'' @ name) = Handle Secure_sign_bls [(''bls_pk_hex'', name)]"
    by (rule axum_routeI[OF assms(1) pc, where pat = "''/api/v1/eth2/sign/:bls_pk_hex''"])
      (simp_all only: candidates_def match_path_def sp, simp_all add: validator_app_def assms(4))
  show "axum_route A secure_signer_app POST (''/api/v1/eth2/sign/'' @ name) = Handle Secure_sign_bls [(''bls_pk_hex'', name)]"
    by (rule axum_routeI[OF assms(1) pc, where pat = "''/api/v1/eth2/sign/:bls_pk_hex''"])
      (simp_all only: candidates_def match_path_def sp,
       simp_all add: secure_signer_app_def secure_signer_eth_v1_def assms(4))
qed

end
