(* ===== verification/Remote_Calls.thy ===== *)
theory Remote_Calls
  imports Network
begin

text \<open>
  Each call of the clients against the server it is meant for. The handlers' answers have a
  JSON form that is read back as the same value, because every text in them is hexadecimal or
  was in the request.
\<close>

section \<open>Orderly answers\<close>

lemma orderly_on_ok:
  assumes "\<And>e. orderly good (bad e)" "\<And>x w'. m w = (Ok x, w') \<Longrightarrow> orderly good (fst (k x w'))"
  shows "orderly good (fst (on_ok m bad k w))"
proof (cases "m w")
  case (Pair r w')
  with assms show ?thesis by (cases r) (simp_all add: on_ok_def)
qed

lemma evidence_utf8:
  assumes "hex_laws X" "services_laws X N" "evidence_new N d w = (Ok e, w')"
  shows "is_utf8 (ae_session_id e)" "is_utf8 (ae_signature e)"
  using assms(3) assms(1)
  by (auto simp: evidence_new_def evidence_default_def sign_with_session_def Let_def res_simps
      alloy_to_string_eq[OF assms(2)] split: if_splits)

lemma generated_payload_printable:
  assumes L: "codec_laws X" "bls_laws X B" "services_laws X N"
    and k: "attest_fresh_bls_key X B E N wc gs t fv ra w = (Ok p, w')" "length fv = 4"
  shows "wf_BlsKeygenPayload p"
proof -
  note C = codec_lawsD[OF L(1)]
  obtain s where D: "describes X B E s wc fv gs p" "kp_fork_version p = fv"
    using attest_fresh_bls_key_Ok[OF L(1,2) k(1)] by blast
  obtain e d v where ev': "(if ra then evidence_new N d else ret (evidence_default N)) v = (Ok e, w')"
    and p: "session_id p = ae_session_id e" "attestation_signature p = ae_signature e"
      "session_public_key p = alloy_to_string N (pi_key (ae_session_public_key e))"
    using k(1) unfolding attest_fresh_bls_key_def Let_def by (auto simp only: res_simps ret_apply split: prod.splits)
      (auto simp: res_simps)
  have ev: "e = evidence_default N \<or> evidence_new N d v = (Ok e, w')" using ev' by (cases ra) auto
  have u: "is_utf8 (session_id p)" "is_utf8 (attestation_signature p)" "is_utf8 (session_public_key p)"
    using ev evidence_utf8[OF C(1) L(3)] C(1) p by (auto simp: evidence_default_def alloy_to_string_eq[OF L(3)])
  have shares: "list_all is_utf8 (bls_enc_priv_key_shares p)" "list_all is_utf8 (guardian_eth_pub_keys p)"
    using D(1) C(1) by (auto simp: describes_def Let_def share_for_def list_all_length)
  show ?thesis
    using D u shares C(1) k(2) by (simp add: wf_BlsKeygenPayload_def describes_def Let_def)
qed

lemma keygen_handler_orderly:
  assumes "codec_laws X" "bls_laws X B" "services_laws X N" "length (af_fork_version req) = 4"
  shows "orderly wf_BlsKeygenPayload (fst (attest_fresh_bls_key_handler X B E N req w))"
  unfolding attest_fresh_bls_key_handler_def
  by (rule orderly_on_ok) (use assms in \<open>auto simp: status_defs intro: generated_payload_printable\<close>)

lemma custody_response_printable:
  assumes L: "\<And>g. is_utf8 (wsig_to_string H g)"
    and k: "verify_and_sign_custody_received X B E N H req w = (Ok resp, w')"
    and p: "wf_BlsKeygenPayload (keygen_payload req)"
  shows "wf_ValidateCustodyResponse resp"
proof -
  obtain sk a where a: "approve_custody X B E H (keygen_payload req) sk (vc_validator_index req) = Ok a"
    and resp: "resp = \<lparr>vc_enclave_signature = a, vc_bls_pub_key = bls_pub_key (keygen_payload req),
       vc_withdrawal_credentials = kp_withdrawal_credentials (keygen_payload req),
       vc_deposit_signature = kp_signature (keygen_payload req),
       vc_deposit_data_root = kp_deposit_data_root (keygen_payload req)\<rparr>"
    using k unfolding verify_and_sign_custody_received_def Let_def
    by (auto simp: res_simps split: prod.splits res.splits if_splits)
  have "is_utf8 a"
    using a L by (auto simp: approve_custody_def Let_def res_simps split: if_splits)
  then show ?thesis
    using p by (simp add: resp wf_ValidateCustodyResponse_def wf_BlsKeygenPayload_def)
qed

lemma custody_handler_orderly:
  assumes "\<And>g. is_utf8 (wsig_to_string H g)" "wf_BlsKeygenPayload (keygen_payload req)"
  shows "orderly wf_ValidateCustodyResponse (fst (validate_custody_handler X B E N H req w))"
  unfolding validate_custody_handler_def
  by (rule orderly_on_ok) (use assms in \<open>auto simp: status_defs intro: custody_response_printable\<close>)

lemma exit_handler_orderly:
  assumes "hex_laws X"
  shows "orderly wf_SignExitResponse (fst (sign_exit_handler X B req w))"
  unfolding sign_exit_handler_def
  by (rule orderly_on_ok)
    (use assms in \<open>auto simp: status_defs sign_voluntary_exit_message_def Let_def res_simps wf_SignExitResponse_def
       split: prod.splits\<close>)

lemma sign_handler_orderly:
  assumes "hex_laws X"
  shows "orderly wf_SignatureResponse (fst (secure_sign_bls_handler X B name st req w))"
  unfolding secure_sign_bls_handler_def sign_validator_message_def Let_def
  by (auto intro!: orderly_on_ok simp: status_defs SignatureResponse_new_def wf_SignatureResponse_def assms)

section \<open>The calls\<close>

lemma codes_keygen_request:
  assumes "codec_laws X" "secp_laws E" "length (af_withdrawal_credentials p) = 32" "length (af_fork_version p) = 4"
  shows "json_codes (se_keygen_request X E) (de_keygen_request X E) p"
  using keygen_request_roundtrip[OF codec_lawsD(1)[OF assms(1)] assms(2-4)] by (auto simp: json_codes_iff)

lemma validator_keygen_call:
  assumes L: "codec_laws X" "bls_laws X B" "secp_laws E" "services_laws X N" "axum_laws A"
    and net: "remote R (vcl_url c) (serve X B E N H S W A l) rd wr" "li_app l = validator_app"
    and req: "length (af_withdrawal_credentials req) = 32" "length (af_fork_version req) = 4"
    and h: "attest_fresh_bls_key_handler X B E N req (rd n) = (h, w)"
  shows "ValidatorClient_attest_fresh_bls_key X E R c req n = (client_sees A h, wr w n)"
  unfolding ValidatorClient_attest_fresh_bls_key_def
proof (rule remote_json_call[OF L(1) net(1) _ codes_keygen_request[OF L(1,3) req], where handler = "attest_fresh_bls_key_handler X B E N"
      and se = se_BlsKeygenPayload and good = wf_BlsKeygenPayload and h = h])
  show "list_all path_char ''/bls/v1/keygen''" by (simp add: path_char_def)
  show "serve X B E N H S W A l POST ''/bls/v1/keygen'' body w =
      with_json X A (de_keygen_request X E) body
        (\<lambda>v w. answer X A se_BlsKeygenPayload (attest_fresh_bls_key_handler X B E N v w)) w" for body w
    by (simp add: serve_def net(2) validator_routes[OF L(5)] run_endpoint_def)
  show "attest_fresh_bls_key_handler X B E N req (rd n) = (h, w)" by (rule h)
  show "orderly wf_BlsKeygenPayload h"
    using keygen_handler_orderly[OF L(1,2,4) req(2), of E "rd n"] h by simp
qed (rule codes_BlsKeygenPayload)

lemma guardian_custody_call:
  assumes L: "codec_laws X" "wire_laws W" "axum_laws A" "\<And>g. is_utf8 (wsig_to_string H g)"
    and net: "remote R (gc_url c) (serve X B E N H S W A l) rd wr" "li_app l = guardian_app"
    and req: "wf_ValidateCustodyRequest req"
    and h: "validate_custody_handler X B E N H req (rd n) = (h, w)"
  shows "GuardianClient_validate_custody X W R c req n = (client_sees A h, wr w n)"
  unfolding GuardianClient_validate_custody_def
proof (rule remote_json_call[OF L(1) net(1) _ codes_ValidateCustodyRequest[OF L(2) req], where handler = "validate_custody_handler X B E N H"
      and se = se_ValidateCustodyResponse and good = wf_ValidateCustodyResponse and h = h])
  show "list_all path_char ''/guardian/v1/validate-custody''" by (simp add: path_char_def)
  show "serve X B E N H S W A l POST ''/guardian/v1/validate-custody'' body w =
      with_json X A (de_ValidateCustodyRequest W) body
        (\<lambda>v w. answer X A se_ValidateCustodyResponse (validate_custody_handler X B E N H v w)) w" for body w
    by (simp add: serve_def net(2) guardian_routes[OF L(3)] run_endpoint_def)
  show "validate_custody_handler X B E N H req (rd n) = (h, w)" by (rule h)
  have "wf_BlsKeygenPayload (keygen_payload req)" using req by (simp add: wf_ValidateCustodyRequest_def)
  then show "orderly wf_ValidateCustodyResponse h"
    using custody_handler_orderly[where H = H, OF L(4), of req X B E N "rd n"] h by simp
qed (rule codes_ValidateCustodyResponse)

lemma guardian_exit_call:
  assumes L: "codec_laws X" "axum_laws A"
    and net: "remote R (gc_url c) (serve X B E N H S W A l) rd wr" "li_app l = guardian_app"
    and req: "wf_SignExitRequest req"
    and h: "sign_exit_handler X B req (rd n) = (h, w)"
  shows "GuardianClient_sign_exit X R c req n = (client_sees A h, wr w n)"
  unfolding GuardianClient_sign_exit_def
proof (rule remote_json_call[OF L(1) net(1) _ codes_SignExitRequest[OF L(1) req], where handler = "sign_exit_handler X B"
      and se = se_SignExitResponse and good = wf_SignExitResponse and h = h])
  show "list_all path_char ''/guardian/v1/sign-exit''" by (simp add: path_char_def)
  show "serve X B E N H S W A l POST ''/guardian/v1/sign-exit'' body w =
      with_json X A (de_SignExitRequest X) body (\<lambda>v w. answer X A se_SignExitResponse (sign_exit_handler X B v w)) w"
    for body w
    by (simp add: serve_def net(2) guardian_routes[OF L(2)] run_endpoint_def)
  show "sign_exit_handler X B req (rd n) = (h, w)" by (rule h)
  show "orderly wf_SignExitResponse h"
    using exit_handler_orderly[OF codec_lawsD(1)[OF L(1)], of B req "rd n"] h by simp
qed (rule codes_SignExitResponse)

text \<open>Listing: a name that is not Unicode never gets into an answer.\<close>

lemma list_loop_utf8: "list_loop fs ks w = (Ok r, w') \<Longrightarrow> list_all is_utf8 ks \<Longrightarrow> list_all is_utf8 r"
  by (induction fs arbitrary: ks w) (auto split: prod.splits fault.splits if_splits)

lemma list_fnames_utf8: "list_fnames d w = (Ok r, w') \<Longrightarrow> list_all is_utf8 r"
  by (auto simp: list_fnames_def res_simps dest: list_loop_utf8)

lemma list_response_printable:
  assumes "list_all is_utf8 keys" "ListKeysResponse_new keys = Ok r"
  shows "wf_ListKeysResponse r"
proof -
  let ?f = "\<lambda>pk. rbind (str_slice_to pk 2) (\<lambda>start.
      Ok \<lparr>lk_pubkey = if start = ''0x'' then pk else ''0x'' @ pk\<rparr>)"
  obtain ins where r: "r = \<lparr>lk_data = ins\<rparr>" "mapM ?f keys = Ok ins"
    using assms(2) by (auto simp: ListKeysResponse_new_def rbind_eq_Ok Let_def)
  have "is_utf8 (lk_pubkey (ins ! i))" if "i < length keys" for i
  proof -
    have "?f (keys ! i) = Ok (ins ! i)" "is_utf8 (keys ! i)"
      using r(2) that assms(1) by (simp_all add: mapM_Ok_iff list_all_length)
    then show ?thesis by (cases "str_slice_to (keys ! i) 2") (auto dest!: sym[of _ "ins ! i"])
  qed
  then show ?thesis
    using r by (simp add: wf_ListKeysResponse_def wf_ListKeysResponseInner_def list_all_length mapM_Ok_iff)
qed

lemma list_handlers_orderly:
  "orderly wf_ListKeysResponse (fst (list_bls_keys_handler w))"
  "orderly wf_ListKeysResponse (fst (list_eth_keys_handler w))"
  unfolding list_bls_keys_handler_def list_eth_keys_handler_def list_keys_response_def list_bls_keys_def list_eth_keys_def
  by (auto intro!: orderly_on_ok simp: status_defs intro: list_response_printable[OF list_fnames_utf8])

lemma validator_list_call:
  assumes L: "codec_laws X" "axum_laws A"
    and net: "remote R (vcl_url c) (serve X B E N H S W A l) rd wr" "li_app l = validator_app"
    and h: "list_bls_keys_handler (rd n) = (h, w)"
  shows "ValidatorClient_list_bls_keys X R c n = (client_sees A h, wr w n)"
  unfolding ValidatorClient_list_bls_keys_def send_get_def
proof (rule remote_call[OF L(1) net(1), where se = se_ListKeysResponse and good = wf_ListKeysResponse])
  show "serve X B E N H S W A l GET ''/eth/v1/keystores'' None (rd n) = answer X A se_ListKeysResponse (h, w)"
    by (simp add: serve_def net(2) validator_routes[OF L(2)] run_endpoint_def h)
  show "orderly wf_ListKeysResponse h" using list_handlers_orderly(1)[of "rd n"] h by simp
qed (simp_all add: path_char_def codes_ListKeysResponse)

lemma guardian_list_call:
  assumes L: "codec_laws X" "axum_laws A"
    and net: "remote R (gc_url c) (serve X B E N H S W A l) rd wr" "li_app l = guardian_app"
    and h: "list_eth_keys_handler (rd n) = (h, w)"
  shows "GuardianClient_list_eth_keys X R c n = (client_sees A h, wr w n)"
  unfolding GuardianClient_list_eth_keys_def send_get_def
proof (rule remote_call[OF L(1) net(1), where se = se_ListKeysResponse and good = wf_ListKeysResponse])
  show "serve X B E N H S W A l GET ''/eth/v1/keygen'' None (rd n) = answer X A se_ListKeysResponse (h, w)"
    by (simp add: serve_def net(2) guardian_routes[OF L(2)] run_endpoint_def h)
  show "orderly wf_ListKeysResponse h" using list_handlers_orderly(2)[of "rd n"] h by simp
qed (simp_all add: path_char_def codes_ListKeysResponse)

text \<open>A guardian's key: generation and its attestation.\<close>

lemma eth_keygen_handler_orderly:
  assumes "codec_laws X" "services_laws X N"
  shows "orderly wf_KeyGenResponse (fst (attest_fresh_eth_key_handler X E N H req w))"
  unfolding attest_fresh_eth_key_handler_def
proof (rule orderly_on_ok)
  fix x w' assume "attest_new_eth_key_with_blockhash X E N H (kb_block_number req) (kb_guardian_module_address req)
      (kb_chain_id req) w = (Ok x, w')"
  then obtain e pk d v v' where "x = (e, pk)" "evidence_new N d v = (Ok e, v')"
    unfolding attest_new_eth_key_with_blockhash_def Let_def by (auto simp: res_simps)
  then show "orderly wf_KeyGenResponse (fst ((case x of (evidence, eth_pk) \<Rightarrow>
      respond (Response CREATED (JsonBody (from_eth_key X E eth_pk evidence)))) w'))"
    using evidence_utf8[OF codec_lawsD(1)[OF assms(1)] assms(2)] codec_lawsD(1)[OF assms(1)]
    by (simp add: status_defs from_eth_key_def wf_KeyGenResponse_def wf_AttestationEvidence_def)
qed (simp add: status_defs)

lemma guardian_keygen_call:
  assumes L: "codec_laws X" "services_laws X N" "wire_laws W" "axum_laws A" "is_utf8 addr"
    and net: "remote R (gc_url c) (serve X B E N H S W A l) rd wr" "li_app l = guardian_app"
    and h: "attest_fresh_eth_key_handler X E N H
        \<lparr>kb_block_number = bn, kb_guardian_module_address = addr, kb_chain_id = ci\<rparr> (rd n) = (h, w)"
  shows "GuardianClient_attest_fresh_eth_key X W R c bn addr ci n = (client_sees A h, wr w n)"
  unfolding GuardianClient_attest_fresh_eth_key_def Let_def
proof (rule remote_json_call[OF L(1) net(1) _ codes_KeygenWithBlockhashRequest _,
      where handler = "attest_fresh_eth_key_handler X E N H" and se = "se_KeyGenResponse W" and good = wf_KeyGenResponse
      and h = h])
  show "list_all path_char ''/eth/v1/keygen''" by (simp add: path_char_def)
  show "serve X B E N H S W A l POST ''/eth/v1/keygen'' body w =
      with_json X A de_KeygenWithBlockhashRequest body
        (\<lambda>v w. answer X A (se_KeyGenResponse W) (attest_fresh_eth_key_handler X E N H v w)) w" for body w
    by (simp add: serve_def net(2) guardian_routes[OF L(4)] run_endpoint_def)
  show "wf_KeygenWithBlockhashRequest \<lparr>kb_block_number = bn, kb_guardian_module_address = addr, kb_chain_id = ci\<rparr>"
    using L(5) by (simp add: wf_KeygenWithBlockhashRequest_def)
  show "orderly wf_KeyGenResponse h" using eth_keygen_handler_orderly[OF L(1,2), of E H _ "rd n"] h by (metis fst_conv)
qed (use h codes_KeyGenResponse[OF L(3)] in auto)

text \<open>The signing route: the key's name goes in the path without its prefix.\<close>

lemma hex_path:
  assumes "set name \<subseteq> lower_hex"
  shows "list_all path_char name" "CHR ''/'' \<notin> set name"
  using assms by (auto simp: lower_hex_def path_char_def list_all_iff)

lemma validator_exit_call:
  assumes L: "codec_laws X" "ssz_serde_laws S" "biguint_laws X" "axum_laws A"
    and net: "remote R (vcl_url c) (serve X B E N H S W A l) rd wr" "li_app l = validator_app"
    and name: "set (strip_0x_prefix name) \<subseteq> lower_hex" "strip_0x_prefix name \<noteq> []" and fi: "wf_ForkInfo fi"
    and h: "secure_sign_bls_handler X B (strip_0x_prefix name) (li_state l)
        (VOLUNTARY_EXIT \<lparr>ver_fork_info = fi, ver_signingRoot = None,
           ver_voluntary_exit = \<lparr>ve_epoch = ep, ve_validator_index = vi\<rparr>\<rparr>) (rd n) = (h, w)"
  shows "ValidatorClient_sign_voluntary_exit_message X S R c name ep vi fi n = (client_sees A h, wr w n)"
  unfolding ValidatorClient_sign_voluntary_exit_message_def Let_def
proof (rule remote_json_call[OF L(1) net(1) _ codes_BLSSignMsg[OF L(1-3)],
      where handler = "secure_sign_bls_handler X B (strip_0x_prefix name) (li_state l)" and se = se_SignatureResponse
      and good = wf_SignatureResponse and h = h])
  let ?path = "''/api/v1/eth2/sign/'' @ strip_0x_prefix name"
  show "list_all path_char ?path"
    using hex_path[OF name(1)] by (simp add: path_char_def)
  show "serve X B E N H S W A l POST ?path body w =
      with_json X A (de_BLSSignMsg X S) body
        (\<lambda>v w. answer X A se_SignatureResponse (secure_sign_bls_handler X B (strip_0x_prefix name) (li_state l) v w)) w"
    for body w
    unfolding serve_def net(2) sign_routes(1)[OF L(4) hex_path[OF name(1)] name(2)] by (simp add: run_endpoint_def)
  show "wf_BLSSignMsg (VOLUNTARY_EXIT \<lparr>ver_fork_info = fi, ver_signingRoot = None,
      ver_voluntary_exit = \<lparr>ve_epoch = ep, ve_validator_index = vi\<rparr>\<rparr>)"
    using fi by (simp add: wf_VoluntaryExitRequest_def wf_root_option_def wf_VoluntaryExit_def)
  show "orderly wf_SignatureResponse h"
    using sign_handler_orderly[OF codec_lawsD(1)[OF L(1)]] h by (metis fst_conv)
qed (use h codes_SignatureResponse in auto)

end
