(* ===== verification/Demo_Net.thy ===== *)
theory Demo_Net
  imports Demo_Crypto Remote_Calls
begin

text \<open>
  A concrete router, concrete JSON forms of the crates' types, and a network that connects a
  validator enclave and a guardian, with every documented property.
\<close>

section \<open>Crates\<close>

definition demo_axum :: axum where
  "demo_axum = \<lparr>
     axum_route = (\<lambda>r m path.
       (case candidates r path of
          [] \<Rightarrow> Unmatched \<lparr>wp_status = 404, wp_body = []\<rparr>
        | c # cs \<Rightarrow>
            (case map_of (concat (map snd (c # cs))) m of
               None \<Rightarrow> Unmatched \<lparr>wp_status = 405, wp_body = []\<rparr>
             | Some e \<Rightarrow>
                 (case match_path (fst c) path of
                    None \<Rightarrow> Unmatched \<lparr>wp_status = 404, wp_body = []\<rparr>
                  | Some params \<Rightarrow> Handle e params)))),
     json_rejection = (\<lambda>b. \<lparr>wp_status = (if b = None then 415 else 422), wp_body = ''bad request''\<rparr>),
     failure_text = (\<lambda>s e. s)\<rparr>"

lemma demo_axum_laws: "axum_laws demo_axum"
proof -
  have "axum_route demo_axum r m path = Handle e params"
    if "\<forall>c \<in> set (candidates r path). fst c = pat"
      "map_of (concat (map snd (candidates r path))) m = Some e" "match_path pat path = Some params"
    for r m path pat e params
    using that by (cases "candidates r path") (auto simp: demo_axum_def)
  moreover have "\<exists>resp. axum_route demo_axum r m path = Unmatched resp \<and> wp_status resp = 405"
    if "candidates r path \<noteq> []" "map_of (concat (map snd (candidates r path))) m = None" for r m path
    using that unfolding demo_axum_def by (cases "candidates r path") (simp_all del: concat.simps list.map map_of_append)
  moreover have "\<exists>resp. axum_route demo_axum r m path = Unmatched resp \<and> wp_status resp = 404"
    if "candidates r path = []" for r m path
    using that by (simp add: demo_axum_def)
  moreover have "400 \<le> wp_status (json_rejection demo_axum b) \<and> wp_status (json_rejection demo_axum b) < 500" for b
    by (simp add: demo_axum_def)
  ultimately show ?thesis unfolding axum_laws_def by blast
qed

definition demo_ssz_serde :: ssz_serde where
  "demo_ssz_serde = \<lparr>
     vl_accepts = (\<lambda>n k. k \<le> n),
     fv_accepts = (\<lambda>n k. k = n),
     vl_from = take,
     bitlist_to_ssz = map (\<lambda>b. if b then 1 else 0),
     bitlist_from_ssz = (\<lambda>n b. if length b \<le> n then Some (map (\<lambda>x. x = 1) b) else None),
     bitvector_to_ssz = map (\<lambda>b. if b then 1 else 0),
     bitvector_from_ssz = (\<lambda>n b. if length b = n then Some (map (\<lambda>x. x = 1) b) else None)\<rparr>"

lemma demo_ssz_serde_laws: "ssz_serde_laws demo_ssz_serde"
  by (simp add: ssz_serde_laws_def demo_ssz_serde_def comp_def)

definition demo_wire :: "u8 wire" where
  "demo_wire = \<lparr>
     identity_ser = (\<lambda>i. JArr [JNum (ucast (pi_type_id i)), JArr (map (\<lambda>x. JNum (ucast x)) (pi_key i))]),
     identity_de = (\<lambda>j. case j of
        JArr [t, k] \<Rightarrow>
          (case (de_u8 t, de_vec de_u8 k) of
             (Ok t, Ok k) \<Rightarrow> Some \<lparr>pi_type_id = t, pi_key = k\<rparr>
           | _ \<Rightarrow> None)
      | _ \<Rightarrow> None),
     epk_ser = (\<lambda>k. JNum (ucast k)),
     epk_de = (\<lambda>j. case de_u8 j of Ok k \<Rightarrow> Some k | _ \<Rightarrow> None)\<rparr>"

lemma demo_wire_laws: "wire_laws demo_wire"
proof -
  have u: "de_u8 (JNum (ucast x)) = Ok x" for x
    using u8_array_roundtrip[of "[x]"] by (cases "de_u8 (JNum (ucast x))") simp_all
  show ?thesis by (simp add: wire_laws_def demo_wire_def u de_vec_def u8_array_roundtrip)
qed

section \<open>A network of two servers\<close>

definition demo_validator_client :: ValidatorClient where
  "demo_validator_client = \<lparr>vcl_url = ''http://v''\<rparr>"

definition demo_guardian_client :: GuardianClient where
  "demo_guardian_client = \<lparr>gc_url = ''http://g''\<rparr>"

definition demo_delivery :: "wire_response option \<Rightarrow> wire_response res" where
  "demo_delivery r = (case r of Some resp \<Rightarrow> Ok resp | None \<Rightarrow> Err (External ''connection closed''))"

text \<open>Its state is the world of the validator enclave and that of the guardian.\<close>

definition demo_net ::
  "(http_method \<Rightarrow> string \<Rightarrow> string option \<Rightarrow> world \<Rightarrow> wire_response option \<times> world) \<Rightarrow>
   (http_method \<Rightarrow> string \<Rightarrow> string option \<Rightarrow> world \<Rightarrow> wire_response option \<times> world) \<Rightarrow>
   (world \<times> world) reqwest" where
  "demo_net v g = \<lparr>
     rq_send = (\<lambda>q (wv, wg).
       if take 8 (wq_url q) = ''http://v''
       then (case v (wq_method q) (drop 8 (wq_url q)) (wq_body q) wv of (r, w) \<Rightarrow> (demo_delivery r, (w, wg)))
       else (case g (wq_method q) (drop 8 (wq_url q)) (wq_body q) wg of (r, w) \<Rightarrow> (demo_delivery r, (wv, w)))),
     rq_text = (\<lambda>resp. ret (wp_body resp))\<rparr>"

lemma demo_net_remote:
  "remote (demo_net v g) (vcl_url demo_validator_client) v fst (\<lambda>w n. (w, snd n))"
  "remote (demo_net v g) (gc_url demo_guardian_client) g snd (\<lambda>w n. (fst n, w))"
  by (auto simp: remote_def demo_net_def demo_validator_client_def demo_guardian_client_def demo_delivery_def
      split: prod.splits option.splits)

end
