(* ===== verification/Signer_Client.thy ===== *)
theory Signer_Client
  imports Remote_Calls
begin

text \<open>
  The client of the secure signer over a network that delivers. It reads the body of every
  answer the same way, so its result is the value of an answer, and for a refusal whatever
  parsing the text of the refusal gives.
\<close>

fun client_parses :: "codec \<Rightarrow> axum \<Rightarrow> (json \<Rightarrow> 'a res) \<Rightarrow> 'a response \<Rightarrow> 'a res" where
  "client_parses X A de (Response c b) =
     (case b of
        JsonBody x \<Rightarrow> Ok x
      | NoBody \<Rightarrow> rbind (ok_or ''reqwest: error decoding response body'' (json_from_slice X [])) de
      | Message s \<Rightarrow> rbind (ok_or ''reqwest: error decoding response body'' (json_from_slice X s)) de
      | Failure s e \<Rightarrow>
          rbind (ok_or ''reqwest: error decoding response body'' (json_from_slice X (failure_text A s e))) de)"
| "client_parses X A de (Dropped m) = Err (External ''connection closed'')"

lemma unchecked_call:
  assumes X: "codec_laws X" and net: "remote R base srv rd wr" and path: "list_all path_char path"
    and run: "srv m path body (rd n) = answer X A se (h, w)"
    and ord: "orderly good h" and codes: "\<And>x. good x \<Longrightarrow> json_codes se de x"
  shows "ebind (rq_send R \<lparr>wq_method = m, wq_url = base @ path, wq_body = body\<rparr>) (resp_json X R de) n =
    (client_parses X A de h, wr w n)"
proof -
  have send: "rq_send R \<lparr>wq_method = m, wq_url = base @ path, wq_body = body\<rparr> n =
      (case answer X A se (h, w) of
         (Some resp, w) \<Rightarrow> (Ok resp, wr w n)
       | (None, w) \<Rightarrow> (Err (External ''connection closed''), wr w n))"
    using net path unfolding remote_def run[symmetric] by blast
  have rd_body: "rq_text R resp v = (Ok (wp_body resp), v)" for resp v
    using net unfolding remote_def by blast
  have got: "ebind (rq_send R \<lparr>wq_method = m, wq_url = base @ path, wq_body = body\<rparr>) (resp_json X R de) n =
      (rbind (ok_or ''reqwest: error decoding response body'' (json_from_slice X t)) de, wr w n)"
    if "answer X A se (h, w) = (Some \<lparr>wp_status = c, wp_body = t\<rparr>, w)" for c t
    using that send by (simp add: ebind_def resp_json_def rd_body)
  show ?thesis
  proof (cases h)
    case (Response c b)
    show ?thesis
    proof (cases b)
      case (JsonBody x)
      with Response ord have s: "json_codes se de x" by (auto intro: codes)
      then show ?thesis
        using Response JsonBody got[of c "json_to_string X (the_ok (se x))"] X json_codesD[OF s]
        by (simp add: codec_lawsD)
    qed (use Response got in simp_all)
  next
    case (Dropped q)
    then show ?thesis using send by (simp add: ebind_def)
  qed
qed

lemma signer_keygen_orderly:
  assumes X: "codec_laws X" and N: "services_laws X N"
  shows "orderly wf_KeyGenResponse (fst (eth_keygen_handler X E N w))"
    and "bls_laws X B \<Longrightarrow> orderly wf_KeyGenResponse (fst (bls_keygen_handler X B N w))"
proof -
  note hex = codec_lawsD(1)[OF X]
  have e: "wf_KeyGenResponse (from_eth_key X E pk e)" "bls_laws X B \<Longrightarrow> wf_KeyGenResponse (from_bls_key B bpk e)"
    if "evidence_new N d v = (Ok e, v')" for pk bpk e d v v'
    using evidence_utf8[OF hex N that] hex
    by (auto simp: from_eth_key_def from_bls_key_def pk_to_hex_eq wf_KeyGenResponse_def wf_AttestationEvidence_def)
  show "orderly wf_KeyGenResponse (fst (eth_keygen_handler X E N w))"
    unfolding eth_keygen_handler_def
    by (rule orderly_on_ok) (use e in \<open>auto simp: status_defs attest_new_eth_key_def res_simps\<close>)
  show "orderly wf_KeyGenResponse (fst (bls_keygen_handler X B N w))" if "bls_laws X B"
    unfolding bls_keygen_handler_def
    by (rule orderly_on_ok) (use e(2)[OF _ that] in \<open>auto simp: status_defs attest_new_bls_key_def res_simps Let_def\<close>)
qed

lemma signer_list_calls:
  assumes L: "codec_laws X" "axum_laws A"
    and net: "remote R (sc_url c) (serve X B E N H S W A l) rd wr" "li_app l = secure_signer_app"
  shows "list_eth_keys_handler (rd n) = (h, w) \<Longrightarrow>
      SecureSignerClient_list_eth_keys X R c n = (client_parses X A de_ListKeysResponse h, wr w n)"
    and "list_bls_keys_handler (rd n) = (h, w) \<Longrightarrow>
      SecureSignerClient_list_bls_keys X R c n = (client_parses X A de_ListKeysResponse h, wr w n)"
  unfolding SecureSignerClient_list_eth_keys_def SecureSignerClient_list_bls_keys_def send_get_def
  using list_handlers_orderly(1)[of "rd n"] list_handlers_orderly(2)[of "rd n"]
  by (auto intro!: unchecked_call[OF L(1) net(1), where se = se_ListKeysResponse and good = wf_ListKeysResponse]
      simp: serve_def net(2) secure_signer_routes[OF L(2)] run_endpoint_def path_char_def codes_ListKeysResponse)

lemma signer_keygen_calls:
  assumes L: "codec_laws X" "services_laws X N" "wire_laws W" "axum_laws A"
    and net: "remote R (sc_url c) (serve X B E N H S W A l) rd wr" "li_app l = secure_signer_app"
  shows "eth_keygen_handler X E N (rd n) = (h, w) \<Longrightarrow>
      SecureSignerClient_generate_eth_key X W R c n = (client_parses X A (de_KeyGenResponse W) h, wr w n)"
    and "bls_laws X B \<Longrightarrow> bls_keygen_handler X B N (rd n) = (h, w) \<Longrightarrow>
      SecureSignerClient_generate_bls_key X W R c n = (client_parses X A (de_KeyGenResponse W) h, wr w n)"
  unfolding SecureSignerClient_generate_eth_key_def SecureSignerClient_generate_bls_key_def send_post_def
  using signer_keygen_orderly(1)[OF L(1,2), of E "rd n"] signer_keygen_orderly(2)[OF L(1,2), of B "rd n"]
  by (auto intro!: unchecked_call[OF L(1) net(1), where se = "se_KeyGenResponse W" and good = wf_KeyGenResponse]
      simp: serve_def net(2) secure_signer_routes[OF L(4)] run_endpoint_def path_char_def codes_KeyGenResponse[OF L(3)])

lemma signer_sign_call:
  assumes L: "codec_laws X" "ssz_serde_laws S" "biguint_laws X" "axum_laws A"
    and net: "remote R (sc_url c) (serve X B E N H S W A l) rd wr" "li_app l = secure_signer_app"
    and name: "set name \<subseteq> lower_hex" "name \<noteq> []" and m: "wf_BLSSignMsg m"
    and h: "secure_sign_bls_handler X B name (li_state l) m (rd n) = (h, w)"
  shows "SecureSignerClient_secure_sign_bls X S R c name m n = (client_parses X A de_SignatureResponse h, wr w n)"
proof -
  note M = codes_BLSSignMsg[OF L(1-3) m]
  let ?text = "json_to_string X (the_ok (se_BLSSignMsg X S m))"
  have ok: "se_BLSSignMsg X S m = Ok (the_ok (se_BLSSignMsg X S m))"
    using json_codesD(1)[OF M] by (cases "se_BLSSignMsg X S m") simp_all
  have path: "list_all path_char (''/api/v1/eth2/sign/'' @ name)"
    using hex_path[OF name(1)] by (simp add: path_char_def)
  have run: "serve X B E N H S W A l POST (''/api/v1/eth2/sign/'' @ name) (Some ?text) (rd n) =
      answer X A se_SignatureResponse (h, w)"
    unfolding serve_def net(2) sign_routes(2)[OF L(4) hex_path[OF name(1)] name(2)]
    using h by (simp add: run_endpoint_def with_json_codes[OF L(1) M])
  have ord: "orderly wf_SignatureResponse h"
    using sign_handler_orderly[OF codec_lawsD(1)[OF L(1)], of B name "li_state l" m "rd n"] h by simp
  have "send_json X R (sc_url c @ ''/api/v1/eth2/sign/'' @ name) (se_BLSSignMsg X S m) =
      rq_send R \<lparr>wq_method = POST, wq_url = sc_url c @ ''/api/v1/eth2/sign/'' @ name, wq_body = Some ?text\<rparr>"
    unfolding send_json_def by (subst ok) simp
  then show ?thesis
    unfolding SecureSignerClient_secure_sign_bls_def
    using unchecked_call[OF L(1) net(1) path run ord codes_SignatureResponse] by simp
qed

end
