(* ===== verification/Block_Fees.thy ===== *)
theory Block_Fees
  imports Remote_Calls
begin

text \<open>
  What \<open>from_u256_string\<close> means for the signing endpoint: a block whose base fee is below
  \<open>2 ^ 192\<close> has a JSON form, and no server accepts it.
\<close>

section \<open>Values that are written but not read\<close>

definition unreadable :: "('a \<Rightarrow> json res) \<Rightarrow> (json \<Rightarrow> 'a res) \<Rightarrow> 'a \<Rightarrow> bool" where
  "unreadable se de v \<longleftrightarrow> is_ok (se v) \<and> printable (the_ok (se v)) \<and> (\<exists>e. de (the_ok (se v)) = Err e)"

lemma small_u256_unreadable:
  assumes "biguint_laws X" "u64_digits_val ds < 2 ^ 192"
  shows "unreadable (to_u256_string X) (from_u256_string X) ds"
proof -
  have "length (biguint_to_u64_digits X (u64_digits_val ds)) \<noteq> 4"
    using to_u64_digits_length_4[OF assms(1)] assms(2) by simp
  then show ?thesis
    using assms(1) by (simp add: unreadable_def from_u256_string_def to_u256_string_def de_str_def biguint_laws_def)
qed

text \<open>The field inside a block request, and the request with another value there.\<close>

definition base_fee :: "BlockRequest \<Rightarrow> nat" where
  "base_fee r = u64_digits_val (ep_base_fee_per_gas (bbb_execution_payload (bb_body (br_block r))))"

definition payload_fee :: "U256 \<Rightarrow> ExecutionPayload \<Rightarrow> ExecutionPayload" where
  "payload_fee f v = v\<lparr>ep_base_fee_per_gas := f\<rparr>"

definition body_fee :: "U256 \<Rightarrow> BeaconBlockBody \<Rightarrow> BeaconBlockBody" where
  "body_fee f v = v\<lparr>bbb_execution_payload := payload_fee f (bbb_execution_payload v)\<rparr>"

definition block_fee :: "U256 \<Rightarrow> BeaconBlock \<Rightarrow> BeaconBlock" where
  "block_fee f v = v\<lparr>bb_body := body_fee f (bb_body v)\<rparr>"

definition request_fee :: "U256 \<Rightarrow> BlockRequest \<Rightarrow> BlockRequest" where
  "request_fee f v = v\<lparr>br_block := block_fee f (br_block v)\<rparr>"

lemmas unreadable_simps =
  unreadable_def se_struct_def se_field_def se_skip_none_def struct_fields_object required_def
  default_field_def wf_bytes_def wf_vl_def wf_fv_def wf_root_option_def list_all_iff

lemma low_fee_payload:
  assumes "codec_laws X" "ssz_serde_laws S" "biguint_laws X" "wf_ExecutionPayload (payload_fee f v)"
    "u64_digits_val (ep_base_fee_per_gas v) < 2 ^ 192"
  shows "unreadable (se_ExecutionPayload X S) (de_ExecutionPayload X S) v"
proof -
  obtain e where e: "from_u256_string X (the_ok (to_u256_string X (ep_base_fee_per_gas v))) = Err e"
    using small_u256_unreadable[OF assms(3,5)] by (auto simp: unreadable_def)
  show ?thesis
    using assms(1-4) e
    by (cases v) (simp add: se_ExecutionPayload_def de_ExecutionPayload_def wf_ExecutionPayload_def payload_fee_def
        unreadable_simps)
qed

lemma low_fee_body:
  assumes "codec_laws X" "ssz_serde_laws S" "biguint_laws X" "wf_BeaconBlockBody (body_fee f v)"
    "unreadable (se_ExecutionPayload X S) (de_ExecutionPayload X S) (bbb_execution_payload v)"
  shows "unreadable (se_BeaconBlockBody X S) (de_BeaconBlockBody X S) v"
  using assms
  by (cases v) (auto simp: se_BeaconBlockBody_def de_BeaconBlockBody_def wf_BeaconBlockBody_def body_fee_def unreadable_simps)

lemma low_fee_block:
  assumes "codec_laws X" "wf_BeaconBlock (block_fee f v)"
    "unreadable (se_BeaconBlockBody X S) (de_BeaconBlockBody X S) (bb_body v)"
  shows "unreadable (se_BeaconBlock X S) (de_BeaconBlock X S) v"
  using assms
  by (cases v) (auto simp: se_BeaconBlock_def de_BeaconBlock_def wf_BeaconBlock_def block_fee_def unreadable_simps)

lemma low_fee_request:
  assumes "codec_laws X" "wf_BlockRequest (request_fee f v)"
    "unreadable (se_BeaconBlock X S) (de_BeaconBlock X S) (br_block v)"
  shows "unreadable (se_BlockRequest X S) (de_BlockRequest X S) v"
  using assms
  by (cases "br_signingRoot v"; cases v)
    (auto simp: se_BlockRequest_def de_BlockRequest_def wf_BlockRequest_def request_fee_def unreadable_simps)

lemma tagged_unreadable:
  assumes no: "unreadable se de v" and struct: "se v = se_struct r" "untyped r" and tag: "is_utf8 tag"
  shows "is_ok (se_tagged tag (se v))" "printable (the_ok (se_tagged tag (se v)))"
    "de_tagged (the_ok (se_tagged tag (se v))) = Ok (tag, the_ok (se v))"
proof -
  have "json_codes se (\<lambda>_. Ok v) v" using no by (simp add: json_codes_def unreadable_def)
  from tagged_codes[OF this struct tag] show "is_ok (se_tagged tag (se v))"
    "printable (the_ok (se_tagged tag (se v)))" "de_tagged (the_ok (se_tagged tag (se v))) = Ok (tag, the_ok (se v))" .
qed

lemma low_fee_message:
  assumes L: "codec_laws X" "ssz_serde_laws S" "biguint_laws X"
    and v: "wf_BlockRequest (request_fee f v)" "base_fee v < 2 ^ 192"
  shows "unreadable (se_BLSSignMsg X S) (de_BLSSignMsg X S) (BLOCK v)"
    "unreadable (se_BLSSignMsg X S) (de_BLSSignMsg X S) (block v)"
proof -
  have wf: "wf_BeaconBlock (block_fee f (br_block v))" "wf_BeaconBlockBody (body_fee f (bb_body (br_block v)))"
    "wf_ExecutionPayload (payload_fee f (bbb_execution_payload (bb_body (br_block v))))"
    using v(1) by (simp_all add: wf_BlockRequest_def request_fee_def wf_BeaconBlock_def block_fee_def
        wf_BeaconBlockBody_def body_fee_def)
  have no: "unreadable (se_BlockRequest X S) (de_BlockRequest X S) v"
    by (rule low_fee_request[OF L(1) v(1) low_fee_block[OF L(1) wf(1) low_fee_body[OF L wf(2) low_fee_payload[OF L wf(3)]]]])
      (use v(2) in \<open>simp add: base_fee_def\<close>)
  then obtain e where e: "de_BlockRequest X S (the_ok (se_BlockRequest X S v)) = Err e" by (auto simp: unreadable_def)
  note t = tagged_unreadable[OF no se_BlockRequest_def]
  show "unreadable (se_BLSSignMsg X S) (de_BLSSignMsg X S) (BLOCK v)"
    "unreadable (se_BLSSignMsg X S) (de_BLSSignMsg X S) (block v)"
    by (simp_all add: unreadable_def de_BLSSignMsg_def t e)
qed

end
