(* ===== verification/Startup_Laws.thy ===== *)
theory Startup_Laws
  imports Startup
begin

text \<open>When a server starts, and with which settings.\<close>

section \<open>Decimal texts\<close>

lemma digits_val_snoc: "digits_val (ds @ [c]) = 10 * digits_val ds + ((of_char c :: nat) - 48)"
  by (simp add: digits_val_def)

text \<open>
  What a decimal text is, independently of the parser: an optional plus sign and digits, the
  last one worth least.
\<close>

definition digit_char :: "nat \<Rightarrow> char" where
  "digit_char d = char_of (48 + d)"

definition decimal :: "string \<Rightarrow> nat \<Rightarrow> bool" where
  "decimal s n \<longleftrightarrow> (\<exists>sign ds. s = sign @ map digit_char ds \<and> (sign = [] \<or> sign = ''+'') \<and> ds \<noteq> [] \<and>
     (\<forall>d \<in> set ds. d < 10) \<and> n = horner_sum id 10 (rev ds))"

lemma digit_char_simps:
  assumes "d < 10"
  shows "(of_char (digit_char d) :: nat) = 48 + d" "is_digit (digit_char d)" "digit_char d \<noteq> CHR ''+''"
proof -
  show v: "(of_char (digit_char d) :: nat) = 48 + d" using assms by (simp add: digit_char_def)
  then show "is_digit (digit_char d)" using assms by (simp add: is_digit_def)
  show "digit_char d \<noteq> CHR ''+''"
  proof
    assume "digit_char d = CHR ''+''"
    then have "(of_char (digit_char d) :: nat) = 43" by simp
    with v show False by simp
  qed
qed

lemma digits_val_digits: "\<forall>d \<in> set ds. d < 10 \<Longrightarrow> digits_val (map digit_char ds) = horner_sum id 10 (rev ds)"
proof (induction ds rule: rev_induct)
  case Nil
  then show ?case by (simp add: digits_val_def)
next
  case (snoc d ds)
  then show ?case by (simp add: digits_val_snoc digit_char_simps)
qed

lemma digits_are_chars:
  assumes "list_all is_digit s"
  shows "\<exists>ds. s = map digit_char ds \<and> (\<forall>d \<in> set ds. d < 10)"
proof -
  have "digit_char ((of_char c :: nat) - 48) = c \<and> (of_char c :: nat) - 48 < 10" if "is_digit c" for c
    using that by (auto simp: is_digit_def digit_char_def)
  then have "s = map digit_char (map (\<lambda>c. of_char c - 48 :: nat) s)" "\<forall>d \<in> set (map (\<lambda>c. of_char c - 48 :: nat) s). d < 10"
    using assms by (auto simp: list_all_iff map_idI)
  then show ?thesis by blast
qed

text \<open>The parser accepts the decimal texts of numbers below \<open>2 ^ 16\<close>.\<close>

lemma parse_u16_decimal: "parse_u16 s = Some p \<longleftrightarrow> decimal s (unat p)"
proof
  assume p: "parse_u16 s = Some p"
  define r where "r = (if take 1 s = ''+'' then drop 1 s else s)"
  have r: "r \<noteq> []" "list_all is_digit r" "digits_val r < 2 ^ 16" "p = of_nat (digits_val r)"
    using p unfolding parse_u16_def r_def[symmetric] by (simp_all add: Let_def split: if_splits)
  obtain ds where ds: "r = map digit_char ds" "\<forall>d \<in> set ds. d < 10"
    using digits_are_chars[OF r(2)] by blast
  have "s = (if take 1 s = ''+'' then ''+'' else []) @ r"
    by (cases s) (auto simp: r_def)
  moreover have "unat p = horner_sum id 10 (rev ds)"
    using r(3,4) digits_val_digits[OF ds(2)] ds(1) by (simp add: unat_of_nat)
  ultimately show "decimal s (unat p)"
    unfolding decimal_def using ds r(1) by (intro exI[of _ "if take 1 s = ''+'' then ''+'' else []"] exI[of _ ds]) auto
next
  assume "decimal s (unat p)"
  then obtain sign ds where d: "s = sign @ map digit_char ds" "sign = [] \<or> sign = ''+''" "ds \<noteq> []"
    "\<forall>d \<in> set ds. d < 10" "unat p = horner_sum id 10 (rev ds)" unfolding decimal_def by blast
  have r: "(if take 1 s = ''+'' then drop 1 s else s) = map digit_char ds"
    using d(1-4) by (cases ds) (auto simp: digit_char_simps)
  have "list_all is_digit (map digit_char ds)" using d(4) by (simp add: list_all_iff digit_char_simps)
  moreover have v: "digits_val (map digit_char ds) = unat p" using digits_val_digits[OF d(4)] d(5) by simp
  moreover have "unat p < 2 ^ 16" using unsigned_less[of p, where ?'a = nat] by simp
  ultimately show "parse_u16 s = Some p" using d(3) unfolding parse_u16_def r by (simp add: Let_def)
qed

lemma port_setting_Ok:
  "port_setting k d args w = Ok p \<longleftrightarrow> (\<exists>s. setting k 1 d args w = Ok s \<and> decimal s (unat p))"
  by (auto simp: port_setting_def res_simps parse_u16_decimal)

lemma genesis_setting_Ok:
  "genesis_setting X args w = Ok v \<longleftrightarrow>
     (\<exists>s. setting ''GENESIS_FORK_VERSION'' 2 ''00000000'' args w = Ok s \<and>
        hex_decode X (strip_0x_prefix s) = Some v \<and> length v = 4)"
  by (auto simp: genesis_setting_def res_simps copy_from_slice_def Let_def)

text \<open>A start that does not succeed is a panic.\<close>

lemma setting_no_error: "setting k i d args w \<noteq> Err e"
  by (auto simp: setting_def args_nth_def res_simps split: res.splits if_splits)

lemma start_no_error: "port_setting k d args w \<noteq> Err e" "genesis_setting X args w \<noteq> Err e"
proof -
  have "expect m (r :: 'x res) \<noteq> Err e'" for m r e' by (cases r) simp_all
  then show "port_setting k d args w \<noteq> Err e" "genesis_setting X args w \<noteq> Err e"
    by (auto simp: port_setting_def genesis_setting_def res_simps setting_no_error copy_from_slice_def Let_def)
qed

end
