(* ===== verification/Panics.thy ===== *)
theory Panics
  imports Service Key_Listing
begin

text \<open>
  Where the servers can panic. Every fallible definition either hands its failure on as an
  error or panics at a place the source marks (\<open>unwrap\<close>, \<open>expect\<close>, a slice of a wrong
  length, an assertion); the lemmas follow the calls from the handlers down to those places.
\<close>

section \<open>Results and effects that do not panic\<close>

definition calm :: "'a res \<Rightarrow> bool" where
  "calm r \<longleftrightarrow> (\<forall>s. r \<noteq> Panic s)"

definition runs :: "('w, 'a) eff \<Rightarrow> 'w \<Rightarrow> bool" where
  "runs m w \<longleftrightarrow> calm (fst (m w))"

definition answered :: "'a response \<times> 'w \<Rightarrow> bool" where
  "answered h \<longleftrightarrow> (\<forall>s. fst h \<noteq> Dropped s)"

lemma calm_simps [simp]:
  "calm (Ok x)" "calm (Err e)" "\<not> calm (Panic s)" "calm (ok_or t v)"
  "calm (with_context s r) \<longleftrightarrow> calm r" "calm (expect s r) \<longleftrightarrow> is_ok r"
  by (simp_all add: calm_def) (cases r; simp)+

lemma calm_rbind [simp]: "calm m \<Longrightarrow> (\<And>x. m = Ok x \<Longrightarrow> calm (f x)) \<Longrightarrow> calm (rbind m f)"
  by (cases m) simp_all

lemma calm_mapM [simp]: "(\<And>x. x \<in> set xs \<Longrightarrow> calm (f x)) \<Longrightarrow> calm (mapM f xs)"
  by (induction xs) simp_all

lemma runs_simps [simp]:
  "runs (ret x) w" "runs (lift r) w \<longleftrightarrow> calm r" "runs (in_context s m) w \<longleftrightarrow> runs m w"
  by (simp_all add: runs_def calm_def)

lemma runs_ebind: "runs m w \<Longrightarrow> (\<And>x w'. m w = (Ok x, w') \<Longrightarrow> runs (f x) w') \<Longrightarrow> runs (ebind m f) w"
  unfolding runs_def calm_def by (metis ebind_no_panic)

lemma answered_simps [simp]: "answered (Response c b, w)" "\<not> answered (Dropped s, w)"
  by (simp_all add: answered_def)

lemma answered_on_ok:
  "runs m w \<Longrightarrow> (\<And>e s. bad e \<noteq> Dropped s) \<Longrightarrow> (\<And>x w'. m w = (Ok x, w') \<Longrightarrow> answered (k x w')) \<Longrightarrow>
     answered (on_ok m bad k w)"
  by (cases "m w"; cases "fst (m w)") (simp_all add: runs_def answered_def)

lemma answer_dropped:
  assumes "fst (answer X A se h) = None" "\<And>x. calm (se x)"
  shows "\<not> answered h"
  using assms by (auto simp: answer_def answered_def calm_def split: prod.splits response.splits body.splits res.splits)

section \<open>Deserializers\<close>

lemma calm_de_leaves [simp]:
  "calm (de_str j)" "calm (de_quoted_u64 X j)" "calm (de_serhex X n j)" "calm (from_hex_to_ssz_type X f j)"
  "calm (from_hex_to_ssz_bits_type X g j)" "calm (from_u256_string X j)" "calm (de_signing_root X j)"
  "calm (de_u8 j)" "calm (de_u64 j)" "calm (de_bool j)"
  by (simp_all add: de_str_def de_quoted_u64_def de_serhex_def from_hex_to_ssz_type_def from_hex_to_ssz_bits_type_def
      from_u256_string_def de_signing_root_def de_u8_def de_u64_def de_bool_def Let_def split: json.split option.split)

lemma calm_fields [simp]:
  "calm (struct_fields names j)" "(\<And>j. calm (de j)) \<Longrightarrow> calm (required v de)"
  "(\<And>j. calm (de j)) \<Longrightarrow> calm (default_field d v de)" "(\<And>j. calm (de j)) \<Longrightarrow> calm (de_vec de j)"
  "(\<And>j. calm (de j)) \<Longrightarrow> calm (de_vl S n de j)" "(\<And>j. calm (de j)) \<Longrightarrow> calm (de_fv S n de j)"
  "calm (de_u8_array n j)"
  by (auto simp: struct_fields_def object_field_def required_def default_field_def de_vec_def de_vl_def de_fv_def
      de_u8_array_def split: json.split list.split option.split)

lemma calm_keygen_fields [simp]:
  "calm (deserialize_pubkeys_from_hex X E j)" "calm (deserialize_32_bytes_from_hex X j)"
  by (simp_all add: deserialize_pubkeys_from_hex_def deserialize_32_bytes_from_hex_def copy_from_slice_def Let_def
      split: json.split)

lemma calm_requests_1 [simp]:
  "calm (de_Fork X j)" "calm (de_ForkInfo X j)" "calm (de_BeaconBlockHeader X j)"
  "calm (de_SignedBeaconBlockHeader X j)" "calm (de_ProposerSlashing X j)"
  "calm (de_Checkpoint X j)" "calm (de_AttestationData X j)" "calm (de_IndexedAttestation X S j)"
  by (simp_all add:
      de_Fork_def de_ForkInfo_def de_BeaconBlockHeader_def de_SignedBeaconBlockHeader_def
      de_ProposerSlashing_def de_Checkpoint_def de_AttestationData_def de_IndexedAttestation_def)

lemma calm_requests_2 [simp]:
  "calm (de_AttesterSlashing X S j)" "calm (de_Eth1Data X j)" "calm (de_DepositData X j)"
  "calm (de_Deposit X S j)" "calm (de_VoluntaryExit X j)" "calm (de_SignedVoluntaryExit X j)"
  "calm (de_Attestation X S j)" "calm (de_SyncAggregate X S j)"
  by (simp_all add:
      de_AttesterSlashing_def de_Eth1Data_def de_DepositData_def de_Deposit_def
      de_VoluntaryExit_def de_SignedVoluntaryExit_def de_Attestation_def de_SyncAggregate_def)

lemma calm_requests_3 [simp]:
  "calm (de_Withdrawal X j)" "calm (de_ExecutionPayload X S j)"
  "calm (de_BLSToExecutionChange X j)" "calm (de_SignedBLSToExecutionChange X j)"
  "calm (de_BlockV2RequestWrapper X j)" "calm (de_BlockV2Request X j)"
  "calm (de_AttestationRequest X j)" "calm (de_RandaoReveal X j)"
  by (simp_all add:
      de_Withdrawal_def de_ExecutionPayload_def de_BLSToExecutionChange_def
      de_SignedBLSToExecutionChange_def de_BlockV2RequestWrapper_def de_BlockV2Request_def
      de_AttestationRequest_def de_RandaoReveal_def)

lemma calm_requests_4 [simp]:
  "calm (de_RandaoRevealRequest X j)" "calm (de_AggregateAndProof X S j)"
  "calm (de_AggregateAndProofRequest X S j)" "calm (de_AggregationSlot X j)"
  "calm (de_AggregationSlotRequest X j)" "calm (de_DepositMessage X j)"
  "calm (de_DepositRequest X j)" "calm (de_VoluntaryExitRequest X j)"
  by (simp_all add:
      de_RandaoRevealRequest_def de_AggregateAndProof_def de_AggregateAndProofRequest_def
      de_AggregationSlot_def de_AggregationSlotRequest_def de_DepositMessage_def
      de_DepositRequest_def de_VoluntaryExitRequest_def)

lemma calm_requests_5 [simp]:
  "calm (de_SyncCommitteeMessageRequestWrapper X j)" "calm (de_SyncCommitteeMessageRequest X j)"
  "calm (de_SyncAggregatorSelectionData X j)" "calm (de_SyncCommitteeSelectionProofRequest X j)"
  "calm (de_SyncCommitteeContribution X S j)" "calm (de_ContributionAndProof X S j)"
  "calm (de_SyncCommitteeContributionAndProofRequest X S j)" "calm (de_ValidatorRegistration X j)"
  by (simp_all add:
      de_SyncCommitteeMessageRequestWrapper_def de_SyncCommitteeMessageRequest_def
      de_SyncAggregatorSelectionData_def de_SyncCommitteeSelectionProofRequest_def
      de_SyncCommitteeContribution_def de_ContributionAndProof_def
      de_SyncCommitteeContributionAndProofRequest_def de_ValidatorRegistration_def)

lemma calm_requests_6 [simp]:
  "calm (de_ValidatorRegistrationRequest X j)"
  by (simp_all add:
      de_ValidatorRegistrationRequest_def)

lemma calm_if: "(c \<Longrightarrow> calm a) \<Longrightarrow> (\<not> c \<Longrightarrow> calm b) \<Longrightarrow> calm (if c then a else b)"
  by simp

lemma calm_de_tagged [simp]: "calm (de_tagged j)"
  by (simp add: de_tagged_def split: json.split list.split)

text \<open>
  A signing message is refused with an error, unless it is a block, whose commitments are
  read by \<open>from_hex_vec_to_ssz_type\<close>.
\<close>

lemma de_BLSSignMsg_panics:
  assumes "\<not> calm (de_BLSSignMsg X S j)"
  shows "\<exists>tag c. de_tagged j = Ok (tag, c) \<and> tag \<in> {''BLOCK'', ''block''} \<and> \<not> calm (de_BlockRequest X S c)"
proof (rule ccontr)
  assume n: "\<not> ?thesis"
  have "calm (de_BLSSignMsg X S j)"
    unfolding de_BLSSignMsg_def
  proof (rule calm_rbind[OF calm_de_tagged], goal_cases)
    case (1 t)
    obtain tag c where tc: "t = (tag, c)" by fastforce
    have b: "tag = ''BLOCK'' \<Longrightarrow> calm (de_BlockRequest X S c)" "tag = ''block'' \<Longrightarrow> calm (de_BlockRequest X S c)"
      using n 1 tc by blast+
    show ?case
      unfolding tc prod.case
      by (intro calm_if calm_rbind calm_simps(1,2) calm_requests_1 calm_requests_2 calm_requests_3 calm_requests_4 calm_requests_5 calm_requests_6; (rule b)?; assumption)
  qed
  with assms show False by simp
qed

section \<open>Answers\<close>

lemma calm_se_leaves [simp]:
  "calm (se_string s)" "calm (se_u64 n)" "calm (se_bool t)" "calm (se_u8_array b)"
  by (simp_all add: se_string_def se_u64_def se_bool_def se_u8_array_def)

lemma calm_se_fields [simp]:
  "calm v \<Longrightarrow> calm r \<Longrightarrow> calm (se_field n v r)" "calm r \<Longrightarrow> calm (se_struct r)"
  "(\<And>x. calm (se x)) \<Longrightarrow> calm (se_vec se xs)"
  by (simp_all add: se_field_def se_struct_def se_vec_def)

lemma calm_server_requests [simp]:
  "calm (de_epk W j)" "calm (de_BlsKeygenPayload j)" "calm (de_ValidateCustodyRequest W j)"
  "calm (de_SignExitRequest X j)" "calm (de_KeygenWithBlockhashRequest j)"
  "calm (de_keygen_request X E j)"
  by (simp_all add:
      de_epk_def de_BlsKeygenPayload_def de_ValidateCustodyRequest_def de_SignExitRequest_def
      de_KeygenWithBlockhashRequest_def de_keygen_request_def)

lemma calm_answers [simp]:
  "calm (se_identity W i)" "calm (se_AttestationEvidence W v2)" "calm (se_KeyGenResponse W v3)"
  "calm (se_ListKeysResponseInner v4)" "calm (se_ListKeysResponse v5)"
  "calm (se_SignatureResponse v6)" "calm (se_BlsKeygenPayload v7)"
  "calm (se_ValidateCustodyResponse v9)" "calm (se_SignExitResponse v11)"
  "calm (se_DepositResponse X v)"
  by (simp_all add:
      se_identity_def se_AttestationEvidence_def se_KeyGenResponse_def se_ListKeysResponseInner_def
      se_ListKeysResponse_def se_SignatureResponse_def se_BlsKeygenPayload_def
      se_ValidateCustodyResponse_def se_SignExitResponse_def se_DepositResponse_def)

section \<open>Files and keys\<close>

lemma runs_Pair [simp]: "runs (Pair r) w \<longleftrightarrow> calm r"
  by (simp add: runs_def)

lemma runs_files [simp]:
  "runs (create_dir_all p) w" "runs (fs_write p s) w" "runs (fs_read p) w" "runs (exists_path p) w"
  "runs (read_dir p) w" "runs (env_var k) w" "runs draw w" "runs (list_loop ns ks) w"
proof -
  show "runs (list_loop ns ks) w"
    by (induction ns ks w rule: list_loop.induct) (simp_all add: runs_def split: prod.split fault.split)
qed (simp_all add: runs_def create_dir_all_def fs_write_def fs_read_def exists_path_def read_dir_def env_var_def
    draw_def split: prod.split fault.split option.split)

lemma runs_keys [simp]:
  "runs (write_key p s) w" "runs (read_key X p) w" "runs (write_bls_key pk sk) w" "runs (write_eth_key pk sk) w"
  "runs (read_bls_key X pk) w" "runs (read_eth_key X pk) w" "runs (bls_key_exists pk) w" "runs list_bls_keys w"
  "runs list_eth_keys w"
  by (simp_all add: write_key_def read_key_def key_store_defs key_exists_def list_bls_keys_def list_eth_keys_def
      list_fnames_def Let_def runs_ebind split: option.split)

lemma runs_bls_keys [simp]:
  "runs (save_bls_key X B s) w" "runs (fetch_bls_sk X B pk) w" "runs (bls_agg_sign_from_saved_sk X B pk m) w"
  "calm (sanitize_bls_pk_hex pk)"
  by (auto simp: save_bls_key_def fetch_bls_sk_def bls_agg_sign_from_saved_sk_def sanitize_bls_pk_hex_def Let_def
      intro!: runs_ebind split: option.split)

lemma runs_eth_keys [simp]:
  "runs (eth_key_gen X E) w" "runs (fetch_eth_key X E pk) w" "runs (envelope_encrypt E k m) w"
  "calm (eth_sk_from_bytes E b)" "calm (eth_pk_from_hex_uncompressed X E s)" "calm (envelope_decrypt E sk c)"
  by (auto simp: eth_key_gen_def new_eth_key_def save_eth_key_def fetch_eth_key_def envelope_encrypt_def
      eth_sk_from_bytes_def eth_pk_from_hex_uncompressed_def envelope_decrypt_def Let_def
      intro!: runs_ebind split: option.split)

section \<open>The signing endpoint\<close>

lemma calm_database [simp]:
  "calm (de_block X j)" "calm (de_attestation X j)" "calm (de_data X j)" "calm (se_block X b)"
  "calm (se_attestation X a)" "calm (se_data X d)" "calm (from_pk_hex X pk)"
  by (simp_all add: de_block_def de_attestation_def de_data_def se_block_def se_attestation_def se_data_def
      se_skip_none_def se_signing_root_def to_hex_from_ssz_type_def from_pk_hex_def Let_def split: option.split)

lemma runs_database [simp]:
  "runs (spd_read X pk) w" "runs (spd_write X d) w" "runs (is_slashable X pk m) w"
  "runs (update_slash_protection_db X pk m) w"
proof -
  show r: "runs (spd_read X pk) w" for w by (auto simp: spd_read_def Let_def intro!: runs_ebind)
  show s: "runs (spd_write X d) w" for d w by (auto simp: spd_write_def Let_def intro!: runs_ebind split: option.split)
  show "runs (is_slashable X pk m) w" by (auto simp: is_slashable_def r intro!: runs_ebind)
  have g: "calm (fst (new_block b g d))" "calm (fst (new_attestation a g d))" for b a g d
    by (simp_all add: new_block_def new_attestation_def split: prod.split)
  have "runs (store_block X d b) w" "runs (store_attestation X d a) w" for d b a w
    using g(1)[of b ALLOW_GROWABLE_SLASH_PROTECTION_DB d] g(2)[of a ALLOW_GROWABLE_SLASH_PROTECTION_DB d]
    by (auto simp: store_block_def store_attestation_def s intro!: runs_ebind split: prod.split)
  then show "runs (update_slash_protection_db X pk m) w"
    by (auto simp: update_slash_protection_db_def r Let_def intro!: runs_ebind split: BLSSignMsg.split)
qed

lemma answered_sign: "answered (secure_sign_bls_handler X B pk st m w)"
  unfolding secure_sign_bls_handler_def sign_validator_message_def
  by (auto simp: Let_def intro!: answered_on_ok)

lemma answered_list_for_vc: "answered (list_bls_keys_for_vc_handler w)"
  unfolding list_bls_keys_for_vc_handler_def by (auto simp: Let_def intro!: answered_on_ok)

lemma calm_ListKeysResponse_new:
  "(\<And>k. k \<in> set keys \<Longrightarrow> calm (str_slice_to k 2)) \<Longrightarrow> calm (ListKeysResponse_new keys)"
  by (simp add: ListKeysResponse_new_def Let_def)

section \<open>Key generation\<close>

text \<open>The agent of the virtual machine and the registry contract report failures as errors.\<close>

definition services_return :: "services \<Rightarrow> bool" where
  "services_return N \<longleftrightarrow>
     (\<forall>p m w. runs (cvm_sign_message N p m) w) \<and>
     (\<forall>u a i k m g w. runs (verifySessionSignature N u a i k m g) w) \<and>
     (\<forall>u a i w. runs (getSession N u a i) w)"

lemma runs_evidence_new [simp]: "services_return N \<Longrightarrow> runs (evidence_new N d) w"
proof -
  assume N: "services_return N"
  have "runs (sign_with_session N d) w" for w
    unfolding runs_def sign_with_session_def Let_def
    by (fold runs_def) (use N in \<open>auto simp: services_return_def intro!: runs_ebind\<close>)
  then have "runs (ebind (sign_with_session N d) (\<lambda>r. ret (f r))) w" for f :: "SessionProof \<Rightarrow> AttestationEvidence"
    by (simp add: runs_ebind)
  then show ?thesis by (simp add: evidence_new_def runs_def)
qed

lemma runs_encrypt_shares [simp]: "runs (encrypt_shares X B E ks acc) w"
  by (induction X B E ks acc arbitrary: w rule: encrypt_shares.induct)
    (auto simp: encrypt_to_recipient_def intro!: runs_ebind)

lemma calm_attestation_payload [simp]: "calm (build_validator_remote_attestation_payload X B E ps g r ss ks)"
  by (auto simp: build_validator_remote_attestation_payload_def Let_def intro!: calm_rbind calm_mapM)

lemma calm_sign_full_deposit [simp]: "calm (sign_full_deposit X B s wc fv)"
  by (simp add: sign_full_deposit_def Let_def)

lemma attest_fresh_bls_key_runs:
  assumes "services_return N" "runs (new_bls_key B (unat (t - 1))) w"
  shows "runs (attest_fresh_bls_key X B E N wc gs t fv ra) w"
  using assms unfolding attest_fresh_bls_key_def by (auto simp: Let_def intro!: runs_ebind)

lemma attest_new_keys_run:
  assumes "services_return N"
  shows "runs (attest_new_eth_key X E N) w"
    and "runs (new_bls_key B 0) w \<Longrightarrow> runs (attest_new_bls_key X B N) w"
    and "runs (attest_new_eth_key_with_blockhash X E N H bn a ci) w"
  using assms unfolding attest_new_eth_key_def attest_new_bls_key_def attest_new_eth_key_with_blockhash_def
  by (auto simp: Let_def intro!: runs_ebind)

lemma runs_deposit [simp]: "runs (get_deposit_signature X B pk m v) w"
  by (auto simp: get_deposit_signature_def secure_sign_def Let_def intro!: runs_ebind)

lemma answered_deposit: "answered (validator_deposit_handler X B req w)"
  unfolding validator_deposit_handler_def by (auto simp: Let_def intro!: answered_on_ok)

section \<open>Guardians\<close>

text \<open>The two byte strings of a payload that are copied without a look at their length.\<close>

definition odd_length :: "codec \<Rightarrow> string \<Rightarrow> nat \<Rightarrow> bool" where
  "odd_length X s n \<longleftrightarrow> (\<exists>b. hex_decode X s = Some b \<and> length b \<noteq> n)"

lemma calm_payload [simp]:
  "calm (kp_public_key_set X B p)" "calm (exit_public_key_set X B r)" "calm (withdrawal_credentials_of X p)"
  "calm (deposit_message_root_of X B p)" "calm (verify_public_keys_match X B p)" "calm (decrypt_sk_share X B E p i sk)"
  by (auto simp: kp_public_key_set_def exit_public_key_set_def parse_public_key_set_def withdrawal_credentials_of_def
      copy_from_slice_def deposit_message_root_of_def verify_public_keys_match_def decrypt_sk_share_def Let_def)

lemma calm_signature_of: "\<not> odd_length X (strip_0x_prefix (kp_signature p)) 96 \<Longrightarrow> calm (signature_of X B p)"
  by (auto simp: signature_of_def copy_from_slice_def odd_length_def BLS_SIG_BYTES_def Let_def intro!: calm_rbind)

lemma calm_verify_custody [simp]: "calm (verify_custody X B E p sk)"
proof -
  have "calm (custody_loop X B E p sk ids)" for ids
    by (induction ids) (auto split: res.split simp: calm_def[of "decrypt_sk_share _ _ _ _ _ _", symmetric])
  then show ?thesis by (simp add: verify_custody_def)
qed

lemma calm_deposit_checks:
  assumes "\<not> odd_length X (strip_0x_prefix (kp_signature p)) 96"
  shows "calm (verify_deposit_message X B p)" "calm (approve_custody X B E H p sk vi)"
  using calm_signature_of[OF assms, of B]
  by (auto simp: verify_deposit_message_def approve_custody_def deposit_data_root_of_def Let_def intro!: calm_rbind)

lemma runs_verify_session_evidence:
  assumes "services_return N" "\<not> odd_length X (kp_deposit_data_root p) 32"
  shows "runs (verify_session_evidence X B E N p wid) w"
proof -
  have "calm (session_message X B E p)"
    using assms(2) by (auto simp: session_message_def copy_from_slice_def odd_length_def intro!: calm_rbind)
  moreover have "runs (check_workload X N u a s wid) w" for u a s w
    using assms(1) by (auto simp: check_workload_def get_session_def services_return_def Let_def intro!: runs_ebind)
  moreover have "runs (verify_session_signature N u a s k m g) w" for u a s k m g w
    using assms(1) by (simp add: verify_session_signature_def services_return_def)
  moreover have "calm (parse_session_public_key X N s)" for s
    by (simp add: parse_session_public_key_def Let_def split: option.split)
  ultimately show ?thesis
    by (auto simp: verify_session_evidence_def intro!: runs_ebind)
qed

lemma runs_custody:
  assumes "services_return N" "\<not> odd_length X (strip_0x_prefix (kp_signature (keygen_payload req))) 96"
    and "\<not> odd_length X (kp_deposit_data_root (keygen_payload req)) 32 \<or> \<not> verify_session req"
  shows "runs (verify_and_sign_custody_received X B E N H req) w"
proof -
  note checks = calm_deposit_checks[OF assms(2)]
  have e: "verify_session req \<Longrightarrow> runs (verify_session_evidence X B E N (keygen_payload req) (workload_id req)) w" for w
    using assms(1,3) by (auto intro: runs_verify_session_evidence)
  have f: "fetch_eth_key X E (eth_pk_to_hex X E (guardian_enclave_public_key req)) w \<noteq> (Panic s, w')" for s w'
    using runs_eth_keys(2)[of X E "eth_pk_to_hex X E (guardian_enclave_public_key req)" w]
    by (metis calm_def fst_conv runs_def)
  show ?thesis
    unfolding verify_and_sign_custody_received_def runs_def Let_def
    by (auto simp: runs_def[symmetric] checks e f intro!: runs_ebind split: prod.split res.split)
qed

lemma runs_exit [simp]: "runs (sign_voluntary_exit_message X B req) w"
  by (auto simp: sign_voluntary_exit_message_def sign_vem_def Let_def intro!: runs_ebind split: prod.split)

lemma answered_guardian:
  assumes "services_return N"
  shows "answered (sign_exit_handler X B er w)"
    and "answered (attest_fresh_eth_key_handler X E N H kr w)"
    and "\<not> odd_length X (strip_0x_prefix (kp_signature (keygen_payload req))) 96 \<Longrightarrow>
      \<not> odd_length X (kp_deposit_data_root (keygen_payload req)) 32 \<or> \<not> verify_session req \<Longrightarrow>
      answered (validate_custody_handler X B E N H req w)"
  using attest_new_keys_run(3)[OF assms]
  by (auto simp: sign_exit_handler_def attest_fresh_eth_key_handler_def validate_custody_handler_def
      intro!: answered_on_ok runs_custody[OF assms])

lemma answered_keygen:
  assumes "services_return N"
  shows "answered (eth_keygen_handler X E N w)"
    and "runs (new_bls_key B 0) w \<Longrightarrow> answered (bls_keygen_handler X B N w)"
    and "runs (new_bls_key B (unat (af_threshold kr - 1))) w \<Longrightarrow> answered (attest_fresh_bls_key_handler X B E N kr w)"
  using attest_new_keys_run[OF assms] attest_fresh_bls_key_runs[OF assms]
  by (auto simp: eth_keygen_handler_def bls_keygen_handler_def attest_fresh_bls_key_handler_def
      intro!: answered_on_ok)

section \<open>Dropped connections\<close>

definition parsed :: "codec \<Rightarrow> string option \<Rightarrow> json option" where
  "parsed X body = (case body of None \<Rightarrow> None | Some t \<Rightarrow> json_from_slice X t)"

lemma with_json_dropped:
  assumes "fst (with_json X A de body h w) = None"
  shows "\<exists>j. parsed X body = Some j \<and> (\<not> calm (de j) \<or> (\<exists>r. de j = Ok r \<and> fst (h r w) = None))"
  using assms by (auto simp: with_json_def parsed_def split: option.splits res.splits)

lemma json_endpoint_dropped:
  assumes "fst (with_json X A de body (\<lambda>r w. answer X A se (h r w)) w) = None" "\<And>x. calm (se x)"
  shows "\<exists>j. parsed X body = Some j \<and> (\<not> calm (de j) \<or> (\<exists>r. de j = Ok r \<and> \<not> answered (h r w)))"
  using with_json_dropped[OF assms(1)] answer_dropped[where se = se, OF _ assms(2)] by blast

text \<open>All the ways in which a request can make its handler panic.\<close>

definition panic_cause ::
  "codec \<Rightarrow> ('ps, 'pk, 'psh, 'ss, 'sk, 'ssh, 'sg, 'sgh) blsttc \<Rightarrow> ('esk, 'epk, 'emsg, 'esig) secp \<Rightarrow> ssz_serde \<Rightarrow>
   'epk wire \<Rightarrow> endpoint \<Rightarrow> string option \<Rightarrow> world \<Rightarrow> bool" where
  "panic_cause X B E S W e body w \<longleftrightarrow> (case e of
       List_eth_keys \<Rightarrow> \<exists>k \<in> children w eth_dir. \<not> calm (str_slice_to k 2)
     | List_bls_keys \<Rightarrow> \<exists>k \<in> children w bls_dir. \<not> calm (str_slice_to k 2)
     | Secure_sign_bls \<Rightarrow>
         \<exists>j tag c. parsed X body = Some j \<and> de_tagged j = Ok (tag, c) \<and> tag \<in> {''BLOCK'', ''block''} \<and>
           \<not> calm (de_BlockRequest X S c)
     | Attest_fresh_bls_key \<Rightarrow>
         \<exists>j r. parsed X body = Some j \<and> de_keygen_request X E j = Ok r \<and>
           \<not> runs (new_bls_key B (unat (af_threshold r - 1))) w
     | Bls_keygen \<Rightarrow> \<not> runs (new_bls_key B 0) w
     | Validate_custody \<Rightarrow>
         \<exists>j r. parsed X body = Some j \<and> de_ValidateCustodyRequest W j = Ok r \<and>
           (odd_length X (strip_0x_prefix (kp_signature (keygen_payload r))) 96 \<or>
            odd_length X (kp_deposit_data_root (keygen_payload r)) 32 \<and> verify_session r)
     | _ \<Rightarrow> False)"

lemma listing_dropped:
  assumes "\<not> answered (on_ok (list_fnames d) (\<lambda>e. Response c NoBody) list_keys_response w)"
  shows "\<exists>k \<in> children w (path_of d). \<not> calm (str_slice_to k 2)"
proof (rule ccontr)
  assume n: "\<not> ?thesis"
  have "calm (ListKeysResponse_new names)" if "list_fnames d w = (Ok names, w')" for names w'
    using n list_fnames_Ok[OF that] by (intro calm_ListKeysResponse_new) (auto simp: set_dir_entries)
  moreover have "runs (list_fnames d) w"
    by (simp add: list_fnames_def runs_ebind)
  ultimately have "answered (on_ok (list_fnames d) (\<lambda>e. Response c NoBody) list_keys_response w)"
    unfolding list_keys_response_def by (intro answered_on_ok) auto
  with assms show False by simp
qed

lemma run_endpoint_dropped:
  assumes N: "services_return N" and d: "fst (run_endpoint X B E N H S W A st e params body w) = None"
  shows "panic_cause X B E S W e body w"
proof (cases e)
  case Secure_sign_bls
  obtain x pk where p: "params = [(x, pk)]"
    using d Secure_sign_bls by (auto simp: run_endpoint_def split: list.splits prod.splits)
  have "fst (with_json X A (de_BLSSignMsg X S) body
      (\<lambda>req w. answer X A se_SignatureResponse (secure_sign_bls_handler X B pk st req w)) w) = None"
    using d by (simp add: run_endpoint_def Secure_sign_bls p)
  from json_endpoint_dropped[OF this] obtain j where "parsed X body = Some j" "\<not> calm (de_BLSSignMsg X S j)"
    using answered_sign[of X B pk st _ w] by auto
  with de_BLSSignMsg_panics[of X S j] show ?thesis by (simp add: panic_cause_def Secure_sign_bls)
next
  case Attest_fresh_bls_key
  then have "fst (with_json X A (de_keygen_request X E) body
      (\<lambda>req w. answer X A se_BlsKeygenPayload (attest_fresh_bls_key_handler X B E N req w)) w) = None"
    using d by (simp add: run_endpoint_def)
  from json_endpoint_dropped[OF this] obtain j r where "parsed X body = Some j" "de_keygen_request X E j = Ok r"
    "\<not> answered (attest_fresh_bls_key_handler X B E N r w)" by auto
  with answered_keygen(3)[OF N, of B r w X E] show ?thesis by (auto simp: panic_cause_def Attest_fresh_bls_key)
next
  case Validator_deposit
  then have "fst (with_json X A (de_DepositRequest X) body
      (\<lambda>req w. answer X A (se_DepositResponse X) (validator_deposit_handler X B req w)) w) = None"
    using d by (simp add: run_endpoint_def)
  from json_endpoint_dropped[OF this] answered_deposit[of X B _ w] show ?thesis by auto
next
  case Attest_fresh_eth_key_with_blockhash
  then have "fst (with_json X A de_KeygenWithBlockhashRequest body
      (\<lambda>req w. answer X A (se_KeyGenResponse W) (attest_fresh_eth_key_handler X E N H req w)) w) = None"
    using d by (simp add: run_endpoint_def)
  from json_endpoint_dropped[OF this] answered_guardian(2)[OF N, of X E H _ w] show ?thesis by auto
next
  case Validate_custody
  then have "fst (with_json X A (de_ValidateCustodyRequest W) body
      (\<lambda>req w. answer X A se_ValidateCustodyResponse (validate_custody_handler X B E N H req w)) w) = None"
    using d by (simp add: run_endpoint_def)
  from json_endpoint_dropped[OF this] obtain j r where "parsed X body = Some j" "de_ValidateCustodyRequest W j = Ok r"
    "\<not> answered (validate_custody_handler X B E N H r w)" by auto
  with answered_guardian(3)[OF N, of X r B E H w] show ?thesis by (auto simp: panic_cause_def Validate_custody)
next
  case Sign_exit
  then have "fst (with_json X A (de_SignExitRequest X) body
      (\<lambda>req w. answer X A se_SignExitResponse (sign_exit_handler X B req w)) w) = None"
    using d by (simp add: run_endpoint_def)
  from json_endpoint_dropped[OF this] answered_guardian(1)[OF N, of X B _ w] show ?thesis by auto
next
  case List_eth_keys
  then have "fst (answer X A se_ListKeysResponse (list_eth_keys_handler w)) = None"
    using d by (simp add: run_endpoint_def)
  from answer_dropped[OF this] show ?thesis
    using listing_dropped[of ETH_KEYS_DIR _ w]
    by (simp add: panic_cause_def List_eth_keys list_eth_keys_handler_def list_eth_keys_def path_of_dirs)
next
  case List_bls_keys
  then have "fst (answer X A se_ListKeysResponse (list_bls_keys_handler w)) = None"
    using d by (simp add: run_endpoint_def)
  from answer_dropped[OF this] show ?thesis
    using listing_dropped[of BLS_KEYS_DIR _ w]
    by (simp add: panic_cause_def List_bls_keys list_bls_keys_handler_def list_bls_keys_def path_of_dirs)
next
  case Bls_keygen
  then have "fst (answer X A (se_KeyGenResponse W) (bls_keygen_handler X B N w)) = None"
    using d by (simp add: run_endpoint_def)
  from answer_dropped[OF this] answered_keygen(2)[OF N, of B w X] show ?thesis
    by (auto simp: panic_cause_def Bls_keygen)
next
  case Eth_keygen
  then have "fst (answer X A (se_KeyGenResponse W) (eth_keygen_handler X E N w)) = None"
    using d by (simp add: run_endpoint_def)
  from answer_dropped[OF this] answered_keygen(1)[OF N, of X E w] show ?thesis by auto
next
  case List_bls_keys_for_vc
  then have "fst (answer X A (se_vec se_string) (list_bls_keys_for_vc_handler w)) = None"
    using d by (simp add: run_endpoint_def)
  from answer_dropped[OF this] answered_list_for_vc[of w] show ?thesis by auto
next
  case Health
  then show ?thesis using d by (simp add: run_endpoint_def health_handler_def)
qed



end
