(* ===== verification/Properties_Network.thy ===== *)
theory Properties_Network
  imports Properties_Custody Demo_Net Signer_Client Block_Fees Startup_Laws Panics
begin

text \<open>
  Properties of the whole deployment: when the servers start, what of a request survives the
  way from a client to a handler, and the custody of a key with every step a call over the
  network.
\<close>

section \<open>Starting\<close>

text \<open>
  C40: the three servers start with exactly the settings that make sense: a port whose text
  is a decimal number that fits 16 bits, and a genesis fork version of four bytes in
  hexadecimal, each from the environment, else the command line, else the default; they then
  listen on that port with that version and their own routes.
\<close>

theorem servers_start_exactly:
  "(guardian_main X args w = Ok l \<longleftrightarrow>
     (\<exists>s t v. setting ''GUARDIAN_PORT'' 1 ''3031'' args w = Ok s \<and> decimal s (unat (li_port l)) \<and>
        setting ''GENESIS_FORK_VERSION'' 2 ''00000000'' args w = Ok t \<and>
        hex_decode X (strip_0x_prefix t) = Some v \<and> length v = 4 \<and>
        li_state l = \<lparr>genesis_fork_version = v\<rparr> \<and> li_app l = guardian_app)) \<and>
   (validator_main X args w = Ok l \<longleftrightarrow>
     (\<exists>s t v. setting ''VALIDATOR_PORT'' 1 ''3031'' args w = Ok s \<and> decimal s (unat (li_port l)) \<and>
        setting ''GENESIS_FORK_VERSION'' 2 ''00000000'' args w = Ok t \<and>
        hex_decode X (strip_0x_prefix t) = Some v \<and> length v = 4 \<and>
        li_state l = \<lparr>genesis_fork_version = v\<rparr> \<and> li_app l = validator_app)) \<and>
   (secure_signer_main X args w = Ok l \<longleftrightarrow>
     (\<exists>s t v. setting ''SECURE_SIGNER_PORT'' 1 ''9001'' args w = Ok s \<and> decimal s (unat (li_port l)) \<and>
        setting ''GENESIS_FORK_VERSION'' 2 ''00000000'' args w = Ok t \<and>
        hex_decode X (strip_0x_prefix t) = Some v \<and> length v = 4 \<and>
        li_state l = \<lparr>genesis_fork_version = v\<rparr> \<and> li_app l = secure_signer_app)) \<and>
   (\<forall>e. guardian_main X args w \<noteq> Err e \<and> validator_main X args w \<noteq> Err e \<and> secure_signer_main X args w \<noteq> Err e)"
  by (cases l) (auto simp: guardian_main_def validator_main_def secure_signer_main_def res_simps port_setting_Ok
      genesis_setting_Ok start_no_error)

text \<open>An address the clients can dial.\<close>

definition dials :: "string \<Rightarrow> u16 \<Rightarrow> bool" where
  "dials url p \<longleftrightarrow> (\<exists>s. url = ''http://localhost:'' @ s \<and> decimal s (unat p))"

lemma dials_parse: "dials (''http://localhost:'' @ s) p \<longleftrightarrow> parse_u16 s = Some p"
  by (simp add: dials_def parse_u16_decimal)

lemma default_ports:
  "parse_u16 ''3031'' = Some 3031" "parse_u16 ''9001'' = Some 9001" "parse_u16 ''9002'' = Some 9002"
  "parse_u16 ''9003'' = Some 9003"
  by (simp_all add: parse_u16_def digits_val_def is_digit_def)

lemma default_servers:
  assumes "map_of (env w) ''GUARDIAN_PORT'' = None" "map_of (env w) ''VALIDATOR_PORT'' = None"
    "map_of (env w) ''SECURE_SIGNER_PORT'' = None" "map_of (env w) ''GENESIS_FORK_VERSION'' = None"
    and "is_utf8 prog" "hex_decode X ''00000000'' = Some [0, 0, 0, 0]"
  shows "guardian_main X [prog] w = Ok \<lparr>li_port = 3031, li_state = \<lparr>genesis_fork_version = [0, 0, 0, 0]\<rparr>, li_app = guardian_app\<rparr>"
    "validator_main X [prog] w = Ok \<lparr>li_port = 3031, li_state = \<lparr>genesis_fork_version = [0, 0, 0, 0]\<rparr>, li_app = validator_app\<rparr>"
    "secure_signer_main X [prog] w =
       Ok \<lparr>li_port = 9001, li_state = \<lparr>genesis_fork_version = [0, 0, 0, 0]\<rparr>, li_app = secure_signer_app\<rparr>"
proof -
  have "setting k i d [prog] w = Ok d" if "map_of (env w) k = None" "0 < i" for k i d
    using that assms(5) by (simp add: setting_def env_var_def args_nth_def)
  then show "guardian_main X [prog] w = Ok \<lparr>li_port = 3031, li_state = \<lparr>genesis_fork_version = [0, 0, 0, 0]\<rparr>, li_app = guardian_app\<rparr>"
    "validator_main X [prog] w = Ok \<lparr>li_port = 3031, li_state = \<lparr>genesis_fork_version = [0, 0, 0, 0]\<rparr>, li_app = validator_app\<rparr>"
    "secure_signer_main X [prog] w =
       Ok \<lparr>li_port = 9001, li_state = \<lparr>genesis_fork_version = [0, 0, 0, 0]\<rparr>, li_app = secure_signer_app\<rparr>"
    using assms(1-4,6)
    by (simp_all add: guardian_main_def validator_main_def secure_signer_main_def port_setting_def genesis_setting_def
        default_ports strip_0x_prefix_def copy_from_slice_def)
qed

text \<open>
  The defaults do not fit together. Without settings the guardian and the validator
  enclave listen on one and the same port, and of the default addresses of the clients only
  that of the secure signer is the port its server listens on.
\<close>

theorem default_clients_miss_servers:
  assumes "map_of (env w) ''GUARDIAN_PORT'' = None" "map_of (env w) ''VALIDATOR_PORT'' = None"
    "map_of (env w) ''SECURE_SIGNER_PORT'' = None" "map_of (env w) ''GENESIS_FORK_VERSION'' = None"
    and "is_utf8 prog" "hex_decode X ''00000000'' = Some [0, 0, 0, 0]"
    and c: "c = ClientBuilder_build ClientBuilder_new"
  shows "\<exists>lg lv ls. guardian_main X [prog] w = Ok lg \<and> validator_main X [prog] w = Ok lv \<and>
    secure_signer_main X [prog] w = Ok ls \<and> li_port lg = li_port lv \<and>
    dials (sc_url (cl_secure_signer c)) (li_port ls) \<and>
    \<not> dials (gc_url (cl_guardian c)) (li_port lg) \<and> \<not> dials (vcl_url (cl_validator c)) (li_port lv)"
proof -
  note start = default_servers[OF assms(1-6)]
  have urls: "dials (sc_url (cl_secure_signer c)) 9001" "\<not> dials (gc_url (cl_guardian c)) 3031"
    "\<not> dials (vcl_url (cl_validator c)) 3031"
    using dials_parse[of "''9001''" 9001] dials_parse[of "''9002''" 3031] dials_parse[of "''9003''" 3031]
    by (simp_all add: c default_ports ClientBuilder_build_def ClientBuilder_new_def url_or_def
        default_client_secure_signer_url_def default_client_guardian_url_def default_client_validator_url_def)
  from start urls show ?thesis by simp
qed

theorem default_clients_miss_servers_witness:
  "\<exists>lg lv. guardian_main demo_codec [''guardian''] empty_world = Ok lg \<and>
    validator_main demo_codec [''guardian''] empty_world = Ok lv \<and> li_port lg = li_port lv"
  using default_clients_miss_servers[of empty_world "''guardian''" demo_codec, OF _ _ _ _ _ _ refl]
  by (auto simp: empty_world_def demo_codec_def digit_val_def)

section \<open>Messages on the wire\<close>


lemma demo_randao_wf: "wf_BLSSignMsg (demo_randao e)"
  by (simp add: demo_randao_def wf_RandaoRevealRequest_def wf_ForkInfo_def wf_Fork_def wf_RandaoReveal_def
      wf_root_option_def demo_fork_def)


text \<open>
  C30: a block whose base fee is below \<open>2 ^ 192\<close>, which is every block of a real chain,
  cannot be signed through the BLOCK request: the text of the request is fine, but the server
  answers with a client error before any handler runs, and nothing on disk changes.
\<close>

theorem low_fee_blocks_are_refused:
  assumes L: "codec_laws X" "ssz_serde_laws S" "biguint_laws X" "axum_laws A"
    and m: "wf_BlockRequest (request_fee f r)" "base_fee r < 2 ^ 192" "m = BLOCK r \<or> m = block r"
    and l: "li_app l = validator_app \<or> li_app l = secure_signer_app"
    and name: "set name \<subseteq> lower_hex" "name \<noteq> []"
  shows "\<exists>j resp. se_BLSSignMsg X S m = Ok j \<and>
    serve X B E N H S W A l POST (''/api/v1/eth2/sign/'' @ name) (Some (json_to_string X j)) w = (Some resp, w) \<and>
    400 \<le> wp_status resp \<and> wp_status resp < 500"
proof -
  have "unreadable (se_BLSSignMsg X S) (de_BLSSignMsg X S) m"
    using m(3) low_fee_message[OF L(1-3) m(1,2)] by blast
  then obtain j e where j: "se_BLSSignMsg X S m = Ok j" "printable j" "de_BLSSignMsg X S j = Err e"
    by (cases "se_BLSSignMsg X S m") (auto simp: unreadable_def)
  have "serve X B E N H S W A l POST (''/api/v1/eth2/sign/'' @ name) (Some (json_to_string X j)) w =
      (Some (json_rejection A (Some (json_to_string X j))), w)"
    using l j(2,3) sign_routes[OF L(4) hex_path[OF name(1)] name(2)] codec_lawsD(2)[OF L(1)]
    by (auto simp: serve_def run_endpoint_def with_json_def)
  moreover have "400 \<le> wp_status (json_rejection A b) \<and> wp_status (json_rejection A b) < 500" for b
    using L(4) unfolding axum_laws_def by blast
  ultimately show ?thesis using j(1) by blast
qed

definition demo_payload_value :: "U256 \<Rightarrow> ExecutionPayload" where
  "demo_payload_value fee = \<lparr>ep_parent_hash = replicate 32 1, ep_fee_recipient = replicate 20 2,
     ep_state_root = replicate 32 3, ep_receipts_root = replicate 32 4, ep_logs_bloom = replicate 256 0,
     ep_prev_randao = replicate 32 5, ep_block_number = 6, ep_gas_limit = 7, ep_gas_used = 8, ep_timestamp = 9,
     ep_extra_data = [10], ep_base_fee_per_gas = fee, ep_block_hash = replicate 32 11, ep_transactions = [],
     ep_withdrawals = [], ep_excess_data_gas = [0, 0, 0, 1]\<rparr>"

definition demo_body_value :: "U256 \<Rightarrow> BeaconBlockBody" where
  "demo_body_value fee = \<lparr>bbb_randao_reveal = replicate 96 1,
     bbb_eth1_data = \<lparr>ed_deposit_root = replicate 32 2, ed_deposit_count = 3, ed_block_hash = replicate 32 4\<rparr>,
     bbb_graffiti = replicate 32 5, bbb_proposer_slashings = [], bbb_attester_slashings = [], bbb_attestations = [],
     bbb_deposits = [], bbb_voluntary_exits = [],
     bbb_sync_aggregate = \<lparr>sa_sync_committee_bits = replicate 512 True, sa_sync_committee_signature = replicate 96 6\<rparr>,
     bbb_execution_payload = demo_payload_value fee, bbb_bls_to_execution_changes = [], bbb_blob_kzg_commitments = []\<rparr>"

definition demo_block_request :: "U256 \<Rightarrow> BlockRequest" where
  "demo_block_request fee = \<lparr>br_fork_info = demo_fork, br_signingRoot = None,
     br_block = \<lparr>bb_slot = 1, bb_proposer_index = 2, bb_parent_root = replicate 32 3, bb_state_root = replicate 32 4,
       bb_body = demo_body_value fee\<rparr>\<rparr>"

lemma demo_block_request_wf: "wf_BlockRequest (request_fee [0, 0, 0, 1] (demo_block_request fee))"
  by (simp add: demo_block_request_def request_fee_def block_fee_def body_fee_def payload_fee_def demo_body_value_def
      demo_payload_value_def demo_fork_def wf_BlockRequest_def wf_ForkInfo_def wf_Fork_def wf_root_option_def
      wf_BeaconBlock_def wf_BeaconBlockBody_def wf_Eth1Data_def wf_SyncAggregate_def wf_ExecutionPayload_def wf_vl_def
      wf_u256_def SYNC_COMMITTEE_SIZE_def MAX_EXTRA_DATA_BYTES_def)

definition demo_listener :: "router \<Rightarrow> listener" where
  "demo_listener r = \<lparr>li_port = 3031, li_state = \<lparr>genesis_fork_version = [0, 0, 0, 0]\<rparr>, li_app = r\<rparr>"

theorem low_fee_blocks_are_refused_witness:
  "\<exists>j resp. se_BLSSignMsg demo_codec demo_ssz_serde (BLOCK (demo_block_request [7, 0, 0, 0])) = Ok j \<and>
    serve demo_codec demo_blsttc demo_secp demo_services demo_ethers demo_ssz_serde demo_wire demo_axum
      (demo_listener validator_app) POST (''/api/v1/eth2/sign/'' @ ''ab'') (Some (json_to_string demo_codec j)) empty_world =
      (Some resp, empty_world) \<and> 400 \<le> wp_status resp"
proof -
  have fee: "base_fee (demo_block_request [7, 0, 0, 0]) < 2 ^ 192"
    by (simp add: base_fee_def demo_block_request_def demo_body_value_def demo_payload_value_def)
  have l: "li_app (demo_listener validator_app) = validator_app \<or> li_app (demo_listener validator_app) = secure_signer_app"
    by (simp add: demo_listener_def)
  have name: "set ''ab'' \<subseteq> lower_hex" "''ab'' \<noteq> []" by (simp_all add: lower_hex_def)
  show ?thesis
    using low_fee_blocks_are_refused[OF demo_codec_laws demo_ssz_serde_laws demo_biguint_laws demo_axum_laws
        demo_block_request_wf fee disjI1[OF refl] l name] by blast
qed

section \<open>Calls over the network\<close>

lemma demo_wsig: "is_utf8 (wsig_to_string demo_ethers g)"
  using is_utf8_hex_encode[OF demo_hex_laws, of "[g]"] by (simp add: demo_ethers_def demo_codec_def)

definition demo_serve :: "router \<Rightarrow> http_method \<Rightarrow> string \<Rightarrow> string option \<Rightarrow> world \<Rightarrow> wire_response option \<times> world" where
  "demo_serve r = serve demo_codec demo_blsttc demo_secp demo_services demo_ethers demo_ssz_serde demo_wire demo_axum
     (demo_listener r)"

text \<open>
  C10: over a network that delivers, each call of the validator's and of the guardian's
  client is the handler behind it, run on the server's world: the client returns the value
  of a successful answer unchanged, the text of a refusal as its error, and the server's
  world is the handler's.
\<close>

theorem client_calls_are_handlers:
  assumes L: "codec_laws X" "bls_laws X B" "secp_laws E" "services_laws X N" "ssz_serde_laws S" "biguint_laws X"
      "wire_laws W" "axum_laws A" "\<And>g. is_utf8 (wsig_to_string H g)"
    and v: "remote R (vcl_url vc) (serve X B E N H S W A lv) rv pv" "li_app lv = validator_app"
    and g: "remote R (gc_url gc) (serve X B E N H S W A lg) rg pg" "li_app lg = guardian_app"
    and kr: "length (af_withdrawal_credentials kr) = 32" "length (af_fork_version kr) = 4"
    and er: "set (strip_0x_prefix name) \<subseteq> lower_hex" "strip_0x_prefix name \<noteq> []" "wf_ForkInfo fi"
    and gr: "is_utf8 addr" "wf_ValidateCustodyRequest cr" "wf_SignExitRequest xr"
  shows "ValidatorClient_attest_fresh_bls_key X E R vc kr n =
      (case attest_fresh_bls_key_handler X B E N kr (rv n) of (h, w) \<Rightarrow> (client_sees A h, pv w n)) \<and>
    ValidatorClient_list_bls_keys X R vc n =
      (case list_bls_keys_handler (rv n) of (h, w) \<Rightarrow> (client_sees A h, pv w n)) \<and>
    ValidatorClient_sign_voluntary_exit_message X S R vc name ep vi fi n =
      (case secure_sign_bls_handler X B (strip_0x_prefix name) (li_state lv)
          (VOLUNTARY_EXIT \<lparr>ver_fork_info = fi, ver_signingRoot = None,
             ver_voluntary_exit = \<lparr>ve_epoch = ep, ve_validator_index = vi\<rparr>\<rparr>) (rv n) of
         (h, w) \<Rightarrow> (client_sees A h, pv w n)) \<and>
    GuardianClient_attest_fresh_eth_key X W R gc bn addr ci n =
      (case attest_fresh_eth_key_handler X E N H
          \<lparr>kb_block_number = bn, kb_guardian_module_address = addr, kb_chain_id = ci\<rparr> (rg n) of
         (h, w) \<Rightarrow> (client_sees A h, pg w n)) \<and>
    GuardianClient_list_eth_keys X R gc n =
      (case list_eth_keys_handler (rg n) of (h, w) \<Rightarrow> (client_sees A h, pg w n)) \<and>
    GuardianClient_validate_custody X W R gc cr n =
      (case validate_custody_handler X B E N H cr (rg n) of (h, w) \<Rightarrow> (client_sees A h, pg w n)) \<and>
    GuardianClient_sign_exit X R gc xr n =
      (case sign_exit_handler X B xr (rg n) of (h, w) \<Rightarrow> (client_sees A h, pg w n))"
  using validator_keygen_call[OF L(1-4,8) v kr] validator_list_call[OF L(1,8) v]
    validator_exit_call[OF L(1,5,6,8) v er] guardian_keygen_call[OF L(1,4,7,8) gr(1) g]
    guardian_list_call[OF L(1,8) g] guardian_custody_call[OF L(1,7,8,9) g gr(2)] guardian_exit_call[OF L(1,8) g gr(3)]
  by (simp split: prod.split)

theorem client_calls_are_handlers_witness:
  "GuardianClient_list_eth_keys demo_codec
      (demo_net (serve demo_codec demo_blsttc demo_secp demo_services demo_ethers demo_ssz_serde demo_wire demo_axum
          (demo_listener validator_app))
        (serve demo_codec demo_blsttc demo_secp demo_services demo_ethers demo_ssz_serde demo_wire demo_axum
          (demo_listener guardian_app)))
      demo_guardian_client (empty_world, demo_guardian) =
    (case list_eth_keys_handler demo_guardian of (h, w) \<Rightarrow> (client_sees demo_axum h, (empty_world, w)))"
proof -
  have l: "li_app (demo_listener r) = r" for r by (simp add: demo_listener_def)
  have kr: "length (af_withdrawal_credentials demo_af) = 32" "length (af_fork_version demo_af) = 4"
    by (simp_all add: demo_af_def demo_credentials_def)
  have name: "set (strip_0x_prefix ''ab'') \<subseteq> lower_hex" "strip_0x_prefix ''ab'' \<noteq> []"
    by (simp_all add: strip_0x_prefix_def lower_hex_def)
  have fi: "wf_ForkInfo demo_fork" by (simp add: demo_fork_def wf_ForkInfo_def wf_Fork_def)
  have gr: "is_utf8 ''00''" "wf_ValidateCustodyRequest (demo_request \<lparr>bls_pub_key_set = [], bls_pub_key = [], kp_signature = [],
      kp_deposit_data_root = [], bls_enc_priv_key_shares = [], session_id = [], attestation_signature = [],
      session_public_key = [], guardian_eth_pub_keys = [], kp_withdrawal_credentials = [], kp_fork_version = [0, 0, 0, 0]\<rparr>)"
    "wf_SignExitRequest demo_exit"
    using fi demo_hex_laws
    by (simp_all add: demo_request_def wf_ValidateCustodyRequest_def wf_BlsKeygenPayload_def wf_SignExitRequest_def demo_exit_def)
  from client_calls_are_handlers[OF demo_codec_laws demo_bls_laws demo_secp_laws demo_services_laws demo_ssz_serde_laws
      demo_biguint_laws demo_wire_laws demo_axum_laws demo_wsig demo_net_remote(1) l demo_net_remote(2) l kr name fi gr]
  show ?thesis by simp
qed

text \<open>
  C38: the secure signer's client reads the body of every answer in the same way. Each call
  runs the handler behind it and returns the value of an answer; of a refused signature whose
  text is no JSON all it reports is that the body could not be decoded, where the other
  clients report the text.
\<close>

theorem signer_client_loses_refusals:
  assumes L: "codec_laws X" "bls_laws X B" "services_laws X N" "ssz_serde_laws S" "biguint_laws X" "wire_laws W" "axum_laws A"
    and net: "remote R (sc_url c) (serve X B E N H S W A l) rd wr" "li_app l = secure_signer_app"
    and req: "set name \<subseteq> lower_hex" "name \<noteq> []" "wf_BLSSignMsg m"
  shows "SecureSignerClient_list_eth_keys X R c n =
      (case list_eth_keys_handler (rd n) of (h, w) \<Rightarrow> (client_parses X A de_ListKeysResponse h, wr w n)) \<and>
    SecureSignerClient_list_bls_keys X R c n =
      (case list_bls_keys_handler (rd n) of (h, w) \<Rightarrow> (client_parses X A de_ListKeysResponse h, wr w n)) \<and>
    SecureSignerClient_generate_eth_key X W R c n =
      (case eth_keygen_handler X E N (rd n) of (h, w) \<Rightarrow> (client_parses X A (de_KeyGenResponse W) h, wr w n)) \<and>
    SecureSignerClient_generate_bls_key X W R c n =
      (case bls_keygen_handler X B N (rd n) of (h, w) \<Rightarrow> (client_parses X A (de_KeyGenResponse W) h, wr w n)) \<and>
    SecureSignerClient_secure_sign_bls X S R c name m n =
      (case secure_sign_bls_handler X B name (li_state l) m (rd n) of
         (h, w) \<Rightarrow> (client_parses X A de_SignatureResponse h, wr w n)) \<and>
    (\<forall>code t. fst (secure_sign_bls_handler X B name (li_state l) m (rd n)) = Response code (Message t) \<and>
       json_from_slice X t = None \<longrightarrow>
       fst (SecureSignerClient_secure_sign_bls X S R c name m n) =
         Err (External ''reqwest: error decoding response body''))"
proof -
  note calls = signer_list_calls(1)[OF L(1,7) net prod.collapse[symmetric], of n]
    signer_list_calls(2)[OF L(1,7) net prod.collapse[symmetric], of n]
    signer_keygen_calls(1)[OF L(1,3,6,7) net prod.collapse[symmetric], of n]
    signer_keygen_calls(2)[OF L(1,3,6,7) net L(2) prod.collapse[symmetric], of n]
    signer_sign_call[OF L(1,4,5,7) net req prod.collapse[symmetric], of n]
  show ?thesis
    unfolding calls prod.case_eq_if by simp
qed

theorem signer_client_loses_refusals_witness:
  "fst (SecureSignerClient_secure_sign_bls demo_codec demo_ssz_serde
      (demo_net (demo_serve secure_signer_app) (demo_serve guardian_app)) \<lparr>sc_url = ''http://v''\<rparr> ''ab'' (DEPOSIT demo_deposit)
      (empty_world, demo_guardian)) = Err (External ''reqwest: error decoding response body'')"
proof -
  have l: "li_app (demo_listener secure_signer_app) = secure_signer_app" by (simp add: demo_listener_def)
  have net: "remote (demo_net (demo_serve secure_signer_app) (demo_serve guardian_app)) (sc_url \<lparr>sc_url = ''http://v''\<rparr>)
      (demo_serve secure_signer_app) fst (\<lambda>w n. (w, snd n))"
    using demo_net_remote(1)[of "demo_serve secure_signer_app" "demo_serve guardian_app"]
    by (simp add: demo_validator_client_def)
  have req: "set ''ab'' \<subseteq> lower_hex" "''ab'' \<noteq> []" "wf_BLSSignMsg (DEPOSIT demo_deposit)"
    by (simp_all add: lower_hex_def demo_deposit_def wf_DepositRequest_def wf_DepositMessage_def wf_root_option_def pad_def)
  have "json_from_slice demo_codec ''Signing deposit message not allowed'' = None"
    by (simp add: demo_codec_def parse_json_def)
  with signer_client_loses_refusals[OF demo_codec_laws demo_bls_laws demo_services_laws demo_ssz_serde_laws
      demo_biguint_laws demo_wire_laws demo_axum_laws net[unfolded demo_serve_def] l req, of "(empty_world, demo_guardian)"]
  show ?thesis by (simp add: secure_sign_bls_handler_def sign_validator_message_def demo_serve_def)
qed

text \<open>
  C2: the whole protocol over the network. A validator enclave and a guardian have started
  from any settings they accept, their file systems work, the agent signs and the registry
  accepts its signatures. Then the validator's client gets a key, the guardian's client hands
  its payload over and gets the approval, evidence checked, and from then on every exit
  request for the share comes back signed with it.
\<close>

theorem custody_over_the_network:
  assumes L: "codec_laws X" "hash_laws X" "bls_laws X B" "secp_laws E" "services_laws X N" "registry_laws X N url registry"
      "threshold_laws B" "ethers_laws X E H" "wire_laws W" "axum_laws A" "\<And>g. is_utf8 (wsig_to_string H g)"
    and start: "validator_main X args wv = Ok lv" "guardian_main X args' wg = Ok lg"
    and net: "remote R (vcl_url vc) (serve X B E N H S W A lv) rv pv" "remote R (gc_url gc) (serve X B E N H S W A lg) rg pg"
      "\<And>w n. rg (pv w n) = rg n"
    and kr: "length (af_withdrawal_credentials kr) = 32" "length (af_fork_version kr) = 4" "af_do_remote_attestation kr"
      "j < length (af_guardian_pubkeys kr)" "j < 2 ^ 64"
    and draw: "sks_random B (unat (af_threshold kr - 1)) (rng (rv n)) = Some s"
      "sks_threshold B s = unat (af_threshold kr - 1)"
    and vw: "quiet (rv n)" "free_dir (rv n) bls_dir" "free_dir (rv n) slash_dir" "\<forall>d v. \<exists>e. evidence_new N d v = (Ok e, v)"
      "map_of (env (rv n)) ''CVM_AGENT_STUB'' \<noteq> Some ''true''"
    and gw: "quiet (rg n)" "free_dir (rg n) bls_dir" "map_of (env (rg n)) ''SESSION_REGISTRY_RPC_URL'' = Some url"
      "map_of (env (rg n)) ''SESSION_REGISTRY_ADDRESS'' = Some addr" "alloy_address_parse N addr = Some registry"
      "fetch_eth_key X E (eth_pk_to_hex X E (af_guardian_pubkeys kr ! j)) (rg n) = (Ok sk, rg n)"
      "key_pair E sk (af_guardian_pubkeys kr ! j)"
  shows "\<exists>p n1 resp n2 i. i \<le> j \<and> ValidatorClient_attest_fresh_bls_key X E R vc kr n = (Ok p, n1) \<and>
    GuardianClient_validate_custody X W R gc
      \<lparr>keygen_payload = p, guardian_enclave_public_key = af_guardian_pubkeys kr ! j, workload_id = [],
       verify_session = True, vc_validator_index = vi\<rparr> n1 = (Ok resp, n2) \<and>
    (\<forall>er. se_bls_pub_key_set er = bls_pub_key_set p \<and> unat (se_guardian_index er) = i \<and> wf_ForkInfo (se_fork_info er) \<longrightarrow>
       (\<exists>xr. GuardianClient_sign_exit X R gc er n2 = (Ok xr, n2) \<and>
          exit_share X B xr = Some (ssh_sign B (sks_secret_key_share B s i) (exit_root X er))))"
proof -
  let ?gs = "af_guardian_pubkeys kr"
  have apps: "li_app lv = validator_app" "li_app lg = guardian_app"
    using start by (auto simp: validator_main_def guardian_main_def res_simps)
  obtain p w1 where k: "attest_fresh_bls_key X B E N (af_withdrawal_credentials kr) ?gs (af_threshold kr)
      (af_fork_version kr) True (rv n) = (Ok p, w1)"
    and D: "describes X B E s (af_withdrawal_credentials kr) (af_fork_version kr) ?gs p" "kp_fork_version p = af_fork_version kr"
    using validator_keygen_ready[OF L(1,3,4) vw(1-3) draw, where ra = True] vw(4) by blast
  have hk: "attest_fresh_bls_key_handler X B E N kr (rv n) = (Response CREATED (JsonBody p), w1)"
    using k kr(3) by (simp add: attest_fresh_bls_key_handler_def)
  note c1 = validator_keygen_call[OF L(1,3,4,5,10) net(1) apps(1) kr(1,2) hk]
  let ?cr = "\<lparr>keygen_payload = p, guardian_enclave_public_key = ?gs ! j, workload_id = [], verify_session = True,
      vc_validator_index = vi\<rparr>"
  have ev: "verify_session_evidence X B E N p [] (rg n) = (Ok (), rg n)"
    by (rule attested_payload_accepted[OF L(1-6) k vw(5) gw(3-5)])
  obtain i resp w2 where c: "i \<le> j" "validate_custody_handler X B E N H ?cr (rg n) = (Response HTTP_OK (JsonBody resp), w2)"
    "holds X B s i w2"
    using custody_of_generated[OF L(1,3,4,7,8) D(1) kr(1) D(2), of ?cr j N "rg n" sk] kr(4) ev gw(1,2,6,7) by auto
  have p: "wf_ValidateCustodyRequest ?cr"
    using generated_payload_printable[OF L(1,3,5) k kr(2)] by (simp add: wf_ValidateCustodyRequest_def)
  note c2 = guardian_custody_call[OF L(1,9,10,11) net(2) apps(2) p, of "pv w1 n", unfolded net(3), OF c(2)]
  have set: "bls_pub_key_set p = hex_encode X (pks_to_bytes B (sks_public_keys B s))"
    using D(1) by (simp add: describes_def Let_def)
  let ?n2 = "pg w2 (pv w1 n)"
  have rg2: "rg ?n2 = w2" "pg w2 ?n2 = ?n2"
    using net(2) unfolding remote_def by metis+
  have exits: "\<exists>xr. GuardianClient_sign_exit X R gc er ?n2 = (Ok xr, ?n2) \<and>
      exit_share X B xr = Some (ssh_sign B (sks_secret_key_share B s i) (exit_root X er))"
    if er: "se_bls_pub_key_set er = bls_pub_key_set p" "unat (se_guardian_index er) = i" "wf_ForkInfo (se_fork_info er)" for er
  proof -
    obtain xr where x: "sign_exit_handler X B er w2 = (Response HTTP_OK (JsonBody xr), w2)"
      "exit_share X B xr = Some (ssh_sign B (sks_secret_key_share B s i) (exit_root X er))"
      using holds_exit[OF L(1,3,7) c(3)] er(1,2) set by metis
    have "wf_SignExitRequest er" using er(1,3) set codec_lawsD(1)[OF L(1)] by (simp add: wf_SignExitRequest_def)
    from guardian_exit_call[OF L(1,10) net(2) apps(2) this, of ?n2, unfolded rg2(1), OF x(1)] x(2) show ?thesis
      by (simp add: rg2(2))
  qed
  show ?thesis
    using c1 c2 c(1) exits by (intro exI[of _ p] exI[of _ "pv w1 n"] exI[of _ resp] exI[of _ ?n2] exI[of _ i]) auto
qed

definition demo_keygen :: "u8 AttestFreshBlsKeyPayload" where
  "demo_keygen = \<lparr>af_guardian_pubkeys = [3, 4], af_withdrawal_credentials = demo_credentials, af_threshold = 2,
     af_fork_version = [0, 0, 0, 0], af_do_remote_attestation = True\<rparr>"

lemma demo_starts:
  "validator_main demo_codec [''v''] empty_world = Ok (demo_listener validator_app)"
  "guardian_main demo_codec [''g''] empty_world = Ok (demo_listener guardian_app)"
  using default_servers[of empty_world "''v''" demo_codec] default_servers[of empty_world "''g''" demo_codec]
  by (simp_all add: empty_world_def demo_codec_def digit_val_def demo_listener_def)

lemma demo_registry_guardian: "quiet demo_registry_world" "free_dir demo_registry_world bls_dir"
  "fetch_eth_key demo_codec demo_secp (eth_pk_to_hex demo_codec demo_secp 4) demo_registry_world = (Ok 4, demo_registry_world)"
proof -
  have same: "lookup demo_registry_world = lookup demo_guardian" "dirs demo_registry_world = dirs demo_guardian"
    "faults demo_registry_world = faults demo_guardian"
    by (simp_all add: demo_registry_world_def lookup_def fun_eq_iff)
  show q: "quiet demo_registry_world" using demo_guardian_world(1) same by (simp add: quiet_def)
  show "free_dir demo_registry_world bls_dir"
    using demo_guardian_world(2) same by (simp add: free_dir_def is_dir_def)
  have "read_eth_key demo_codec (eth_pk_to_hex demo_codec demo_secp 4) demo_registry_world =
      (Ok (pad 32 [4]), demo_registry_world)"
    by (rule eth_store.rd_quiet[OF q _ hex_decode_encode[OF demo_hex_laws]])
      (simp add: same, simp add: demo_guardian_def lookup_def)
  then show "fetch_eth_key demo_codec demo_secp (eth_pk_to_hex demo_codec demo_secp 4) demo_registry_world =
      (Ok 4, demo_registry_world)"
    using demo_hex_laws by (simp add: fetch_eth_key_def) (simp add: eth_sk_from_bytes_def demo_secp_def)
qed

theorem custody_over_the_network_witness:
  "\<exists>p n1 resp n2.
    ValidatorClient_attest_fresh_bls_key demo_codec demo_secp (demo_net (demo_serve validator_app) (demo_serve guardian_app))
      demo_validator_client demo_keygen (empty_world, demo_registry_world) = (Ok p, n1) \<and>
    GuardianClient_validate_custody demo_codec demo_wire (demo_net (demo_serve validator_app) (demo_serve guardian_app))
      demo_guardian_client \<lparr>keygen_payload = p, guardian_enclave_public_key = 4, workload_id = [], verify_session = True,
        vc_validator_index = 7\<rparr> n1 = (Ok resp, n2) \<and>
    (\<exists>er xr. se_bls_pub_key_set er = bls_pub_key_set p \<and>
       GuardianClient_sign_exit demo_codec (demo_net (demo_serve validator_app) (demo_serve guardian_app))
         demo_guardian_client er n2 = (Ok xr, n2))"
proof -
  have d: "demo_keygen = \<lparr>af_guardian_pubkeys = [3, 4], af_withdrawal_credentials = replicate 32 1, af_threshold = 2,
     af_fork_version = [0, 0, 0, 0], af_do_remote_attestation = True\<rparr>"
    by (simp add: demo_keygen_def demo_credentials_def)
  have kr: "length (af_withdrawal_credentials demo_keygen) = 32" "length (af_fork_version demo_keygen) = 4"
    "af_do_remote_attestation demo_keygen" "1 < length (af_guardian_pubkeys demo_keygen)" "(1::nat) < 2 ^ 64"
    "af_guardian_pubkeys demo_keygen ! 1 = 4"
    by (simp_all add: d)
  have draw: "sks_random demo_blsttc (unat (af_threshold demo_keygen - 1)) (rng (fst (empty_world, demo_registry_world))) = Some (1, 0)"
    "sks_threshold demo_blsttc (1, 0) = unat (af_threshold demo_keygen - 1)"
    using demo_draw by (simp_all add: d)
  note net = demo_net_remote[of "demo_serve validator_app" "demo_serve guardian_app", unfolded demo_serve_def]
  have env: "map_of (env (fst (empty_world, demo_registry_world))) ''CVM_AGENT_STUB'' \<noteq> Some ''true''"
    by (simp add: empty_world_def)
  have v: "quiet (fst (empty_world, demo_registry_world))" "free_dir (fst (empty_world, demo_registry_world)) bls_dir"
    "free_dir (fst (empty_world, demo_registry_world)) slash_dir" "\<forall>d v. \<exists>e. evidence_new demo_services d v = (Ok e, v)"
    using demo_evidence by simp_all
  have g: "map_of (env (snd (empty_world, demo_registry_world))) ''SESSION_REGISTRY_RPC_URL'' = Some ''http''"
    "map_of (env (snd (empty_world, demo_registry_world))) ''SESSION_REGISTRY_ADDRESS'' = Some ''00''"
    "alloy_address_parse demo_services ''00'' = Some [0]"
    "quiet (snd (empty_world, demo_registry_world))" "free_dir (snd (empty_world, demo_registry_world)) bls_dir"
    "fetch_eth_key demo_codec demo_secp (eth_pk_to_hex demo_codec demo_secp (af_guardian_pubkeys demo_keygen ! 1))
      (snd (empty_world, demo_registry_world)) = (Ok 4, snd (empty_world, demo_registry_world))"
    "key_pair demo_secp 4 (af_guardian_pubkeys demo_keygen ! 1)"
    "\<And>w n. snd ((\<lambda>w n. (w, snd n)) w n) = snd n"
    using demo_registry_env demo_registry_guardian demo_guardian_key[of 4] kr(6) by simp_all
  note C = custody_over_the_network[OF demo_codec_laws demo_hash_laws demo_bls_laws demo_secp_laws demo_services_laws
      demo_registry_laws demo_threshold_laws demo_ethers_laws demo_wire_laws demo_axum_laws demo_wsig demo_starts net g(8)
      kr(1-5) draw v env g(4,5,1-3,6,7), of 7, unfolded kr(6)]
  obtain p n1 resp n2 i where r: "i \<le> 1"
    "ValidatorClient_attest_fresh_bls_key demo_codec demo_secp (demo_net (demo_serve validator_app) (demo_serve guardian_app))
      demo_validator_client demo_keygen (empty_world, demo_registry_world) = (Ok p, n1)"
    "GuardianClient_validate_custody demo_codec demo_wire (demo_net (demo_serve validator_app) (demo_serve guardian_app))
      demo_guardian_client \<lparr>keygen_payload = p, guardian_enclave_public_key = 4, workload_id = [], verify_session = True,
        vc_validator_index = 7\<rparr> n1 = (Ok resp, n2)"
    "\<And>er. se_bls_pub_key_set er = bls_pub_key_set p \<Longrightarrow> unat (se_guardian_index er) = i \<Longrightarrow> wf_ForkInfo (se_fork_info er) \<Longrightarrow>
       \<exists>xr. GuardianClient_sign_exit demo_codec (demo_net (demo_serve validator_app) (demo_serve guardian_app))
         demo_guardian_client er n2 = (Ok xr, n2)"
    using C unfolding demo_serve_def by blast
  have "\<exists>xr. GuardianClient_sign_exit demo_codec (demo_net (demo_serve validator_app) (demo_serve guardian_app))
         demo_guardian_client \<lparr>se_bls_pub_key_set = bls_pub_key_set p, se_guardian_index = of_nat i, se_validator_index = 7,
           se_fork_info = demo_fork\<rparr> n2 = (Ok xr, n2)"
    using r(1) by (intro r(4)) (auto simp: le_Suc_eq demo_fork_def wf_ForkInfo_def wf_Fork_def)
  then have "\<exists>er xr. se_bls_pub_key_set er = bls_pub_key_set p \<and>
       GuardianClient_sign_exit demo_codec (demo_net (demo_serve validator_app) (demo_serve guardian_app))
         demo_guardian_client er n2 = (Ok xr, n2)" by force
  with r(2,3) show ?thesis by blast
qed

section \<open>Panics\<close>

text \<open>
  C8: a server drops a connection only for a reason on a short list, whatever the request,
  the files and the faults: a short file name in a listing, the blob commitments of a block, a
  threshold the key generation cannot serve, or a payload in custody with a signature or a
  deposit root of a wrong length. Every other request is answered, exits among them.
\<close>

theorem dropped_connections_have_a_cause:
  assumes "services_return N" "serve X B E N H S W A l m path body w = (None, w')"
  shows "\<exists>e params. axum_route A (li_app l) m path = Handle e params \<and> panic_cause X B E S W e body w"
proof (cases "axum_route A (li_app l) m path")
  case (Handle e params)
  with assms(2) have "fst (run_endpoint X B E N H S W A (li_state l) e params body w) = None"
    by (simp add: serve_def)
  with Handle show ?thesis using run_endpoint_dropped[OF assms(1)] by blast
qed (use assms(2) in \<open>simp add: serve_def\<close>)

lemma demo_services_return: "services_return demo_services"
  by (simp add: services_return_def demo_services_def)

theorem dropped_connections_have_a_cause_witness:
  "\<exists>k \<in> children (demo_key_world\<lparr>files := [(bls_dir @ [''x''], [])]\<rparr>) bls_dir. \<not> calm (str_slice_to k 2)"
proof -
  let ?w = "demo_key_world\<lparr>files := [(bls_dir @ [''x''], [])]\<rparr>"
  let ?l = "demo_listener validator_app"
  have route: "axum_route demo_axum (li_app ?l) GET ''/eth/v1/keystores'' = Handle List_bls_keys []"
    by (simp add: demo_listener_def validator_routes[OF demo_axum_laws])
  have c: "children ?w bls_dir = {''x''}"
    by (auto simp: children_def demo_key_world_def lookup_def bls_dir_def)
  have names: "list_bls_keys ?w = (Ok (dir_entries ?w bls_dir), ?w)"
    unfolding list_bls_keys_def path_of_dirs(1)[symmetric]
    by (rule list_fnames_quiet)
      (auto simp: path_of_dirs c is_utf8_def, auto simp: demo_key_world_def empty_world_def quiet_def is_dir_def)
  obtain p where "ListKeysResponse_new (dir_entries ?w bls_dir) = Panic p"
    using list_keys_panics[of "''x''" "dir_entries ?w bls_dir"] c by (auto simp: set_dir_entries)
  with names have "serve demo_codec demo_blsttc demo_secp demo_services demo_ethers demo_ssz_serde demo_wire demo_axum
      ?l GET ''/eth/v1/keystores'' None ?w = (None, ?w)"
    by (simp add: serve_def route run_endpoint_def list_bls_keys_handler_def list_keys_response_def)
  from dropped_connections_have_a_cause[OF demo_services_return this] route show ?thesis
    by (simp add: panic_cause_def)
qed

end
