(* ===== verification/Mock_Clients.thy ===== *)
theory Mock_Clients
  imports Client
begin

text \<open>
  src/client/mock/: the test doubles of the guardian's and the validator's client. The
  guardian's hands out the answers a test has pushed, per call in the order of pushing; the
  queues behind \<open>Arc<Mutex<VecDeque<_>>>\<close> are the lists of a record that the calls
  thread. No code that holds a lock can panic, so \<open>lock().unwrap()\<close> always returns.
\<close>

section \<open>The guardian's double\<close>

record MockGuardianClient =
  health_responses :: "bool list"
  attest_fresh_eth_key_responses :: "KeyGenResponse list"
  list_eth_keys_responses :: "ListKeysResponse list"
  validate_custody_responses :: "ValidateCustodyResponse list"
  sign_exit_responses :: "SignExitResponse list"

definition MockGuardianClient_new :: MockGuardianClient where
  "MockGuardianClient_new = \<lparr>health_responses = [], attest_fresh_eth_key_responses = [],
     list_eth_keys_responses = [], validate_custody_responses = [], sign_exit_responses = []\<rparr>"

definition push_health_response :: "bool \<Rightarrow> MockGuardianClient \<Rightarrow> MockGuardianClient" where
  "push_health_response v c = c\<lparr>health_responses := health_responses c @ [v]\<rparr>"

definition push_attest_fresh_eth_key_response ::
  "KeyGenResponse \<Rightarrow> MockGuardianClient \<Rightarrow> MockGuardianClient" where
  "push_attest_fresh_eth_key_response v c =
     c\<lparr>attest_fresh_eth_key_responses := attest_fresh_eth_key_responses c @ [v]\<rparr>"

definition push_list_eth_keys_response :: "ListKeysResponse \<Rightarrow> MockGuardianClient \<Rightarrow> MockGuardianClient" where
  "push_list_eth_keys_response v c = c\<lparr>list_eth_keys_responses := list_eth_keys_responses c @ [v]\<rparr>"

definition push_validate_custody_response ::
  "ValidateCustodyResponse \<Rightarrow> MockGuardianClient \<Rightarrow> MockGuardianClient" where
  "push_validate_custody_response v c = c\<lparr>validate_custody_responses := validate_custody_responses c @ [v]\<rparr>"

definition push_sign_exit_response :: "SignExitResponse \<Rightarrow> MockGuardianClient \<Rightarrow> MockGuardianClient" where
  "push_sign_exit_response v c = c\<lparr>sign_exit_responses := sign_exit_responses c @ [v]\<rparr>"

definition MockGuardianClient_health :: "(MockGuardianClient, bool) eff" where
  "MockGuardianClient_health c =
     (case health_responses c of
        v # vs \<Rightarrow> (Ok v, c\<lparr>health_responses := vs\<rparr>)
      | [] \<Rightarrow> (Ok False, c))"

definition MockGuardianClient_attest_fresh_eth_key ::
  "u64 \<Rightarrow> string \<Rightarrow> u64 \<Rightarrow> (MockGuardianClient, KeyGenResponse) eff" where
  "MockGuardianClient_attest_fresh_eth_key block_number guardian_module_address chain_id c =
     (case attest_fresh_eth_key_responses c of
        res # rest \<Rightarrow> (Ok res, c\<lparr>attest_fresh_eth_key_responses := rest\<rparr>)
      | [] \<Rightarrow> (Err Io, c))"

definition MockGuardianClient_list_eth_keys :: "(MockGuardianClient, ListKeysResponse) eff" where
  "MockGuardianClient_list_eth_keys c =
     (case list_eth_keys_responses c of
        res # rest \<Rightarrow> (Ok res, c\<lparr>list_eth_keys_responses := rest\<rparr>)
      | [] \<Rightarrow> (Err Io, c))"

definition MockGuardianClient_validate_custody ::
  "'epk ValidateCustodyRequest \<Rightarrow> (MockGuardianClient, ValidateCustodyResponse) eff" where
  "MockGuardianClient_validate_custody request c =
     (case validate_custody_responses c of
        res # rest \<Rightarrow> (Ok res, c\<lparr>validate_custody_responses := rest\<rparr>)
      | [] \<Rightarrow> (Err Io, c))"

definition MockGuardianClient_sign_exit ::
  "SignExitRequest \<Rightarrow> (MockGuardianClient, SignExitResponse) eff" where
  "MockGuardianClient_sign_exit request c =
     (case sign_exit_responses c of
        res # rest \<Rightarrow> (Ok res, c\<lparr>sign_exit_responses := rest\<rparr>)
      | [] \<Rightarrow> (Err Io, c))"

section \<open>The contract of a queue of answers\<close>

text \<open>
  \<open>items\<close> is what is still to be answered, \<open>others\<close> the rest of the state, and
  \<open>empty\<close> the answer when nothing is left.
\<close>

fun calls :: "('s, 'a) eff \<Rightarrow> nat \<Rightarrow> 's \<Rightarrow> 'a res list \<times> 's" where
  "calls f 0 s = ([], s)"
| "calls f (Suc n) s = (case f s of (r, s) \<Rightarrow> (case calls f n s of (rs, s) \<Rightarrow> (r # rs, s)))"

locale answer_queue =
  fixes items :: "'s \<Rightarrow> 'a list" and others :: "'s \<Rightarrow> 'o"
    and push :: "'a \<Rightarrow> 's \<Rightarrow> 's" and pop :: "('s, 'a) eff" and empty :: "'a res"
  assumes items_push: "items (push v s) = items s @ [v]"
    and others_push: "others (push v s) = others s"
    and pop_empty: "items s = [] \<Longrightarrow> pop s = (empty, s)"
    and pop_first: "items s = v # vs \<Longrightarrow> \<exists>s'. pop s = (Ok v, s') \<and> items s' = vs \<and> others s' = others s"
begin

lemma items_pushes: "items (fold push vs s) = items s @ vs \<and> others (fold push vs s) = others s"
  by (induction vs arbitrary: s) (simp_all add: items_push others_push)

lemma calls_empty: "items s = [] \<Longrightarrow> calls pop k s = (replicate k empty, s)"
  by (induction k) (simp_all add: pop_empty)

text \<open>What was pushed is answered in that order, then the answer of the empty queue.\<close>

lemma calls_items:
  "\<exists>s'. calls pop (length (items s) + k) s = (map Ok (items s) @ replicate k empty, s') \<and>
     items s' = [] \<and> others s' = others s"
proof (induction "items s" arbitrary: s)
  case Nil
  then show ?case by (simp add: calls_empty)
next
  case (Cons v vs)
  then obtain s1 where p: "pop s = (Ok v, s1)" "items s1 = vs" "others s1 = others s"
    using pop_first[of s v vs] by auto
  obtain s2 where "calls pop (length vs + k) s1 = (map Ok vs @ replicate k empty, s2)" "items s2 = []"
    "others s2 = others s1"
    using Cons.hyps(1)[of s1] p(2) by auto
  with p Cons.hyps(2) show ?case by (auto simp: Cons.hyps(2)[symmetric])
qed

lemma pushed_then_called:
  "items s = [] \<Longrightarrow>
     \<exists>s'. calls pop (length vs + k) (fold push vs s) = (map Ok vs @ replicate k empty, s') \<and>
       items s' = [] \<and> others s' = others s"
  using calls_items[of "fold push vs s" k] items_pushes[of vs s] by simp

end

interpretation mock_health: answer_queue health_responses
    "\<lambda>c. (attest_fresh_eth_key_responses c, list_eth_keys_responses c, validate_custody_responses c, sign_exit_responses c)"
    push_health_response MockGuardianClient_health "Ok False"
  by unfold_locales (simp_all add: push_health_response_def MockGuardianClient_health_def)

interpretation mock_attest: answer_queue attest_fresh_eth_key_responses
    "\<lambda>c. (health_responses c, list_eth_keys_responses c, validate_custody_responses c, sign_exit_responses c)"
    push_attest_fresh_eth_key_response "MockGuardianClient_attest_fresh_eth_key bn addr ci" "Err Io"
  for bn addr ci
  by unfold_locales (simp_all add: push_attest_fresh_eth_key_response_def MockGuardianClient_attest_fresh_eth_key_def)

interpretation mock_list: answer_queue list_eth_keys_responses
    "\<lambda>c. (health_responses c, attest_fresh_eth_key_responses c, validate_custody_responses c, sign_exit_responses c)"
    push_list_eth_keys_response MockGuardianClient_list_eth_keys "Err Io"
  by unfold_locales (simp_all add: push_list_eth_keys_response_def MockGuardianClient_list_eth_keys_def)

interpretation mock_custody: answer_queue validate_custody_responses
    "\<lambda>c. (health_responses c, attest_fresh_eth_key_responses c, list_eth_keys_responses c, sign_exit_responses c)"
    push_validate_custody_response "MockGuardianClient_validate_custody req" "Err Io"
  for req
  by unfold_locales (simp_all add: push_validate_custody_response_def MockGuardianClient_validate_custody_def)

interpretation mock_exit: answer_queue sign_exit_responses
    "\<lambda>c. (health_responses c, attest_fresh_eth_key_responses c, list_eth_keys_responses c, validate_custody_responses c)"
    push_sign_exit_response "MockGuardianClient_sign_exit req" "Err Io"
  for req
  by unfold_locales (simp_all add: push_sign_exit_response_def MockGuardianClient_sign_exit_def)

text \<open>A new double with exits pushed to it answers them in order and then fails.\<close>

lemma mock_exits_in_order:
  "fst (calls (MockGuardianClient_sign_exit req) (length xs + k) (fold push_sign_exit_response xs MockGuardianClient_new)) =
     map Ok xs @ replicate k (Err Io)"
  using mock_exit.pushed_then_called[of MockGuardianClient_new req xs k]
  by (auto simp: MockGuardianClient_new_def)

section \<open>The validator's double\<close>

record MockValidatorClient =
  health :: bool
  fresh_bls_key :: "BlsKeygenPayload option"
  voluntary_exit_message :: "SignatureResponse option"

definition MockValidatorClient_new :: MockValidatorClient where
  "MockValidatorClient_new = \<lparr>health = False, fresh_bls_key = None, voluntary_exit_message = None\<rparr>"

definition set_health_response :: "bool \<Rightarrow> MockValidatorClient \<Rightarrow> MockValidatorClient" where
  "set_health_response response c = c\<lparr>health := response\<rparr>"

definition MockValidatorClient_health :: "MockValidatorClient \<Rightarrow> bool" where
  "MockValidatorClient_health c = health c"

definition MockValidatorClient_attest_fresh_bls_key ::
  "MockValidatorClient \<Rightarrow> 'epk AttestFreshBlsKeyPayload \<Rightarrow> BlsKeygenPayload res" where
  "MockValidatorClient_attest_fresh_bls_key c payload =
     (case fresh_bls_key c of Some resp \<Rightarrow> Ok resp | None \<Rightarrow> Err Io)"

definition MockValidatorClient_list_bls_keys :: "MockValidatorClient \<Rightarrow> ListKeysResponse res" where
  "MockValidatorClient_list_bls_keys c = Ok \<lparr>lk_data = []\<rparr>"

definition MockValidatorClient_sign_voluntary_exit_message ::
  "MockValidatorClient \<Rightarrow> string \<Rightarrow> Epoch \<Rightarrow> ValidatorIndex \<Rightarrow> ForkInfo \<Rightarrow> SignatureResponse res" where
  "MockValidatorClient_sign_voluntary_exit_message c bls_pk_hex epoch validator_index fork_info =
     (case voluntary_exit_message c of Some resp \<Rightarrow> Ok resp | None \<Rightarrow> Err Io)"

text \<open>Setting its health leaves the answers it was built with.\<close>

lemma set_health_response_frame:
  "MockValidatorClient_health (set_health_response b c) = b"
  "MockValidatorClient_attest_fresh_bls_key (set_health_response b c) = MockValidatorClient_attest_fresh_bls_key c"
  "MockValidatorClient_sign_voluntary_exit_message (set_health_response b c) =
     MockValidatorClient_sign_voluntary_exit_message c"
  by (auto simp: set_health_response_def MockValidatorClient_health_def MockValidatorClient_attest_fresh_bls_key_def
      MockValidatorClient_sign_voluntary_exit_message_def fun_eq_iff)

end
