(* ===== verification/Cli_Routes.thy ===== *)
theory Cli_Routes
  imports Client
begin

text \<open>
  src/cli/routes.rs: the requests the command line interface makes to a secure signer on the
  same host. The types of the answers are those of src/enclave/types.rs, which the source
  still names by their former module \<open>puffersecuresigner::api\<close>; the answer to a key import,
  whose type is no longer in the repository, is read by a parameter.
\<close>

section \<open>Routes and addresses\<close>

datatype RouteType =
    Upcheck
  | BlsSign
  | BlsKeyImport
  | BlsKeygen
  | EthKeygen
  | ListEthKeys
  | ListBlsKeys
  | Deposit

fun route_endpoint :: "RouteType \<Rightarrow> string" where
  "route_endpoint Upcheck = ''/upcheck''"
| "route_endpoint BlsSign = ''/api/v1/eth2/sign''"
| "route_endpoint BlsKeygen = ''/eth/v1/keygen/bls''"
| "route_endpoint BlsKeyImport = ''/eth/v1/keystores''"
| "route_endpoint ListBlsKeys = ''/eth/v1/keystores''"
| "route_endpoint EthKeygen = ''/eth/v1/keygen/secp256k1''"
| "route_endpoint ListEthKeys = ''/eth/v1/keygen/secp256k1''"
| "route_endpoint Deposit = ''/api/v1/eth2/deposit''"

text \<open>The decimal form of a number, as \<open>format!\<close> writes it.\<close>

fun decimal_text :: "nat \<Rightarrow> string" where
  "decimal_text n =
     (if n < 10 then [char_of (48 + n)] else decimal_text (n div 10) @ [char_of (48 + n mod 10)])"

declare decimal_text.simps [simp del]

text \<open>
  \<open>PathBuf::push\<close> on the text of a path: an absolute component replaces what was there,
  any other is appended behind a separator. A path made of strings is a string again.
\<close>

definition push_text :: "string \<Rightarrow> string \<Rightarrow> string" where
  "push_text p s =
     (if is_absolute s then s
      else if p = [] \<or> last p = CHR ''/'' then p @ s
      else p @ ''/'' @ s)"

definition build_req_url :: "u16 \<Rightarrow> RouteType \<Rightarrow> string option \<Rightarrow> string res" where
  "build_req_url port route pk_hex =
     (let uri = ''http://localhost:'' @ decimal_text (unat port);
          components = [route_endpoint route] @ (case pk_hex of Some pk \<Rightarrow> [pk] | None \<Rightarrow> []);
          path = foldl push_text [] components
      in Ok (uri @ path))"

section \<open>Requests\<close>

definition cli_get :: "'n reqwest \<Rightarrow> string \<Rightarrow> ('n, wire_response) eff" where
  "cli_get R url = send_get R url"

text \<open>
  \<open>get_json\<close> and \<open>post\<close> hand the status over beside the attempt to read the body; only a
  request that is not answered is an error of their own.
\<close>

definition status_and_json ::
  "codec \<Rightarrow> 'n reqwest \<Rightarrow> (json \<Rightarrow> 'a res) \<Rightarrow> string \<Rightarrow> ('n, wire_response) eff \<Rightarrow> ('n, nat \<times> 'a res) eff" where
  "status_and_json X R de failed sent n =
     (case sent n of
        (Ok resp, n') \<Rightarrow>
          (case in_context ''Failed to parse to T'' (resp_json X R de resp) n' of
             (Panic m, n'') \<Rightarrow> (Panic m, n'')
           | (json_resp, n'') \<Rightarrow> (Ok (wp_status resp, json_resp), n''))
      | (Err e, n') \<Rightarrow> (Err (Bail failed), n')
      | (Panic m, n') \<Rightarrow> (Panic m, n'))"

definition get_json ::
  "codec \<Rightarrow> 'n reqwest \<Rightarrow> (json \<Rightarrow> 'a res) \<Rightarrow> string \<Rightarrow> ('n, nat \<times> 'a res) eff" where
  "get_json X R de url = status_and_json X R de ''get_json failed'' (cli_get R url)"

definition post ::
  "codec \<Rightarrow> 'n reqwest \<Rightarrow> (json \<Rightarrow> 'a res) \<Rightarrow> string \<Rightarrow> string option \<Rightarrow> ('n, nat \<times> 'a res) eff" where
  "post X R de url json =
     status_and_json X R de ''Post request failed''
       (case json of
          Some body \<Rightarrow> rq_send R \<lparr>wq_method = POST, wq_url = url, wq_body = Some body\<rparr>
        | None \<Rightarrow> send_post R url)"

definition is_alive :: "'n reqwest \<Rightarrow> u16 \<Rightarrow> ('n, unit) eff" where
  "is_alive R port =
     ebind (lift (build_req_url port Upcheck None)) (\<lambda>url n.
     (case cli_get R url n of
        (Ok resp, n') \<Rightarrow>
          (if wp_status resp = 200 then Ok () else Err (Bail ''Upcheck did not receive 200''), n')
      | (Err e, n') \<Rightarrow> (Err (Bail ''Upcheck failure''), n')
      | (Panic m, n') \<Rightarrow> (Panic m, n')))"

text \<open>\<open>if status != 200 { bail!(..) } resp\<close>, the end of every call below.\<close>

definition only_200 :: "string \<Rightarrow> nat \<times> 'a res \<Rightarrow> ('n, 'a) eff" where
  "only_200 msg r = (case r of (status, resp) \<Rightarrow> lift (if status \<noteq> 200 then Err (Bail msg) else resp))"

section \<open>Calls\<close>

definition cli_bls_sign ::
  "codec \<Rightarrow> 'n reqwest \<Rightarrow> u16 \<Rightarrow> string \<Rightarrow> string \<Rightarrow> ('n, SignatureResponse) eff" where
  "cli_bls_sign X R port json pk_hex =
     ebind (is_alive R port) (\<lambda>_.
     ebind (lift (build_req_url port BlsSign (Some pk_hex))) (\<lambda>url.
     ebind (post X R de_SignatureResponse url (Some json)) (only_200 ''bls_sign_route'')))"

definition cli_deposit ::
  "codec \<Rightarrow> 'n reqwest \<Rightarrow> u16 \<Rightarrow> string \<Rightarrow> ('n, DepositResponse) eff" where
  "cli_deposit X R port json =
     ebind (is_alive R port) (\<lambda>_.
     ebind (lift (build_req_url port Deposit None)) (\<lambda>url.
     ebind (post X R (de_DepositResponse X) url (Some json)) (only_200 ''deposit'')))"

definition cli_bls_key_import ::
  "codec \<Rightarrow> 'n reqwest \<Rightarrow> (json \<Rightarrow> 'imp res) \<Rightarrow> u16 \<Rightarrow> string \<Rightarrow> ('n, 'imp) eff" where
  "cli_bls_key_import X R de_import port json =
     ebind (is_alive R port) (\<lambda>_.
     ebind (lift (build_req_url port BlsKeyImport None)) (\<lambda>url.
     ebind (post X R de_import url (Some json)) (only_200 ''bls_key_import_route'')))"

definition cli_bls_keygen ::
  "codec \<Rightarrow> 'epk wire \<Rightarrow> 'n reqwest \<Rightarrow> u16 \<Rightarrow> ('n, KeyGenResponse) eff" where
  "cli_bls_keygen X W R port =
     ebind (is_alive R port) (\<lambda>_.
     ebind (lift (build_req_url port BlsKeygen None)) (\<lambda>url.
     ebind (post X R (de_KeyGenResponse W) url None) (only_200 ''bls_keygen_route'')))"

definition cli_eth_keygen ::
  "codec \<Rightarrow> 'epk wire \<Rightarrow> 'n reqwest \<Rightarrow> u16 \<Rightarrow> ('n, KeyGenResponse) eff" where
  "cli_eth_keygen X W R port =
     ebind (is_alive R port) (\<lambda>_.
     ebind (lift (build_req_url port EthKeygen None)) (\<lambda>url.
     ebind (post X R (de_KeyGenResponse W) url None) (only_200 ''eth_keygen_route'')))"

definition cli_list_eth_keys :: "codec \<Rightarrow> 'n reqwest \<Rightarrow> u16 \<Rightarrow> ('n, ListKeysResponse) eff" where
  "cli_list_eth_keys X R port =
     ebind (is_alive R port) (\<lambda>_.
     ebind (lift (build_req_url port ListEthKeys None)) (\<lambda>url.
     ebind (get_json X R de_ListKeysResponse url) (only_200 ''list_eth_keys_route'')))"

definition cli_list_bls_keys :: "codec \<Rightarrow> 'n reqwest \<Rightarrow> u16 \<Rightarrow> ('n, ListKeysResponse) eff" where
  "cli_list_bls_keys X R port =
     ebind (is_alive R port) (\<lambda>_.
     ebind (lift (build_req_url port ListBlsKeys None)) (\<lambda>url.
     ebind (get_json X R de_ListKeysResponse url) (only_200 ''list_bls_keys_route'')))"

end
