(* ===== verification/Cli.thy ===== *)
theory Cli
  imports Cli_Routes
begin

text \<open>
  src/cli/: the command line interface to a secure signer. Its state is the world of the
  host it runs on, for the files it reads and writes, beside that of the network. The
  arguments are the record \<open>clap\<close> parses. What the sources use and the repository no longer
  has, the types of a key import and the two checks of attestation evidence, is a record of
  parameters, and so is the pretty printer of \<open>serde_json\<close>.
\<close>

section \<open>State\<close>

type_synonym 'n cli = "world \<times> 'n"

text \<open>An operation that an argument asks for, or nothing.\<close>

definition when_asked :: "bool \<Rightarrow> ('s, unit) eff \<Rightarrow> ('s, unit) eff" where
  "when_asked b m = (if b then m else ret ())"

section \<open>Third parties and missing parts\<close>

record KeyImportRequest =
  kir_keystore :: string
  kir_ct_password_hex :: string
  kir_slashing_protection :: "string option"
  kir_encrypting_pk_hex :: string

record ('epk, 'imp) cli_api =
  validate_bls_ra :: "KeyGenResponse \<Rightarrow> string \<Rightarrow> unit res"
  validate_eth_ra :: "KeyGenResponse \<Rightarrow> string \<Rightarrow> 'epk res"
  se_KeyImportRequest :: "KeyImportRequest \<Rightarrow> json res"
  de_KeyImportResponse :: "json \<Rightarrow> 'imp res"
  se_KeyImportResponse :: "'imp \<Rightarrow> json res"
  json_pretty :: "json \<Rightarrow> string"
  json_flushed :: "json \<Rightarrow> nat"

section \<open>Network configuration\<close>

record NetworkConfig =
  nc_network_name :: string
  nc_deposit_cli_version :: string
  nc_fork_info :: ForkInfo

definition de_NetworkConfig :: "codec \<Rightarrow> json \<Rightarrow> NetworkConfig res" where
  "de_NetworkConfig X j =
     rbind (struct_fields [''network_name'', ''deposit_cli_version'', ''fork_info''] j) (\<lambda>vs.
     rbind (required (vs ! 0) de_str) (\<lambda>x0.
     rbind (required (vs ! 1) de_str) (\<lambda>x1.
     rbind (required (vs ! 2) (de_ForkInfo X)) (\<lambda>x2.
     Ok \<lparr>nc_network_name = x0, nc_deposit_cli_version = x1, nc_fork_info = x2\<rparr>))))"

definition NetworkConfig_new :: "codec \<Rightarrow> string \<Rightarrow> (world, NetworkConfig) eff" where
  "NetworkConfig_new X path =
     ebind (expecting ''bad network config'' (read_to_string (path_of path))) (\<lambda>s.
     lift (expect ''bad deserialize config''
       (rbind (ok_or ''serde_json::from_str'' (json_from_slice X s)) (de_NetworkConfig X))))"

section \<open>Arguments\<close>

record Args =
  arg_port :: u16
  arg_outdir :: string
  arg_bls_keygen :: bool
  arg_list :: bool
  arg_import :: bool
  arg_keystore_path :: "string option"
  arg_password_path :: "string option"
  arg_slash_protection_path :: "string option"
  arg_deposit :: bool
  arg_debug :: bool
  arg_validator_pk_hex :: "string option"
  arg_execution_addr :: "string option"
  arg_mrenclave :: "string option"
  arg_config :: string
  arg_withdraw :: bool
  arg_epoch :: "u64 option"
  arg_validator_index :: "u64 option"

text \<open>\<open>expect\<close> of an optional argument.\<close>

definition expect_arg :: "string \<Rightarrow> 'a option \<Rightarrow> 'a res" where
  "expect_arg msg v = (case v of Some x \<Rightarrow> Ok x | None \<Rightarrow> Panic msg)"

definition out_dir :: "Args \<Rightarrow> path" where
  "out_dir args = path_of (arg_outdir args)"

definition init_out_dir :: "Args \<Rightarrow> (world, unit) eff" where
  "init_out_dir args = expecting ''Failed to create {dir}'' (create_dir_all (out_dir args))"

definition args_config :: "codec \<Rightarrow> Args \<Rightarrow> (world, NetworkConfig) eff" where
  "args_config X args = NetworkConfig_new X (arg_config args)"

definition get_keygen_args :: "Args \<Rightarrow> (string \<times> bool) res" where
  "get_keygen_args args =
     (let verify_ra_evidence = \<not> arg_debug args
      in rbind (expect_arg ''--mrenclave expected'' (arg_mrenclave args)) (\<lambda>mrenclave.
         Ok (mrenclave, verify_ra_evidence)))"

definition get_import_args :: "Args \<Rightarrow> (path \<times> path \<times> path option \<times> string \<times> bool) res" where
  "get_import_args args =
     rbind (expect_arg ''--keystore-path expected'' (arg_keystore_path args)) (\<lambda>keystore_path.
     rbind (expect_arg ''--password-path expected'' (arg_password_path args)) (\<lambda>password_path.
     let slashing_db_path = map_option path_of (arg_slash_protection_path args) in
     rbind (expect_arg ''--mrenclave expected'' (arg_mrenclave args)) (\<lambda>mrenclave.
     let verify_ra_evidence = \<not> arg_debug args in
     Ok (path_of keystore_path, path_of password_path, slashing_db_path, mrenclave, verify_ra_evidence))))"

definition get_deposit_args :: "Args \<Rightarrow> (string \<times> string) res" where
  "get_deposit_args args =
     rbind (expect_arg ''--validator_pk_hex expected'' (arg_validator_pk_hex args)) (\<lambda>validator_pk_hex.
     rbind (expect_arg ''ETH address (hex) required for withdrawal credentials'' (arg_execution_addr args)) (\<lambda>execution_addr.
     Ok (validator_pk_hex, execution_addr)))"

definition get_withdraw_args :: "Args \<Rightarrow> (string \<times> u64 \<times> u64) res" where
  "get_withdraw_args args =
     rbind (expect_arg ''--validator_pk_hex expected'' (arg_validator_pk_hex args)) (\<lambda>validator_pk_hex.
     rbind (expect_arg ''--validator-index expected'' (arg_validator_index args)) (\<lambda>validator_index.
     rbind (expect_arg ''--epoch expected'' (arg_epoch args)) (\<lambda>epoch.
     Ok (validator_pk_hex, validator_index, epoch))))"

section \<open>Writing a result\<close>

text \<open>\<open>File::create\<close> empties the file; a fault makes it fail without any effect.\<close>

definition file_create :: "path \<Rightarrow> (world, unit) eff" where
  "file_create p w =
     (case next_fault w of
        (NoFault, w') \<Rightarrow> if writable w' p then (Ok (), put p [] w') else (Err Io, w')
      | (_, w') \<Rightarrow> (Err Io, w'))"

text \<open>
  One \<open>write\<close> at the end of the open file, with the part of the text that did not reach it.
  Nothing is written where there is nothing to write.
\<close>

definition append_file :: "path \<Rightarrow> string \<Rightarrow> world \<Rightarrow> string \<times> world" where
  "append_file p s w =
     (let put_end = (\<lambda>t w. put p ((case lookup w p of Some old \<Rightarrow> old | None \<Rightarrow> []) @ t) w) in
      if s = [] then ([], w)
      else case next_fault w of
        (NoFault, w') \<Rightarrow> ([], put_end s w')
      | (Unavailable, w') \<Rightarrow> (s, w')
      | (Torn n, w') \<Rightarrow> (drop n s, put_end (take n s) w'))"

text \<open>
  \<open>BufWriter\<close>: the first \<open>k\<close> bytes of a text are written while it is printed, and a failure
  there is an error and the end of the printing; what is left in the buffer is written when
  the writer is dropped, where failures are ignored.
\<close>

definition buffered_write :: "nat \<Rightarrow> path \<Rightarrow> string \<Rightarrow> (world, unit) eff" where
  "buffered_write k p s w =
     (case append_file p (take k s) w of
        ([], w') \<Rightarrow> (Ok (), snd (append_file p (drop k s) w'))
      | (rest, w') \<Rightarrow> (Err Io, snd (append_file p rest w')))"

definition write_to_file :: "('epk, 'imp) cli_api \<Rightarrow> Args \<Rightarrow> string \<Rightarrow> json res \<Rightarrow> (world, unit) eff" where
  "write_to_file L args fname contents =
     (let p = path_push (out_dir args) fname in
      ebind (file_create p) (\<lambda>_.
      in_context ''Failed to write to file''
        (ebind (lift contents) (\<lambda>j. buffered_write (json_flushed L j) p (json_pretty L j)))))"

section \<open>Deposits\<close>

definition DEPOSIT_AMOUNT :: u64 where
  "DEPOSIT_AMOUNT = 32000000000"

definition assert_eq :: "string \<Rightarrow> 'a \<Rightarrow> 'a \<Rightarrow> unit res" where
  "assert_eq msg a b = (if a = b then Ok () else Panic msg)"

definition eth_addr_to_credentials :: "string \<Rightarrow> string res" where
  "eth_addr_to_credentials execution_addr =
     (let addr = strip_0x_prefix execution_addr in
      if length addr \<noteq> 40 then Err (Bail ''Invalid length ETH address'')
      else
        let withdrawal_credentials = ''0x010000000000000000000000'' @ addr in
        rbind (assert_eq ''assertion failed'' (length withdrawal_credentials) 66) (\<lambda>_.
        Ok withdrawal_credentials))"

definition build_deposit_request :: "codec \<Rightarrow> string \<Rightarrow> string \<Rightarrow> Version \<Rightarrow> DepositRequest res" where
  "build_deposit_request X validator_pk_hex withdrawal_credentials fork_version =
     (let validator_pk_hex = strip_0x_prefix validator_pk_hex in
      rbind (ok_or ''hex::decode'' (hex_decode X validator_pk_hex)) (\<lambda>pk_bytes.
      rbind (assert_eq ''Invalid bls public key length'' (length pk_bytes) BLS_PUB_KEY_BYTES) (\<lambda>_.
      let withdrawal_credentials = strip_0x_prefix withdrawal_credentials in
      rbind (ok_or ''hex::decode'' (hex_decode X withdrawal_credentials)) (\<lambda>withdrawal_bytes.
      rbind (assert_eq ''Invalid withdrawal credentials length'' (length withdrawal_bytes) 32) (\<lambda>_.
      let deposit = \<lparr>dm_pubkey = BLSPubkey_from X pk_bytes, dm_withdrawal_credentials = withdrawal_bytes,
                     dm_amount = DEPOSIT_AMOUNT\<rparr>
      in Ok \<lparr>dr_signingRoot = None, dr_deposit = deposit, dr_genesis_fork_version = fork_version\<rparr>)))))"

definition cli_get_deposit_signature ::
  "codec \<Rightarrow> 'n reqwest \<Rightarrow> u16 \<Rightarrow> string \<Rightarrow> string \<Rightarrow> Version \<Rightarrow> ('n, DepositResponse) eff" where
  "cli_get_deposit_signature X R port bls_pk_hex execution_addr fork_version =
     ebind (lift (eth_addr_to_credentials execution_addr)) (\<lambda>withdrawal_creds.
     ebind (lift (build_deposit_request X bls_pk_hex withdrawal_creds fork_version)) (\<lambda>deposit_req.
     ebind (lift (rbind (se_DepositRequest X deposit_req) (\<lambda>j. Ok (json_to_string X j)))) (\<lambda>json_req.
     ebind (cli_deposit X R port json_req) (\<lambda>resp.
     ret resp))))"

text \<open>The text of the launchpad's file, line by line, and the parser run on it.\<close>

definition quoted_line :: "string \<Rightarrow> string \<Rightarrow> string" where
  "quoted_line k v = replicate 12 CHR '' '' @ [CHR 0x22] @ k @ [CHR 0x22] @ '': '' @ [CHR 0x22] @ v @ [CHR 0x22]"

definition deposit_data_text :: "codec \<Rightarrow> DepositResponse \<Rightarrow> NetworkConfig \<Rightarrow> string" where
  "deposit_data_text X d config =
     (let fork_version = hex_encode X (fork_current_version (fi_fork (nc_fork_info config)));
          line = \<lambda>s. s @ ''\<newline>''
      in line [] @ line (replicate 8 CHR '' '' @ ''[{'') @
         line (quoted_line ''pubkey'' (dres_pubkey d) @ '','') @
         line (quoted_line ''withdrawal_credentials'' (dres_withdrawal_credentials d) @ '','') @
         line (replicate 12 CHR '' '' @ [CHR 0x22] @ ''amount'' @ [CHR 0x22] @ '': '' @
                 decimal_text (unat (dres_amount d)) @ '','') @
         line (quoted_line ''signature'' (dres_signature d) @ '','') @
         line (quoted_line ''deposit_message_root'' (dres_deposit_message_root d) @ '','') @
         line (quoted_line ''deposit_data_root'' (dres_deposit_data_root d) @ '','') @
         line (quoted_line ''fork_version'' fork_version @ '','') @
         line (quoted_line ''network_name'' (nc_network_name config) @ '','') @
         line (quoted_line ''deposit_cli_version'' (nc_deposit_cli_version config)) @
         replicate 8 CHR '' '' @ ''}]'')"

definition deposit_data_payload :: "codec \<Rightarrow> DepositResponse \<Rightarrow> NetworkConfig \<Rightarrow> json res" where
  "deposit_data_payload X d config =
     with_context ''Failed to serialize final DepositData json''
       (ok_or ''serde_json::from_str'' (json_from_slice X (deposit_data_text X d config)))"

section \<open>Exits\<close>

definition exit_validator ::
  "codec \<Rightarrow> ssz_serde \<Rightarrow> 'n reqwest \<Rightarrow> u16 \<Rightarrow> string \<Rightarrow> u64 \<Rightarrow> u64 \<Rightarrow> NetworkConfig \<Rightarrow> ('n, SignedVoluntaryExit) eff" where
  "exit_validator X S R port validator_pk_hex epoch validator_index config =
     (let vem = \<lparr>ver_fork_info = nc_fork_info config, ver_signingRoot = None,
                 ver_voluntary_exit = \<lparr>ve_epoch = epoch, ve_validator_index = validator_index\<rparr>\<rparr>;
          req = VOLUNTARY_EXIT vem
      in ebind (lift (rbind (se_BLSSignMsg X S req) (\<lambda>j. Ok (json_to_string X j)))) (\<lambda>json.
         ebind (cli_bls_sign X R port json validator_pk_hex) (\<lambda>sig.
         ebind (lift (SignatureResponse_to_ssz_bytes X sig)) (\<lambda>signature.
         ret \<lparr>sve_message = \<lparr>ve_epoch = epoch, ve_validator_index = validator_index\<rparr>,
              sve_signature = signature\<rparr>))))"

section \<open>Importing a key\<close>

definition encrypt_password ::
  "codec \<Rightarrow> ('esk, 'epk, 'emsg, 'esig) secp \<Rightarrow> string \<Rightarrow> 'epk \<Rightarrow> (world, string) eff" where
  "encrypt_password X E password encrypting_pk =
     ebind (envelope_encrypt E encrypting_pk (map of_char password)) (\<lambda>ct_pw.
     let ct_password_hex = hex_encode X ct_pw in
     ret ct_password_hex)"

definition import_from_files ::
  "codec \<Rightarrow> ('esk, 'epk, 'emsg, 'esig) secp \<Rightarrow> 'epk wire \<Rightarrow> 'n reqwest \<Rightarrow> ('epk, 'imp) cli_api \<Rightarrow> u16 \<Rightarrow>
   path \<Rightarrow> path \<Rightarrow> path option \<Rightarrow> string \<Rightarrow> bool \<Rightarrow> ('n cli, 'imp) eff" where
  "import_from_files X E W R L port keystore_file password_file slash_protection_file mrenclave verify_ra_evidence =
     ebind (on_first (in_context ''Failed to read keystore file'' (read_to_string keystore_file))) (\<lambda>keystore.
     ebind (case slash_protection_file of
              Some path \<Rightarrow>
                ebind (on_first (in_context ''Failed to read slash protection file'' (read_to_string path))) (\<lambda>content.
                ret (Some content))
            | None \<Rightarrow> ret None) (\<lambda>slashing_protection.
     ebind (on_first (in_context ''Failed to read password file'' (read_to_string password_file))) (\<lambda>password.
     ebind (on_second (cli_eth_keygen X W R port)) (\<lambda>resp.
     ebind (lift (if verify_ra_evidence
                  then rbind (validate_eth_ra L resp mrenclave) (\<lambda>enclave_eth_pk.
                       Ok (enclave_eth_pk, eth_pk_to_hex X E enclave_eth_pk))
                  else rbind (eth_pk_from_hex X E (kg_pk_hex resp)) (\<lambda>enclave_eth_pk.
                       Ok (enclave_eth_pk, eth_pk_to_hex X E enclave_eth_pk)))) (\<lambda>(enclave_eth_pk, encrypting_pk_hex).
     ebind (on_first (encrypt_password X E password enclave_eth_pk)) (\<lambda>ct_password_hex.
     let req = \<lparr>kir_keystore = keystore, kir_ct_password_hex = ct_password_hex,
                kir_slashing_protection = slashing_protection, kir_encrypting_pk_hex = encrypting_pk_hex\<rparr> in
     ebind (lift (rbind (se_KeyImportRequest L req) (\<lambda>j. Ok (json_to_string X j)))) (\<lambda>json_req.
     on_second (cli_bls_key_import X R (de_KeyImportResponse L) port json_req))))))))"

section \<open>main\<close>

definition do_keygen ::
  "codec \<Rightarrow> 'epk wire \<Rightarrow> 'n reqwest \<Rightarrow> ('epk, 'imp) cli_api \<Rightarrow> Args \<Rightarrow> ('n cli, unit) eff" where
  "do_keygen X W R L args =
     ebind (expecting ''called Result::unwrap() on an Err value'' (on_second (cli_bls_keygen X W R (arg_port args)))) (\<lambda>resp.
     ebind (lift (get_keygen_args args)) (\<lambda>(mrenclave, verify_ra_evidence).
     ebind (lift (if verify_ra_evidence then validate_bls_ra L resp mrenclave else Ok ())) (\<lambda>_.
     on_first (write_to_file L args ''keygen_response'' (se_KeyGenResponse W resp)))))"

definition do_import ::
  "codec \<Rightarrow> ('esk, 'epk, 'emsg, 'esig) secp \<Rightarrow> 'epk wire \<Rightarrow> 'n reqwest \<Rightarrow> ('epk, 'imp) cli_api \<Rightarrow> Args \<Rightarrow>
   ('n cli, unit) eff" where
  "do_import X E W R L args =
     ebind (lift (get_import_args args)) (\<lambda>(keystore_path, password_path, slashing_db_path, mrenclave, verify_ra_evidence).
     ebind (import_from_files X E W R L (arg_port args) keystore_path password_path slashing_db_path mrenclave
              verify_ra_evidence) (\<lambda>resp.
     on_first (write_to_file L args ''import_response'' (se_KeyImportResponse L resp))))"

definition do_deposit :: "codec \<Rightarrow> 'n reqwest \<Rightarrow> ('epk, 'imp) cli_api \<Rightarrow> Args \<Rightarrow> ('n cli, unit) eff" where
  "do_deposit X R L args =
     ebind (lift (get_deposit_args args)) (\<lambda>(validator_pk_hex, execution_addr).
     ebind (on_first (args_config X args)) (\<lambda>config.
     ebind (on_second (cli_get_deposit_signature X R (arg_port args) validator_pk_hex execution_addr
              (fork_current_version (fi_fork (nc_fork_info config))))) (\<lambda>resp.
     ebind (on_first (args_config X args)) (\<lambda>config.
     ebind (lift (deposit_data_payload X resp config)) (\<lambda>deposit_data_json.
     on_first (write_to_file L args ''deposit_data.json'' (Ok deposit_data_json)))))))"

definition do_withdrawal ::
  "codec \<Rightarrow> ssz_serde \<Rightarrow> 'n reqwest \<Rightarrow> ('epk, 'imp) cli_api \<Rightarrow> Args \<Rightarrow> ('n cli, unit) eff" where
  "do_withdrawal X S R L args =
     ebind (lift (get_withdraw_args args)) (\<lambda>(validator_pk_hex, validator_index, epoch).
     ebind (on_first (args_config X args)) (\<lambda>config.
     ebind (on_second (exit_validator X S R (arg_port args) validator_pk_hex epoch validator_index config)) (\<lambda>vem.
     on_first (write_to_file L args ''voluntary_exit_message.json'' (se_SignedVoluntaryExit X vem)))))"

definition do_list :: "codec \<Rightarrow> 'n reqwest \<Rightarrow> ('epk, 'imp) cli_api \<Rightarrow> Args \<Rightarrow> ('n cli, unit) eff" where
  "do_list X R L args =
     ebind (on_second (cli_list_eth_keys X R (arg_port args))) (\<lambda>eth_keys.
     ebind (on_first (write_to_file L args ''list_eth_keys'' (se_ListKeysResponse eth_keys))) (\<lambda>_.
     ebind (on_second (cli_list_bls_keys X R (arg_port args))) (\<lambda>bls_keys.
     on_first (write_to_file L args ''list_bls_keys'' (se_ListKeysResponse bls_keys)))))"

definition cli_main ::
  "codec \<Rightarrow> ('esk, 'epk, 'emsg, 'esig) secp \<Rightarrow> ssz_serde \<Rightarrow> 'epk wire \<Rightarrow> 'n reqwest \<Rightarrow> ('epk, 'imp) cli_api \<Rightarrow> Args \<Rightarrow>
   ('n cli, unit) eff" where
  "cli_main X E S W R L args =
     ebind (on_first (init_out_dir args)) (\<lambda>_.
     ebind (expecting ''Failed to reach Secure-Signer'' (on_second (is_alive R (arg_port args)))) (\<lambda>_.
     ebind (when_asked (arg_bls_keygen args) (do_keygen X W R L args)) (\<lambda>_.
     ebind (when_asked (arg_import args) (do_import X E W R L args)) (\<lambda>_.
     ebind (when_asked (arg_deposit args) (do_deposit X R L args)) (\<lambda>_.
     ebind (when_asked (arg_withdraw args) (do_withdrawal X S R L args)) (\<lambda>_.
     when_asked (arg_list args) (do_list X R L args)))))))"

end
