(* ===== verification/Typed.thy ===== *)
theory Typed
  imports Slash_Protection Eth_Json_Laws
begin

text \<open>
  What the deserializers let in. Rust's types carry the lengths of arrays and vectors; here
  every message read from JSON is shown to have them, whatever the text, and so has the
  slashing database read from a file. A block is left out: the lists in it are as long as
  their texts.
\<close>

section \<open>Leaves\<close>

named_theorems typed \<open>lengths of the values a deserializer gives\<close>

text \<open>\<open>from_ssz_bytes\<close> of a bit list refuses more bits than its bound, that of a bit vector any
  other number than its length.\<close>

definition ssz_bits_laws :: "ssz_serde \<Rightarrow> bool" where
  "ssz_bits_laws S \<longleftrightarrow>
     (\<forall>n b bs. bitlist_from_ssz S n b = Some bs \<longrightarrow> length bs \<le> n) \<and>
     (\<forall>n b bs. bitvector_from_ssz S n b = Some bs \<longrightarrow> length bs = n)"

lemma required_typed: "(\<And>j. de j = Ok x \<Longrightarrow> P x) \<Longrightarrow> required v de = Ok x \<Longrightarrow> P x"
  by (auto simp: required_def split: option.splits)

lemma serhex_length: "serhex_from_hex X n s = Some b \<Longrightarrow> codec_laws X \<Longrightarrow> length b = n"
  unfolding codec_laws_def serhex_laws_def by blast

lemma typed_serhex [typed]: "required v (de_serhex X n) = Ok b \<Longrightarrow> codec_laws X \<Longrightarrow> length b = n"
  by (auto simp: required_def de_serhex_def rbind_eq_Ok serhex_length split: option.splits)

lemma typed_ssz [typed]:
  "required v (from_hex_to_ssz_type X (fv_from X n)) = Ok b \<Longrightarrow> codec_laws X \<Longrightarrow> length b = n"
  by (auto simp: required_def from_hex_to_ssz_type_def rbind_eq_Ok Let_def codec_lawsD split: option.splits)

lemma typed_bits [typed]:
  "required v (from_hex_to_ssz_bits_type X (bitlist_from_ssz S n)) = Ok b \<Longrightarrow> ssz_bits_laws S \<Longrightarrow> length b \<le> n"
  "required v (from_hex_to_ssz_bits_type X (bitvector_from_ssz S n)) = Ok b \<Longrightarrow> ssz_bits_laws S \<Longrightarrow> length b = n"
  by (auto simp: required_def from_hex_to_ssz_bits_type_def rbind_eq_Ok Let_def ssz_bits_laws_def split: option.splits)

lemma typed_root [typed]:
  "default_field None v (de_signing_root X) = Ok r \<Longrightarrow> codec_laws X \<Longrightarrow> wf_root_option r"
  using default_root_ok[of X v r] by (simp add: codec_laws_def root_ok_def wf_root_option_def)

section \<open>Structs\<close>

lemma typed_Fork:
  assumes "codec_laws X" "de_Fork X j = Ok v"
  shows "wf_Fork v"
  using assms by (auto simp: de_Fork_def wf_Fork_def rbind_eq_Ok dest: typed)

lemma field_Fork [typed]: "required w (de_Fork X) = Ok v \<Longrightarrow> codec_laws X \<Longrightarrow> wf_Fork v"
  by (erule required_typed[rotated]) (rule typed_Fork)

lemma typed_ForkInfo:
  assumes "codec_laws X" "de_ForkInfo X j = Ok v"
  shows "wf_ForkInfo v"
  using assms by (auto simp: de_ForkInfo_def wf_ForkInfo_def rbind_eq_Ok dest: typed)

lemma field_ForkInfo [typed]: "required w (de_ForkInfo X) = Ok v \<Longrightarrow> codec_laws X \<Longrightarrow> wf_ForkInfo v"
  by (erule required_typed[rotated]) (rule typed_ForkInfo)

lemma typed_BeaconBlockHeader:
  assumes "codec_laws X" "de_BeaconBlockHeader X j = Ok v"
  shows "wf_BeaconBlockHeader v"
  using assms by (auto simp: de_BeaconBlockHeader_def wf_BeaconBlockHeader_def rbind_eq_Ok dest: typed)

lemma field_BeaconBlockHeader [typed]: "required w (de_BeaconBlockHeader X) = Ok v \<Longrightarrow> codec_laws X \<Longrightarrow> wf_BeaconBlockHeader v"
  by (erule required_typed[rotated]) (rule typed_BeaconBlockHeader)

lemma typed_Checkpoint:
  assumes "codec_laws X" "de_Checkpoint X j = Ok v"
  shows "wf_Checkpoint v"
  using assms by (auto simp: de_Checkpoint_def wf_Checkpoint_def rbind_eq_Ok dest: typed)

lemma field_Checkpoint [typed]: "required w (de_Checkpoint X) = Ok v \<Longrightarrow> codec_laws X \<Longrightarrow> wf_Checkpoint v"
  by (erule required_typed[rotated]) (rule typed_Checkpoint)

lemma typed_AttestationData:
  assumes "codec_laws X" "de_AttestationData X j = Ok v"
  shows "wf_AttestationData v"
  using assms by (auto simp: de_AttestationData_def wf_AttestationData_def rbind_eq_Ok dest: typed)

lemma field_AttestationData [typed]: "required w (de_AttestationData X) = Ok v \<Longrightarrow> codec_laws X \<Longrightarrow> wf_AttestationData v"
  by (erule required_typed[rotated]) (rule typed_AttestationData)

lemma typed_VoluntaryExit:
  assumes "codec_laws X" "de_VoluntaryExit X j = Ok v"
  shows "wf_VoluntaryExit v"
  using assms by (auto simp: de_VoluntaryExit_def wf_VoluntaryExit_def rbind_eq_Ok dest: typed)

lemma field_VoluntaryExit [typed]: "required w (de_VoluntaryExit X) = Ok v \<Longrightarrow> codec_laws X \<Longrightarrow> wf_VoluntaryExit v"
  by (erule required_typed[rotated]) (rule typed_VoluntaryExit)

lemma typed_RandaoReveal:
  assumes "codec_laws X" "de_RandaoReveal X j = Ok v"
  shows "wf_RandaoReveal v"
  using assms by (auto simp: de_RandaoReveal_def wf_RandaoReveal_def rbind_eq_Ok dest: typed)

lemma field_RandaoReveal [typed]: "required w (de_RandaoReveal X) = Ok v \<Longrightarrow> codec_laws X \<Longrightarrow> wf_RandaoReveal v"
  by (erule required_typed[rotated]) (rule typed_RandaoReveal)

lemma typed_AggregationSlot:
  assumes "codec_laws X" "de_AggregationSlot X j = Ok v"
  shows "wf_AggregationSlot v"
  using assms by (auto simp: de_AggregationSlot_def wf_AggregationSlot_def rbind_eq_Ok dest: typed)

lemma field_AggregationSlot [typed]: "required w (de_AggregationSlot X) = Ok v \<Longrightarrow> codec_laws X \<Longrightarrow> wf_AggregationSlot v"
  by (erule required_typed[rotated]) (rule typed_AggregationSlot)

lemma typed_DepositMessage:
  assumes "codec_laws X" "de_DepositMessage X j = Ok v"
  shows "wf_DepositMessage v"
  using assms by (auto simp: de_DepositMessage_def wf_DepositMessage_def rbind_eq_Ok dest: typed)

lemma field_DepositMessage [typed]: "required w (de_DepositMessage X) = Ok v \<Longrightarrow> codec_laws X \<Longrightarrow> wf_DepositMessage v"
  by (erule required_typed[rotated]) (rule typed_DepositMessage)

lemma typed_SyncCommitteeMessageRequestWrapper:
  assumes "codec_laws X" "de_SyncCommitteeMessageRequestWrapper X j = Ok v"
  shows "wf_SyncCommitteeMessageRequestWrapper v"
  using assms by (auto simp: de_SyncCommitteeMessageRequestWrapper_def wf_SyncCommitteeMessageRequestWrapper_def rbind_eq_Ok dest: typed)

lemma field_SyncCommitteeMessageRequestWrapper [typed]: "required w (de_SyncCommitteeMessageRequestWrapper X) = Ok v \<Longrightarrow> codec_laws X \<Longrightarrow> wf_SyncCommitteeMessageRequestWrapper v"
  by (erule required_typed[rotated]) (rule typed_SyncCommitteeMessageRequestWrapper)

lemma typed_SyncAggregatorSelectionData:
  assumes "codec_laws X" "de_SyncAggregatorSelectionData X j = Ok v"
  shows "wf_SyncAggregatorSelectionData v"
  using assms by (auto simp: de_SyncAggregatorSelectionData_def wf_SyncAggregatorSelectionData_def rbind_eq_Ok dest: typed)

lemma field_SyncAggregatorSelectionData [typed]: "required w (de_SyncAggregatorSelectionData X) = Ok v \<Longrightarrow> codec_laws X \<Longrightarrow> wf_SyncAggregatorSelectionData v"
  by (erule required_typed[rotated]) (rule typed_SyncAggregatorSelectionData)

lemma typed_ValidatorRegistration:
  assumes "codec_laws X" "de_ValidatorRegistration X j = Ok v"
  shows "wf_ValidatorRegistration v"
  using assms by (auto simp: de_ValidatorRegistration_def wf_ValidatorRegistration_def rbind_eq_Ok dest: typed)

lemma field_ValidatorRegistration [typed]: "required w (de_ValidatorRegistration X) = Ok v \<Longrightarrow> codec_laws X \<Longrightarrow> wf_ValidatorRegistration v"
  by (erule required_typed[rotated]) (rule typed_ValidatorRegistration)

lemma typed_AttestationRequest:
  assumes "codec_laws X" "de_AttestationRequest X j = Ok v"
  shows "wf_AttestationRequest v"
  using assms by (auto simp: de_AttestationRequest_def wf_AttestationRequest_def rbind_eq_Ok dest: typed)

lemma field_AttestationRequest [typed]: "required w (de_AttestationRequest X) = Ok v \<Longrightarrow> codec_laws X \<Longrightarrow> wf_AttestationRequest v"
  by (erule required_typed[rotated]) (rule typed_AttestationRequest)

lemma typed_RandaoRevealRequest:
  assumes "codec_laws X" "de_RandaoRevealRequest X j = Ok v"
  shows "wf_RandaoRevealRequest v"
  using assms by (auto simp: de_RandaoRevealRequest_def wf_RandaoRevealRequest_def rbind_eq_Ok dest: typed)

lemma field_RandaoRevealRequest [typed]: "required w (de_RandaoRevealRequest X) = Ok v \<Longrightarrow> codec_laws X \<Longrightarrow> wf_RandaoRevealRequest v"
  by (erule required_typed[rotated]) (rule typed_RandaoRevealRequest)

lemma typed_AggregationSlotRequest:
  assumes "codec_laws X" "de_AggregationSlotRequest X j = Ok v"
  shows "wf_AggregationSlotRequest v"
  using assms by (auto simp: de_AggregationSlotRequest_def wf_AggregationSlotRequest_def rbind_eq_Ok dest: typed)

lemma field_AggregationSlotRequest [typed]: "required w (de_AggregationSlotRequest X) = Ok v \<Longrightarrow> codec_laws X \<Longrightarrow> wf_AggregationSlotRequest v"
  by (erule required_typed[rotated]) (rule typed_AggregationSlotRequest)

lemma typed_DepositRequest:
  assumes "codec_laws X" "de_DepositRequest X j = Ok v"
  shows "wf_DepositRequest v"
  using assms by (auto simp: de_DepositRequest_def wf_DepositRequest_def rbind_eq_Ok dest: typed)

lemma field_DepositRequest [typed]: "required w (de_DepositRequest X) = Ok v \<Longrightarrow> codec_laws X \<Longrightarrow> wf_DepositRequest v"
  by (erule required_typed[rotated]) (rule typed_DepositRequest)

lemma typed_VoluntaryExitRequest:
  assumes "codec_laws X" "de_VoluntaryExitRequest X j = Ok v"
  shows "wf_VoluntaryExitRequest v"
  using assms by (auto simp: de_VoluntaryExitRequest_def wf_VoluntaryExitRequest_def rbind_eq_Ok dest: typed)

lemma field_VoluntaryExitRequest [typed]: "required w (de_VoluntaryExitRequest X) = Ok v \<Longrightarrow> codec_laws X \<Longrightarrow> wf_VoluntaryExitRequest v"
  by (erule required_typed[rotated]) (rule typed_VoluntaryExitRequest)

lemma typed_SyncCommitteeMessageRequest:
  assumes "codec_laws X" "de_SyncCommitteeMessageRequest X j = Ok v"
  shows "wf_SyncCommitteeMessageRequest v"
  using assms by (auto simp: de_SyncCommitteeMessageRequest_def wf_SyncCommitteeMessageRequest_def rbind_eq_Ok dest: typed)

lemma field_SyncCommitteeMessageRequest [typed]: "required w (de_SyncCommitteeMessageRequest X) = Ok v \<Longrightarrow> codec_laws X \<Longrightarrow> wf_SyncCommitteeMessageRequest v"
  by (erule required_typed[rotated]) (rule typed_SyncCommitteeMessageRequest)

lemma typed_SyncCommitteeSelectionProofRequest:
  assumes "codec_laws X" "de_SyncCommitteeSelectionProofRequest X j = Ok v"
  shows "wf_SyncCommitteeSelectionProofRequest v"
  using assms by (auto simp: de_SyncCommitteeSelectionProofRequest_def wf_SyncCommitteeSelectionProofRequest_def rbind_eq_Ok dest: typed)

lemma field_SyncCommitteeSelectionProofRequest [typed]: "required w (de_SyncCommitteeSelectionProofRequest X) = Ok v \<Longrightarrow> codec_laws X \<Longrightarrow> wf_SyncCommitteeSelectionProofRequest v"
  by (erule required_typed[rotated]) (rule typed_SyncCommitteeSelectionProofRequest)

lemma typed_ValidatorRegistrationRequest:
  assumes "codec_laws X" "de_ValidatorRegistrationRequest X j = Ok v"
  shows "wf_ValidatorRegistrationRequest v"
  using assms by (auto simp: de_ValidatorRegistrationRequest_def wf_ValidatorRegistrationRequest_def rbind_eq_Ok dest: typed)

lemma field_ValidatorRegistrationRequest [typed]: "required w (de_ValidatorRegistrationRequest X) = Ok v \<Longrightarrow> codec_laws X \<Longrightarrow> wf_ValidatorRegistrationRequest v"
  by (erule required_typed[rotated]) (rule typed_ValidatorRegistrationRequest)

lemma typed_Attestation:
  assumes "codec_laws X" "ssz_bits_laws S" "de_Attestation X S j = Ok v"
  shows "wf_Attestation v"
  using assms by (auto simp: de_Attestation_def wf_Attestation_def rbind_eq_Ok dest: typed)

lemma field_Attestation [typed]: "required w (de_Attestation X S) = Ok v \<Longrightarrow> codec_laws X \<Longrightarrow> ssz_bits_laws S \<Longrightarrow> wf_Attestation v"
  by (erule required_typed[rotated]) (rule typed_Attestation)

lemma typed_AggregateAndProof:
  assumes "codec_laws X" "ssz_bits_laws S" "de_AggregateAndProof X S j = Ok v"
  shows "wf_AggregateAndProof v"
  using assms by (auto simp: de_AggregateAndProof_def wf_AggregateAndProof_def rbind_eq_Ok dest: typed)

lemma field_AggregateAndProof [typed]: "required w (de_AggregateAndProof X S) = Ok v \<Longrightarrow> codec_laws X \<Longrightarrow> ssz_bits_laws S \<Longrightarrow> wf_AggregateAndProof v"
  by (erule required_typed[rotated]) (rule typed_AggregateAndProof)

lemma typed_AggregateAndProofRequest:
  assumes "codec_laws X" "ssz_bits_laws S" "de_AggregateAndProofRequest X S j = Ok v"
  shows "wf_AggregateAndProofRequest v"
  using assms by (auto simp: de_AggregateAndProofRequest_def wf_AggregateAndProofRequest_def rbind_eq_Ok dest: typed)

lemma field_AggregateAndProofRequest [typed]: "required w (de_AggregateAndProofRequest X S) = Ok v \<Longrightarrow> codec_laws X \<Longrightarrow> ssz_bits_laws S \<Longrightarrow> wf_AggregateAndProofRequest v"
  by (erule required_typed[rotated]) (rule typed_AggregateAndProofRequest)

lemma typed_SyncCommitteeContribution:
  assumes "codec_laws X" "ssz_bits_laws S" "de_SyncCommitteeContribution X S j = Ok v"
  shows "wf_SyncCommitteeContribution v"
  using assms by (auto simp: de_SyncCommitteeContribution_def wf_SyncCommitteeContribution_def rbind_eq_Ok dest: typed)

lemma field_SyncCommitteeContribution [typed]: "required w (de_SyncCommitteeContribution X S) = Ok v \<Longrightarrow> codec_laws X \<Longrightarrow> ssz_bits_laws S \<Longrightarrow> wf_SyncCommitteeContribution v"
  by (erule required_typed[rotated]) (rule typed_SyncCommitteeContribution)

lemma typed_ContributionAndProof:
  assumes "codec_laws X" "ssz_bits_laws S" "de_ContributionAndProof X S j = Ok v"
  shows "wf_ContributionAndProof v"
  using assms by (auto simp: de_ContributionAndProof_def wf_ContributionAndProof_def rbind_eq_Ok dest: typed)

lemma field_ContributionAndProof [typed]: "required w (de_ContributionAndProof X S) = Ok v \<Longrightarrow> codec_laws X \<Longrightarrow> ssz_bits_laws S \<Longrightarrow> wf_ContributionAndProof v"
  by (erule required_typed[rotated]) (rule typed_ContributionAndProof)

lemma typed_SyncCommitteeContributionAndProofRequest:
  assumes "codec_laws X" "ssz_bits_laws S" "de_SyncCommitteeContributionAndProofRequest X S j = Ok v"
  shows "wf_SyncCommitteeContributionAndProofRequest v"
  using assms by (auto simp: de_SyncCommitteeContributionAndProofRequest_def wf_SyncCommitteeContributionAndProofRequest_def rbind_eq_Ok dest: typed)

lemma field_SyncCommitteeContributionAndProofRequest [typed]: "required w (de_SyncCommitteeContributionAndProofRequest X S) = Ok v \<Longrightarrow> codec_laws X \<Longrightarrow> ssz_bits_laws S \<Longrightarrow> wf_SyncCommitteeContributionAndProofRequest v"
  by (erule required_typed[rotated]) (rule typed_SyncCommitteeContributionAndProofRequest)

section \<open>The version of a block header\<close>

text \<open>A text that a parser hands over is UTF-8, and so is every part of it.\<close>

fun utf8_json :: "json \<Rightarrow> bool" where
  "utf8_json (JStr s) = is_utf8 s"
| "utf8_json (JArr js) = (\<forall>j \<in> set js. utf8_json j)"
| "utf8_json (JObj kvs) = (\<forall>kv \<in> set kvs. utf8_json (snd kv))"
| "utf8_json _ = True"

lemma utf8_fields:
  assumes "utf8_json j" "struct_fields names j = Ok vs" "vs ! i = Some x" "i < length names"
  shows "utf8_json x"
proof (cases j)
  case (JArr js)
  with assms have vs: "vs = map Some js @ replicate (length names - length js) None" "length js \<le> length names"
    by (auto simp: struct_fields_def split: if_splits)
  show ?thesis
  proof (cases "i < length js")
    case True
    with vs assms(1,3) JArr show ?thesis by (auto simp: nth_append)
  next
    case False
    with vs assms(3,4) show ?thesis by (simp add: nth_append)
  qed
next
  case (JObj kvs)
  with assms have "mapM (object_field kvs) names = Ok vs" by (simp add: struct_fields_def)
  with assms(3,4) have "object_field kvs (names ! i) = Ok (Some x)" by (simp add: mapM_Ok_iff)
  then have "field_values (names ! i) kvs = [x]" by (auto simp: object_field_def split: list.splits)
  then have "x \<in> set (field_values (names ! i) kvs)" by simp
  then have "x \<in> snd ` set kvs" by (auto simp: field_values_def)
  with assms(1) JObj show ?thesis by auto
qed (use assms in \<open>simp_all add: struct_fields_def\<close>)

lemma utf8_tagged:
  assumes "utf8_json j" "de_tagged j = Ok (tag, c)"
  shows "utf8_json c"
  using assms by (cases j) (auto simp: de_tagged_def rbind_eq_Ok split: list.splits)

lemma typed_BlockV2RequestWrapper:
  assumes "codec_laws X" "utf8_json j" "de_BlockV2RequestWrapper X j = Ok v"
  shows "wf_BlockV2RequestWrapper v"
proof -
  obtain vs s h where v: "struct_fields [''version'', ''block_header''] j = Ok vs" "required (vs ! 0) de_str = Ok s"
    "required (vs ! 1) (de_BeaconBlockHeader X) = Ok h" "v = \<lparr>b2w_version = s, b2w_block_header = h\<rparr>"
    using assms(3) by (auto simp: de_BlockV2RequestWrapper_def rbind_eq_Ok)
  then obtain x where "vs ! 0 = Some x" "x = JStr s"
    by (auto simp: required_def de_str_def split: option.splits json.splits)
  with utf8_fields[OF assms(2) v(1), of 0 x] have "is_utf8 s" by simp
  with v assms(1) show ?thesis by (auto simp: wf_BlockV2RequestWrapper_def dest: typed)
qed

lemma typed_BlockV2Request:
  assumes "codec_laws X" "utf8_json j" "de_BlockV2Request X j = Ok v"
  shows "wf_BlockV2Request v"
proof -
  obtain vs f r b where v: "struct_fields [''fork_info'', ''signingRoot'', ''beacon_block''] j = Ok vs"
    "required (vs ! 0) (de_ForkInfo X) = Ok f" "default_field None (vs ! 1) (de_signing_root X) = Ok r"
    "required (vs ! 2) (de_BlockV2RequestWrapper X) = Ok b" "v = \<lparr>b2r_fork_info = f, b2r_signingRoot = r, b2r_beacon_block = b\<rparr>"
    using assms(3) by (auto simp: de_BlockV2Request_def rbind_eq_Ok)
  then obtain x where "vs ! 2 = Some x" "de_BlockV2RequestWrapper X x = Ok b"
    by (auto simp: required_def split: option.splits)
  with utf8_fields[OF assms(2) v(1), of 2 x] have "wf_BlockV2RequestWrapper b"
    using typed_BlockV2RequestWrapper[OF assms(1)] by simp
  with v assms(1) show ?thesis by (auto simp: wf_BlockV2Request_def dest: typed)
qed

section \<open>Messages\<close>

fun full_block :: "BLSSignMsg \<Rightarrow> bool" where
  "full_block (BLOCK m) = True"
| "full_block (block m) = True"
| "full_block _ = False"

lemmas typed_requests =
  typed_AttestationRequest typed_RandaoRevealRequest typed_AggregationSlotRequest typed_DepositRequest
  typed_VoluntaryExitRequest typed_SyncCommitteeMessageRequest typed_SyncCommitteeSelectionProofRequest
  typed_ValidatorRegistrationRequest

text \<open>\<open>gives r P\<close>: whatever \<open>r\<close> returns has the property \<open>P\<close>.\<close>

definition gives :: "'a res \<Rightarrow> ('a \<Rightarrow> bool) \<Rightarrow> bool" where
  "gives r P \<longleftrightarrow> (\<forall>x. r = Ok x \<longrightarrow> P x)"

lemma gives_if: "gives x P \<Longrightarrow> gives y P \<Longrightarrow> gives (if b then x else y) P"
  by simp

lemma gives_tag:
  assumes "\<And>x. r = Ok x \<Longrightarrow> P (C x)"
  shows "gives (rbind r (\<lambda>x. Ok (C x))) P"
  using assms by (auto simp: gives_def rbind_eq_Ok)

lemma gives_Err: "gives (Err e) P"
  by (simp add: gives_def)

lemma typed_message:
  assumes L: "codec_laws X" "ssz_bits_laws S" and j: "utf8_json j" "de_BLSSignMsg X S j = Ok m" "\<not> full_block m"
  shows "wf_BLSSignMsg m"
proof -
  obtain tag c where c: "de_tagged j = Ok (tag, c)" using j(2) by (auto simp: de_BLSSignMsg_def rbind_eq_Ok)
  note u = utf8_tagged[OF j(1) c]
  have "gives (de_BLSSignMsg X S j) (\<lambda>m. \<not> full_block m \<longrightarrow> wf_BLSSignMsg m)"
    unfolding de_BLSSignMsg_def c rbind.simps prod.case
    by (intro gives_if gives_tag gives_Err; simp only: wf_BLSSignMsg.simps full_block.simps not_True_eq_False simp_thms;
        erule typed_requests[OF L(1)] typed_BlockV2Request[OF L(1) u] typed_AggregateAndProofRequest[OF L]
          typed_SyncCommitteeContributionAndProofRequest[OF L])
  with j(2,3) show ?thesis by (simp add: gives_def)
qed

end
