(* ===== verification/Cli_Laws.thy ===== *)
theory Cli_Laws
  imports Cli Signer_Client Panics Typed
begin

text \<open>
  The command line interface over a network that delivers, with a secure signer on the other
  side: which calls can succeed, and with what.
\<close>

section \<open>Addresses\<close>

definition cli_base :: "u16 \<Rightarrow> string" where
  "cli_base port = ''http://localhost:'' @ decimal_text (unat port)"

lemma route_url [simp]: "build_req_url port r None = Ok (cli_base port @ route_endpoint r)"
  by (cases r) (simp_all add: build_req_url_def push_text_def cli_base_def is_absolute_def)

lemma name_url [simp]:
  assumes "set name \<subseteq> lower_hex" "name \<noteq> []"
  shows "build_req_url port BlsSign (Some name) = Ok (cli_base port @ ''/api/v1/eth2/sign/'' @ name)"
proof -
  have "\<not> is_absolute name"
    using assms by (cases name) (auto simp: is_absolute_def lower_hex_def)
  then show ?thesis by (simp add: build_req_url_def push_text_def cli_base_def is_absolute_def)
qed

text \<open>A name that begins with a separator replaces the route.\<close>

lemma absolute_name_replaces_route:
  "build_req_url port BlsSign (Some (CHR ''/'' # p)) = Ok (cli_base port @ CHR ''/'' # p)"
  by (simp add: build_req_url_def push_text_def cli_base_def is_absolute_def)

section \<open>Calls\<close>

lemma health_answer: "health_handler w = (Response HTTP_OK NoBody, w)"
  by (simp add: health_handler_def)

lemma alive:
  assumes A: "axum_laws A"
    and net: "remote R (cli_base port) (serve X B E N H S W A l) rd wr" "li_app l = secure_signer_app"
  shows "is_alive R port n = (Ok (), n)"
proof -
  have "serve X B E N H S W A l GET ''/upcheck'' None (rd n) = (Some \<lparr>wp_status = HTTP_OK, wp_body = []\<rparr>, rd n)"
    by (simp add: serve_def net(2) secure_signer_routes[OF A] run_endpoint_def health_answer)
  moreover have "list_all path_char ''/upcheck''" by (simp add: path_char_def)
  moreover have "wr (rd n) n = n" using net(1) unfolding remote_def by blast
  ultimately have "rq_send R \<lparr>wq_method = GET, wq_url = cli_base port @ ''/upcheck'', wq_body = None\<rparr> n =
      (Ok \<lparr>wp_status = HTTP_OK, wp_body = []\<rparr>, n)"
    using net(1) unfolding remote_def by force
  then show ?thesis by (simp add: is_alive_def cli_get_def send_get_def status_defs)
qed

text \<open>What a call of the command line interface makes of a handler's answer.\<close>

fun cli_result :: "string \<Rightarrow> string \<Rightarrow> 'a response \<Rightarrow> 'a res" where
  "cli_result failed refused (Response c b) =
     (case b of JsonBody x \<Rightarrow> if c = 200 then Ok x else Err (Bail refused) | _ \<Rightarrow> Err (Bail refused))"
| "cli_result failed refused (Dropped m) = Err (Bail failed)"

lemma status_answered:
  assumes "sent n = (Ok resp, n')" "\<And>v. rq_text R resp v = (Ok (wp_body resp), v)" "\<And>j. calm (de j)"
  shows "\<exists>r. status_and_json X R de failed sent n = (Ok (wp_status resp, r), n') \<and>
    (\<forall>j x. json_from_slice X (wp_body resp) = Some j \<and> de j = Ok x \<longrightarrow> r = Ok x)"
proof -
  have "calm (rbind (ok_or ''reqwest: error decoding response body'' (json_from_slice X (wp_body resp))) de)"
    using assms(3) by simp
  then show ?thesis
    using assms(1,2)
    by (cases "rbind (ok_or ''reqwest: error decoding response body'' (json_from_slice X (wp_body resp))) de")
      (auto simp: status_and_json_def resp_json_def ebind_def in_context_def)
qed

lemma cli_call:
  assumes X: "codec_laws X" and net: "remote R base srv rd wr" and path: "list_all path_char path"
    and run: "srv m path body (rd n) = answer X A se (h, w)"
    and ord: "orderly good h" and codes: "\<And>x. good x \<Longrightarrow> json_codes se de x" and calm: "\<And>j. calm (de j)"
  shows "ebind (status_and_json X R de failed (rq_send R \<lparr>wq_method = m, wq_url = base @ path, wq_body = body\<rparr>))
    (only_200 refused) n = (cli_result failed refused h, wr w n)"
proof -
  let ?sent = "rq_send R \<lparr>wq_method = m, wq_url = base @ path, wq_body = body\<rparr>"
  have send: "?sent n =
      (case answer X A se (h, w) of
         (Some resp, w) \<Rightarrow> (Ok resp, wr w n)
       | (None, w) \<Rightarrow> (Err (External ''connection closed''), wr w n))"
    using net path unfolding remote_def run[symmetric] by blast
  have rd_body: "\<And>resp v. rq_text R resp v = (Ok (wp_body resp), v)"
    using net unfolding remote_def by blast
  have refused: "ebind (status_and_json X R de failed ?sent) (only_200 refused) n = (Err (Bail refused), wr w n)"
    if "answer X A se (h, w) = (Some \<lparr>wp_status = c, wp_body = t\<rparr>, w)" "c \<noteq> 200" for c t
    using status_answered[where sent = ?sent and n = n and R = R and X = X and de = de and failed = failed, OF _ rd_body calm]
      send that by (force simp: only_200_def)
  show ?thesis
  proof (cases h)
    case (Response c b)
    show ?thesis
    proof (cases b)
      case (JsonBody x)
      with Response ord have s: "json_codes se de x" by (auto intro: codes)
      have a: "answer X A se (h, w) = (Some \<lparr>wp_status = c, wp_body = json_to_string X (the_ok (se x))\<rparr>, w)"
        using Response JsonBody json_codesD(1)[OF s] by simp
      show ?thesis
      proof (cases "c = 200")
        case True
        have "json_from_slice X (json_to_string X (the_ok (se x))) = Some (the_ok (se x))" "de (the_ok (se x)) = Ok x"
          using X json_codesD(2,3)[OF s] by (simp_all add: codec_lawsD)
        then show ?thesis
          using status_answered[where sent = ?sent and n = n and R = R and X = X and de = de and failed = failed, OF _ rd_body calm]
            send[unfolded a] Response JsonBody True by (force simp: only_200_def)
      next
        case False
        with refused[OF a] Response JsonBody show ?thesis by simp
      qed
    qed (use Response ord refused in \<open>auto simp: orderly_def\<close>)
  next
    case (Dropped q)
    then show ?thesis using send by (simp add: ebind_def status_and_json_def)
  qed
qed

lemma calm_identity [simp]: "calm (de_identity W j)"
  by (simp add: de_identity_def)

lemma calm_parts [simp]: "calm (de_ListKeysResponseInner j)" "calm (de_AttestationEvidence W j)"
  by (simp_all add: de_ListKeysResponseInner_def de_AttestationEvidence_def)

lemma calm_list_answers [simp]:
  "calm (de_SignatureResponse j)" "calm (de_DepositResponse X j)" "calm (de_ListKeysResponse j)"
  "calm (de_KeyGenResponse W j)"
  by (simp_all add: de_SignatureResponse_def de_DepositResponse_def de_ListKeysResponse_def de_KeyGenResponse_def)

lemma cli_list_calls:
  assumes L: "codec_laws X" "axum_laws A"
    and net: "remote R (cli_base port) (serve X B E N H S W A l) rd wr" "li_app l = secure_signer_app"
  shows "list_eth_keys_handler (rd n) = (h, w) \<Longrightarrow>
      cli_list_eth_keys X R port n = (cli_result ''get_json failed'' ''list_eth_keys_route'' h, wr w n)"
    and "list_bls_keys_handler (rd n) = (h, w) \<Longrightarrow>
      cli_list_bls_keys X R port n = (cli_result ''get_json failed'' ''list_bls_keys_route'' h, wr w n)"
  using list_handlers_orderly(1)[of "rd n"] list_handlers_orderly(2)[of "rd n"]
  by (auto intro!: cli_call[OF L(1) net(1), where se = se_ListKeysResponse and good = wf_ListKeysResponse]
      simp: cli_list_eth_keys_def cli_list_bls_keys_def get_json_def cli_get_def send_get_def alive[OF L(2) net]
        serve_def net(2) secure_signer_routes[OF L(2)] run_endpoint_def path_char_def codes_ListKeysResponse)

lemma cli_keygen_calls:
  assumes L: "codec_laws X" "services_laws X N" "wire_laws W" "axum_laws A"
    and net: "remote R (cli_base port) (serve X B E N H S W A l) rd wr" "li_app l = secure_signer_app"
  shows "eth_keygen_handler X E N (rd n) = (h, w) \<Longrightarrow>
      cli_eth_keygen X W R port n = (cli_result ''Post request failed'' ''eth_keygen_route'' h, wr w n)"
    and "bls_laws X B \<Longrightarrow> bls_keygen_handler X B N (rd n) = (h, w) \<Longrightarrow>
      cli_bls_keygen X W R port n = (cli_result ''Post request failed'' ''bls_keygen_route'' h, wr w n)"
  using signer_keygen_orderly(1)[OF L(1,2), of E "rd n"] signer_keygen_orderly(2)[OF L(1,2), of B "rd n"]
  by (auto intro!: cli_call[OF L(1) net(1), where se = "se_KeyGenResponse W" and good = wf_KeyGenResponse]
      simp: cli_eth_keygen_def cli_bls_keygen_def post_def send_post_def alive[OF L(4) net]
        serve_def net(2) secure_signer_routes[OF L(4)] run_endpoint_def path_char_def codes_KeyGenResponse[OF L(3)])

lemma cli_sign_call:
  assumes L: "codec_laws X" "ssz_serde_laws S" "biguint_laws X" "axum_laws A"
    and net: "remote R (cli_base port) (serve X B E N H S W A l) rd wr" "li_app l = secure_signer_app"
    and name: "set name \<subseteq> lower_hex" "name \<noteq> []" and m: "wf_BLSSignMsg m"
    and h: "secure_sign_bls_handler X B name (li_state l) m (rd n) = (h, w)"
  shows "cli_bls_sign X R port (json_to_string X (the_ok (se_BLSSignMsg X S m))) name n =
    (cli_result ''Post request failed'' ''bls_sign_route'' h, wr w n)"
proof -
  note M = codes_BLSSignMsg[OF L(1-3) m]
  let ?text = "json_to_string X (the_ok (se_BLSSignMsg X S m))"
  have path: "list_all path_char (''/api/v1/eth2/sign/'' @ name)"
    using hex_path[OF name(1)] by (simp add: path_char_def)
  have run: "serve X B E N H S W A l POST (''/api/v1/eth2/sign/'' @ name) (Some ?text) (rd n) =
      answer X A se_SignatureResponse (h, w)"
    unfolding serve_def net(2) sign_routes(2)[OF L(4) hex_path[OF name(1)] name(2)]
    using h by (simp add: run_endpoint_def with_json_codes[OF L(1) M])
  have ord: "orderly wf_SignatureResponse h"
    using sign_handler_orderly[OF codec_lawsD(1)[OF L(1)], of B name "li_state l" m "rd n"] h by simp
  note call = cli_call[OF L(1) net(1) path run ord codes_SignatureResponse calm_list_answers(1)]
  show ?thesis
    using call by (simp add: cli_bls_sign_def post_def alive[OF L(4) net] name)
qed

lemma deposit_handler_orderly:
  assumes X: "codec_laws X"
  shows "orderly wf_DepositResponse (fst (validator_deposit_handler X B req w))"
proof -
  have hex: "is_utf8 (hex_encode X b)" for b using codec_lawsD(1)[OF X] by simp
  have "wf_DepositResponse r" if "get_deposit_signature X B k m fv v = (Ok r, v')" for k m fv v v' r
    using that hex by (auto simp: get_deposit_signature_def Let_def res_simps wf_DepositResponse_def)
  then show ?thesis
    unfolding validator_deposit_handler_def Let_def
    by (auto intro!: orderly_on_ok simp: status_defs)
qed

lemma cli_deposit_call:
  assumes L: "codec_laws X" "axum_laws A"
    and net: "remote R (cli_base port) (serve X B E N H S W A l) rd wr" "li_app l = secure_signer_app"
    and req: "wf_DepositRequest req"
    and h: "validator_deposit_handler X B req (rd n) = (h, w)"
  shows "cli_deposit X R port (json_to_string X (the_ok (se_DepositRequest X req))) n =
    (cli_result ''Post request failed'' ''deposit'' h, wr w n)"
proof -
  note M = codes_DepositRequest[OF L(1) req]
  let ?text = "json_to_string X (the_ok (se_DepositRequest X req))"
  have run: "serve X B E N H S W A l POST ''/api/v1/eth2/deposit'' (Some ?text) (rd n) =
      answer X A (se_DepositResponse X) (h, w)"
    unfolding serve_def net(2) secure_signer_routes[OF L(2)]
    using h by (simp add: run_endpoint_def with_json_codes[OF L(1) M])
  have ord: "orderly wf_DepositResponse h"
    using deposit_handler_orderly[OF L(1), of B req "rd n"] h by simp
  have path: "list_all path_char ''/api/v1/eth2/deposit''" by (simp add: path_char_def)
  note call = cli_call[OF L(1) net(1) path run ord codes_DepositResponse[OF L(1)] calm_list_answers(2)]
  show ?thesis
    using call by (simp add: cli_deposit_def post_def alive[OF L(2) net])
qed

section \<open>Calls that cannot succeed\<close>

text \<open>The key generation endpoints answer 201, which is not the status these calls ask for.\<close>

lemma keygen_refused:
  "\<exists>e. cli_result failed refused (fst (eth_keygen_handler X E N w)) = Err e"
  "\<exists>e. cli_result failed refused (fst (bls_keygen_handler X B N w)) = Err e"
  by (auto simp: eth_keygen_handler_def bls_keygen_handler_def on_ok_def status_defs split: prod.split res.split)

lemma ebind_fails:
  assumes "\<forall>x. fst (m w) \<noteq> Ok x"
  shows "\<forall>y. fst (ebind m f w) \<noteq> Ok y"
  using assms by (cases "m w"; cases "fst (m w)") (auto simp: ebind_def)

lemma ebind_fails_later:
  assumes "\<And>x w'. m w = (Ok x, w') \<Longrightarrow> (\<forall>y. fst (f x w') \<noteq> Ok y)"
  shows "\<forall>y. fst (ebind m f w) \<noteq> Ok y"
  using assms by (cases "m w"; cases "fst (m w)") (auto simp: ebind_def)

text \<open>The secure signer has no route for a key import.\<close>

lemma import_refused:
  assumes L: "codec_laws X" "axum_laws A"
    and net: "remote R (cli_base port) (serve X B E N H S W A l) rd wr" "li_app l = secure_signer_app"
  shows "(\<forall>x. fst (cli_bls_key_import X R de port json n) \<noteq> Ok x) \<and> snd (cli_bls_key_import X R de port json n) = n"
proof -
  let ?path = "''/eth/v1/keystores''"
  have path: "list_all path_char ?path" by (simp add: path_char_def)
  have "\<exists>resp. axum_route A secure_signer_app POST ?path = Unmatched resp \<and> wp_status resp = 405"
    by (rule axum_no_method[OF L(2) path, where pat = ?path]) (simp_all add: route_simps)
  then obtain resp where r: "axum_route A secure_signer_app POST ?path = Unmatched resp" "wp_status resp = 405"
    by blast
  then have "serve X B E N H S W A l POST ?path body w = (Some resp, w)" for body w
    by (simp add: serve_def net(2))
  moreover have "wr (rd n) n = n" using net(1) unfolding remote_def by blast
  ultimately have send: "rq_send R \<lparr>wq_method = POST, wq_url = cli_base port @ ?path, wq_body = Some json\<rparr> n = (Ok resp, n)"
    using net(1) path unfolding remote_def by force
  have body: "rq_text R resp v = (Ok (wp_body resp), v)" for v
    using net(1) unfolding remote_def by blast
  show ?thesis
    using r(2) by (auto simp: cli_bls_key_import_def alive[OF L(2) net] post_def status_and_json_def ebind_def
        resp_json_def send body in_context_def only_200_def split: res.split prod.split)
qed

lemma do_keygen_panics:
  assumes L: "codec_laws X" "services_laws X N" "wire_laws W" "axum_laws A" "bls_laws X B"
    and net: "remote R (cli_base (arg_port args)) (serve X B E N H S W A l) rd wr" "li_app l = secure_signer_app"
  shows "do_keygen X W R P args (v, n) =
    (Panic ''called Result::unwrap() on an Err value'', (v, wr (snd (bls_keygen_handler X B N (rd n))) n))"
proof -
  obtain e where "cli_result ''Post request failed'' ''bls_keygen_route'' (fst (bls_keygen_handler X B N (rd n))) = Err e"
    using keygen_refused(2) by blast
  then have "cli_bls_keygen X W R (arg_port args) n = (Err e, wr (snd (bls_keygen_handler X B N (rd n))) n)"
    using cli_keygen_calls(2)[OF L(1-4) net L(5) prod.collapse[symmetric]] by simp
  then show ?thesis
    by (simp add: do_keygen_def ebind_def expecting_def on_second_def)
qed

lemma import_from_files_fails:
  assumes L: "codec_laws X" "services_laws X N" "wire_laws W" "axum_laws A"
    and net: "remote R (cli_base port) (serve X B E N H S W A l) rd wr" "li_app l = secure_signer_app"
  shows "\<forall>x. fst (import_from_files X E' W R P port kf pf sf mr ra s) \<noteq> Ok x"
proof -
  have e: "\<forall>x. fst (on_second (cli_eth_keygen X W R port) v) \<noteq> Ok x" for v
  proof -
    obtain er where "cli_result ''Post request failed'' ''eth_keygen_route'' (fst (eth_keygen_handler X E N (rd (snd v)))) = Err er"
      using keygen_refused(1) by blast
    then have "fst (cli_eth_keygen X W R port (snd v)) = Err er"
      using cli_keygen_calls(1)[OF L net prod.collapse[symmetric], of "snd v"] by simp
    then show ?thesis by (auto simp: on_second_def split: prod.splits)
  qed
  show ?thesis
    unfolding import_from_files_def
    by (rule ebind_fails_later, rule ebind_fails_later, rule ebind_fails_later, rule ebind_fails, rule e)
qed

lemma do_import_fails:
  assumes L: "codec_laws X" "services_laws X N" "wire_laws W" "axum_laws A"
    and net: "remote R (cli_base (arg_port args)) (serve X B E N H S W A l) rd wr" "li_app l = secure_signer_app"
  shows "\<forall>u. fst (do_import X E' W R P args s) \<noteq> Ok u"
  unfolding do_import_def
proof (rule ebind_fails_later)
  fix x :: "path \<times> path \<times> path option \<times> string \<times> bool" and v
  obtain kf pf sf mr ra where x: "x = (kf, pf, sf, mr, ra)" by (cases x) auto
  show "\<forall>u. fst ((case x of (keystore_path, password_path, slashing_db_path, mrenclave, verify_ra_evidence) \<Rightarrow>
      ebind (import_from_files X E' W R P (arg_port args) keystore_path password_path slashing_db_path mrenclave
        verify_ra_evidence) (\<lambda>resp. on_first (write_to_file P args ''import_response'' (se_KeyImportResponse P resp)))) v) \<noteq> Ok u"
    unfolding x prod.case by (rule ebind_fails[OF import_from_files_fails[OF L net]])
qed

section \<open>Exits\<close>

lemma exit_signed:
  assumes L: "codec_laws X" "ssz_serde_laws S" "biguint_laws X" "axum_laws A" "hash_laws X" "bls_laws X B"
    and net: "remote R (cli_base port) (serve X B E N H S W A l) rd wr" "li_app l = secure_signer_app"
    and v: "in_service X B s d (rd n)" "wf_ForkInfo (nc_fork_info config)"
  shows "\<exists>w'. exit_validator X S R port (validator_name X B s) ep vi config n =
      (Ok \<lparr>sve_message = \<lparr>ve_epoch = ep, ve_validator_index = vi\<rparr>,
         sve_signature = sig_to_bytes B (sk_sign B (sks_secret_key B s)
           (root_voluntary_exit X \<lparr>ver_fork_info = nc_fork_info config, ver_signingRoot = None,
              ver_voluntary_exit = \<lparr>ve_epoch = ep, ve_validator_index = vi\<rparr>\<rparr>))\<rparr>, wr w' n) \<and>
    in_service X B s d w'"
proof -
  let ?vem = "\<lparr>ver_fork_info = nc_fork_info config, ver_signingRoot = None,
     ver_voluntary_exit = \<lparr>ve_epoch = ep, ve_validator_index = vi\<rparr>\<rparr>"
  let ?m = "VOLUNTARY_EXIT ?vem"
  have m: "wf_BLSSignMsg ?m"
    using v(2) by (simp add: wf_VoluntaryExitRequest_def wf_root_option_def wf_VoluntaryExit_def)
  have name: "set (validator_name X B s) \<subseteq> lower_hex" "validator_name X B s \<noteq> []"
    using codec_lawsD(1)[OF L(1)] validator_name_facts(4)[OF codec_lawsD(1)[OF L(1)] L(6), of s]
    hex_encode_lower[OF codec_lawsD(1)[OF L(1)]] by (auto simp: validator_name_def)
  obtain w' where w': "sign_validator_message X B (validator_name X B s) (li_state l) ?m (rd n) =
      (Response HTTP_OK (JsonBody (SignatureResponse_new X (sig_to_bytes B (sk_sign B (sks_secret_key B s)
         (root_voluntary_exit X ?vem))))), w')" "in_service X B s d w'"
    using sign_accepts[OF L(1,5,6) v(1), of ?m d "li_state l"] by auto
  note call = cli_sign_call[OF L(1-4) net name m, of n, unfolded secure_sign_bls_handler_def, OF w'(1)]
  have ok: "se_BLSSignMsg X S ?m = Ok (the_ok (se_BLSSignMsg X S ?m))"
    using json_codesD(1)[OF codes_BLSSignMsg[OF L(1-3) m]] by (cases "se_BLSSignMsg X S ?m") simp_all
  have sig: "SignatureResponse_to_ssz_bytes X (SignatureResponse_new X (sig_to_bytes B g)) = Ok (sig_to_bytes B g)" for g
    using codec_lawsD(1,5)[OF L(1)] L(6) by (simp add: SignatureResponse_to_ssz_bytes_def SignatureResponse_new_def)
  show ?thesis
    unfolding exit_validator_def Let_def
    by (subst ok) (use call w'(2) in \<open>auto simp: ebind_def sig status_defs\<close>)
qed

section \<open>Deposits\<close>

definition eth1_credentials :: "bytes \<Rightarrow> Bytes32" where
  "eth1_credentials addr = [1] @ replicate 11 0 @ addr"

lemma credentials_text:
  assumes "hex_text_law X" "strip_0x_prefix a = hex_encode X addr" "length addr = 20" "hex_laws X"
  shows "eth_addr_to_credentials a = Ok (''0x'' @ hex_encode X (eth1_credentials addr))"
proof -
  have fixed: "concat (map hex_byte ([1] @ replicate 11 0)) = ''010000000000000000000000''" by code_simp
  have law: "hex_encode X b = concat (map hex_byte b)" for b using assms(1) by (simp add: hex_text_law_def)
  have "hex_encode X (eth1_credentials addr) = concat (map hex_byte ([1] @ replicate 11 0)) @ hex_encode X addr"
    unfolding law eth1_credentials_def map_append concat_append append_assoc by (rule refl)
  then have "hex_encode X (eth1_credentials addr) = ''010000000000000000000000'' @ hex_encode X addr"
    unfolding fixed .
  moreover have "length (hex_encode X addr) = 40" using assms(3,4) by simp
  ultimately show ?thesis
    using assms(2) by (simp add: eth_addr_to_credentials_def assert_eq_def Let_def)
qed

lemma deposit_signed:
  assumes L: "codec_laws X" "axum_laws A" "bls_laws X B" "hex_text_law X"
    and net: "remote R (cli_base port) (serve X B E N H S W A l) rd wr" "li_app l = secure_signer_app"
    and v: "in_service X B s d (rd n)" and pk: "strip_0x_prefix name = validator_name X B s"
    and a: "strip_0x_prefix addr = hex_encode X ab" "length ab = 20" and fv: "length fv = 4"
  shows "\<exists>resp g. cli_get_deposit_signature X R port name addr fv n = (Ok resp, n) \<and>
    dres_signature resp = hex_encode X (sig_to_bytes B g) \<and> dres_amount resp = 32000000000 \<and>
    pk_verify B (pks_public_key B (sks_public_keys B s)) g
      (root_deposit X \<lparr>dr_signingRoot = None,
         dr_deposit = \<lparr>dm_pubkey = pk_to_bytes B (pks_public_key B (sks_public_keys B s)),
           dm_withdrawal_credentials = eth1_credentials ab, dm_amount = 32000000000\<rparr>,
         dr_genesis_fork_version = fv\<rparr>)"
proof -
  let ?pk = "pk_to_bytes B (pks_public_key B (sks_public_keys B s))"
  let ?req = "\<lparr>dr_signingRoot = None, dr_deposit = \<lparr>dm_pubkey = ?pk,
      dm_withdrawal_credentials = eth1_credentials ab, dm_amount = 32000000000\<rparr>, dr_genesis_fork_version = fv\<rparr>"
  note C = codec_lawsD[OF L(1)]
  have len: "length ?pk = 48" "length (eth1_credentials ab) = 32"
    using bls_simps(7)[OF L(3)] a(2) by (simp_all add: eth1_credentials_def)
  have req: "build_deposit_request X name (''0x'' @ hex_encode X (eth1_credentials ab)) fv = Ok ?req"
    using C pk len by (simp add: build_deposit_request_def validator_name_def assert_eq_def BLS_PUB_KEY_BYTES_def
        DEPOSIT_AMOUNT_def Let_def L(3) strip_lower_hex)
  have wf: "wf_DepositRequest ?req"
    using len fv by (simp add: wf_DepositRequest_def wf_DepositMessage_def wf_root_option_def)
  obtain resp where h: "validator_deposit_handler X B ?req (rd n) = (Response HTTP_OK (JsonBody resp), rd n)"
    and g: "dres_signature resp = hex_encode X (sig_to_bytes B (sk_sign B (sks_secret_key B s) (root_deposit X ?req)))"
      "dres_amount resp = 32000000000"
    using deposit_in_service[OF L(1,3) v, of ?req] by auto
  have wr: "wr (rd n) n = n" using net(1) unfolding remote_def by blast
  note call = cli_deposit_call[OF L(1,2) net wf h, unfolded wr]
  have ok: "se_DepositRequest X ?req = Ok (the_ok (se_DepositRequest X ?req))"
    using json_codesD(1)[OF codes_DepositRequest[OF L(1) wf]] by (cases "se_DepositRequest X ?req") simp_all
  have run: "cli_get_deposit_signature X R port name addr fv n = (Ok resp, n)"
    unfolding cli_get_deposit_signature_def credentials_text[OF L(4) a C(1)] ebind_pure req
    by (subst ok) (simp add: ebind_def call status_defs)
  show ?thesis using run g bls_simps(8)[OF L(3)] by blast
qed

section \<open>Files of the command line interface\<close>

lemma append_quiet:
  assumes "quiet w"
  shows "fst (append_file p s w) = [] \<and> quiet (snd (append_file p s w)) \<and>
    (lookup w p = Some old \<longrightarrow> lookup (snd (append_file p s w)) = (lookup w)(p \<mapsto> old @ s))"
  using assms by (auto simp: append_file_def next_fault_quiet Let_def fun_eq_iff)

lemma write_to_file_quiet:
  assumes "quiet w" "writable w (path_push (out_dir args) fname)"
  shows "\<exists>w'. write_to_file P args fname (Ok j) w = (Ok (), w') \<and> quiet w' \<and>
    lookup w' = (lookup w)(path_push (out_dir args) fname \<mapsto> json_pretty P j)"
proof -
  let ?p = "path_push (out_dir args) fname" and ?s = "json_pretty P j" and ?k = "json_flushed P j"
  let ?w0 = "put ?p [] w"
  have c: "file_create ?p w = (Ok (), ?w0)" using assms by (simp add: file_create_def next_fault_quiet)
  obtain w1 where w1: "append_file ?p (take ?k ?s) ?w0 = ([], w1)" "quiet w1"
    "lookup w1 = (lookup w)(?p \<mapsto> take ?k ?s)"
    using append_quiet[of ?w0 ?p "take ?k ?s" "[]"] assms(1) by (cases "append_file ?p (take ?k ?s) ?w0") auto
  obtain w2 where w2: "append_file ?p (drop ?k ?s) w1 = ([], w2)" "quiet w2"
    "lookup w2 = (lookup w)(?p \<mapsto> ?s)"
    using append_quiet[of w1 ?p "drop ?k ?s" "take ?k ?s"] w1 by (cases "append_file ?p (drop ?k ?s) w1") auto
  have "write_to_file P args fname (Ok j) w = (Ok (), w2)"
    by (simp add: write_to_file_def Let_def c in_context_def buffered_write_def w1(1) w2(1))
  with w2(2,3) show ?thesis by blast
qed

text \<open>
  The last write of a file happens when its writer is dropped, and nobody sees it fail: a
  result can be reported as written while the file is empty.
\<close>

lemma lost_write_is_reported_as_success:
  assumes "writable w (path_push (out_dir args) fname)" "faults w = [NoFault, Unavailable]"
    and "json_flushed P j = 0" "json_pretty P j \<noteq> []"
  shows "\<exists>w'. write_to_file P args fname (Ok j) w = (Ok (), w') \<and>
    lookup w' (path_push (out_dir args) fname) = Some []"
proof -
  let ?p = "path_push (out_dir args) fname"
  have f: "next_fault w = (NoFault, w\<lparr>faults := [Unavailable]\<rparr>)" by (simp add: next_fault_def assms(2))
  then have "writable (w\<lparr>faults := [Unavailable]\<rparr>) ?p" using assms(1) by (simp add: next_fault_frame(7))
  with f have c: "file_create ?p w = (Ok (), put ?p [] (w\<lparr>faults := [Unavailable]\<rparr>))"
    by (simp add: file_create_def)
  then show ?thesis
    using assms(3,4)
    by (simp add: write_to_file_def Let_def in_context_def buffered_write_def append_file_def next_fault_def
        lookup_def put_def update_conv)
qed

section \<open>Exits from the command line\<close>

lemma config_typed:
  assumes "codec_laws X" "de_NetworkConfig X j = Ok c"
  shows "wf_ForkInfo (nc_fork_info c)"
  using assms by (auto simp: de_NetworkConfig_def rbind_eq_Ok dest: typed)

lemma config_read:
  assumes "quiet w" "lookup w (path_of (arg_config args)) = Some t" "is_utf8 t" "json_from_slice X t = Some j"
    "de_NetworkConfig X j = Ok c"
  shows "args_config X args w = (Ok c, w)"
  using assms
  by (simp add: args_config_def NetworkConfig_new_def read_to_string_def expecting_def ebind_def fs_read_quiet)

definition exit_arguments :: "Args \<Rightarrow> string \<Rightarrow> u64 \<Rightarrow> u64 \<Rightarrow> bool" where
  "exit_arguments args name ep vi \<longleftrightarrow>
     arg_withdraw args \<and> \<not> arg_bls_keygen args \<and> \<not> arg_import args \<and> \<not> arg_deposit args \<and> \<not> arg_list args \<and>
     arg_validator_pk_hex args = Some name \<and> arg_epoch args = Some ep \<and> arg_validator_index args = Some vi"

lemma main_exit:
  assumes L: "codec_laws X" "ssz_serde_laws S" "biguint_laws X" "axum_laws A" "hash_laws X" "bls_laws X B"
    and net: "remote R (cli_base (arg_port args)) (serve X B E N H S W A l) rd wr" "li_app l = secure_signer_app"
    and args: "exit_arguments args (validator_name X B s) ep vi"
    and s: "in_service X B s d (rd n)"
    and host: "quiet v" "free_dir v (out_dir args)" "lookup v (path_of (arg_config args)) = Some t" "is_utf8 t"
      "json_from_slice X t = Some j" "de_NetworkConfig X j = Ok c"
  shows "\<exists>v' w' ex. cli_main X E' S W' R P args (v, n) = (Ok (), (v', wr w' n)) \<and> in_service X B s d w' \<and>
    lookup v' = (lookup v)(out_dir args @ [''voluntary_exit_message.json''] \<mapsto> json_pretty P (the_ok (se_SignedVoluntaryExit X ex))) \<and>
    ex = \<lparr>sve_message = \<lparr>ve_epoch = ep, ve_validator_index = vi\<rparr>,
         sve_signature = sig_to_bytes B (sk_sign B (sks_secret_key B s)
           (root_voluntary_exit X \<lparr>ver_fork_info = nc_fork_info c, ver_signingRoot = None,
              ver_voluntary_exit = \<lparr>ve_epoch = ep, ve_validator_index = vi\<rparr>\<rparr>))\<rparr>"
proof -
  let ?f = "''voluntary_exit_message.json''"
  have plain: "plain ?f" by (simp add: plain_def)
  have dir: "out_dir args \<noteq> []" using host(2) by (simp add: free_dir_def)
  then have path: "path_push (out_dir args) ?f = out_dir args @ [?f]" using plain by simp
  obtain v1 where v1: "create_dir_all (out_dir args) v = (Ok (), v1)" "quiet v1" "lookup v1 = lookup v"
    "\<forall>n. writable v1 (out_dir args @ [n])"
    using create_dir_quiet[OF host(1,2)] by blast
  have config: "args_config X args v1 = (Ok c, v1)"
    by (rule config_read[OF v1(2) _ host(4-6)]) (simp add: v1(3) host(3))
  have fi: "wf_ForkInfo (nc_fork_info c)" by (rule config_typed[OF L(1) host(6)])
  let ?ex = "\<lparr>sve_message = \<lparr>ve_epoch = ep, ve_validator_index = vi\<rparr>,
         sve_signature = sig_to_bytes B (sk_sign B (sks_secret_key B s)
           (root_voluntary_exit X \<lparr>ver_fork_info = nc_fork_info c, ver_signingRoot = None,
              ver_voluntary_exit = \<lparr>ve_epoch = ep, ve_validator_index = vi\<rparr>\<rparr>))\<rparr>"
  obtain w' where w': "exit_validator X S R (arg_port args) (validator_name X B s) ep vi c n = (Ok ?ex, wr w' n)"
    "in_service X B s d w'"
    using exit_signed[OF L net s fi] by blast
  obtain v2 where v2: "write_to_file P args ?f (Ok (the_ok (se_SignedVoluntaryExit X ?ex))) v1 = (Ok (), v2)"
    "lookup v2 = (lookup v)(out_dir args @ [?f] \<mapsto> json_pretty P (the_ok (se_SignedVoluntaryExit X ?ex)))"
    using write_to_file_quiet[of v1 args ?f P] v1 path by metis
  have ser: "se_SignedVoluntaryExit X ?ex = Ok (the_ok (se_SignedVoluntaryExit X ?ex))"
    by (simp add: se_SignedVoluntaryExit_def se_VoluntaryExit_def to_hex_from_ssz_type_def se_quoted_u64_def
        se_struct_def se_field_def)
  have "do_withdrawal X S R P args (v1, n) = (Ok (), (v2, wr w' n))"
    using args config w'(1) v2(1) ser
    by (simp add: do_withdrawal_def exit_arguments_def get_withdraw_args_def expect_arg_def ebind_def)
  then have "cli_main X E' S W' R P args (v, n) = (Ok (), (v2, wr w' n))"
    using args v1(1) alive[OF L(4) net]
    by (simp add: cli_main_def exit_arguments_def init_out_dir_def expecting_def ebind_def when_asked_def)
  with v2(2) w'(2) show ?thesis by blast
qed

end
