(* ===== verification/Demo_Cli.thy ===== *)
theory Demo_Cli
  imports Cli_Laws Properties_Network
begin

text \<open>
  A host with a configuration file, and a network that connects the command line interface on
  it to a secure signer.
\<close>

definition demo_cli_net ::
  "(http_method \<Rightarrow> string \<Rightarrow> string option \<Rightarrow> world \<Rightarrow> wire_response option \<times> world) \<Rightarrow> world reqwest" where
  "demo_cli_net srv = \<lparr>
     rq_send = (\<lambda>q w. (case srv (wq_method q) (drop 21 (wq_url q)) (wq_body q) w of (r, w) \<Rightarrow> (demo_delivery r, w))),
     rq_text = (\<lambda>resp. ret (wp_body resp))\<rparr>"

lemma demo_cli_base: "cli_base 9001 = ''http://localhost:9001''"
  by (simp add: cli_base_def decimal_text.simps char_of_def bit_0)

lemma demo_cli_net_remote: "remote (demo_cli_net srv) (cli_base 9001) srv (\<lambda>w. w) (\<lambda>w n. w)"
  by (auto simp: remote_def demo_cli_net_def demo_cli_base demo_delivery_def split: prod.splits option.splits)

lemma demo_hex_text: "hex_text_law demo_codec"
proof -
  have "demo_hex_encode b = concat (map hex_byte b)" for b
    by (induction b) (simp_all add: hex_byte_def hex_digit_def)
  then show ?thesis by (simp add: hex_text_law_def demo_codec_def)
qed

text \<open>The arguments of an exit of validator 7 in epoch 9, and of a key generation.\<close>

definition demo_args :: Args where
  "demo_args = \<lparr>arg_port = 9001, arg_outdir = ''./ss_out'', arg_bls_keygen = False, arg_list = False,
     arg_import = False, arg_keystore_path = None, arg_password_path = None, arg_slash_protection_path = None,
     arg_deposit = False, arg_debug = False, arg_validator_pk_hex = Some demo_name, arg_execution_addr = None,
     arg_mrenclave = None, arg_config = ''./conf/network_config.json'', arg_withdraw = True, arg_epoch = Some 9,
     arg_validator_index = Some 7\<rparr>"

definition demo_config :: NetworkConfig where
  "demo_config = \<lparr>nc_network_name = ''ephemery'', nc_deposit_cli_version = ''2.3.0'', nc_fork_info = demo_fork\<rparr>"

definition demo_config_json :: json where
  "demo_config_json = JObj [(''network_name'', JStr ''ephemery''), (''deposit_cli_version'', JStr ''2.3.0''),
     (''fork_info'', the_ok (se_ForkInfo demo_codec demo_fork))]"

definition demo_config_text :: string where
  "demo_config_text = json_to_string demo_codec demo_config_json"

definition demo_host :: world where
  "demo_host = empty_world\<lparr>files := [(path_of ''./conf/network_config.json'', demo_config_text)]\<rparr>"

definition demo_cli_api :: "(u8, unit) cli_api" where
  "demo_cli_api = \<lparr>validate_bls_ra = (\<lambda>r m. Ok ()), validate_eth_ra = (\<lambda>r m. Ok 4),
     se_KeyImportRequest = (\<lambda>r. Ok JNull), de_KeyImportResponse = (\<lambda>j. Ok ()), se_KeyImportResponse = (\<lambda>x. Ok JNull),
     json_pretty = json_to_string demo_codec, json_flushed = (\<lambda>j. 0)\<rparr>"

lemma demo_config_read: "json_from_slice demo_codec demo_config_text = Some demo_config_json"
  "de_NetworkConfig demo_codec demo_config_json = Ok demo_config" "is_utf8 demo_config_text"
proof -
  have f: "wf_ForkInfo demo_fork" by (simp add: demo_fork_def wf_ForkInfo_def wf_Fork_def)
  note F = codes_ForkInfo[OF demo_codec_laws f, THEN json_codesD(1)] codes_ForkInfo[OF demo_codec_laws f, THEN json_codesD(2)]
    codes_ForkInfo[OF demo_codec_laws f, THEN json_codesD(3)]
  show "json_from_slice demo_codec demo_config_text = Some demo_config_json"
    unfolding demo_config_text_def
    by (rule json_roundtrip) (use codec_lawsD(2)[OF demo_codec_laws] F in \<open>simp_all add: demo_config_json_def is_utf8_def\<close>)
  show "de_NetworkConfig demo_codec demo_config_json = Ok demo_config"
    using F by (simp add: de_NetworkConfig_def demo_config_json_def demo_config_def serde_defs)
  show "is_utf8 demo_config_text"
    unfolding is_utf8_def
    using demo_hex_lower[of "replicate 32 7"]
    by (intro utf8_ascii)
      (auto simp: lower_hex_def demo_config_text_def demo_config_json_def demo_codec_def se_ForkInfo_def se_Fork_def demo_fork_def
        se_struct_def se_field_def se_serhex_def se_quoted_u64_def enc_str_def hex_digit_def)
qed

end
