(* ===== verification/Properties_Cli.thy ===== *)
theory Properties_Cli
  imports Demo_Cli
begin

text \<open>
  Properties of the command line interface over a network, with a secure signer on the other
  side: what works end to end, and what cannot.
\<close>

text \<open>
  C14: an exit from the command line. With a readable configuration, a directory to write to,
  and a secure signer that has the validator in service, the program run with
  \<open>--withdraw\<close> ends normally; the file it leaves holds the exit of that validator in that
  epoch, with a signature that verifies under the validator's key for the chain of the
  configuration; and the validator is still in service.
\<close>

theorem command_line_exit_is_signed:
  assumes L: "codec_laws X" "ssz_serde_laws S" "biguint_laws X" "axum_laws A" "hash_laws X" "bls_laws X B"
    and net: "remote R (cli_base (arg_port args)) (serve X B E N H S W A l) rd wr" "secure_signer_main X argv sw = Ok l"
    and args: "exit_arguments args (validator_name X B s) ep vi"
    and s: "in_service X B s d (rd n)"
    and host: "quiet v" "free_dir v (out_dir args)" "lookup v (path_of (arg_config args)) = Some t" "is_utf8 t"
      "json_from_slice X t = Some j" "de_NetworkConfig X j = Ok c"
  shows "\<exists>v' w' ex g. cli_main X E' S W' R P args (v, n) = (Ok (), (v', wr w' n)) \<and> in_service X B s d w' \<and>
    lookup v' (out_dir args @ [''voluntary_exit_message.json'']) = Some (json_pretty P (the_ok (se_SignedVoluntaryExit X ex))) \<and>
    sve_message ex = \<lparr>ve_epoch = ep, ve_validator_index = vi\<rparr> \<and> sve_signature ex = sig_to_bytes B g \<and>
    pk_verify B (pks_public_key B (sks_public_keys B s)) g
      (root_voluntary_exit X \<lparr>ver_fork_info = nc_fork_info c, ver_signingRoot = None,
         ver_voluntary_exit = \<lparr>ve_epoch = ep, ve_validator_index = vi\<rparr>\<rparr>)"
proof -
  have app: "li_app l = secure_signer_app"
    using net(2) by (auto simp: secure_signer_main_def res_simps)
  show ?thesis
    using main_exit[OF L net(1) app args s host, where E' = E' and W' = W' and P = P] bls_simps(8)[OF L(6)]
    by fastforce
qed

lemma demo_signer_starts:
  "secure_signer_main demo_codec [''s''] empty_world = Ok ((demo_listener secure_signer_app)\<lparr>li_port := 9001\<rparr>)"
  using default_servers[of empty_world "''s''" demo_codec]
  by (simp_all add: empty_world_def demo_codec_def digit_val_def demo_listener_def)

theorem command_line_exit_is_signed_witness:
  "\<exists>v' w' ex. cli_main demo_codec demo_secp demo_ssz_serde demo_wire
      (demo_cli_net (serve demo_codec demo_blsttc demo_secp demo_services demo_ethers demo_ssz_serde demo_wire demo_axum
         ((demo_listener secure_signer_app)\<lparr>li_port := 9001\<rparr>)))
      demo_cli_api demo_args (demo_host, demo_signer) = (Ok (), (v', w')) \<and>
    lookup v' [''.'', ''ss_out'', ''voluntary_exit_message.json''] =
      Some (json_to_string demo_codec (the_ok (se_SignedVoluntaryExit demo_codec ex))) \<and>
    sve_message ex = \<lparr>ve_epoch = 9, ve_validator_index = 7\<rparr>"
proof -
  have args: "exit_arguments demo_args (validator_name demo_codec demo_blsttc (0, 0)) 9 7" "arg_port demo_args = 9001"
    by (simp_all add: exit_arguments_def demo_args_def demo_name_def)
  have dir: "out_dir demo_args = [''.'', ''ss_out'']"
    by (simp add: demo_args_def out_dir_def path_of_def is_absolute_def normal_comps_def)
  have conf: "path_of (arg_config demo_args) = [''.'', ''conf'', ''network_config.json'']"
    by (simp add: demo_args_def path_of_def is_absolute_def normal_comps_def)
  have host: "quiet demo_host" "free_dir demo_host (out_dir demo_args)"
    "lookup demo_host (path_of (arg_config demo_args)) = Some demo_config_text"
    using conf by (simp_all add: demo_host_def dir)
      (simp_all add: demo_args_def empty_world_def quiet_def free_dir_def lookup_def is_dir_def prefixes_of_def upt_rec)
  show ?thesis
    using command_line_exit_is_signed[OF demo_codec_laws demo_ssz_serde_laws demo_biguint_laws demo_axum_laws
        demo_hash_laws demo_bls_laws demo_cli_net_remote[folded args(2)] demo_signer_starts args(1) demo_signer_ready
        host demo_config_read(3,1,2), where E' = demo_secp and W' = demo_wire and P = demo_cli_api]
    by (force simp: dir demo_cli_api_def)
qed

text \<open>
  C35: a deposit from the command line. For a validator in service and an address of twenty
  bytes, both with or without the \<open>0x\<close> prefix, the deposit comes back with a signature that
  verifies under the validator's key: 32 ETH, with the credentials of an execution address,
  for the fork version handed in. That version is the current one of the configuration, where
  deposits are only valid for the genesis version of the chain.
\<close>

theorem command_line_deposit_is_signed:
  assumes L: "codec_laws X" "axum_laws A" "bls_laws X B" "hex_text_law X"
    and net: "remote R (cli_base port) (serve X B E N H S W A l) rd wr" "secure_signer_main X argv sw = Ok l"
    and v: "in_service X B s d (rd n)" and pk: "strip_0x_prefix name = validator_name X B s"
    and a: "strip_0x_prefix addr = hex_encode X ab" "length ab = 20" and fv: "length fv = 4"
  shows "\<exists>resp g. cli_get_deposit_signature X R port name addr fv n = (Ok resp, n) \<and>
    dres_signature resp = hex_encode X (sig_to_bytes B g) \<and> dres_amount resp = 32000000000 \<and>
    pk_verify B (pks_public_key B (sks_public_keys B s)) g
      (root_deposit X \<lparr>dr_signingRoot = None,
         dr_deposit = \<lparr>dm_pubkey = pk_to_bytes B (pks_public_key B (sks_public_keys B s)),
           dm_withdrawal_credentials = eth1_credentials ab, dm_amount = 32000000000\<rparr>,
         dr_genesis_fork_version = fv\<rparr>)"
proof -
  have "li_app l = secure_signer_app" using net(2) by (auto simp: secure_signer_main_def res_simps)
  from deposit_signed[OF L net(1) this v pk a fv] show ?thesis .
qed

theorem command_line_deposit_is_signed_witness:
  "\<exists>resp. cli_get_deposit_signature demo_codec
      (demo_cli_net (serve demo_codec demo_blsttc demo_secp demo_services demo_ethers demo_ssz_serde demo_wire demo_axum
         ((demo_listener secure_signer_app)\<lparr>li_port := 9001\<rparr>))) 9001
      (''0x'' @ demo_name) (''0x'' @ hex_encode demo_codec (replicate 20 5)) [0, 0, 0, 2] demo_signer = (Ok resp, demo_signer) \<and>
    dres_amount resp = 32000000000"
proof -
  have a: "strip_0x_prefix (''0x'' @ demo_name) = validator_name demo_codec demo_blsttc (0, 0)"
    "strip_0x_prefix (''0x'' @ hex_encode demo_codec (replicate 20 5)) = hex_encode demo_codec (replicate 20 (5::u8))"
    "length (replicate 20 (5::u8)) = 20" "length [0, 0, 0, 2 :: u8] = 4"
    by (simp_all only: strip_0x_prefix_add demo_name_def) simp_all
  from command_line_deposit_is_signed[OF demo_codec_laws demo_axum_laws demo_bls_laws demo_hex_text demo_cli_net_remote
      demo_signer_starts demo_signer_ready a] show ?thesis by blast
qed

text \<open>
  C34: keys never reach the command line. The secure signer answers a key generation with 201
  and has no route for an import, while the program asks for 200 and posts to that route. So
  with \<open>--bls-keygen\<close> it panics, though the key it asked for is made and stays on the server;
  and no import ends well, whatever the files, the attestation checks and the faults: it has
  already failed where it asks for the key to seal the password with.
\<close>

theorem command_line_gets_no_keys:
  assumes L: "codec_laws X" "services_laws X N" "wire_laws W" "axum_laws A" "bls_laws X B"
    and net: "remote R (cli_base (arg_port args)) (serve X B E N H S W A l) rd wr" "secure_signer_main X argv sw = Ok l"
  shows "(\<exists>m. do_keygen X W R P args (v, n) = (Panic m, (v, wr (snd (bls_keygen_handler X B N (rd n))) n))) \<and>
    (\<forall>u. fst (do_import X E' W R P args (v, n)) \<noteq> Ok u) \<and>
    (\<forall>x json. fst (cli_bls_key_import X R (de_KeyImportResponse P) (arg_port args) json n) \<noteq> Ok x \<and>
       snd (cli_bls_key_import X R (de_KeyImportResponse P) (arg_port args) json n) = n)"
proof -
  have app: "li_app l = secure_signer_app" using net(2) by (auto simp: secure_signer_main_def res_simps)
  show ?thesis
  proof (intro conjI, goal_cases)
    case 1
    show ?case by (rule exI, rule do_keygen_panics[OF L net(1) app])
  next
    case 2
    show ?case by (rule do_import_fails[OF L(1-4) net(1) app])
  next
    case 3
    show ?case
      using import_refused[OF L(1,4) net(1) app, of "de_KeyImportResponse P" _ n] by (intro allI conjI) blast+
  qed
qed

theorem command_line_gets_no_keys_witness:
  "\<exists>m w. do_keygen demo_codec demo_wire
      (demo_cli_net (serve demo_codec demo_blsttc demo_secp demo_services demo_ethers demo_ssz_serde demo_wire demo_axum
         ((demo_listener secure_signer_app)\<lparr>li_port := 9001\<rparr>)))
      demo_cli_api demo_args (demo_host, empty_world) = (Panic m, (demo_host, w)) \<and>
    in_service demo_codec demo_blsttc (0, 0) demo_empty_db w"
proof -
  have port: "arg_port demo_args = 9001" by (simp add: demo_args_def)
  show ?thesis
    using command_line_gets_no_keys[OF demo_codec_laws demo_services_laws demo_wire_laws demo_axum_laws demo_bls_laws
        demo_cli_net_remote[folded port] demo_signer_starts, where n = empty_world and v = demo_host and P = demo_cli_api]
      demo_signer_ready unfolding demo_signer_def by blast
qed

end
