(* ===== verification/Schedules.thy ===== *)
theory Schedules
  imports Concurrency
begin

text \<open>
  Any number of signing requests at once. A schedule gives the order in which the threads take
  their turns; between two turns anything else may happen to the files. A thread finishes
  after four turns of its own, whatever the others do; and requests for different validators
  do not disturb one another.
\<close>

section \<open>A pool of threads\<close>

type_synonym thread = "string \<times> BLSSignMsg \<times> phase"

datatype turn = Turn nat | Elsewhere world

fun take_turn ::
  "codec \<Rightarrow> ('ps, 'pk, 'psh, 'ss, 'sk, 'ssh, 'sg, 'sgh) blsttc \<Rightarrow> AppState \<Rightarrow> turn \<Rightarrow>
   thread list \<times> world \<Rightarrow> thread list \<times> world" where
  "take_turn X B st (Turn i) (ts, w) =
     (if i < length ts
      then case ts ! i of (h, m, p) \<Rightarrow> case thread_step X B h st m p w of (p', w') \<Rightarrow> (ts[i := (h, m, p')], w')
      else (ts, w))"
| "take_turn X B st (Elsewhere w') (ts, w) = (ts, w')"

definition run_turns ::
  "codec \<Rightarrow> ('ps, 'pk, 'psh, 'ss, 'sk, 'ssh, 'sg, 'sgh) blsttc \<Rightarrow> AppState \<Rightarrow> turn list \<Rightarrow>
   thread list \<times> world \<Rightarrow> thread list \<times> world" where
  "run_turns X B st = fold (take_turn X B st)"

text \<open>A thread as a request starts it: the checks of the request itself touch no file.\<close>

definition start_thread :: "string \<Rightarrow> BLSSignMsg \<Rightarrow> thread" where
  "start_thread pk m = (strip_0x_prefix pk, m, start_phase pk m)"

definition thread_answer :: "thread \<Rightarrow> SignatureResponse response option" where
  "thread_answer t = (case t of (_, _, Finished r) \<Rightarrow> Some r | _ \<Rightarrow> None)"

lemma run_turns_simps [simp]:
  "run_turns X B st [] s = s"
  "run_turns X B st (t # ts) s = run_turns X B st ts (take_turn X B st t s)"
  by (simp_all add: run_turns_def)

section \<open>Threads finish\<close>

text \<open>How many turns a thread still has before it.\<close>

fun turns_left :: "phase \<Rightarrow> nat" where
  "turns_left Check = 4"
| "turns_left Load = 3"
| "turns_left (Store _) = 2"
| "turns_left Sign = 1"
| "turns_left (Finished _) = 0"

lemma turns_left_0: "turns_left p = 0 \<longleftrightarrow> (\<exists>r. p = Finished r)"
  by (cases p) auto

lemma next_phase_left: "(\<And>x. turns_left (k x) \<le> n) \<Longrightarrow> turns_left (next_phase k r) \<le> n"
  by (cases r) (auto simp: next_phase_def)

lemma step_left: "turns_left (fst (thread_step X B h st m p w)) \<le> turns_left p - 1"
  by (cases p) (auto intro!: next_phase_left next_phase_left[of _ 0, simplified] split: prod.split option.split)

lemma turn_left:
  assumes "i < length ts"
  shows "turns_left (snd (snd (fst (take_turn X B st e (ts, w)) ! i))) \<le>
      turns_left (snd (snd (ts ! i))) - (if e = Turn i then 1 else 0) \<and>
    length (fst (take_turn X B st e (ts, w))) = length ts"
proof (cases e)
  case (Turn k)
  obtain h m p where t: "ts ! k = (h, m, p)" by (cases "ts ! k") auto
  with Turn assms step_left[of X B h st m p w] show ?thesis
    by (cases "k = i") (auto split: prod.split)
qed simp

lemma run_left:
  "i < length ts \<Longrightarrow> turns_left (snd (snd (fst (run_turns X B st es (ts, w)) ! i))) \<le>
      turns_left (snd (snd (ts ! i))) - count_list es (Turn i) \<and>
    length (fst (run_turns X B st es (ts, w))) = length ts"
proof (induction es arbitrary: ts w)
  case (Cons e es)
  obtain ts' w' where s: "take_turn X B st e (ts, w) = (ts', w')" by fastforce
  from turn_left[OF Cons.prems, of X B st e w] s have t: "length ts' = length ts"
    "turns_left (snd (snd (ts' ! i))) \<le> turns_left (snd (snd (ts ! i))) - (if e = Turn i then 1 else 0)"
    by auto
  with Cons.IH[of ts' w'] Cons.prems s show ?case by (auto split: if_splits)
qed simp

lemma threads_finish:
  assumes "i < length ts" "4 \<le> count_list es (Turn i)"
  shows "\<exists>r. thread_answer (fst (run_turns X B st es (ts, w)) ! i) = Some r"
proof -
  have "turns_left p \<le> 4" for p by (cases p) simp_all
  with run_left[OF assms(1), of X B st es w] assms(2)
  have "turns_left (snd (snd (fst (run_turns X B st es (ts, w)) ! i))) = 0"
    by (metis diff_is_0_eq le_trans le_zero_eq)
  then show ?thesis by (auto simp: thread_answer_def turns_left_0 split: prod.split)
qed

lemma run_turns_append: "run_turns X B st (es @ es') s = run_turns X B st es' (run_turns X B st es s)"
  by (simp add: run_turns_def)

text \<open>An answer is final.\<close>

lemma answer_kept:
  assumes "thread_answer (ts ! i) = Some r"
  shows "thread_answer (fst (take_turn X B st e (ts, w)) ! i) = Some r"
proof (cases e)
  case (Turn k)
  obtain h m p where k: "ts ! k = (h, m, p)" by (cases "ts ! k") auto
  show ?thesis
  proof (cases "k = i")
    case True
    with assms k have "p = Finished r" by (cases p) (auto simp: thread_answer_def)
    with Turn k True assms show ?thesis by (cases "k < length ts") (auto simp: thread_answer_def)
  qed (use Turn k assms in \<open>auto split: prod.split\<close>)
qed (use assms in simp)

lemma answer_stays:
  "thread_answer (fst s ! i) = Some r \<Longrightarrow> thread_answer (fst (run_turns X B st es s) ! i) = Some r"
proof (induction es arbitrary: s)
  case (Cons e es)
  from answer_kept[of "fst s" i r X B st e "snd s"] Cons show ?case by simp
qed simp

section \<open>Different validators\<close>

text \<open>What a validator in service with the record \<open>d\<close> is answered, served alone.\<close>

definition due_answer ::
  "codec \<Rightarrow> ('ps, 'pk, 'psh, 'ss, 'sk, 'ssh, 'sg, 'sgh) blsttc \<Rightarrow> AppState \<Rightarrow> 'ss \<Rightarrow> SlashingProtectionData \<Rightarrow>
   BLSSignMsg \<Rightarrow> SignatureResponse response" where
  "due_answer X B st s d m =
     (if is_upper_deposit m then Response BAD_REQUEST (Message ''Signing deposit message not allowed'')
      else case signed_entry X m of
        None \<Rightarrow> signed_reply X B s st m
      | Some e \<Rightarrow> if entry_slashable d e
          then Response PRECONDITION_FAILED (Message ''Signing operation failed due to slashing protection rules'')
          else signed_reply X B s st m)"

lemma due_answer_alone:
  assumes L: "codec_laws X" "hash_laws X" "bls_laws X B" and S: "in_service X B s d w"
  shows "fst (sign_validator_message X B (validator_name X B s) st m w) = due_answer X B st s d m"
proof (cases "is_upper_deposit m")
  case True
  then show ?thesis by (simp add: due_answer_def sign_validator_message_def)
next
  case False
  show ?thesis
  proof (cases "signed_entry X m")
    case None
    then show ?thesis
      using sign_accepts[OF L S False, of d st] False by (force simp: due_answer_def signed_reply_def)
  next
    case (Some e)
    obtain r d' where o: "offer_entry e d = (r, d')" by fastforce
    show ?thesis
    proof (cases "entry_slashable d e")
      case True
      then show ?thesis using sign_refuses[OF L(1,3) S Some True] False Some by (simp add: due_answer_def)
    next
      case False
      then have "offer_entry e d = (Ok (), d')" using entry_gate.offer_iff[of e d] o by simp
      then show ?thesis
        using sign_accepts[OF L S \<open>\<not> is_upper_deposit m\<close>, of d' st] Some False \<open>\<not> is_upper_deposit m\<close>
        by (force simp: due_answer_def signed_reply_def)
    qed
  qed
qed

text \<open>Where a thread stands that has met only its own record.\<close>

fun on_course ::
  "codec \<Rightarrow> ('ps, 'pk, 'psh, 'ss, 'sk, 'ssh, 'sg, 'sgh) blsttc \<Rightarrow> AppState \<Rightarrow> 'ss \<Rightarrow> SlashingProtectionData \<Rightarrow>
   BLSSignMsg \<Rightarrow> phase \<Rightarrow> world \<Rightarrow> bool" where
  "on_course X B st s d m Check w \<longleftrightarrow> in_service X B s d w \<and> \<not> is_upper_deposit m"
| "on_course X B st s d m Load w \<longleftrightarrow> in_service X B s d w \<and> \<not> is_upper_deposit m \<and>
     (\<exists>e. signed_entry X m = Some e \<and> \<not> entry_slashable d e)"
| "on_course X B st s d m (Store d') w \<longleftrightarrow> in_service X B s d w \<and> \<not> is_upper_deposit m \<and>
     (\<exists>e. signed_entry X m = Some e \<and> offer_entry e d = (Ok (), d'))"
| "on_course X B st s d m Sign w \<longleftrightarrow> (\<exists>d'. in_service X B s d' w) \<and> due_answer X B st s d m = signed_reply X B s st m"
| "on_course X B st s d m (Finished r) w \<longleftrightarrow> (\<exists>d'. in_service X B s d' w) \<and> r = due_answer X B st s d m"

text \<open>The world that a write for one validator leaves is as good for any other.\<close>

lemma in_service_other:
  assumes X: "codec_laws X" and S: "in_service X B s d w" and o: "in_service X B s' d0 w"
    and d': "wf_spd d'" "pubkey d' = pubkey d0" and w': "spd_write X d' w = (r, w')"
    and ne: "validator_name X B s \<noteq> validator_name X B s'"
  shows "in_service X B s d w'"
proof -
  have "hex_encode X (pubkey d') = validator_name X B s'" using o d'(2) by (simp add: in_service_def)
  moreover obtain w2 where "spd_write X d' w = (Ok (), w2)" "quiet w2" "free_dir w2 slash_dir"
    "lookup w2 = (lookup w)(slash_dir @ [hex_encode X (pubkey d')] \<mapsto> spd_text X d')"
    using spd_write_quiet[OF X d'(1), of w] S by (auto simp: in_service_def)
  ultimately show ?thesis
    using S ne w' by (auto simp: in_service_def slash_dir_def bls_dir_def)
qed

lemma step_on_course:
  assumes L: "codec_laws X" "hash_laws X" "bls_laws X B" and p: "on_course X B st s d m p w"
    and t: "thread_step X B (validator_name X B s) st m p w = (p', w')"
  shows "on_course X B st s d m p' w' \<and>
    (\<forall>s' d'. in_service X B s' d' w \<longrightarrow> validator_name X B s' \<noteq> validator_name X B s \<longrightarrow> in_service X B s' d' w')"
proof (cases p)
  case Check
  with p have S: "in_service X B s d w" and m: "\<not> is_upper_deposit m" by simp_all
  have read: "is_slashable X (validator_name X B s) m w =
      (Ok (case signed_entry X m of Some e \<Rightarrow> entry_slashable d e | None \<Rightarrow> False), w)"
    using in_service_read[OF L(1,3) S] by (auto simp: is_slashable_entry split: option.split)
  show ?thesis
    using t Check read S m can_be_slashed_entry[of m X]
    by (auto simp: next_phase_def due_answer_def split: option.splits if_splits)
next
  case Load
  with p obtain e where S: "in_service X B s d w" "\<not> is_upper_deposit m" and e: "signed_entry X m = Some e" "\<not> entry_slashable d e"
    by auto
  obtain d' where "offer_entry e d = (Ok (), d')"
    using entry_gate.offer_iff[of e d] e(2) by (cases "offer_entry e d") auto
  then show ?thesis
    using t Load in_service_read[OF L(1,3) S(1)] S e by (auto simp: next_phase_def)
next
  case (Store d1)
  with p obtain e where S: "in_service X B s d w" "\<not> is_upper_deposit m" and e: "signed_entry X m = Some e" "offer_entry e d = (Ok (), d1)"
    by auto
  have wf: "wf_spd d1" "pubkey d1 = pubkey d"
    using S wf_offer[OF _ e(2) entry_root_ok[OF L(2) e(1)]] offer_entry_pubkey[OF e(2)] by (simp_all add: in_service_def)
  obtain w2 where w2: "spd_write X d1 w = (Ok (), w2)" "in_service X B s d1 w2"
    using in_service_write[OF L(1) S(1) wf] by blast
  have "due_answer X B st s d m = signed_reply X B s st m"
    using S(2) e entry_gate.offer_iff[of e d] by (simp add: due_answer_def)
  moreover have "in_service X B s' d' w2" if "in_service X B s' d' w" "validator_name X B s' \<noteq> validator_name X B s" for s' d'
    by (rule in_service_other[OF L(1) that(1) S(1) wf w2(1) that(2)])
  ultimately show ?thesis using t Store w2 by (auto simp: next_phase_def)
next
  case Sign
  with p obtain d' where S: "in_service X B s d' w" "due_answer X B st s d m = signed_reply X B s st m" by auto
  then show ?thesis
    using t Sign in_service_sign[OF L(1,3) S(1)] by (auto simp: next_phase_def signed_reply_def)
next
  case (Finished r)
  with p t show ?thesis by auto
qed

lemma others_on_course:
  assumes "on_course X B st s d m p w" "\<And>d'. in_service X B s d' w \<Longrightarrow> in_service X B s d' w'"
  shows "on_course X B st s d m p w'"
  using assms by (cases p) auto

definition pool_on_course ::
  "codec \<Rightarrow> ('ps, 'pk, 'psh, 'ss, 'sk, 'ssh, 'sg, 'sgh) blsttc \<Rightarrow> AppState \<Rightarrow> (nat \<Rightarrow> 'ss) \<Rightarrow>
   (nat \<Rightarrow> SlashingProtectionData) \<Rightarrow> (nat \<Rightarrow> BLSSignMsg) \<Rightarrow> nat \<Rightarrow> thread list \<times> world \<Rightarrow> bool" where
  "pool_on_course X B st s d m n = (\<lambda>(ts, w). length ts = n \<and>
     (\<forall>i < n. \<exists>p. ts ! i = (validator_name X B (s i), m i, p) \<and> on_course X B st (s i) (d i) (m i) p w))"

lemma turn_on_course:
  assumes L: "codec_laws X" "hash_laws X" "bls_laws X B"
    and ne: "inj_on (\<lambda>i. validator_name X B (s i)) {..<n}" and c: "pool_on_course X B st s d m n (ts, w)"
  shows "pool_on_course X B st s d m n (take_turn X B st (Turn k) (ts, w))"
proof (cases "k < n")
  case False
  with c show ?thesis by (simp add: pool_on_course_def)
next
  case True
  with c obtain p where k: "ts ! k = (validator_name X B (s k), m k, p)" "on_course X B st (s k) (d k) (m k) p w" "length ts = n"
    by (auto simp: pool_on_course_def)
  obtain p' w' where t: "thread_step X B (validator_name X B (s k)) st (m k) p w = (p', w')" by fastforce
  note S = step_on_course[OF L k(2) t]
  have "\<exists>q. ts[k := (validator_name X B (s k), m k, p')] ! i = (validator_name X B (s i), m i, q) \<and>
      on_course X B st (s i) (d i) (m i) q w'" if i: "i < n" for i
  proof (cases "i = k")
    case True
    with S k(3) i show ?thesis by auto
  next
    case False
    from c i obtain q where q: "ts ! i = (validator_name X B (s i), m i, q)" "on_course X B st (s i) (d i) (m i) q w"
      by (auto simp: pool_on_course_def)
    have "validator_name X B (s i) \<noteq> validator_name X B (s k)"
      using ne i True False by (auto simp: inj_on_def)
    then have "on_course X B st (s i) (d i) (m i) q w'" using others_on_course[OF q(2)] S by blast
    with q(1) False show ?thesis by auto
  qed
  then show ?thesis using True k t by (auto simp: pool_on_course_def)
qed

lemma run_on_course:
  assumes L: "codec_laws X" "hash_laws X" "bls_laws X B" and ne: "inj_on (\<lambda>i. validator_name X B (s i)) {..<n}"
  shows "pool_on_course X B st s d m n c \<Longrightarrow> pool_on_course X B st s d m n (run_turns X B st (map Turn ks) c)"
proof (induction ks arbitrary: c)
  case (Cons k ks)
  with turn_on_course[OF L ne, of st d m "fst c" "snd c" k] show ?case by simp
qed simp

lemma start_on_course:
  assumes L: "codec_laws X" "bls_laws X B" and S: "\<And>i. i < n \<Longrightarrow> in_service X B (s i) (d i) w"
  shows "pool_on_course X B st s d m n (map (\<lambda>i. start_thread (validator_name X B (s i)) (m i)) [0..<n], w)"
proof -
  note V = validator_name_facts[OF codec_lawsD(1)[OF L(1)] L(2)]
  have "sanitize_bls_pk_hex (validator_name X B (s i)) = Ok (validator_name X B (s i))" for i
    using V[of "s i"] by (simp add: sanitize_Ok)
  with S V show ?thesis
    by (auto simp: pool_on_course_def start_thread_def due_answer_def)
qed

lemma different_validators_undisturbed:
  assumes L: "codec_laws X" "hash_laws X" "bls_laws X B" and ne: "inj_on (\<lambda>i. validator_name X B (s i)) {..<n}"
    and S: "\<And>i. i < n \<Longrightarrow> in_service X B (s i) (d i) w" and i: "i < n" "4 \<le> count_list ks i"
  shows "thread_answer (fst (run_turns X B st (map Turn ks)
      (map (\<lambda>i. start_thread (validator_name X B (s i)) (m i)) [0..<n], w)) ! i) =
    Some (fst (sign_validator_message X B (validator_name X B (s i)) st (m i) w))"
proof -
  let ?ts = "map (\<lambda>i. start_thread (validator_name X B (s i)) (m i)) [0..<n]"
  let ?r = "run_turns X B st (map Turn ks) (?ts, w)"
  have "count_list (map Turn ks) (Turn i) = count_list ks i" by (induction ks) auto
  then obtain r where r: "thread_answer (fst ?r ! i) = Some r"
    using threads_finish[of i ?ts "map Turn ks" X B st w] i by auto
  have "pool_on_course X B st s d m n ?r"
    by (rule run_on_course[OF L ne start_on_course[OF L(1,3) S]])
  then obtain p where "fst ?r ! i = (validator_name X B (s i), m i, p)" "on_course X B st (s i) (d i) (m i) p (snd ?r)"
    using i(1) by (cases ?r) (auto simp: pool_on_course_def)
  with r have "r = due_answer X B st (s i) (d i) (m i)"
    by (cases p) (auto simp: thread_answer_def)
  with r due_answer_alone[OF L S[OF i(1)]] show ?thesis by simp
qed

end
