(* ===== verification/Properties_Threads.thy ===== *)
theory Properties_Threads
  imports Schedules Properties_Signer
begin

text \<open>Properties of signing requests served at the same time.\<close>



text \<open>
  C21: requests for different validators do not disturb one another. When validators of
  different names are in service, and a request for each is served at the same time, every
  request is answered as the handler would have answered it alone, in every interleaving of
  their file operations that gives it its four turns.
\<close>

theorem different_validators_do_not_interfere:
  assumes "codec_laws X" "hash_laws X" "bls_laws X B" "inj_on (\<lambda>i. validator_name X B (s i)) {..<n}"
    and "\<And>i. i < n \<Longrightarrow> in_service X B (s i) (d i) w" and "i < n" "4 \<le> count_list ks i"
  shows "thread_answer (fst (run_turns X B st (map Turn ks)
      (map (\<lambda>i. start_thread (validator_name X B (s i)) (m i)) [0..<n], w)) ! i) =
    Some (fst (sign_validator_message X B (validator_name X B (s i)) st (m i) w))"
  by (rule different_validators_undisturbed[OF assms])

definition demo_key_of :: "nat \<Rightarrow> nat \<times> u8" where
  "demo_key_of i = (0, of_nat i)"

definition demo_db_of :: "nat \<Rightarrow> SlashingProtectionData" where
  "demo_db_of i = spd_new (pad 48 [of_nat i])"

text \<open>The signer with a second validator.\<close>

definition demo_two_signer :: world where
  "demo_two_signer =
     put (slash_dir @ [validator_name demo_codec demo_blsttc (demo_key_of 1)]) (spd_text demo_codec (demo_db_of 1))
       (put (bls_dir @ [validator_name demo_codec demo_blsttc (demo_key_of 1)])
          (hex_encode demo_codec (sks_to_bytes demo_blsttc (demo_key_of 1))) demo_signer)"

lemma demo_two_ready:
  "i < 2 \<Longrightarrow> in_service demo_codec demo_blsttc (demo_key_of i) (demo_db_of i) demo_two_signer"
  "inj_on (\<lambda>i. validator_name demo_codec demo_blsttc (demo_key_of i)) {..<2}"
proof -
  have name: "validator_name demo_codec demo_blsttc (demo_key_of i) = hex_encode demo_codec (pad 48 [of_nat i])" for i
    by (simp add: validator_name_def demo_key_of_def) (simp add: demo_blsttc_def)
  have ne: "validator_name demo_codec demo_blsttc (demo_key_of 0) \<noteq> validator_name demo_codec demo_blsttc (demo_key_of 1)"
    using demo_hex_laws by (simp add: name pad_def)
  then show "inj_on (\<lambda>i. validator_name demo_codec demo_blsttc (demo_key_of i)) {..<2}"
    by (auto simp: inj_on_def less_2_cases_iff)
  have wf: "wf_spd (demo_db_of 1)"
    by (auto simp: wf_spd_def demo_db_of_def spd_new_def pad_def)
  have zero: "demo_key_of 0 = (0, 0)" "demo_db_of 0 = demo_empty_db"
    by (simp_all add: demo_key_of_def demo_db_of_def demo_empty_db_def)
  have free: "free_dir (put (d @ [x]) t w) slash_dir \<longleftrightarrow> free_dir w slash_dir" if "d \<in> {slash_dir, bls_dir}" for d x t w
    using that by (auto simp: free_dir_def slash_dir_def bls_dir_def prefixes_of_def)
  have other: "in_service demo_codec demo_blsttc s d (put (D @ [x]) t w)"
    if "in_service demo_codec demo_blsttc s d w" "D \<in> {slash_dir, bls_dir}" "x \<noteq> validator_name demo_codec demo_blsttc s"
    for s d D x t w
    using that by (auto simp: in_service_def free)
  note R = demo_signer_ready
  show "in_service demo_codec demo_blsttc (demo_key_of i) (demo_db_of i) demo_two_signer" if "i < 2"
  proof (cases "i = 0")
    case True
    have "in_service demo_codec demo_blsttc (demo_key_of 0) (demo_db_of 0) demo_signer"
      using R by (simp add: zero)
    then show ?thesis
      unfolding True demo_two_signer_def by (intro other) (use ne in auto)
  next
    case False
    with that have i: "i = 1" by simp
    have p: "spd_parse demo_codec (spd_text demo_codec (demo_db_of 1)) = Ok (demo_db_of 1)"
      by (rule spd_parse_text[OF demo_codec_laws wf])
    have pk: "hex_encode demo_codec (pubkey (demo_db_of 1)) = validator_name demo_codec demo_blsttc (demo_key_of 1)"
      by (simp add: name demo_db_of_def spd_new_def)
    show ?thesis
      using R wf p pk unfolding i demo_two_signer_def in_service_def
      by (auto simp: free) (auto simp: slash_dir_def bls_dir_def)
  qed
qed

theorem different_validators_do_not_interfere_witness:
  "thread_answer (fst (run_turns demo_codec demo_blsttc demo_state (map Turn [0, 1, 1, 0, 0, 1, 0, 1])
      (map (\<lambda>i. start_thread (validator_name demo_codec demo_blsttc (demo_key_of i)) (demo_proposal 5)) [0..<2],
       demo_two_signer)) ! 1) =
    Some (fst (sign_validator_message demo_codec demo_blsttc (validator_name demo_codec demo_blsttc (demo_key_of 1))
      demo_state (demo_proposal 5) demo_two_signer))"
  by (rule different_validators_do_not_interfere[OF demo_codec_laws demo_hash_laws demo_bls_laws demo_two_ready(2,1)])
    simp_all

end
