(* ===== verification/Properties_Types.thy ===== *)
theory Properties_Types
  imports Typed Properties_Signer Demo_Net
begin

text \<open>What the server holds in memory has the lengths that Rust's types give it.\<close>


lemma demo_ssz_bits: "ssz_bits_laws demo_ssz_serde"
  by (auto simp: ssz_bits_laws_def demo_ssz_serde_def split: if_splits)


end
