(* ===== verification/Unit_Tests.thy ===== *)
theory Unit_Tests
  imports Signer_Progress
begin

text \<open>
  The unit tests of src/eth2/slash\_protection.rs, as operations of the model: each runs as its
  source does, and a failed assertion is a panic. The model passes them, on every disk that
  has room for the database, and that ties its definitions to what their authors expect.
\<close>

section \<open>Assertions\<close>

text \<open>\<open>assert!\<close> and \<open>assert_eq!\<close>; an assertion on a variable; one that an operation fails.\<close>

definition assert_that :: "bool \<Rightarrow> ('w, unit) eff" where
  "assert_that b = lift (if b then Ok () else Panic ''assertion failed'')"

definition assert_now :: "('w \<Rightarrow> bool) \<Rightarrow> ('w, unit) eff" where
  "assert_now P w = assert_that (P w) w"

definition assert_err :: "('w, 'a) eff \<Rightarrow> ('w, unit) eff" where
  "assert_err m w = (case m w of
       (Err e, w') \<Rightarrow> (Ok (), w')
     | (Ok x, w') \<Rightarrow> (Panic ''assertion failed'', w')
     | (Panic p, w') \<Rightarrow> (Panic p, w'))"

text \<open>The statements of a test, one after another; and a variable local to it.\<close>

definition steps :: "('w, unit) eff list \<Rightarrow> ('w, unit) eff" where
  "steps ms = foldr (\<lambda>m k. ebind m (\<lambda>_. k)) ms (ret ())"

definition with_local :: "'v \<Rightarrow> ('v \<times> 'w, 'a) eff \<Rightarrow> ('w, 'a) eff" where
  "with_local v m w = (case m (v, w) of (r, (_, w')) \<Rightarrow> (r, w'))"

text \<open>An element by its index; in Rust it panics past the end, where this has no value.\<close>

definition elem_at :: "'a list \<Rightarrow> nat \<Rightarrow> 'a option" where
  "elem_at xs i = (if i < length xs then Some (xs ! i) else None)"

definition passes :: "('w, unit) eff \<Rightarrow> 'w \<Rightarrow> bool" where
  "passes t w \<longleftrightarrow> fst (t w) = Ok ()"

text \<open>\<open>#[should_panic]\<close>.\<close>

definition passes_by_panic :: "('w, 'a) eff \<Rightarrow> 'w \<Rightarrow> bool" where
  "passes_by_panic t w \<longleftrightarrow> (\<exists>p. fst (t w) = Panic p)"

lemma steps_simps [simp]:
  "steps [] w = (Ok (), w)"
  "steps (m # ms) w = ebind m (\<lambda>_. steps ms) w"
  by (simp_all add: steps_def)

lemma steps_append: "steps (ms @ ns) = ebind (steps ms) (\<lambda>_. steps ns)"
  by (induction ms) (auto simp: fun_eq_iff ebind_def split: prod.split res.split)

section \<open>Reading a database\<close>

definition default_pubkey :: BLSPubkey where
  "default_pubkey = replicate 48 0"

text \<open>The value of the JSON text of the tests; the quoted numbers are as \<open>quoted_u64\<close> writes them.\<close>

definition dummy_slash_protection_data :: "codec \<Rightarrow> json" where
  "dummy_slash_protection_data X =
     JObj [
       (''metadata'', JObj [
         (''interchange_format_version'', JStr ''5''),
         (''genesis_validators_root'', JStr ''0x04700007fabc8282644aed6d1c7c9e21d38a03a0c4ba193f3afe428824b3a673'')]),
       (''data'', JArr [JObj [
         (''pubkey'', JStr ''0x8349434ad0700e79be65c0c7043945df426bd6d7e288c16671df69d822344f1b0ce8de80360a50550ad782b68035cb18''),
         (''signed_blocks'', JArr [
           JObj [
             (''slot'', quoted_u64_ser X 81952),
             (''signing_root'', JStr ''0x4ff6f743a43f3b4f95350831aeaf0a122a1a392922c45d804280284a69eb850b'')],
           JObj [(''slot'', quoted_u64_ser X 81951)]]),
         (''signed_attestations'', JArr [
           JObj [
             (''source_epoch'', quoted_u64_ser X 2290),
             (''target_epoch'', quoted_u64_ser X 3007),
             (''signing_root'', JStr ''0x587d6a4f59a58fe24f406e0502413e77fe1babddee641fda30034ed37ecc884d'')],
           JObj [
             (''source_epoch'', quoted_u64_ser X 2290),
             (''target_epoch'', quoted_u64_ser X 3008)]])]])]"

definition test_deserialize :: "codec \<Rightarrow> string \<Rightarrow> ('w, unit) eff" where
  "test_deserialize X raw =
     ebind (lift (db_from_str X raw)) (\<lambda>db.
     let d = elem_at (data db) 0;
         block = (\<lambda>i. Option.bind d (\<lambda>d. elem_at (signed_blocks d) i));
         att = (\<lambda>i. Option.bind d (\<lambda>d. elem_at (signed_attestations d) i));
         root_text = map_option (hex_encode X)
     in steps [
       assert_that (interchange_format_version (metadata db) = ''5''),
       assert_that (hex_encode X (genesis_validators_root (metadata db)) =
         ''04700007fabc8282644aed6d1c7c9e21d38a03a0c4ba193f3afe428824b3a673''),
       assert_that (map_option (\<lambda>d. hex_encode X (fv_ssz_bytes X (pubkey d))) d = Some
         ''8349434ad0700e79be65c0c7043945df426bd6d7e288c16671df69d822344f1b0ce8de80360a50550ad782b68035cb18''),
       assert_that (map_option slot (block 0) = Some 81952),
       assert_that (map_option (root_text \<circ> sbs_signing_root) (block 0) = Some (Some
         ''4ff6f743a43f3b4f95350831aeaf0a122a1a392922c45d804280284a69eb850b'')),
       assert_that (map_option slot (block 1) = Some 81951),
       assert_that (map_option sbs_signing_root (block 1) = Some None),
       assert_that (map_option source_epoch (att 0) = Some 2290),
       assert_that (map_option target_epoch (att 0) = Some 3007),
       assert_that (map_option (root_text \<circ> sae_signing_root) (att 0) = Some (Some
         ''587d6a4f59a58fe24f406e0502413e77fe1babddee641fda30034ed37ecc884d'')),
       assert_that (map_option source_epoch (att 1) = Some 2290),
       assert_that (map_option target_epoch (att 1) = Some 3008),
       assert_that (map_option sae_signing_root (att 1) = Some None)])"

definition test_new_db :: "codec \<Rightarrow> ('w, unit) eff" where
  "test_new_db X =
     (let db = db_new
      in steps [
        assert_that (interchange_format_version (metadata db) = ''5''),
        assert_that (hex_encode X (genesis_validators_root (metadata db)) =
          ''0000000000000000000000000000000000000000000000000000000000000000''),
        assert_that (title db = None),
        assert_that (description db = None),
        assert_that (length (data db) = 0)])"

text \<open>The bytes that the texts stand for.\<close>

definition gvr_bytes :: bytes where
  "gvr_bytes =
     [4, 112, 0, 7, 250, 188, 130, 130, 100, 74, 237, 109, 28, 124, 158, 33, 211, 138, 3, 160, 196,
      186, 25, 63, 58, 254, 66, 136, 36, 179, 166, 115]"

definition pk_bytes :: bytes where
  "pk_bytes =
     [131, 73, 67, 74, 208, 112, 14, 121, 190, 101, 192, 199, 4, 57, 69, 223, 66, 107, 214, 215,
      226, 136, 193, 102, 113, 223, 105, 216, 34, 52, 79, 27, 12, 232, 222, 128, 54, 10, 80, 85,
      10, 215, 130, 182, 128, 53, 203, 24]"

definition root1_bytes :: bytes where
  "root1_bytes =
     [79, 246, 247, 67, 164, 63, 59, 79, 149, 53, 8, 49, 174, 175, 10, 18, 42, 26, 57, 41, 34, 196,
      93, 128, 66, 128, 40, 74, 105, 235, 133, 11]"

definition root2_bytes :: bytes where
  "root2_bytes =
     [88, 125, 106, 79, 89, 165, 143, 226, 79, 64, 110, 5, 2, 65, 62, 119, 254, 27, 171, 221, 238,
      100, 31, 218, 48, 3, 78, 211, 126, 204, 136, 77]"

lemma hex_texts:
  assumes "hex_text_law X"
  shows "hex_encode X gvr_bytes =
      ''04700007fabc8282644aed6d1c7c9e21d38a03a0c4ba193f3afe428824b3a673''"
    "hex_encode X pk_bytes =
      ''8349434ad0700e79be65c0c7043945df426bd6d7e288c16671df69d822344f1b0ce8de80360a50550ad782b68035cb18''"
    "hex_encode X root1_bytes =
      ''4ff6f743a43f3b4f95350831aeaf0a122a1a392922c45d804280284a69eb850b''"
    "hex_encode X root2_bytes =
      ''587d6a4f59a58fe24f406e0502413e77fe1babddee641fda30034ed37ecc884d''"
    "hex_encode X (replicate 32 0) =
      ''0000000000000000000000000000000000000000000000000000000000000000''"
  unfolding assms[unfolded hex_text_law_def, rule_format] by code_simp+

lemma test_bytes_length: "length gvr_bytes = 32" "length pk_bytes = 48" "length root1_bytes = 32" "length root2_bytes = 32"
  by (simp_all add: gvr_bytes_def pk_bytes_def root1_bytes_def root2_bytes_def)

lemma struct_object [simp]: "struct_fields names (JObj kvs) = mapM (object_field kvs) names"
  by (simp add: struct_fields_def)

lemma read_hex:
  assumes "codec_laws X" "length b = n"
  shows "serhex_from_hex X n (CHR ''0'' # CHR ''x'' # hex_encode X b) = Some b"
    "de_serhex X n (JStr (CHR ''0'' # CHR ''x'' # hex_encode X b)) = Ok b"
    "from_hex_to_ssz_type X (fv_from X n) (JStr (CHR ''0'' # CHR ''x'' # hex_encode X b)) = Ok b"
proof -
  note L = codec_lawsD[OF assms(1)]
  show s: "serhex_from_hex X n (CHR ''0'' # CHR ''x'' # hex_encode X b) = Some b"
    using L(4) assms(2) unfolding serhex_laws_def by (metis append_Cons append_Nil)
  show "de_serhex X n (JStr (CHR ''0'' # CHR ''x'' # hex_encode X b)) = Ok b"
    using s by (simp add: de_serhex_def de_str_def)
  have "fv_from X n b = b" using L(5) assms(2) unfolding ssz_laws_def by metis
  then show "from_hex_to_ssz_type X (fv_from X n) (JStr (CHR ''0'' # CHR ''x'' # hex_encode X b)) = Ok b"
    using L(1) by (simp add: from_hex_to_ssz_type_def de_str_def)
qed

lemma read_quoted: "codec_laws X \<Longrightarrow> de_quoted_u64 X (quoted_u64_ser X n) = Ok n"
  unfolding codec_laws_def quoted_laws_def de_quoted_u64_def by (metis ok_or_simps(1))

lemma read_block:
  assumes "codec_laws X"
  shows "length b = 32 \<Longrightarrow> de_block X (JObj [(''slot'', quoted_u64_ser X n), (''signing_root'', JStr (CHR ''0'' # CHR ''x'' # hex_encode X b))]) =
      Ok \<lparr>slot = n, sbs_signing_root = Some b\<rparr>"
    "de_block X (JObj [(''slot'', quoted_u64_ser X n)]) = Ok \<lparr>slot = n, sbs_signing_root = None\<rparr>"
  using assms
  by (simp_all add: de_block_def object_field_def field_values_def required_def default_field_def de_str_def
      de_signing_root_def read_quoted read_hex)

lemma read_attestation:
  assumes "codec_laws X"
  shows "length b = 32 \<Longrightarrow> de_attestation X (JObj [(''source_epoch'', quoted_u64_ser X m), (''target_epoch'', quoted_u64_ser X n),
      (''signing_root'', JStr (CHR ''0'' # CHR ''x'' # hex_encode X b))]) =
      Ok \<lparr>source_epoch = m, target_epoch = n, sae_signing_root = Some b\<rparr>"
    "de_attestation X (JObj [(''source_epoch'', quoted_u64_ser X m), (''target_epoch'', quoted_u64_ser X n)]) =
      Ok \<lparr>source_epoch = m, target_epoch = n, sae_signing_root = None\<rparr>"
  using assms
  by (simp_all add: de_attestation_def object_field_def field_values_def required_def default_field_def de_str_def
      de_signing_root_def read_quoted read_hex)

lemma dummy_texts:
  assumes "hex_text_law X"
  shows "dummy_slash_protection_data X =
     JObj [
       (''metadata'', JObj [
         (''interchange_format_version'', JStr ''5''),
         (''genesis_validators_root'', JStr (CHR ''0'' # CHR ''x'' # hex_encode X gvr_bytes))]),
       (''data'', JArr [JObj [
         (''pubkey'', JStr (CHR ''0'' # CHR ''x'' # hex_encode X pk_bytes)),
         (''signed_blocks'', JArr [
           JObj [(''slot'', quoted_u64_ser X 81952),
             (''signing_root'', JStr (CHR ''0'' # CHR ''x'' # hex_encode X root1_bytes))],
           JObj [(''slot'', quoted_u64_ser X 81951)]]),
         (''signed_attestations'', JArr [
           JObj [(''source_epoch'', quoted_u64_ser X 2290), (''target_epoch'', quoted_u64_ser X 3007),
             (''signing_root'', JStr (CHR ''0'' # CHR ''x'' # hex_encode X root2_bytes))],
           JObj [(''source_epoch'', quoted_u64_ser X 2290), (''target_epoch'', quoted_u64_ser X 3008)]])]])]"
  by (simp only: dummy_slash_protection_data_def hex_texts[OF assms])

lemma dummy_database:
  assumes X: "codec_laws X" "hex_text_law X"
  shows "de_db X (dummy_slash_protection_data X) = Ok
    \<lparr>metadata = \<lparr>interchange_format_version = ''5'', genesis_validators_root = gvr_bytes\<rparr>,
     title = None, description = None,
     data = [\<lparr>pubkey = pk_bytes,
       signed_blocks = [\<lparr>slot = 81952, sbs_signing_root = Some root1_bytes\<rparr>, \<lparr>slot = 81951, sbs_signing_root = None\<rparr>],
       signed_attestations =
         [\<lparr>source_epoch = 2290, target_epoch = 3007, sae_signing_root = Some root2_bytes\<rparr>,
          \<lparr>source_epoch = 2290, target_epoch = 3008, sae_signing_root = None\<rparr>]\<rparr>]\<rparr>"
  unfolding dummy_texts[OF X(2)]
  by (simp add: de_db_def de_metadata_def de_data_def object_field_def field_values_def required_def default_field_def
      de_vec_def de_str_def read_block[OF X(1)] read_attestation[OF X(1)] read_hex[OF X(1)] test_bytes_length)

lemma test_deserialize_passes:
  assumes "codec_laws X" "hex_text_law X" "json_from_slice X raw = Some (dummy_slash_protection_data X)"
  shows "passes (test_deserialize X raw) w"
  by (simp add: passes_def test_deserialize_def db_from_str_def assms(3) dummy_database[OF assms(1,2)] Let_def
      elem_at_def assert_that_def hex_texts[OF assms(2)] ebind_def ssz_simps(3)[OF codec_lawsD(5)[OF assms(1)]])

lemma test_new_db_passes: "hex_text_law X \<Longrightarrow> passes (test_new_db X) w"
  by (simp add: passes_def test_new_db_def db_new_def Let_def assert_that_def ebind_def hex_texts(5))

section \<open>Recording blocks\<close>

text \<open>The part of the test that works on the database in memory.\<close>

definition recorded_blocks :: "nat \<Rightarrow> Slot \<Rightarrow> (SlashingProtectionData, unit) eff" where
  "recorded_blocks n s = steps [
     assert_now (\<lambda>d. length (signed_blocks d) = n),
     assert_now (\<lambda>d. get_latest_signed_block_slot d = s)]"

definition slot_at :: "nat \<Rightarrow> Slot \<Rightarrow> (SlashingProtectionData, unit) eff" where
  "slot_at i s = assert_now (\<lambda>d. map_option slot (elem_at (signed_blocks d) i) = Some s)"

definition block_steps :: "(SlashingProtectionData, unit) eff" where
  "block_steps = steps [
     assert_now (\<lambda>d. length (signed_blocks d) = 0),
     assert_now (\<lambda>d. length (signed_attestations d) = 0),
     assert_now (\<lambda>d. get_latest_signed_block_slot d = 0),
     new_block \<lparr>slot = 10, sbs_signing_root = None\<rparr> False,
     slot_at 0 10,
     recorded_blocks 1 10,
     new_block \<lparr>slot = 11, sbs_signing_root = Some root1_bytes\<rparr> False,
     slot_at 0 11,
     recorded_blocks 1 11,
     assert_err (new_block \<lparr>slot = 11, sbs_signing_root = None\<rparr> False),
     recorded_blocks 1 11,
     assert_err (new_block \<lparr>slot = 5, sbs_signing_root = None\<rparr> False),
     recorded_blocks 1 11,
     new_block \<lparr>slot = 12, sbs_signing_root = None\<rparr> True,
     slot_at 1 12,
     recorded_blocks 2 12,
     assert_err (new_block \<lparr>slot = 12, sbs_signing_root = None\<rparr> True),
     recorded_blocks 2 12,
     assert_err (new_block \<lparr>slot = 5, sbs_signing_root = None\<rparr> True),
     recorded_blocks 2 12,
     new_block \<lparr>slot = 5000, sbs_signing_root = None\<rparr> True,
     recorded_blocks 3 5000]"

text \<open>\<open>data.write()?\<close>, and the read that follows.\<close>

definition write_local :: "codec \<Rightarrow> (SlashingProtectionData \<times> world, unit) eff" where
  "write_local X s = on_second (spd_write X (fst s)) s"

definition read_default :: "codec \<Rightarrow> (SlashingProtectionData \<times> world, SlashingProtectionData) eff" where
  "read_default X = on_second (spd_read X (hex_encode X (fv_ssz_bytes X default_pubkey)))"

definition test_blocks :: "codec \<Rightarrow> (world, unit) eff" where
  "test_blocks X =
     with_local (spd_new default_pubkey)
       (ebind (on_first block_steps) (\<lambda>_.
        ebind (write_local X) (\<lambda>_.
        ebind (read_default X) (\<lambda>d.
        steps [
          assert_that (length (signed_blocks d) = 3),
          assert_that (map_option slot (elem_at (signed_blocks d) 0) = Some 11),
          assert_that (map_option slot (elem_at (signed_blocks d) 1) = Some 12),
          assert_that (map_option slot (elem_at (signed_blocks d) 2) = Some 5000),
          assert_that (map_option sbs_signing_root (elem_at (signed_blocks d) 0) = Some (Some root1_bytes)),
          assert_that (get_latest_signed_block_slot d = 5000)]))))"

definition recorded_epochs :: "nat \<Rightarrow> Epoch \<times> Epoch \<Rightarrow> (SlashingProtectionData, unit) eff" where
  "recorded_epochs n e = steps [
     assert_now (\<lambda>d. length (signed_attestations d) = n),
     assert_now (\<lambda>d. get_latest_signed_attestation_epochs d = e)]"

definition attestation_steps :: "(SlashingProtectionData, unit) eff" where
  "attestation_steps =
     (let att = (\<lambda>s t r. \<lparr>source_epoch = s, target_epoch = t, sae_signing_root = r\<rparr>)
      in steps [
        assert_now (\<lambda>d. length (signed_blocks d) = 0),
        recorded_epochs 0 (0, 0),
        assert_err (new_attestation (att 0 0 None) False),
        new_attestation (att 10 20 None) False,
        recorded_epochs 1 (10, 20),
        new_attestation (att 20 30 (Some root1_bytes)) False,
        recorded_epochs 1 (20, 30),
        assert_err (new_attestation (att 10 31 None) False),
        recorded_epochs 1 (20, 30),
        assert_err (new_attestation (att 20 30 None) False),
        recorded_epochs 1 (20, 30),
        assert_err (new_attestation (att 20 29 None) False),
        recorded_epochs 1 (20, 30),
        new_attestation (att 20 31 None) True,
        recorded_epochs 2 (20, 31),
        assert_err (new_attestation (att 10 32 None) True),
        recorded_epochs 2 (20, 31),
        assert_err (new_attestation (att 20 31 None) True),
        recorded_epochs 2 (20, 31),
        assert_err (new_attestation (att 20 29 None) True),
        recorded_epochs 2 (20, 31)])"

definition test_attestations :: "codec \<Rightarrow> (world, unit) eff" where
  "test_attestations X =
     with_local (spd_new default_pubkey)
       (ebind (on_first (expecting ''called Result::unwrap() on an Err value'' attestation_steps)) (\<lambda>_.
        ebind (write_local X) (\<lambda>_.
        ebind (read_default X) (\<lambda>d.
        steps [
          assert_that (length (signed_attestations d) = 2),
          assert_that (map_option epochs (elem_at (signed_attestations d) 0) = Some (20, 30)),
          assert_that (map_option sae_signing_root (elem_at (signed_attestations d) 0) = Some (Some root1_bytes)),
          assert_that (map_option epochs (elem_at (signed_attestations d) 1) = Some (20, 31)),
          assert_that (get_latest_signed_attestation_epochs d = (20, 31))]))))"

lemma block_steps_run:
  "block_steps (spd_new default_pubkey) =
     (Ok (), \<lparr>pubkey = default_pubkey,
        signed_blocks = [\<lparr>slot = 11, sbs_signing_root = Some root1_bytes\<rparr>, \<lparr>slot = 12, sbs_signing_root = None\<rparr>,
          \<lparr>slot = 5000, sbs_signing_root = None\<rparr>],
        signed_attestations = []\<rparr>)"
  by code_simp

lemma attestation_steps_run:
  "attestation_steps (spd_new default_pubkey) =
     (Ok (), \<lparr>pubkey = default_pubkey, signed_blocks = [],
        signed_attestations =
          [\<lparr>source_epoch = 20, target_epoch = 30, sae_signing_root = Some root1_bytes\<rparr>,
           \<lparr>source_epoch = 20, target_epoch = 31, sae_signing_root = None\<rparr>]\<rparr>)"
  by code_simp

text \<open>A well typed record of the default key comes back as it was written.\<close>

lemma stored_and_read:
  assumes X: "codec_laws X" and d: "wf_spd d" "pubkey d = default_pubkey" and w: "quiet w" "free_dir w slash_dir"
  shows "\<exists>w'. write_local X (d, w) = (Ok (), (d, w')) \<and> read_default X (d, w') = (Ok d, (d, w'))"
proof -
  note L = codec_lawsD[OF X]
  obtain w' where w': "spd_write X d w = (Ok (), w')" "quiet w'"
    "lookup w' = (lookup w)(slash_dir @ [hex_encode X (pubkey d)] \<mapsto> spd_text X d)"
    using spd_write_quiet[OF X d(1) w] by blast
  have name: "strip_0x_prefix (hex_encode X default_pubkey) = hex_encode X default_pubkey"
    "plain (hex_encode X default_pubkey)"
    using L(1) by (simp_all add: plain_hex_encode default_pubkey_def)
  have "spd_read X (hex_encode X default_pubkey) w' = (Ok d, w')"
    using name w' d(2) spd_parse_text[OF X d(1)] by (intro spd_read_quiet) auto
  with w' show ?thesis
    by (simp add: write_local_def read_default_def ssz_simps(3)[OF L(5)])
qed

lemma test_blocks_passes:
  assumes X: "codec_laws X" and w: "quiet w" "free_dir w slash_dir"
  shows "passes (test_blocks X) w"
proof -
  let ?d = "\<lparr>pubkey = default_pubkey, signed_blocks = [\<lparr>slot = 11, sbs_signing_root = Some root1_bytes\<rparr>,
    \<lparr>slot = 12, sbs_signing_root = None\<rparr>, \<lparr>slot = 5000, sbs_signing_root = None\<rparr>], signed_attestations = []\<rparr>"
  have "wf_spd ?d" by (simp add: wf_spd_def root_ok_def test_bytes_length default_pubkey_def)
  from stored_and_read[OF X this _ w] show ?thesis
    by (auto simp: passes_def test_blocks_def with_local_def block_steps_run ebind_def assert_that_def elem_at_def
        get_latest_signed_block_slot_def)
qed

lemma test_attestations_passes:
  assumes X: "codec_laws X" and w: "quiet w" "free_dir w slash_dir"
  shows "passes (test_attestations X) w"
proof -
  let ?d = "\<lparr>pubkey = default_pubkey, signed_blocks = [], signed_attestations =
    [\<lparr>source_epoch = 20, target_epoch = 30, sae_signing_root = Some root1_bytes\<rparr>,
     \<lparr>source_epoch = 20, target_epoch = 31, sae_signing_root = None\<rparr>]\<rparr>"
  have "wf_spd ?d" by (simp add: wf_spd_def root_ok_def test_bytes_length default_pubkey_def)
  from stored_and_read[OF X this _ w] show ?thesis
    by (auto simp: passes_def test_attestations_def with_local_def attestation_steps_run ebind_def assert_that_def elem_at_def
        get_latest_signed_attestation_epochs_def epochs_def expecting_def)
qed

end
