(* ===== verification/Unit_Tests_Keys.thy ===== *)
theory Unit_Tests_Keys
  imports Unit_Tests Key_Lifecycle Key_Listing
begin

text \<open>
  The unit tests of src/io/key\_management.rs, src/crypto/bls\_keys.rs and
  src/crypto/eth\_keys.rs. The BLS and the ETH store have the same tests; the interface
  \<open>key_directory\<close> says what the tests rely on, and both stores provide it. A test of an
  encrypted keystore is left out: whether \<open>eth_keystore\<close> succeeds is not documented.
\<close>

section \<open>Clearing the data directory\<close>

definition data_dir :: path where
  "data_dir = [''.'', ''data'']"

definition below :: "path \<Rightarrow> path \<Rightarrow> bool" where
  "below d p \<longleftrightarrow> take (length d) p = d"

text \<open>\<open>fs::remove_dir_all\<close> of a directory; and \<open>.ok()\<close>, which drops an error.\<close>

definition remove_dir_all :: "path \<Rightarrow> (world, unit) eff" where
  "remove_dir_all d w =
     (case next_fault w of
        (NoFault, w') \<Rightarrow>
          if is_dir w' d
          then (Ok (), w'\<lparr>files := filter (\<lambda>f. \<not> below d (fst f)) (files w'), dirs := filter (\<lambda>p. \<not> below d p) (dirs w')\<rparr>)
          else (Err Io, w')
      | (_, w') \<Rightarrow> (Err Io, w'))"

definition ignoring :: "('w, 'a) eff \<Rightarrow> ('w, unit) eff" where
  "ignoring m w = (case m w of (Panic p, w') \<Rightarrow> (Panic p, w') | (_, w') \<Rightarrow> (Ok (), w'))"

definition clear_data :: "(world, unit) eff" where
  "clear_data = ignoring (remove_dir_all (path_of ''./data''))"

definition emptied :: "world \<Rightarrow> bool" where
  "emptied w \<longleftrightarrow> (\<forall>p. below data_dir p \<longrightarrow> lookup w p = None \<and> \<not> is_dir w p)"

text \<open>A place to run tests in: the data directory is one, or nothing is there at all.\<close>

definition test_bed :: "world \<Rightarrow> bool" where
  "test_bed w \<longleftrightarrow> quiet w \<and> lookup w [''.''] = None \<and> lookup w data_dir = None \<and> (is_dir w data_dir \<or> emptied w)"

lemma below_append: "below d p \<Longrightarrow> below d (p @ q)"
  unfolding below_def by (metis append.assoc append_eq_conv_conj append_take_drop_id)

lemma path_of_data: "path_of ''./data'' = data_dir"
  by (simp add: path_of_def is_absolute_def normal_comps_def data_dir_def)

lemma map_of_filter_keys: "map_of (filter (\<lambda>f. P (fst f)) fs) p = (if P p then map_of fs p else None)"
  by (induction fs) auto

lemma clear_data_quiet:
  assumes "test_bed w"
  shows "\<exists>w'. clear_data w = (Ok (), w') \<and> test_bed w' \<and> emptied w'"
proof (cases "is_dir w data_dir")
  case True
  let ?w = "w\<lparr>files := filter (\<lambda>f. \<not> below data_dir (fst f)) (files w), dirs := filter (\<lambda>p. \<not> below data_dir p) (dirs w)\<rparr>"
  have l: "lookup ?w p = (if below data_dir p then None else lookup w p)" for p
    using map_of_filter_keys[of "\<lambda>p. \<not> below data_dir p" "files w" p] by (simp add: lookup_def)
  have "clear_data w = (Ok (), ?w)"
    using assms True by (simp add: clear_data_def path_of_data ignoring_def remove_dir_all_def test_bed_def next_fault_quiet)
  moreover have "emptied ?w" unfolding emptied_def l by (auto simp: is_dir_def below_def data_dir_def)
  moreover have "quiet ?w" using assms by (simp add: test_bed_def quiet_def)
  ultimately show ?thesis using assms by (auto simp: test_bed_def l)
next
  case False
  with assms show ?thesis
    by (simp add: clear_data_def path_of_data ignoring_def remove_dir_all_def test_bed_def next_fault_quiet)
qed

text \<open>A directory of the data has room in an emptied place, and after a write to it.\<close>

lemma free_dir_emptied:
  assumes "test_bed w" "emptied w" "below data_dir d"
  shows "free_dir w d"
proof -
  have "lookup w q = None" if "q \<in> set (prefixes_of d)" for q
  proof -
    from that assms(3) consider "q = [''.'']" | "below data_dir q"
      by (cases d; cases "tl d"; cases q; cases "tl q") (auto simp: prefixes_of_def below_def data_dir_def take_Suc_conv_app_nth
          dest!: arg_cong[where f = length])
    then show ?thesis using assms(1,2) by cases (auto simp: test_bed_def emptied_def)
  qed
  moreover have "\<not> is_dir w (d @ [n])" for n
    using assms(2) below_append[OF assms(3)] by (simp add: emptied_def)
  moreover have "d \<noteq> []" using assms(3) by (auto simp: below_def data_dir_def)
  ultimately show ?thesis by (simp add: free_dir_def)
qed

section \<open>The tests of a key store\<close>

definition unwrap :: "('w, 'a) eff \<Rightarrow> ('w, 'a) eff" where
  "unwrap m = expecting ''called Result::unwrap() on an Err value'' m"

text \<open>\<open>read_file\<close> of the tests.\<close>

definition read_file :: "path \<Rightarrow> (world, string) eff" where
  "read_file p = in_context ''failed to read'' (read_to_string p)"

definition test_write_key :: "(world, unit) eff" where
  "test_write_key =
     (let file_path = path_collect [KEYS_DIR, ''test''];
          sk_hex = ''abcdef123456''
      in steps [
        unwrap (write_key file_path sk_hex),
        ebind (unwrap (read_file file_path)) (\<lambda>written_content. assert_that (written_content = sk_hex)),
        clear_data])"

definition test_write :: "(string \<Rightarrow> string \<Rightarrow> (world, unit) eff) \<Rightarrow> string \<Rightarrow> (world, unit) eff" where
  "test_write wr dir =
     (let pk_hex = ''0x1234abcd'';
          sk_hex = ''0xabcdef123456''
      in steps [
        clear_data,
        unwrap (wr pk_hex sk_hex),
        ebind (unwrap (read_file (path_collect [dir, ''1234abcd'']))) (\<lambda>written_content.
          assert_that (written_content = ''abcdef123456'')),
        clear_data])"

definition test_write_read_delete ::
  "(string \<Rightarrow> string \<Rightarrow> (world, unit) eff) \<Rightarrow> (string \<Rightarrow> (world, bytes) eff) \<Rightarrow> (string \<Rightarrow> (world, unit) eff) \<Rightarrow>
   (string \<Rightarrow> (world, bool) eff) \<Rightarrow> (world, unit) eff" where
  "test_write_read_delete wr rd del ex =
     (let pk_hex = ''0x1234abcd'';
          sk_hex = ''0xabcdef123456''
      in steps [
        clear_data,
        unwrap (wr pk_hex sk_hex),
        ebind (unwrap (rd pk_hex)) (\<lambda>sk_bytes. assert_that (sk_bytes = [0xab, 0xcd, 0xef, 0x12, 0x34, 0x56])),
        unwrap (del pk_hex),
        ebind (ex pk_hex) (\<lambda>b. assert_that (\<not> b))])"

definition test_list ::
  "(string \<Rightarrow> string \<Rightarrow> (world, unit) eff) \<Rightarrow> (world, string list) eff \<Rightarrow> (string \<Rightarrow> (world, unit) eff) \<Rightarrow>
   (string \<Rightarrow> (world, bool) eff) \<Rightarrow> (world, unit) eff" where
  "test_list wr ls del ex =
     (let pk_hex1 = ''0x1234abcd'';
          sk_hex1 = ''0xabcdef123456'';
          pk_hex2 = ''0x5678ef01'';
          sk_hex2 = ''0xdeadbeef2468''
      in steps [
        clear_data,
        unwrap (wr pk_hex1 sk_hex1),
        unwrap (wr pk_hex2 sk_hex2),
        ebind (unwrap ls) (\<lambda>keys. steps [
          assert_that (length keys = 2),
          assert_that (drop 2 pk_hex1 \<in> set keys),
          assert_that (drop 2 pk_hex2 \<in> set keys)]),
        unwrap (del pk_hex1),
        unwrap (del pk_hex2),
        ebind (ex pk_hex1) (\<lambda>b. assert_that (\<not> b)),
        ebind (ex pk_hex2) (\<lambda>b. assert_that (\<not> b)),
        ebind (unwrap ls) (\<lambda>keys. assert_that (length keys = 0))])"

definition test_write_eth_key :: "(world, unit) eff" where
  "test_write_eth_key = test_write write_eth_key ETH_KEYS_DIR"

definition test_write_bls_key :: "(world, unit) eff" where
  "test_write_bls_key = test_write write_bls_key BLS_KEYS_DIR"

definition test_write_read_delete_eth_key :: "codec \<Rightarrow> (world, unit) eff" where
  "test_write_read_delete_eth_key X = test_write_read_delete write_eth_key (read_eth_key X) delete_eth_key eth_key_exists"

definition test_write_read_delete_bls_key :: "codec \<Rightarrow> (world, unit) eff" where
  "test_write_read_delete_bls_key X = test_write_read_delete write_bls_key (read_bls_key X) delete_bls_key bls_key_exists"

definition test_list_eth_keys :: "(world, unit) eff" where
  "test_list_eth_keys = test_list write_eth_key list_eth_keys delete_eth_key eth_key_exists"

definition test_list_bls_keys :: "(world, unit) eff" where
  "test_list_bls_keys = test_list write_bls_key list_bls_keys delete_bls_key bls_key_exists"

subsection \<open>What they rely on\<close>

lemma test_names [simp]:
  "strip_0x_prefix ''0x1234abcd'' = ''1234abcd''" "strip_0x_prefix ''0x5678ef01'' = ''5678ef01''"
  "plain ''1234abcd''" "plain ''5678ef01''" "is_utf8 ''1234abcd''" "is_utf8 ''5678ef01''"
  "drop 2 ''0x1234abcd'' = ''1234abcd''" "drop 2 ''0x5678ef01'' = ''5678ef01''"
  by code_simp+

locale key_directory = key_store X key_file wr rd del ex
  for X :: codec and key_file wr rd del ex +
  fixes dir :: path and ls :: "(world, string list) eff"
  assumes in_data: "below data_dir dir"
    and its_file: "plain (strip_0x_prefix pk) \<Longrightarrow> key_file pk = dir @ [strip_0x_prefix pk]"
    and wr_quiet: "quiet w \<Longrightarrow> free_dir w dir \<Longrightarrow> plain (strip_0x_prefix pk) \<Longrightarrow>
      \<exists>w'. wr pk sk w = (Ok (), w') \<and> quiet w' \<and>
        lookup w' = (lookup w)(dir @ [strip_0x_prefix pk] \<mapsto> strip_0x_prefix sk) \<and>
        (\<forall>p. is_dir w' p \<longleftrightarrow> is_dir w p \<or> p \<in> set (prefixes_of dir))"
    and del_quiet: "quiet w \<Longrightarrow> lookup w (key_file pk) = Some s \<Longrightarrow>
      \<exists>w'. del pk w = (Ok (), w') \<and> quiet w' \<and> lookup w' = (lookup w)(key_file pk := None) \<and> is_dir w' = is_dir w"
    and ls_quiet: "quiet w \<Longrightarrow> is_dir w dir \<Longrightarrow> \<forall>n \<in> children w dir. is_utf8 n \<Longrightarrow> ls w = (Ok (dir_entries w dir), w)"
begin

lemma not_prefix: "dir @ [n] \<notin> set (prefixes_of dir)"
  using prefixes_of_length[of "dir @ [n]" dir] by auto

lemma room_after_write:
  assumes "free_dir w dir" "lookup w' = (lookup w)(dir @ [n] \<mapsto> s)"
    "\<forall>p. is_dir w' p \<longleftrightarrow> is_dir w p \<or> p \<in> set (prefixes_of dir)"
  shows "free_dir w' dir"
  using assms not_prefix by (auto simp: free_dir_def)

lemma write_read_delete_passes:
  assumes w: "test_bed w" and x: "hex_decode X ''abcdef123456'' = Some [0xab, 0xcd, 0xef, 0x12, 0x34, 0x56]"
  shows "passes (test_write_read_delete wr rd del ex) w"
proof -
  let ?pk = "''0x1234abcd''"
  obtain w1 where w1: "clear_data w = (Ok (), w1)" "test_bed w1" "emptied w1"
    using clear_data_quiet[OF w] by blast
  have room: "free_dir w1 dir" by (rule free_dir_emptied[OF w1(2,3) in_data])
  have f: "key_file ?pk = dir @ [''1234abcd'']" using its_file[of ?pk] by simp
  obtain w2 where w2: "wr ?pk ''0xabcdef123456'' w1 = (Ok (), w2)" "quiet w2"
    "lookup w2 = (lookup w1)(key_file ?pk \<mapsto> ''abcdef123456'')"
    "\<forall>p. is_dir w2 p \<longleftrightarrow> is_dir w1 p \<or> p \<in> set (prefixes_of dir)"
    using wr_quiet[OF _ room, of ?pk "''0xabcdef123456''"] w1(2) f by (auto simp: test_bed_def)
  have "rd ?pk w2 = (Ok [0xab, 0xcd, 0xef, 0x12, 0x34, 0x56], w2)"
    using w2(2,3) x by (intro rd_quiet) auto
  moreover obtain w3 where w3: "del ?pk w2 = (Ok (), w3)" "quiet w3" "lookup w3 = (lookup w2)(key_file ?pk := None)"
    "is_dir w3 = is_dir w2"
    using del_quiet[OF w2(2), of ?pk] w2(3) by auto
  moreover have "ex ?pk w3 = (Ok False, w3)"
    using ex_quiet[OF w3(2), of ?pk] w3(3,4) w2(4) room not_prefix by (auto simp: f free_dir_def)
  ultimately show ?thesis
    using w1(1) w2(1) by (simp add: passes_def test_write_read_delete_def Let_def unwrap_def expecting_def ebind_def assert_that_def)
qed

lemma list_passes:
  assumes w: "test_bed w"
  shows "passes (test_list wr ls del ex) w"
proof -
  let ?p1 = "''0x1234abcd''" and ?p2 = "''0x5678ef01''" and ?n1 = "''1234abcd''" and ?n2 = "''5678ef01''"
  obtain w1 where w1: "clear_data w = (Ok (), w1)" "test_bed w1" "emptied w1"
    using clear_data_quiet[OF w] by blast
  have room: "free_dir w1 dir" by (rule free_dir_emptied[OF w1(2,3) in_data])
  have f: "key_file ?p1 = dir @ [?n1]" "key_file ?p2 = dir @ [?n2]" using its_file[of ?p1] its_file[of ?p2] by simp_all
  obtain w2 where w2: "wr ?p1 ''0xabcdef123456'' w1 = (Ok (), w2)" "quiet w2"
    "lookup w2 = (lookup w1)(dir @ [?n1] \<mapsto> ''abcdef123456'')"
    "\<forall>p. is_dir w2 p \<longleftrightarrow> is_dir w1 p \<or> p \<in> set (prefixes_of dir)"
    using wr_quiet[OF _ room, of ?p1 "''0xabcdef123456''"] w1(2) by (auto simp: test_bed_def)
  obtain w3 where w3: "wr ?p2 ''0xdeadbeef2468'' w2 = (Ok (), w3)" "quiet w3"
    "lookup w3 = (lookup w2)(dir @ [?n2] \<mapsto> ''deadbeef2468'')"
    "\<forall>p. is_dir w3 p \<longleftrightarrow> is_dir w2 p \<or> p \<in> set (prefixes_of dir)"
    using wr_quiet[OF w2(2) room_after_write[OF room w2(3,4)], of ?p2 "''0xdeadbeef2468''"] by auto
  obtain w4 where w4: "del ?p1 w3 = (Ok (), w4)" "quiet w4" "lookup w4 = (lookup w3)(dir @ [?n1] := None)" "is_dir w4 = is_dir w3"
    using del_quiet[OF w3(2), of ?p1] w3(3) w2(3) f by auto
  obtain w5 where w5: "del ?p2 w4 = (Ok (), w5)" "quiet w5" "lookup w5 = (lookup w4)(dir @ [?n2] := None)" "is_dir w5 = is_dir w4"
    using del_quiet[OF w4(2), of ?p2] w4(3) w3(3) f by auto
  have dir: "dir \<noteq> []" "is_dir w3 dir" "\<not> is_dir w3 (dir @ [n])" for n
    using room w2(4) w3(4) not_prefix prefixes_of_self by (auto simp: free_dir_def)
  have empty: "lookup w1 (dir @ [n]) = None" for n
    using w1(3) below_append[OF in_data] by (simp add: emptied_def)
  have kids: "children v dir = {n. lookup v (dir @ [n]) \<noteq> None}" if "is_dir v = is_dir w3" for v
  proof -
    have "dir @ [n] \<notin> set (dirs v)" for n using dir(3)[of n] that by (metis is_dir_def)
    then show ?thesis by (simp add: children_def)
  qed
  have "children w3 dir = {?n1, ?n2}" "children w5 dir = {}"
    using empty by (auto simp: kids w5(3,4) w4(3,4) w3(3) w2(3) split: if_splits)
  then have ls: "ls w3 = (Ok (dir_entries w3 dir), w3)" "ls w5 = (Ok (dir_entries w5 dir), w5)"
    and keys: "set (dir_entries w3 dir) = {?n1, ?n2}" "dir_entries w5 dir = []"
    using ls_quiet[OF w3(2)] ls_quiet[OF w5(2)] dir(2) w5(4) w4(4) set_dir_entries[of w3 dir] set_dir_entries[of w5 dir]
    by auto
  have "length (dir_entries w3 dir) = 2"
    using distinct_card[OF distinct_dir_entries, of w3 dir] keys(1) by simp
  moreover have "ex ?p1 w5 = (Ok False, w5)" "ex ?p2 w5 = (Ok False, w5)"
    using ex_quiet[OF w5(2), of ?p1] ex_quiet[OF w5(2), of ?p2] dir(3) f by (simp_all add: w5(3,4) w4(3,4))
  ultimately show ?thesis
    using w1(1) w2(1) w3(1) w4(1) w5(1) ls keys
    by (simp add: passes_def test_list_def Let_def unwrap_def expecting_def ebind_def assert_that_def)
qed

end

lemma below_key_dirs [simp]: "below data_dir bls_dir" "below data_dir eth_dir" "below data_dir slash_dir"
  by (simp_all add: below_def data_dir_def bls_dir_def eth_dir_def slash_dir_def)

lemma store_write_quiet:
  assumes "quiet w" "plain (strip_0x_prefix pk)"
  shows "free_dir w bls_dir \<Longrightarrow> \<exists>w'. write_bls_key pk sk w = (Ok (), w') \<and> quiet w' \<and>
      lookup w' = (lookup w)(bls_dir @ [strip_0x_prefix pk] \<mapsto> strip_0x_prefix sk) \<and>
      (\<forall>p. is_dir w' p \<longleftrightarrow> is_dir w p \<or> p \<in> set (prefixes_of bls_dir))"
    "free_dir w eth_dir \<Longrightarrow> \<exists>w'. write_eth_key pk sk w = (Ok (), w') \<and> quiet w' \<and>
      lookup w' = (lookup w)(eth_dir @ [strip_0x_prefix pk] \<mapsto> strip_0x_prefix sk) \<and>
      (\<forall>p. is_dir w' p \<longleftrightarrow> is_dir w p \<or> p \<in> set (prefixes_of eth_dir))"
  using write_key_quiet[OF assms(1), of _ "strip_0x_prefix pk" "strip_0x_prefix sk"] assms(2)
  by (simp_all add: write_bls_key_def write_eth_key_def Let_def path_collect_keys) blast+

lemma store_delete_quiet:
  assumes "quiet w"
  shows "lookup w (bls_file pk) = Some s \<Longrightarrow> \<exists>w'. delete_bls_key pk w = (Ok (), w') \<and> quiet w' \<and>
      lookup w' = (lookup w)(bls_file pk := None) \<and> is_dir w' = is_dir w"
    "lookup w (eth_file pk) = Some s \<Longrightarrow> \<exists>w'. delete_eth_key pk w = (Ok (), w') \<and> quiet w' \<and>
      lookup w' = (lookup w)(eth_file pk := None) \<and> is_dir w' = is_dir w"
  using delete_key_quiet[OF assms]
  by (simp_all add: delete_bls_key_def delete_eth_key_def Let_def path_collect_keys bls_file_def eth_file_def) blast+

interpretation bls_directory: key_directory X bls_file write_bls_key "read_bls_key X" delete_bls_key bls_key_exists
    bls_dir list_bls_keys for X
  by unfold_locales
    (simp_all add: bls_file_def store_write_quiet store_delete_quiet[unfolded bls_file_def] list_bls_keys_def list_fnames_quiet[of _ BLS_KEYS_DIR, unfolded path_of_dirs])

interpretation eth_directory: key_directory X eth_file write_eth_key "read_eth_key X" delete_eth_key eth_key_exists
    eth_dir list_eth_keys for X
  by unfold_locales
    (simp_all add: eth_file_def store_write_quiet store_delete_quiet[unfolded eth_file_def] list_eth_keys_def list_fnames_quiet[of _ ETH_KEYS_DIR, unfolded path_of_dirs])

lemma test_key_text:
  assumes "hex_laws X" "hex_text_law X"
  shows "hex_decode X ''abcdef123456'' = Some [0xab, 0xcd, 0xef, 0x12, 0x34, 0x56]"
proof -
  have "hex_encode X [0xab, 0xcd, 0xef, 0x12, 0x34, 0x56] = ''abcdef123456''"
    unfolding assms(2)[unfolded hex_text_law_def, rule_format] by code_simp
  with hex_decode_encode[OF assms(1)] show ?thesis by metis
qed

lemma clear_data_last: "fst (ebind clear_data (\<lambda>_. steps []) w) = Ok ()"
  by (auto simp: clear_data_def ignoring_def remove_dir_all_def ebind_def split: prod.split fault.split)

lemma read_file_quiet: "quiet w \<Longrightarrow> lookup w p = Some t \<Longrightarrow> is_utf8 t \<Longrightarrow> read_file p w = (Ok t, w)"
  by (simp add: read_file_def read_to_string_def in_context_def ebind_def fs_read_quiet)

lemma test_text_utf8 [simp]: "is_utf8 ''abcdef123456''"
  by code_simp

lemma write_passes:
  assumes w: "test_bed w" and dir: "path_of name = d" "below data_dir d"
    and wr: "\<And>w. quiet w \<Longrightarrow> free_dir w d \<Longrightarrow> \<exists>w'. wr ''0x1234abcd'' ''0xabcdef123456'' w = (Ok (), w') \<and> quiet w' \<and>
      lookup w' = (lookup w)(d @ [''1234abcd''] \<mapsto> ''abcdef123456'')"
  shows "passes (test_write wr name) w"
proof -
  obtain w1 where w1: "clear_data w = (Ok (), w1)" "test_bed w1" "emptied w1" "quiet w1"
    using clear_data_quiet[OF w] by (auto simp: test_bed_def)
  have room: "free_dir w1 d" by (rule free_dir_emptied[OF w1(2,3) dir(2)])
  obtain w2 where w2: "wr ''0x1234abcd'' ''0xabcdef123456'' w1 = (Ok (), w2)" "quiet w2"
    "lookup w2 = (lookup w1)(d @ [''1234abcd''] \<mapsto> ''abcdef123456'')"
    using wr[OF w1(4) room] by blast
  have "d \<noteq> []" using room by (simp add: free_dir_def)
  then have p: "path_collect [name, ''1234abcd''] = d @ [''1234abcd'']"
    using dir(1) by (simp add: path_collect_def path_push_def[of "[]"])
  show ?thesis
    using w1(1) w2 clear_data_last
    by (simp add: passes_def test_write_def Let_def unwrap_def expecting_def ebind_Ok assert_that_def p read_file_quiet)
qed

lemma test_write_passes:
  assumes w: "test_bed w"
  shows "passes test_write_bls_key w" "passes test_write_eth_key w"
  unfolding test_write_bls_key_def test_write_eth_key_def
  using store_write_quiet[of _ "''0x1234abcd''" "''0xabcdef123456''"]
  by (intro write_passes[OF w path_of_dirs(1)] write_passes[OF w path_of_dirs(2)]; fastforce)+

lemma test_store_passes:
  assumes "codec_laws X" "hex_text_law X" "test_bed w"
  shows "passes (test_write_read_delete_bls_key X) w" "passes (test_write_read_delete_eth_key X) w"
    "passes test_list_bls_keys w" "passes test_list_eth_keys w"
  unfolding test_write_read_delete_bls_key_def test_write_read_delete_eth_key_def test_list_bls_keys_def test_list_eth_keys_def
  using test_key_text[OF codec_lawsD(1)[OF assms(1)] assms(2)] assms(3)
  by (simp_all add: bls_directory.write_read_delete_passes eth_directory.write_read_delete_passes
      bls_directory.list_passes eth_directory.list_passes)

section \<open>The tests of the BLS keys\<close>

definition ascii :: "string \<Rightarrow> bytes" where
  "ascii = map of_char"

definition pk_hex_of :: "('ps, 'pk, 'psh, 'ss, 'sk, 'ssh, 'sg, 'sgh) blsttc \<Rightarrow> 'ss \<Rightarrow> string" where
  "pk_hex_of B sk_set = pk_to_hex B (pks_public_key B (sks_public_keys B sk_set))"

definition test_save_and_fetch_bls_key ::
  "codec \<Rightarrow> ('ps, 'pk, 'psh, 'ss, 'sk, 'ssh, 'sg, 'sgh) blsttc \<Rightarrow> (world, unit) eff" where
  "test_save_and_fetch_bls_key X B =
     ebind (new_bls_key B 3) (\<lambda>sk_set.
     let pk_hex = pk_hex_of B sk_set in
     steps [
       expecting ''Failed to save BLS key'' (save_bls_key X B sk_set),
       ebind (bls_key_exists pk_hex) assert_that,
       ebind (expecting ''Failed to fetch BLS key'' (fetch_bls_sk X B pk_hex)) (\<lambda>fetched. assert_that (sk_set = fetched)),
       unwrap (delete_bls_key pk_hex),
       ebind (bls_key_exists pk_hex) (\<lambda>b. assert_that (\<not> b))])"

definition test_bls_agg_sign_from_saved_sk_success ::
  "codec \<Rightarrow> ('ps, 'pk, 'psh, 'ss, 'sk, 'ssh, 'sg, 'sgh) blsttc \<Rightarrow> (world, unit) eff" where
  "test_bls_agg_sign_from_saved_sk_success X B =
     ebind (new_bls_key B 1) (\<lambda>secret_key_set.
     let msg = ascii ''Hello, world!'';
         pk_hex = pk_hex_of B secret_key_set
     in ebind (expecting ''Failed to save the secret key set'' (save_bls_key X B secret_key_set)) (\<lambda>_.
        ebind (expecting ''Failed to sign the message'' (bls_agg_sign_from_saved_sk X B pk_hex msg)) (\<lambda>signature.
        assert_that (pk_verify B (pks_public_key B (sks_public_keys B secret_key_set)) signature msg))))"

definition test_bls_agg_sign_from_saved_sk_fails_if_not_saved ::
  "codec \<Rightarrow> ('ps, 'pk, 'psh, 'ss, 'sk, 'ssh, 'sg, 'sgh) blsttc \<Rightarrow> (world, 'sg) eff" where
  "test_bls_agg_sign_from_saved_sk_fails_if_not_saved X B =
     ebind (new_bls_key B 1) (\<lambda>secret_key_set.
     expecting ''Failed to sign the message''
       (bls_agg_sign_from_saved_sk X B (pk_hex_of B secret_key_set) (ascii ''Hello, world!'')))"

text \<open>A share of the signature from every share of the key.\<close>

definition sign_shares :: "('ps, 'pk, 'psh, 'ss, 'sk, 'ssh, 'sg, 'sgh) blsttc \<Rightarrow> ('ssh \<times> 'psh) list \<Rightarrow> bytes \<Rightarrow> 'sgh list" where
  "sign_shares B key_shares msg = map (\<lambda>(sk_share, _). ssh_sign B sk_share msg) key_shares"

definition test_new_bls_key :: "('ps, 'pk, 'psh, 'ss, 'sk, 'ssh, 'sg, 'sgh) blsttc \<Rightarrow> (world, unit) eff" where
  "test_new_bls_key B =
     steps (map (\<lambda>threshold. ebind (new_bls_key B threshold) (\<lambda>sk_set. assert_that (sks_threshold B sk_set = threshold)))
       [1, 3, 5])"

definition test_distribute_key_shares :: "('ps, 'pk, 'psh, 'ss, 'sk, 'ssh, 'sg, 'sgh) blsttc \<Rightarrow> (world, unit) eff" where
  "test_distribute_key_shares B =
     ebind (new_bls_key B 2) (\<lambda>secret_key_set.
     let n = 5;
         key_shares = distribute_key_shares B secret_key_set n;
         msg = ascii ''Hello, world!'';
         sig_shares = sign_shares B key_shares msg
     in steps (assert_that (length key_shares = n) #
          map (\<lambda>(sig_share, (_, pk_share)). assert_that (psh_verify B pk_share sig_share msg)) (zip sig_shares key_shares)))"

definition test_distribute_key_shares_and_aggregate_signature_shares ::
  "('ps, 'pk, 'psh, 'ss, 'sk, 'ssh, 'sg, 'sgh) blsttc \<Rightarrow> (world, unit) eff" where
  "test_distribute_key_shares_and_aggregate_signature_shares B =
     ebind (new_bls_key B 2) (\<lambda>sk_set.
     let key_shares = distribute_key_shares B sk_set 5;
         pk_set = sks_public_keys B sk_set;
         msg = ascii ''Hello, world!'';
         sig_shares = sign_shares B key_shares msg
     in ebind (unwrap (lift (aggregate_signature_shares B pk_set sig_shares))) (\<lambda>aggregated_signature.
        assert_that (pk_verify B (pks_public_key B pk_set) aggregated_signature msg)))"

definition test_aggregate_signature_shares_not_enough_shares ::
  "('ps, 'pk, 'psh, 'ss, 'sk, 'ssh, 'sg, 'sgh) blsttc \<Rightarrow> (world, 'sg) eff" where
  "test_aggregate_signature_shares_not_enough_shares B =
     ebind (new_bls_key B 3) (\<lambda>sk_set.
     let shares = distribute_key_shares B sk_set 5;
         sig_shares = sign_shares B (take 3 shares) (ascii ''test message'')
     in unwrap (lift (aggregate_signature_shares B (sks_public_keys B sk_set) sig_shares)))"

text \<open>
  The test for shares of different messages signs with no more shares than the last one, so
  it panics for the same reason.
\<close>

definition test_aggregate_signature_shares_different_messages ::
  "('ps, 'pk, 'psh, 'ss, 'sk, 'ssh, 'sg, 'sgh) blsttc \<Rightarrow> (world, 'sg) eff" where
  "test_aggregate_signature_shares_different_messages B =
     ebind (new_bls_key B 3) (\<lambda>sk_set.
     let msg1 = ascii ''test message 1'';
         msg2 = ascii ''test message 2'';
         shares = distribute_key_shares B sk_set 5;
         sig_shares = map (\<lambda>(i, (sk_share, _)). ssh_sign B sk_share (if i = 0 then msg1 else msg2))
           (take 3 (enumerate 0 shares))
     in unwrap (lift (aggregate_signature_shares B (sks_public_keys B sk_set) sig_shares)))"

text \<open>A share of a signature verifies under its share of the key; too few shares do not combine.\<close>

definition share_laws :: "('ps, 'pk, 'psh, 'ss, 'sk, 'ssh, 'sg, 'sgh) blsttc \<Rightarrow> bool" where
  "share_laws B \<longleftrightarrow>
     (\<forall>s i m. psh_verify B (pks_public_key_share B (sks_public_keys B s) i)
        (ssh_sign B (sks_secret_key_share B s i) m) m) \<and>
     (\<forall>ps shares. length shares \<le> pks_threshold B ps \<longrightarrow> pks_combine_signatures B ps shares = None)"

lemma new_bls_key_drawn:
  assumes "bls_laws X B" "sks_random B t (rng w) = Some s"
  shows "new_bls_key B t w = (Ok s, w\<lparr>rng := Suc (rng w)\<rparr>)" "sks_threshold B s = t"
proof -
  show t: "sks_threshold B s = t" using assms unfolding bls_laws_def by blast
  then show "new_bls_key B t w = (Ok s, w\<lparr>rng := Suc (rng w)\<rparr>)"
    using assms(2) by (simp add: new_bls_key_def ebind_def draw_def)
qed

lemma steps_all_pass: "\<forall>m \<in> set ms. m = assert_that True \<Longrightarrow> steps ms w = (Ok (), w)"
  by (induction ms) (simp_all add: ebind_def assert_that_def)

lemma test_new_bls_key_passes:
  assumes B: "bls_laws X B"
    and t: "sks_random B 1 (rng w) \<noteq> None" "sks_random B 3 (Suc (rng w)) \<noteq> None" "sks_random B 5 (Suc (Suc (rng w))) \<noteq> None"
  shows "passes (test_new_bls_key B) w"
proof -
  obtain a b c where s: "sks_random B 1 (rng w) = Some a" "sks_random B 3 (rng (w\<lparr>rng := Suc (rng w)\<rparr>)) = Some b"
    "sks_random B 5 (rng (w\<lparr>rng := Suc (Suc (rng w))\<rparr>)) = Some c"
    using t by auto
  show ?thesis
    using new_bls_key_drawn[OF B s(1)] new_bls_key_drawn[OF B s(2)] new_bls_key_drawn[OF B s(3)]
    by (simp add: passes_def test_new_bls_key_def ebind_def assert_that_def lift_def)
qed

lemma test_shares_pass:
  assumes B: "bls_laws X B" "threshold_laws B" "share_laws B" and t: "\<And>t. t \<in> {2, 3} \<Longrightarrow> sks_random B t (rng w) \<noteq> None"
  shows "passes (test_distribute_key_shares B) w"
    "passes (test_distribute_key_shares_and_aggregate_signature_shares B) w"
    "passes_by_panic (test_aggregate_signature_shares_not_enough_shares B) w"
    "passes_by_panic (test_aggregate_signature_shares_different_messages B) w"
proof -
  obtain s2 s3 where s: "sks_random B 2 (rng w) = Some s2" "sks_random B 3 (rng w) = Some s3"
    using t[of 2] t[of 3] by auto
  note k2 = new_bls_key_drawn[OF B(1) s(1)] and k3 = new_bls_key_drawn[OF B(1) s(2)]
  have few: "pks_combine_signatures B (sks_public_keys B s3) shares = None" if "length shares \<le> 3" for shares
    using B that k3(2) unfolding share_laws_def by (metis bls_simps(10))
  have signed: "sign_shares B ks m = map (\<lambda>sh. ssh_sign B (fst sh) m) ks" for ks m
    by (simp add: sign_shares_def case_prod_beta)
  show "passes (test_distribute_key_shares B) w"
  proof -
    have "\<forall>m \<in> set (map (\<lambda>(sig_share, (_, pk_share)). assert_that (psh_verify B pk_share sig_share msg :: bool))
        (zip (sign_shares B (distribute_key_shares B s2 5) msg) (distribute_key_shares B s2 5))). m = assert_that True" for msg
      using B(3) by (auto simp: signed distribute_key_shares_def Let_def zip_map_map set_zip share_laws_def
          simp del: upt_Suc upt_rec_numeral)
    note pass = steps_all_pass[OF this]
    have "length (distribute_key_shares B s2 5) = 5" by (simp add: distribute_key_shares_def)
    then show ?thesis
      unfolding passes_def test_distribute_key_shares_def Let_def
      by (simp add: k2(1) assert_that_def[of True] ebind_def pass)
  qed
  show "passes (test_distribute_key_shares_and_aggregate_signature_shares B) w"
    using aggregate_distributed[OF B(2), of s2 5] B(1) k2
    by (simp add: passes_def test_distribute_key_shares_and_aggregate_signature_shares_def Let_def signed ebind_def
        unwrap_def expecting_def assert_that_def)
  show "passes_by_panic (test_aggregate_signature_shares_not_enough_shares B) w"
    by (simp add: passes_by_panic_def test_aggregate_signature_shares_not_enough_shares_def k3(1) ebind_def unwrap_def
        expecting_def aggregate_signature_shares_def few signed del: upt_Suc upt_rec_numeral)
  show "passes_by_panic (test_aggregate_signature_shares_different_messages B) w"
    by (simp add: passes_by_panic_def test_aggregate_signature_shares_different_messages_def k3(1) ebind_def unwrap_def
        expecting_def aggregate_signature_shares_def few del: upt_Suc upt_rec_numeral)
qed

text \<open>Where all the tests can run: there is room for the keys and for the database.\<close>

definition test_room :: "world \<Rightarrow> bool" where
  "test_room w \<longleftrightarrow> test_bed w \<and> free_dir w bls_dir \<and> free_dir w eth_dir \<and> free_dir w slash_dir \<and>
     \<not> is_dir w (path_collect [KEYS_DIR, ''test''])"

lemma room_after_draw: "test_room w \<Longrightarrow> test_room (w\<lparr>rng := n\<rparr>)"
  by (simp add: test_room_def test_bed_def emptied_def free_dir_def quiet_def lookup_def is_dir_def)

lemma bls_key_after_save:
  assumes "codec_laws X" "bls_laws X B" "test_room w"
  shows "\<exists>w'. save_bls_key X B s w = (Ok (), w') \<and> quiet w' \<and> fetch_bls_sk X B (pk_hex_of B s) w' = (Ok s, w') \<and>
    bls_key_exists (pk_hex_of B s) w' = (Ok True, w') \<and>
    bls_agg_sign_from_saved_sk X B (pk_hex_of B s) m w' = (Ok (sk_sign B (sks_secret_key B s) m), w') \<and>
    (\<exists>w''. delete_bls_key (pk_hex_of B s) w' = (Ok (), w'') \<and> bls_key_exists (pk_hex_of B s) w'' = (Ok False, w''))"
proof -
  let ?pk = "pk_hex_of B s"
  note X = codec_lawsD(1)[OF assms(1)]
  have w: "quiet w" "free_dir w bls_dir" using assms(3) by (simp_all add: test_room_def test_bed_def)
  obtain w' where w': "save_bls_key X B s w = (Ok (), w')" "quiet w'" "\<not> is_dir w' (bls_file ?pk)"
    "lookup w' = (lookup w)(bls_file ?pk \<mapsto> hex_encode X (sks_to_bytes B s))"
    using save_bls_key_quiet[OF X assms(2) w, of "pk_hex_of B s" s] by (auto simp: pk_hex_of_def)
  obtain w'' where w'': "delete_bls_key ?pk w' = (Ok (), w'')" "quiet w''" "lookup w'' = (lookup w')(bls_file ?pk := None)"
    "is_dir w'' = is_dir w'"
    using store_delete_quiet(1)[OF w'(2), of ?pk] w'(4) by auto
  have "bls_key_exists ?pk w' = (Ok True, w')" "bls_key_exists ?pk w'' = (Ok False, w'')"
    using bls_store.ex_quiet[OF w'(2,3)] bls_store.ex_quiet[OF w''(2), of ?pk] w'(3,4) w''(3,4) by simp_all
  moreover have "fetch_bls_sk X B ?pk w' = (Ok s, w')"
    by (rule fetch_after_save[OF w'(1) X assms(2) w'(2) _ refl]) (simp add: pk_hex_of_def)
  moreover have "bls_agg_sign_from_saved_sk X B ?pk m w' = (Ok (sk_sign B (sks_secret_key B s) m), w')"
    by (rule agg_sign_after_save(1)[OF w'(1) X assms(2) w'(2)]) (simp add: pk_hex_of_def)
  ultimately show ?thesis using w' w'' by blast
qed

lemma test_bls_keys_pass:
  assumes L: "codec_laws X" "bls_laws X B" and w: "test_room w" and t: "\<And>t. t \<in> {1, 3} \<Longrightarrow> sks_random B t (rng w) \<noteq> None"
  shows "passes (test_save_and_fetch_bls_key X B) w" "passes (test_bls_agg_sign_from_saved_sk_success X B) w"
proof -
  obtain s1 s3 where s: "sks_random B 1 (rng w) = Some s1" "sks_random B 3 (rng w) = Some s3"
    using t[of 1] t[of 3] by auto
  note k1 = new_bls_key_drawn(1)[OF L(2) s(1)] and k3 = new_bls_key_drawn(1)[OF L(2) s(2)]
  note room = room_after_draw[OF w, of "Suc (rng w)"]
  show "passes (test_save_and_fetch_bls_key X B) w"
    using bls_key_after_save[OF L room, of s3 "[]"]
    by (auto simp: passes_def test_save_and_fetch_bls_key_def k3 Let_def ebind_def expecting_def unwrap_def assert_that_def)
  show "passes (test_bls_agg_sign_from_saved_sk_success X B) w"
    using bls_key_after_save[OF L room, of s1 "ascii ''Hello, world!''"] L(2)
    by (auto simp: passes_def test_bls_agg_sign_from_saved_sk_success_def k1[simplified] Let_def ebind_def expecting_def unwrap_def assert_that_def)
qed

text \<open>The key of the test that must fail is one that nobody has saved.\<close>

lemma test_unsaved_key_panics:
  assumes L: "codec_laws X" "bls_laws X B" and w: "quiet w" and s: "sks_random B 1 (rng w) = Some s"
    and fresh: "lookup w (bls_file (pk_hex_of B s)) = None"
  shows "passes_by_panic (test_bls_agg_sign_from_saved_sk_fails_if_not_saved X B) w"
proof -
  let ?w = "w\<lparr>rng := Suc (rng w)\<rparr>"
  have "pk_hex_of B s = strip_0x_prefix (pk_hex_of B s)"
    using L by (simp add: pk_hex_of_def pk_to_hex_eq codec_lawsD)
  moreover have "lookup ?w = lookup w" by (simp add: lookup_def fun_eq_iff)
  ultimately have none: "fst (fetch_bls_sk X B (pk_hex_of B s) ?w) \<noteq> Ok r" for r
    using fresh fetch_bls_sk_Ok(1)[of X B "pk_hex_of B s" ?w r] by (metis option.distinct(1) prod.collapse)
  show ?thesis
    using none new_bls_key_drawn(1)[OF L(2) s]
    by (cases "fetch_bls_sk X B (pk_hex_of B s) ?w"; cases "fst (fetch_bls_sk X B (pk_hex_of B s) ?w)")
      (auto simp: passes_by_panic_def test_bls_agg_sign_from_saved_sk_fails_if_not_saved_def ebind_def expecting_def
        bls_agg_sign_from_saved_sk_def)
qed

section \<open>The tests of the ETH keys\<close>

definition test_sign_message :: "codec \<Rightarrow> ('esk, 'epk, 'emsg, 'esig) secp \<Rightarrow> (world, unit) eff" where
  "test_sign_message X E =
     ebind (unwrap (new_eth_key E)) (\<lambda>(secret_key, public_key).
     let message = ascii ''Test message for signing.'' in
     ebind (unwrap (lift (sign_message X E message secret_key))) (\<lambda>(signature, digest_to_sign).
     let digest_bytes = keccak256 X message in
     ebind (unwrap (lift (ok_or ''Message::parse_slice'' (msg_parse_slice E digest_bytes)))) (\<lambda>digest.
     steps [
       assert_that (digest = digest_to_sign),
       assert_that (secp_verify E digest_to_sign signature public_key)])))"

definition test_verify_message :: "codec \<Rightarrow> ('esk, 'epk, 'emsg, 'esig) secp \<Rightarrow> (world, unit) eff" where
  "test_verify_message X E =
     ebind (unwrap (new_eth_key E)) (\<lambda>(secret_key, public_key).
     let message = ascii ''abcdefghijklmnopqrstuvwxyz123456'' in
     ebind (unwrap (lift (sign_message X E message secret_key))) (\<lambda>(signature, digest_to_sign).
     steps [
       assert_that (secp_verify E digest_to_sign signature public_key),
       ebind (unwrap (lift (verify_message X E message (esig_serialize E signature) public_key))) assert_that]))"

definition test_eth_sk_pk_to_hex :: "codec \<Rightarrow> ('esk, 'epk, 'emsg, 'esig) secp \<Rightarrow> (world, unit) eff" where
  "test_eth_sk_pk_to_hex X E =
     ebind (unwrap (new_eth_key E)) (\<lambda>(secret_key, public_key).
     let secret_key_hex = eth_sk_to_hex X E secret_key;
         public_key_hex = eth_pk_to_hex X E public_key
     in steps [
       assert_that (secret_key_hex = hex_encode X (esk_serialize E secret_key)),
       assert_that (public_key_hex = hex_encode X (epk_serialize_compressed E public_key)),
       assert_that (public_key_hex \<noteq> hex_encode X (epk_serialize E public_key)),
       assert_that (length secret_key_hex = 64),
       assert_that (length public_key_hex = 66)])"

definition test_eth_pk_from_hex :: "codec \<Rightarrow> ('esk, 'epk, 'emsg, 'esig) secp \<Rightarrow> (world, unit) eff" where
  "test_eth_pk_from_hex X E =
     ebind (unwrap (new_eth_key E)) (\<lambda>(_, public_key).
     let public_key_hex = eth_pk_to_hex X E public_key in
     ebind (unwrap (lift (eth_pk_from_hex X E public_key_hex))) (\<lambda>recovered_public_key.
     assert_that (public_key = recovered_public_key)))"

definition test_eth_sk_from_bytes :: "('esk, 'epk, 'emsg, 'esig) secp \<Rightarrow> (world, unit) eff" where
  "test_eth_sk_from_bytes E =
     ebind (unwrap (new_eth_key E)) (\<lambda>(secret_key, _).
     ebind (unwrap (lift (eth_sk_from_bytes E (esk_serialize E secret_key)))) (\<lambda>recovered_secret_key.
     assert_that (secret_key = recovered_secret_key)))"

definition test_save_fetch_eth_key :: "codec \<Rightarrow> ('esk, 'epk, 'emsg, 'esig) secp \<Rightarrow> (world, unit) eff" where
  "test_save_fetch_eth_key X E =
     ebind (unwrap (new_eth_key E)) (\<lambda>(secret_key, public_key).
     let public_key_hex = eth_pk_to_hex X E public_key in
     ebind (unwrap (save_eth_key X E secret_key public_key)) (\<lambda>saved_public_key.
     steps [
       assert_that (public_key = saved_public_key),
       ebind (unwrap (fetch_eth_key X E public_key_hex)) (\<lambda>fetched. assert_that (secret_key = fetched))]))"

definition test_envelope_encrypt_and_decrypt :: "('esk, 'epk, 'emsg, 'esig) secp \<Rightarrow> (world, unit) eff" where
  "test_envelope_encrypt_and_decrypt E =
     ebind (unwrap (new_eth_key E)) (\<lambda>(secret_key, public_key).
     let message = ascii ''Test message for encryption.'' in
     ebind (unwrap (envelope_encrypt E public_key message)) (\<lambda>encrypted_message.
     ebind (unwrap (lift (envelope_decrypt E secret_key encrypted_message))) (\<lambda>decrypted_message.
     assert_that (message = decrypted_message))))"

definition test_envelope_decrypt_from_saved_sk :: "codec \<Rightarrow> ('esk, 'epk, 'emsg, 'esig) secp \<Rightarrow> (world, unit) eff" where
  "test_envelope_decrypt_from_saved_sk X E =
     ebind (unwrap (new_eth_key E)) (\<lambda>(secret_key, public_key).
     let eth_pk_hex = eth_pk_to_hex X E public_key in
     ebind (unwrap (save_eth_key X E secret_key public_key)) (\<lambda>_.
     let message = ascii ''Test message for encryption.'' in
     ebind (unwrap (envelope_encrypt E public_key message)) (\<lambda>encrypted_message.
     ebind (unwrap (envelope_decrypt_from_saved_sk X E eth_pk_hex encrypted_message)) (\<lambda>decrypted_message.
     assert_that (message = decrypted_message)))))"

lemma unwrap_Ok [simp]: "m w = (Ok x, w') \<Longrightarrow> unwrap m w = (Ok x, w')"
  by (simp add: unwrap_def expecting_def)

lemma assert_True [simp]: "assert_that True w = (Ok (), w)"
  by (simp add: assert_that_def)

lemma drawn_eth_key:
  "unwrap (new_eth_key E) w = (Ok (generate_keypair E (rng w)), w\<lparr>rng := Suc (rng w)\<rparr>)"
  by (rule unwrap_Ok) (simp add: new_eth_key_def ebind_def draw_def)

lemma test_eth_pure_pass:
  assumes L: "codec_laws X" "hash_laws X" "secp_laws E"
  shows "passes (test_sign_message X E) w" "passes (test_verify_message X E) w" "passes (test_eth_sk_pk_to_hex X E) w"
    "passes (test_eth_pk_from_hex X E) w" "passes (test_eth_sk_from_bytes E) w"
    "passes (test_envelope_encrypt_and_decrypt E) w"
proof -
  obtain sk pk where g: "generate_keypair E (rng w) = (sk, pk)" by fastforce
  then have kp: "key_pair E sk pk" by (auto simp: key_pair_def)
  note X = codec_lawsD(1)[OF L(1)]
  note d = drawn_eth_key[of E w, unfolded g]
  define h where "h m = the (msg_parse_slice E (keccak256 X m))" for m
  have h: "msg_parse_slice E (keccak256 X m) = Some (h m)" for m
    using msg_parse_32[OF L(3), of "keccak256 X m"] L(2) by (auto simp: h_def)
  have signed: "sign_message X E m sk = Ok (secp_sign E (h m) sk, h m)" for m
    by (simp add: sign_message_def h)
  show "passes (test_sign_message X E) w"
    using d L(3) kp by (simp add: passes_def test_sign_message_def signed h Let_def)
  show "passes (test_verify_message X E) w"
    using d L(3) kp verify_signed[OF L(3,2) kp, of "ascii ''abcdefghijklmnopqrstuvwxyz123456''"]
    by (auto simp: passes_def test_verify_message_def signed Let_def)
  show "passes (test_eth_sk_pk_to_hex X E) w"
  proof -
    have "epk_serialize_compressed E pk \<noteq> epk_serialize E pk"
      using secp_simps(5)[OF L(3), of pk] secp_simps(7)[OF L(3), of pk] by auto
    then show ?thesis using d L(3) X by (simp add: passes_def test_eth_sk_pk_to_hex_def Let_def eth_sk_to_hex_def eth_pk_to_hex_def)
  qed
  show "passes (test_eth_pk_from_hex X E) w"
    using d eth_pk_hex_roundtrip[OF X L(3)] by (simp add: passes_def test_eth_pk_from_hex_def Let_def)
  show "passes (test_eth_sk_from_bytes E) w"
    using d eth_sk_roundtrip[OF L(3)] by (simp add: passes_def test_eth_sk_from_bytes_def)
  show "passes (test_envelope_encrypt_and_decrypt E) w"
    using d kp envelope_encrypt_total[OF L(3), of pk "ascii ''Test message for encryption.''" "w\<lparr>rng := Suc (rng w)\<rparr>"]
    by (auto simp: passes_def test_envelope_encrypt_and_decrypt_def Let_def)
qed

lemma test_eth_saved_pass:
  assumes L: "codec_laws X" "secp_laws E" and w: "test_room w"
  shows "passes (test_save_fetch_eth_key X E) w" "passes (test_envelope_decrypt_from_saved_sk X E) w"
proof -
  obtain sk pk where g: "generate_keypair E (rng w) = (sk, pk)" by fastforce
  then have kp: "key_pair E sk pk" by (auto simp: key_pair_def)
  note X = codec_lawsD(1)[OF L(1)]
  note d = drawn_eth_key[of E w, unfolded g]
  have room: "quiet (w\<lparr>rng := Suc (rng w)\<rparr>)" "free_dir (w\<lparr>rng := Suc (rng w)\<rparr>) eth_dir"
    using room_after_draw[OF w] by (simp_all add: test_room_def test_bed_def)
  obtain w1 where w1: "save_eth_key X E sk pk (w\<lparr>rng := Suc (rng w)\<rparr>) = (Ok pk, w1)" "quiet w1"
    using save_eth_key_quiet[OF X L(2) room refl] by blast
  have fetch: "fetch_eth_key X E (eth_pk_to_hex X E pk) v = (Ok sk, v)" if "quiet v" "lookup v = lookup w1" for v
    using that by (intro fetch_after_save_eth[OF w1(1) X L(2) _ refl]) simp_all
  show "passes (test_save_fetch_eth_key X E) w"
    using d w1 fetch[OF w1(2) refl] by (simp add: passes_def test_save_fetch_eth_key_def Let_def)
  let ?m = "ascii ''Test message for encryption.''"
  obtain c w2 where c: "envelope_encrypt E pk ?m w1 = (Ok c, w2)" "lookup w2 = lookup w1" "faults w2 = faults w1"
    "envelope_decrypt E sk c = Ok ?m"
    using envelope_encrypt_total[OF L(2), of pk ?m w1] kp by blast
  have "quiet w2" using w1(2) c(3) by (simp add: quiet_def)
  from fetch[OF this c(2)] show "passes (test_envelope_decrypt_from_saved_sk X E) w"
    using d w1(1) c(1,4)
    by (simp add: passes_def test_envelope_decrypt_from_saved_sk_def Let_def envelope_decrypt_from_saved_sk_def)
qed

lemma test_write_key_passes:
  assumes w: "test_room w"
  shows "passes test_write_key w"
proof -
  let ?d = "[''.'', ''data'', ''keys'']"
  have p: "path_collect [KEYS_DIR, ''test''] = ?d @ [''test'']"
    by (simp add: path_collect_def path_push_def path_of_def is_absolute_def normal_comps_def KEYS_DIR_def)
  have "set (prefixes_of ?d) \<subseteq> set (prefixes_of bls_dir)"
    by (simp add: prefixes_of_def bls_dir_def upt_rec)
  then have none: "\<forall>q \<in> set (prefixes_of ?d). lookup w q = None"
    using w by (auto simp: test_room_def free_dir_def)
  let ?w = "w\<lparr>dirs := remdups (prefixes_of ?d @ dirs w)\<rparr>"
  have w1: "create_dir_all ?d w = (Ok (), ?w)" "quiet ?w"
    using w none by (auto simp: test_room_def test_bed_def quiet_def intro!: create_dir_all_quiet)
  have "writable ?w (?d @ [''test''])"
    using w p prefixes_of_self[of ?d] prefixes_of_length[of "?d @ [''test'']" ?d] unfolding test_room_def writable_def is_dir_create
    by (auto simp: parent_def)
  then have "fs_write (?d @ [''test'']) ''abcdef123456'' ?w = (Ok (), put (?d @ [''test'']) ''abcdef123456'' ?w)"
    by (rule fs_write_quiet[OF w1(2)])
  then have "write_key (?d @ [''test'']) ''abcdef123456'' w = (Ok (), put (?d @ [''test'']) ''abcdef123456'' ?w)"
    using w1(1) by (simp add: write_key_def ebind_def in_context_def parent_def)
  then show ?thesis
    using w1(2) clear_data_last unfolding passes_def test_write_key_def Let_def p
    by (simp add: read_file_quiet)
qed

end
