(* ===== verification/Unit_Tests_Enclave.thy ===== *)
theory Unit_Tests_Enclave
  imports Unit_Tests_Keys Ready_To_Sign
begin

text \<open>
  The unit test of src/enclave/validator/mod.rs: a validator key is dealt out to four
  guardians, each opens its share, signs with it, and the signatures combine.
\<close>

fun new_guardians :: "('esk, 'epk, 'emsg, 'esig) secp \<Rightarrow> nat \<Rightarrow> ('esk \<times> 'epk) list \<Rightarrow> (world, ('esk \<times> 'epk) list) eff" where
  "new_guardians E 0 gs = ret gs"
| "new_guardians E (Suc n) gs = ebind (unwrap (new_eth_key E)) (\<lambda>g. new_guardians E n (gs @ [g]))"

definition open_share ::
  "codec \<Rightarrow> ('ps, 'pk, 'psh, 'ss, 'sk, 'ssh, 'sg, 'sgh) blsttc \<Rightarrow> ('esk, 'epk, 'emsg, 'esig) secp \<Rightarrow>
   'esk \<times> ('epk, 'psh) EncryptedRecipientKeys \<Rightarrow> 'ssh res" where
  "open_share X B E = (\<lambda>(eth_sk, k).
     rbind (ok_or ''hex::decode'' (hex_decode X (encrypted_secret_key_share_hex k))) (\<lambda>enc_sk_bytes.
     rbind (envelope_decrypt E eth_sk enc_sk_bytes) (\<lambda>sk_bytes.
     rbind (if length sk_bytes = 32 then Ok sk_bytes else Err (External ''TryFromSliceError'')) (\<lambda>sk_bytes.
     ok_or ''SecretKeyShare::from_bytes'' (ssh_from_bytes B sk_bytes)))))"

definition test_shared_key ::
  "codec \<Rightarrow> ('ps, 'pk, 'psh, 'ss, 'sk, 'ssh, 'sg, 'sgh) blsttc \<Rightarrow> ('esk, 'epk, 'emsg, 'esig) secp \<Rightarrow> (world, unit) eff" where
  "test_shared_key X B E =
     (let n = 4; withdrawal_credentials = replicate 32 0; threshold = 3; msg = ascii ''hello puffer'' in
      ebind (new_guardians E n []) (\<lambda>guardians.
      ebind (new_bls_key B (threshold - 1)) (\<lambda>secret_key_set.
      let validator_pk_set = sks_public_keys B secret_key_set;
          validator_pk = pks_public_key B validator_pk_set;
          key_shares = distribute_key_shares B secret_key_set n in
      ebind (unwrap (encrypt_shares X B E (zip (map snd guardians) key_shares) [])) (\<lambda>recipient_keys.
      ebind (unwrap (save_bls_key X B secret_key_set)) (\<lambda>_.
      ebind (unwrap (lift (sign_full_deposit X B secret_key_set withdrawal_credentials (replicate 4 0)))) (\<lambda>(signature, dd_root).
      ebind (unwrap (lift (build_validator_remote_attestation_payload X B E validator_pk_set signature dd_root
               (map encrypted_secret_key_share_hex recipient_keys) (map erk_guardian_public_key recipient_keys)))) (\<lambda>payload.
      ebind (unwrap (lift (mapM (open_share X B E) (zip (map fst guardians) recipient_keys)))) (\<lambda>sk_shares.
      let sig_shares = map (\<lambda>sk_share. ssh_sign B sk_share msg) sk_shares;
          pk_shares = map erk_public_key_share recipient_keys;
          text_of = (\<lambda>pk_share. hex_encode X (psh_to_bytes B pk_share)) in
      ebind (steps [
        assert_that (length sig_shares = n \<and> length pk_shares = n),
        assert_that (\<forall>i < n. psh_verify B (pk_shares ! i) (sig_shares ! i) msg),
        assert_that (pk_to_hex B (pks_public_key B validator_pk_set) = pk_to_hex B validator_pk),
        assert_that (\<forall>i < n. text_of (pk_shares ! i) = text_of (pks_public_key_share B validator_pk_set i)),
        assert_that (\<forall>i < n. text_of (ssh_public_key_share B (sk_shares ! i)) =
          text_of (pks_public_key_share B validator_pk_set i))]) (\<lambda>_.
      ebind (unwrap (lift (aggregate_signature_shares B validator_pk_set sig_shares))) (\<lambda>rec_sig.
      assert_that (pk_verify B validator_pk rec_sig msg)))))))))))"

lemma new_guardians_total:
  "\<exists>gs. new_guardians E n acc w = (Ok (acc @ gs), w\<lparr>rng := rng w + n\<rparr>) \<and> length gs = n \<and>
     (\<forall>g \<in> set gs. key_pair E (fst g) (snd g))"
proof (induction n arbitrary: acc w)
  case (Suc n)
  let ?g = "generate_keypair E (rng w)"
  obtain gs where gs: "new_guardians E n (acc @ [?g]) (w\<lparr>rng := Suc (rng w)\<rparr>) =
      (Ok ((acc @ [?g]) @ gs), (w\<lparr>rng := Suc (rng w)\<rparr>)\<lparr>rng := Suc (rng w) + n\<rparr>)" "length gs = n"
    "\<forall>g \<in> set gs. key_pair E (fst g) (snd g)"
    using Suc.IH[of "acc @ [?g]" "w\<lparr>rng := Suc (rng w)\<rparr>"] by auto
  have "key_pair E (fst ?g) (snd ?g)" by (auto simp: key_pair_def)
  with gs show ?case
    by (intro exI[of _ "?g # gs"]) (simp add: drawn_eth_key)
qed simp

lemma encrypt_shares_public:
  "encrypt_shares X B E ks acc w = (Ok es, w') \<Longrightarrow>
     map erk_public_key_share es = map erk_public_key_share acc @ map (snd \<circ> snd) ks"
proof (induction ks arbitrary: acc w)
  case (Cons k ks)
  then show ?case
    by (cases k) (auto simp: res_simps encrypt_to_recipient_def dest!: Cons.IH)
qed simp

lemma share_opened:
  assumes L: "codec_laws X" "bls_laws X B" "secp_laws E" and k: "key_pair E sk pk"
    and s: "share_for X B E s i pk (encrypted_secret_key_share_hex r)"
  shows "open_share X B E (sk, r) = Ok (sks_secret_key_share B s i)"
proof -
  obtain d c where c: "encrypted_secret_key_share_hex r = hex_encode X c"
    "ecies_encrypt E d (epk_serialize E pk) (ssh_to_bytes B (sks_secret_key_share B s i)) = Some c"
    using s by (auto simp: share_for_def)
  have "ecies_decrypt E (esk_serialize E sk) c = Some (ssh_to_bytes B (sks_secret_key_share B s i))"
    by (rule ecies_open[OF L(3) k c(2)])
  then show ?thesis
    using c(1) codec_lawsD(1)[OF L(1)] L(2) by (simp add: open_share_def envelope_decrypt_def)
qed

lemma test_shared_key_passes:
  assumes L: "codec_laws X" "bls_laws X B" "threshold_laws B" "share_laws B" "secp_laws E"
    and w: "test_room w" and t: "sks_random B 2 (rng w + 4) \<noteq> None"
  shows "passes (test_shared_key X B E) w"
proof -
  note C = codec_lawsD[OF L(1)]
  obtain gs where gs: "new_guardians E 4 [] w = (Ok gs, w\<lparr>rng := rng w + 4\<rparr>)" "length gs = 4"
    "\<forall>g \<in> set gs. key_pair E (fst g) (snd g)"
    using new_guardians_total[of E 4 "[]" w] by auto
  let ?w1 = "w\<lparr>rng := rng w + 4\<rparr>"
  obtain s where s: "sks_random B 2 (rng ?w1) = Some s" using t by auto
  note n = new_bls_key_drawn[OF L(2) s]
  obtain es m where es: "encrypt_shares X B E (zip (map snd gs) (distribute_key_shares B s (length (map snd gs)))) []
      (?w1\<lparr>rng := Suc (rng ?w1)\<rparr>) = (Ok es, ?w1\<lparr>rng := m\<rparr>)"
    using encrypt_shares_total[OF L(5), of X B "zip (map snd gs) (distribute_key_shares B s (length (map snd gs)))" "[]"
        "?w1\<lparr>rng := Suc (rng ?w1)\<rparr>"] by auto
  note R = recipient_shares[OF es]
  obtain w3 where save: "save_bls_key X B s (?w1\<lparr>rng := m\<rparr>) = (Ok (), w3)"
    using bls_key_after_save[OF L(1,2), of "w\<lparr>rng := m\<rparr>" s "[]"] room_after_draw[OF w] by auto
  obtain g r where d: "sign_full_deposit X B s (replicate 32 0) (replicate 4 0) = Ok (g, r)"
    using sign_full_deposit_eq[OF C(5) L(2)] by (simp add: Let_def)
  have "\<forall>h \<in> set (map encrypted_secret_key_share_hex es). \<exists>c. h = hex_encode X c"
    using R(1,3) unfolding share_for_def by (fastforce simp: in_set_conv_nth)
  then obtain pl where pl: "build_validator_remote_attestation_payload X B E (sks_public_keys B s) g r
      (map encrypted_secret_key_share_hex es) (map erk_guardian_public_key es) = Ok pl"
    using payload_total[OF C(1), where B = B and E = E] by blast
  let ?ks = "map (sks_secret_key_share B s) [0..<4]"
  have opened: "mapM (open_share X B E) (zip (map fst gs) es) = Ok ?ks"
    unfolding mapM_Ok_iff
  proof (intro conjI allI impI)
    fix i assume "i < length (zip (map fst gs) es)"
    with R(1) gs(2) have i: "i < 4" by simp
    with gs(2,3) have "key_pair E (fst (gs ! i)) (snd (gs ! i))" by (metis nth_mem)
    from share_opened[OF L(1,2,5) this, of s i "es ! i"] R i gs(2)
    show "open_share X B E (zip (map fst gs) es ! i) = Ok (?ks ! i)" by simp
  qed (use R(1) gs(2) in simp)
  have pub: "map erk_public_key_share es = map (pks_public_key_share B (sks_public_keys B s)) [0..<4]"
    using encrypt_shares_public[OF es] gs(2)
    by (intro nth_equalityI) (auto simp: distribute_nth dest: arg_cong[where f = length])
  have shares: "length ?ks = 4" "\<forall>i < 4. ?ks ! i = sks_secret_key_share B s i"
    "\<forall>i < 4. map erk_public_key_share es ! i = pks_public_key_share B (sks_public_keys B s) i"
    unfolding pub by simp_all
  have agg: "aggregate_signature_shares B (sks_public_keys B s) (map (\<lambda>k. ssh_sign B k m) ?ks) = Ok (sk_sign B (sks_secret_key B s) m)" for m
    using aggregate_distributed[OF L(3), of s 4 m] n(2) by (simp add: distribute_key_shares_def Let_def comp_def)
  have len: "length es = 4" using R(1) gs(2) by simp
  let ?msg = "ascii ''hello puffer''"
  have sound: "\<forall>i < 4. psh_verify B (map erk_public_key_share es ! i) (map (\<lambda>k. ssh_sign B k ?msg) ?ks ! i) ?msg"
    "\<forall>i < 4. hex_encode X (psh_to_bytes B (map erk_public_key_share es ! i)) =
      hex_encode X (psh_to_bytes B (pks_public_key_share B (sks_public_keys B s) i))"
    "\<forall>i < 4. hex_encode X (psh_to_bytes B (ssh_public_key_share B (?ks ! i))) =
      hex_encode X (psh_to_bytes B (pks_public_key_share B (sks_public_keys B s) i))"
    using shares(3) L(2,4) by (auto simp: share_laws_def)
  have enc: "unwrap (encrypt_shares X B E (zip (map snd gs) (distribute_key_shares B s 4)) []) (?w1\<lparr>rng := Suc (rng ?w1)\<rparr>) =
      (Ok es, ?w1\<lparr>rng := m\<rparr>)"
    by (rule unwrap_Ok) (use es gs(2) in simp)
  have drawn: "new_bls_key B (3 - 1) ?w1 = (Ok s, ?w1\<lparr>rng := Suc (rng ?w1)\<rparr>)" using n(1) by simp
  have saved: "unwrap (save_bls_key X B s) (?w1\<lparr>rng := m\<rparr>) = (Ok (), w3)"
    by (rule unwrap_Ok) (rule save)
  have lifted: "unwrap (lift (Ok x)) v = (Ok x, v)" for x and v :: world
    by (rule unwrap_Ok) simp
  show ?thesis
    unfolding passes_def test_shared_key_def Let_def
    by (simp only: gs(1) drawn enc saved lifted ebind_Ok d pl opened agg
          prod.case steps_simps sound[THEN eqTrueI] length_upt diff_zero refl simp_thms assert_True length_map len shares(1) bls_simps(8)[OF L(2)] fst_conv)
qed

end
