(* ===== verification/Unit_Tests_Data.thy ===== *)
theory Unit_Tests_Data
  imports Unit_Tests Eth_Json
begin

text \<open>
  The unit tests of src/eth2/eth\_types.rs: texts of the signing interface, read into the types
  of the model. Each test is given by the value of its JSON text.
\<close>

definition vrr_root_bytes :: bytes where
  "vrr_root_bytes =
     [19, 157, 89, 219, 177, 119, 15, 220, 88, 47, 247, 81, 147, 114, 3, 82, 204, 199, 97, 49, 227,
      122, 198, 157, 12, 16, 231, 65, 111, 63, 48, 80]"

definition from_text :: "codec \<Rightarrow> (json \<Rightarrow> 'a res) \<Rightarrow> string \<Rightarrow> ('w, 'a) eff" where
  "from_text X de raw = lift (rbind (ok_or ''serde_json::from_str'' (json_from_slice X raw)) de)"

definition fork_json :: "codec \<Rightarrow> u64 \<Rightarrow> json" where
  "fork_json X n =
     JObj [
       (''previous_version'', JStr ''0x00000001''),
       (''current_version'', JStr ''0x00000001''),
       (''epoch'', quoted_u64_ser X n)]"

definition test_deserialize_fork :: "codec \<Rightarrow> string \<Rightarrow> ('w, unit) eff" where
  "test_deserialize_fork X raw =
     ebind (from_text X (de_Fork X) raw) (\<lambda>v. steps [
       assert_that (fork_previous_version v = [0, 0, 0, 1]),
       assert_that (fork_current_version v = [0, 0, 0, 1]),
       assert_that (fork_epoch v = 10)])"

definition fork_info_json :: "codec \<Rightarrow> json" where
  "fork_info_json X =
     JObj [
       (''fork'', fork_json X 999),
       (''genesis_validators_root'', JStr ''0x04700007fabc8282644aed6d1c7c9e21d38a03a0c4ba193f3afe428824b3a673'')]"

definition test_deserialize_fork_info :: "codec \<Rightarrow> string \<Rightarrow> ('w, unit) eff" where
  "test_deserialize_fork_info X raw =
     ebind (from_text X (de_ForkInfo X) raw) (\<lambda>v. steps [
       assert_that (fork_previous_version (fi_fork v) = [0, 0, 0, 1]),
       assert_that (fork_current_version (fi_fork v) = [0, 0, 0, 1]),
       assert_that (fork_epoch (fi_fork v) = 999),
       assert_that (fi_genesis_validators_root v = gvr_bytes),
       assert_that (hex_encode X (fi_genesis_validators_root v) =
         ''04700007fabc8282644aed6d1c7c9e21d38a03a0c4ba193f3afe428824b3a673'')])"

definition deposit_message_json :: "codec \<Rightarrow> json" where
  "deposit_message_json X =
     JObj [
       (''pubkey'', JStr ''0x8349434ad0700e79be65c0c7043945df426bd6d7e288c16671df69d822344f1b0ce8de80360a50550ad782b68035cb18''),
       (''withdrawal_credentials'', JStr ''0x04700007fabc8282644aed6d1c7c9e21d38a03a0c4ba193f3afe428824b3a673''),
       (''amount'', quoted_u64_ser X 10000)]"

definition test_deserialize_deposit_message :: "codec \<Rightarrow> string \<Rightarrow> ('w, unit) eff" where
  "test_deserialize_deposit_message X raw =
     ebind (from_text X (de_DepositMessage X) raw) (\<lambda>dd. steps [
       assert_that (dm_withdrawal_credentials dd = gvr_bytes),
       assert_that (dm_amount dd = 10000)])"

definition validator_registration_json :: "codec \<Rightarrow> json" where
  "validator_registration_json X =
     JObj [
       (''type'', JStr ''VALIDATOR_REGISTRATION''),
       (''signingRoot'', JStr ''0x139d59dbb1770fdc582ff75193720352ccc76131e37ac69d0c10e7416f3f3050''),
       (''validator_registration'', JObj [
         (''fee_recipient'', JStr ''0x2a2a2a2a2a2a2a2a2a2a2a2a2a2a2a2a2a2a2a2a''),
         (''gas_limit'', quoted_u64_ser X 30000000),
         (''timestamp'', quoted_u64_ser X 100),
         (''pubkey'', JStr ''0x8349434ad0700e79be65c0c7043945df426bd6d7e288c16671df69d822344f1b0ce8de80360a50550ad782b68035cb18'')])]"

definition test_deserialize_validator_registration :: "codec \<Rightarrow> string \<Rightarrow> ('w, unit) eff" where
  "test_deserialize_validator_registration X raw =
     ebind (expecting ''called Result::unwrap() on an Err value'' (from_text X (de_ValidatorRegistrationRequest X) raw)) (\<lambda>v. steps [
       assert_that (vrr_signingRoot v = Some vrr_root_bytes),
       assert_that (vr_gas_limit (vrr_validator_registration v) = 30000000),
       assert_that (vr_timestamp (vrr_validator_registration v) = 100),
       assert_that (vr_fee_recipient (vrr_validator_registration v) = replicate 20 42),
       assert_that (vr_pubkey (vrr_validator_registration v) = pk_bytes)])"

lemma more_hex_texts:
  assumes "hex_text_law X"
  shows "hex_encode X vrr_root_bytes =
      ''139d59dbb1770fdc582ff75193720352ccc76131e37ac69d0c10e7416f3f3050''"
    "hex_encode X (replicate 20 42) = ''2a2a2a2a2a2a2a2a2a2a2a2a2a2a2a2a2a2a2a2a''"
    "hex_encode X [0, 0, 0, 1] = ''00000001''"
  unfolding assms[unfolded hex_text_law_def, rule_format] by code_simp+

lemma fork_json_hex:
  assumes "hex_text_law X"
  shows "fork_json X n =
     JObj [(''previous_version'', JStr (CHR ''0'' # CHR ''x'' # hex_encode X [0, 0, 0, 1])),
       (''current_version'', JStr (CHR ''0'' # CHR ''x'' # hex_encode X [0, 0, 0, 1])),
       (''epoch'', quoted_u64_ser X n)]"
    "fork_info_json X =
     JObj [(''fork'', fork_json X 999), (''genesis_validators_root'', JStr (CHR ''0'' # CHR ''x'' # hex_encode X gvr_bytes))]"
    "deposit_message_json X =
     JObj [(''pubkey'', JStr (CHR ''0'' # CHR ''x'' # hex_encode X pk_bytes)),
       (''withdrawal_credentials'', JStr (CHR ''0'' # CHR ''x'' # hex_encode X gvr_bytes)),
       (''amount'', quoted_u64_ser X 10000)]"
    "validator_registration_json X =
     JObj [(''type'', JStr ''VALIDATOR_REGISTRATION''),
       (''signingRoot'', JStr (CHR ''0'' # CHR ''x'' # hex_encode X vrr_root_bytes)),
       (''validator_registration'', JObj [
         (''fee_recipient'', JStr (CHR ''0'' # CHR ''x'' # hex_encode X (replicate 20 42))),
         (''gas_limit'', quoted_u64_ser X 30000000),
         (''timestamp'', quoted_u64_ser X 100),
         (''pubkey'', JStr (CHR ''0'' # CHR ''x'' # hex_encode X pk_bytes))])]"
  by (simp_all only: fork_json_def fork_info_json_def deposit_message_json_def validator_registration_json_def
      more_hex_texts[OF assms] hex_texts[OF assms])

lemma read_fork:
  assumes "codec_laws X" "hex_text_law X"
  shows "de_Fork X (fork_json X n) = Ok \<lparr>fork_previous_version = [0, 0, 0, 1], fork_current_version = [0, 0, 0, 1], fork_epoch = n\<rparr>"
  unfolding fork_json_hex[OF assms(2)]
  by (simp add: de_Fork_def object_field_def field_values_def required_def read_hex[OF assms(1)] read_quoted[OF assms(1)])

lemma test_eth_types_pass:
  assumes X: "codec_laws X" "hex_text_law X"
  shows "json_from_slice X raw = Some (fork_json X 10) \<Longrightarrow> passes (test_deserialize_fork X raw) w"
    "json_from_slice X raw = Some (fork_info_json X) \<Longrightarrow> passes (test_deserialize_fork_info X raw) w"
    "json_from_slice X raw = Some (deposit_message_json X) \<Longrightarrow> passes (test_deserialize_deposit_message X raw) w"
    "json_from_slice X raw = Some (validator_registration_json X) \<Longrightarrow>
      passes (test_deserialize_validator_registration X raw) w"
proof -
  note rd = object_field_def field_values_def required_def default_field_def de_str_def de_signing_root_def
    read_hex[OF X(1)] read_quoted[OF X(1)] read_fork[OF X] test_bytes_length
  have info: "de_ForkInfo X (fork_info_json X) = Ok \<lparr>fi_fork = \<lparr>fork_previous_version = [0, 0, 0, 1],
      fork_current_version = [0, 0, 0, 1], fork_epoch = 999\<rparr>, fi_genesis_validators_root = gvr_bytes\<rparr>"
    unfolding fork_json_hex(2)[OF X(2)] by (simp add: de_ForkInfo_def rd)
  have deposit: "de_DepositMessage X (deposit_message_json X) = Ok \<lparr>dm_pubkey = pk_bytes,
      dm_withdrawal_credentials = gvr_bytes, dm_amount = 10000\<rparr>"
    unfolding fork_json_hex(3)[OF X(2)] by (simp add: de_DepositMessage_def rd)
  have "length vrr_root_bytes = 32" by (simp add: vrr_root_bytes_def)
  then have registration: "de_ValidatorRegistrationRequest X (validator_registration_json X) = Ok \<lparr>vrr_signingRoot = Some vrr_root_bytes,
      vrr_validator_registration = \<lparr>vr_fee_recipient = replicate 20 42, vr_gas_limit = 30000000, vr_timestamp = 100, vr_pubkey = pk_bytes\<rparr>\<rparr>"
    unfolding fork_json_hex(4)[OF X(2)]
    by (simp add: de_ValidatorRegistrationRequest_def de_ValidatorRegistration_def rd)
  show "json_from_slice X raw = Some (fork_json X 10) \<Longrightarrow> passes (test_deserialize_fork X raw) w"
    by (simp add: passes_def test_deserialize_fork_def from_text_def read_fork[OF X] assert_that_def ebind_def)
  show "json_from_slice X raw = Some (fork_info_json X) \<Longrightarrow> passes (test_deserialize_fork_info X raw) w"
    by (simp add: passes_def test_deserialize_fork_info_def from_text_def info assert_that_def ebind_def hex_texts[OF X(2)])
  show "json_from_slice X raw = Some (deposit_message_json X) \<Longrightarrow> passes (test_deserialize_deposit_message X raw) w"
    by (simp add: passes_def test_deserialize_deposit_message_def from_text_def deposit assert_that_def ebind_def)
  show "json_from_slice X raw = Some (validator_registration_json X) \<Longrightarrow>
      passes (test_deserialize_validator_registration X raw) w"
    by (simp add: passes_def test_deserialize_validator_registration_def from_text_def registration assert_that_def ebind_def
        expecting_def)
qed

end
