(* ===== verification/Properties_Tests.thy ===== *)
theory Properties_Tests
  imports Unit_Tests_Enclave Unit_Tests_Data Demo_Cli
begin

text \<open>The model passes the unit tests of the modules it translates.\<close>

section \<open>The test suite\<close>

definition data_tests :: "codec \<Rightarrow> string list \<Rightarrow> (world, unit) eff list" where
  "data_tests X raws = [
     test_deserialize X (raws ! 0), test_new_db X, test_blocks X, test_attestations X,
     test_deserialize_fork X (raws ! 1), test_deserialize_fork_info X (raws ! 2),
     test_deserialize_deposit_message X (raws ! 3), test_deserialize_validator_registration X (raws ! 4)]"

definition test_values :: "codec \<Rightarrow> json list" where
  "test_values X = [dummy_slash_protection_data X, fork_json X 10, fork_info_json X, deposit_message_json X,
     validator_registration_json X]"

definition key_tests ::
  "codec \<Rightarrow> ('ps, 'pk, 'psh, 'ss, 'sk, 'ssh, 'sg, 'sgh) blsttc \<Rightarrow> ('esk, 'epk, 'emsg, 'esig) secp \<Rightarrow> (world, unit) eff list" where
  "key_tests X B E = [
     test_write_key, test_write_eth_key, test_write_bls_key,
     test_write_read_delete_eth_key X, test_write_read_delete_bls_key X, test_list_eth_keys, test_list_bls_keys,
     test_new_bls_key B, test_save_and_fetch_bls_key X B, test_bls_agg_sign_from_saved_sk_success X B, test_distribute_key_shares B,
     test_distribute_key_shares_and_aggregate_signature_shares B,
     test_sign_message X E, test_verify_message X E, test_eth_sk_pk_to_hex X E, test_eth_pk_from_hex X E,
     test_eth_sk_from_bytes E, test_save_fetch_eth_key X E, test_envelope_encrypt_and_decrypt E,
     test_envelope_decrypt_from_saved_sk X E, test_shared_key X B E]"

definition panicking_tests ::
  "codec \<Rightarrow> ('ps, 'pk, 'psh, 'ss, 'sk, 'ssh, 'sg, 'sgh) blsttc \<Rightarrow> (world, 'sg) eff list" where
  "panicking_tests X B = [
     test_bls_agg_sign_from_saved_sk_fails_if_not_saved X B, test_aggregate_signature_shares_not_enough_shares B,
     test_aggregate_signature_shares_different_messages B]"

text \<open>
  C27: the unit tests of the repository hold of the model. With cryptography that keeps its
  documented promises, on any disk that has room for keys and databases, whatever is stored
  there already, each test of the slashing database, the JSON types, the key files, the two
  kinds of keys and the key shared among guardians ends without a failed assertion; and each that should panic does, given
  that nobody has saved the random key which the first of them expects to be unknown.
\<close>

theorem unit_tests_pass:
  assumes L: "codec_laws X" "hash_laws X" "hex_text_law X" "bls_laws X B" "threshold_laws B" "share_laws B" "secp_laws E"
    and raws: "map (json_from_slice X) raws = map Some (test_values X)"
    and w: "test_room w" and t: "\<And>t. t \<in> {1, 2, 3} \<Longrightarrow> sks_random B t (rng w) \<noteq> None" "sks_random B 2 (rng w + 4) \<noteq> None"
      "sks_random B 3 (Suc (rng w)) \<noteq> None" "sks_random B 5 (Suc (Suc (rng w))) \<noteq> None"
    and fresh: "\<And>s. sks_random B 1 (rng w) = Some s \<Longrightarrow> lookup w (bls_file (pk_hex_of B s)) = None"
  shows "(\<forall>test \<in> set (data_tests X raws). passes test w) \<and> (\<forall>test \<in> set (key_tests X B E). passes test w) \<and>
    (\<forall>test \<in> set (panicking_tests X B). passes_by_panic test w)"
proof -
  have "length (test_values X) = 5" by (simp add: test_values_def)
  then have r: "json_from_slice X (raws ! i) = Some (test_values X ! i)" if "i < 5" for i
    using arg_cong[OF raws, of "\<lambda>xs. xs ! i"] that arg_cong[OF raws, of length] by simp
  note R = r[of 0] r[of 1] r[of 2] r[of 3] r[of 4]
  have room: "quiet w" "free_dir w slash_dir" "test_bed w" using w by (simp_all add: test_room_def test_bed_def)
  have t13: "sks_random B t (rng w) \<noteq> None" if "t \<in> {1, 3}" for t using that by (intro t(1)) auto
  have t23: "sks_random B t (rng w) \<noteq> None" if "t \<in> {2, 3}" for t using that by (intro t(1)) auto
  have "\<forall>test \<in> set (data_tests X raws). passes test w"
    using R test_eth_types_pass[OF L(1,3), of _ w]
    by (simp add: data_tests_def test_values_def test_deserialize_passes[OF L(1,3)] test_new_db_passes[OF L(3)]
        test_blocks_passes[OF L(1) room(1,2)] test_attestations_passes[OF L(1) room(1,2)])
  moreover have "\<forall>test \<in> set (key_tests X B E). passes test w"
    using test_bls_keys_pass[OF L(1,4) w t13] test_shares_pass[OF L(4-6) t23]
    by (simp add: key_tests_def test_new_bls_key_passes[OF L(4) t(1)[of 1] t(3,4)] test_write_key_passes[OF w] test_write_passes[OF room(3)]
        test_store_passes[OF L(1,3) room(3)] test_eth_pure_pass[OF L(1,2,7)] test_eth_saved_pass[OF L(1,7) w]
        test_shared_key_passes[OF L(1,4-7) w t(2)])
  moreover have "\<forall>test \<in> set (panicking_tests X B). passes_by_panic test w"
    using test_unsaved_key_panics[OF L(1,4) room(1) _ fresh] test_shares_pass(3,4)[OF L(4-6) t23] t(1)[of 1]
    by (auto simp: panicking_tests_def)
  ultimately show ?thesis by blast
qed

lemma demo_share_laws: "share_laws demo_blsttc"
  by (auto simp: share_laws_def demo_blsttc_def split: list.splits)

lemma demo_test_room: "test_room empty_world"
  by (auto simp: test_room_def test_bed_def emptied_def empty_world_def quiet_def lookup_def is_dir_def free_dir_def below_def
      data_dir_def bls_dir_def eth_dir_def slash_dir_def path_collect_def path_push_def path_of_def is_absolute_def
      normal_comps_def KEYS_DIR_def)

lemma test_field_names [simp]:
  "is_utf8 ''metadata''" "is_utf8 ''data''" "is_utf8 ''interchange_format_version''" "is_utf8 ''genesis_validators_root''"
  "is_utf8 ''5''" "is_utf8 ''previous_version''" "is_utf8 ''current_version''"
  "is_utf8 ''epoch''" "is_utf8 ''fork''" "is_utf8 ''withdrawal_credentials''" "is_utf8 ''amount''" "is_utf8 ''type''"
  "is_utf8 ''VALIDATOR_REGISTRATION''" "is_utf8 ''signingRoot''" "is_utf8 ''validator_registration''" "is_utf8 ''fee_recipient''"
  "is_utf8 ''gas_limit''" "is_utf8 ''timestamp''"
  by code_simp+

lemma printable_test_values:
  assumes "codec_laws X" "hex_text_law X"
  shows "\<forall>j \<in> set (test_values X). printable j"
proof -
  have "printable (quoted_u64_ser X n)" for n
    using codec_lawsD(3)[OF assms(1)] unfolding quoted_laws_def by blast
  then show ?thesis
    unfolding test_values_def dummy_texts[OF assms(2)] fork_json_hex[OF assms(2)]
    by (simp add: codec_lawsD(1)[OF assms(1)])
qed

theorem unit_tests_pass_witness:
  "passes (test_blocks demo_codec) empty_world \<and>
   passes (test_envelope_decrypt_from_saved_sk demo_codec demo_secp) empty_world \<and>
   passes (test_shared_key demo_codec demo_blsttc demo_secp) empty_world \<and>
   passes_by_panic (test_aggregate_signature_shares_not_enough_shares demo_blsttc) empty_world"
proof -
  have "json_laws demo_codec" using demo_codec_laws by (simp add: codec_laws_def)
  then have raws: "map (json_from_slice demo_codec) (map (json_to_string demo_codec) (test_values demo_codec)) =
      map Some (test_values demo_codec)"
    using printable_test_values[OF demo_codec_laws demo_hex_text] by (simp add: json_laws_def)
  have t: "sks_random demo_blsttc t (rng empty_world) \<noteq> None" if "t \<in> {1, 2, 3}" for t
    using that by (auto simp: demo_blsttc_def empty_world_def)
  have fresh: "lookup empty_world (bls_file (pk_hex_of demo_blsttc s)) = None" for s
    by (simp add: empty_world_def lookup_def)
  have t2: "sks_random demo_blsttc 2 (rng empty_world + 4) \<noteq> None" "sks_random demo_blsttc 3 (Suc (rng empty_world)) \<noteq> None"
    "sks_random demo_blsttc 5 (Suc (Suc (rng empty_world))) \<noteq> None"
    by (simp_all add: demo_blsttc_def empty_world_def)
  from unit_tests_pass[OF demo_codec_laws demo_hash_laws demo_hex_text demo_bls_laws demo_threshold_laws demo_share_laws
      demo_secp_laws raws demo_test_room t t2 fresh] show ?thesis
    by (simp add: data_tests_def key_tests_def panicking_tests_def)
qed

end
