(* ===== verification/Client_Tests.thy ===== *)
theory Client_Tests
  imports Unit_Tests_Enclave Signer_Client
begin

text \<open>
  src/client/tests/: the tests that drive the running servers through their clients. A test
  that only calls the servers is an operation on the state of the network; one that also
  makes keys of its own runs on the world of its host beside it. \<open>dbg!\<close> prints and
  returns its argument.
\<close>

section \<open>What the tests share\<close>

definition build_client :: Client where
  "build_client =
     ClientBuilder_build
       (ClientBuilder_guardian_url ''http://localhost:9002''
         (ClientBuilder_validator_url ''http://localhost:9003'' ClientBuilder_new))"

definition zero_address :: string where
  "zero_address = ''0x0000000000000000000000000000000000000000''"

definition ForkInfo_default :: ForkInfo where
  "ForkInfo_default =
     \<lparr>fi_fork = \<lparr>fork_previous_version = replicate 4 0, fork_current_version = replicate 4 0, fork_epoch = 0\<rparr>,
      fi_genesis_validators_root = replicate 32 0\<rparr>"

text \<open>Custody of share 0, then its exit; both registration tests end with it.\<close>

definition custody_then_exit ::
  "codec \<Rightarrow> 'epk wire \<Rightarrow> 'n reqwest \<Rightarrow> GuardianClient \<Rightarrow> 'epk ValidateCustodyRequest \<Rightarrow> ('n, unit) eff" where
  "custody_then_exit X W R guardian req =
     ebind (unwrap (GuardianClient_validate_custody X W R guardian req)) (\<lambda>resp3.
     let req = \<lparr>se_bls_pub_key_set = bls_pub_key_set (keygen_payload req), se_guardian_index = 0,
                se_validator_index = 0, se_fork_info = ForkInfo_default\<rparr> in
     ebind (unwrap (GuardianClient_sign_exit X R guardian req)) (\<lambda>resp4.
     ret ()))"

section \<open>mod.rs\<close>

definition registration_flow_succeeds ::
  "codec \<Rightarrow> ('esk, 'epk, 'emsg, 'esig) secp \<Rightarrow> 'epk wire \<Rightarrow> 'n reqwest \<Rightarrow> ('n, unit) eff" where
  "registration_flow_succeeds X E W R =
     (let verify = False;
          withdrawal_credentials = replicate 32 1;
          threshold = 1;
          client = build_client
      in ebind (unwrap (GuardianClient_attest_fresh_eth_key X W R (cl_guardian client) 0 zero_address 1)) (\<lambda>resp1.
         ebind (unwrap (GuardianClient_list_eth_keys X R (cl_guardian client))) (\<lambda>r.
         ebind (assert_that (0 < length (lk_data r))) (\<lambda>_.
         ebind (unwrap (lift (eth_pk_from_hex_uncompressed X E (kg_pk_hex resp1)))) (\<lambda>guardian_pk.
         let payload = \<lparr>af_guardian_pubkeys = [guardian_pk], af_withdrawal_credentials = withdrawal_credentials,
                        af_threshold = threshold, af_fork_version = GENESIS_FORK_VERSION,
                        af_do_remote_attestation = verify\<rparr> in
         ebind (unwrap (ValidatorClient_attest_fresh_bls_key X E R (cl_validator client) payload)) (\<lambda>resp2.
         custody_then_exit X W R (cl_guardian client)
           \<lparr>keygen_payload = resp2, guardian_enclave_public_key = guardian_pk, workload_id = ''test-workload-id'',
            verify_session = verify, vc_validator_index = 0\<rparr>))))))"

definition test_cli_keygen_verified_by_guardians ::
  "codec \<Rightarrow> ('ps, 'pk, 'psh, 'ss, 'sk, 'ssh, 'sg, 'sgh) blsttc \<Rightarrow> ('esk, 'epk, 'emsg, 'esig) secp \<Rightarrow>
   keystore_crate \<Rightarrow> 'epk wire \<Rightarrow> 'n reqwest \<Rightarrow> (world \<times> 'n, unit) eff" where
  "test_cli_keygen_verified_by_guardians X B E K W R =
     (let client = build_client;
          verify = False;
          withdrawal_credentials = replicate 32 1;
          threshold = 1;
          password = ''password''
      in ebind (on_second (unwrap
           (GuardianClient_attest_fresh_eth_key X W R (cl_guardian client) 0 zero_address 1))) (\<lambda>resp1.
         ebind (unwrap (lift (eth_pk_from_hex_uncompressed X E (kg_pk_hex resp1)))) (\<lambda>guardian_pk.
         let bls_keygen_input = \<lparr>af_guardian_pubkeys = [guardian_pk], af_withdrawal_credentials = withdrawal_credentials,
                        af_threshold = threshold, af_fork_version = GENESIS_FORK_VERSION,
                        af_do_remote_attestation = verify\<rparr> in
         ebind (on_first (unwrap (generate_bls_keystore_handler X B E K bls_keygen_input password))) (\<lambda>bls_keygen_payload.
         on_second (custody_then_exit X W R (cl_guardian client)
           \<lparr>keygen_payload = bls_keygen_payload, guardian_enclave_public_key = guardian_pk, workload_id = [],
            verify_session = verify, vc_validator_index = 0\<rparr>)))))"

section \<open>guardian.rs\<close>

definition guardian_health_with_success :: "'n reqwest \<Rightarrow> ('n, unit) eff" where
  "guardian_health_with_success R = ebind (GuardianClient_health R (cl_guardian build_client)) assert_that"

definition call_attest_fresh_eth_with_success :: "codec \<Rightarrow> 'epk wire \<Rightarrow> 'n reqwest \<Rightarrow> ('n, unit) eff" where
  "call_attest_fresh_eth_with_success X W R =
     ebind (unwrap (GuardianClient_attest_fresh_eth_key X W R (cl_guardian build_client) 0 zero_address 1)) (\<lambda>_. ret ())"

definition call_attest_fresh_eth_with_failure_bad_address :: "codec \<Rightarrow> 'epk wire \<Rightarrow> 'n reqwest \<Rightarrow> ('n, unit) eff" where
  "call_attest_fresh_eth_with_failure_bad_address X W R =
     assert_err (GuardianClient_attest_fresh_eth_key X W R (cl_guardian build_client) 0 ''not_an_address'' 1)"

text \<open>
  The share of each guardian opens, and its public key is the one of the key set. Indexing
  past the encrypted shares panics.
\<close>

definition open_own_share ::
  "codec \<Rightarrow> ('ps, 'pk, 'psh, 'ss, 'sk, 'ssh, 'sg, 'sgh) blsttc \<Rightarrow> ('esk, 'epk, 'emsg, 'esig) secp \<Rightarrow>
   BlsKeygenPayload \<Rightarrow> 'ps \<Rightarrow> nat \<times> 'esk \<Rightarrow> ('w, unit) eff" where
  "open_own_share X B E resp pk_set = (\<lambda>(i, g_sk).
     ebind (lift (case elem_at (bls_enc_priv_key_shares resp) i of Some h \<Rightarrow> Ok h | None \<Rightarrow> Panic ''index out of bounds'')) (\<lambda>enc.
     ebind (unwrap (lift (ok_or ''hex::decode'' (hex_decode X enc)))) (\<lambda>enc_sk_bytes.
     ebind (unwrap (lift (envelope_decrypt E g_sk enc_sk_bytes))) (\<lambda>sk_bytes.
     ebind (unwrap (lift (if length sk_bytes = 32 then Ok sk_bytes else Err (External ''TryFromSliceError'')))) (\<lambda>sk_bytes.
     ebind (unwrap (lift (ok_or ''SecretKeyShare::from_bytes'' (ssh_from_bytes B sk_bytes)))) (\<lambda>sk_share.
     assert_that (hex_encode X (psh_to_bytes B (pks_public_key_share B pk_set i)) =
       hex_encode X (psh_to_bytes B (ssh_public_key_share B sk_share)))))))))"

text \<open>
  \<open>call_validate_custody_with_success\<close> and \<open>call_attest_fresh_bls_key_and_decrypt\<close>
  differ in the number of guardians, the threshold and whether evidence is asked for.
\<close>

definition provision_and_decrypt ::
  "nat \<Rightarrow> u64 \<Rightarrow> bool \<Rightarrow> codec \<Rightarrow> ('ps, 'pk, 'psh, 'ss, 'sk, 'ssh, 'sg, 'sgh) blsttc \<Rightarrow>
   ('esk, 'epk, 'emsg, 'esig) secp \<Rightarrow> 'n reqwest \<Rightarrow> (world \<times> 'n, unit) eff" where
  "provision_and_decrypt n threshold ra X B E R =
     ebind (on_first (new_guardians E n [])) (\<lambda>guardians.
     let client = ClientBuilder_build ClientBuilder_new;
         payload = \<lparr>af_guardian_pubkeys = map snd guardians, af_withdrawal_credentials = replicate 32 1,
                    af_threshold = threshold, af_fork_version = GENESIS_FORK_VERSION,
                    af_do_remote_attestation = ra\<rparr> in
     ebind (on_second (unwrap (ValidatorClient_attest_fresh_bls_key X E R (cl_validator client) payload))) (\<lambda>resp.
     ebind (unwrap (lift (ok_or ''hex::decode'' (hex_decode X (bls_pub_key_set resp))))) (\<lambda>b.
     ebind (unwrap (lift (ok_or ''PublicKeySet::from_bytes'' (pks_from_bytes B b)))) (\<lambda>pk_set.
     steps (map (open_own_share X B E resp pk_set) (enumerate 0 (map fst guardians)))))))"

definition call_validate_custody_with_success ::
  "codec \<Rightarrow> ('ps, 'pk, 'psh, 'ss, 'sk, 'ssh, 'sg, 'sgh) blsttc \<Rightarrow> ('esk, 'epk, 'emsg, 'esig) secp \<Rightarrow>
   'n reqwest \<Rightarrow> (world \<times> 'n, unit) eff" where
  "call_validate_custody_with_success = provision_and_decrypt 8 7 False"

section \<open>secure\_signer.rs\<close>

definition signer_health_with_success :: "'n reqwest \<Rightarrow> ('n, unit) eff" where
  "signer_health_with_success R = ebind (SecureSignerClient_health R (cl_secure_signer build_client)) assert_that"

definition call_generate_eth_key_with_success :: "codec \<Rightarrow> 'epk wire \<Rightarrow> 'n reqwest \<Rightarrow> ('n, unit) eff" where
  "call_generate_eth_key_with_success X W R =
     ebind (unwrap (SecureSignerClient_generate_eth_key X W R (cl_secure_signer build_client))) (\<lambda>_. ret ())"

definition call_generate_bls_key_with_success :: "codec \<Rightarrow> 'epk wire \<Rightarrow> 'n reqwest \<Rightarrow> ('n, unit) eff" where
  "call_generate_bls_key_with_success X W R =
     ebind (unwrap (SecureSignerClient_generate_bls_key X W R (cl_secure_signer build_client))) (\<lambda>_. ret ())"

definition call_list_eth_keys_with_success :: "codec \<Rightarrow> 'epk wire \<Rightarrow> 'n reqwest \<Rightarrow> ('n, unit) eff" where
  "call_list_eth_keys_with_success X W R =
     ebind (unwrap (SecureSignerClient_generate_eth_key X W R (cl_secure_signer build_client))) (\<lambda>_.
     ebind (unwrap (SecureSignerClient_list_eth_keys X R (cl_secure_signer build_client))) (\<lambda>r.
     assert_that (1 < length (lk_data r))))"

definition call_list_bls_keys_with_success :: "codec \<Rightarrow> 'epk wire \<Rightarrow> 'n reqwest \<Rightarrow> ('n, unit) eff" where
  "call_list_bls_keys_with_success X W R =
     ebind (unwrap (SecureSignerClient_generate_bls_key X W R (cl_secure_signer build_client))) (\<lambda>_.
     ebind (unwrap (SecureSignerClient_list_bls_keys X R (cl_secure_signer build_client))) (\<lambda>r.
     assert_that (1 < length (lk_data r))))"

section \<open>validator.rs\<close>

definition validator_health_with_success :: "'n reqwest \<Rightarrow> ('n, unit) eff" where
  "validator_health_with_success R = ebind (ValidatorClient_health R (cl_validator build_client)) assert_that"

definition hex_to_pubkey :: "codec \<Rightarrow> ('esk, 'epk, 'emsg, 'esig) secp \<Rightarrow> string \<Rightarrow> ('w, 'epk) eff" where
  "hex_to_pubkey X E key =
     (let hex_string = strip_0x_prefix key in
      ebind (unwrap (lift (ok_or ''hex::decode'' (hex_decode X hex_string)))) (\<lambda>bytes.
      unwrap (lift (ok_or ''PublicKey::parse_slice'' (epk_parse_slice E bytes)))))"

text \<open>The key all the guardians of these tests have.\<close>

definition recorded_key :: string where
  "recorded_key = ''04fad76420abd33cfd92f51f31c47fe678922e476281b21aa8a738bcd56e37a776f678c94592d6aefd17af48b508feb1f27e82da4c0c46a253830e4d8637b3fbaf''"

definition recorded_payload ::
  "codec \<Rightarrow> ('esk, 'epk, 'emsg, 'esig) secp \<Rightarrow> ('w, 'epk AttestFreshBlsKeyPayload) eff" where
  "recorded_payload X E =
     ebind (hex_to_pubkey X E recorded_key) (\<lambda>k1.
     ebind (hex_to_pubkey X E (''0x'' @ recorded_key)) (\<lambda>k2.
     ebind (hex_to_pubkey X E recorded_key) (\<lambda>k3.
     ebind (hex_to_pubkey X E (''0x'' @ recorded_key)) (\<lambda>k4.
     ret \<lparr>af_guardian_pubkeys = [k1, k2, k3, k4], af_withdrawal_credentials = replicate 32 0, af_threshold = 3,
          af_fork_version = GENESIS_FORK_VERSION, af_do_remote_attestation = True\<rparr>))))"

definition keygen_for_recorded ::
  "codec \<Rightarrow> ('esk, 'epk, 'emsg, 'esig) secp \<Rightarrow> 'n reqwest \<Rightarrow> ('n, BlsKeygenPayload) eff" where
  "keygen_for_recorded X E R =
     (let client = ClientBuilder_build ClientBuilder_new in
      ebind (recorded_payload X E) (\<lambda>payload.
      unwrap (ValidatorClient_attest_fresh_bls_key X E R (cl_validator client) payload)))"

definition call_attest_fresh_bls_key_with_success ::
  "codec \<Rightarrow> ('esk, 'epk, 'emsg, 'esig) secp \<Rightarrow> 'n reqwest \<Rightarrow> ('n, unit) eff" where
  "call_attest_fresh_bls_key_with_success X E R = ebind (keygen_for_recorded X E R) (\<lambda>_. ret ())"

definition call_attest_fresh_bls_key_and_decrypt ::
  "codec \<Rightarrow> ('ps, 'pk, 'psh, 'ss, 'sk, 'ssh, 'sg, 'sgh) blsttc \<Rightarrow> ('esk, 'epk, 'emsg, 'esig) secp \<Rightarrow>
   'n reqwest \<Rightarrow> (world \<times> 'n, unit) eff" where
  "call_attest_fresh_bls_key_and_decrypt = provision_and_decrypt 4 3 True"

definition sign_voluntary_exit_message_with_success ::
  "codec \<Rightarrow> ('ps, 'pk, 'psh, 'ss, 'sk, 'ssh, 'sg, 'sgh) blsttc \<Rightarrow> ('esk, 'epk, 'emsg, 'esig) secp \<Rightarrow>
   ssz_serde \<Rightarrow> 'n reqwest \<Rightarrow> ('n, unit) eff" where
  "sign_voluntary_exit_message_with_success X B E S R =
     ebind (keygen_for_recorded X E R) (\<lambda>resp.
     let client = ClientBuilder_build ClientBuilder_new;
         epoch = 0;
         validator_index = 1559;
         fork_info = ForkInfo_default in
     ebind (unwrap (ValidatorClient_sign_voluntary_exit_message X S R (cl_validator client) (bls_pub_key resp) epoch
              validator_index fork_info)) (\<lambda>vem.
     let stripped = strip_0x_prefix (sr_signature vem) in
     ebind (unwrap (lift (ok_or ''hex::decode'' (hex_decode X stripped)))) (\<lambda>b.
     ebind (unwrap (lift (if length b = 96 then Ok b else Err (External ''TryFromSliceError'')))) (\<lambda>b.
     ebind (unwrap (lift (ok_or ''Signature::from_bytes'' (sig_from_bytes B b)))) (\<lambda>sig.
     let vem_req = \<lparr>ver_fork_info = fork_info, ver_signingRoot = None,
                    ver_voluntary_exit = \<lparr>ve_epoch = epoch, ve_validator_index = validator_index\<rparr>\<rparr>;
         root = to_signing_root X (VOLUNTARY_EXIT vem_req) None in
     ebind (unwrap (lift (kp_public_key_set X B resp))) (\<lambda>pk_set.
     assert_that (pk_verify B (pks_public_key B pk_set) sig root)))))))"

definition sign_message_deposit_message ::
  "codec \<Rightarrow> ('esk, 'epk, 'emsg, 'esig) secp \<Rightarrow> ssz_serde \<Rightarrow> 'n reqwest \<Rightarrow> ('n, unit) eff" where
  "sign_message_deposit_message X E S R =
     ebind (keygen_for_recorded X E R) (\<lambda>resp.
     let client = ClientBuilder_build ClientBuilder_new in
     ebind (unwrap (lift (ok_or ''hex::decode'' (hex_decode X recorded_key)))) (\<lambda>b.
     let deposit_request = \<lparr>dr_signingRoot = None,
           dr_deposit = \<lparr>dm_pubkey = BLSPubkey_from X b, dm_withdrawal_credentials = replicate 32 0, dm_amount = 0\<rparr>,
           dr_genesis_fork_version = GENESIS_FORK_VERSION\<rparr>;
         req = DEPOSIT deposit_request in
     ebind (unwrap (send_json X R (vcl_url (cl_validator client) @ ''/api/v1/eth2/sign/'' @ bls_pub_key resp)
              (se_BLSSignMsg X S req))) (\<lambda>resp.
     assert_that (wp_status resp = 400))))"

end
