(* ===== verification/Client_Tests_Laws.thy ===== *)
theory Client_Tests_Laws
  imports Client_Tests
begin

text \<open>
  What the tests of the clients rely on: servers that work, the listing of a directory that
  holds nothing but keys, and the handlers that add one.
\<close>

section \<open>Key directories\<close>

definition working :: "world \<Rightarrow> bool" where
  "working w \<longleftrightarrow> quiet w \<and> free_dir w bls_dir \<and> free_dir w eth_dir \<and> free_dir w slash_dir"

definition keys_only :: "codec \<Rightarrow> path \<Rightarrow> world \<Rightarrow> bool" where
  "keys_only X d w \<longleftrightarrow> (\<forall>k \<in> children w d. \<exists>b. b \<noteq> [] \<and> k = hex_encode X b)"

definition agent_works :: "services \<Rightarrow> bool" where
  "agent_works N \<longleftrightarrow> (\<forall>d v. \<exists>e. evidence_new N d v = (Ok e, v))"

lemma children_free: "free_dir w d \<Longrightarrow> children w d = {n. lookup w (d @ [n]) \<noteq> None}"
  by (auto simp: children_def free_dir_def is_dir_def)

lemma not_prefix_of: "d @ [n] \<notin> set (prefixes_of d)"
  using prefixes_of_length[of "d @ [n]" d] by auto

text \<open>A key written to its directory is one name more there, and the others keep their room.\<close>

lemma children_written:
  assumes "free_dir w d" "lookup w' = (lookup w)(d @ [n] \<mapsto> s)" "\<forall>p. is_dir w' p \<longleftrightarrow> is_dir w p \<or> p \<in> set (prefixes_of d)"
  shows "children w' d = insert n (children w d)" "is_dir w' d" "free_dir w' d"
proof -
  show f: "free_dir w' d" using assms not_prefix_of by (auto simp: free_dir_def)
  show "children w' d = insert n (children w d)"
    unfolding children_free[OF f] children_free[OF assms(1)] assms(2) by auto
  show "is_dir w' d" using assms(1,3) prefixes_of_self by (auto simp: free_dir_def)
qed

lemma key_dirs_apart:
  "bls_dir @ [n] \<notin> set (prefixes_of eth_dir)" "bls_dir @ [n] \<notin> set (prefixes_of slash_dir)"
  "eth_dir @ [n] \<notin> set (prefixes_of bls_dir)" "slash_dir @ [n] \<notin> set (prefixes_of bls_dir)"
  "slash_dir @ [n] \<notin> set (prefixes_of eth_dir)" "eth_dir @ [n] \<notin> set (prefixes_of slash_dir)"
  by (simp_all add: bls_dir_def eth_dir_def slash_dir_def prefixes_of_def upt_rec)

lemma working_written:
  assumes "working w" "quiet w'" "lookup w' = (lookup w)(d @ [n] \<mapsto> s)" "d \<in> {bls_dir, eth_dir, slash_dir}"
    "\<forall>p. is_dir w' p \<longleftrightarrow> is_dir w p \<or> p \<in> set (prefixes_of d)"
  shows "working w'"
  using assms key_dirs_apart not_prefix_of[of bls_dir] not_prefix_of[of eth_dir] not_prefix_of[of slash_dir]
  by (fastforce simp: working_def free_dir_def)

lemma working_draw [simp]: "working (w\<lparr>rng := n\<rparr>) = working w"
  by (simp add: working_def)

lemma list_quiet:
  assumes "hex_laws X" "quiet w" "is_dir w (path_of d)" "keys_only X (path_of d) w"
  shows "list_fnames d w = (Ok (dir_entries w (path_of d)), w)"
    "ListKeysResponse_new (dir_entries w (path_of d)) =
       Ok \<lparr>lk_data = map (\<lambda>k. \<lparr>lk_pubkey = ''0x'' @ k\<rparr>) (dir_entries w (path_of d))\<rparr>"
proof -
  show "list_fnames d w = (Ok (dir_entries w (path_of d)), w)"
    by (rule list_fnames_quiet) (use assms in \<open>auto simp: keys_only_def\<close>)
  show "ListKeysResponse_new (dir_entries w (path_of d)) =
       Ok \<lparr>lk_data = map (\<lambda>k. \<lparr>lk_pubkey = ''0x'' @ k\<rparr>) (dir_entries w (path_of d))\<rparr>"
    by (rule list_keys_Ok) (use assms in \<open>auto simp: keys_only_def set_dir_entries\<close>)
qed

text \<open>The listing endpoints answer one entry per name.\<close>

lemma list_handlers_answer:
  assumes "hex_laws X" "quiet w"
  shows "is_dir w bls_dir \<Longrightarrow> keys_only X bls_dir w \<Longrightarrow>
      \<exists>r. list_bls_keys_handler w = (Response HTTP_OK (JsonBody r), w) \<and> length (lk_data r) = card (children w bls_dir)"
    and "is_dir w eth_dir \<Longrightarrow> keys_only X eth_dir w \<Longrightarrow>
      \<exists>r. list_eth_keys_handler w = (Response HTTP_OK (JsonBody r), w) \<and> length (lk_data r) = card (children w eth_dir)"
  using list_quiet[OF assms, of BLS_KEYS_DIR] list_quiet[OF assms, of ETH_KEYS_DIR]
    distinct_card[OF distinct_dir_entries, of w bls_dir] distinct_card[OF distinct_dir_entries, of w eth_dir]
  by (auto simp: list_bls_keys_handler_def list_eth_keys_handler_def list_bls_keys_def list_eth_keys_def
      list_keys_response_def path_of_dirs set_dir_entries)

section \<open>New keys\<close>

lemma eth_key_gen_working:
  assumes X: "hex_laws X" and E: "secp_laws E" and w: "working w"
  shows "\<exists>sk pk w'. eth_key_gen X E w = (Ok pk, w') \<and> generate_keypair E (rng w) = (sk, pk) \<and> working w' \<and>
    fetch_eth_key X E (eth_pk_to_hex X E pk) w' = (Ok sk, w') \<and> is_dir w' eth_dir \<and>
    children w' eth_dir = insert (eth_pk_to_hex X E pk) (children w eth_dir)"
proof -
  obtain sk pk where g: "generate_keypair E (rng w) = (sk, pk)" by fastforce
  let ?h = "eth_pk_to_hex X E pk"
  have "epk_serialize_compressed E pk \<noteq> []" using secp_simps(7)[OF E, of pk] by (metis list.size(3) zero_neq_numeral)
  then have f: "eth_file ?h = eth_dir @ [?h]"
    using X by (simp add: eth_file_def plain_hex_encode)
  let ?w = "w\<lparr>rng := Suc (rng w)\<rparr>"
  have q: "quiet ?w" "free_dir ?w eth_dir" "working ?w" using w by (simp_all add: working_def)
  obtain w' where w': "save_eth_key X E sk pk ?w = (Ok pk, w')" "quiet w'"
    "lookup w' = (lookup ?w)(eth_dir @ [?h] \<mapsto> hex_encode X (esk_serialize E sk))"
    "\<forall>p. is_dir w' p \<longleftrightarrow> is_dir ?w p \<or> p \<in> set (prefixes_of eth_dir)"
    using save_eth_key_quiet[OF X E q(1,2) refl, of sk pk] f by auto
  have "eth_key_gen X E w = (Ok pk, w')"
    using w'(1) g by (simp add: eth_key_gen_def new_eth_key_def ebind_def draw_def ret_def in_context_def)
  moreover have "fetch_eth_key X E ?h w' = (Ok sk, w')"
    by (rule fetch_after_save_eth[OF w'(1) X E w'(2) refl refl])
  moreover have "working w'" by (rule working_written[OF q(3) w'(2,3) _ w'(4)]) simp
  moreover have "children ?w eth_dir = children w eth_dir" by (simp add: children_def lookup_def)
  ultimately show ?thesis
    using g children_written[OF q(2) w'(3,4)] by auto
qed

lemma working_guardian_key:
  assumes L: "codec_laws X" "secp_laws E" "agent_works N" and w: "working w" "keys_only X eth_dir w"
    and a: "address_parse H (strip_0x_prefix addr) \<noteq> None"
  shows "\<exists>sk pk e w'. attest_fresh_eth_key_handler X E N H
      \<lparr>kb_block_number = bn, kb_guardian_module_address = addr, kb_chain_id = ci\<rparr> w =
        (Response CREATED (JsonBody (from_eth_key X E pk e)), w') \<and> key_pair E sk pk \<and> working w' \<and>
    fetch_eth_key X E (eth_pk_to_hex X E pk) w' = (Ok sk, w') \<and> is_dir w' eth_dir \<and>
    children w' eth_dir = insert (eth_pk_to_hex X E pk) (children w eth_dir) \<and> keys_only X eth_dir w'"
proof -
  note X = codec_lawsD(1)[OF L(1)]
  obtain sk pk w' where k: "eth_key_gen X E w = (Ok pk, w')" "generate_keypair E (rng w) = (sk, pk)" "working w'"
    "fetch_eth_key X E (eth_pk_to_hex X E pk) w' = (Ok sk, w')" "is_dir w' eth_dir"
    "children w' eth_dir = insert (eth_pk_to_hex X E pk) (children w eth_dir)"
    using eth_key_gen_working[OF X L(2) w(1)] by blast
  obtain b where b: "address_parse H (strip_0x_prefix addr) = Some b" using a by auto
  obtain G where G: "\<And>d v. evidence_new N d v = (Ok (G d v), v)" using L(3) unfolding agent_works_def by metis
  have "epk_serialize_compressed E pk \<noteq> []" using secp_simps(7)[OF L(2), of pk] by (metis list.size(3) zero_neq_numeral)
  then have "keys_only X eth_dir w'" using w(2) k(6) X by (auto simp: keys_only_def)
  then show ?thesis
    using k b G by (fastforce simp: attest_fresh_eth_key_handler_def on_ok_def attest_new_eth_key_with_blockhash_def
        in_context_def ebind_def lift_def ret_def Let_def key_pair_def)
qed

end
