(* ===== verification/Unit_Tests_Keystore.thy ===== *)
theory Unit_Tests_Keystore
  imports Unit_Tests_Enclave Remote_Calls
begin

text \<open>
  The unit tests that use an encrypted keystore: one each of src/io/key\_management.rs,
  src/crypto/bls\_keys.rs and src/client/keygen.rs, and the two of src/crypto/keystore.rs. They
  rest on what the crate \<open>eth_keystore\<close> documents, stated here as \<open>keystore_disk\<close>.
\<close>

section \<open>The crate\<close>

text \<open>
  A keystore opens with its password and with no other; one is written to a directory
  that can be written to, under the name asked for, else under the id that is returned.
\<close>

definition sealed :: "keystore_crate \<Rightarrow> bytes \<Rightarrow> string \<Rightarrow> string \<Rightarrow> bool" where
  "sealed K sk pw s \<longleftrightarrow> decrypt_keystore K s pw = Ok sk \<and> (\<forall>pw'. pw' \<noteq> pw \<longrightarrow> (\<exists>e. decrypt_keystore K s pw' = Err e))"

definition keystore_disk :: "keystore_crate \<Rightarrow> bool" where
  "keystore_disk K \<longleftrightarrow>
     (\<forall>d r sk pw name w. quiet w \<longrightarrow> (\<forall>n. writable w (d @ [n])) \<longrightarrow> (\<forall>n. name = Some n \<longrightarrow> plain n) \<longrightarrow>
        (\<exists>uuid w' s. encrypt_key K d r sk pw name w = (Ok uuid, w') \<and> plain uuid \<and> quiet w' \<and> is_dir w' = is_dir w \<and>
           lookup w' = (lookup w)(d @ [case name of Some n \<Rightarrow> n | None \<Rightarrow> uuid] \<mapsto> s) \<and> sealed K sk pw s)) \<and>
     (\<forall>p pw w s. quiet w \<longrightarrow> lookup w p = Some s \<longrightarrow> decrypt_key K p pw w = (decrypt_keystore K s pw, w))"

lemma sealed_other: "sealed K sk pw s \<Longrightarrow> pw' \<noteq> pw \<Longrightarrow> \<exists>e. decrypt_keystore K s pw' = Err e"
  by (simp add: sealed_def)

lemma keystore_diskD:
  assumes "keystore_disk K"
  shows "quiet w \<Longrightarrow> (\<forall>n. writable w (d @ [n])) \<Longrightarrow> (\<forall>n. name = Some n \<longrightarrow> plain n) \<Longrightarrow>
      \<exists>uuid w' s. encrypt_key K d r sk pw name w = (Ok uuid, w') \<and> plain uuid \<and> quiet w' \<and> is_dir w' = is_dir w \<and>
        lookup w' = (lookup w)(d @ [case name of Some n \<Rightarrow> n | None \<Rightarrow> uuid] \<mapsto> s) \<and> sealed K sk pw s"
    "quiet w \<Longrightarrow> lookup w p = Some s \<Longrightarrow> decrypt_key K p pw w = (decrypt_keystore K s pw, w)"
  using assms unfolding keystore_disk_def by blast+

text \<open>The bytes of a secret key, read as a key set, are the set whose key it is.\<close>

definition single_key_laws :: "('ps, 'pk, 'psh, 'ss, 'sk, 'ssh, 'sg, 'sgh) blsttc \<Rightarrow> bool" where
  "single_key_laws B \<longleftrightarrow> (\<forall>s. \<exists>s'. sks_from_bytes B (sk_to_bytes B (sks_secret_key B s)) = Some s' \<and>
     sks_secret_key B s' = sks_secret_key B s \<and>
     pks_public_key B (sks_public_keys B s') = pks_public_key B (sks_public_keys B s))"

section \<open>The tests\<close>

definition test_write_read_delete_bls_keystore :: "codec \<Rightarrow> keystore_crate \<Rightarrow> (world, unit) eff" where
  "test_write_read_delete_bls_keystore X K =
     ebind clear_data (\<lambda>_.
     let pk_hex = ''a8a1580a80406ccb0a89e1115c92ec1a09994e2ac6341cfddcad5daf75f587244aa6d722b3449a17b0b0b482c1d13215'';
         sk_hex = ''4c627588f8040116b75f14fdb55b552612a46a2cd91e65b516defe39d81fc08f'' in
     ebind (unwrap (lift (ok_or ''hex::decode'' (hex_decode X sk_hex)))) (\<lambda>sk_bytes_in.
     let password = ''password'' in
     ebind (unwrap (write_bls_keystore K pk_hex sk_bytes_in password)) (\<lambda>uuid.
     steps [
       ebind (unwrap (read_bls_keystore K pk_hex password)) (\<lambda>sk_bytes_out. assert_that (sk_bytes_out = sk_bytes_in)),
       unwrap (delete_bls_key pk_hex),
       ebind (bls_key_exists pk_hex) (\<lambda>b. assert_that (\<not> b))])))"

definition test_save_and_fetch_bls_keystore ::
  "codec \<Rightarrow> ('ps, 'pk, 'psh, 'ss, 'sk, 'ssh, 'sg, 'sgh) blsttc \<Rightarrow> keystore_crate \<Rightarrow> (world, unit) eff" where
  "test_save_and_fetch_bls_keystore X B K =
     ebind (new_bls_key B 3) (\<lambda>sk_set.
     let pk_hex = pk_hex_of B sk_set;
         password = ''password'';
         secret_key_to_hex = (\<lambda>s. hex_encode X (sk_to_bytes B (sks_secret_key B s))) in
     ebind (unwrap (save_bls_keystore K B sk_set password)) (\<lambda>_.
     steps [
       ebind (bls_key_exists pk_hex) assert_that,
       ebind (expecting ''Failed to fetch BLS key'' (fetch_bls_sk_keystore K B pk_hex password)) (\<lambda>fetched_sk_set.
         assert_that (secret_key_to_hex sk_set = secret_key_to_hex fetched_sk_set)),
       unwrap (delete_bls_key pk_hex),
       ebind (bls_key_exists pk_hex) (\<lambda>b. assert_that (\<not> b))]))"

definition test_keygen_and_decrypt ::
  "codec \<Rightarrow> ('ps, 'pk, 'psh, 'ss, 'sk, 'ssh, 'sg, 'sgh) blsttc \<Rightarrow> ('esk, 'epk, 'emsg, 'esig) secp \<Rightarrow> keystore_crate \<Rightarrow>
   (world, unit) eff" where
  "test_keygen_and_decrypt X B E K =
     (let withdrawal_credentials = replicate 32 1;
          threshold = 1 in
      ebind (unwrap (new_eth_key E)) (\<lambda>(_, g_pk).
      let password = ''password'';
          payload = \<lparr>af_guardian_pubkeys = [g_pk], af_withdrawal_credentials = withdrawal_credentials,
                     af_threshold = threshold, af_fork_version = GENESIS_FORK_VERSION, af_do_remote_attestation = False\<rparr> in
      ebind (unwrap (generate_bls_keystore_handler X B E K payload password)) (\<lambda>payload.
      ebind (unwrap (fetch_bls_sk_keystore K B (bls_pub_key payload) password)) (\<lambda>sk.
      ebind (unwrap (lift (kp_public_key_set X B payload))) (\<lambda>pk_set.
      assert_that (pk_hex_of B sk = pk_to_hex B (pks_public_key B pk_set)))))))"

text \<open>The keystore of the EIP's first test vector, and the test that imports it.\<close>

definition eip2335_scrypt :: json where
  "eip2335_scrypt =
     JObj [
       (''crypto'', JObj [
         (''kdf'', JObj [
           (''function'', JStr ''scrypt''),
           (''params'', JObj [
             (''dklen'', JNum 32), (''n'', JNum 262144), (''p'', JNum 1), (''r'', JNum 8),
             (''salt'', JStr ''d4e56740f876aef8c010b86a40d5f56745a118d0906a34e69aec8c0db1cb8fa3'')]),
           (''message'', JStr '''')]),
         (''checksum'', JObj [
           (''function'', JStr ''sha256''),
           (''params'', JObj []),
           (''message'', JStr ''d2217fe5f3e9a1e34581ef8a78f7c9928e436d36dacc5e846690a5581e8ea484'')]),
         (''cipher'', JObj [
           (''function'', JStr ''aes-128-ctr''),
           (''params'', JObj [(''iv'', JStr ''264daa3f303d7259501c93d997d84fe6'')]),
           (''message'', JStr ''06ae90d55fe0a6e9c5c3bc5b170827b2e5cce3929ed3f116c2811e6366dfe20f'')])]),
       (''description'', JStr ''This is a test keystore that uses scrypt to secure the secret.''),
       (''pubkey'', JStr ''9612d7a727c9d0a22e185a1c768478dfe919cada9266988cb32359c11f2b7b27f4ae4040902382ae2910c15e2b420d07''),
       (''path'', JStr ''m/12381/60/3141592653/589793238''),
       (''uuid'', JStr ''1d85ae20-35c5-4611-98e8-aa14a633906f''),
       (''version'', JNum 4)]"

definition eip2335_password :: bytes where
  "eip2335_password = [0x74, 0x65, 0x73, 0x74, 0x70, 0x61, 0x73, 0x73, 0x77, 0x6f, 0x72, 0x64, 0xf0, 0x9f, 0x94, 0x91]"

definition eip2335_secret :: bytes where
  "eip2335_secret = [0, 0, 0, 0, 0, 0x19, 0xd6, 0x68, 0x9c, 0x08, 0x5a, 0xe1, 0x65, 0x83, 0x1e, 0x93, 0x4f, 0xf7, 0x63,
     0xae, 0x46, 0xa2, 0xa6, 0xc1, 0x72, 0xb3, 0xf1, 0xb6, 0x0a, 0x8c, 0xe2, 0x6f]"

definition test_import_keystore ::
  "codec \<Rightarrow> ('esk, 'epk, 'emsg, 'esig) secp \<Rightarrow> keystore_crate \<Rightarrow> string \<Rightarrow> (world, unit) eff" where
  "test_import_keystore X E K keystore =
     ebind (unwrap (new_eth_key E)) (\<lambda>(eth_sk, eth_pk).
     ebind (unwrap (lift (ok_or ''hex::decode'' (hex_decode X ''7465737470617373776f7264f09f9491'')))) (\<lambda>encoded_pw.
     ebind (unwrap (envelope_encrypt E eth_pk encoded_pw)) (\<lambda>ct_pw.
     ebind (unwrap (lift (import_keystore X E K keystore (hex_encode X ct_pw) eth_sk))) (\<lambda>bls_sk_bytes.
     ebind (unwrap (lift (ok_or ''from_hex''
       (hex_decode X ''000000000019d6689c085ae165831e934ff763ae46a2a6c172b3f1b60a8ce26f'')))) (\<lambda>expected.
     assert_that (bls_sk_bytes = expected))))))"

definition test_encrypt_decrypt_keystore :: "codec \<Rightarrow> keystore_crate \<Rightarrow> (world, unit) eff" where
  "test_encrypt_decrypt_keystore X K =
     ebind (unwrap (create_dir_all (path_of ''./test_keys''))) (\<lambda>_.
     ebind (unwrap (lift (ok_or ''from_hex''
       (hex_decode X ''000000000019d6689c085ae165831e934ff763ae46a2a6c172b3f1b60a8ce26f'')))) (\<lambda>secret.
     let dir = path_of ''./test_keys'' in
     ebind draw (\<lambda>rng.
     ebind (unwrap (encrypt_key K dir rng secret ''newpassword'' None)) (\<lambda>name.
     let keypath = path_push dir name in
     steps [
       ebind (unwrap (decrypt_key K keypath ''newpassword'')) (\<lambda>s. assert_that (s = secret)),
       assert_err (decrypt_key K keypath ''notanewpassword''),
       unwrap (remove_file keypath),
       ignoring (remove_dir_all (path_of ''./test_keys''))]))))"

section \<open>They pass\<close>

lemma pk_room: "length (pk_to_bytes B k) = 48 \<Longrightarrow> pk_to_bytes B k \<noteq> []"
  by (metis list.size(3) zero_neq_numeral)

lemma writable_draw [simp]: "writable (w\<lparr>rng := n\<rparr>) p = writable w p"
  by (simp add: writable_def is_dir_def split: option.split)

text \<open>A keystore written to a directory with room is read with its password, and deleted.\<close>

lemma keystore_stored:
  assumes K: "keystore_disk K" and w: "quiet w" "free_dir w bls_dir" and h: "plain h" "strip_0x_prefix h = h"
  shows "\<exists>u w'. write_bls_keystore K h sk pw w = (Ok u, w') \<and> quiet w' \<and>
    read_bls_keystore K h pw w' = (Ok sk, w') \<and> bls_key_exists h w' = (Ok True, w') \<and>
    (\<exists>w''. delete_bls_key h w' = (Ok (), w'') \<and> bls_key_exists h w'' = (Ok False, w''))"
proof -
  have f: "bls_file h = bls_dir @ [h]" using h by (simp add: bls_file_def)
  obtain w1 where w1: "create_dir_all bls_dir w = (Ok (), w1)" "quiet w1" "\<forall>n. writable w1 (bls_dir @ [n])"
    "\<forall>p. is_dir w1 p \<longleftrightarrow> is_dir w p \<or> p \<in> set (prefixes_of bls_dir)"
    using create_dir_quiet[OF w] by blast
  let ?w1 = "w1\<lparr>rng := Suc (rng w1)\<rparr>"
  have q: "quiet ?w1" "\<forall>n. writable ?w1 (bls_dir @ [n])"
    using w1(2,3) by simp_all
  obtain u w2 s where e: "encrypt_key K bls_dir (rng w1) sk pw (Some h) ?w1 = (Ok u, w2)" "quiet w2" "is_dir w2 = is_dir ?w1"
    "lookup w2 = (lookup ?w1)(bls_dir @ [h] \<mapsto> s)" "sealed K sk pw s"
    using keystore_diskD(1)[OF K q, of "Some h" "rng w1" sk pw] h(1) by auto
  have no_dir: "\<not> is_dir w2 (bls_file h)"
    using q(2) e(3) f by (simp add: writable_def)
  have l: "lookup w2 (bls_file h) = Some s" using e(4) f by simp
  obtain w3 where d: "delete_bls_key h w2 = (Ok (), w3)" "quiet w3" "lookup w3 = (lookup w2)(bls_file h := None)"
    "is_dir w3 = is_dir w2"
    using store_delete_quiet(1)[OF e(2) l] by blast
  have "write_bls_keystore K h sk pw w = (Ok u, w2)"
    using w1(1) e(1) h(2) by (simp add: write_bls_keystore_def path_of_dirs in_context_def ebind_def draw_def Let_def)
  moreover have "read_bls_keystore K h pw w2 = (Ok sk, w2)"
    using keystore_diskD(2)[OF K e(2) l] e(5) h
    by (simp add: read_bls_keystore_def path_collect_keys bls_file_def Let_def sealed_def)
  moreover have "bls_key_exists h w2 = (Ok True, w2)" "bls_key_exists h w3 = (Ok False, w3)"
    using bls_store.ex_quiet[OF e(2) no_dir] bls_store.ex_quiet[OF d(2), of h] no_dir d(3,4) l by simp_all
  ultimately show ?thesis using e(2) d(1) by blast
qed

lemma test_texts:
  assumes "hex_laws X" "hex_text_law X"
  shows "\<exists>b. hex_decode X ''4c627588f8040116b75f14fdb55b552612a46a2cd91e65b516defe39d81fc08f'' = Some b"
    "hex_decode X ''7465737470617373776f7264f09f9491'' = Some eip2335_password"
    "hex_decode X ''000000000019d6689c085ae165831e934ff763ae46a2a6c172b3f1b60a8ce26f'' = Some eip2335_secret"
proof -
  note digits = assms(2)[unfolded hex_text_law_def, rule_format]
  let ?b = "[0x4c, 0x62, 0x75, 0x88, 0xf8, 0x04, 0x01, 0x16, 0xb7, 0x5f, 0x14, 0xfd, 0xb5, 0x5b, 0x55, 0x26, 0x12, 0xa4,
    0x6a, 0x2c, 0xd9, 0x1e, 0x65, 0xb5, 0x16, 0xde, 0xfe, 0x39, 0xd8, 0x1f, 0xc0, 0x8f] :: bytes"
  have "hex_encode X ?b = ''4c627588f8040116b75f14fdb55b552612a46a2cd91e65b516defe39d81fc08f''"
    "hex_encode X eip2335_password = ''7465737470617373776f7264f09f9491''"
    "hex_encode X eip2335_secret = ''000000000019d6689c085ae165831e934ff763ae46a2a6c172b3f1b60a8ce26f''"
    unfolding digits by code_simp+
  with hex_decode_encode[OF assms(1)]
  show "\<exists>b. hex_decode X ''4c627588f8040116b75f14fdb55b552612a46a2cd91e65b516defe39d81fc08f'' = Some b"
    "hex_decode X ''7465737470617373776f7264f09f9491'' = Some eip2335_password"
    "hex_decode X ''000000000019d6689c085ae165831e934ff763ae46a2a6c172b3f1b60a8ce26f'' = Some eip2335_secret"
    by metis+
qed

lemma test_keystore_file_passes:
  assumes L: "codec_laws X" "hex_text_law X" "keystore_disk K" and w: "test_bed w"
  shows "passes (test_write_read_delete_bls_keystore X K) w"
proof -
  let ?h = "''a8a1580a80406ccb0a89e1115c92ec1a09994e2ac6341cfddcad5daf75f587244aa6d722b3449a17b0b0b482c1d13215''"
  have h: "plain ?h" "strip_0x_prefix ?h = ?h" by code_simp+
  obtain w1 where w1: "clear_data w = (Ok (), w1)" "test_bed w1" "emptied w1"
    using clear_data_quiet[OF w] by blast
  have room: "quiet w1" "free_dir w1 bls_dir"
    using w1(2) free_dir_emptied[OF w1(2,3)] by (simp_all add: test_bed_def)
  obtain b where b: "hex_decode X ''4c627588f8040116b75f14fdb55b552612a46a2cd91e65b516defe39d81fc08f'' = Some b"
    using test_texts(1)[OF codec_lawsD(1)[OF L(1)] L(2)] by blast
  from keystore_stored[OF L(3) room h, of b "''password''"] show ?thesis
    using w1(1) b by (auto simp: passes_def test_write_read_delete_bls_keystore_def Let_def ebind_def)
qed

lemma test_keystore_key_passes:
  assumes L: "codec_laws X" "bls_laws X B" "single_key_laws B" "keystore_disk K"
    and w: "test_room w" and t: "sks_random B 3 (rng w) \<noteq> None"
  shows "passes (test_save_and_fetch_bls_keystore X B K) w"
proof -
  obtain s where s: "sks_random B 3 (rng w) = Some s" using t by auto
  note n = new_bls_key_drawn(1)[OF L(2) s]
  have room: "quiet (w\<lparr>rng := Suc (rng w)\<rparr>)" "free_dir (w\<lparr>rng := Suc (rng w)\<rparr>) bls_dir"
    using room_after_draw[OF w] by (simp_all add: test_room_def test_bed_def)
  have h: "plain (pk_hex_of B s)" "strip_0x_prefix (pk_hex_of B s) = pk_hex_of B s"
    using L(1,2) by (simp_all add: pk_hex_of_def pk_to_hex_eq codec_lawsD plain_hex_encode pk_room)
  obtain s' where s': "sks_from_bytes B (sk_to_bytes B (sks_secret_key B s)) = Some s'" "sks_secret_key B s' = sks_secret_key B s"
    using L(3) unfolding single_key_laws_def by blast
  from keystore_stored[OF L(4) room h, of "sk_to_bytes B (sks_secret_key B s)" "''password''"] s' n show ?thesis
    by (auto simp: passes_def test_save_and_fetch_bls_keystore_def Let_def ebind_def save_bls_keystore_def in_context_def
        pk_hex_of_def[symmetric] fetch_bls_sk_keystore_def h(2) expecting_def)
qed
text \<open>
  The client's key generation in a working file system: the payload describes the key set
  that was drawn, and its keystore opens with the password.
\<close>

lemma keystore_keygen_ready:
  assumes L: "codec_laws X" "bls_laws X B" "secp_laws E" "keystore_disk K"
    and w: "quiet w" "free_dir w bls_dir"
    and k: "sks_random B (unat (af_threshold req - 1)) (rng w) = Some s"
    and fv: "af_fork_version req = GENESIS_FORK_VERSION"
  shows "\<exists>p w'. generate_bls_keystore_handler X B E K req pw w = (Ok p, w') \<and>
    describes X B E s (af_withdrawal_credentials req) (af_fork_version req) (af_guardian_pubkeys req) p \<and>
    kp_fork_version p = GENESIS_FORK_VERSION \<and> wf_BlsKeygenPayload p \<and>
    read_bls_keystore K (pk_hex_of B s) pw w' = (Ok (sk_to_bytes B (sks_secret_key B s)), w')"
proof -
  note C = codec_lawsD[OF L(1)]
  let ?gs = "af_guardian_pubkeys req" and ?w1 = "w\<lparr>rng := Suc (rng w)\<rparr>"
  note n = new_bls_key_drawn(1)[OF L(2) k]
  obtain es m where es: "encrypt_shares X B E (zip ?gs (distribute_key_shares B s (length ?gs))) [] ?w1 = (Ok es, ?w1\<lparr>rng := m\<rparr>)"
    using encrypt_shares_total[OF L(3)] by blast
  have h: "plain (pk_hex_of B s)" "strip_0x_prefix (pk_hex_of B s) = pk_hex_of B s"
    using C(1) L(2) by (simp_all add: pk_hex_of_def pk_to_hex_eq plain_hex_encode pk_room)
  have room: "quiet (?w1\<lparr>rng := m\<rparr>)" "free_dir (?w1\<lparr>rng := m\<rparr>) bls_dir" using w by simp_all
  obtain u w2 where st: "write_bls_keystore K (pk_hex_of B s) (sk_to_bytes B (sks_secret_key B s)) pw (?w1\<lparr>rng := m\<rparr>) = (Ok u, w2)"
    "read_bls_keystore K (pk_hex_of B s) pw w2 = (Ok (sk_to_bytes B (sks_secret_key B s)), w2)"
    using keystore_stored[OF L(4) room h] by blast
  then have sv: "save_bls_keystore K B s pw (?w1\<lparr>rng := m\<rparr>) = (Ok u, w2)"
    by (simp add: save_bls_keystore_def pk_hex_of_def in_context_def Let_def)
  obtain g r where d: "sign_full_deposit X B s (af_withdrawal_credentials req) (af_fork_version req) = Ok (g, r)"
    using sign_full_deposit_eq[OF C(5) L(2)] by (simp add: Let_def)
  have "\<exists>p. generate_bls_keystore X B E K (af_withdrawal_credentials req) ?gs (af_threshold req) pw (af_fork_version req) w = (Ok p, w2) \<and>
      session_id p = [] \<and> attestation_signature p = [] \<and> session_public_key p = []"
    using n es sv d by (simp add: generate_bls_keystore_def ebind_def lift_def ret_def Let_def)
  then obtain p where p: "generate_bls_keystore X B E K (af_withdrawal_credentials req) ?gs (af_threshold req) pw (af_fork_version req) w = (Ok p, w2)"
    "session_id p = []" "attestation_signature p = []" "session_public_key p = []" by blast
  have D: "describes X B E s (af_withdrawal_credentials req) (af_fork_version req) ?gs p" "kp_fork_version p = GENESIS_FORK_VERSION"
    using generate_bls_keystore_Ok[OF L(1,2) p(1)] n by auto
  have "list_all is_utf8 (bls_enc_priv_key_shares p)" "list_all is_utf8 (guardian_eth_pub_keys p)"
    using D(1) C(1) by (auto simp: describes_def Let_def share_for_def list_all_length)
  then have "wf_BlsKeygenPayload p"
    using D C(1) p(2-4) by (simp add: wf_BlsKeygenPayload_def describes_def Let_def GENESIS_FORK_VERSION_def)
  with p(1) D st(2) show ?thesis by (auto simp: generate_bls_keystore_handler_def)
qed

lemma test_keygen_and_decrypt_passes:
  assumes L: "codec_laws X" "bls_laws X B" "secp_laws E" "single_key_laws B" "keystore_disk K"
    and w: "test_room w" and t: "sks_random B 0 (Suc (rng w)) \<noteq> None"
  shows "passes (test_keygen_and_decrypt X B E K) w"
proof -
  obtain g_sk g_pk where g: "generate_keypair E (rng w) = (g_sk, g_pk)" by fastforce
  let ?w = "w\<lparr>rng := Suc (rng w)\<rparr>"
  let ?req = "\<lparr>af_guardian_pubkeys = [g_pk], af_withdrawal_credentials = replicate 32 1, af_threshold = 1,
      af_fork_version = GENESIS_FORK_VERSION, af_do_remote_attestation = False\<rparr>"
  obtain s where s: "sks_random B (unat (af_threshold ?req - 1)) (rng ?w) = Some s" using t by auto
  have room: "quiet ?w" "free_dir ?w bls_dir" using w by (simp_all add: test_room_def test_bed_def)
  obtain p w' where p: "generate_bls_keystore_handler X B E K ?req ''password'' ?w = (Ok p, w')"
    "describes X B E s (replicate 32 1) GENESIS_FORK_VERSION [g_pk] p"
    "read_bls_keystore K (pk_hex_of B s) ''password'' w' = (Ok (sk_to_bytes B (sks_secret_key B s)), w')"
    using keystore_keygen_ready[OF L(1-3,5) room s, of "''password''"] by auto
  have name: "bls_pub_key p = pk_hex_of B s" "strip_0x_prefix (pk_hex_of B s) = pk_hex_of B s"
    using p(2) L(1,2) by (simp_all add: describes_def Let_def pk_hex_of_def pk_to_hex_eq codec_lawsD)
  obtain s' where s': "sks_from_bytes B (sk_to_bytes B (sks_secret_key B s)) = Some s'"
    "pks_public_key B (sks_public_keys B s') = pks_public_key B (sks_public_keys B s)"
    using L(4) unfolding single_key_laws_def by blast
  have "fetch_bls_sk_keystore K B (bls_pub_key p) ''password'' w' = (Ok s', w')"
    using p(3) name s'(1) by (simp add: fetch_bls_sk_keystore_def)
  moreover have "kp_public_key_set X B p = Ok (sks_public_keys B s)"
    by (rule describes_values(1)[OF L(1,2) p(2)]) simp
  ultimately show ?thesis
    using drawn_eth_key[of E w] g p(1) s'(2)
    by (simp add: passes_def test_keygen_and_decrypt_def Let_def pk_hex_of_def)
qed

section \<open>The tests of src/crypto/keystore.rs\<close>

lemma test_import_keystore_passes:
  assumes L: "codec_laws X" "hex_text_law X" "secp_laws E"
    and K: "json_from_slice X keystore = Some eip2335_scrypt"
      "\<And>raw. json_from_slice X raw = Some eip2335_scrypt \<Longrightarrow>
        decrypt_keystore K raw (map (\<lambda>b. char_of (unat b)) eip2335_password) = Ok eip2335_secret"
  shows "passes (test_import_keystore X E K keystore) w"
proof -
  note X = codec_lawsD(1)[OF L(1)]
  obtain sk pk where g: "generate_keypair E (rng w) = (sk, pk)" by fastforce
  then have kp: "key_pair E sk pk" by (auto simp: key_pair_def)
  obtain c w2 where c: "envelope_encrypt E pk eip2335_password (w\<lparr>rng := Suc (rng w)\<rparr>) = (Ok c, w2)"
    "envelope_decrypt E sk c = Ok eip2335_password"
    using envelope_encrypt_total[OF L(3), of pk eip2335_password "w\<lparr>rng := Suc (rng w)\<rparr>"] kp by blast
  have utf8: "is_utf8 (map (\<lambda>b. char_of (unat b)) eip2335_password)"
    unfolding eip2335_password_def by code_simp
  have "import_keystore X E K keystore (hex_encode X c) sk = Ok eip2335_secret"
    using c(2) X utf8 K(2)[OF K(1)] by (simp add: import_keystore_def Let_def)
  then show ?thesis
    using drawn_eth_key[of E w] g c(1) test_texts(2,3)[OF X L(2)]
    by (simp add: passes_def test_import_keystore_def)
qed

definition test_keys_dir :: path where
  "test_keys_dir = [''.'', ''test_keys'']"

lemma path_of_test_keys: "path_of ''./test_keys'' = test_keys_dir"
  by (simp add: path_of_def is_absolute_def normal_comps_def test_keys_dir_def)

lemma test_encrypt_decrypt_passes:
  assumes L: "codec_laws X" "hex_text_law X" "keystore_disk K" and w: "quiet w" "free_dir w test_keys_dir"
  shows "passes (test_encrypt_decrypt_keystore X K) w"
proof -
  obtain w1 where w1: "create_dir_all test_keys_dir w = (Ok (), w1)" "quiet w1" "\<forall>n. writable w1 (test_keys_dir @ [n])"
    using create_dir_quiet[OF w] by blast
  let ?w1 = "w1\<lparr>rng := Suc (rng w1)\<rparr>"
  have q: "quiet ?w1" "\<forall>n. writable ?w1 (test_keys_dir @ [n])"
    using w1(2,3) by simp_all
  obtain u w2 s where e: "encrypt_key K test_keys_dir (rng w1) eip2335_secret ''newpassword'' None ?w1 = (Ok u, w2)"
    "plain u" "quiet w2" "lookup w2 = (lookup ?w1)(test_keys_dir @ [u] \<mapsto> s)" "sealed K eip2335_secret ''newpassword'' s"
    using keystore_diskD(1)[OF L(3) q, of None "rng w1" eip2335_secret "''newpassword''"] by auto
  have p: "path_push test_keys_dir u = test_keys_dir @ [u]" by (rule path_push_plain[OF _ e(2)]) (simp add: test_keys_dir_def)
  have l: "lookup w2 (test_keys_dir @ [u]) = Some s" using e(4) by simp
  have "''notanewpassword'' \<noteq> ''newpassword''" by simp
  from sealed_other[OF e(5) this] obtain x where x: "decrypt_keystore K s ''notanewpassword'' = Err x" ..
  note rd = keystore_diskD(2)[OF L(3) e(3) l]
  obtain w3 where w3: "remove_file (test_keys_dir @ [u]) w2 = (Ok (), w3)" "quiet w3"
    using e(3) l by (simp add: remove_file_def next_fault_quiet) (simp add: quiet_def)
  have "fst (ignoring (remove_dir_all test_keys_dir) w3) = Ok ()"
    using w3(2) by (simp add: ignoring_def remove_dir_all_def next_fault_quiet)
  moreover have "decrypt_key K (test_keys_dir @ [u]) ''newpassword'' w2 = (Ok eip2335_secret, w2)"
    using rd e(5) by (simp add: sealed_def)
  moreover have "assert_err (decrypt_key K (test_keys_dir @ [u]) ''notanewpassword'') w2 = (Ok (), w2)"
    using rd x by (simp add: assert_err_def)
  ultimately show ?thesis
    using w1(1) e(1) w3(1) test_texts(3)[OF codec_lawsD(1)[OF L(1)] L(2)]
    by (auto simp: passes_def test_encrypt_decrypt_keystore_def path_of_test_keys Let_def draw_def ebind_def p
        split: prod.split res.split)
qed

end
