(* ===== verification/Registration.thy ===== *)
theory Registration
  imports Client_Tests_Laws Unit_Tests_Keystore
begin

text \<open>
  The registration of a validator with a guardian, as the tests of src/client/tests/mod.rs
  run it: in a network that delivers, with servers that work, they pass.
\<close>

section \<open>The servers the tests talk to\<close>

definition deployed ::
  "codec \<Rightarrow> ('ps, 'pk, 'psh, 'ss, 'sk, 'ssh, 'sg, 'sgh) blsttc \<Rightarrow> ('esk, 'epk, 'emsg, 'esig) secp \<Rightarrow> services \<Rightarrow>
   ('wal, 'wsig) ethers \<Rightarrow> ssz_serde \<Rightarrow> 'epk wire \<Rightarrow> axum \<Rightarrow> 'n reqwest \<Rightarrow> listener \<Rightarrow> listener \<Rightarrow>
   ('n \<Rightarrow> world) \<Rightarrow> (world \<Rightarrow> 'n \<Rightarrow> 'n) \<Rightarrow> ('n \<Rightarrow> world) \<Rightarrow> (world \<Rightarrow> 'n \<Rightarrow> 'n) \<Rightarrow> bool" where
  "deployed X B E N H S W A R lv lg rv pv rg pg \<longleftrightarrow>
     remote R (vcl_url (cl_validator build_client)) (serve X B E N H S W A lv) rv pv \<and> li_app lv = validator_app \<and>
     remote R (gc_url (cl_guardian build_client)) (serve X B E N H S W A lg) rg pg \<and> li_app lg = guardian_app \<and>
     (\<forall>w n. rg (pv w n) = rg n) \<and> (\<forall>w n. rv (pg w n) = rv n)"

lemma deployedD:
  assumes "deployed X B E N H S W A R lv lg rv pv rg pg"
  shows "remote R (vcl_url (cl_validator build_client)) (serve X B E N H S W A lv) rv pv" "li_app lv = validator_app"
    "remote R (gc_url (cl_guardian build_client)) (serve X B E N H S W A lg) rg pg" "li_app lg = guardian_app"
    "rg (pv w n) = rg n" "rv (pg w n) = rv n" "rv (pv w n) = w" "rg (pg w n) = w"
  using assms by (simp_all add: deployed_def remote_def)

text \<open>What the crates and the machine have to do for a registration.\<close>

definition registration_laws ::
  "codec \<Rightarrow> ('ps, 'pk, 'psh, 'ss, 'sk, 'ssh, 'sg, 'sgh) blsttc \<Rightarrow> ('esk, 'epk, 'emsg, 'esig) secp \<Rightarrow> services \<Rightarrow>
   ('wal, 'wsig) ethers \<Rightarrow> 'epk wire \<Rightarrow> axum \<Rightarrow> bool" where
  "registration_laws X B E N H W A \<longleftrightarrow>
     codec_laws X \<and> bls_laws X B \<and> secp_laws E \<and> services_laws X N \<and> threshold_laws B \<and> ethers_laws X E H \<and>
     wire_laws W \<and> axum_laws A \<and> (\<forall>g. is_utf8 (wsig_to_string H g)) \<and> agent_works N \<and>
     address_parse H (strip_0x_prefix zero_address) \<noteq> None"

lemma registration_lawsD:
  assumes "registration_laws X B E N H W A"
  shows "codec_laws X" "bls_laws X B" "secp_laws E" "services_laws X N" "threshold_laws B" "ethers_laws X E H"
    "wire_laws W" "axum_laws A" "is_utf8 (wsig_to_string H g)" "agent_works N"
    "address_parse H (strip_0x_prefix zero_address) \<noteq> None"
  using assms by (simp_all add: registration_laws_def)

lemma zero_address_utf8 [simp]: "is_utf8 zero_address"
  unfolding zero_address_def by code_simp

lemma wf_default_fork [simp]: "wf_ForkInfo ForkInfo_default"
  by (simp add: ForkInfo_default_def wf_ForkInfo_def wf_Fork_def)

lemma read_key_of_response:
  "codec_laws X \<Longrightarrow> secp_laws E \<Longrightarrow> eth_pk_from_hex_uncompressed X E (kg_pk_hex (from_eth_key X E pk e)) = Ok pk"
  using eth_pk_hex_roundtrip(2)[of X E pk]
  by (simp add: codec_lawsD from_eth_key_def eth_pk_from_hex_uncompressed_def Let_def)

section \<open>Custody and exit\<close>

lemma custody_then_exit_passes:
  assumes L: "registration_laws X B E N H W A" and D: "deployed X B E N H S W A R lv lg rv pv rg pg"
    and p: "describes X B E s wc fv [pk] (keygen_payload req)" "length wc = 32" "kp_fork_version (keygen_payload req) = fv"
      "wf_BlsKeygenPayload (keygen_payload req)"
    and req: "guardian_enclave_public_key req = pk" "\<not> verify_session req" "is_utf8 (workload_id req)"
    and w: "working (rg n)" "fetch_eth_key X E (eth_pk_to_hex X E pk) (rg n) = (Ok sk, rg n)" "key_pair E sk pk"
  shows "passes (custody_then_exit X W R (cl_guardian build_client) req) n"
proof -
  note L = registration_lawsD[OF L] and D = deployedD[OF D]
  have w': "quiet (rg n)" "free_dir (rg n) bls_dir" using w(1) by (simp_all add: working_def)
  have pk: "[pk] ! 0 = pk" by simp
  obtain resp w2 where c: "validate_custody_handler X B E N H req (rg n) = (Response HTTP_OK (JsonBody resp), w2)"
    "holds X B s 0 w2"
    using custody_of_generated[OF L(1-3,5,6) p(1-3) refl, where j = 0 and N = N and w = "rg n" and sk = sk] req(1,2) w' w(2,3) by auto
  have "wf_ValidateCustodyRequest req" using p(4) req(3) by (simp add: wf_ValidateCustodyRequest_def)
  note c2 = guardian_custody_call[OF L(1,7,8,9) D(3,4) this c(1)]
  let ?n2 = "pg w2 n"
  let ?er = "\<lparr>se_bls_pub_key_set = bls_pub_key_set (keygen_payload req), se_guardian_index = 0, se_validator_index = 0,
      se_fork_info = ForkInfo_default\<rparr>"
  have set: "bls_pub_key_set (keygen_payload req) = hex_encode X (pks_to_bytes B (sks_public_keys B s))"
    using p(1) by (simp add: describes_def Let_def)
  obtain xr where x: "sign_exit_handler X B ?er w2 = (Response HTTP_OK (JsonBody xr), w2)"
    using holds_exit[OF L(1,2,5) c(2), of ?er] set by auto
  have "wf_SignExitRequest ?er" using set codec_lawsD(1)[OF L(1)] by (simp add: wf_SignExitRequest_def)
  from guardian_exit_call[OF L(1,8) D(3,4) this, of ?n2] x have
    "GuardianClient_sign_exit X R (cl_guardian build_client) ?er ?n2 = (Ok xr, pg w2 ?n2)" by (simp add: D(8))
  with c2 show ?thesis by (simp add: passes_def custody_then_exit_def Let_def)
qed

section \<open>The two tests\<close>

lemma guardian_gets_key:
  assumes L: "registration_laws X B E N H W A" and D: "deployed X B E N H S W A R lv lg rv pv rg pg"
    and w: "working (rg n)" "keys_only X eth_dir (rg n)"
  shows "\<exists>sk pk e n'. GuardianClient_attest_fresh_eth_key X W R (cl_guardian build_client) 0 zero_address 1 n =
      (Ok (from_eth_key X E pk e), n') \<and> rv n' = rv n \<and> working (rg n') \<and> key_pair E sk pk \<and>
    fetch_eth_key X E (eth_pk_to_hex X E pk) (rg n') = (Ok sk, rg n') \<and>
    (\<exists>r n''. GuardianClient_list_eth_keys X R (cl_guardian build_client) n' = (Ok r, n'') \<and> lk_data r \<noteq> [] \<and>
       rv n'' = rv n' \<and> rg n'' = rg n')"
proof -
  note L = registration_lawsD[OF L] and D = deployedD[OF D]
  obtain sk pk e w' where k: "attest_fresh_eth_key_handler X E N H
      \<lparr>kb_block_number = 0, kb_guardian_module_address = zero_address, kb_chain_id = 1\<rparr> (rg n) =
        (Response CREATED (JsonBody (from_eth_key X E pk e)), w')" "key_pair E sk pk" "working w'"
    "fetch_eth_key X E (eth_pk_to_hex X E pk) w' = (Ok sk, w')" "is_dir w' eth_dir"
    "children w' eth_dir = insert (eth_pk_to_hex X E pk) (children (rg n) eth_dir)" "keys_only X eth_dir w'"
    using working_guardian_key[OF L(1,3,10) w L(11), of 0 1] by blast
  note c1 = guardian_keygen_call[OF L(1,4,7,8) zero_address_utf8 D(3,4) k(1)]
  obtain r where r: "list_eth_keys_handler w' = (Response HTTP_OK (JsonBody r), w')" "length (lk_data r) = card (children w' eth_dir)"
    using list_handlers_answer(2)[OF codec_lawsD(1)[OF L(1)], of w'] k(3,5,7) by (auto simp: working_def)
  note c2 = guardian_list_call[OF L(1,8) D(3,4), of "pg w' n"]
  have "finite (children w' eth_dir)" using finite_set[of "dir_entries w' eth_dir"] by (simp add: set_dir_entries)
  then have "lk_data r \<noteq> []" using r(2) k(6) by auto
  then show ?thesis
    using c1 c2 r(1) k(2-4) by (intro exI[of _ sk] exI[of _ pk] exI[of _ e] exI[of _ "pg w' n"]) (auto simp: D)
qed

lemma registration_passes:
  assumes L: "registration_laws X B E N H W A" and D: "deployed X B E N H S W A R lv lg rv pv rg pg"
    and w: "working (rg n)" "keys_only X eth_dir (rg n)" "working (rv n)"
    and draw: "sks_random B 0 (rng (rv n)) \<noteq> None"
  shows "passes (registration_flow_succeeds X E W R) n"
proof -
  obtain sk pk e n1 r n2 where g: "GuardianClient_attest_fresh_eth_key X W R (cl_guardian build_client) 0 zero_address 1 n =
      (Ok (from_eth_key X E pk e), n1)" "rv n1 = rv n" "working (rg n1)" "key_pair E sk pk"
    "fetch_eth_key X E (eth_pk_to_hex X E pk) (rg n1) = (Ok sk, rg n1)"
    "GuardianClient_list_eth_keys X R (cl_guardian build_client) n1 = (Ok r, n2)" "lk_data r \<noteq> []"
    "rv n2 = rv n1" "rg n2 = rg n1"
    using guardian_gets_key[OF L D w(1,2)] by blast
  note Ls = registration_lawsD[OF L] and Ds = deployedD[OF D]
  let ?wc = "replicate 32 1 :: bytes"
  let ?kr = "\<lparr>af_guardian_pubkeys = [pk], af_withdrawal_credentials = ?wc, af_threshold = 1,
      af_fork_version = GENESIS_FORK_VERSION, af_do_remote_attestation = False\<rparr>"
  obtain s where s: "sks_random B 0 (rng (rv n)) = Some s" using draw by auto
  then have t: "sks_threshold B s = 0" using Ls(2) unfolding bls_laws_def by blast
  obtain p w1 where k: "attest_fresh_bls_key X B E N ?wc [pk] 1 GENESIS_FORK_VERSION False (rv n) = (Ok p, w1)"
    and d: "describes X B E s ?wc GENESIS_FORK_VERSION [pk] p" "kp_fork_version p = GENESIS_FORK_VERSION"
    using validator_keygen_ready[OF Ls(1-3), of "rv n" 1 s False N ?wc "[pk]" GENESIS_FORK_VERSION] w(3) s t
    by (auto simp: working_def)
  have h: "attest_fresh_bls_key_handler X B E N ?kr (rv n2) = (Response CREATED (JsonBody p), w1)"
    using k g(2,8) by (simp add: attest_fresh_bls_key_handler_def)
  have fv: "length GENESIS_FORK_VERSION = 4" by (simp add: GENESIS_FORK_VERSION_def)
  have c: "ValidatorClient_attest_fresh_bls_key X E R (cl_validator build_client) ?kr n2 = (Ok p, pv w1 n2)"
    using validator_keygen_call[OF Ls(1-4,8) Ds(1,2) _ _ h] fv by simp
  let ?cr = "\<lparr>keygen_payload = p, guardian_enclave_public_key = pk, workload_id = ''test-workload-id'',
      verify_session = False, vc_validator_index = 0\<rparr>"
  have "is_utf8 ''test-workload-id''" by code_simp
  then have "passes (custody_then_exit X W R (cl_guardian build_client) ?cr) (pv w1 n2)"
    using generated_payload_printable[OF Ls(1,2,4) k fv] d g(3-5,9)
    by (intro custody_then_exit_passes[OF L D]) (auto simp: Ds)
  with g(1,6,7) c show ?thesis
    by (simp add: passes_def registration_flow_succeeds_def Let_def read_key_of_response[OF Ls(1,3)])
qed

text \<open>The same with a key that the command line made, on a machine of its own.\<close>

lemma cli_keygen_passes:
  assumes L: "registration_laws X B E N H W A" "keystore_disk K" and D: "deployed X B E N H S W A R lv lg rv pv rg pg"
    and w: "working (rg n)" "keys_only X eth_dir (rg n)" "quiet v" "free_dir v bls_dir"
    and draw: "sks_random B 0 (rng v) \<noteq> None"
  shows "passes (test_cli_keygen_verified_by_guardians X B E K W R) (v, n)"
proof -
  obtain sk pk e n1 where g: "GuardianClient_attest_fresh_eth_key X W R (cl_guardian build_client) 0 zero_address 1 n =
      (Ok (from_eth_key X E pk e), n1)" "working (rg n1)" "key_pair E sk pk"
    "fetch_eth_key X E (eth_pk_to_hex X E pk) (rg n1) = (Ok sk, rg n1)"
    using guardian_gets_key[OF L(1) D w(1,2)] by blast
  note Ls = registration_lawsD[OF L(1)]
  let ?wc = "replicate 32 1 :: bytes"
  let ?kr = "\<lparr>af_guardian_pubkeys = [pk], af_withdrawal_credentials = ?wc, af_threshold = 1,
      af_fork_version = GENESIS_FORK_VERSION, af_do_remote_attestation = False\<rparr>"
  obtain s where s: "sks_random B 0 (rng v) = Some s" using draw by auto
  obtain p v' where k: "generate_bls_keystore_handler X B E K ?kr ''password'' v = (Ok p, v')"
    and d: "describes X B E s ?wc GENESIS_FORK_VERSION [pk] p" "kp_fork_version p = GENESIS_FORK_VERSION" "wf_BlsKeygenPayload p"
    using keystore_keygen_ready[OF Ls(1-3) L(2) w(3,4), of ?kr s "''password''"] s by auto
  let ?cr = "\<lparr>keygen_payload = p, guardian_enclave_public_key = pk, workload_id = [], verify_session = False, vc_validator_index = 0\<rparr>"
  have "is_utf8 []" by code_simp
  then have "passes (custody_then_exit X W R (cl_guardian build_client) ?cr) n1"
    using d g(2-4) by (intro custody_then_exit_passes[OF L(1) D]) auto
  with g(1) k show ?thesis
    by (auto simp: passes_def test_cli_keygen_verified_by_guardians_def Let_def ebind_def read_key_of_response[OF Ls(1,3)]
        split: prod.splits)
qed

end
