(* ===== verification/Unit_Tests_Guardian.thy ===== *)
theory Unit_Tests_Guardian
  imports Client_Tests
begin

text \<open>
  The unit tests of src/enclave/guardian/mod.rs. They start from a payload and guardian keys
  that were recorded; here each takes the set-up as an argument, and passes on whatever payload
  the validator enclave can make for the keys. What the recorded texts themselves are worth
  rests with the crates.
\<close>

section \<open>The recorded set-up\<close>

definition setup_payload :: BlsKeygenPayload where
  "setup_payload = \<lparr>
     bls_pub_key_set = ''b927f246ed54236ce810f1296e9ee85574c4a59d7472aa50f9674d8ba8eb0d8b697065e22f86cad69f8526ee343fa4819390e8251a3b097db2d8916219069f38bb28f5c7371b84fbe3fbb9ed0e323fb3c5375f9efde1e139ad869e40621098b08f5bb3edce5981b4a238af666d1bda4dcccb0ab51f709db89f00358003315fabe55df8549e4d7a53d63a936789839664'',
     bls_pub_key = ''b927f246ed54236ce810f1296e9ee85574c4a59d7472aa50f9674d8ba8eb0d8b697065e22f86cad69f8526ee343fa481'',
     kp_signature = ''8e5f46196fa45a0866bb1422d7283575683af565fe070d9af236a3cbf334b4ab0b5007400b5e6fb2fe86d2ed0f7206db14bc2f699483a9a2cf564db8201afeb374818e44182b000d2f97390a65599377a36da857381c3e7fb4fa1fd85786e1b9'',
     kp_deposit_data_root = ''b28322d43f10b231f3631951f4fe444de646b8efee3647023068dd3d3db259ee'',
     bls_enc_priv_key_shares = [
       ''042d3af72fd7b32dbdbd7a84e0b31a8b676b5ca768c3a012c33addf88fb915885445efa027fa9678ad2ed3284750da8932ef365a0d431816109117cd423cc6bf05b0679d8ef171c1bff2275dbe0554ec65d7c75d0753d660173dd90f466e1cf5a773b6ffdb183b0d35cf79c6db0ea7017aa952a994a898e6776e71a337a7899efa'',
       ''0498dc487d2e039e5043d2fce25657fbb899b8aa96a8fad37929c580a688965991118650f32805f59b1ec3d4e4f07ee1472acfd5a2ee3bbed3f3240bfd18edfd7c863a0b07263830bf72a80ba219a0388e091185f06f73c668b5d0b24addc6665dfa2bb0c085a302f0ea2ec6d625ca8adcd5d8e0b16e51461809243d411fac5f4f'',
       ''04c1dc67b403f8da82954652ed312c0ee2bf310bd46b44c09ab92ad9c142afd98080cdbe7bb3935a9fae027fcec5b2f58b31511e089f1cebf5e7c02954f163f9224e33a8c38dc1ce5fd9187b0d4934280897168809ee652496c58f50f1ab47d6ac21eea0f5ebceff3fae7aad0e5d6ac853a4da6522141bcc2b2b328900170ca625'',
       ''04e7542fca87fb548a95fcdc5adbe27aafcd3778d2a500d2d199da3ea841745c515751a8ddd2bd50587d1c35c7db3625a6e807da06b8cf5a494f5cabaf43b64b42f21dfcdff4f4197328e00442842df22af07a3f9626ed5b868a05186f056ba80949993632185de389476be0cc6748437c03cf79a3df156cb90c911ba36f2a9fc1''],
     session_id = ''test-session-id'',
     attestation_signature = ''test-attestation-signature'',
     session_public_key = ''test-session-public-key'',
     guardian_eth_pub_keys = [
       ''04a1c2646197d3b93ce200cd46f4b94265d0803f712cbbbb5164027f34f18ceea2e8f1215deea31f3753d4b430c25f8cde2f730c996727e8769de50fdceb95609f'',
       ''047ec360f4fe9bd48a0109d1fe3f6aef0557c3d1df3af867de5f773f5f6190312f3e6d3c6eea5f423f138ec03ba34b051bf26d21f1255de2625f6615443c7b69e1'',
       ''049f1eff88203c2f1c25faedf674964ab292bac4c7fa2eb0aba8951d6974e83e5e5ff5fbe208a21a0d9900039d9fcad1bac6ae5c26aceca4e91be91f65a179f338'',
       ''04ac358dc89c2938747c21a65ff0fde8bd372ec5d7528ab0588837a25a125b4d2e8d068548727bb4e6e62d3033186e5245057b80f3882a3ac7887e03aae5770c0f''],
     kp_withdrawal_credentials = ''0101010101010101010101010101010101010101010101010101010101010101'',
     kp_fork_version = replicate 4 0\<rparr>"

definition setup_keys :: "string list" where
  "setup_keys = [
     ''65cc70c72a202c4352005934cbce69af0f11d2ba3e82b57fac2ba7bfd450d075'',
     ''234a4c8c43efb2108a821745bcb38f336669912f053bd7dff77dfd8436c74105'',
     ''ac8fa7a40aaea71feb340fab25bd9f551c3fe0823d8ef6ccb094990a09362f7c'',
     ''53b2b71e29166e82342a8c9862abd49ee95e734853e16f77ede0f2a7e3ea6513'']"

definition guardian_setup ::
  "codec \<Rightarrow> ('esk, 'epk, 'emsg, 'esig) secp \<Rightarrow> ('w, BlsKeygenPayload \<times> 'esk list \<times> string) eff" where
  "guardian_setup X E =
     ebind (unwrap (lift (mapM (\<lambda>h. rbind (ok_or ''hex::decode'' (hex_decode X h)) (eth_sk_from_bytes E)) setup_keys))) (\<lambda>sks.
     ret (setup_payload, sks, ''test-workload-id''))"

section \<open>The tests\<close>

text \<open>\<open>g_sks[i]\<close>, which panics past the end.\<close>

definition with_elem :: "'a list \<Rightarrow> nat \<Rightarrow> ('a \<Rightarrow> ('w, 'b) eff) \<Rightarrow> ('w, 'b) eff" where
  "with_elem xs i f = (case elem_at xs i of Some x \<Rightarrow> f x | None \<Rightarrow> lift (Panic ''index out of bounds''))"

definition session_fields_present :: "BlsKeygenPayload \<Rightarrow> ('w, unit) eff" where
  "session_fields_present resp = steps [
     assert_that (session_id resp \<noteq> []),
     assert_that (attestation_signature resp \<noteq> []),
     assert_that (session_public_key resp \<noteq> [])]"

definition test_setup_valid ::
  "codec \<Rightarrow> ('ps, 'pk, 'psh, 'ss, 'sk, 'ssh, 'sg, 'sgh) blsttc \<Rightarrow> ('esk, 'epk, 'emsg, 'esig) secp \<Rightarrow>
   ('w, BlsKeygenPayload \<times> 'esk list \<times> string) eff \<Rightarrow> ('w, unit) eff" where
  "test_setup_valid X B E start =
     ebind start (\<lambda>(resp, g_sks, workload_id).
     let n = length (bls_enc_priv_key_shares resp) in
     ebind (unwrap (lift (ok_or ''hex::decode'' (hex_decode X (bls_pub_key_set resp))))) (\<lambda>b.
     ebind (unwrap (lift (ok_or ''PublicKeySet::from_bytes'' (pks_from_bytes B b)))) (\<lambda>pk_set.
     ebind (steps (map (\<lambda>i. with_elem g_sks i (\<lambda>g_sk. open_own_share X B E resp pk_set (i, g_sk))) [0..<n])) (\<lambda>_.
     ebind (session_fields_present resp) (\<lambda>_.
     ebind (unwrap (lift (ok_or ''hex::decode'' (hex_decode X (kp_withdrawal_credentials resp))))) (\<lambda>wc_bytes.
     ebind (lift (copy_from_slice WITHDRAWAL_CREDENTIALS_BYTES wc_bytes)) (\<lambda>wc.
     let deposit_message = \<lparr>dm_pubkey = BLSPubkey_from X (pk_to_bytes B (pks_public_key B pk_set)),
                            dm_withdrawal_credentials = wc, dm_amount = FULL_DEPOSIT_AMOUNT\<rparr>;
         domain = compute_domain X DOMAIN_DEPOSIT (Some (replicate 4 0)) None;
         root = compute_signing_root X (TDepositMessage deposit_message) domain in
     ebind (unwrap (lift (ok_or ''hex::decode'' (hex_decode X (kp_signature resp))))) (\<lambda>sig_bytes.
     ebind (lift (copy_from_slice BLS_SIG_BYTES sig_bytes)) (\<lambda>sig_bytes.
     ebind (unwrap (lift (ok_or ''Signature::from_bytes'' (sig_from_bytes B sig_bytes)))) (\<lambda>sig.
     ebind (assert_that (pk_verify B (pks_public_key B pk_set) sig root)) (\<lambda>_.
     let deposit_data = \<lparr>dd_pubkey = BLSPubkey_from X (pk_to_bytes B (pks_public_key B pk_set)),
                         dd_withdrawal_credentials = wc, dd_amount = FULL_DEPOSIT_AMOUNT,
                         dd_signature = BLSSignature_from X (sig_to_bytes B sig)\<rparr>;
         deposit_data_root = tree_hash_root X (TDepositData deposit_data) in
     assert_that (hex_encode X deposit_data_root = kp_deposit_data_root resp))))))))))))"

fun is_err :: "'a res \<Rightarrow> bool" where
  "is_err (Err e) = True"
| "is_err (Ok x) = False"
| "is_err (Panic p) = False"

text \<open>\<open>assert!(r.is_ok())\<close>, where the call itself may panic.\<close>

definition assert_result :: "('a res \<Rightarrow> bool) \<Rightarrow> 'a res \<Rightarrow> ('w, unit) eff" where
  "assert_result P r = (case r of Panic m \<Rightarrow> lift (Panic m) | _ \<Rightarrow> assert_that (P r))"

definition test_verify_custody_with_success ::
  "codec \<Rightarrow> ('ps, 'pk, 'psh, 'ss, 'sk, 'ssh, 'sg, 'sgh) blsttc \<Rightarrow> ('esk, 'epk, 'emsg, 'esig) secp \<Rightarrow>
   ('w, BlsKeygenPayload \<times> 'esk list \<times> string) eff \<Rightarrow> ('w, unit) eff" where
  "test_verify_custody_with_success X B E start =
     ebind start (\<lambda>(resp, g_sks, workload_id).
     steps (map (\<lambda>g_sk. assert_result is_ok (verify_custody X B E resp g_sk)) g_sks))"

text \<open>\<open>EthSecretKey::default()\<close> is a parameter.\<close>

definition test_verify_custody_with_fail ::
  "codec \<Rightarrow> ('ps, 'pk, 'psh, 'ss, 'sk, 'ssh, 'sg, 'sgh) blsttc \<Rightarrow> ('esk, 'epk, 'emsg, 'esig) secp \<Rightarrow> 'esk \<Rightarrow>
   ('w, BlsKeygenPayload \<times> 'esk list \<times> string) eff \<Rightarrow> ('w, unit) eff" where
  "test_verify_custody_with_fail X B E default_sk start =
     ebind start (\<lambda>(resp, g_sks, workload_id).
     assert_result is_err (verify_custody X B E resp default_sk))"

definition test_verify_session_evidence_structural_checks ::
  "('w, BlsKeygenPayload \<times> 'esk list \<times> string) eff \<Rightarrow> ('w, unit) eff" where
  "test_verify_session_evidence_structural_checks start =
     ebind start (\<lambda>(resp, g_sks, workload_id). session_fields_present resp)"

definition test_verify_deposit_message ::
  "codec \<Rightarrow> ('ps, 'pk, 'psh, 'ss, 'sk, 'ssh, 'sg, 'sgh) blsttc \<Rightarrow>
   ('w, BlsKeygenPayload \<times> 'esk list \<times> string) eff \<Rightarrow> ('w, unit) eff" where
  "test_verify_deposit_message X B start =
     ebind start (\<lambda>(resp, g_sks, workload_id). unwrap (lift (verify_deposit_message X B resp)))"

definition test_approve_custody ::
  "codec \<Rightarrow> ('ps, 'pk, 'psh, 'ss, 'sk, 'ssh, 'sg, 'sgh) blsttc \<Rightarrow> ('esk, 'epk, 'emsg, 'esig) secp \<Rightarrow>
   ('wal, 'wsig) ethers \<Rightarrow> ('w, BlsKeygenPayload \<times> 'esk list \<times> string) eff \<Rightarrow> ('w, unit) eff" where
  "test_approve_custody X B E H start =
     ebind start (\<lambda>(resp, g_sks, workload_id).
     steps (map (\<lambda>g_sk. assert_result is_ok (approve_custody X B E H resp g_sk 0)) g_sks))"

text \<open>
  One round of the loop of \<open>test_sign_vem\<close>: the share of the signature and the root that was
  signed. \<open>SecretKey::from_bytes\<close> is a parameter.
\<close>

definition sign_vem_share ::
  "codec \<Rightarrow> ('ps, 'pk, 'psh, 'ss, 'sk, 'ssh, 'sg, 'sgh) blsttc \<Rightarrow> ('esk, 'epk, 'emsg, 'esig) secp \<Rightarrow>
   (bytes \<Rightarrow> 'sk option) \<Rightarrow> BlsKeygenPayload \<Rightarrow> nat \<times> 'esk \<Rightarrow> ('sgh \<times> Root) res" where
  "sign_vem_share X B E sk_from_bytes resp = (\<lambda>(i, g_sk).
     let req = \<lparr>se_bls_pub_key_set = bls_pub_key_set resp, se_guardian_index = word_of_nat i,
                se_validator_index = 0, se_fork_info = ForkInfo_default\<rparr> in
     rbind (verify_custody X B E resp g_sk) (\<lambda>sk_share.
     rbind (ok_or ''SecretKey::from_bytes'' (sk_from_bytes (ssh_to_bytes B sk_share))) (\<lambda>sk.
     rbind (sign_vem X B sk 0 (se_validator_index req) (se_fork_info req)) (\<lambda>(sig, root).
     rbind (copy_from_slice BLS_SIG_BYTES sig) (\<lambda>sig_bytes.
     rbind (ok_or ''SignatureShare::from_bytes'' (sgh_from_bytes B sig_bytes)) (\<lambda>sig.
     Ok (sig, root)))))))"

definition test_sign_vem ::
  "codec \<Rightarrow> ('ps, 'pk, 'psh, 'ss, 'sk, 'ssh, 'sg, 'sgh) blsttc \<Rightarrow> ('esk, 'epk, 'emsg, 'esig) secp \<Rightarrow>
   (bytes \<Rightarrow> 'sk option) \<Rightarrow> ('w, BlsKeygenPayload \<times> 'esk list \<times> string) eff \<Rightarrow> ('w, unit) eff" where
  "test_sign_vem X B E sk_from_bytes start =
     ebind start (\<lambda>(resp, g_sks, workload_id).
     ebind (unwrap (lift (mapM (sign_vem_share X B E sk_from_bytes resp) (enumerate 0 g_sks)))) (\<lambda>signed.
     let sig_shares = map fst signed;
         msg_root = (if signed = [] then replicate 32 0 else snd (last signed)) in
     ebind (unwrap (lift (kp_public_key_set X B resp))) (\<lambda>pk_set.
     ebind (unwrap (lift (aggregate_signature_shares B pk_set sig_shares))) (\<lambda>sig.
     assert_that (pk_verify B (pks_public_key B pk_set) sig msg_root)))))"

section \<open>They pass\<close>

text \<open>
  A set-up that delivers a payload made for the guardians of its keys, with evidence in it;
  and one where no key opens the share of an earlier guardian.
\<close>

definition sound_setup ::
  "codec \<Rightarrow> ('ps, 'pk, 'psh, 'ss, 'sk, 'ssh, 'sg, 'sgh) blsttc \<Rightarrow> ('esk, 'epk, 'emsg, 'esig) secp \<Rightarrow> 'ss \<Rightarrow> 'epk list \<Rightarrow>
   BlsKeygenPayload \<Rightarrow> 'esk list \<Rightarrow> bool" where
  "sound_setup X B E s gs p sks \<longleftrightarrow>
     describes X B E s (replicate 32 1) (replicate 4 0) gs p \<and> kp_fork_version p = replicate 4 0 \<and>
     length sks = length gs \<and> (\<forall>i < length gs. key_pair E (sks ! i) (gs ! i)) \<and>
     session_id p \<noteq> [] \<and> attestation_signature p \<noteq> [] \<and> session_public_key p \<noteq> []"

definition own_shares_only ::
  "codec \<Rightarrow> ('ps, 'pk, 'psh, 'ss, 'sk, 'ssh, 'sg, 'sgh) blsttc \<Rightarrow> ('esk, 'epk, 'emsg, 'esig) secp \<Rightarrow>
   BlsKeygenPayload \<Rightarrow> 'esk list \<Rightarrow> bool" where
  "own_shares_only X B E p sks \<longleftrightarrow> (\<forall>j < length sks. \<forall>i < j. is_err (decrypt_sk_share X B E p i (sks ! j)))"

lemma sound_setupD:
  assumes "sound_setup X B E s gs p sks"
  shows "describes X B E s (replicate 32 1) (replicate 4 0) gs p" "kp_fork_version p = replicate 4 0"
    "length sks = length gs" "i < length gs \<Longrightarrow> key_pair E (sks ! i) (gs ! i)"
    "session_fields_present p w = (Ok (), w)"
  using assms by (simp_all add: sound_setup_def session_fields_present_def)

lemma steps_unit:
  assumes "\<And>m. m \<in> set ms \<Longrightarrow> m w = (Ok (), w)"
  shows "steps ms w = (Ok (), w)"
proof -
  have "\<forall>m \<in> set ms. m w = (Ok (), w)" using assms by blast
  then show ?thesis by (induction ms) (simp_all add: ebind_def)
qed

lemma steps_map_unit: "(\<And>x. x \<in> set xs \<Longrightarrow> f x w = (Ok (), w)) \<Longrightarrow> steps (map f xs) w = (Ok (), w)"
  by (rule steps_unit) auto

lemma assert_result_simps [simp]:
  "P (Ok x) \<Longrightarrow> assert_result P (Ok x) w = (Ok (), w)" "P (Err e) \<Longrightarrow> assert_result P (Err e) w = (Ok (), w)"
  by (simp_all add: assert_result_def)

lemma own_share_opens:
  assumes L: "codec_laws X" "bls_laws X B" "secp_laws E" and D: "describes X B E s wc fv gs p"
    and k: "key_pair E sk (gs ! i)" "i < length gs"
  shows "open_own_share X B E p (sks_public_keys B s) (i, sk) w = (Ok (), w)"
proof -
  have "share_for X B E s i (gs ! i) (bls_enc_priv_key_shares p ! i)" "length (bls_enc_priv_key_shares p) = length gs"
    using D k(2) by (simp_all add: describes_def Let_def)
  moreover obtain d c where c: "bls_enc_priv_key_shares p ! i = hex_encode X c"
    "ecies_encrypt E d (epk_serialize E (gs ! i)) (ssh_to_bytes B (sks_secret_key_share B s i)) = Some c"
    using calculation(1) by (auto simp: share_for_def)
  moreover have "ecies_decrypt E (esk_serialize E sk) c = Some (ssh_to_bytes B (sks_secret_key_share B s i))"
    by (rule ecies_open[OF L(3) k(1) c(2)])
  ultimately show ?thesis
    using k(2) codec_lawsD(1)[OF L(1)] L(2) by (simp add: open_own_share_def elem_at_def envelope_decrypt_def)
qed

text \<open>The loop that finds no share.\<close>

lemma custody_loop_none:
  "\<forall>i \<in> set is. is_err (decrypt_sk_share X B E p i sk) \<Longrightarrow> is_err (custody_loop X B E p sk is)"
proof (induction "is")
  case (Cons i "is")
  then show ?case by (cases "decrypt_sk_share X B E p i sk") simp_all
qed simp

lemma custody_finds_own_share:
  assumes L: "codec_laws X" "bls_laws X B" "secp_laws E"
    and D: "describes X B E s wc fv gs p" and wc: "length wc = 32"
    and k: "key_pair E sk (gs ! j)" "j < length gs"
    and o: "\<And>i. i < j \<Longrightarrow> is_err (decrypt_sk_share X B E p i sk)"
  shows "verify_custody X B E p sk = Ok (sks_secret_key_share B s j)"
proof -
  note V = describes_values[OF L(1,2) D wc]
  have "share_matches X B E p sk (sks_public_keys B s) j (sks_secret_key_share B s j)"
    using describes_decrypt[OF L D k] bls_simps(9)[OF L(2)] by (simp add: share_matches_def)
  moreover have "\<forall>i < j. \<nexists>sh. share_matches X B E p sk (sks_public_keys B s) i sh"
  proof (intro allI impI)
    fix i assume "i < j"
    from o[OF this] show "\<nexists>sh. share_matches X B E p sk (sks_public_keys B s) i sh"
      by (auto simp: share_matches_def)
  qed
  moreover have "j < length (bls_enc_priv_key_shares p)" using D k(2) by (simp add: describes_def Let_def)
  ultimately show ?thesis
    unfolding verify_custody_Ok[OF codec_lawsD(1)[OF L(1)]] using V(1,6) by blast
qed

lemma custody_finds_own:
  assumes L: "codec_laws X" "bls_laws X B" "secp_laws E" and S: "sound_setup X B E s gs p sks"
    and o: "own_shares_only X B E p sks" and j: "j < length gs"
  shows "verify_custody X B E p (sks ! j) = Ok (sks_secret_key_share B s j)"
  using o j sound_setupD(3)[OF S]
  by (intro custody_finds_own_share[OF L sound_setupD(1)[OF S] _ sound_setupD(4)[OF S j] j]) (simp_all add: own_shares_only_def)

lemma custody_of_keys:
  assumes L: "codec_laws X" "bls_laws X B" "secp_laws E" "threshold_laws B" and S: "sound_setup X B E s gs p sks"
    and sk: "sk \<in> set sks"
  obtains sh where "verify_custody X B E p sk = Ok sh"
proof -
  obtain j where j: "j < length sks" and eq: "sk = sks ! j" using sk by (metis in_set_conv_nth)
  have jg: "j < length gs" using j sound_setupD(3)[OF S] by simp
  have "\<exists>i \<le> j. verify_custody X B E p sk = Ok (sks_secret_key_share B s i)"
    unfolding eq by (rule describes_custody[OF L sound_setupD(1)[OF S] _ sound_setupD(4)[OF S jg] jg]) simp
  then show ?thesis using that by blast
qed

lemma test_setup_valid_passes:
  assumes L: "codec_laws X" "bls_laws X B" "secp_laws E" and S: "sound_setup X B E s gs p sks"
    and r: "start w = (Ok (p, sks, wid), w')"
  shows "passes (test_setup_valid X B E start) w"
proof -
  note C = codec_lawsD[OF L(1)] and D = sound_setupD[OF S]
  note d = D(1)[unfolded describes_def Let_def]
  let ?pk = "pks_public_key B (sks_public_keys B s)"
  have n: "length (bls_enc_priv_key_shares p) = length gs" using d by simp
  have "steps (map (\<lambda>i. with_elem sks i (\<lambda>g_sk. open_own_share X B E p (sks_public_keys B s) (i, g_sk))) [0..<length gs]) w' =
      (Ok (), w')"
    by (rule steps_unit) (auto simp: with_elem_def elem_at_def D(3) own_share_opens[OF L D(1) D(4)])
  moreover have "copy_from_slice WITHDRAWAL_CREDENTIALS_BYTES (replicate 32 1) = Ok (replicate 32 1)"
    "copy_from_slice BLS_SIG_BYTES (sig_to_bytes B g) = Ok (sig_to_bytes B g)" for g
    using L(2) by (simp_all add: copy_from_slice_def WITHDRAWAL_CREDENTIALS_BYTES_def BLS_SIG_BYTES_def)
  moreover have "compute_signing_root X (TDepositMessage \<lparr>dm_pubkey = BLSPubkey_from X (pk_to_bytes B ?pk),
      dm_withdrawal_credentials = replicate 32 1, dm_amount = FULL_DEPOSIT_AMOUNT\<rparr>)
      (compute_domain X DOMAIN_DEPOSIT (Some (replicate 4 0)) None) = full_deposit_root X B ?pk (replicate 32 1) (replicate 4 0)"
    using C(5) L(2) by (simp add: full_deposit_root_def full_deposit_message_def)
  ultimately show ?thesis
    using r d C L(2) D(5)[of w']
    by (simp add: passes_def test_setup_valid_def Let_def n full_deposit_data_def ebind_def)
qed

lemma guardian_tests_pass_on:
  assumes L: "codec_laws X" "bls_laws X B" "secp_laws E" "threshold_laws B" "ethers_laws X E H"
    and S: "sound_setup X B E s gs p sks" and r: "start w = (Ok (p, sks, wid), w')"
  shows "passes (test_verify_custody_with_success X B E start) w"
    "\<forall>i < length gs. is_err (decrypt_sk_share X B E p i sk0) \<Longrightarrow> passes (test_verify_custody_with_fail X B E sk0 start) w"
    "passes (test_verify_session_evidence_structural_checks start) w"
    "passes (test_verify_deposit_message X B start) w"
    "passes (test_approve_custody X B E H start) w"
proof -
  note D = sound_setupD[OF S]
  have wc: "length (replicate 32 (1 :: u8)) = 32" by simp
  have "assert_result is_ok (verify_custody X B E p sk) w' = (Ok (), w')" if sk: "sk \<in> set sks" for sk
  proof -
    obtain sh where "verify_custody X B E p sk = Ok sh" by (rule custody_of_keys[OF L(1-4) S sk])
    then show ?thesis by simp
  qed
  then have "steps (map (\<lambda>sk. assert_result is_ok (verify_custody X B E p sk)) sks) w' = (Ok (), w')"
    by (rule steps_map_unit)
  then show "passes (test_verify_custody_with_success X B E start) w"
    using r by (simp add: passes_def test_verify_custody_with_success_def)
  have "assert_result is_ok (approve_custody X B E H p sk 0) w' = (Ok (), w')" for sk
  proof -
    obtain a where "approve_custody X B E H p sk 0 = Ok a"
      using approve_generated[OF L(1,2,5) D(1) wc] by blast
    then show ?thesis by simp
  qed
  then have "steps (map (\<lambda>sk. assert_result is_ok (approve_custody X B E H p sk 0)) sks) w' = (Ok (), w')"
    by (rule steps_map_unit)
  then show "passes (test_approve_custody X B E H start) w"
    using r by (simp add: passes_def test_approve_custody_def)
  show "passes (test_verify_custody_with_fail X B E sk0 start) w" if e: "\<forall>i < length gs. is_err (decrypt_sk_share X B E p i sk0)"
  proof -
    have "length (bls_enc_priv_key_shares p) = length gs" using D(1) by (simp add: describes_def Let_def)
    then have "is_err (verify_custody X B E p sk0)"
      using custody_loop_none[of "[0..<length (bls_enc_priv_key_shares p)]" X B E p sk0] e describes_values(6)[OF L(1,2) D(1) wc]
      by (simp add: verify_custody_def)
    then have "assert_result is_err (verify_custody X B E p sk0) w' = (Ok (), w')"
      by (cases "verify_custody X B E p sk0") simp_all
    with r show ?thesis by (simp add: passes_def test_verify_custody_with_fail_def)
  qed
  show "passes (test_verify_session_evidence_structural_checks start) w"
    using r D(5)[of w'] by (simp add: passes_def test_verify_session_evidence_structural_checks_def)
  have "verify_deposit_message X B p = Ok ()"
    using describes_deposit[OF L(1,2) D(1) wc] D(2) bls_simps(8)[OF L(2)] by simp
  then show "passes (test_verify_deposit_message X B start) w"
    using r by (simp add: passes_def test_verify_deposit_message_def)
qed

text \<open>A secret key read from the bytes of a share signs as the share.\<close>

definition share_as_key :: "('ps, 'pk, 'psh, 'ss, 'sk, 'ssh, 'sg, 'sgh) blsttc \<Rightarrow> (bytes \<Rightarrow> 'sk option) \<Rightarrow> bool" where
  "share_as_key B sk_from_bytes \<longleftrightarrow> (\<forall>h. \<exists>k. sk_from_bytes (ssh_to_bytes B h) = Some k \<and>
     (\<forall>m. sgh_from_bytes B (sig_to_bytes B (sk_sign B k m)) = Some (ssh_sign B h m)))"

lemma test_sign_vem_passes:
  assumes L: "codec_laws X" "bls_laws X B" "secp_laws E" "threshold_laws B" "share_as_key B skf"
    and S: "sound_setup X B E s gs p sks" and o: "own_shares_only X B E p sks" and t: "sks_threshold B s < length gs"
    and r: "start w = (Ok (p, sks, wid), w')"
  shows "passes (test_sign_vem X B E skf start) w"
proof -
  note C = codec_lawsD[OF L(1)] and D = sound_setupD[OF S]
  let ?m = "to_signing_root X (VOLUNTARY_EXIT \<lparr>ver_fork_info = ForkInfo_default, ver_signingRoot = None,
      ver_voluntary_exit = \<lparr>ve_epoch = 0, ve_validator_index = 0\<rparr>\<rparr>) None"
  let ?sig = "\<lambda>i. (ssh_sign B (sks_secret_key_share B s i) ?m, ?m)"
  have one: "sign_vem_share X B E skf p (i, sks ! i) = Ok (?sig i)" if i: "i < length gs" for i
  proof -
    obtain k where k: "skf (ssh_to_bytes B (sks_secret_key_share B s i)) = Some k"
      "\<forall>m. sgh_from_bytes B (sig_to_bytes B (sk_sign B k m)) = Some (ssh_sign B (sks_secret_key_share B s i) m)"
      using L(5) unfolding share_as_key_def by blast
    then show ?thesis
      using custody_finds_own[OF L(1-3) S o i] C(5) L(2)
      by (simp add: sign_vem_share_def Let_def sign_vem_def copy_from_slice_def BLS_SIG_BYTES_def)
  qed
  have all: "mapM (sign_vem_share X B E skf p) (enumerate 0 sks) = Ok (map ?sig [0..<length gs])"
    unfolding mapM_Ok_iff by (simp add: D(3) nth_enumerate_eq one)
  have gs: "[0..<length gs] \<noteq> []" using t by auto
  have "snd (last (map ?sig [0..<length gs])) = ?m" using gs by (simp add: last_map)
  moreover have "aggregate_signature_shares B (sks_public_keys B s) (map fst (map ?sig [0..<length gs])) =
      Ok (sk_sign B (sks_secret_key B s) ?m)"
    using aggregate_distributed[OF L(4) t, of ?m] by (simp add: distribute_key_shares_def Let_def comp_def)
  moreover have "kp_public_key_set X B p = Ok (sks_public_keys B s)"
    by (rule describes_values(1)[OF L(1,2) D(1)]) simp
  ultimately show ?thesis
    using r all L(2) gs by (simp add: passes_def test_sign_vem_def Let_def)
qed

text \<open>The recorded set-up, once its keys are read, has evidence, and one share and one key per guardian.\<close>

lemma recorded_fields:
  "session_id setup_payload \<noteq> []" "attestation_signature setup_payload \<noteq> []" "session_public_key setup_payload \<noteq> []"
  "length (bls_enc_priv_key_shares setup_payload) = 4" "length (guardian_eth_pub_keys setup_payload) = 4"
  "length setup_keys = 4"
  by (simp_all add: setup_payload_def setup_keys_def)

lemma guardian_setup_Ok:
  "guardian_setup X E w = (Ok (p, sks, wid), w') \<Longrightarrow> p = setup_payload \<and> w' = w \<and>
     mapM (\<lambda>h. rbind (ok_or ''hex::decode'' (hex_decode X h)) (eth_sk_from_bytes E)) setup_keys = Ok sks"
  by (auto simp: guardian_setup_def unwrap_def expecting_def lift_def ebind_def ret_def split: prod.splits res.splits)

lemma recorded_setup:
  assumes "guardian_setup X E w = (Ok (p, sks, wid), w')"
  shows "length sks = 4" "length (bls_enc_priv_key_shares p) = 4" "length (guardian_eth_pub_keys p) = 4"
    "passes (test_verify_session_evidence_structural_checks (guardian_setup X E)) w"
proof -
  note g = guardian_setup_Ok[OF assms]
  show "length sks = 4" using g recorded_fields(6) by (auto simp: mapM_Ok_iff)
  show "length (bls_enc_priv_key_shares p) = 4" "length (guardian_eth_pub_keys p) = 4"
    using g recorded_fields(4,5) by simp_all
  show "passes (test_verify_session_evidence_structural_checks (guardian_setup X E)) w"
    using assms g recorded_fields(1-3)
    by (simp add: passes_def test_verify_session_evidence_structural_checks_def session_fields_present_def)
qed

end
