(* ===== verification/Client_Tests_Pass.thy ===== *)
theory Client_Tests_Pass
  imports Registration Unit_Tests_Guardian
begin

text \<open>
  The other tests of src/client/tests/: the health checks, a guardian's key with a good and
  with a bad address, keys for guardians that open their shares, and the listings of the
  secure signer, which want more keys than the one they make.
\<close>

section \<open>Health\<close>

lemma health_call:
  assumes A: "axum_laws A" and net: "remote R base (serve X B E N H S W A l) rd wr"
    and app: "li_app l \<in> {guardian_app, validator_app, secure_signer_app}"
  shows "client_health R base n = (Ok True, wr (rd n) n)"
proof -
  have run: "serve X B E N H S W A l GET ''/upcheck'' None (rd n) = (Some \<lparr>wp_status = 200, wp_body = []\<rparr>, rd n)"
    using app guardian_routes(5)[OF A] validator_routes(3)[OF A] secure_signer_routes(6)[OF A]
    by (auto simp: serve_def run_endpoint_def health_handler_def respond_def HTTP_OK_def)
  have "list_all path_char ''/upcheck''" by (simp add: path_char_def)
  then have "rq_send R \<lparr>wq_method = GET, wq_url = base @ ''/upcheck'', wq_body = None\<rparr> n =
      (Ok \<lparr>wp_status = 200, wp_body = []\<rparr>, wr (rd n) n)"
    using net run unfolding remote_def by simp
  then show ?thesis by (simp add: client_health_def send_get_def)
qed

lemma health_tests_pass:
  assumes A: "axum_laws A"
  shows "remote R (gc_url (cl_guardian build_client)) (serve X B E N H S W A lg) rg pg \<Longrightarrow> li_app lg = guardian_app \<Longrightarrow>
      passes (guardian_health_with_success R) n"
    and "remote R (vcl_url (cl_validator build_client)) (serve X B E N H S W A lv) rv pv \<Longrightarrow> li_app lv = validator_app \<Longrightarrow>
      passes (validator_health_with_success R) n"
    and "remote R (sc_url (cl_secure_signer build_client)) (serve X B E N H S W A ls) rs ps \<Longrightarrow> li_app ls = secure_signer_app \<Longrightarrow>
      passes (signer_health_with_success R) n"
  unfolding guardian_health_with_success_def validator_health_with_success_def signer_health_with_success_def
    GuardianClient_health_def ValidatorClient_health_def SecureSignerClient_health_def
  by (simp_all add: passes_def ebind_def health_call[OF A])

section \<open>Guardian keys\<close>

lemma guardian_key_tests_pass:
  assumes L: "registration_laws X B E N H W A" and D: "deployed X B E N H S W A R lv lg rv pv rg pg"
    and w: "working (rg n)" "keys_only X eth_dir (rg n)"
  shows "passes (call_attest_fresh_eth_with_success X W R) n"
    and "address_parse H ''not_an_address'' = None \<Longrightarrow> passes (call_attest_fresh_eth_with_failure_bad_address X W R) n"
proof -
  note Ls = registration_lawsD[OF L] and Ds = deployedD[OF D]
  show "passes (call_attest_fresh_eth_with_success X W R) n"
    using guardian_gets_key[OF L D w] by (auto simp: passes_def call_attest_fresh_eth_with_success_def)
  assume a: "address_parse H ''not_an_address'' = None"
  obtain pk w' where k: "eth_key_gen X E (rg n) = (Ok pk, w')"
    using eth_key_gen_working[OF codec_lawsD(1)[OF Ls(1)] Ls(3) w(1)] by blast
  have strip: "strip_0x_prefix ''not_an_address'' = ''not_an_address''" by code_simp
  have u: "is_utf8 ''not_an_address''" by code_simp
  obtain e c t where h: "attest_fresh_eth_key_handler X E N H
      \<lparr>kb_block_number = 0, kb_guardian_module_address = ''not_an_address'', kb_chain_id = 1\<rparr> (rg n) =
        (Response c (Failure t e), w')"
    using k a strip by (auto simp: attest_fresh_eth_key_handler_def on_ok_def attest_new_eth_key_with_blockhash_def
        in_context_def ebind_def lift_def ret_def Let_def respond_def)
  show "passes (call_attest_fresh_eth_with_failure_bad_address X W R) n"
    using guardian_keygen_call[OF Ls(1,4,7,8) u Ds(3,4) h]
    by (simp add: passes_def call_attest_fresh_eth_with_failure_bad_address_def assert_err_def)
qed

section \<open>Keys for guardians\<close>

lemma default_validator: "cl_validator (ClientBuilder_build ClientBuilder_new) = cl_validator build_client"
  by (simp add: ClientBuilder_build_def ClientBuilder_new_def build_client_def url_or_def default_client_validator_url_def
      ClientBuilder_guardian_url_def ClientBuilder_validator_url_def)

lemma provision_passes:
  assumes L: "codec_laws X" "bls_laws X B" "secp_laws E" "services_laws X N" "axum_laws A"
    and net: "remote R (vcl_url (cl_validator build_client)) (serve X B E N H S W A lv) rv pv" "li_app lv = validator_app"
    and w: "working (rv n)" and ra: "ra \<longrightarrow> agent_works N"
    and draw: "sks_random B (unat (t - 1)) (rng (rv n)) \<noteq> None"
  shows "passes (provision_and_decrypt k t ra X B E R) (v, n)"
proof -
  note C = codec_lawsD[OF L(1)]
  obtain gs where g: "new_guardians E k [] v = (Ok gs, v\<lparr>rng := rng v + k\<rparr>)" "length gs = k"
    "\<forall>g \<in> set gs. key_pair E (fst g) (snd g)"
    using new_guardians_total[of E k "[]" v] by auto
  obtain s where s: "sks_random B (unat (t - 1)) (rng (rv n)) = Some s" using draw by auto
  have th: "sks_threshold B s = unat (t - 1)" using L(2) s unfolding bls_laws_def by blast
  let ?wc = "replicate 32 1 :: bytes"
  let ?kr = "\<lparr>af_guardian_pubkeys = map snd gs, af_withdrawal_credentials = ?wc, af_threshold = t,
      af_fork_version = GENESIS_FORK_VERSION, af_do_remote_attestation = ra\<rparr>"
  obtain p w' where p: "attest_fresh_bls_key X B E N ?wc (map snd gs) t GENESIS_FORK_VERSION ra (rv n) = (Ok p, w')"
    and d: "describes X B E s ?wc GENESIS_FORK_VERSION (map snd gs) p"
    using validator_keygen_ready[OF L(1-3) _ _ _ s th, of ra N ?wc "map snd gs" GENESIS_FORK_VERSION] w ra
    by (auto simp: working_def agent_works_def)
  have h: "attest_fresh_bls_key_handler X B E N ?kr (rv n) = (Response CREATED (JsonBody p), w')"
    using p by (simp add: attest_fresh_bls_key_handler_def)
  have call: "ValidatorClient_attest_fresh_bls_key X E R (cl_validator build_client) ?kr n = (Ok p, pv w' n)"
    using validator_keygen_call[OF L net _ _ h] by (simp add: GENESIS_FORK_VERSION_def)
  let ?u = "(v\<lparr>rng := rng v + k\<rparr>, pv w' n)"
  have "open_own_share X B E p (sks_public_keys B s) (i, fst (gs ! i)) ?u = (Ok (), ?u)" if "i < length gs" for i
    using that g(3) by (intro own_share_opens[OF L(1-3) d]) auto
  then have "steps (map (open_own_share X B E p (sks_public_keys B s)) (enumerate 0 (map fst gs))) ?u = (Ok (), ?u)"
    by (intro steps_map_unit) (auto simp: in_set_enumerate_eq)
  moreover have "hex_decode X (bls_pub_key_set p) = Some (pks_to_bytes B (sks_public_keys B s))"
    using d C(1) by (simp add: describes_def Let_def)
  ultimately show ?thesis
    using g(1) call L(2)
    by (simp add: passes_def provision_and_decrypt_def Let_def default_validator ebind_def)
qed

lemma guardian_share_tests_pass:
  assumes L: "registration_laws X B E N H W A" and D: "deployed X B E N H S W A R lv lg rv pv rg pg"
    and w: "working (rv n)" and draw: "\<And>t. t \<in> {2, 6} \<Longrightarrow> sks_random B t (rng (rv n)) \<noteq> None"
  shows "passes (call_validate_custody_with_success X B E R) (v, n)"
    "passes (call_attest_fresh_bls_key_and_decrypt X B E R) (v, n)"
  unfolding call_validate_custody_with_success_def call_attest_fresh_bls_key_and_decrypt_def
  using draw[of 2] draw[of 6] registration_lawsD(10)[OF L]
  by (auto intro!: provision_passes[OF registration_lawsD(1-4,8)[OF L] deployedD(1,2)[OF D] w])

section \<open>The keys of the secure signer\<close>

text \<open>The test of a listing makes a key and then wants two: it passes where another one was.\<close>

lemma two_keys_iff:
  assumes "finite S"
  shows "1 < card (insert h S) \<longleftrightarrow> (\<exists>k \<in> S. k \<noteq> h)"
proof -
  have "card (insert h S) = Suc (card (S - {h}))" using assms by (rule card.insert_remove)
  moreover have "0 < card (S - {h}) \<longleftrightarrow> (\<exists>k \<in> S. k \<noteq> h)" using assms by (auto simp: card_gt_0_iff)
  ultimately show ?thesis by simp
qed

lemma signer_eth_listing_passes_iff:
  assumes L: "codec_laws X" "secp_laws E" "services_laws X N" "wire_laws W" "axum_laws A" "agent_works N"
    and net: "remote R (sc_url (cl_secure_signer build_client)) (serve X B E N H S W A l) rd wr" "li_app l = secure_signer_app"
    and w: "working (rd n)" "keys_only X eth_dir (rd n)" and g: "generate_keypair E (rng (rd n)) = (sk, pk)"
  shows "passes (call_generate_eth_key_with_success X W R) n"
    "passes (call_list_eth_keys_with_success X W R) n \<longleftrightarrow> (\<exists>k \<in> children (rd n) eth_dir. k \<noteq> eth_pk_to_hex X E pk)"
proof -
  note X = codec_lawsD(1)[OF L(1)]
  let ?h = "eth_pk_to_hex X E pk"
  obtain w' where k: "eth_key_gen X E (rd n) = (Ok pk, w')" "working w'" "is_dir w' eth_dir"
    "children w' eth_dir = insert ?h (children (rd n) eth_dir)"
    using eth_key_gen_working[OF X L(2) w(1)] g by auto
  obtain G where G: "\<And>d v. evidence_new N d v = (Ok (G d v), v)" using L(6) unfolding agent_works_def by metis
  obtain r where h: "eth_keygen_handler X E N (rd n) = (Response CREATED (JsonBody r), w')"
    using k(1) G by (auto simp: eth_keygen_handler_def on_ok_def attest_new_eth_key_def ebind_def ret_def)
  have c1: "SecureSignerClient_generate_eth_key X W R (cl_secure_signer build_client) n = (Ok r, wr w' n)"
    using signer_keygen_calls(1)[OF L(1,3,4,5) net h] by simp
  then show "passes (call_generate_eth_key_with_success X W R) n"
    by (simp add: passes_def call_generate_eth_key_with_success_def)
  have "epk_serialize_compressed E pk \<noteq> []" using secp_simps(7)[OF L(2), of pk] by (metis list.size(3) zero_neq_numeral)
  then have "keys_only X eth_dir w'" using w(2) k(4) X by (auto simp: keys_only_def)
  then obtain q where q: "list_eth_keys_handler w' = (Response HTTP_OK (JsonBody q), w')" "length (lk_data q) = card (children w' eth_dir)"
    using list_handlers_answer(2)[OF X, of w'] k(2,3) by (auto simp: working_def)
  have rd: "rd (wr w' n) = w'" using net(1) by (simp add: remote_def)
  have c2: "SecureSignerClient_list_eth_keys X R (cl_secure_signer build_client) (wr w' n) = (Ok q, wr w' (wr w' n))"
    using signer_list_calls(1)[OF L(1,5) net, of "wr w' n"] q(1) rd by simp
  have "finite (children (rd n) eth_dir)"
    using finite_set[of "dir_entries w' eth_dir"] k(4) by (simp add: set_dir_entries)
  from two_keys_iff[OF this, of ?h]
  show "passes (call_list_eth_keys_with_success X W R) n \<longleftrightarrow> (\<exists>k \<in> children (rd n) eth_dir. k \<noteq> ?h)"
    using c1 c2 q(2) k(4) by (auto simp: passes_def call_list_eth_keys_with_success_def assert_that_def)
qed

lemma attest_new_bls_key_working:
  assumes L: "codec_laws X" "bls_laws X B" "agent_works N" and w: "working w" and t: "sks_random B 0 (rng w) = Some s"
  shows "\<exists>r w'. bls_keygen_handler X B N w = (Response CREATED (JsonBody r), w') \<and> quiet w' \<and> is_dir w' bls_dir \<and>
    children w' bls_dir = insert (validator_name X B s) (children w bls_dir)"
proof -
  note C = codec_lawsD[OF L(1)]
  let ?pk = "pks_public_key B (sks_public_keys B s)" and ?w1 = "w\<lparr>rng := Suc (rng w)\<rparr>"
  let ?h = "validator_name X B s" and ?db = "spd_new (pk_to_bytes B (pks_public_key B (sks_public_keys B s)))"
  note V = validator_name_facts[OF C(1) L(2), of s]
  have room: "quiet ?w1" "free_dir ?w1 bls_dir" "free_dir ?w1 slash_dir" using w by (simp_all add: working_def)
  obtain w2 where w2: "save_bls_key X B s ?w1 = (Ok (), w2)" "quiet w2"
    "lookup w2 = (lookup ?w1)(bls_dir @ [?h] \<mapsto> hex_encode X (sks_to_bytes B s))"
    "\<forall>p. is_dir w2 p \<longleftrightarrow> is_dir ?w1 p \<or> p \<in> set (prefixes_of bls_dir)"
    using save_bls_key_quiet[OF C(1) L(2) room(1,2) V(1)] by auto
  note ch = children_written[OF room(2) w2(3,4)]
  have len: "length (pk_to_bytes B ?pk) = 48" by (rule bls_simps(7)[OF L(2)])
  then have wf: "wf_spd ?db" by (auto simp: wf_spd_def spd_new_def)
  have fresh: "from_pk_hex X (pk_to_hex B ?pk) = Ok ?db"
    using C len by (simp add: from_pk_hex_def pk_to_hex_eq[OF L(2)] Let_def)
  have "free_dir w2 slash_dir" by (rule free_dir_after_key[OF room(3) w2(3,4)])
  from dir_write_quiet[OF w2(2) this, of "hex_encode X (pubkey ?db)" "spd_text X ?db"]
  obtain w3 w4 where w3: "create_dir_all slash_dir w2 = (Ok (), w3)"
    "fs_write (slash_dir @ [hex_encode X (pubkey ?db)]) (spd_text X ?db) w3 = (Ok (), w4)" "quiet w4"
    "lookup w4 = (lookup w2)(slash_dir @ [hex_encode X (pubkey ?db)] \<mapsto> spd_text X ?db)"
    "\<forall>p. is_dir w4 p \<longleftrightarrow> is_dir w2 p \<or> p \<in> set (prefixes_of slash_dir)" by blast
  have wr: "spd_write X ?db w2 = (Ok (), w4)"
    using w3(1,2) by (simp add: spd_write_eq[OF L(1) wf] ebind_def in_context_def)
  have other: "slash_dir @ [a] \<noteq> bls_dir @ [b]" for a b by (simp add: slash_dir_def bls_dir_def)
  have f4: "free_dir w4 bls_dir"
    using ch(3) w3(4,5) key_dirs_apart(2,4) by (auto simp: free_dir_def)
  have "children w4 bls_dir = children w2 bls_dir"
    unfolding children_free[OF f4] children_free[OF ch(3)] using w3(4) other by auto
  moreover have "is_dir w4 bls_dir" using ch(2) w3(5) by blast
  moreover obtain e where "evidence_new N (pk_to_bytes B ?pk) w4 = (Ok e, w4)" using L(3) unfolding agent_works_def by blast
  moreover have "children ?w1 bls_dir = children w bls_dir" by (simp add: children_def lookup_def)
  ultimately show ?thesis
    using new_bls_key_drawn(1)[OF L(2) t] w2(1) fresh wr w3(3) ch(1)
    by (simp add: bls_keygen_handler_def on_ok_def attest_new_bls_key_def ebind_def in_context_def lift_def ret_def Let_def)
qed

lemma signer_bls_listing_passes_iff:
  assumes L: "codec_laws X" "bls_laws X B" "services_laws X N" "wire_laws W" "axum_laws A" "agent_works N"
    and net: "remote R (sc_url (cl_secure_signer build_client)) (serve X B E N H S W A l) rd wr" "li_app l = secure_signer_app"
    and w: "working (rd n)" "keys_only X bls_dir (rd n)" and t: "sks_random B 0 (rng (rd n)) = Some s"
  shows "passes (call_generate_bls_key_with_success X W R) n"
    "passes (call_list_bls_keys_with_success X W R) n \<longleftrightarrow> (\<exists>k \<in> children (rd n) bls_dir. k \<noteq> validator_name X B s)"
proof -
  note X = codec_lawsD(1)[OF L(1)]
  let ?h = "validator_name X B s"
  obtain r w' where h: "bls_keygen_handler X B N (rd n) = (Response CREATED (JsonBody r), w')" "quiet w'" "is_dir w' bls_dir"
    "children w' bls_dir = insert ?h (children (rd n) bls_dir)"
    using attest_new_bls_key_working[OF L(1,2,6) w(1) t] by blast
  have c1: "SecureSignerClient_generate_bls_key X W R (cl_secure_signer build_client) n = (Ok r, wr w' n)"
    using signer_keygen_calls(2)[OF L(1,3,4,5) net L(2) h(1)] by simp
  then show "passes (call_generate_bls_key_with_success X W R) n"
    by (simp add: passes_def call_generate_bls_key_with_success_def)
  have "pk_to_bytes B (pks_public_key B (sks_public_keys B s)) \<noteq> []" by (rule pk_room[OF bls_simps(7)[OF L(2)]])
  then have "keys_only X bls_dir w'" using w(2) h(4) by (auto simp: keys_only_def validator_name_def)
  then obtain q where q: "list_bls_keys_handler w' = (Response HTTP_OK (JsonBody q), w')" "length (lk_data q) = card (children w' bls_dir)"
    using list_handlers_answer(1)[OF X h(2,3)] by auto
  have rd: "rd (wr w' n) = w'" using net(1) by (simp add: remote_def)
  have c2: "SecureSignerClient_list_bls_keys X R (cl_secure_signer build_client) (wr w' n) = (Ok q, wr w' (wr w' n))"
    using signer_list_calls(2)[OF L(1,5) net, of "wr w' n"] q(1) rd by simp
  have "finite (children (rd n) bls_dir)"
    using finite_set[of "dir_entries w' bls_dir"] h(4) by (simp add: set_dir_entries)
  from two_keys_iff[OF this, of ?h]
  show "passes (call_list_bls_keys_with_success X W R) n \<longleftrightarrow> (\<exists>k \<in> children (rd n) bls_dir. k \<noteq> ?h)"
    using c1 c2 q(2) h(4) by (auto simp: passes_def call_list_bls_keys_with_success_def assert_that_def)
qed

section \<open>Signing for the recorded guardians\<close>

lemma recorded_key_unprefixed [simp]: "strip_0x_prefix recorded_key = recorded_key"
  by (simp add: recorded_key_def strip_0x_prefix_def)

lemma recorded_payload_Ok:
  assumes "hex_decode X recorded_key = Some b" "epk_parse_slice E b = Some k"
  shows "recorded_payload X E w = (Ok \<lparr>af_guardian_pubkeys = [k, k, k, k], af_withdrawal_credentials = replicate 32 0,
    af_threshold = 3, af_fork_version = GENESIS_FORK_VERSION, af_do_remote_attestation = True\<rparr>, w)"
  using assms by (simp add: recorded_payload_def hex_to_pubkey_def)

lemma keygen_for_recorded_Ok:
  assumes L: "codec_laws X" "bls_laws X B" "secp_laws E" "services_laws X N" "axum_laws A" "agent_works N"
    and net: "remote R (vcl_url (cl_validator build_client)) (serve X B E N H S W A lv) rv pv" "li_app lv = validator_app"
    and k: "hex_decode X recorded_key = Some b" "epk_parse_slice E b = Some k"
    and w: "working (rv n)" and draw: "sks_random B 2 (rng (rv n)) = Some s"
  shows "\<exists>p w'. keygen_for_recorded X E R n = (Ok p, pv w' n) \<and>
    in_service X B s (spd_new (pk_to_bytes B (pks_public_key B (sks_public_keys B s)))) w' \<and>
    describes X B E s (replicate 32 0) GENESIS_FORK_VERSION [k, k, k, k] p"
proof -
  have th: "sks_threshold B s = 2" using L(2) draw unfolding bls_laws_def by blast
  let ?d = "spd_new (pk_to_bytes B (pks_public_key B (sks_public_keys B s)))"
  have u: "unat (3 - 1 :: u64) = 2" by simp
  obtain p w' where p: "attest_fresh_bls_key X B E N (replicate 32 0) [k, k, k, k] 3 GENESIS_FORK_VERSION True (rv n) = (Ok p, w')"
    and d: "in_service X B s ?d w'" "describes X B E s (replicate 32 0) GENESIS_FORK_VERSION [k, k, k, k] p"
    using validator_keygen_ready[OF L(1-3), of "rv n" 3 s True N "replicate 32 0" "[k, k, k, k]" GENESIS_FORK_VERSION] draw th w L(6)
    unfolding u working_def agent_works_def by blast
  let ?kr = "\<lparr>af_guardian_pubkeys = [k, k, k, k], af_withdrawal_credentials = replicate 32 0, af_threshold = 3,
      af_fork_version = GENESIS_FORK_VERSION, af_do_remote_attestation = True\<rparr>"
  have "attest_fresh_bls_key_handler X B E N ?kr (rv n) = (Response CREATED (JsonBody p), w')"
    using p by (simp add: attest_fresh_bls_key_handler_def)
  from validator_keygen_call[OF L(1-5) net _ _ this]
  have "ValidatorClient_attest_fresh_bls_key X E R (cl_validator build_client) ?kr n = (Ok p, pv w' n)"
    by (simp add: GENESIS_FORK_VERSION_def)
  then have "keygen_for_recorded X E R n = (Ok p, pv w' n)"
    by (simp add: keygen_for_recorded_def Let_def recorded_payload_Ok[OF k] default_validator ebind_def)
  with d show ?thesis by blast
qed

lemma validator_signing_tests_pass:
  assumes L: "codec_laws X" "bls_laws X B" "secp_laws E" "services_laws X N" "axum_laws A" "agent_works N"
    and S: "hash_laws X" "ssz_serde_laws S" "biguint_laws X"
    and net: "remote R (vcl_url (cl_validator build_client)) (serve X B E N H S W A lv) rv pv" "li_app lv = validator_app"
    and k: "hex_decode X recorded_key = Some b" "epk_parse_slice E b = Some k"
    and w: "working (rv n)" and draw: "sks_random B 2 (rng (rv n)) \<noteq> None"
  shows "passes (call_attest_fresh_bls_key_with_success X E R) n"
    "passes (sign_voluntary_exit_message_with_success X B E S R) n"
    "passes (sign_message_deposit_message X E S R) n"
proof -
  note C = codec_lawsD[OF L(1)]
  obtain s where s: "sks_random B 2 (rng (rv n)) = Some s" using draw by auto
  obtain p w' where g: "keygen_for_recorded X E R n = (Ok p, pv w' n)"
    and d: "in_service X B s (spd_new (pk_to_bytes B (pks_public_key B (sks_public_keys B s)))) w'"
      "describes X B E s (replicate 32 0) GENESIS_FORK_VERSION [k, k, k, k] p"
    using keygen_for_recorded_Ok[OF L net k w s] by blast
  show "passes (call_attest_fresh_bls_key_with_success X E R) n"
    using g by (simp add: passes_def call_attest_fresh_bls_key_with_success_def ebind_def)
  let ?name = "validator_name X B s" and ?n = "pv w' n"
  note V = validator_name_facts[OF C(1) L(2), of s]
  have rv: "rv ?n = w'" using net(1) by (simp add: remote_def)
  have name: "bls_pub_key p = ?name" using d(2) by (simp add: describes_def Let_def validator_name_def)
  have chars: "set ?name \<subseteq> lower_hex" "?name \<noteq> []"
    using hex_encode_lower[OF C(1)] V(4) by (auto simp: validator_name_def)
  let ?exit = "VOLUNTARY_EXIT \<lparr>ver_fork_info = ForkInfo_default, ver_signingRoot = None,
      ver_voluntary_exit = \<lparr>ve_epoch = 0, ve_validator_index = 1559\<rparr>\<rparr>"
  let ?sig = "sk_sign B (sks_secret_key B s) (to_signing_root X ?exit (Some (genesis_fork_version (li_state lv))))"
  obtain w'' where x: "secure_sign_bls_handler X B ?name (li_state lv) ?exit w' =
      (Response HTTP_OK (JsonBody (SignatureResponse_new X (sig_to_bytes B ?sig))), w'')"
    using sign_accepts[OF L(1) S(1) L(2) d(1), of ?exit _ "li_state lv"] by (auto simp: secure_sign_bls_handler_def)
  have call: "ValidatorClient_sign_voluntary_exit_message X S R (cl_validator build_client) ?name 0 1559 ForkInfo_default ?n =
      (Ok (SignatureResponse_new X (sig_to_bytes B ?sig)), pv w'' ?n)"
    using validator_exit_call[OF L(1) S(2,3) L(5) net, of ?name ForkInfo_default 0 1559 ?n] x chars V(2) rv by simp
  have "kp_public_key_set X B p = Ok (sks_public_keys B s)"
    by (rule describes_values(1)[OF L(1,2) d(2)]) simp
  then show "passes (sign_voluntary_exit_message_with_success X B E S R) n"
    using g call L(2) C(1)
    by (simp add: passes_def sign_voluntary_exit_message_with_success_def Let_def default_validator name ebind_def
        SignatureResponse_new_def)
  define m where "m = DEPOSIT \<lparr>dr_signingRoot = None, dr_deposit = \<lparr>dm_pubkey = BLSPubkey_from X b,
      dm_withdrawal_credentials = replicate 32 0, dm_amount = 0\<rparr>, dr_genesis_fork_version = GENESIS_FORK_VERSION\<rparr>"
  have "wf_BLSSignMsg m"
    using C(5) by (simp add: m_def wf_DepositRequest_def wf_root_option_def wf_DepositMessage_def GENESIS_FORK_VERSION_def
        BLSPubkey_from_def)
  note M = codes_BLSSignMsg[OF L(1) S(2,3) this]
  let ?text = "json_to_string X (the_ok (se_BLSSignMsg X S m))"
  have se: "se_BLSSignMsg X S m = Ok (the_ok (se_BLSSignMsg X S m))"
    using json_codesD(1)[OF M] by (cases "se_BLSSignMsg X S m") simp_all
  have path: "list_all path_char (''/api/v1/eth2/sign/'' @ ?name)"
    using hex_path[OF chars(1)] by (simp add: path_char_def)
  have h: "secure_sign_bls_handler X B ?name (li_state lv) m w' =
      (Response BAD_REQUEST (Message ''Signing deposit message not allowed''), w')"
    by (simp add: m_def secure_sign_bls_handler_def sign_validator_message_def)
  have run: "serve X B E N H S W A lv POST (''/api/v1/eth2/sign/'' @ ?name) (Some ?text) w' =
      (Some \<lparr>wp_status = 400, wp_body = ''Signing deposit message not allowed''\<rparr>, w')"
    unfolding serve_def net(2) sign_routes(1)[OF L(5) hex_path[OF chars(1)] chars(2)]
    using h by (simp add: run_endpoint_def with_json_codes[OF L(1) M] BAD_REQUEST_def)
  have "rq_send R \<lparr>wq_method = POST, wq_url = vcl_url (cl_validator build_client) @ ''/api/v1/eth2/sign/'' @ ?name,
      wq_body = Some ?text\<rparr> ?n = (Ok \<lparr>wp_status = 400, wp_body = ''Signing deposit message not allowed''\<rparr>, pv w' ?n)"
    using net(1) path run rv unfolding remote_def by simp
  then have "send_json X R (vcl_url (cl_validator build_client) @ ''/api/v1/eth2/sign/'' @ ?name) (se_BLSSignMsg X S m) ?n =
      (Ok \<lparr>wp_status = 400, wp_body = ''Signing deposit message not allowed''\<rparr>, pv w' ?n)"
    unfolding send_json_def by (subst se) simp
  then show "passes (sign_message_deposit_message X E S R) n"
    using g k(1) unfolding m_def
    by (simp add: passes_def sign_message_deposit_message_def Let_def default_validator name ebind_def)
qed

end
