(* ===== verification/Demo_Tests.thy ===== *)
theory Demo_Tests
  imports Client_Tests_Pass Demo_Net Demo_Cli
begin

text \<open>
  A concrete keystore crate, a network of the three servers where the tests look for them,
  and a crate of keys that reads the recorded one, with every documented property.
\<close>

section \<open>Keystores\<close>

text \<open>A keystore is the JSON text of the password's characters and the bytes of the key.\<close>

definition demo_keystore_json :: "bytes \<Rightarrow> string \<Rightarrow> json" where
  "demo_keystore_json sk pw = JArr [JArr (map (\<lambda>c. JNum (of_char c)) pw), JArr (map (\<lambda>b. JNum (ucast b)) sk)]"

fun json_byte :: "json \<Rightarrow> u8" where
  "json_byte (JNum n) = ucast n"
| "json_byte j = 0"

definition demo_opens :: "string \<Rightarrow> string \<Rightarrow> bytes res" where
  "demo_opens s pw =
     (if json_from_slice demo_codec s = Some eip2335_scrypt \<and> pw = map (\<lambda>b. char_of (unat b)) eip2335_password
      then Ok eip2335_secret
      else case json_from_slice demo_codec s of
        Some (JArr [JArr p, JArr k]) \<Rightarrow>
          if p = map (\<lambda>c. JNum (of_char c)) pw then Ok (map json_byte k) else Err (External ''InvalidPassword'')
      | _ \<Rightarrow> Err (External ''serde_json''))"

definition demo_keystores :: keystore_crate where
  "demo_keystores = \<lparr>
     encrypt_key = (\<lambda>d r sk pw name.
       ebind (fs_write (d @ [case name of Some n \<Rightarrow> n | None \<Rightarrow> ''uuid'']) (json_to_string demo_codec (demo_keystore_json sk pw)))
         (\<lambda>_. ret ''uuid'')),
     decrypt_key = (\<lambda>p pw. ebind (fs_read p) (\<lambda>s. lift (demo_opens s pw))),
     decrypt_keystore = demo_opens\<rparr>"

lemma of_char_u64_inject: "(of_char c :: u64) = of_char d \<longleftrightarrow> c = d"
proof
  assume "(of_char c :: u64) = of_char d"
  then have "unat (of_char c :: u64) = unat (of_char d :: u64)" by simp
  moreover have "unat (of_char e :: u64) = of_char e" for e
    by (cases e) (simp add: of_char_def unat_of_nat)
  ultimately show "c = d" by simp
qed simp

lemma demo_sealed: "sealed demo_keystores sk pw (json_to_string demo_codec (demo_keystore_json sk pw))"
proof -
  have "printable (demo_keystore_json sk pw)" by (auto simp: demo_keystore_json_def)
  then have "json_from_slice demo_codec (json_to_string demo_codec (demo_keystore_json sk pw)) = Some (demo_keystore_json sk pw)"
    using codec_lawsD(2)[OF demo_codec_laws] by (simp add: json_laws_def)
  moreover have "demo_keystore_json sk pw \<noteq> eip2335_scrypt" by (simp add: demo_keystore_json_def eip2335_scrypt_def)
  moreover have "map (\<lambda>c. JNum (of_char c)) pw = map (\<lambda>c. JNum (of_char c)) pw' \<longleftrightarrow> pw = pw'" for pw'
    by (rule inj_map_eq_map) (simp add: inj_def of_char_u64_inject)
  moreover have "map json_byte (map (\<lambda>b. JNum (ucast b)) sk) = sk"
  proof -
    have "ucast (ucast b :: u64) = b" for b :: u8 by (simp add: ucast_down_ucast_id is_down)
    then show ?thesis by (simp add: comp_def)
  qed
  ultimately show ?thesis
    by (auto simp: sealed_def demo_keystores_def demo_opens_def demo_keystore_json_def)
qed

lemma demo_keystore_disk: "keystore_disk demo_keystores"
proof -
  have "plain ''uuid''" by code_simp
  then have "\<exists>uuid w' s. encrypt_key demo_keystores d r sk pw name w = (Ok uuid, w') \<and> plain uuid \<and> quiet w' \<and> is_dir w' = is_dir w \<and>
      lookup w' = (lookup w)(d @ [case name of Some n \<Rightarrow> n | None \<Rightarrow> uuid] \<mapsto> s) \<and> sealed demo_keystores sk pw s"
    if "quiet w" "\<forall>n. writable w (d @ [n])" for d r sk pw name w
    using that demo_sealed[of sk pw]
    by (intro exI[of _ "''uuid''"] exI[of _ "json_to_string demo_codec (demo_keystore_json sk pw)"])
      (auto simp: demo_keystores_def ebind_def fs_write_def next_fault_quiet ret_def fun_eq_iff)
  moreover have "decrypt_key demo_keystores p pw w = (decrypt_keystore demo_keystores s pw, w)"
    if "quiet w" "lookup w p = Some s" for p pw w s
    using that by (simp add: demo_keystores_def ebind_def fs_read_def next_fault_quiet lift_def)
  ultimately show ?thesis unfolding keystore_disk_def by blast
qed

lemma demo_single_key: "single_key_laws demo_blsttc"
  by (simp add: single_key_laws_def demo_blsttc_def set_of_share)

section \<open>The hosts of the tests\<close>

text \<open>Its state is the worlds of the secure signer, the guardian and the validator enclave.\<close>

definition demo_hosts ::
  "(http_method \<Rightarrow> string \<Rightarrow> string option \<Rightarrow> world \<Rightarrow> wire_response option \<times> world) \<Rightarrow>
   (http_method \<Rightarrow> string \<Rightarrow> string option \<Rightarrow> world \<Rightarrow> wire_response option \<times> world) \<Rightarrow>
   (http_method \<Rightarrow> string \<Rightarrow> string option \<Rightarrow> world \<Rightarrow> wire_response option \<times> world) \<Rightarrow>
   (world \<times> world \<times> world) reqwest" where
  "demo_hosts s g v = \<lparr>
     rq_send = (\<lambda>q (ws, wg, wv).
       if take 21 (wq_url q) = ''http://localhost:9001''
       then (case s (wq_method q) (drop 21 (wq_url q)) (wq_body q) ws of (r, w) \<Rightarrow> (demo_delivery r, (w, wg, wv)))
       else if take 21 (wq_url q) = ''http://localhost:9002''
       then (case g (wq_method q) (drop 21 (wq_url q)) (wq_body q) wg of (r, w) \<Rightarrow> (demo_delivery r, (ws, w, wv)))
       else (case v (wq_method q) (drop 21 (wq_url q)) (wq_body q) wv of (r, w) \<Rightarrow> (demo_delivery r, (ws, wg, w)))),
     rq_text = (\<lambda>resp. ret (wp_body resp))\<rparr>"

lemma test_urls:
  "sc_url (cl_secure_signer build_client) = ''http://localhost:9001''"
  "gc_url (cl_guardian build_client) = ''http://localhost:9002''"
  "vcl_url (cl_validator build_client) = ''http://localhost:9003''"
  by (simp_all add: build_client_def ClientBuilder_build_def ClientBuilder_new_def url_or_def
      ClientBuilder_guardian_url_def ClientBuilder_validator_url_def default_client_secure_signer_url_def)

lemma demo_hosts_remote:
  "remote (demo_hosts s g v) (sc_url (cl_secure_signer build_client)) s fst (\<lambda>w n. (w, snd n))"
  "remote (demo_hosts s g v) (gc_url (cl_guardian build_client)) g (fst \<circ> snd) (\<lambda>w n. (fst n, w, snd (snd n)))"
  "remote (demo_hosts s g v) (vcl_url (cl_validator build_client)) v (snd \<circ> snd) (\<lambda>w n. (fst n, fst (snd n), w))"
  unfolding test_urls
  by (auto simp: remote_def demo_hosts_def demo_delivery_def split: prod.splits option.splits)

section \<open>A reader of the recorded key\<close>

definition demo_reader :: demo_ecc where
  "demo_reader = demo_secp\<lparr>epk_parse_slice := (\<lambda>b. if length b = 65 then Some (last b) else None)\<rparr>"

lemma demo_reader_laws: "secp_laws demo_reader"
proof -
  have "epk_parse_slice demo_reader (epk_serialize demo_secp k) = Some k" for k
    by (simp add: demo_reader_def demo_secp_def pad_def)
  moreover have "key_pair demo_reader = key_pair demo_secp"
    by (intro ext) (simp add: key_pair_def demo_reader_def)
  ultimately show ?thesis
    using demo_secp_laws unfolding secp_laws_def by (simp add: demo_reader_def)
qed

definition recorded_bytes :: bytes where
  "recorded_bytes = [0x04, 0xfa, 0xd7, 0x64, 0x20, 0xab, 0xd3, 0x3c, 0xfd, 0x92, 0xf5, 0x1f, 0x31, 0xc4, 0x7f, 0xe6,
    0x78, 0x92, 0x2e, 0x47, 0x62, 0x81, 0xb2, 0x1a, 0xa8, 0xa7, 0x38, 0xbc, 0xd5, 0x6e, 0x37, 0xa7,
    0x76, 0xf6, 0x78, 0xc9, 0x45, 0x92, 0xd6, 0xae, 0xfd, 0x17, 0xaf, 0x48, 0xb5, 0x08, 0xfe, 0xb1,
    0xf2, 0x7e, 0x82, 0xda, 0x4c, 0x0c, 0x46, 0xa2, 0x53, 0x83, 0x0e, 0x4d, 0x86, 0x37, 0xb3, 0xfb,
    0xaf]"

lemma demo_recorded: "hex_decode demo_codec recorded_key = Some recorded_bytes"
  "epk_parse_slice demo_reader recorded_bytes = Some 0xaf"
proof -
  have "hex_encode demo_codec recorded_bytes = recorded_key"
    unfolding demo_hex_text[unfolded hex_text_law_def, rule_format] by code_simp
  then show "hex_decode demo_codec recorded_key = Some recorded_bytes"
    using hex_decode_encode[OF demo_hex_laws, of recorded_bytes] by simp
  show "epk_parse_slice demo_reader recorded_bytes = Some 0xaf"
    by (simp add: demo_reader_def recorded_bytes_def)
qed

end
