(* ===== verification/Client_Traits.thy ===== *)
theory Client_Traits
  imports Mock_Clients
begin

text \<open>
  src/client/traits/mod.rs: what code written against a client can call, whichever client it
  gets. A trait is the record of its calls over the state of the implementation; the HTTP
  clients and the test doubles are its values.
\<close>

section \<open>The traits and who implements them\<close>

record ('s, 'epk) GuardianClientTrait =
  gt_health :: "('s, bool) eff"
  gt_attest_fresh_eth_key :: "u64 \<Rightarrow> string \<Rightarrow> u64 \<Rightarrow> ('s, KeyGenResponse) eff"
  gt_list_eth_keys :: "('s, ListKeysResponse) eff"
  gt_validate_custody :: "'epk ValidateCustodyRequest \<Rightarrow> ('s, ValidateCustodyResponse) eff"
  gt_sign_exit :: "SignExitRequest \<Rightarrow> ('s, SignExitResponse) eff"

record ('s, 'epk) ValidatorClientTrait =
  vt_health :: "('s, bool) eff"
  vt_attest_fresh_bls_key :: "'epk AttestFreshBlsKeyPayload \<Rightarrow> ('s, BlsKeygenPayload) eff"
  vt_list_bls_keys :: "('s, ListKeysResponse) eff"
  vt_sign_voluntary_exit_message :: "string \<Rightarrow> Epoch \<Rightarrow> ValidatorIndex \<Rightarrow> ForkInfo \<Rightarrow> ('s, SignatureResponse) eff"

definition GuardianClient_impl ::
  "codec \<Rightarrow> 'epk wire \<Rightarrow> 'n reqwest \<Rightarrow> GuardianClient \<Rightarrow> ('n, 'epk) GuardianClientTrait" where
  "GuardianClient_impl X W R c = \<lparr>
     gt_health = GuardianClient_health R c,
     gt_attest_fresh_eth_key = GuardianClient_attest_fresh_eth_key X W R c,
     gt_list_eth_keys = GuardianClient_list_eth_keys X R c,
     gt_validate_custody = GuardianClient_validate_custody X W R c,
     gt_sign_exit = GuardianClient_sign_exit X R c\<rparr>"

definition MockGuardianClient_impl :: "(MockGuardianClient, 'epk) GuardianClientTrait" where
  "MockGuardianClient_impl = \<lparr>
     gt_health = MockGuardianClient_health,
     gt_attest_fresh_eth_key = MockGuardianClient_attest_fresh_eth_key,
     gt_list_eth_keys = MockGuardianClient_list_eth_keys,
     gt_validate_custody = MockGuardianClient_validate_custody,
     gt_sign_exit = MockGuardianClient_sign_exit\<rparr>"

definition ValidatorClient_impl ::
  "codec \<Rightarrow> ('esk, 'epk, 'emsg, 'esig) secp \<Rightarrow> ssz_serde \<Rightarrow> 'n reqwest \<Rightarrow> ValidatorClient \<Rightarrow> ('n, 'epk) ValidatorClientTrait" where
  "ValidatorClient_impl X E S R c = \<lparr>
     vt_health = ValidatorClient_health R c,
     vt_attest_fresh_bls_key = ValidatorClient_attest_fresh_bls_key X E R c,
     vt_list_bls_keys = ValidatorClient_list_bls_keys X R c,
     vt_sign_voluntary_exit_message = ValidatorClient_sign_voluntary_exit_message X S R c\<rparr>"

text \<open>The validator's double does not change; its state is the double itself.\<close>

definition MockValidatorClient_impl :: "(MockValidatorClient, 'epk) ValidatorClientTrait" where
  "MockValidatorClient_impl = \<lparr>
     vt_health = (\<lambda>c. (Ok (MockValidatorClient_health c), c)),
     vt_attest_fresh_bls_key = (\<lambda>payload c. (MockValidatorClient_attest_fresh_bls_key c payload, c)),
     vt_list_bls_keys = (\<lambda>c. (MockValidatorClient_list_bls_keys c, c)),
     vt_sign_voluntary_exit_message = (\<lambda>pk ep vi fi c. (MockValidatorClient_sign_voluntary_exit_message c pk ep vi fi, c))\<rparr>"

section \<open>Code written against the guardian's trait\<close>

text \<open>
  A program asks, and goes on with the answer or with the error; a panic in a call ends it.
\<close>

datatype 'epk guardian_call =
    Ask_health
  | Ask_keygen u64 string u64
  | Ask_list
  | Ask_custody "'epk ValidateCustodyRequest"
  | Ask_exit SignExitRequest

datatype guardian_reply =
    Health_is bool
  | Key_is KeyGenResponse
  | Keys_are ListKeysResponse
  | Custody_is ValidateCustodyResponse
  | Exit_is SignExitResponse

datatype ('epk, 'a) client_program =
    Finish 'a
  | Ask "'epk guardian_call" "guardian_reply res \<Rightarrow> ('epk, 'a) client_program"

fun ask :: "('s, 'epk) GuardianClientTrait \<Rightarrow> 'epk guardian_call \<Rightarrow> ('s, guardian_reply) eff" where
  "ask T Ask_health = ebind (gt_health T) (\<lambda>b. ret (Health_is b))"
| "ask T (Ask_keygen bn addr ci) = ebind (gt_attest_fresh_eth_key T bn addr ci) (\<lambda>k. ret (Key_is k))"
| "ask T Ask_list = ebind (gt_list_eth_keys T) (\<lambda>ks. ret (Keys_are ks))"
| "ask T (Ask_custody req) = ebind (gt_validate_custody T req) (\<lambda>r. ret (Custody_is r))"
| "ask T (Ask_exit req) = ebind (gt_sign_exit T req) (\<lambda>r. ret (Exit_is r))"

primrec run_program :: "('s, 'epk) GuardianClientTrait \<Rightarrow> ('epk, 'a) client_program \<Rightarrow> ('s, 'a) eff" where
  "run_program T (Finish x) = (\<lambda>s. (Ok x, s))"
| "run_program T (Ask c k) = (\<lambda>s.
     case ask T c s of
        (Panic m, s') \<Rightarrow> (Panic m, s')
      | (r, s') \<Rightarrow> run_program T (k r) s')"

text \<open>The answers of a run, up to the first call that gets none.\<close>

primrec replies :: "('s, 'epk) GuardianClientTrait \<Rightarrow> ('epk, 'a) client_program \<Rightarrow> 's \<Rightarrow> guardian_reply list" where
  "replies T (Finish x) = (\<lambda>s. [])"
| "replies T (Ask c k) = (\<lambda>s.
     case ask T c s of
        (Ok r, s') \<Rightarrow> r # replies T (k (Ok r)) s'
      | (_, s') \<Rightarrow> [])"

primrec all_answered :: "('s, 'epk) GuardianClientTrait \<Rightarrow> ('epk, 'a) client_program \<Rightarrow> 's \<Rightarrow> bool" where
  "all_answered T (Finish x) = (\<lambda>s. True)"
| "all_answered T (Ask c k) = (\<lambda>s.
     case ask T c s of
        (Ok r, s') \<Rightarrow> all_answered T (k (Ok r)) s'
      | (_, s') \<Rightarrow> False)"

section \<open>Replaying a run on the double\<close>

fun push_reply :: "guardian_reply \<Rightarrow> MockGuardianClient \<Rightarrow> MockGuardianClient" where
  "push_reply (Health_is b) = push_health_response b"
| "push_reply (Key_is k) = push_attest_fresh_eth_key_response k"
| "push_reply (Keys_are ks) = push_list_eth_keys_response ks"
| "push_reply (Custody_is r) = push_validate_custody_response r"
| "push_reply (Exit_is r) = push_sign_exit_response r"

text \<open>A double is loaded with replies when each queue has those of its kind, in order.\<close>

definition loaded :: "guardian_reply list \<Rightarrow> MockGuardianClient \<Rightarrow> bool" where
  "loaded rs c \<longleftrightarrow>
     health_responses c = concat (map (\<lambda>r. case r of Health_is b \<Rightarrow> [b] | _ \<Rightarrow> []) rs) \<and>
     attest_fresh_eth_key_responses c = concat (map (\<lambda>r. case r of Key_is k \<Rightarrow> [k] | _ \<Rightarrow> []) rs) \<and>
     list_eth_keys_responses c = concat (map (\<lambda>r. case r of Keys_are ks \<Rightarrow> [ks] | _ \<Rightarrow> []) rs) \<and>
     validate_custody_responses c = concat (map (\<lambda>r. case r of Custody_is v \<Rightarrow> [v] | _ \<Rightarrow> []) rs) \<and>
     sign_exit_responses c = concat (map (\<lambda>r. case r of Exit_is v \<Rightarrow> [v] | _ \<Rightarrow> []) rs)"

lemma loaded_push: "loaded rs c \<Longrightarrow> loaded (rs @ [r]) (push_reply r c)"
  by (cases r) (simp_all add: loaded_def push_health_response_def push_attest_fresh_eth_key_response_def
      push_list_eth_keys_response_def push_validate_custody_response_def push_sign_exit_response_def)

lemma loaded_pushes: "loaded rs c \<Longrightarrow> loaded (rs @ qs) (fold push_reply qs c)"
proof (induction qs arbitrary: rs c)
  case (Cons q qs)
  from Cons.IH[OF loaded_push[OF Cons.prems, of q]] show ?case by simp
qed simp

lemma loaded_new: "loaded rs (fold push_reply rs MockGuardianClient_new)"
  using loaded_pushes[of "[]" MockGuardianClient_new rs] by (simp add: loaded_def MockGuardianClient_new_def)

text \<open>An answer has the kind of its question, so the double answers it from the right queue.\<close>

fun fits :: "'epk guardian_call \<Rightarrow> guardian_reply \<Rightarrow> bool" where
  "fits Ask_health (Health_is b) = True"
| "fits (Ask_keygen bn addr ci) (Key_is k) = True"
| "fits Ask_list (Keys_are ks) = True"
| "fits (Ask_custody req) (Custody_is r) = True"
| "fits (Ask_exit req) (Exit_is r) = True"
| "fits c r = False"

lemma ask_fits: "ask T c s = (Ok r, s') \<Longrightarrow> fits c r"
  by (cases c) (auto simp: res_simps)

lemma double_answers:
  assumes "fits c r" "loaded (r # rs) d"
  shows "\<exists>d'. ask MockGuardianClient_impl c d = (Ok r, d') \<and> loaded rs d'"
  using assms
  by (cases "(c, r)" rule: fits.cases) (simp_all add: loaded_def MockGuardianClient_impl_def ebind_def MockGuardianClient_health_def
      MockGuardianClient_attest_fresh_eth_key_def MockGuardianClient_list_eth_keys_def
      MockGuardianClient_validate_custody_def MockGuardianClient_sign_exit_def)

lemma run_replayed:
  assumes "all_answered T p s" "loaded (replies T p s) d"
  shows "\<exists>d'. run_program MockGuardianClient_impl p d = (fst (run_program T p s), d') \<and> loaded [] d'"
  using assms
proof (induction p arbitrary: s d)
  case (Ask c k)
  then obtain r s' where a: "ask T c s = (Ok r, s')" "all_answered T (k (Ok r)) s'"
    by (auto split: prod.splits res.splits)
  obtain d1 where d1: "ask MockGuardianClient_impl c d = (Ok r, d1)" "loaded (replies T (k (Ok r)) s') d1"
    using double_answers[OF ask_fits[OF a(1)]] Ask.prems(2) a(1) by auto
  from Ask.IH[OF _ a(2) d1(2)] show ?case using a(1) d1(1) by auto
qed simp

text \<open>The validator's double gives the answers it was built with, any number of times.\<close>

lemma validator_double_repeats:
  "calls (vt_attest_fresh_bls_key MockValidatorClient_impl req) k \<lparr>health = b, fresh_bls_key = Some p, voluntary_exit_message = v\<rparr> =
     (replicate k (Ok p), \<lparr>health = b, fresh_bls_key = Some p, voluntary_exit_message = v\<rparr>)"
  by (induction k) (simp_all add: MockValidatorClient_impl_def MockValidatorClient_attest_fresh_bls_key_def)

end
