(* ===== verification/Properties_Flows.thy ===== *)
theory Properties_Flows
  imports Properties_Network Properties_Tests Demo_Tests Client_Traits
begin

text \<open>
  The flows across the three servers and their clients, as the repository's own tests drive
  them, and the tests of the modules that need a keystore or a recorded payload.
\<close>

section \<open>Registration of a validator\<close>

text \<open>
  C11: the registration of a validator with a guardian runs to its end. In a network that
  delivers, with working file systems and an attestation agent that answers, the guardian's
  client gets a key and finds it listed, the validator's client gets a payload for that key,
  the guardian takes its share into custody, and signs the exit of the validator with it; and
  the same with a payload that the command line made, on a machine of its own.
\<close>

theorem registration_flow:
  assumes "registration_laws X B E N H W A" "keystore_disk K" "deployed X B E N H S W A R lv lg rv pv rg pg"
    and "working (rg n)" "keys_only X eth_dir (rg n)" "working (rv n)" "quiet v" "free_dir v bls_dir"
    and "sks_random B 0 (rng (rv n)) \<noteq> None" "sks_random B 0 (rng v) \<noteq> None"
  shows "passes (registration_flow_succeeds X E W R) n \<and>
    passes (test_cli_keygen_verified_by_guardians X B E K W R) (v, n)"
  using registration_passes[OF assms(1,3-6,9)] cli_keygen_passes[OF assms(1-5,7,8,10)] by blast

lemma demo_registration_laws: "registration_laws demo_codec demo_blsttc demo_reader demo_services demo_ethers demo_wire demo_axum"
proof -
  have "ethers_laws demo_codec demo_reader demo_ethers"
    using demo_ethers_laws by (simp add: ethers_laws_def demo_reader_def)
  moreover have "agent_works demo_services" using demo_evidence by (simp add: agent_works_def)
  moreover have "address_parse demo_ethers (strip_0x_prefix zero_address) \<noteq> None"
    unfolding zero_address_def demo_ethers_def by code_simp
  ultimately show ?thesis
    unfolding registration_laws_def
    using demo_codec_laws demo_bls_laws demo_reader_laws demo_services_laws demo_threshold_laws demo_wire_laws
      demo_axum_laws demo_wsig by blast
qed

definition demo_host :: "router \<Rightarrow> http_method \<Rightarrow> string \<Rightarrow> string option \<Rightarrow> world \<Rightarrow> wire_response option \<times> world" where
  "demo_host r = serve demo_codec demo_blsttc demo_reader demo_services demo_ethers demo_ssz_serde demo_wire demo_axum
     (demo_listener r)"

abbreviation demo_internet :: "(world \<times> world \<times> world) reqwest" where
  "demo_internet \<equiv> demo_hosts (demo_host secure_signer_app) (demo_host guardian_app) (demo_host validator_app)"

lemma demo_deployed:
  "deployed demo_codec demo_blsttc demo_reader demo_services demo_ethers demo_ssz_serde demo_wire demo_axum demo_internet
     (demo_listener validator_app) (demo_listener guardian_app) (snd \<circ> snd) (\<lambda>w n. (fst n, fst (snd n), w))
     (fst \<circ> snd) (\<lambda>w n. (fst n, w, snd (snd n)))"
  using demo_hosts_remote[of "demo_host secure_signer_app" "demo_host guardian_app" "demo_host validator_app"]
  by (simp add: deployed_def demo_host_def demo_listener_def)

lemma demo_world_works: "working empty_world" "keys_only X d empty_world"
  by (simp_all add: working_def keys_only_def children_def) (simp_all add: empty_world_def is_dir_def)

theorem registration_flow_witness:
  "passes (registration_flow_succeeds demo_codec demo_reader demo_wire demo_internet) (empty_world, empty_world, empty_world) \<and>
   passes (test_cli_keygen_verified_by_guardians demo_codec demo_blsttc demo_reader demo_keystores demo_wire demo_internet)
     (empty_world, empty_world, empty_world, empty_world)"
  by (rule registration_flow[OF demo_registration_laws demo_keystore_disk demo_deployed])
    (simp_all add: demo_world_works demo_blsttc_def)

section \<open>The other tests of the clients\<close>

definition server_tests ::
  "codec \<Rightarrow> ('ps, 'pk, 'psh, 'ss, 'sk, 'ssh, 'sg, 'sgh) blsttc \<Rightarrow> ('esk, 'epk, 'emsg, 'esig) secp \<Rightarrow> ssz_serde \<Rightarrow>
   'epk wire \<Rightarrow> 'n reqwest \<Rightarrow> ('n, unit) eff list" where
  "server_tests X B E S W R = [
     guardian_health_with_success R, validator_health_with_success R, signer_health_with_success R,
     call_attest_fresh_eth_with_success X W R, call_attest_fresh_eth_with_failure_bad_address X W R,
     call_generate_eth_key_with_success X W R, call_generate_bls_key_with_success X W R,
     call_attest_fresh_bls_key_with_success X E R, sign_voluntary_exit_message_with_success X B E S R,
     sign_message_deposit_message X E S R]"

definition shares_tests ::
  "codec \<Rightarrow> ('ps, 'pk, 'psh, 'ss, 'sk, 'ssh, 'sg, 'sgh) blsttc \<Rightarrow> ('esk, 'epk, 'emsg, 'esig) secp \<Rightarrow> 'n reqwest \<Rightarrow>
   (world \<times> 'n, unit) eff list" where
  "shares_tests X B E R = [call_validate_custody_with_success X B E R, call_attest_fresh_bls_key_and_decrypt X B E R]"

text \<open>
  C29: the other tests of the clients, against the three servers over a network that delivers:
  the health checks, a guardian's key for a good address and an error for a bad one, keys
  whose shares open for every guardian, an exit whose signature verifies and a deposit that
  is answered 400 all go through. The two listings of the secure signer make one key and want
  two: they pass exactly where another key was stored before.
\<close>

theorem client_tests_pass:
  assumes L: "registration_laws X B E N H W A" "hash_laws X" "ssz_serde_laws S" "biguint_laws X"
    and D: "deployed X B E N H S W A R lv lg rv pv rg pg"
    and s: "remote R (sc_url (cl_secure_signer build_client)) (serve X B E N H S W A l) rs ps" "li_app l = secure_signer_app"
    and w: "working (rg n)" "keys_only X eth_dir (rg n)" "working (rv n)" "working (rs n)" "keys_only X eth_dir (rs n)"
      "keys_only X bls_dir (rs n)"
    and t: "sks_random B 2 (rng (rv n)) \<noteq> None" "sks_random B 6 (rng (rv n)) \<noteq> None" "sks_random B 0 (rng (rs n)) = Some k"
    and g: "generate_keypair E (rng (rs n)) = (sk, pk)" and a: "address_parse H ''not_an_address'' = None"
    and r: "hex_decode X recorded_key = Some b" "epk_parse_slice E b = Some gk"
  shows "(\<forall>test \<in> set (server_tests X B E S W R). passes test n) \<and> (\<forall>test \<in> set (shares_tests X B E R). passes test (v, n)) \<and>
    (passes (call_list_eth_keys_with_success X W R) n \<longleftrightarrow> (\<exists>h \<in> children (rs n) eth_dir. h \<noteq> eth_pk_to_hex X E pk)) \<and>
    (passes (call_list_bls_keys_with_success X W R) n \<longleftrightarrow> (\<exists>h \<in> children (rs n) bls_dir. h \<noteq> validator_name X B k))"
proof -
  note Ls = registration_lawsD[OF L(1)] and Ds = deployedD[OF D]
  note eth = signer_eth_listing_passes_iff[OF Ls(1,3,4,7,8,10) s w(4,5) g]
  note bls = signer_bls_listing_passes_iff[OF Ls(1,2,4,7,8,10) s w(4,6) t(3)]
  have "\<forall>test \<in> set (server_tests X B E S W R). passes test n"
    using health_tests_pass(1)[OF Ls(8) Ds(3,4)] health_tests_pass(2)[OF Ls(8) Ds(1,2)] health_tests_pass(3)[OF Ls(8) s]
      guardian_key_tests_pass(1)[OF L(1) D w(1,2)] guardian_key_tests_pass(2)[OF L(1) D w(1,2) a] eth(1) bls(1)
      validator_signing_tests_pass[OF Ls(1-4,8,10) L(2-4) Ds(1,2) r w(3) t(1)]
    by (simp add: server_tests_def)
  moreover have "sks_random B t (rng (rv n)) \<noteq> None" if "t \<in> {2, 6}" for t using that t(1,2) by auto
  from guardian_share_tests_pass[OF L(1) D w(3) this] have "\<forall>test \<in> set (shares_tests X B E R). passes test (v, n)"
    by (simp add: shares_tests_def)
  ultimately show ?thesis using eth(2) bls(2) by blast
qed

lemma demo_signer_remote:
  "remote demo_internet (sc_url (cl_secure_signer build_client))
     (serve demo_codec demo_blsttc demo_reader demo_services demo_ethers demo_ssz_serde demo_wire demo_axum
       (demo_listener secure_signer_app)) fst (\<lambda>w n. (w, snd n))"
  unfolding demo_host_def by (rule demo_hosts_remote(1))

theorem client_tests_pass_witness:
  "passes (sign_message_deposit_message demo_codec demo_reader demo_ssz_serde demo_internet) (empty_world, empty_world, empty_world) \<and>
   passes (call_attest_fresh_bls_key_and_decrypt demo_codec demo_blsttc demo_reader demo_internet)
     (empty_world, empty_world, empty_world, empty_world) \<and>
   \<not> passes (call_list_bls_keys_with_success demo_codec demo_wire demo_internet) (empty_world, empty_world, empty_world)"
proof -
  let ?n = "(empty_world, empty_world, empty_world)"
  have l: "li_app (demo_listener secure_signer_app) = secure_signer_app" by (simp add: demo_listener_def)
  have w: "working ((fst \<circ> snd) ?n)" "keys_only demo_codec eth_dir ((fst \<circ> snd) ?n)" "working ((snd \<circ> snd) ?n)"
    "working (fst ?n)" "keys_only demo_codec eth_dir (fst ?n)" "keys_only demo_codec bls_dir (fst ?n)"
    by (simp_all add: demo_world_works)
  have t: "sks_random demo_blsttc 2 (rng ((snd \<circ> snd) ?n)) \<noteq> None" "sks_random demo_blsttc 6 (rng ((snd \<circ> snd) ?n)) \<noteq> None"
    "sks_random demo_blsttc 0 (rng (fst ?n)) = Some (0, 0)" "generate_keypair demo_reader (rng (fst ?n)) = (0, 0)"
    by (simp_all add: demo_blsttc_def demo_reader_def demo_secp_def)
  have a: "address_parse demo_ethers ''not_an_address'' = None" unfolding demo_ethers_def by code_simp
  have c: "children (fst ?n) bls_dir = {}" by (simp add: children_def) (simp add: empty_world_def is_dir_def)
  from client_tests_pass[OF demo_registration_laws demo_hash_laws demo_ssz_serde_laws demo_biguint_laws demo_deployed
      demo_signer_remote l w t a demo_recorded,
      of empty_world] c show ?thesis
    by (simp add: server_tests_def shares_tests_def)
qed

section \<open>Tests of keystores and of guardians\<close>

definition keystore_tests ::
  "codec \<Rightarrow> ('ps, 'pk, 'psh, 'ss, 'sk, 'ssh, 'sg, 'sgh) blsttc \<Rightarrow> ('esk, 'epk, 'emsg, 'esig) secp \<Rightarrow> keystore_crate \<Rightarrow>
   string \<Rightarrow> (world, unit) eff list" where
  "keystore_tests X B E K keystore = [
     test_write_read_delete_bls_keystore X K, test_save_and_fetch_bls_keystore X B K, test_keygen_and_decrypt X B E K,
     test_import_keystore X E K keystore, test_encrypt_decrypt_keystore X K]"

definition guardian_tests ::
  "codec \<Rightarrow> ('ps, 'pk, 'psh, 'ss, 'sk, 'ssh, 'sg, 'sgh) blsttc \<Rightarrow> ('esk, 'epk, 'emsg, 'esig) secp \<Rightarrow>
   ('wal, 'wsig) ethers \<Rightarrow> (bytes \<Rightarrow> 'sk option) \<Rightarrow> 'esk \<Rightarrow> ('w, BlsKeygenPayload \<times> 'esk list \<times> string) eff \<Rightarrow>
   ('w, unit) eff list" where
  "guardian_tests X B E H skf default_sk start = [
     test_setup_valid X B E start, test_verify_custody_with_success X B E start,
     test_verify_custody_with_fail X B E default_sk start, test_verify_session_evidence_structural_checks start,
     test_verify_deposit_message X B start, test_approve_custody X B E H start, test_sign_vem X B E skf start]"

text \<open>What key generation with an attestation puts into the payload.\<close>

lemma generated_evidence:
  assumes N: "services_laws X N" and k: "attest_fresh_bls_key X B E N wc gs t fv True v = (Ok p, v')"
  obtains e m where "evidence_new N m v' = (Ok e, v')" "env v' = env v" "session_id p = ae_session_id e"
    "attestation_signature p = ae_signature e" "session_public_key p = alloy_to_string N (pi_key (ae_session_public_key e))"
proof -
  obtain e m w where e: "evidence_new N m w = (Ok e, v')" "session_id p = ae_session_id e" "attestation_signature p = ae_signature e"
      "session_public_key p = alloy_to_string N (pi_key (ae_session_public_key e))"
    using k unfolding attest_fresh_bls_key_def Let_def by (auto simp only: res_simps ret_apply if_True split: prod.splits)
      (auto simp: res_simps)
  moreover have "w = v'" using evidence_new_frame[OF N, of m w] e(1) by simp
  moreover have "env v' = env v" using env_keygen[OF N] k by (metis snd_conv)
  ultimately show ?thesis using that by blast
qed

text \<open>
  C28: the unit tests of the keystores and of the guardian hold of the model. The former pass
  on any disk with room for their files, with a keystore crate that opens what it wrote with
  the password and with no other, and opens the recorded vector. The latter, started from
  any payload with evidence that the validator enclave makes for guardians whose keys open no
  share but their own, end without a failed assertion.
\<close>

theorem module_tests_pass:
  assumes L: "codec_laws X" "bls_laws X B" "secp_laws E" "hex_text_law X"
    and K: "single_key_laws B" "keystore_disk K" "json_from_slice X keystore = Some eip2335_scrypt"
      "\<And>raw. json_from_slice X raw = Some eip2335_scrypt \<Longrightarrow>
        decrypt_keystore K raw (map (\<lambda>b. char_of (unat b)) eip2335_password) = Ok eip2335_secret"
    and w: "test_room w" "free_dir w test_keys_dir" "sks_random B 3 (rng w) \<noteq> None" "sks_random B 0 (Suc (rng w)) \<noteq> None"
    and G: "threshold_laws B" "ethers_laws X E H" "share_as_key B skf"
    and k: "attest_fresh_bls_key X B E N (replicate 32 1) gs t (replicate 4 0) True v = (Ok p, v')"
      "length sks = length gs" "\<And>i. i < length gs \<Longrightarrow> key_pair E (sks ! i) (gs ! i)" "unat (t - 1) < length gs"
      "session_id p \<noteq> []" "attestation_signature p \<noteq> []" "session_public_key p \<noteq> []"
    and o: "own_shares_only X B E p sks" "\<forall>i < length gs. is_err (decrypt_sk_share X B E p i default_sk)"
    and u: "start u = (Ok (p, sks, wid), u')"
  shows "(\<forall>test \<in> set (keystore_tests X B E K keystore). passes test w) \<and>
    (\<forall>test \<in> set (guardian_tests X B E H skf default_sk start). passes test u)"
proof -
  have room: "test_bed w" "quiet w" using w(1) by (simp_all add: test_room_def test_bed_def)
  have "\<forall>test \<in> set (keystore_tests X B E K keystore). passes test w"
    using test_keystore_file_passes[OF L(1,4) K(2) room(1)] test_keystore_key_passes[OF L(1,2) K(1,2) w(1,3)]
      test_keygen_and_decrypt_passes[OF L(1-3) K(1,2) w(1,4)] test_import_keystore_passes[OF L(1,4,3) K(3,4)]
      test_encrypt_decrypt_passes[OF L(1,4) K(2) room(2) w(2)]
    by (simp add: keystore_tests_def)
  moreover obtain s v1 where s: "new_bls_key B (unat (t - 1)) v = (Ok s, v1)"
    and d: "describes X B E s (replicate 32 1) (replicate 4 0) gs p" "kp_fork_version p = replicate 4 0"
    using attest_fresh_bls_key_Ok[OF L(1,2) k(1)] by blast
  have S: "sound_setup X B E s gs p sks" "sks_threshold B s = unat (t - 1)"
    using d k(2,3,5-7) new_bls_key_Ok(4)[OF s] by (simp_all add: sound_setup_def)
  have "\<forall>test \<in> set (guardian_tests X B E H skf default_sk start). passes test u"
    using test_setup_valid_passes[where start = start and w = u, OF L(1-3) S(1) u]
      guardian_tests_pass_on[where start = start and w = u, OF L(1-3) G(1,2) S(1) u] o(2)
      test_sign_vem_passes[where start = start and w = u, OF L(1-3) G(1,3) S(1) o(1) _ u] S(2) k(4)
    by (simp add: guardian_tests_def)
  ultimately show ?thesis by blast
qed

lemma demo_share_as_key: "share_as_key demo_blsttc (ssh_from_bytes demo_blsttc)"
  by (simp add: share_as_key_def demo_blsttc_def)

lemma demo_other_share:
  assumes "describes demo_codec demo_blsttc demo_secp s wc fv gs p" "i < length gs" "gs ! i \<noteq> k"
  shows "is_err (decrypt_sk_share demo_codec demo_blsttc demo_secp p i k)"
proof -
  obtain r c where c: "bls_enc_priv_key_shares p ! i = hex_encode demo_codec c"
    "ecies_encrypt demo_secp r (epk_serialize demo_secp (gs ! i)) (ssh_to_bytes demo_blsttc (sks_secret_key_share demo_blsttc s i)) = Some c"
    using assms(1,2) by (auto simp: describes_def Let_def share_for_def)
  have "ecies_decrypt demo_secp (esk_serialize demo_secp k) c = None"
    using c(2) assms(3) by (auto simp: demo_secp_def pad_def)
  then show ?thesis
    using assms(1,2) c(1) codec_lawsD(1)[OF demo_codec_laws]
    by (simp add: decrypt_sk_share_def describes_def Let_def envelope_decrypt_def)
qed

theorem module_tests_pass_witness:
  "passes (test_import_keystore demo_codec demo_secp demo_keystores (json_to_string demo_codec eip2335_scrypt)) empty_world \<and>
   passes (test_encrypt_decrypt_keystore demo_codec demo_keystores) empty_world \<and>
   (\<exists>p. passes (test_sign_vem demo_codec demo_blsttc demo_secp (ssh_from_bytes demo_blsttc) (ret (p, [3, 4], ''wid''))) ())"
proof -
  obtain p v' where k: "attest_fresh_bls_key demo_codec demo_blsttc demo_secp demo_services demo_credentials [3, 4] 2
      [0, 0, 0, 0] True empty_world = (Ok p, v')"
    and d: "describes demo_codec demo_blsttc demo_secp (1, 0) demo_credentials [0, 0, 0, 0] [3, 4] p"
    by (rule demo_payload)
  obtain e m where e: "evidence_new demo_services m v' = (Ok e, v')" "env v' = []" "session_id p = ae_session_id e"
    "attestation_signature p = ae_signature e" "session_public_key p = alloy_to_string demo_services (pi_key (ae_session_public_key e))"
    using generated_evidence[OF demo_services_laws k] by (metis empty_world_def world.select_convs(5))
  then have f: "session_id p \<noteq> []" "attestation_signature p \<noteq> []" "session_public_key p \<noteq> []"
    by (auto simp: evidence_new_def env_var_def unwrap_or_def sign_with_session_def demo_services_def ebind_def ret_def Let_def)
  have o: "own_shares_only demo_codec demo_blsttc demo_secp p [3, 4]"
    "\<forall>i < length [3, 4 :: u8]. is_err (decrypt_sk_share demo_codec demo_blsttc demo_secp p i 9)"
    using demo_other_share[OF d, of 0] demo_other_share[OF d, of 1] by (auto simp: own_shares_only_def less_Suc_eq)
  have r4: "[0, 0, 0, 0] = replicate 4 (0 :: u8)" by code_simp
  have n: "length [3, 4 :: u8] = length [3, 4 :: u8]" "unat (2 - 1 :: u64) < length [3, 4 :: u8]" by simp_all
  have u: "ret (p, [3, 4 :: u8], ''wid'') () = (Ok (p, [3, 4], ''wid''), ())" by simp
  have keys: "key_pair demo_secp ([3, 4] ! i) ([3, 4] ! i)" if "i < length [3, 4 :: u8]" for i by (rule demo_guardian_key)
  have "printable eip2335_scrypt" unfolding eip2335_scrypt_def by code_simp
  then have j: "json_from_slice demo_codec (json_to_string demo_codec eip2335_scrypt) = Some eip2335_scrypt"
    using codec_lawsD(2)[OF demo_codec_laws] by (simp add: json_laws_def)
  have K: "decrypt_keystore demo_keystores raw (map (\<lambda>b. char_of (unat b)) eip2335_password) = Ok eip2335_secret"
    if "json_from_slice demo_codec raw = Some eip2335_scrypt" for raw
    using that by (simp add: demo_keystores_def demo_opens_def)
  have w: "free_dir empty_world test_keys_dir" "sks_random demo_blsttc 3 (rng empty_world) \<noteq> None"
    "sks_random demo_blsttc 0 (Suc (rng empty_world)) \<noteq> None"
    by (simp_all add: test_keys_dir_def free_dir_def is_dir_def empty_world_def lookup_def demo_blsttc_def)
  note M = module_tests_pass[where start = "ret (p, [3, 4], ''wid'')" and u = "()", OF demo_codec_laws demo_bls_laws demo_secp_laws demo_hex_text demo_single_key demo_keystore_disk j _
      demo_test_room w demo_threshold_laws demo_ethers_laws demo_share_as_key k[unfolded demo_credentials_def r4] n(1) _ n(2) f o u]
  from M[OF K keys] show ?thesis by (auto simp: keystore_tests_def guardian_tests_def)
qed

section \<open>The test double\<close>

text \<open>
  C39: a test double can stand for the real client of a guardian. Any program written
  against the trait of that client, however it goes on after each answer, that gets an answer
  to every call when it runs with some implementation, ends the same way with a new double that
  the same answers were pushed to; and the double is then used up.
\<close>

theorem double_replays_client:
  assumes "all_answered T prog s"
  shows "run_program MockGuardianClient_impl prog (fold push_reply (replies T prog s) MockGuardianClient_new) =
    (fst (run_program T prog s), MockGuardianClient_new)"
proof -
  obtain d where "run_program MockGuardianClient_impl prog (fold push_reply (replies T prog s) MockGuardianClient_new) =
      (fst (run_program T prog s), d)" "loaded [] d"
    using run_replayed[OF assms loaded_new] by blast
  then show ?thesis by (simp add: loaded_def MockGuardianClient_new_def)
qed

text \<open>A program that wants a key only of a healthy guardian, over the network of the tests.\<close>

definition demo_program :: "(u8, string option) client_program" where
  "demo_program = Ask Ask_health (\<lambda>r. if r = Ok (Health_is True)
     then Ask (Ask_keygen 0 zero_address 1) (\<lambda>r. Finish (case r of Ok (Key_is k) \<Rightarrow> Some (kg_pk_hex k) | _ \<Rightarrow> None))
     else Finish None)"

theorem double_replays_client_witness:
  "\<exists>pk rs. run_program (GuardianClient_impl demo_codec demo_wire demo_internet (cl_guardian build_client)) demo_program
       (empty_world, empty_world, empty_world) = (Ok (Some pk), snd (run_program
       (GuardianClient_impl demo_codec demo_wire demo_internet (cl_guardian build_client)) demo_program
       (empty_world, empty_world, empty_world))) \<and>
     run_program MockGuardianClient_impl demo_program (fold push_reply rs MockGuardianClient_new) =
       (Ok (Some pk), MockGuardianClient_new)"
proof -
  let ?T = "GuardianClient_impl demo_codec demo_wire demo_internet (cl_guardian build_client)"
  let ?n = "(empty_world, empty_world, empty_world)"
  have h: "GuardianClient_health demo_internet (cl_guardian build_client) ?n = (Ok True, ?n)"
    using health_call[OF demo_axum_laws demo_hosts_remote(2)[of "demo_host secure_signer_app" "demo_host guardian_app" "demo_host validator_app", unfolded demo_host_def]]
    unfolding GuardianClient_health_def demo_host_def by (simp add: demo_listener_def)
  obtain pk e n' where k: "GuardianClient_attest_fresh_eth_key demo_codec demo_wire demo_internet (cl_guardian build_client) 0
      zero_address 1 ?n = (Ok (from_eth_key demo_codec demo_reader pk e), n')"
    using guardian_gets_key[OF demo_registration_laws demo_deployed, of ?n] demo_world_works by auto
  have a: "all_answered ?T demo_program ?n"
    and r: "fst (run_program ?T demo_program ?n) = Ok (Some (kg_pk_hex (from_eth_key demo_codec demo_reader pk e)))"
    using h k by (simp_all add: demo_program_def GuardianClient_impl_def ebind_def)
  from double_replays_client[OF a] r show ?thesis by (metis prod.collapse)
qed

end
