(* ===== verification/Spec2Isabelle.thy ===== *)
theory Spec2Isabelle
  imports Properties_Network Mock_Clients Properties_Cli Properties_Threads Properties_Types Properties_Flows
begin

text \<open>
  A model of the validator-guardian crate (directory src/src of the repository): three
  servers that keep keys inside confidential virtual machines. The secure signer and the
  validator enclave hold BLS keys and sign consensus messages behind a slashing database;
  a guardian enclave holds an ETH key, takes shares of validator keys into custody and
  signs voluntary exits with them.

  \<^bold>\<open>How the parts interact.\<close> A client asks the validator enclave for a key (src/enclave/validator/):
  it draws a BLS key set, seals one share to each guardian's ETH key with ECIES, signs the
  deposit with the full key, saves it with an empty slashing database, and has the payload
  signed by the session key of its virtual machine (src/io/). A guardian
  (src/enclave/guardian/) recomputes the payload's digest, checks it against the session
  registry contract, checks the deposit signature, opens its share, stores it and signs the
  approval; later it signs exits with the share. The signing endpoint (src/enclave/shared/)
  consults the slashing database (src/eth2/slash\_protection.rs), writes it, and only then
  signs with the key file (src/io/key\_management.rs, src/crypto/bls\_keys.rs) the root
  computed in src/eth2/eth\_signing.rs.

  \<^bold>\<open>Conventions.\<close> A fallible function returns \<open>'a res\<close>: \<open>Ok\<close>, an error (\<open>Err\<close>, the
  \<open>anyhow\<close> errors of the source without their wording where it is only printed), or
  \<open>Panic\<close> for \<open>unwrap\<close>, \<open>expect\<close>, indexing, overflow in arithmetic with checks, and
  \<open>copy\_from\_slice\<close> of a wrong length. Code with effects maps a \<open>world\<close> to a result and a
  world: files and directories, a schedule of I/O faults (an operation may fail, and a write
  may be torn after a prefix), and the randomness still to be drawn. Integers keep their
  width as words. Third-party crates are the fields of records handed to the definitions:
  \<open>codec\<close> (hex, serde\_json text, hash functions), \<open>blsttc\<close>, \<open>secp\<close>,
  \<open>services\<close> (the agent and the registry contract), \<open>ethers\<close>, \<open>keystore\_crate\<close>,
  \<open>ssz\_serde\<close> and \<open>wire\<close> (the JSON forms of types of the crates), \<open>axum\<close>
  and \<open>reqwest\<close>; the facts of theirs that the code relies on are predicates over those records,
  and Demo\_Codec, Demo\_Crypto, Demo\_Net, Demo\_Cli and Demo\_Tests give concrete functions that satisfy all of them, to
  which every property with hypotheses is applied.

  \<^bold>\<open>Theories, in the order of the code.\<close>
  \<^item> Prelude (words, bytes, results, lists), Std\_World (std::path, std::fs and their faults),
    Codec (hex, JSON values and text, SSZ hashing), Serde (derived and custom serializers of
    src/eth2/eth\_types.rs), Http (what a handler answers).
  \<^item> Eth\_Types: src/eth2/eth\_types.rs. Eth\_Signing and Deposits: src/eth2/eth\_signing.rs.
    Slash\_Protection: src/eth2/slash\_protection.rs.
  \<^item> Key\_Management: src/io/key\_management.rs. Bls\_Keys and Eth\_Keys: src/crypto/.
    Attestation: src/io/cvm\_agent.rs, remote\_attestation.rs and session\_registry.rs.
  \<^item> Enclave\_Types: src/enclave/types.rs. Signer: src/enclave/shared/. Keygen:
    src/enclave/validator/, src/enclave/secure\_signer/ and src/client/keygen.rs. Guardian:
    src/enclave/guardian/.
  \<^item> Eth\_Json and Wire: the JSON forms that serde derives for the structs of src/eth2/eth\_types.rs,
    the tagged enum of signing messages, and the messages of src/enclave/types.rs; Eth\_Json\_Laws
    holds their round trips.
  \<^item> Startup: the settings, routes and start of src/bin/. Service: how a started server finds the
    handler of a request, reads its body and writes the answer. Client: src/client/, the calls of
    the three clients and their builder. Mock\_Clients: src/client/mock/. Client\_Traits:
    src/client/traits/, with the programs that can be written against a guardian's client.
  \<^item> Cli\_Routes: src/cli/routes.rs. Cli: the rest of src/cli, a program that runs on the world of
    its host beside that of the network.
  \<^item> Server: the validator enclave and the secure signer as one state machine whose steps are
    the requests, with the signatures released so far in a log. Concurrency: the signing
    handler as a thread cut at its file accesses. Schedules: any number of such threads, in any
    order of their turns.
  \<^item> Unit\_Tests, Unit\_Tests\_Data, Unit\_Tests\_Keys, Unit\_Tests\_Enclave, Unit\_Tests\_Keystore and
    Unit\_Tests\_Guardian: the test modules of src/eth2/slash\_protection.rs, src/eth2/eth\_types.rs,
    src/io/key\_management.rs, src/crypto/, src/client/keygen.rs, src/enclave/validator/mod.rs and
    src/enclave/guardian/mod.rs, as operations of the model.
  \<^item> Client\_Tests: src/client/tests/, the tests that drive the three servers through their
    clients, as operations on the state of the network.

  \<^bold>\<open>Specifications and interfaces.\<close> Signing\_Spec states the signing roots of the consensus
  specification independently of the code, per kind of message, and the code is shown to
  compute them. The locale \<open>protection\_gate\<close> of Slash\_Protection is the contract of a
  slashing guard towards the signer (what it accepts it covers, and what is covered is
  refused when it conflicts); it is interpreted on the blocks and the attestations of the
  code and, in Signer\_Safety, on the database as a whole. The locale \<open>key\_store\<close> of
  Key\_Management is the contract of a key directory (a written key is read back, a deleted
  one is gone, other names are untouched); it is interpreted on the BLS and the ETH
  directories, and \<open>key\_directory\<close> of Unit\_Tests\_Keys extends it to a working file system. The
  locale \<open>answer\_queue\<close> of Mock\_Clients is the contract of a queue of answers
  (they come in the order they were pushed in, the other queues are untouched), interpreted on the
  five queues of the guardian's double. \<open>describes\<close> of Custody is what a key generation payload promises to the
  guardians. The thread of Concurrency refines to the handler when it runs alone, and beside
  threads of other validators.

  \<^bold>\<open>Groups of lemmas.\<close> Signer\_Safety carries the invariant that ties the slashing files to
  the log of released signatures through every fault; Signer\_Progress and Ready\_To\_Sign show
  that in a working file system every admissible request is answered; Key\_Lifecycle and
  Key\_Listing do the same for keys; Custody carries payloads from the validator enclave to
  the guardians. Startup\_Laws says what a port and a version may look like, Network and
  Remote\_Calls that a call of a client over a network that delivers is the handler behind it,
  Signer\_Client the same of the secure signer's client, which does not look at the status,
  Cli\_Laws the same of the command line, Typed that what a deserializer accepts has the lengths of
  its Rust type, Client\_Tests\_Laws, Registration and Client\_Tests\_Pass that a client meets working servers and goes through
  a whole registration, Block\_Fees follows the base fee of a block through the deserializers, and Panics follows every
  handler down to the places where the source can panic. The properties stand in Properties\_Data (the slashing database, JSON
  forms), Properties\_Keys (signing roots, key files), Properties\_Signer (the endpoint, its
  state machine and overlapping requests), Properties\_Threads (requests served at the same
  time), Properties\_Types (well typed values), Properties\_Custody (across enclaves),
  Properties\_Network (the servers and clients over the network), Properties\_Cli (the command
  line), Properties\_Tests (the unit tests of the repository pass) and Properties\_Flows (the
  registration of a validator from end to end, the tests of clients, keystores and guardians, and
  what a test double can stand for).

  \<^bold>\<open>Bounds.\<close> No definition that models code uses fuel: all loops of the source run over
  lists and are structural recursions. Only the JSON parser of Demo\_Codec counts down the
  length of its input, which every step of the parser shortens. Sizes (48, 96 and 32 bytes, the limits of
  variable lists, u64 epochs and slots) are those of the source; SSZ limits are in Eth\_Types.

  \<^bold>\<open>Not modelled.\<close> src/cli is modelled as it is written, but the crate does not build it: no module
  or binary includes it, and the module \<open>api\<close> it imports is gone, so the types of a key import and
  the checks of attestation evidence are parameters there; so is the parsing of arguments by clap.
  The tests of the crate under tests/ are left out: they send recorded requests to the signing route,
  which the model answers in full, and compare with recorded signatures. The one test of
  src/enclave/test is commented out, and the one of src/cli/bls\_import.rs calls a function with
  an argument too few. The tests of the guardian start from a recorded payload; here they run on
  any payload of the validator enclave, since what the recorded texts decrypt to rests with the
  crates; the recorded texts are in Unit\_Tests\_Guardian. The
  contents of log messages and of error texts that are only printed are left out. Of a server,
  the failure to bind its socket, methods other than GET and POST and the size limit of a body are
  not modelled; of the JSON text, the escapes inside strings (a JSON value holds the string they
  stand for), and where several fields of one object are bad the first one is reported. The
  internals of the cryptographic crates, of axum and reqwest, of the registry contract and of the
  agent of the virtual machine are parameters, since their code is not in the repository.
\<close>

end
